(* ===== verification/Prelude.thy ===== *)
theory Prelude
  imports Main "HOL-Library.Char_ord" "HOL-Library.List_Lexorder" "HOL-Library.AList"
begin

text \<open>
  What every component shares: the Python exceptions as values, sequential computations over an
  explicit world that may raise, the string functions of the Python standard library the source
  calls, decimal integers as text, and the generic lemmas about them.

  Strings are \<^typ>\<open>string\<close>, lists of characters. The case functions treat the ASCII
  range, which is all that the validated wire fields can hold.
\<close>

named_theorems py_defs \<open>definitions of the Python string helpers\<close>
named_theorems proc_simps \<open>evaluation of sequential computations\<close>

section \<open>Exceptions\<close>

text \<open>
  One constructor per exception class the program raises or catches. The classes derived from
  \<open>ValueError\<close> are \<open>ValidationError\<close> (pydantic), \<open>PayChannelStoreError\<close>,
  \<open>PayChannelVerificationError\<close> and \<open>SubmissionRejectedError\<close>;
  \<open>SettlementPendingError\<close> is a \<open>RuntimeError\<close>. A \<open>BaseExn\<close> is not an
  \<open>Exception\<close> (\<open>asyncio.CancelledError\<close>), so no \<open>except Exception\<close> catches it.
  The store and verification errors carry their machine-readable code; a plain \<open>ValueError\<close>
  carries its message, the others the part the program reads back. \<open>FacilitatorFailure\<close> holds
  the exceptions of the resource server's facilitator client, with the problem document one of them
  carries; \<open>McpFailure\<close> those of the MCP package, two of which are \<open>ValueError\<close>s.
\<close>

record problem_details =
  pb_type :: string
  pb_title :: string
  pb_status :: int
  pb_detail :: string
  pb_challenge_id :: "string option"
  pb_payment_reference :: "string option"

datatype facilitator_failure =
    PaymentRefused string string int
  | TransportFailure string "string option"
  | PendingSettlement problem_details "string option"
  | ProtocolFailure string

datatype mcp_failure =
    OperationBinding string
  | PaymentMetadata string
  | CredentialMalformed string
  | VerificationFailed "string option" "string option"

datatype exn =
    ValueError string
  | TypeError string
  | ValidationError string
  | StoreError string
  | VerificationError string
  | SubmissionRejected string
  | SettlementPending string
  | FacilitatorFailure facilitator_failure
  | McpFailure mcp_failure
  | OtherError string
  | BaseExn string

fun is_exception :: "exn \<Rightarrow> bool" where
  "is_exception (BaseExn _) = False"
| "is_exception _ = True"

fun is_value_error :: "exn \<Rightarrow> bool" where
  "is_value_error (ValueError _) = True"
| "is_value_error (ValidationError _) = True"
| "is_value_error (StoreError _) = True"
| "is_value_error (VerificationError _) = True"
| "is_value_error (SubmissionRejected _) = True"
| "is_value_error (McpFailure (OperationBinding _)) = True"
| "is_value_error (McpFailure (PaymentMetadata _)) = True"
| "is_value_error _ = False"

fun is_value_or_type_error :: "exn \<Rightarrow> bool" where
  "is_value_or_type_error (TypeError _) = True"
| "is_value_or_type_error e = is_value_error e"

type_synonym 'a res = "exn + 'a"

definition bind_res :: "'a res \<Rightarrow> ('a \<Rightarrow> 'b res) \<Rightarrow> 'b res" where
  "bind_res m f = (case m of Inl e \<Rightarrow> Inl e | Inr x \<Rightarrow> f x)"

definition guard_res :: "bool \<Rightarrow> exn \<Rightarrow> unit res" where
  "guard_res ok e = (if ok then Inr () else Inl e)"

text \<open>\<open>except\<close> clauses of pure code: the handler sees the exception and may re-raise it.\<close>

definition catch_res :: "'a res \<Rightarrow> (exn \<Rightarrow> 'a res) \<Rightarrow> 'a res" where
  "catch_res m h = (case m of Inl e \<Rightarrow> h e | Inr x \<Rightarrow> Inr x)"

lemma bind_res_simps [simp]:
  "bind_res (Inl e) f = Inl e"
  "bind_res (Inr x) f = f x"
  by (simp_all add: bind_res_def)

lemma bind_res_Inr_iff: "bind_res m f = Inr y \<longleftrightarrow> (\<exists>x. m = Inr x \<and> f x = Inr y)"
  by (cases m) auto

lemma bind_res_Inl_iff:
  "bind_res m f = Inl e \<longleftrightarrow> m = Inl e \<or> (\<exists>x. m = Inr x \<and> f x = Inl e)"
  by (cases m) auto

lemma guard_res_simps [simp]:
  "guard_res True e = Inr ()"
  "guard_res False e = Inl e"
  by (simp_all add: guard_res_def)

lemma guard_res_Inr [simp]: "guard_res b e = Inr u \<longleftrightarrow> b"
  by (cases b) simp_all

lemma guard_res_Inl [simp]: "guard_res b e = Inl e' \<longleftrightarrow> \<not> b \<and> e' = e"
  by (cases b) auto

lemma bind_guard_Inr: "bind_res (guard_res b e) f = Inr y \<longleftrightarrow> b \<and> f () = Inr y"
  by (cases b) simp_all

lemma catch_res_simps [simp]:
  "catch_res (Inl e) h = h e"
  "catch_res (Inr x) h = Inr x"
  by (simp_all add: catch_res_def)

lemma catch_res_Inr_iff:
  "catch_res m h = Inr y \<longleftrightarrow> m = Inr y \<or> (\<exists>e. m = Inl e \<and> h e = Inr y)"
  by (cases m) auto

lemmas res_iffs = bind_res_Inr_iff bind_res_Inl_iff bind_guard_Inr catch_res_Inr_iff

section \<open>Sequential computations over a world\<close>

text \<open>
  An \<open>async\<close> method is a function from the world to its outcome and the world it leaves. The
  world survives an exception: what was written before the exception stays written.
\<close>

type_synonym ('w, 'a) proc = "'w \<Rightarrow> 'a res \<times> 'w"

definition ret :: "'a \<Rightarrow> ('w, 'a) proc" where
  "ret x = (\<lambda>w. (Inr x, w))"

definition fail :: "exn \<Rightarrow> ('w, 'a) proc" where
  "fail e = (\<lambda>w. (Inl e, w))"

definition lift :: "'a res \<Rightarrow> ('w, 'a) proc" where
  "lift r = (\<lambda>w. (r, w))"

definition andthen :: "('w, 'a) proc \<Rightarrow> ('a \<Rightarrow> ('w, 'b) proc) \<Rightarrow> ('w, 'b) proc" where
  "andthen m f = (\<lambda>w. case m w of (Inl e, w') \<Rightarrow> (Inl e, w') | (Inr x, w') \<Rightarrow> f x w')"

definition except :: "('w, 'a) proc \<Rightarrow> (exn \<Rightarrow> ('w, 'a) proc) \<Rightarrow> ('w, 'a) proc" where
  "except m h = (\<lambda>w. case m w of (Inl e, w') \<Rightarrow> h e w' | (Inr x, w') \<Rightarrow> (Inr x, w'))"

definition check :: "bool \<Rightarrow> exn \<Rightarrow> ('w, unit) proc" where
  "check ok e = (if ok then ret () else fail e)"

text \<open>A computation that depends on the world it starts in, such as a clock reading.\<close>

definition reading :: "('w \<Rightarrow> ('w, 'a) proc) \<Rightarrow> ('w, 'a) proc" where
  "reading f = (\<lambda>w. f w w)"

lemma reading_eval [proc_simps]: "reading f w = f w w"
  by (simp add: reading_def)

lemma proc_evals [proc_simps]:
  "ret x w = (Inr x, w)"
  "fail e w = (Inl e, w)"
  "lift r w = (r, w)"
  "check b e w = (guard_res b e, w)"
  by (simp_all add: ret_def fail_def lift_def check_def guard_res_def)

lemma andthen_eval [proc_simps]:
  "andthen m f w = (case m w of (r, w') \<Rightarrow> (case r of Inl e \<Rightarrow> (Inl e, w') | Inr x \<Rightarrow> f x w'))"
  by (auto simp: andthen_def split: prod.splits sum.splits)

lemma except_eval [proc_simps]:
  "except m h w = (case m w of (r, w') \<Rightarrow> (case r of Inl e \<Rightarrow> h e w' | Inr x \<Rightarrow> (Inr x, w')))"
  by (auto simp: except_def split: prod.splits sum.splits)

lemma andthen_Inr_iff:
  "andthen m f w = (Inr y, w'') \<longleftrightarrow> (\<exists>x w'. m w = (Inr x, w') \<and> f x w' = (Inr y, w''))"
  by (auto simp: andthen_def split: prod.splits sum.splits)

lemma andthen_Inl_iff:
  "andthen m f w = (Inl e, w'') \<longleftrightarrow>
     m w = (Inl e, w'') \<or> (\<exists>x w'. m w = (Inr x, w') \<and> f x w' = (Inl e, w''))"
  by (auto simp: andthen_def split: prod.splits sum.splits)

lemma except_Inr_iff:
  "except m h w = (Inr y, w'') \<longleftrightarrow>
     m w = (Inr y, w'') \<or> (\<exists>e w'. m w = (Inl e, w') \<and> h e w' = (Inr y, w''))"
  by (auto simp: except_def split: prod.splits sum.splits)

lemma except_Inl_iff:
  "except m h w = (Inl e', w'') \<longleftrightarrow> (\<exists>e w'. m w = (Inl e, w') \<and> h e w' = (Inl e', w''))"
  by (auto simp: except_def split: prod.splits sum.splits)

lemma check_Inr_iff [simp]: "check b e w = (Inr u, w') \<longleftrightarrow> b \<and> w' = w"
  by (auto simp: check_def ret_def fail_def)

lemma check_Inl_iff [simp]: "check b e w = (Inl e', w') \<longleftrightarrow> \<not> b \<and> e' = e \<and> w' = w"
  by (auto simp: check_def ret_def fail_def)

lemma ret_iffs [simp]:
  "ret x w = (Inr y, w') \<longleftrightarrow> y = x \<and> w' = w"
  "ret x w \<noteq> (Inl e, w')"
  by (auto simp: ret_def)

lemma fail_iffs [simp]:
  "fail e w = (Inl e', w') \<longleftrightarrow> e' = e \<and> w' = w"
  "fail e w \<noteq> (Inr y, w')"
  by (auto simp: fail_def)

lemma lift_iffs [simp]: "lift r w = (r', w') \<longleftrightarrow> r' = r \<and> w' = w"
  by (auto simp: lift_def)

lemmas proc_iffs = andthen_Inr_iff andthen_Inl_iff except_Inr_iff except_Inl_iff

section \<open>Characters and strings\<close>

definition ch :: "char \<Rightarrow> nat" where
  "ch c = of_char c"

definition is_digit :: "char \<Rightarrow> bool" where
  "is_digit c \<longleftrightarrow> 48 \<le> ch c \<and> ch c \<le> 57"

definition is_lower :: "char \<Rightarrow> bool" where
  "is_lower c \<longleftrightarrow> 97 \<le> ch c \<and> ch c \<le> 122"

definition is_upper :: "char \<Rightarrow> bool" where
  "is_upper c \<longleftrightarrow> 65 \<le> ch c \<and> ch c \<le> 90"

definition is_hex :: "char \<Rightarrow> bool" where
  "is_hex c \<longleftrightarrow> is_digit c \<or> (65 \<le> ch c \<and> ch c \<le> 70) \<or> (97 \<le> ch c \<and> ch c \<le> 102)"

definition to_upper :: "char \<Rightarrow> char" where
  "to_upper c = (if is_lower c then char_of (ch c - 32) else c)"

definition to_lower :: "char \<Rightarrow> char" where
  "to_lower c = (if is_upper c then char_of (ch c + 32) else c)"

text \<open>\<open>str.upper\<close> and \<open>str.lower\<close>.\<close>

definition py_upper :: "string \<Rightarrow> string" where
  "py_upper s = map to_upper s"

definition py_lower :: "string \<Rightarrow> string" where
  "py_lower s = map to_lower s"

text \<open>
  \<open>str.strip()\<close> removes Python white space; pydantic's \<open>str_strip_whitespace\<close> removes
  Unicode \<open>White_Space\<close>, which leaves out the four separators 28 to 31.
\<close>

definition py_space :: "char \<Rightarrow> bool" where
  "py_space c \<longleftrightarrow> ch c = 32 \<or> (9 \<le> ch c \<and> ch c \<le> 13) \<or> (28 \<le> ch c \<and> ch c \<le> 31)"

definition white_space :: "char \<Rightarrow> bool" where
  "white_space c \<longleftrightarrow> ch c = 32 \<or> (9 \<le> ch c \<and> ch c \<le> 13)"

definition strip_by :: "(char \<Rightarrow> bool) \<Rightarrow> string \<Rightarrow> string" where
  "strip_by p s = rev (dropWhile p (rev (dropWhile p s)))"

definition py_strip :: "string \<Rightarrow> string" where
  "py_strip s = strip_by py_space s"

definition pydantic_strip :: "string \<Rightarrow> string" where
  "pydantic_strip s = strip_by white_space s"

text \<open>\<open>str.isascii() and str.isdigit()\<close>: a non-empty run of ASCII digits.\<close>

definition is_ascii_digits :: "string \<Rightarrow> bool" where
  "is_ascii_digits s \<longleftrightarrow> s \<noteq> [] \<and> list_all is_digit s"

text \<open>\<open>str.startswith\<close> and \<open>str.split(sep)\<close> for a one-character separator.\<close>

fun starts_with :: "string \<Rightarrow> string \<Rightarrow> bool" where
  "starts_with [] s = True"
| "starts_with (p # ps) [] = False"
| "starts_with (p # ps) (c # cs) \<longleftrightarrow> p = c \<and> starts_with ps cs"

fun py_split :: "char \<Rightarrow> string \<Rightarrow> string list" where
  "py_split sep [] = [[]]"
| "py_split sep (c # cs) =
     (if c = sep then [] # py_split sep cs
      else (case py_split sep cs of [] \<Rightarrow> [[c]] | p # ps \<Rightarrow> (c # p) # ps))"

text \<open>\<open>sep.join(parts)\<close>.\<close>

fun py_join :: "string \<Rightarrow> string list \<Rightarrow> string" where
  "py_join sep [] = []"
| "py_join sep [p] = p"
| "py_join sep (p # q # ps) = p @ sep @ py_join sep (q # ps)"

lemmas [py_defs] = py_upper_def py_lower_def py_strip_def pydantic_strip_def strip_by_def

lemma starts_with_append: "starts_with p s \<longleftrightarrow> (\<exists>t. s = p @ t)"
  by (induction p s rule: starts_with.induct) auto

lemma py_split_not_Nil [simp]: "py_split sep s \<noteq> []"
  by (induction s) (auto split: list.splits)

lemma py_split_no_sep: "sep \<notin> set s \<Longrightarrow> py_split sep s = [s]"
  by (induction s) auto

lemma py_join_split: "py_join [sep] (py_split sep s) = s"
proof (induction s)
  case (Cons c s)
  obtain p ps where "py_split sep s = p # ps" by (cases "py_split sep s") simp_all
  with Cons show ?case by (cases ps) auto
qed simp

lemma py_split_append:
  "sep \<notin> set a \<Longrightarrow> py_split sep (a @ sep # b) = a # py_split sep b"
  by (induction a) (auto split: list.splits)

lemma py_split_pieces: "p \<in> set (py_split sep s) \<Longrightarrow> sep \<notin> set p"
  by (induction s arbitrary: p) (auto split: list.splits if_splits)

lemma py_split_join:
  "ps \<noteq> [] \<Longrightarrow> \<forall>p \<in> set ps. sep \<notin> set p \<Longrightarrow> py_split sep (py_join [sep] ps) = ps"
proof (induction ps rule: induct_list012)
  case (2 p)
  then show ?case by (simp add: py_split_no_sep)
next
  case (3 p q ps)
  then show ?case by (simp add: py_split_append)
qed simp

text \<open>Evaluation on the bits of a character instead of its number.\<close>

lemma digit_code [code]:
  "is_digit (Char a b c d e f g h) \<longleftrightarrow> \<not> h \<and> \<not> g \<and> f \<and> e \<and> \<not> (d \<and> (b \<or> c))"
  by (cases a; cases b; cases c; cases d; cases e; cases f; cases g; cases h; simp add: is_digit_def ch_def)

lemma upper_code [code]:
  "is_upper (Char a b c d e f g h) \<longleftrightarrow>
     \<not> h \<and> g \<and> \<not> f \<and> (a \<or> b \<or> c \<or> d \<or> e) \<and> \<not> (e \<and> d \<and> (c \<or> b \<and> a))"
  by (cases a; cases b; cases c; cases d; cases e; cases f; cases g; cases h; simp add: is_upper_def ch_def)

lemma lower_code [code]:
  "is_lower (Char a b c d e f g h) \<longleftrightarrow>
     \<not> h \<and> g \<and> f \<and> (a \<or> b \<or> c \<or> d \<or> e) \<and> \<not> (e \<and> d \<and> (c \<or> b \<and> a))"
  by (cases a; cases b; cases c; cases d; cases e; cases f; cases g; cases h; simp add: is_lower_def ch_def)

lemma hex_code [code]:
  "is_hex (Char a b c d e f g h) \<longleftrightarrow> is_digit (Char a b c d e f g h) \<or>
     \<not> h \<and> g \<and> \<not> e \<and> \<not> d \<and> (a \<or> b \<or> c) \<and> \<not> (a \<and> b \<and> c)"
  by (cases a; cases b; cases c; cases d; cases e; cases f; cases g; cases h; simp add: is_hex_def is_digit_def ch_def)

lemma to_upper_code [code]:
  "to_upper (Char a b c d e f g h) =
     (if is_lower (Char a b c d e f g h) then Char a b c d e False g h else Char a b c d e f g h)"
  by (cases a; cases b; cases c; cases d; cases e; cases f; cases g; cases h; simp add: to_upper_def is_lower_def ch_def char_of_eq_iff)

lemma to_lower_code [code]:
  "to_lower (Char a b c d e f g h) =
     (if is_upper (Char a b c d e f g h) then Char a b c d e True g h else Char a b c d e f g h)"
  by (cases a; cases b; cases c; cases d; cases e; cases f; cases g; cases h; simp add: to_lower_def is_upper_def ch_def char_of_eq_iff)

lemma ch_char_of [simp]: "n < 256 \<Longrightarrow> ch (char_of n) = n"
  by (simp add: ch_def)

lemma ch_inject: "ch a = ch b \<longleftrightarrow> a = b"
  by (simp add: ch_def)

lemma to_upper_idem [simp]: "to_upper (to_upper c) = to_upper c"
  by (auto simp: to_upper_def is_lower_def)

lemma py_upper_idem [simp]: "py_upper (py_upper s) = py_upper s"
  by (simp add: py_upper_def)

lemma length_py_upper [simp]: "length (py_upper s) = length s"
  by (simp add: py_upper_def)

lemma length_py_lower [simp]: "length (py_lower s) = length s"
  by (simp add: py_lower_def)

lemma starts_with_length: "starts_with p s \<Longrightarrow> length p \<le> length s"
  by (auto simp: starts_with_append)

lemma py_upper_eq_Nil [simp]: "py_upper s = [] \<longleftrightarrow> s = []"
  by (simp add: py_upper_def)

lemma py_upper_Nil [simp]: "py_upper [] = []"
  by (simp add: py_upper_def)

lemma is_hex_to_upper [simp]: "is_hex c \<Longrightarrow> is_hex (to_upper c)"
  by (auto simp: is_hex_def to_upper_def is_lower_def is_digit_def)

lemma list_all_hex_upper [simp]: "list_all is_hex s \<Longrightarrow> list_all is_hex (py_upper s)"
  by (induction s) (auto simp: py_upper_def)

lemma to_upper_digit [simp]: "is_digit c \<Longrightarrow> to_upper c = c"
  by (simp add: to_upper_def is_lower_def is_digit_def)

lemma dropWhile_hd: "s = [] \<or> \<not> p (hd s) \<Longrightarrow> dropWhile p s = s"
  by (cases s) auto

lemma strip_by_noop: "s = [] \<or> (\<not> p (hd s) \<and> \<not> p (last s)) \<Longrightarrow> strip_by p s = s"
  by (auto simp: strip_by_def dropWhile_hd hd_rev)

lemma strip_by_none: "list_all (\<lambda>c. \<not> p c) s \<Longrightarrow> strip_by p s = s"
  by (rule strip_by_noop) (auto simp: list_all_iff)

lemma dropWhile_idem_hd: "dropWhile p s = [] \<or> \<not> p (hd (dropWhile p s))"
  by (induction s) auto

lemma strip_by_ends:
  "strip_by p s = [] \<or> (\<not> p (hd (strip_by p s)) \<and> \<not> p (last (strip_by p s)))"
proof -
  let ?d = "dropWhile p s"
  let ?r = "dropWhile p (rev ?d)"
  obtain pre where pre: "rev ?d = pre @ ?r"
    by (metis takeWhile_dropWhile_id)
  then have d: "?d = rev ?r @ rev pre"
    by (metis rev_append rev_rev_ident)
  show ?thesis
  proof (cases "?r = []")
    case True
    then show ?thesis by (simp add: strip_by_def)
  next
    case False
    then have "\<not> p (hd ?r)" using dropWhile_idem_hd [of p "rev ?d"] by blast
    moreover have "\<not> p (hd (rev ?r))"
    proof -
      have "?d \<noteq> []" using False by force
      then have "\<not> p (hd ?d)" using dropWhile_idem_hd [of p s] by blast
      moreover have "hd ?d = hd (rev ?r)"
        using False by (subst d) simp
      ultimately show ?thesis by simp
    qed
    ultimately show ?thesis using False
      by (simp add: strip_by_def last_rev)
  qed
qed

lemma strip_by_idem [simp]: "strip_by p (strip_by p s) = strip_by p s"
  using strip_by_ends by (rule strip_by_noop)

lemma pydantic_strip_idem [simp]: "pydantic_strip (pydantic_strip s) = pydantic_strip s"
  by (simp add: pydantic_strip_def)

lemma is_hex_not_space [simp]: "is_hex c \<Longrightarrow> \<not> white_space c" "is_hex c \<Longrightarrow> \<not> py_space c"
  by (auto simp: is_hex_def white_space_def py_space_def is_digit_def)

lemma is_digit_is_hex [simp]: "is_digit c \<Longrightarrow> is_hex c"
  by (simp add: is_hex_def)

lemma pydantic_strip_hex [simp]: "list_all is_hex s \<Longrightarrow> pydantic_strip s = s"
  by (simp add: pydantic_strip_def strip_by_none list_all_iff)

lemma pydantic_strip_digits [simp]: "list_all is_digit s \<Longrightarrow> pydantic_strip s = s"
  by (rule pydantic_strip_hex) (auto simp: list_all_iff)

section \<open>Decimal integers as text\<close>

text \<open>\<open>int(s)\<close> for a string of ASCII digits, and \<open>str(n)\<close> for a non-negative integer.\<close>

definition digits_nat :: "string \<Rightarrow> nat" where
  "digits_nat s = foldl (\<lambda>n c. 10 * n + (ch c - 48)) 0 s"

definition py_int :: "string \<Rightarrow> int" where
  "py_int s = int (digits_nat s)"

definition digit_char :: "nat \<Rightarrow> char" where
  "digit_char d = char_of (48 + d)"

fun show_nat :: "nat \<Rightarrow> string" where
  "show_nat n = (if n < 10 then [digit_char n] else show_nat (n div 10) @ [digit_char (n mod 10)])"

declare show_nat.simps [simp del]

text \<open>\<open>str(i)\<close> for any integer.\<close>

definition py_str_int :: "int \<Rightarrow> string" where
  "py_str_int i = (if i < 0 then CHR ''-'' # show_nat (nat (- i)) else show_nat (nat i))"

lemma digits_nat_snoc: "digits_nat (s @ [c]) = 10 * digits_nat s + (ch c - 48)"
  by (simp add: digits_nat_def)

lemma digits_nat_Nil [simp]: "digits_nat [] = 0"
  by (simp add: digits_nat_def)

lemma ch_digit_char [simp]: "d < 10 \<Longrightarrow> ch (digit_char d) = 48 + d"
  by (simp add: digit_char_def)

lemma is_digit_digit_char [simp]: "d < 10 \<Longrightarrow> is_digit (digit_char d)"
  by (simp add: is_digit_def)

lemma show_nat_digits [simp]: "list_all is_digit (show_nat n)"
proof (induction n rule: show_nat.induct)
  case (1 n)
  then show ?case
    by (cases "n < 10") (simp_all add: show_nat.simps [of n])
qed

lemma show_nat_not_Nil [simp]: "show_nat n \<noteq> []"
  by (subst show_nat.simps) simp

lemma digits_nat_show_nat [simp]: "digits_nat (show_nat n) = n"
proof (induction n rule: show_nat.induct)
  case (1 n)
  then show ?case
    by (cases "n < 10") (simp_all add: show_nat.simps [of n] digits_nat_snoc digits_nat_def)
qed

lemma py_int_nonneg [simp]: "0 \<le> py_int s"
  by (simp add: py_int_def)

lemma py_int_show_nat [simp]: "py_int (show_nat n) = int n"
  by (simp add: py_int_def)

lemma py_int_zero_text [simp]: "py_int ''0'' = 0"
  by (simp add: py_int_def digits_nat_def ch_def)

lemma digits_nat_bound: "list_all is_digit s \<Longrightarrow> digits_nat s < 10 ^ length s"
proof (induction s rule: rev_induct)
  case Nil
  then show ?case by simp
next
  case (snoc c s)
  then have "digits_nat s < 10 ^ length s" and "ch c - 48 \<le> 9"
    by (auto simp: is_digit_def)
  then show ?case by (simp add: digits_nat_snoc)
qed

lemma length_show_nat: "n < 10 ^ k \<Longrightarrow> 0 < k \<Longrightarrow> length (show_nat n) \<le> k"
proof (induction n arbitrary: k rule: show_nat.induct)
  case (1 n)
  show ?case
  proof (cases "n < 10")
    case True
    then show ?thesis using "1.prems" by (simp add: show_nat.simps [of n])
  next
    case False
    with "1.prems" obtain j where k: "k = Suc j" and j: "0 < j"
      by (cases k) (auto, cases "k - 1", auto)
    with "1.prems" have "n div 10 < 10 ^ j" by (simp add: less_mult_imp_div_less mult.commute)
    then have "length (show_nat (n div 10)) \<le> j" using "1.IH" False j by blast
    with False k show ?thesis by (simp add: show_nat.simps [of n])
  qed
qed

end
