(* ===== verification/PyTime.thy ===== *)
theory PyTime
  imports Prelude Complex_Main
begin

text \<open>
  Time as Python computes it. A \<open>datetime\<close> is a count of microseconds since the epoch,
  either timezone-aware or naive; differences are exact integers, but \<open>total_seconds()\<close>,
  \<open>timestamp()\<close> and the products and quotients taken from them are IEEE doubles. A double
  operation is the exact rational result rounded to a 53-bit significand, ties to even
  (\<open>fl\<close>); exponents are unbounded, which is exact for the magnitudes of calendar time.
\<close>

section \<open>Rounding to a double\<close>

text \<open>The number of binary digits of a positive integer.\<close>

function bit_length :: "int \<Rightarrow> int" where
  "bit_length n = (if n \<le> 0 then 0 else 1 + bit_length (n div 2))"
  by pat_completeness auto
termination
  by (relation "measure nat") auto

declare bit_length.simps [simp del]

definition ilog2 :: "rat \<Rightarrow> int" where
  "ilog2 x = (case quotient_of x of (p, q) \<Rightarrow>
     let k = bit_length p - bit_length q
     in if 2 powi k \<le> x then k else k - 1)"

definition round_even :: "rat \<Rightarrow> int" where
  "round_even x = (let f = \<lfloor>x\<rfloor>; d = x - of_int f in
     if d < 1 / 2 then f else if d > 1 / 2 then f + 1 else if even f then f else f + 1)"

definition fl :: "rat \<Rightarrow> rat" where
  "fl x = (if x = 0 then 0
     else let e = ilog2 \<bar>x\<bar> - 52 in of_int (round_even (x / 2 powi e)) * 2 powi e)"

text \<open>\<open>int(x)\<close> of a float truncates towards zero; \<open>math.ceil\<close> is \<open>\<lceil>x\<rceil>\<close>.\<close>

definition py_trunc :: "rat \<Rightarrow> int" where
  "py_trunc x = (if 0 \<le> x then \<lfloor>x\<rfloor> else \<lceil>x\<rceil>)"

lemma round_even_error: "\<bar>of_int (round_even x) - x\<bar> \<le> 1 / 2"
proof -
  obtain f where f: "f = \<lfloor>x\<rfloor>" by blast
  have "of_int f \<le> x" and "x < of_int f + 1" unfolding f by linarith+
  then show ?thesis
    unfolding round_even_def Let_def f [symmetric] abs_le_iff by (auto simp: not_less)
qed

lemma round_even_of_int [simp]: "round_even (of_int i) = i"
  by (simp add: round_even_def)

lemma bit_length_nonneg [simp]: "0 \<le> bit_length n"
proof (induction n rule: bit_length.induct)
  case (1 n)
  then show ?case by (subst bit_length.simps) auto
qed

lemma bit_length_bounds:
  "0 < n \<Longrightarrow> 2 powi (bit_length n - 1) \<le> (of_int n :: rat) \<and> of_int n < (2 :: rat) powi bit_length n"
proof (induction n rule: bit_length.induct)
  case (1 n)
  show ?case
  proof (cases "n = 1")
    case True
    have "bit_length 1 = 1" by (simp add: bit_length.simps [of 1] bit_length.simps [of 0])
    with True show ?thesis by simp
  next
    case False
    define m where "m = n div 2"
    have m: "0 < m" and n: "2 * m \<le> n" "n < 2 * m + 2"
      using "1.prems" False by (auto simp: m_def)
    have IH: "2 powi (bit_length m - 1) \<le> (of_int m :: rat)" "of_int m < (2 :: rat) powi bit_length m"
      using "1.IH" "1.prems" m by (auto simp: m_def)
    have b: "bit_length n = 1 + bit_length m"
      using "1.prems" by (simp add: bit_length.simps [of n] m_def)
    have "bit_length m \<ge> 1"
      using m by (subst bit_length.simps) (simp add: bit_length_nonneg)
    then obtain k where k: "bit_length m = int (Suc k)"
      by (metis nonneg_int_cases Suc_pred int_one_le_iff_zero_less of_nat_0_less_iff less_le zle_int)
    have "m < 2 ^ Suc k" using IH(2) unfolding k
      by (metis of_int_less_iff of_int_numeral of_int_power power_int_of_nat)
    then have "n < 2 * 2 ^ Suc k" using n by linarith
    then have up: "(of_int n :: rat) < 2 powi bit_length n"
      unfolding b k
      by (metis of_int_less_iff of_int_numeral of_int_power power_Suc power_int_of_nat of_nat_Suc add.commute)
    have "(2 :: rat) powi (bit_length n - 1) = 2 * 2 powi (bit_length m - 1)"
      unfolding b k by (simp add: power_int_add)
    also have "\<dots> \<le> 2 * of_int m" using IH(1) by simp
    also have "\<dots> \<le> of_int n" using n(1) by (metis of_int_le_iff of_int_mult of_int_numeral)
    finally show ?thesis using up by blast
  qed
qed

lemma ilog2_bounds:
  assumes "0 < x"
  shows "2 powi ilog2 x \<le> x" and "x < 2 powi (ilog2 x + 1)"
proof -
  obtain p q where pq: "quotient_of x = (p, q)" by force
  then have q: "0 < q" and x: "x = of_int p / of_int q"
    by (auto simp: quotient_of_denom_pos quotient_of_div)
  with assms have p: "0 < p" by (simp add: zero_less_divide_iff)
  define a b where "a = bit_length p" and "b = bit_length q"
  have P: "2 powi (a - 1) \<le> (of_int p :: rat)" "(of_int p :: rat) < 2 powi a"
    and Q: "2 powi (b - 1) \<le> (of_int q :: rat)" "(of_int q :: rat) < 2 powi b"
    using bit_length_bounds [OF p] bit_length_bounds [OF q] by (simp_all add: a_def b_def)
  have "2 powi (a - 1) / 2 powi b \<le> x"
    unfolding x using P Q q p by (intro frac_le) auto
  then have lo: "2 powi (a - b - 1) \<le> x"
    by (simp add: power_int_diff power_int_add field_simps)
  have "x < 2 powi a / 2 powi (b - 1)"
    unfolding x using P Q q p by (intro frac_less) auto
  then have hi: "x < 2 powi (a - b + 1)"
    by (simp add: power_int_diff power_int_add field_simps)
  have il: "ilog2 x = (if 2 powi (a - b) \<le> x then a - b else a - b - 1)"
    by (simp add: ilog2_def pq Let_def a_def b_def)
  from lo hi show "2 powi ilog2 x \<le> x" and "x < 2 powi (ilog2 x + 1)"
    unfolding il by (auto split: if_splits)
qed

text \<open>The relative error of one rounding is at most half a unit in the 53rd place.\<close>

lemma fl_error: "\<bar>fl x - x\<bar> \<le> \<bar>x\<bar> / 2 ^ 53"
proof (cases "x = 0")
  case True
  then show ?thesis by (simp add: fl_def)
next
  case False
  define e where "e = ilog2 \<bar>x\<bar> - 52"
  have pos: "(0 :: rat) < 2 powi e" by simp
  have lb: "2 powi (e + 52) \<le> \<bar>x\<bar>"
    using ilog2_bounds(1) [of "\<bar>x\<bar>"] False by (simp add: e_def)
  have "fl x - x = (of_int (round_even (x / 2 powi e)) - x / 2 powi e) * 2 powi e"
    using False pos by (simp add: fl_def Let_def e_def algebra_simps)
  then have "\<bar>fl x - x\<bar> = \<bar>of_int (round_even (x / 2 powi e)) - x / 2 powi e\<bar> * 2 powi e"
    using pos by (simp add: abs_mult)
  also have "\<dots> \<le> 1 / 2 * 2 powi e"
    using round_even_error pos by (intro mult_right_mono) auto
  also have "\<dots> = 2 powi (e + 52) / 2 ^ 53"
    by (simp add: power_int_add)
  also have "\<dots> \<le> \<bar>x\<bar> / 2 ^ 53"
    using lb by (intro divide_right_mono) auto
  finally show ?thesis .
qed

lemma fl_0 [simp]: "fl 0 = 0"
  by (simp add: fl_def)

lemma fl_pos: "0 < x \<Longrightarrow> 0 < fl x"
  using fl_error [of x] unfolding abs_le_iff by simp

lemma fl_neg: "x < 0 \<Longrightarrow> fl x < 0"
  using fl_error [of x] unfolding abs_le_iff by simp

lemma fl_pos_iff [simp]: "0 < fl x \<longleftrightarrow> 0 < x"
  using fl_pos fl_neg by (metis fl_0 less_asym linorder_neqE_linordered_idom order_less_irrefl)

lemma fl_le_0_iff [simp]: "fl x \<le> 0 \<longleftrightarrow> x \<le> 0"
  using fl_pos_iff [of x] by linarith

section \<open>Date and time\<close>

datatype datetime = Aware int | Naive int

fun is_aware :: "datetime \<Rightarrow> bool" where
  "is_aware (Aware _) = True"
| "is_aware (Naive _) = False"

fun micros :: "datetime \<Rightarrow> int" where
  "micros (Aware t) = t"
| "micros (Naive t) = t"

text \<open>Subtraction and comparison raise \<open>TypeError\<close> when one side is naive and the other aware.\<close>

definition dt_sub :: "datetime \<Rightarrow> datetime \<Rightarrow> int res" where
  "dt_sub a b = (if is_aware a = is_aware b then Inr (micros a - micros b)
     else Inl (TypeError ''can't subtract offset-naive and offset-aware datetimes''))"

definition dt_le :: "datetime \<Rightarrow> datetime \<Rightarrow> bool res" where
  "dt_le a b = (if is_aware a = is_aware b then Inr (micros a \<le> micros b)
     else Inl (TypeError ''can't compare offset-naive and offset-aware datetimes''))"

definition total_seconds :: "int \<Rightarrow> rat" where
  "total_seconds us = fl (of_int us / 1000000)"

text \<open>\<open>datetime.timestamp()\<close>; a naive value is read in a UTC local zone.\<close>

definition timestamp_of :: "datetime \<Rightarrow> rat" where
  "timestamp_of t = total_seconds (micros t)"

definition millis_of :: "datetime \<Rightarrow> int" where
  "millis_of t = py_trunc (fl (timestamp_of t * 1000))"

lemma total_seconds_pos_iff [simp]: "0 < total_seconds us \<longleftrightarrow> 0 < us"
  by (simp add: total_seconds_def)

lemma total_seconds_le_0_iff [simp]: "total_seconds us \<le> 0 \<longleftrightarrow> us \<le> 0"
  by (simp add: total_seconds_def divide_le_0_iff)

text \<open>
  Calendar spans are below 10000 years, about 3.2e11 seconds, so one rounding moves
  \<open>total_seconds\<close> by less than a tenth of a millisecond.
\<close>

lemma total_seconds_close:
  assumes "\<bar>us\<bar> \<le> 400000000000 * 1000000"
  shows "\<bar>total_seconds us - of_int us / 1000000\<bar> < 1 / 10000"
proof -
  let ?x = "of_int us / 1000000 :: rat"
  have "\<bar>of_int us\<bar> \<le> (400000000000 * 1000000 :: rat)"
    using assms by linarith
  then have "\<bar>?x\<bar> \<le> 400000000000" by (simp add: abs_divide)
  moreover have "\<bar>total_seconds us - ?x\<bar> \<le> \<bar>?x\<bar> / 9007199254740992"
    using fl_error [of ?x] by (simp add: total_seconds_def)
  ultimately show ?thesis by linarith
qed

end
