(* ===== verification/Wire.thy ===== *)
theory Wire
  imports PyTime
begin

text \<open>
  JSON values as Python sees them, and the pieces of pydantic validation the wire models of
  \<open>xrpl_mpp_core\<close> are built from: field lookup by alias or name, forbidden extra keys, strict
  strings with stripped white space, length and pattern constraints, strict integers and literals.
  A failed validation is a \<open>ValidationError\<close>; the model keeps the field at which it failed.
\<close>

section \<open>JSON values\<close>

datatype json =
    JNull
  | JBool bool
  | JInt int
  | JFloat rat
  | JStr string
  | JArr "json list"
  | JObj "(string \<times> json) list"

text \<open>
  A dictionary keeps one entry per key, at the place of its first occurrence, with the last value
  given. \<open>json.loads\<close> builds one from every object of the text; \<open>object_pairs_hook\<close> sees
  the pairs as written.
\<close>

definition dict_of :: "(string \<times> 'a) list \<Rightarrow> (string \<times> 'a) list" where
  "dict_of kvs = foldl (\<lambda>d kv. AList.update (fst kv) (snd kv) d) [] kvs"

primrec collapse :: "json \<Rightarrow> json" where
  "collapse JNull = JNull"
| "collapse (JBool b) = JBool b"
| "collapse (JInt i) = JInt i"
| "collapse (JFloat x) = JFloat x"
| "collapse (JStr s) = JStr s"
| "collapse (JArr js) = JArr (map collapse js)"
| "collapse (JObj kvs) = JObj (dict_of (map (map_prod id collapse) kvs))"

primrec no_duplicate_keys :: "json \<Rightarrow> bool" where
  "no_duplicate_keys JNull = True"
| "no_duplicate_keys (JBool b) = True"
| "no_duplicate_keys (JInt i) = True"
| "no_duplicate_keys (JFloat x) = True"
| "no_duplicate_keys (JStr s) = True"
| "no_duplicate_keys (JArr js) = list_all id (map no_duplicate_keys js)"
| "no_duplicate_keys (JObj kvs) \<longleftrightarrow>
     distinct (map fst kvs) \<and> list_all snd (map (map_prod id no_duplicate_keys) kvs)"

text \<open>\<open>d.get(key)\<close>, where a missing key and a stored \<open>None\<close> read the same.\<close>

definition dget :: "(string \<times> json) list \<Rightarrow> string \<Rightarrow> json" where
  "dget kvs k = (case map_of kvs k of None \<Rightarrow> JNull | Some v \<Rightarrow> v)"

text \<open>\<open>d.pop(key, None)\<close>.\<close>

definition dpop :: "string \<Rightarrow> (string \<times> json) list \<Rightarrow> (string \<times> json) list" where
  "dpop k kvs = filter (\<lambda>p. fst p \<noteq> k) kvs"

text \<open>Truth of a Python value.\<close>

fun truthy :: "json \<Rightarrow> bool" where
  "truthy JNull = False"
| "truthy (JBool b) = b"
| "truthy (JInt i) = (i \<noteq> 0)"
| "truthy (JFloat x) = (x \<noteq> 0)"
| "truthy (JStr s) = (s \<noteq> [])"
| "truthy (JArr js) = (js \<noteq> [])"
| "truthy (JObj kvs) = (kvs \<noteq> [])"

section \<open>Fields of a pydantic model\<close>

text \<open>
  With \<open>populate_by_name\<close> a field is read from its alias, or from its own name when the alias
  is absent. With \<open>extra="forbid"\<close> every other key is an error.
\<close>

definition used_key :: "string \<times> string \<Rightarrow> (string \<times> json) list \<Rightarrow> string" where
  "used_key f kvs = (if fst f \<in> fst ` set kvs then fst f else snd f)"

definition no_extra :: "(string \<times> string) list \<Rightarrow> (string \<times> json) list \<Rightarrow> bool" where
  "no_extra known kvs =
     list_all (\<lambda>k. k \<in> set (map (\<lambda>f. used_key f kvs) known)) (map fst kvs)"

definition required :: "string \<times> string \<Rightarrow> (string \<times> json) list \<Rightarrow> json res" where
  "required f kvs = (case map_of kvs (used_key f kvs) of
     None \<Rightarrow> Inl (ValidationError (snd f)) | Some v \<Rightarrow> Inr v)"

definition optional :: "string \<times> string \<Rightarrow> (string \<times> json) list \<Rightarrow> json" where
  "optional f kvs = dget kvs (used_key f kvs)"

definition plain :: "string \<Rightarrow> string \<times> string" where
  "plain n = (n, n)"

definition as_dict :: "json \<Rightarrow> (string \<times> json) list res" where
  "as_dict j = (case j of JObj kvs \<Rightarrow> Inr kvs | _ \<Rightarrow> Inl (ValidationError ''model_type''))"

text \<open>A constrained strict string under \<open>str_strip_whitespace\<close>: strip, bounds, pattern.\<close>

definition constrained ::
  "string \<Rightarrow> nat \<Rightarrow> nat \<Rightarrow> (string \<Rightarrow> bool) \<Rightarrow> string \<Rightarrow> string res" where
  "constrained field lo hi pattern s =
     (let t = pydantic_strip s in
      if lo \<le> length t \<and> length t \<le> hi \<and> pattern t then Inr t else Inl (ValidationError field))"

definition pattern_str :: "string \<Rightarrow> (string \<Rightarrow> bool) \<Rightarrow> string \<Rightarrow> string res" where
  "pattern_str field pattern s =
     (let t = pydantic_strip s in if pattern t then Inr t else Inl (ValidationError field))"

definition as_str :: "string \<Rightarrow> json \<Rightarrow> string res" where
  "as_str field j = (case j of JStr s \<Rightarrow> Inr s | _ \<Rightarrow> Inl (ValidationError field))"

definition opt_field :: "(json \<Rightarrow> 'a res) \<Rightarrow> json \<Rightarrow> 'a option res" where
  "opt_field f j = (case j of JNull \<Rightarrow> Inr None | _ \<Rightarrow> bind_res (f j) (\<lambda>x. Inr (Some x)))"

definition literal :: "string \<Rightarrow> string list \<Rightarrow> json \<Rightarrow> string res" where
  "literal field allowed j = (case j of
     JStr s \<Rightarrow> if s \<in> set allowed then Inr s else Inl (ValidationError field)
   | _ \<Rightarrow> Inl (ValidationError field))"

definition strict_int :: "string \<Rightarrow> int \<Rightarrow> int \<Rightarrow> json \<Rightarrow> int res" where
  "strict_int field lo hi j = (case j of
     JInt i \<Rightarrow> if lo \<le> i \<and> i \<le> hi then Inr i else Inl (ValidationError field)
   | _ \<Rightarrow> Inl (ValidationError field))"

definition stripped_str :: "string \<Rightarrow> json \<Rightarrow> string res" where
  "stripped_str field j = bind_res (as_str field j) (\<lambda>s. Inr (pydantic_strip s))"

fun list_field :: "('a \<Rightarrow> 'b res) \<Rightarrow> 'a list \<Rightarrow> 'b list res" where
  "list_field f [] = Inr []"
| "list_field f (x # xs) =
     bind_res (f x) (\<lambda>y. bind_res (list_field f xs) (\<lambda>ys. Inr (y # ys)))"

section \<open>Shape of validated text\<close>

definition hex_text :: "string \<Rightarrow> bool" where
  "hex_text s \<longleftrightarrow> s \<noteq> [] \<and> list_all is_hex s"

definition hex64 :: "string \<Rightarrow> bool" where
  "hex64 s \<longleftrightarrow> length s = 64 \<and> list_all is_hex s"

lemma literal_Inr [simp]: "literal field xs j = Inr s \<longleftrightarrow> j = JStr s \<and> s \<in> set xs"
  by (auto simp: literal_def split: json.splits if_splits)

lemma constrained_Inr:
  "constrained field lo hi pattern s = Inr t \<longleftrightarrow>
     t = pydantic_strip s \<and> lo \<le> length t \<and> length t \<le> hi \<and> pattern t"
  by (auto simp: constrained_def Let_def)

lemma pattern_str_Inr:
  "pattern_str field pattern s = Inr t \<longleftrightarrow> t = pydantic_strip s \<and> pattern t"
  by (auto simp: pattern_str_def Let_def)

lemma constrained_Inl: "constrained field lo hi pattern s = Inl e \<Longrightarrow> e = ValidationError field"
  by (auto simp: constrained_def Let_def split: if_splits)

lemma pattern_str_Inl: "pattern_str field pattern s = Inl e \<Longrightarrow> e = ValidationError field"
  by (auto simp: pattern_str_def Let_def split: if_splits)

lemma hex64_strip [simp]: "hex64 s \<Longrightarrow> pydantic_strip s = s"
  by (simp add: hex64_def)

lemma hex64_upper [simp]: "hex64 s \<Longrightarrow> hex64 (py_upper s)"
  by (simp add: hex64_def)

lemma hex_text_strip [simp]: "hex_text s \<Longrightarrow> pydantic_strip s = s"
  by (simp add: hex_text_def)

lemma list_field_length: "list_field f xs = Inr ys \<Longrightarrow> length ys = length xs"
  by (induction xs arbitrary: ys) (auto simp: res_iffs)

lemma keys_AList_update: "set (map fst (AList.update k v d)) = insert k (set (map fst d))"
  by (simp add: dom_map_of_conv_image_fst [symmetric] update_conv')

lemma map_of_foldl_update:
  "map_of (foldl (\<lambda>d kv. AList.update (fst kv) (snd kv) d) d0 kvs) k =
     (case map_of (rev kvs) k of None \<Rightarrow> map_of d0 k | Some v \<Rightarrow> Some v)"
proof (induction kvs rule: rev_induct)
  case Nil
  then show ?case by simp
next
  case (snoc p kvs)
  then show ?case by (cases p) (auto simp: update_conv')
qed

text \<open>A lookup in the dictionary finds the last value given for the key.\<close>

lemma map_of_dict_of: "map_of (dict_of kvs) k = map_of (rev kvs) k"
  by (simp add: dict_of_def map_of_foldl_update split: option.split)

end
