(* ===== verification/Encoding.thy ===== *)
theory Encoding
  imports Wire
begin

text \<open>
  The base64url layer of \<open>xrpl_mpp_core/helpers.py\<close>. Text is the list of its UTF-8 bytes, so
  encoding is the identity on it and decoding is the check \<open>valid_utf8\<close>. \<open>b64_encode\<close> and
  \<open>b64_decode\<close> are \<open>base64.urlsafe_b64encode\<close> without its padding and
  \<open>base64.b64decode(..., altchars=b"-_", validate=True)\<close> with the padding put back: as the
  standard library does, the decoder ignores the unused low bits of the last character, which is
  why the source re-encodes and compares.
\<close>

section \<open>Base64\<close>

definition b64_char :: "nat \<Rightarrow> char" where
  "b64_char n = (if n < 26 then char_of (65 + n) else if n < 52 then char_of (71 + n)
     else if n < 62 then char_of (n - 4) else if n = 62 then CHR ''-'' else CHR ''_'')"

definition b64_value :: "char \<Rightarrow> nat option" where
  "b64_value c =
     (if is_upper c then Some (ch c - 65) else if is_lower c then Some (ch c - 71)
      else if is_digit c then Some (ch c + 4)
      else if c = CHR ''-'' then Some 62 else if c = CHR ''_'' then Some 63 else None)"

definition b64url_text :: "string \<Rightarrow> bool" where
  "b64url_text s \<longleftrightarrow> s \<noteq> [] \<and> list_all (\<lambda>c. b64_value c \<noteq> None) s"

fun b64_encode :: "string \<Rightarrow> string" where
  "b64_encode [] = []"
| "b64_encode [a] = [b64_char (ch a div 4), b64_char (ch a mod 4 * 16)]"
| "b64_encode [a, b] =
     [b64_char (ch a div 4), b64_char (ch a mod 4 * 16 + ch b div 16), b64_char (ch b mod 16 * 4)]"
| "b64_encode (a # b # c # rest) =
     [b64_char (ch a div 4), b64_char (ch a mod 4 * 16 + ch b div 16),
      b64_char (ch b mod 16 * 4 + ch c div 64), b64_char (ch c mod 64)] @ b64_encode rest"

fun sextets :: "nat list \<Rightarrow> nat list option" where
  "sextets [] = Some []"
| "sextets [p] = None"
| "sextets [p, q] = Some [p * 4 + q div 16]"
| "sextets [p, q, r] = Some [p * 4 + q div 16, q mod 16 * 16 + r div 4]"
| "sextets (p # q # r # s # rest) = map_option
     (\<lambda>bytes. (p * 4 + q div 16) # (q mod 16 * 16 + r div 4) # (r mod 4 * 64 + s) # bytes) (sextets rest)"

definition b64_decode :: "string \<Rightarrow> string option" where
  "b64_decode s = map_option (map char_of) (sextets (map (\<lambda>c. the (b64_value c)) s))"

section \<open>UTF-8\<close>

text \<open>The well-formed byte sequences: no overlong form, no surrogate, at most U+10FFFF.\<close>

definition cont :: "char \<Rightarrow> bool" where
  "cont c \<longleftrightarrow> 128 \<le> ch c \<and> ch c < 192"

text \<open>A length limit of a text field counts characters, that is bytes that continue none.\<close>

definition text_length :: "string \<Rightarrow> nat" where
  "text_length s = length (filter (\<lambda>c. \<not> cont c) s)"

definition utf8_lead2 :: "char \<Rightarrow> bool" where
  "utf8_lead2 a \<longleftrightarrow> 194 \<le> ch a \<and> ch a < 224"

definition utf8_lead3 :: "char \<Rightarrow> char \<Rightarrow> bool" where
  "utf8_lead3 a b \<longleftrightarrow> 224 \<le> ch a \<and> ch a < 240 \<and> cont b
     \<and> (ch a = 224 \<longrightarrow> 160 \<le> ch b) \<and> (ch a = 237 \<longrightarrow> ch b < 160)"

definition utf8_lead4 :: "char \<Rightarrow> char \<Rightarrow> bool" where
  "utf8_lead4 a b \<longleftrightarrow> 240 \<le> ch a \<and> ch a < 245 \<and> cont b
     \<and> (ch a = 240 \<longrightarrow> 144 \<le> ch b) \<and> (ch a = 244 \<longrightarrow> ch b < 144)"

fun valid_utf8 :: "string \<Rightarrow> bool" where
  "valid_utf8 [] = True"
| "valid_utf8 [a] \<longleftrightarrow> ch a < 128"
| "valid_utf8 [a, b] \<longleftrightarrow> (ch a < 128 \<and> valid_utf8 [b]) \<or> (utf8_lead2 a \<and> cont b)"
| "valid_utf8 [a, b, c] \<longleftrightarrow>
     (ch a < 128 \<and> valid_utf8 [b, c]) \<or> (utf8_lead2 a \<and> cont b \<and> valid_utf8 [c])
     \<or> (utf8_lead3 a b \<and> cont c)"
| "valid_utf8 (a # b # c # d # rest) \<longleftrightarrow>
     (ch a < 128 \<and> valid_utf8 (b # c # d # rest))
     \<or> (utf8_lead2 a \<and> cont b \<and> valid_utf8 (c # d # rest))
     \<or> (utf8_lead3 a b \<and> cont c \<and> valid_utf8 (d # rest))
     \<or> (utf8_lead4 a b \<and> cont c \<and> cont d \<and> valid_utf8 rest)"

section \<open>Header values\<close>

definition max_encoded_header_value_length :: nat where
  "max_encoded_header_value_length = 65536"

definition encode_base64url_text :: "string \<Rightarrow> string" where
  "encode_base64url_text v = b64_encode v"

text \<open>The part both decoders share: pattern, strict decoding, canonical form.\<close>

definition decode_base64url_text :: "string \<Rightarrow> string res" where
  "decode_base64url_text raw =
     (if raw = [] then Inr []
      else if max_encoded_header_value_length < length raw
        then Inl (ValueError ''Value has an invalid base64url length'')
      else if \<not> b64url_text raw then Inl (ValueError ''Value is not unpadded base64url'')
      else case b64_decode raw of
        None \<Rightarrow> Inl (ValueError ''Value is not valid base64url UTF-8'')
      | Some bytes \<Rightarrow>
          if \<not> valid_utf8 bytes then Inl (ValueError ''Value is not valid base64url UTF-8'')
          else if b64_encode bytes \<noteq> raw then Inl (ValueError ''Value is not canonical base64url'')
          else Inr bytes)"

definition decode_base64url_json :: "(string \<Rightarrow> json option) \<Rightarrow> string \<Rightarrow> json res" where
  "decode_base64url_json loads raw =
     (if raw = [] \<or> max_encoded_header_value_length < length raw
        then Inl (ValueError ''Value has an invalid base64url length'')
      else if \<not> b64url_text raw then Inl (ValueError ''Value is not unpadded base64url'')
      else case b64_decode raw of
        None \<Rightarrow> Inl (ValueError ''Value is not valid base64url'')
      | Some bytes \<Rightarrow>
          if b64_encode bytes \<noteq> raw then Inl (ValueError ''Value is not canonical base64url'')
          else if \<not> valid_utf8 bytes then Inl (ValueError ''Value is not valid UTF-8 JSON'')
          else case loads bytes of
            None \<Rightarrow> Inl (ValueError ''Value is not valid UTF-8 JSON'')
          | Some j \<Rightarrow> Inr (collapse j))"

text \<open>\<open>jcs\<close> is \<open>rfc8785.dumps\<close>, with \<open>None\<close> for its canonicalization errors.\<close>

definition encode_json_to_base64url :: "(json \<Rightarrow> string option) \<Rightarrow> json \<Rightarrow> string res" where
  "encode_json_to_base64url jcs v = (case jcs v of
     None \<Rightarrow> Inl (ValueError ''canonicalization'') | Some t \<Rightarrow> Inr (b64_encode t))"

section \<open>Round trips\<close>

lemma ch_less [simp]: "ch c < 256"
  using of_char_mod_256 [of c, where 'a = nat] mod_less_divisor [of 256 "of_char c :: nat"]
  by (simp add: ch_def)

lemma char_of_ch [simp]: "char_of (ch c) = c"
  by (simp add: ch_def)

lemma b64_value_char [simp]: "n < 64 \<Longrightarrow> b64_value (b64_char n) = Some n"
proof -
  assume n: "n < 64"
  have "ch (CHR ''-'') = 45" "ch (CHR ''_'') = 95" by (simp_all add: ch_def)
  with n consider "n < 26" | "26 \<le> n" "n < 52" | "52 \<le> n" "n < 62" | "n = 62" | "n = 63" by linarith
  then show ?thesis
    by cases (simp_all add: b64_char_def b64_value_def is_upper_def is_lower_def is_digit_def ch_def, linarith)
qed

lemma b64_char_value: "b64_value c = Some n \<Longrightarrow> b64_char n = c \<and> n < 64"
  by (auto simp: b64_value_def b64_char_def is_upper_def is_lower_def is_digit_def split: if_splits
      intro!: ch_inject [THEN iffD1])

lemma sextet_parts:
  "ch a div 4 < 64" "ch b div 16 < 16" "ch c div 64 < 4"
  by (simp_all add: less_mult_imp_div_less)

lemma sextet_bounds:
  "ch a div 4 < 64" "ch a mod 4 * 16 < 64" "ch a mod 4 * 16 + ch b div 16 < 64"
  "ch b mod 16 * 4 < 64" "ch b mod 16 * 4 + ch c div 64 < 64" "ch c mod 64 < 64"
proof -
  have "ch a mod 4 < 4" "ch b mod 16 < 16" by simp_all
  with sextet_parts(1) [of a] sextet_parts(2) [of b] sextet_parts(3) [of c] show "ch a div 4 < 64" "ch a mod 4 * 16 < 64"
    "ch a mod 4 * 16 + ch b div 16 < 64" "ch b mod 16 * 4 < 64" "ch b mod 16 * 4 + ch c div 64 < 64"
    by linarith+
  show "ch c mod 64 < 64" by simp
qed

lemma b64_encode_text: "list_all (\<lambda>c. b64_value c \<noteq> None) (b64_encode s)"
  by (induction s rule: b64_encode.induct) (simp_all add: sextet_bounds)

lemma b64_encode_Nil [simp]: "b64_encode s = [] \<longleftrightarrow> s = []"
  by (cases s rule: b64_encode.cases) simp_all

lemma b64url_text_encode [simp]: "s \<noteq> [] \<Longrightarrow> b64url_text (b64_encode s)"
  using b64_encode_text [of s] by (simp add: b64url_text_def)

lemma octet_join:
  "ch b div 16 div 16 = 0" "ch b div 16 mod 16 = ch b div 16"
  "ch c div 64 div 4 = 0" "ch c div 64 mod 4 = ch c div 64"
  using sextet_parts(2,3) by simp_all

lemma sextets_encode: "sextets (map (\<lambda>c. the (b64_value c)) (b64_encode s)) = Some (map ch s)"
  by (induction s rule: b64_encode.induct)
    (simp_all add: sextet_bounds octet_join sextet_bounds(2,4) [simplified mult.commute])

lemma b64_decode_encode [simp]: "b64_decode (b64_encode s) = Some s"
  by (simp add: b64_decode_def sextets_encode comp_def)

lemma length_b64_encode: "length (b64_encode s) = (4 * length s + 2) div 3"
  by (induction s rule: b64_encode.induct) simp_all

lemma decode_text_Inr:
  "decode_base64url_text raw = Inr v \<longleftrightarrow>
     length raw \<le> max_encoded_header_value_length \<and> valid_utf8 v \<and> raw = b64_encode v"
  (is "?l \<longleftrightarrow> ?r")
proof (cases "raw = []")
  case True
  then show ?thesis using b64_encode_Nil [of v]
    by (auto simp: decode_base64url_text_def simp del: b64_encode_Nil)
next
  case False
  show ?thesis
  proof
    assume ?l
    with False show ?r by (auto simp: decode_base64url_text_def split: option.splits if_splits)
  next
    assume r: ?r
    with False have "v \<noteq> []" by auto
    with r show ?l by (auto simp: decode_base64url_text_def)
  qed
qed

lemma decode_json_Inr:
  "decode_base64url_json loads raw = Inr j \<longleftrightarrow>
     (\<exists>text j0. raw = b64_encode text \<and> text \<noteq> [] \<and> length raw \<le> max_encoded_header_value_length \<and>
        valid_utf8 text \<and> loads text = Some j0 \<and> j = collapse j0)"
  (is "?l \<longleftrightarrow> ?r")
proof
  assume ?l
  then obtain t where "b64_decode raw = Some t" "b64_encode t = raw" "raw \<noteq> []"
    "length raw \<le> max_encoded_header_value_length" "valid_utf8 t"
    "(case loads t of None \<Rightarrow> False | Some j0 \<Rightarrow> j = collapse j0)"
    by (auto simp: decode_base64url_json_def split: option.splits if_splits)
  moreover from this(2,3) have "t \<noteq> []" by auto
  ultimately show ?r by (auto split: option.splits)
next
  assume ?r
  then show ?l by (auto simp: decode_base64url_json_def)
qed

lemma decode_json_Inl: "decode_base64url_json loads raw = Inl e \<Longrightarrow> \<exists>msg. e = ValueError msg"
  by (auto simp: decode_base64url_json_def split: option.splits if_splits)

lemma b64_encode_inject: "b64_encode a = b64_encode b \<longleftrightarrow> a = b"
  by (metis b64_decode_encode option.inject)

end
