(* ===== verification/Xrpl.thy ===== *)
theory Xrpl
  imports Wire
begin

text \<open>
  The XRPL wire contract of \<open>xrpl_mpp_core\<close>: networks, addresses and amounts, the currency
  string, ledger amounts, the charge request and charge credential payloads (\<open>xrpl.py\<close>), payer
  DIDs (\<open>did.py\<close>) and the InvoiceID binding (\<open>binding.py\<close>). The JSON text parser is the
  parameter \<open>loads\<close>: the pairs of every object as written, or \<open>None\<close> for text that is
  not JSON.
\<close>

section \<open>Validated text\<close>

definition xrpl_networks :: "string list" where
  "xrpl_networks = [''mainnet'', ''testnet'', ''devnet'']"

definition base58_char :: "char \<Rightarrow> bool" where
  "base58_char c \<longleftrightarrow> (is_digit c \<and> c \<noteq> CHR ''0'')
     \<or> (is_upper c \<and> c \<noteq> CHR ''I'' \<and> c \<noteq> CHR ''O'') \<or> (is_lower c \<and> c \<noteq> CHR ''l'')"

definition classic_address :: "string \<Rightarrow> bool" where
  "classic_address s = (case s of [] \<Rightarrow> False | c # t \<Rightarrow>
     c = CHR ''r'' \<and> 24 \<le> length t \<and> length t \<le> 34 \<and> list_all base58_char t)"

text \<open>\<open>^[0-9]+(?:\.[0-9]+)?$\<close>\<close>

definition charge_amount_pattern :: "string \<Rightarrow> bool" where
  "charge_amount_pattern s = (case py_split (CHR ''.'') s of
     [a] \<Rightarrow> is_ascii_digits a | [a, b] \<Rightarrow> is_ascii_digits a \<and> is_ascii_digits b | _ \<Rightarrow> False)"

definition max_amount_length :: nat where "max_amount_length = 32"
definition max_transaction_blob_length :: nat where "max_transaction_blob_length = 8192"
definition max_memos :: nat where "max_memos = 32"
definition max_memo_field_length :: nat where "max_memo_field_length = 1024"
definition max_currency_length :: nat where "max_currency_length = 512"

definition validate_network :: "json \<Rightarrow> string res" where
  "validate_network j = literal ''network'' xrpl_networks j"

definition address_field :: "string \<Rightarrow> json \<Rightarrow> string res" where
  "address_field field j = bind_res (as_str field j) (pattern_str field classic_address)"

section \<open>Currencies\<close>

datatype xrpl_currency =
    XRP
  | IssuedCurrency string string
  | MPToken string

definition issued_currency :: "(string \<times> json) list \<Rightarrow> xrpl_currency res" where
  "issued_currency kvs =
     bind_res (bind_res (required (plain ''currency'') kvs) (as_str ''currency'')) (\<lambda>c.
     bind_res (constrained ''currency'' 1 40 (\<lambda>_. True) c) (\<lambda>currency.
     bind_res (bind_res (required (plain ''issuer'') kvs) (address_field ''issuer'')) (\<lambda>issuer.
     bind_res (guard_res (no_extra [plain ''currency'', plain ''issuer''] kvs)
                 (ValidationError ''extra_forbidden'')) (\<lambda>_.
     Inr (IssuedCurrency currency issuer)))))"

definition mp_token :: "(string \<times> json) list \<Rightarrow> xrpl_currency res" where
  "mp_token kvs =
     bind_res (bind_res (required (plain ''mpt_issuance_id'') kvs) (as_str ''mpt_issuance_id'')) (\<lambda>m.
     bind_res (constrained ''mpt_issuance_id'' 1 128 hex_text m) (\<lambda>mpt.
     bind_res (guard_res (no_extra [plain ''mpt_issuance_id''] kvs)
                 (ValidationError ''extra_forbidden'')) (\<lambda>_.
     Inr (MPToken mpt))))"

text \<open>\<open>json.loads\<close> with \<open>_reject_duplicate_keys\<close> as its object hook.\<close>

definition loads_unique :: "(string \<Rightarrow> json option) \<Rightarrow> string \<Rightarrow> json option" where
  "loads_unique loads value = (case loads value of None \<Rightarrow> None
     | Some j \<Rightarrow> if no_duplicate_keys j then Some j else None)"

definition parse_currency :: "(string \<Rightarrow> json option) \<Rightarrow> string \<Rightarrow> xrpl_currency res" where
  "parse_currency loads value =
     (if value = ''XRP'' then Inr XRP
      else case loads_unique loads value of
        None \<Rightarrow> Inl (ValueError ''XRPL currency must be XRP or a JSON currency descriptor'')
      | Some (JObj kvs) \<Rightarrow>
          if set (map fst kvs) = {''currency'', ''issuer''} then issued_currency kvs
          else if set (map fst kvs) = {''mpt_issuance_id''} then mp_token kvs
          else Inl (ValueError ''XRPL currency JSON must contain exactly currency+issuer or mpt_issuance_id'')
      | Some _ \<Rightarrow> Inl (ValueError ''XRPL currency JSON must be an object''))"

text \<open>\<open>json.dumps\<close> of a flat string object: compact separators, non-ASCII kept.\<close>

definition hex_digit :: "nat \<Rightarrow> char" where
  "hex_digit d = (if d < 10 then char_of (48 + d) else char_of (87 + d))"

definition json_escape_char :: "char \<Rightarrow> string" where
  "json_escape_char c =
     (if ch c = 34 then [char_of (92::nat), CHR ''\"'']
      else if ch c = 92 then [char_of (92::nat), char_of (92::nat)]
      else if ch c = 10 then [char_of (92::nat), CHR ''n'']
      else if ch c = 13 then [char_of (92::nat), CHR ''r'']
      else if ch c = 9 then [char_of (92::nat), CHR ''t'']
      else if ch c = 12 then [char_of (92::nat), CHR ''f'']
      else if ch c = 8 then [char_of (92::nat), CHR ''b'']
      else if ch c < 32 then
        [char_of (92::nat)] @ ''u00'' @ [hex_digit (ch c div 16), hex_digit (ch c mod 16)]
      else [c])"

definition json_string :: "string \<Rightarrow> string" where
  "json_string s = ''\"'' @ concat (map json_escape_char s) @ ''\"''"

definition dumps_object :: "(string \<times> string) list \<Rightarrow> string" where
  "dumps_object kvs =
     ''{'' @ py_join '','' (map (\<lambda>(k, v). json_string k @ '':'' @ json_string v) kvs) @ ''}''"

definition serialize_currency :: "xrpl_currency \<Rightarrow> string" where
  "serialize_currency c = (case c of
     XRP \<Rightarrow> ''XRP''
   | IssuedCurrency currency issuer \<Rightarrow>
       dumps_object [(''currency'', currency), (''issuer'', issuer)]
   | MPToken mpt \<Rightarrow> dumps_object [(''mpt_issuance_id'', mpt)])"

section \<open>Amounts\<close>

definition validate_charge_amount :: "string \<Rightarrow> string res" where
  "validate_charge_amount s =
     (if 1 \<le> length s \<and> length s \<le> max_amount_length \<and> charge_amount_pattern s
      then Inr s else Inl (ValidationError ''amount''))"

definition build_ledger_amount :: "string \<Rightarrow> xrpl_currency \<Rightarrow> json res" where
  "build_ledger_amount amount currency =
     bind_res (validate_charge_amount amount) (\<lambda>v. case currency of
       XRP \<Rightarrow> if CHR ''.'' \<in> set v then Inl (ValueError ''XRP charge amounts are integer drops'')
              else Inr (JStr v)
     | IssuedCurrency c i \<Rightarrow>
         Inr (JObj [(''currency'', JStr c), (''issuer'', JStr i), (''value'', JStr v)])
     | MPToken m \<Rightarrow> Inr (JObj [(''mpt_issuance_id'', JStr m), (''value'', JStr v)]))"

section \<open>Charge requests and payloads\<close>

record xrpl_memo =
  memo_type :: "string option"
  memo_format :: "string option"
  memo_data :: "string option"

definition memo_text :: "json \<Rightarrow> string option res" where
  "memo_text j = opt_field (\<lambda>v. bind_res (as_str ''memo'' v)
     (constrained ''memo'' 0 max_memo_field_length (\<lambda>_. True))) j"

definition validate_memo :: "json \<Rightarrow> xrpl_memo res" where
  "validate_memo j = bind_res (as_dict j) (\<lambda>kvs.
     bind_res (memo_text (optional (plain ''type'') kvs)) (\<lambda>t.
     bind_res (memo_text (optional (plain ''format'') kvs)) (\<lambda>f.
     bind_res (memo_text (optional (plain ''data'') kvs)) (\<lambda>d.
     bind_res (guard_res (no_extra [plain ''type'', plain ''format'', plain ''data''] kvs)
                 (ValidationError ''extra_forbidden'')) (\<lambda>_.
     Inr \<lparr>memo_type = t, memo_format = f, memo_data = d\<rparr>)))))"

definition memo_list :: "json \<Rightarrow> xrpl_memo list res" where
  "memo_list j = (case j of
     JArr js \<Rightarrow> if length js \<le> max_memos then list_field validate_memo js
               else Inl (ValidationError ''memos'')
   | _ \<Rightarrow> Inl (ValidationError ''memos''))"

record charge_method_details =
  cmd_reference :: "string option"
  cmd_network :: "string option"
  cmd_invoice_id :: "string option"
  cmd_destination_tag :: "int option"
  cmd_source_tag :: "int option"
  cmd_memos :: "xrpl_memo list option"

definition uint32 :: "string \<Rightarrow> json \<Rightarrow> int res" where
  "uint32 field j = strict_int field 0 4294967295 j"

definition charge_method_detail_fields :: "(string \<times> string) list" where
  "charge_method_detail_fields =
     [plain ''reference'', plain ''network'', (''invoiceId'', ''invoice_id''),
      (''destinationTag'', ''destination_tag''), (''sourceTag'', ''source_tag''), plain ''memos'']"

definition validate_charge_method_details :: "json \<Rightarrow> charge_method_details res" where
  "validate_charge_method_details j = bind_res (as_dict j) (\<lambda>kvs.
     bind_res (opt_field (stripped_str ''reference'') (optional (plain ''reference'') kvs)) (\<lambda>r.
     bind_res (opt_field validate_network (optional (plain ''network'') kvs)) (\<lambda>n.
     bind_res (opt_field (\<lambda>v. bind_res (as_str ''invoiceId'' v) (pattern_str ''invoiceId'' hex64))
                (optional (''invoiceId'', ''invoice_id'') kvs)) (\<lambda>i.
     bind_res (opt_field (uint32 ''destinationTag'')
                (optional (''destinationTag'', ''destination_tag'') kvs)) (\<lambda>dt.
     bind_res (opt_field (uint32 ''sourceTag'') (optional (''sourceTag'', ''source_tag'') kvs)) (\<lambda>st.
     bind_res (opt_field memo_list (optional (plain ''memos'') kvs)) (\<lambda>ms.
     bind_res (guard_res (no_extra charge_method_detail_fields kvs)
                (ValidationError ''extra_forbidden'')) (\<lambda>_.
     Inr \<lparr>cmd_reference = r, cmd_network = n, cmd_invoice_id = i, cmd_destination_tag = dt,
          cmd_source_tag = st, cmd_memos = ms\<rparr>))))))))"

record charge_request =
  cr_amount :: string
  cr_currency :: string
  cr_recipient :: string
  cr_description :: "string option"
  cr_external_id :: "string option"
  cr_method_details :: "charge_method_details option"

definition charge_request_fields :: "(string \<times> string) list" where
  "charge_request_fields =
     [plain ''amount'', plain ''currency'', plain ''recipient'', plain ''description'',
      (''externalId'', ''external_id''), (''methodDetails'', ''method_details'')]"

definition currency_field :: "(string \<Rightarrow> json option) \<Rightarrow> json \<Rightarrow> string res" where
  "currency_field loads j =
     bind_res (bind_res (as_str ''currency'' j)
                (constrained ''currency'' 1 max_currency_length (\<lambda>_. True))) (\<lambda>c.
     case parse_currency loads c of
       Inl _ \<Rightarrow> Inl (ValidationError ''currency'') | Inr _ \<Rightarrow> Inr c)"

definition validate_charge_request ::
  "(string \<Rightarrow> json option) \<Rightarrow> json \<Rightarrow> charge_request res" where
  "validate_charge_request loads j = bind_res (as_dict j) (\<lambda>kvs.
     bind_res (bind_res (bind_res (required (plain ''amount'') kvs) (as_str ''amount''))
                (constrained ''amount'' 1 max_amount_length charge_amount_pattern)) (\<lambda>a.
     bind_res (bind_res (required (plain ''currency'') kvs) (currency_field loads)) (\<lambda>c.
     bind_res (bind_res (required (plain ''recipient'') kvs) (address_field ''recipient'')) (\<lambda>r.
     bind_res (opt_field (stripped_str ''description'') (optional (plain ''description'') kvs)) (\<lambda>d.
     bind_res (opt_field (stripped_str ''externalId'')
                (optional (''externalId'', ''external_id'') kvs)) (\<lambda>x.
     bind_res (opt_field validate_charge_method_details
                (optional (''methodDetails'', ''method_details'') kvs)) (\<lambda>md.
     bind_res (guard_res (no_extra charge_request_fields kvs) (ValidationError ''extra_forbidden'')) (\<lambda>_.
     Inr \<lparr>cr_amount = a, cr_currency = c, cr_recipient = r, cr_description = d,
          cr_external_id = x, cr_method_details = md\<rparr>))))))))"

text \<open>Pull mode carries the signed blob, push mode the hash of a submitted transaction.\<close>

datatype charge_payload =
    TransactionPayload string
  | HashPayload string

definition validate_charge_payload :: "json \<Rightarrow> charge_payload res" where
  "validate_charge_payload j = bind_res (as_dict j) (\<lambda>kvs.
     if dget kvs ''type'' = JStr ''transaction'' then
       bind_res (bind_res (bind_res (required (plain ''blob'') kvs) (as_str ''blob''))
                  (constrained ''blob'' 1 max_transaction_blob_length hex_text)) (\<lambda>b.
       bind_res (guard_res (no_extra [plain ''type'', plain ''blob''] kvs)
                  (ValidationError ''extra_forbidden'')) (\<lambda>_. Inr (TransactionPayload b)))
     else if dget kvs ''type'' = JStr ''hash'' then
       bind_res (bind_res (bind_res (required (plain ''hash'') kvs) (as_str ''hash''))
                  (pattern_str ''hash'' hex64)) (\<lambda>h.
       bind_res (guard_res (no_extra [plain ''type'', plain ''hash''] kvs)
                  (ValidationError ''extra_forbidden'')) (\<lambda>_. Inr (HashPayload h)))
     else Inl (ValidationError ''type''))"

section \<open>Payer DIDs\<close>

record xrpl_did =
  did_network :: string
  did_address :: string

definition mk_did :: "string \<Rightarrow> string \<Rightarrow> xrpl_did res" where
  "mk_did network address =
     bind_res (literal ''network'' xrpl_networks (JStr network)) (\<lambda>n.
     bind_res (pattern_str ''address'' classic_address address) (\<lambda>a.
     Inr \<lparr>did_network = n, did_address = a\<rparr>))"

definition did_str :: "xrpl_did \<Rightarrow> string" where
  "did_str d = ''did:pkh:xrpl:'' @ did_network d @ '':'' @ did_address d"

definition build_xrpl_did :: "string \<Rightarrow> string \<Rightarrow> string res" where
  "build_xrpl_did network address = bind_res (mk_did network address) (\<lambda>d. Inr (did_str d))"

definition did_of_parts :: "string list \<Rightarrow> string \<Rightarrow> string \<Rightarrow> string option \<Rightarrow> xrpl_did res" where
  "did_of_parts scheme network address expected =
     (if scheme \<noteq> [''did'', ''pkh'', ''xrpl'']
      then Inl (ValueError ''credential source must use did:pkh:xrpl:{network}:{address}'')
      else bind_res (mk_did network address) (\<lambda>d.
        case expected of
          None \<Rightarrow> Inr d
        | Some e \<Rightarrow> if did_network d \<noteq> e
                    then Inl (ValueError ''credential source network does not match'') else Inr d))"

definition parse_xrpl_did :: "string \<Rightarrow> string option \<Rightarrow> xrpl_did res" where
  "parse_xrpl_did source expected =
     (if source = [] then Inl (ValueError ''credential source is required'')
      else case py_split (CHR '':'') source of
        [a, b, c, network, address] \<Rightarrow> did_of_parts [a, b, c] network address expected
      | _ \<Rightarrow> Inl (ValueError ''credential source must use did:pkh:xrpl:{network}:{address}''))"

definition classic_address_from_did :: "string \<Rightarrow> string option \<Rightarrow> string res" where
  "classic_address_from_did source expected =
     bind_res (parse_xrpl_did source expected) (\<lambda>d. Inr (did_address d))"

section \<open>InvoiceID binding\<close>

text \<open>\<open>sha512\<close> stands for \<open>hashlib.sha512(...).hexdigest()\<close> of the UTF-8 text.\<close>

definition challenge_invoice_id :: "(string \<Rightarrow> string) \<Rightarrow> string \<Rightarrow> string res" where
  "challenge_invoice_id sha512 challenge_id =
     (if challenge_id = [] then Inl (ValueError ''challenge_id must not be empty'')
      else Inr (py_upper (take 64 (sha512 challenge_id))))"

definition is_invoice_id :: "string \<Rightarrow> bool" where
  "is_invoice_id v = hex64 v"

definition normalize_invoice_id :: "string \<Rightarrow> string res" where
  "normalize_invoice_id v = (if \<not> is_invoice_id v
     then Inl (ValueError ''InvoiceID must be exactly 64 hexadecimal characters'')
     else Inr (py_upper v))"

end
