(* ===== verification/Paychannel.thy ===== *)
theory Paychannel
  imports Xrpl
begin

text \<open>
  \<open>xrpl_mpp_core/paychannel.py\<close>: drops amounts, the session request and its three credential
  payloads, and the cumulative high-water transition of a payment channel. The transition is the
  pure function a durable store calls inside its compare-and-set.
\<close>

section \<open>Amounts and session models\<close>

definition max_drops_digits :: nat where "max_drops_digits = 20"
definition max_claim_signature_length :: nat where "max_claim_signature_length = 144"

definition drops_text :: "string \<Rightarrow> bool" where
  "drops_text s \<longleftrightarrow> 1 \<le> length s \<and> length s \<le> max_drops_digits \<and> list_all is_digit s"

text \<open>A \<open>Drops\<close> field of a model (white space stripped), and the bare type adapter (not stripped).\<close>

definition drops_field :: "string \<Rightarrow> string \<Rightarrow> string res" where
  "drops_field field s = constrained field 1 max_drops_digits (list_all is_digit) s"

definition validate_drops :: "string \<Rightarrow> string res" where
  "validate_drops s = (if drops_text s then Inr s else Inl (ValidationError ''drops''))"

definition claim_signature_field :: "string \<Rightarrow> string res" where
  "claim_signature_field s = constrained ''signature'' 1 max_claim_signature_length hex_text s"

text \<open>The stored signature may be empty.\<close>

definition stored_signature_field :: "string \<Rightarrow> string res" where
  "stored_signature_field s =
     constrained ''signature'' 0 max_claim_signature_length (list_all is_hex) s"

definition channel_id_field :: "string \<Rightarrow> string res" where
  "channel_id_field s = pattern_str ''channelId'' hex64 s"

record session_method_details =
  smd_reference :: "string option"
  smd_network :: "string option"
  smd_cumulative_amount :: "string option"

record session_request =
  sr_amount :: string
  sr_currency :: "string option"
  sr_channel_id :: string
  sr_recipient :: string
  sr_description :: "string option"
  sr_external_id :: "string option"
  sr_method_details :: "session_method_details option"

definition session_method_detail_fields :: "(string \<times> string) list" where
  "session_method_detail_fields =
     [plain ''reference'', plain ''network'', (''cumulativeAmount'', ''cumulative_amount'')]"

definition validate_session_method_details :: "json \<Rightarrow> session_method_details res" where
  "validate_session_method_details j = bind_res (as_dict j) (\<lambda>kvs.
     bind_res (opt_field (stripped_str ''reference'') (optional (plain ''reference'') kvs)) (\<lambda>r.
     bind_res (opt_field validate_network (optional (plain ''network'') kvs)) (\<lambda>n.
     bind_res (opt_field (\<lambda>v. bind_res (as_str ''cumulativeAmount'' v) (drops_field ''cumulativeAmount''))
                (optional (''cumulativeAmount'', ''cumulative_amount'') kvs)) (\<lambda>c.
     bind_res (guard_res (no_extra session_method_detail_fields kvs)
                (ValidationError ''extra_forbidden'')) (\<lambda>_.
     Inr \<lparr>smd_reference = r, smd_network = n, smd_cumulative_amount = c\<rparr>)))))"

text \<open>\<open>_validate_channel_id\<close>: the empty string, or 64 hexadecimal digits.\<close>

definition request_channel_id :: "string \<Rightarrow> string res" where
  "request_channel_id s =
     (let t = pydantic_strip s in
      if t = [] \<or> hex64 t then Inr t else Inl (ValidationError ''channelId''))"

definition session_request_fields :: "(string \<times> string) list" where
  "session_request_fields =
     [plain ''amount'', plain ''currency'', (''channelId'', ''channel_id''), plain ''recipient'',
      plain ''description'', (''externalId'', ''external_id''), (''methodDetails'', ''method_details'')]"

definition validate_session_request :: "json \<Rightarrow> session_request res" where
  "validate_session_request j = bind_res (as_dict j) (\<lambda>kvs.
     bind_res (bind_res (bind_res (required (plain ''amount'') kvs) (as_str ''amount''))
                (drops_field ''amount'')) (\<lambda>a.
     bind_res (opt_field (literal ''currency'' [''XRP'']) (optional (plain ''currency'') kvs)) (\<lambda>c.
     bind_res (bind_res (bind_res (required (''channelId'', ''channel_id'') kvs) (as_str ''channelId''))
                request_channel_id) (\<lambda>ci.
     bind_res (bind_res (required (plain ''recipient'') kvs) (address_field ''recipient'')) (\<lambda>r.
     bind_res (opt_field (stripped_str ''description'') (optional (plain ''description'') kvs)) (\<lambda>d.
     bind_res (opt_field (stripped_str ''externalId'')
                (optional (''externalId'', ''external_id'') kvs)) (\<lambda>x.
     bind_res (opt_field validate_session_method_details
                (optional (''methodDetails'', ''method_details'') kvs)) (\<lambda>md.
     bind_res (guard_res (no_extra session_request_fields kvs) (ValidationError ''extra_forbidden'')) (\<lambda>_.
     Inr \<lparr>sr_amount = a, sr_currency = c, sr_channel_id = ci, sr_recipient = r,
          sr_description = d, sr_external_id = x, sr_method_details = md\<rparr>)))))))))"

text \<open>The union of the three payload models, discriminated by \<open>action\<close>.\<close>

datatype session_payload =
    OpenPayload (op_transaction: string) (op_amount: string) (op_signature: string)
  | VoucherPayload (vp_channel_id: string) (vp_amount: string) (vp_signature: string)
  | ClosePayload (cp_channel_id: string) (cp_amount: string) (cp_signature: string)

fun payload_amount :: "session_payload \<Rightarrow> string" where
  "payload_amount (OpenPayload _ a _) = a"
| "payload_amount (VoucherPayload _ a _) = a"
| "payload_amount (ClosePayload _ a _) = a"

text \<open>Construction of the voucher model from Python strings (also used to validate store keys).\<close>

definition voucher_payload :: "string \<Rightarrow> string \<Rightarrow> string \<Rightarrow> (string \<times> string \<times> string) res" where
  "voucher_payload channel amount signature =
     bind_res (channel_id_field channel) (\<lambda>c.
     bind_res (drops_field ''amount'' amount) (\<lambda>a.
     bind_res (claim_signature_field signature) (\<lambda>s. Inr (c, a, s))))"

definition claim_fields :: "(string \<times> json) list \<Rightarrow> (string \<times> string \<times> string) res" where
  "claim_fields kvs =
     bind_res (bind_res (required (''channelId'', ''channel_id'') kvs) (as_str ''channelId'')) (\<lambda>c.
     bind_res (bind_res (required (plain ''amount'') kvs) (as_str ''amount'')) (\<lambda>a.
     bind_res (bind_res (required (plain ''signature'') kvs) (as_str ''signature'')) (\<lambda>s.
     bind_res (voucher_payload c a s) (\<lambda>p.
     bind_res (guard_res (no_extra [plain ''action'', (''channelId'', ''channel_id''), plain ''amount'',
                 plain ''signature''] kvs) (ValidationError ''extra_forbidden'')) (\<lambda>_. Inr p)))))"

definition open_fields :: "(string \<times> json) list \<Rightarrow> session_payload res" where
  "open_fields kvs =
     bind_res (bind_res (bind_res (required (plain ''transaction'') kvs) (as_str ''transaction''))
                (constrained ''transaction'' 1 max_transaction_blob_length hex_text)) (\<lambda>t.
     bind_res (bind_res (bind_res (required (plain ''amount'') kvs) (as_str ''amount''))
                (drops_field ''amount'')) (\<lambda>a.
     bind_res (bind_res (bind_res (required (plain ''signature'') kvs) (as_str ''signature''))
                claim_signature_field) (\<lambda>s.
     bind_res (guard_res (no_extra [plain ''action'', plain ''transaction'', plain ''amount'',
                 plain ''signature''] kvs) (ValidationError ''extra_forbidden'')) (\<lambda>_.
     Inr (OpenPayload t a s)))))"

definition validate_session_payload :: "json \<Rightarrow> session_payload res" where
  "validate_session_payload j = bind_res (as_dict j) (\<lambda>kvs.
     if dget kvs ''action'' = JStr ''open'' then open_fields kvs
     else if dget kvs ''action'' = JStr ''voucher'' then
       bind_res (claim_fields kvs) (\<lambda>(c, a, s). Inr (VoucherPayload c a s))
     else if dget kvs ''action'' = JStr ''close'' then
       bind_res (claim_fields kvs) (\<lambda>(c, a, s). Inr (ClosePayload c a s))
     else Inl (ValidationError ''action''))"

section \<open>The high-water mark\<close>

record high_water =
  hw_cumulative :: string
  hw_signature :: string
  hw_timestamp :: int

definition mk_high_water :: "string \<Rightarrow> string \<Rightarrow> int \<Rightarrow> high_water res" where
  "mk_high_water cumulative signature timestamp =
     bind_res (drops_field ''cumulative'' cumulative) (\<lambda>c.
     bind_res (stored_signature_field signature) (\<lambda>s.
     if timestamp < 0 then Inl (ValidationError ''timestamp'')
     else if 0 < py_int c \<and> s = [] then
       Inl (ValidationError ''a non-zero cumulative amount requires a claim signature'')
     else Inr \<lparr>hw_cumulative = c, hw_signature = s, hw_timestamp = timestamp\<rparr>))"

datatype advance_status = Advanced | Replay | Regressed | Short

record high_water_decision =
  hd_status :: advance_status
  hd_previous :: string
  hd_state :: "high_water option"

definition mk_decision :: "advance_status \<Rightarrow> string \<Rightarrow> high_water option \<Rightarrow> high_water_decision res" where
  "mk_decision status previous state =
     bind_res (drops_field ''previous'' previous) (\<lambda>p.
     if status = Advanced \<and> state = None then
       Inl (ValidationError ''an advanced decision requires the new high-water state'')
     else if status \<noteq> Advanced \<and> state \<noteq> None then
       Inl (ValidationError ''a rejected decision cannot mutate high-water state'')
     else Inr \<lparr>hd_status = status, hd_previous = p, hd_state = state\<rparr>)"

text \<open>A drops argument is a string or an integer; a boolean is refused before \<open>str()\<close> sees it.\<close>

datatype drops_arg = DropsText string | DropsInt int | DropsBool bool

fun drops_string :: "string \<Rightarrow> drops_arg \<Rightarrow> string res" where
  "drops_string name (DropsBool b) = Inl (TypeError (name @ '' must be an unsigned integer''))"
| "drops_string name (DropsText s) =
     (case validate_drops s of Inl _ \<Rightarrow> Inl (ValueError (name @ '' must be an unsigned drops string''))
      | Inr v \<Rightarrow> Inr v)"
| "drops_string name (DropsInt i) =
     (case validate_drops (py_str_int i) of
        Inl _ \<Rightarrow> Inl (ValueError (name @ '' must be an unsigned drops string''))
      | Inr v \<Rightarrow> Inr v)"

text \<open>\<open>clock\<close> is what \<open>int(time() * 1000)\<close> reads when no timestamp is given.\<close>

definition evaluate_high_water ::
  "high_water option \<Rightarrow> drops_arg \<Rightarrow> drops_arg \<Rightarrow> string \<Rightarrow> int option \<Rightarrow> int \<Rightarrow> high_water_decision res"
where
  "evaluate_high_water current cumulative requested signature timestamp clock =
     bind_res (drops_string ''cumulative'' cumulative) (\<lambda>cumulative_str.
     bind_res (drops_string ''requested'' requested) (\<lambda>requested_str.
     let new_value = py_int cumulative_str;
         requested_value = py_int requested_str;
         previous_value = (case current of Some hw \<Rightarrow> py_int (hw_cumulative hw) | None \<Rightarrow> 0);
         previous_str = py_str_int previous_value
     in if new_value = previous_value then mk_decision Replay previous_str None
        else if new_value < previous_value then mk_decision Regressed previous_str None
        else if requested_value > 0 \<and> new_value < previous_value + requested_value
          then mk_decision Short previous_str None
        else bind_res (mk_high_water cumulative_str signature
                 (case timestamp of Some t \<Rightarrow> t | None \<Rightarrow> clock)) (\<lambda>state.
               mk_decision Advanced previous_str (Some state))))"

text \<open>\<open>PayChannelCumulativeError\<close> carries the rejected decision's status and previous value.\<close>

definition require_high_water_advance ::
  "high_water option \<Rightarrow> drops_arg \<Rightarrow> drops_arg \<Rightarrow> string \<Rightarrow> int option \<Rightarrow> int \<Rightarrow>
     (advance_status \<times> string + high_water) res"
where
  "require_high_water_advance current cumulative requested signature timestamp clock =
     bind_res (evaluate_high_water current cumulative requested signature timestamp clock) (\<lambda>d.
     case (hd_status d, hd_state d) of
       (Advanced, Some state) \<Rightarrow> Inr (Inr state)
     | _ \<Rightarrow> Inr (Inl (hd_status d, hd_previous d)))"

section \<open>Lemmas\<close>

lemma validate_drops_Inr [simp]: "validate_drops s = Inr v \<longleftrightarrow> drops_text s \<and> v = s"
  by (auto simp: validate_drops_def)

lemma validate_drops_ok [simp]: "drops_text s \<Longrightarrow> validate_drops s = Inr s"
  by simp

lemma drops_field_Inr:
  "drops_field f s = Inr v \<longleftrightarrow> v = pydantic_strip s \<and> drops_text v"
  by (auto simp: drops_field_def constrained_Inr drops_text_def)

lemma drops_field_text [simp]: "drops_text s \<Longrightarrow> drops_field f s = Inr s"
  by (simp add: drops_field_Inr) (simp add: drops_text_def)

lemma drops_text_nonempty: "drops_text s \<Longrightarrow> s \<noteq> []"
  by (auto simp: drops_text_def)

lemma drops_text_bound: "drops_text s \<Longrightarrow> py_int s < 10 ^ 20"
proof -
  assume d: "drops_text s"
  then have "digits_nat s < 10 ^ length s" by (simp add: drops_text_def digits_nat_bound)
  also have "\<dots> \<le> 10 ^ 20"
    using d by (intro power_increasing) (auto simp: drops_text_def max_drops_digits_def)
  finally show ?thesis unfolding py_int_def by (metis of_nat_less_iff of_nat_numeral of_nat_power)
qed

lemmas drops_text_bound_num = drops_text_bound [simplified]

lemma drops_text_py_str_int:
  assumes "0 \<le> i" and "i < 10 ^ 20"
  shows "drops_text (py_str_int i)"
proof -
  have "nat i < 10 ^ 20" using assms by (simp add: nat_less_iff)
  then have "length (show_nat (nat i)) \<le> 20" by (rule length_show_nat) simp
  then show ?thesis using assms
    by (simp add: drops_text_def py_str_int_def max_drops_digits_def Suc_le_eq)
qed

lemma py_int_py_str_int [simp]: "0 \<le> i \<Longrightarrow> py_int (py_str_int i) = i"
  by (simp add: py_str_int_def)

lemma mk_high_water_Inr:
  "mk_high_water c s t = Inr hw \<longleftrightarrow>
     hw = \<lparr>hw_cumulative = pydantic_strip c, hw_signature = pydantic_strip s, hw_timestamp = t\<rparr> \<and>
     drops_text (pydantic_strip c) \<and> length (pydantic_strip s) \<le> max_claim_signature_length \<and>
     list_all is_hex (pydantic_strip s) \<and> 0 \<le> t \<and>
     (0 < py_int (pydantic_strip c) \<longrightarrow> pydantic_strip s \<noteq> [])"
  by (auto simp: mk_high_water_def res_iffs drops_field_Inr stored_signature_field_def constrained_Inr
      split: if_splits)

lemma mk_decision_rejected [simp]:
  "0 \<le> i \<Longrightarrow> i < 10 ^ 20 \<Longrightarrow> st \<noteq> Advanced \<Longrightarrow>
     mk_decision st (py_str_int i) None = Inr \<lparr>hd_status = st, hd_previous = py_str_int i, hd_state = None\<rparr>"
  by (simp add: mk_decision_def drops_text_py_str_int)

lemma mk_decision_advanced [simp]:
  "0 \<le> i \<Longrightarrow> i < 10 ^ 20 \<Longrightarrow>
     mk_decision Advanced (py_str_int i) (Some s) =
       Inr \<lparr>hd_status = Advanced, hd_previous = py_str_int i, hd_state = Some s\<rparr>"
  by (simp add: mk_decision_def drops_text_py_str_int)

definition hw_value :: "high_water option \<Rightarrow> int" where
  "hw_value current = (case current of Some hw \<Rightarrow> py_int (hw_cumulative hw) | None \<Rightarrow> 0)"

definition well_formed_high_water :: "high_water option \<Rightarrow> bool" where
  "well_formed_high_water current =
     (case current of Some hw \<Rightarrow> drops_text (hw_cumulative hw) | None \<Rightarrow> True)"

lemma hw_value_bounds:
  "well_formed_high_water current \<Longrightarrow> 0 \<le> hw_value current \<and> hw_value current < 10 ^ 20"
  by (auto simp: hw_value_def well_formed_high_water_def drops_text_bound_num split: option.splits)

text \<open>The four outcomes, for text arguments, as one equation.\<close>

lemma evaluate_high_water_text:
  assumes wf: "well_formed_high_water current" and c: "drops_text c" and r: "drops_text r"
  shows "evaluate_high_water current (DropsText c) (DropsText r) s (Some t) clock =
    (let p = hw_value current in
     if py_int c = p then Inr \<lparr>hd_status = Replay, hd_previous = py_str_int p, hd_state = None\<rparr>
     else if py_int c < p then Inr \<lparr>hd_status = Regressed, hd_previous = py_str_int p, hd_state = None\<rparr>
     else if 0 < py_int r \<and> py_int c < p + py_int r
       then Inr \<lparr>hd_status = Short, hd_previous = py_str_int p, hd_state = None\<rparr>
     else bind_res (mk_high_water c s t) (\<lambda>st.
       Inr \<lparr>hd_status = Advanced, hd_previous = py_str_int p, hd_state = Some st\<rparr>))"
  using hw_value_bounds [OF wf] c r
  by (simp add: evaluate_high_water_def Let_def hw_value_def [symmetric])

end
