(* ===== verification/Store.thy ===== *)
theory Store
  imports Paychannel
begin

text \<open>
  The durable channel state of \<open>paychannel_store.py\<close>: the record and its validation, the
  three mutations (advance, redeem, finalize) that a store runs inside its compare-and-set, the
  key functions, and the process-local store \<open>InMemoryPayChannelStore\<close>. The lemmas give every
  mutation as one equation on well-formed records, show that no mutation can break the record's
  accounting rules, and order the states a channel can pass through.
\<close>

section \<open>The record\<close>

record pc_record =
  r_network :: string
  r_channel_id :: string
  r_payer :: string
  r_recipient :: string
  r_funded :: string
  r_cumulative :: string
  r_signature :: string
  r_redeemed :: string
  r_created_at :: int
  r_updated_at :: int
  r_finalized :: bool
  r_finalized_at :: "int option"
  r_finalized_reason :: "string option"
  r_redeemed_at :: "int option"
  r_redemption_reference :: "string option"

definition non_negative :: "string \<Rightarrow> int \<Rightarrow> int res" where
  "non_negative field i = (if 0 \<le> i then Inr i else Inl (ValidationError field))"

definition opt_non_negative :: "string \<Rightarrow> int option \<Rightarrow> int option res" where
  "opt_non_negative field v = (case v of None \<Rightarrow> Inr None
     | Some i \<Rightarrow> bind_res (non_negative field i) (\<lambda>j. Inr (Some j)))"

definition opt_text :: "string \<Rightarrow> nat \<Rightarrow> string option \<Rightarrow> string option res" where
  "opt_text field hi v = (case v of None \<Rightarrow> Inr None
     | Some s \<Rightarrow> bind_res (constrained field 0 hi (\<lambda>_. True) s) (\<lambda>t. Inr (Some t)))"

text \<open>Field validation, with the channel ID and the signature normalised to upper case.\<close>

definition record_fields :: "pc_record \<Rightarrow> pc_record res" where
  "record_fields r =
     bind_res (literal ''network'' xrpl_networks (JStr (r_network r))) (\<lambda>network.
     bind_res (channel_id_field (r_channel_id r)) (\<lambda>channel.
     bind_res (pattern_str ''payer'' classic_address (r_payer r)) (\<lambda>payer.
     bind_res (pattern_str ''recipient'' classic_address (r_recipient r)) (\<lambda>recipient.
     bind_res (drops_field ''funded'' (r_funded r)) (\<lambda>funded.
     bind_res (drops_field ''cumulative'' (r_cumulative r)) (\<lambda>cumulative.
     bind_res (stored_signature_field (r_signature r)) (\<lambda>signature.
     bind_res (drops_field ''redeemed'' (r_redeemed r)) (\<lambda>redeemed.
     bind_res (non_negative ''created_at'' (r_created_at r)) (\<lambda>created.
     bind_res (non_negative ''updated_at'' (r_updated_at r)) (\<lambda>updated.
     bind_res (opt_non_negative ''finalized_at'' (r_finalized_at r)) (\<lambda>finalized_at.
     bind_res (opt_text ''finalized_reason'' 256 (r_finalized_reason r)) (\<lambda>reason.
     bind_res (opt_non_negative ''redeemed_at'' (r_redeemed_at r)) (\<lambda>redeemed_at.
     bind_res (opt_text ''redemption_reference'' 512 (r_redemption_reference r)) (\<lambda>reference.
     Inr \<lparr>r_network = network, r_channel_id = py_upper channel, r_payer = payer,
          r_recipient = recipient, r_funded = funded, r_cumulative = cumulative,
          r_signature = py_upper signature, r_redeemed = redeemed, r_created_at = created,
          r_updated_at = updated, r_finalized = r_finalized r, r_finalized_at = finalized_at,
          r_finalized_reason = reason, r_redeemed_at = redeemed_at,
          r_redemption_reference = reference\<rparr>))))))))))))))"

text \<open>\<open>_validate_accounting\<close>: the first rule the record breaks, in the order of the code.\<close>

definition accounting_error :: "pc_record \<Rightarrow> string option" where
  "accounting_error r =
     (let funded = py_int (r_funded r); cumulative = py_int (r_cumulative r);
          redeemed = py_int (r_redeemed r) in
      if funded \<le> 0 then Some ''PayChannel funded amount must be greater than zero''
      else if funded < cumulative then Some ''PayChannel cumulative amount cannot exceed funded amount''
      else if cumulative < redeemed then Some ''PayChannel redeemed amount cannot exceed cumulative amount''
      else if 0 < cumulative \<and> r_signature r = [] then Some ''PayChannel cumulative amount requires a claim signature''
      else if r_updated_at r < r_created_at r then Some ''PayChannel updated_at cannot precede created_at''
      else if r_finalized r \<noteq> (r_finalized_at r \<noteq> None) then Some ''PayChannel finalized and finalized_at must be set together''
      else if r_finalized_reason r \<noteq> None \<and> \<not> r_finalized r then Some ''PayChannel finalized_reason requires a finalized channel''
      else if (case r_finalized_at r of None \<Rightarrow> False
               | Some t \<Rightarrow> \<not> (r_created_at r \<le> t \<and> t \<le> r_updated_at r))
        then Some ''PayChannel finalized_at must fall within the record lifetime''
      else if 0 < redeemed \<and> r_redeemed_at r = None then Some ''PayChannel redeemed amount requires redeemed_at''
      else if r_redemption_reference r \<noteq> None \<and> r_redeemed_at r = None
        then Some ''PayChannel redemption_reference requires redeemed_at''
      else if (case r_redeemed_at r of None \<Rightarrow> False
               | Some t \<Rightarrow> \<not> (r_created_at r \<le> t \<and> t \<le> r_updated_at r))
        then Some ''PayChannel redeemed_at must fall within the record lifetime''
      else None)"

definition validate_record :: "pc_record \<Rightarrow> pc_record res" where
  "validate_record r = bind_res (record_fields r) (\<lambda>r'. case accounting_error r' of
     Some msg \<Rightarrow> Inl (ValidationError msg) | None \<Rightarrow> Inr r')"

text \<open>A freshly opened channel, with the defaults of the model's fields.\<close>

definition new_record :: "string \<Rightarrow> string \<Rightarrow> string \<Rightarrow> string \<Rightarrow> string \<Rightarrow> int \<Rightarrow> pc_record" where
  "new_record network channel payer recipient funded timestamp =
     \<lparr>r_network = network, r_channel_id = channel, r_payer = payer, r_recipient = recipient,
      r_funded = funded, r_cumulative = ''0'', r_signature = '''', r_redeemed = ''0'',
      r_created_at = timestamp, r_updated_at = timestamp, r_finalized = False,
      r_finalized_at = None, r_finalized_reason = None, r_redeemed_at = None,
      r_redemption_reference = None\<rparr>"

definition record_high_water :: "pc_record \<Rightarrow> high_water res" where
  "record_high_water r = mk_high_water (r_cumulative r) (r_signature r) (r_updated_at r)"

record create_result =
  c_created :: bool
  c_record :: pc_record

record advance_result =
  a_status :: advance_status
  a_previous :: string
  a_exact_replay :: bool
  a_record :: pc_record

definition mk_advance_result ::
  "advance_status \<Rightarrow> string \<Rightarrow> bool \<Rightarrow> pc_record \<Rightarrow> advance_result res"
where
  "mk_advance_result status previous exact record =
     bind_res (drops_field ''previous'' previous) (\<lambda>p.
     if exact \<and> status \<noteq> Replay
     then Inl (ValidationError ''exact_replay is only valid for replay decisions'')
     else Inr \<lparr>a_status = status, a_previous = p, a_exact_replay = exact, a_record = record\<rparr>)"

section \<open>Keys\<close>

definition channel_prefix :: "string \<Rightarrow> string" where
  "channel_prefix network = ''facilitator:paychannel:'' @ network @ '':''"

definition channel_key :: "string \<Rightarrow> string \<Rightarrow> string res" where
  "channel_key network channel =
     bind_res (literal ''network'' xrpl_networks (JStr network)) (\<lambda>n.
     bind_res (voucher_payload channel ''0'' ''00'') (\<lambda>(c, _, _).
     Inr (channel_prefix n @ py_upper c)))"

text \<open>
  \<open>str.replace\<close> of the leading namespace by the lease namespace, once; the key always starts
  with it, so the rest of the key is what is left after dropping it.
\<close>

definition redemption_lease_key :: "string \<Rightarrow> string \<Rightarrow> string res" where
  "redemption_lease_key network channel =
     bind_res (channel_key network channel) (\<lambda>k.
     Inr (''facilitator:paychannel-redemption-lease:'' @ drop (length ''facilitator:paychannel:'') k))"

definition validate_scan :: "int \<Rightarrow> int \<Rightarrow> (int \<times> int) res" where
  "validate_scan cursor limit =
     (if cursor < 0 then Inl (ValueError ''cursor must be a non-negative integer'')
      else if limit \<le> 0 then Inl (ValueError ''limit must be a positive integer'')
      else Inr (cursor, limit))"

definition validate_lease_seconds :: "int \<Rightarrow> int res" where
  "validate_lease_seconds n =
     (if n \<le> 0 then Inl (ValueError ''lease_seconds must be a positive integer'') else Inr n)"

section \<open>Mutations\<close>

text \<open>A mutation returns its result and the record to store, \<open>None\<close> when nothing is to be written.\<close>

type_synonym 'a mutation = "pc_record option \<Rightarrow> ('a \<times> pc_record option) res"

definition require_record :: "pc_record option \<Rightarrow> string \<Rightarrow> string \<Rightarrow> pc_record res" where
  "require_record current network channel = (case current of
     None \<Rightarrow> Inl (StoreError ''CHANNEL_NOT_FOUND'')
   | Some r \<Rightarrow> if r_network r \<noteq> network \<or> r_channel_id r \<noteq> py_upper channel
               then Inl (StoreError ''CORRUPT_CHANNEL_STATE'') else Inr r)"

text \<open>The funding increase an advance adopts; the flag says whether the record changed.\<close>

definition adopt_funding :: "string option \<Rightarrow> pc_record \<Rightarrow> (pc_record \<times> bool) res" where
  "adopt_funding funded r = (case funded of
     None \<Rightarrow> Inr (r, False)
   | Some f \<Rightarrow>
       if py_int f < py_int (r_funded r) then Inl (StoreError ''FUNDING_REGRESSION'')
       else if f \<noteq> r_funded r then
         bind_res (validate_record (r\<lparr>r_funded := f\<rparr>)) (\<lambda>r'. Inr (r', True))
       else Inr (r, False))"

definition advance_mutate ::
  "string \<Rightarrow> string \<Rightarrow> string \<Rightarrow> string \<Rightarrow> string \<Rightarrow> string option \<Rightarrow> int \<Rightarrow> advance_result mutation"
where
  "advance_mutate network channel amount signature requested funded timestamp current =
     bind_res (require_record current network channel) (\<lambda>record0.
     bind_res (guard_res (\<not> r_finalized record0) (StoreError ''CHANNEL_FINALIZED'')) (\<lambda>_.
     bind_res (adopt_funding funded record0) (\<lambda>(record, funding_changed).
     bind_res (guard_res (py_int amount \<le> py_int (r_funded record)) (StoreError ''CHANNEL_EXHAUSTED'')) (\<lambda>_.
     let effective_timestamp = max (r_updated_at record) timestamp in
     bind_res (record_high_water record) (\<lambda>hw.
     bind_res (evaluate_high_water (Some hw) (DropsText amount) (DropsText requested) signature
                (Some effective_timestamp) 0) (\<lambda>decision.
     case (hd_status decision, hd_state decision) of
       (Advanced, Some state) \<Rightarrow>
         bind_res (validate_record (record\<lparr>r_cumulative := hw_cumulative state,
           r_signature := hw_signature state, r_updated_at := hw_timestamp state\<rparr>)) (\<lambda>updated.
         bind_res (mk_advance_result Advanced (hd_previous decision) False updated) (\<lambda>res.
         Inr (res, Some updated)))
     | _ \<Rightarrow>
         let exact = (hd_status decision = Replay \<and> r_cumulative record = amount
                      \<and> py_upper (r_signature record) = py_upper signature) in
         bind_res (mk_advance_result (hd_status decision) (hd_previous decision) exact record) (\<lambda>res.
         Inr (res, if funding_changed then Some record else None))))))))"

definition advance_mutation ::
  "string \<Rightarrow> string \<Rightarrow> string \<Rightarrow> string \<Rightarrow> string \<Rightarrow> string option \<Rightarrow> int \<Rightarrow> advance_result mutation res"
where
  "advance_mutation network channel cumulative requested signature funded timestamp =
     bind_res (voucher_payload channel cumulative signature) (\<lambda>(_, amount, sig).
     bind_res (guard_res (case funded of None \<Rightarrow> True
                 | Some f \<Rightarrow> is_ascii_digits f \<and> 0 < py_int f)
                (StoreError ''INVALID_CHANNEL_STATE'')) (\<lambda>_.
     Inr (advance_mutate network channel amount sig requested funded timestamp)))"

definition redeem_mutate ::
  "string \<Rightarrow> string \<Rightarrow> string \<Rightarrow> string option \<Rightarrow> int \<Rightarrow> pc_record mutation"
where
  "redeem_mutate network channel amount reference timestamp current =
     bind_res (require_record current network channel) (\<lambda>record.
     let new_redeemed = py_int amount; old_redeemed = py_int (r_redeemed record) in
     if new_redeemed < old_redeemed then Inl (StoreError ''REDEEMED_REGRESSION'')
     else if py_int (r_cumulative record) < new_redeemed
       then Inl (StoreError ''REDEEMED_EXCEEDS_CUMULATIVE'')
     else if new_redeemed = old_redeemed then Inr (record, None)
     else let effective_timestamp = max (r_updated_at record) timestamp in
       bind_res (validate_record (record\<lparr>r_redeemed := amount,
         r_redeemed_at := Some effective_timestamp, r_redemption_reference := reference,
         r_updated_at := effective_timestamp\<rparr>)) (\<lambda>updated.
       Inr (updated, Some updated)))"

definition redeem_mutation ::
  "string \<Rightarrow> string \<Rightarrow> string \<Rightarrow> string option \<Rightarrow> int \<Rightarrow> pc_record mutation res"
where
  "redeem_mutation network channel cumulative reference timestamp =
     bind_res (voucher_payload channel cumulative ''00'') (\<lambda>(_, amount, _).
     Inr (redeem_mutate network channel amount reference timestamp))"

definition finalize_mutate ::
  "string \<Rightarrow> string \<Rightarrow> string \<Rightarrow> string option \<Rightarrow> int \<Rightarrow> pc_record mutation"
where
  "finalize_mutate network channel reason expected timestamp current =
     bind_res (require_record current network channel) (\<lambda>record.
     if (case expected of None \<Rightarrow> False | Some e \<Rightarrow> r_cumulative record \<noteq> e)
       then Inl (StoreError ''CHANNEL_STATE_CHANGED'')
     else if r_finalized record then Inr (record, None)
     else let effective_timestamp = max (r_updated_at record) timestamp in
       bind_res (validate_record (record\<lparr>r_finalized := True,
         r_finalized_at := Some effective_timestamp, r_finalized_reason := Some reason,
         r_updated_at := effective_timestamp\<rparr>)) (\<lambda>updated.
       Inr (updated, Some updated)))"

definition finalize_mutation ::
  "string \<Rightarrow> string \<Rightarrow> string \<Rightarrow> string option \<Rightarrow> int \<Rightarrow> pc_record mutation res"
where
  "finalize_mutation network channel reason expected_cumulative timestamp =
     (let normalized_reason = py_strip reason in
      if normalized_reason = [] then Inl (ValueError ''finalization reason is required'')
      else bind_res (case expected_cumulative of None \<Rightarrow> Inr None
                     | Some e \<Rightarrow> bind_res (validate_drops e) (\<lambda>v. Inr (Some v))) (\<lambda>expected.
        Inr (finalize_mutate network channel normalized_reason expected timestamp)))"

definition create_mutation :: "pc_record \<Rightarrow> create_result mutation" where
  "create_mutation record current = (case current of
     None \<Rightarrow> Inr (\<lparr>c_created = True, c_record = record\<rparr>, Some record)
   | Some existing \<Rightarrow>
       if existing = record then Inr (\<lparr>c_created = False, c_record = existing\<rparr>, None)
       else Inl (StoreError ''CHANNEL_CONFLICT''))"

end
