(* ===== verification/StoreLemmas.thy ===== *)
theory StoreLemmas
  imports Store
begin

text \<open>
  Facts about the record and the mutations of \<open>Store\<close>: well-formed records are exactly the
  fixed points of validation, every mutation of a well-formed record is one equation without a
  validation failure, and the states a channel passes through are ordered.
\<close>

named_theorems store_eqs \<open>mutations of well-formed records as equations\<close>

section \<open>Well-formed records\<close>

lemma base58_not_space [simp]: "base58_char c \<Longrightarrow> \<not> white_space c"
  by (auto simp: base58_char_def white_space_def is_digit_def is_upper_def is_lower_def)

lemma white_space_r [simp]: "\<not> white_space (CHR ''r'')"
  by (simp add: white_space_def ch_def)

lemma classic_address_strip [simp]: "classic_address s \<Longrightarrow> pydantic_strip s = s"
  unfolding pydantic_strip_def
  by (rule strip_by_none) (auto simp: classic_address_def list_all_iff split: list.splits)

lemma drops_text_strip [simp]: "drops_text s \<Longrightarrow> pydantic_strip s = s"
  by (simp add: drops_text_def)

definition text_within :: "nat \<Rightarrow> string option \<Rightarrow> bool" where
  "text_within hi v = (case v of None \<Rightarrow> True | Some s \<Rightarrow> pydantic_strip s = s \<and> length s \<le> hi)"

definition signature_text :: "string \<Rightarrow> bool" where
  "signature_text s \<longleftrightarrow> length s \<le> max_claim_signature_length \<and> list_all is_hex s"

definition wf_record :: "pc_record \<Rightarrow> bool" where
  "wf_record r \<longleftrightarrow>
     r_network r \<in> set xrpl_networks \<and>
     hex64 (r_channel_id r) \<and> py_upper (r_channel_id r) = r_channel_id r \<and>
     classic_address (r_payer r) \<and> classic_address (r_recipient r) \<and>
     drops_text (r_funded r) \<and> drops_text (r_cumulative r) \<and> drops_text (r_redeemed r) \<and>
     signature_text (r_signature r) \<and> py_upper (r_signature r) = r_signature r \<and>
     0 \<le> r_created_at r \<and> 0 \<le> r_updated_at r \<and>
     (\<forall>t. r_finalized_at r = Some t \<longrightarrow> 0 \<le> t) \<and> (\<forall>t. r_redeemed_at r = Some t \<longrightarrow> 0 \<le> t) \<and>
     text_within 256 (r_finalized_reason r) \<and> text_within 512 (r_redemption_reference r) \<and>
     accounting_error r = None"

lemma accounting_None_iff:
  "accounting_error r = None \<longleftrightarrow>
     0 < py_int (r_funded r) \<and> py_int (r_cumulative r) \<le> py_int (r_funded r) \<and>
     py_int (r_redeemed r) \<le> py_int (r_cumulative r) \<and>
     (0 < py_int (r_cumulative r) \<longrightarrow> r_signature r \<noteq> []) \<and>
     r_created_at r \<le> r_updated_at r \<and>
     (r_finalized r \<longleftrightarrow> r_finalized_at r \<noteq> None) \<and>
     (r_finalized_reason r \<noteq> None \<longrightarrow> r_finalized r) \<and>
     (\<forall>t. r_finalized_at r = Some t \<longrightarrow> r_created_at r \<le> t \<and> t \<le> r_updated_at r) \<and>
     (0 < py_int (r_redeemed r) \<longrightarrow> r_redeemed_at r \<noteq> None) \<and>
     (r_redemption_reference r \<noteq> None \<longrightarrow> r_redeemed_at r \<noteq> None) \<and>
     (\<forall>t. r_redeemed_at r = Some t \<longrightarrow> r_created_at r \<le> t \<and> t \<le> r_updated_at r)"
  unfolding accounting_error_def Let_def
  by (cases "r_finalized_at r"; cases "r_redeemed_at r") (auto split: if_splits)

lemma literal_ok [simp]: "v \<in> set allowed \<Longrightarrow> literal f allowed (JStr v) = Inr v"
  by simp

lemma non_negative_Inr [simp]: "non_negative f i = Inr j \<longleftrightarrow> 0 \<le> i \<and> j = i"
  by (auto simp: non_negative_def)

lemma opt_non_negative_Inr [simp]:
  "opt_non_negative f v = Inr v' \<longleftrightarrow> v' = v \<and> (\<forall>t. v = Some t \<longrightarrow> 0 \<le> t)"
  by (auto simp: opt_non_negative_def res_iffs split: option.splits)

lemma opt_text_Inr:
  "opt_text f hi v = Inr v' \<longleftrightarrow> v' = map_option pydantic_strip v \<and> text_within hi v'"
  by (auto simp: opt_text_def res_iffs constrained_Inr text_within_def split: option.splits)

lemma stored_signature_Inr:
  "stored_signature_field s = Inr t \<longleftrightarrow> t = pydantic_strip s \<and> signature_text t"
  by (auto simp: stored_signature_field_def constrained_Inr signature_text_def)

lemma signature_text_upper [simp]: "signature_text s \<Longrightarrow> signature_text (py_upper s)"
  by (simp add: signature_text_def)

lemma signature_text_strip [simp]: "signature_text s \<Longrightarrow> pydantic_strip s = s"
  by (simp add: signature_text_def)

lemma validate_record_wf: "validate_record r = Inr r' \<Longrightarrow> wf_record r'"
  by (auto simp: validate_record_def record_fields_def res_iffs channel_id_field_def pattern_str_Inr
      drops_field_Inr stored_signature_Inr opt_text_Inr wf_record_def split: option.splits)

lemma text_within_strip: "text_within hi v \<Longrightarrow> map_option pydantic_strip v = v"
  by (auto simp: text_within_def split: option.splits)

text \<open>Validation only upper-cases the signature of a record that is well formed otherwise.\<close>

lemma validate_record_signature:
  assumes "wf_record (r\<lparr>r_signature := py_upper s\<rparr>)" and "signature_text s"
  shows "validate_record (r\<lparr>r_signature := s\<rparr>) = Inr (r\<lparr>r_signature := py_upper s\<rparr>)"
proof -
  have "record_fields (r\<lparr>r_signature := s\<rparr>) = Inr (r\<lparr>r_signature := py_upper s\<rparr>)"
    using assms
    by (auto simp: record_fields_def res_iffs channel_id_field_def pattern_str_Inr drops_field_Inr
        stored_signature_Inr opt_text_Inr wf_record_def text_within_strip)
  then show ?thesis using assms(1) by (simp add: validate_record_def wf_record_def)
qed

lemma validate_record_id [simp]: "wf_record r \<Longrightarrow> validate_record r = Inr r"
  using validate_record_signature [where r = r and s = "r_signature r"] by (simp add: wf_record_def)

lemma wf_record_iff: "wf_record r \<longleftrightarrow> validate_record r = Inr r"
  using validate_record_wf by auto

text \<open>Validation is a projection: what it returns, it accepts unchanged.\<close>

lemma validate_record_idem: "validate_record r = Inr r' \<Longrightarrow> validate_record r' = Inr r'"
  by (simp add: validate_record_wf)

lemma wf_recordD:
  assumes "wf_record r"
  shows "drops_text (r_funded r)" "drops_text (r_cumulative r)" "drops_text (r_redeemed r)"
    "signature_text (r_signature r)" "py_upper (r_signature r) = r_signature r"
    "0 \<le> r_updated_at r" "accounting_error r = None"
    "py_int (r_cumulative r) \<le> py_int (r_funded r)" "py_int (r_redeemed r) \<le> py_int (r_cumulative r)"
    "0 < py_int (r_cumulative r) \<Longrightarrow> r_signature r \<noteq> []"
  using assms by (auto simp: wf_record_def accounting_None_iff)

lemma record_high_water_wf [simp]:
  "wf_record r \<Longrightarrow> record_high_water r =
     Inr \<lparr>hw_cumulative = r_cumulative r, hw_signature = r_signature r, hw_timestamp = r_updated_at r\<rparr>"
  using wf_recordD [of r]
  by (auto simp: record_high_water_def mk_high_water_Inr signature_text_def)

lemma signature_before_time:
  "(r :: pc_record)\<lparr>r_signature := s, r_updated_at := t\<rparr> = r\<lparr>r_updated_at := t, r_signature := s\<rparr>"
  by (cases r) simp

section \<open>Updates that keep a record well formed\<close>

lemma wf_set_funded:
  "wf_record r \<Longrightarrow> drops_text f \<Longrightarrow> py_int (r_funded r) \<le> py_int f \<Longrightarrow> wf_record (r\<lparr>r_funded := f\<rparr>)"
  by (auto simp: wf_record_def accounting_None_iff)

lemma wf_set_cumulative:
  assumes "wf_record r" and "drops_text c" and "signature_text s" and "s \<noteq> []"
    and "py_int (r_cumulative r) \<le> py_int c" and "py_int c \<le> py_int (r_funded r)"
    and "r_updated_at r \<le> t"
  shows "wf_record (r\<lparr>r_cumulative := c, r_signature := py_upper s, r_updated_at := t\<rparr>)"
  using assms by (auto simp: wf_record_def accounting_None_iff)

lemma wf_set_redeemed:
  assumes "wf_record r" and "drops_text a" and "text_within 512 ref"
    and "py_int a \<le> py_int (r_cumulative r)" and "r_updated_at r \<le> t"
  shows "wf_record (r\<lparr>r_redeemed := a, r_redeemed_at := Some t, r_redemption_reference := ref,
    r_updated_at := t\<rparr>)"
  using assms by (auto simp: wf_record_def accounting_None_iff)

lemma wf_set_finalized:
  assumes "wf_record r" and "text_within 256 (Some reason)" and "r_updated_at r \<le> t"
  shows "wf_record (r\<lparr>r_finalized := True, r_finalized_at := Some t, r_finalized_reason := Some reason,
    r_updated_at := t\<rparr>)"
  using assms by (auto simp: wf_record_def accounting_None_iff)

section \<open>The mutations as equations\<close>

definition funded_after :: "string option \<Rightarrow> pc_record \<Rightarrow> pc_record" where
  "funded_after funded r = (case funded of None \<Rightarrow> r | Some f \<Rightarrow> r\<lparr>r_funded := f\<rparr>)"

definition funding_ok :: "string option \<Rightarrow> pc_record \<Rightarrow> bool" where
  "funding_ok funded r =
     (case funded of None \<Rightarrow> True | Some f \<Rightarrow> drops_text f \<and> py_int (r_funded r) \<le> py_int f)"

lemma adopt_funding_ok:
  assumes "wf_record r" and "funding_ok funded r"
  shows "adopt_funding funded r = Inr (funded_after funded r, funded_after funded r \<noteq> r)"
proof (cases funded)
  case None
  then show ?thesis by (simp add: adopt_funding_def funded_after_def)
next
  case (Some f)
  with assms have "wf_record (r\<lparr>r_funded := f\<rparr>)" by (simp add: funding_ok_def wf_set_funded)
  moreover have "r\<lparr>r_funded := f\<rparr> = r \<longleftrightarrow> f = r_funded r" by (cases r) auto
  ultimately show ?thesis using Some assms
    by (auto simp: adopt_funding_def funded_after_def funding_ok_def)
qed

lemma wf_funded_after [simp]: "wf_record r \<Longrightarrow> funding_ok funded r \<Longrightarrow> wf_record (funded_after funded r)"
  by (auto simp: funded_after_def funding_ok_def wf_set_funded split: option.splits)

lemma funded_after_fields [simp]:
  "r_cumulative (funded_after f r) = r_cumulative r" "r_signature (funded_after f r) = r_signature r"
  "r_updated_at (funded_after f r) = r_updated_at r" "r_redeemed (funded_after f r) = r_redeemed r"
  "r_network (funded_after f r) = r_network r" "r_channel_id (funded_after f r) = r_channel_id r"
  "r_payer (funded_after f r) = r_payer r" "r_recipient (funded_after f r) = r_recipient r"
  "r_created_at (funded_after f r) = r_created_at r" "r_finalized (funded_after f r) = r_finalized r"
  "r_finalized_at (funded_after f r) = r_finalized_at r"
  by (auto simp: funded_after_def split: option.splits)

text \<open>What an advance decides, on the cumulative amount alone.\<close>

definition advance_decision :: "int \<Rightarrow> int \<Rightarrow> int \<Rightarrow> advance_status" where
  "advance_decision previous new requested =
     (if new = previous then Replay else if new < previous then Regressed
      else if 0 < requested \<and> new < previous + requested then Short else Advanced)"

definition advanced_record :: "string \<Rightarrow> string \<Rightarrow> int \<Rightarrow> pc_record \<Rightarrow> pc_record" where
  "advanced_record amount signature timestamp r =
     r\<lparr>r_cumulative := amount, r_signature := py_upper signature,
       r_updated_at := max (r_updated_at r) timestamp\<rparr>"

definition matches :: "string \<Rightarrow> string \<Rightarrow> pc_record \<Rightarrow> bool" where
  "matches network channel r \<longleftrightarrow> r_network r = network \<and> r_channel_id r = py_upper channel"

lemma require_record_ok [simp]:
  "matches network channel r \<Longrightarrow> require_record (Some r) network channel = Inr r"
  by (simp add: require_record_def matches_def)

lemma py_int_wf_range: "drops_text s \<Longrightarrow> 0 \<le> py_int s \<and> py_int s < 10 ^ 20"
  by (simp add: drops_text_bound_num)

lemma drops_field_str_int [simp]:
  "drops_text s \<Longrightarrow> drops_field f (py_str_int (py_int s)) = Inr (py_str_int (py_int s))"
  by (rule drops_field_text, rule drops_text_py_str_int) (simp_all add: drops_text_bound_num)

lemma advance_mutate_eq [store_eqs]:
  assumes wf: "wf_record r" and m: "matches network channel r" and nf: "\<not> r_finalized r"
    and f: "funding_ok funded r" and a: "drops_text amount" and q: "drops_text requested"
    and s: "signature_text signature" "signature \<noteq> []"
    and fits: "py_int amount \<le> py_int (r_funded (funded_after funded r))"
  shows "advance_mutate network channel amount signature requested funded timestamp (Some r) =
    (let r1 = funded_after funded r; p = py_int (r_cumulative r);
         status = advance_decision p (py_int amount) (py_int requested) in
     if status = Advanced then
       Inr (\<lparr>a_status = Advanced, a_previous = py_str_int p, a_exact_replay = False,
             a_record = advanced_record amount signature timestamp r1\<rparr>,
            Some (advanced_record amount signature timestamp r1))
     else
       Inr (\<lparr>a_status = status, a_previous = py_str_int p,
             a_exact_replay = (status = Replay \<and> r_cumulative r = amount
               \<and> py_upper (r_signature r) = py_upper signature),
             a_record = r1\<rparr>,
            if r1 \<noteq> r then Some r1 else None))"
proof -
  let ?r1 = "funded_after funded r"
  let ?t = "max (r_updated_at r) timestamp"
  have wf1: "wf_record ?r1" using wf f by simp
  have c: "drops_text (r_cumulative r)" using wf by (rule wf_recordD)
  have t0: "0 \<le> r_updated_at r" using wf by (rule wf_recordD)
  note ev = evaluate_high_water_text [OF _ a q, of "Some \<lparr>hw_cumulative = r_cumulative r,
      hw_signature = r_signature r, hw_timestamp = r_updated_at r\<rparr>" signature ?t 0]
  have hw: "mk_high_water amount signature ?t =
      Inr \<lparr>hw_cumulative = amount, hw_signature = signature, hw_timestamp = ?t\<rparr>"
    using a s t0 by (auto simp: mk_high_water_Inr signature_text_def)
  show ?thesis
  proof (cases "advance_decision (py_int (r_cumulative r)) (py_int amount) (py_int requested) = Advanced")
    case True
    then have less: "py_int (r_cumulative r) < py_int amount"
      by (auto simp: advance_decision_def split: if_splits)
    have "wf_record (advanced_record amount signature timestamp ?r1)"
      unfolding advanced_record_def
      using wf1 a s less fits by (intro wf_set_cumulative) auto
    then have v: "validate_record (?r1\<lparr>r_cumulative := amount, r_signature := signature, r_updated_at := ?t\<rparr>) =
        Inr (advanced_record amount signature timestamp ?r1)"
      using validate_record_signature [where r = "?r1\<lparr>r_cumulative := amount, r_updated_at := ?t\<rparr>" and s = signature] s(1)
      by (simp add: advanced_record_def signature_before_time)
    from True less show ?thesis
      using wf1 m nf f wf fits c v hw
      by (auto simp: advance_mutate_def adopt_funding_ok ev hw_value_def well_formed_high_water_def
          advance_decision_def mk_advance_result_def Let_def split: if_splits)
  next
    case False
    then show ?thesis
      using wf1 m nf f wf fits c
      by (auto simp: advance_mutate_def adopt_funding_ok ev hw_value_def well_formed_high_water_def
          advance_decision_def mk_advance_result_def Let_def split: if_splits)
  qed
qed

lemma redeem_mutate_eq [store_eqs]:
  assumes wf: "wf_record r" and m: "matches network channel r" and a: "drops_text amount"
    and t: "text_within 512 reference"
  shows "redeem_mutate network channel amount reference timestamp (Some r) =
    (if py_int amount < py_int (r_redeemed r) then Inl (StoreError ''REDEEMED_REGRESSION'')
     else if py_int (r_cumulative r) < py_int amount then Inl (StoreError ''REDEEMED_EXCEEDS_CUMULATIVE'')
     else if py_int amount = py_int (r_redeemed r) then Inr (r, None)
     else let ts = max (r_updated_at r) timestamp;
              r' = r\<lparr>r_redeemed := amount, r_redeemed_at := Some ts,
                     r_redemption_reference := reference, r_updated_at := ts\<rparr>
          in Inr (r', Some r'))"
proof -
  have "wf_record (r\<lparr>r_redeemed := amount, r_redeemed_at := Some ts, r_redemption_reference := reference,
      r_updated_at := ts\<rparr>)"
    if "py_int amount \<le> py_int (r_cumulative r)" and "r_updated_at r \<le> ts" for ts
    using wf a t that by (rule wf_set_redeemed)
  then show ?thesis using m by (simp add: redeem_mutate_def Let_def)
qed

lemma finalize_mutate_eq [store_eqs]:
  assumes wf: "wf_record r" and m: "matches network channel r" and t: "text_within 256 (Some reason)"
  shows "finalize_mutate network channel reason expected timestamp (Some r) =
    (if (case expected of None \<Rightarrow> False | Some e \<Rightarrow> r_cumulative r \<noteq> e)
       then Inl (StoreError ''CHANNEL_STATE_CHANGED'')
     else if r_finalized r then Inr (r, None)
     else let ts = max (r_updated_at r) timestamp;
              r' = r\<lparr>r_finalized := True, r_finalized_at := Some ts, r_finalized_reason := Some reason,
                     r_updated_at := ts\<rparr>
          in Inr (r', Some r'))"
proof -
  have "wf_record (r\<lparr>r_finalized := True, r_finalized_at := Some ts, r_finalized_reason := Some reason,
      r_updated_at := ts\<rparr>)" if "r_updated_at r \<le> ts" for ts
    using wf t that by (rule wf_set_finalized)
  then show ?thesis using m by (simp add: finalize_mutate_def Let_def)
qed

section \<open>The states a channel passes through\<close>

text \<open>
  Identity fields never change, the three amounts never go down, and a finalized channel keeps its
  final voucher for good.
\<close>

definition record_le :: "pc_record \<Rightarrow> pc_record \<Rightarrow> bool" where
  "record_le r r' \<longleftrightarrow>
     r_network r' = r_network r \<and> r_channel_id r' = r_channel_id r \<and> r_payer r' = r_payer r \<and>
     r_recipient r' = r_recipient r \<and> r_created_at r' = r_created_at r \<and>
     py_int (r_funded r) \<le> py_int (r_funded r') \<and>
     py_int (r_cumulative r) \<le> py_int (r_cumulative r') \<and>
     py_int (r_redeemed r) \<le> py_int (r_redeemed r') \<and>
     r_updated_at r \<le> r_updated_at r' \<and>
     (r_finalized r \<longrightarrow> r_finalized r' \<and> r_finalized_at r' = r_finalized_at r \<and>
        r_finalized_reason r' = r_finalized_reason r \<and> r_cumulative r' = r_cumulative r \<and>
        r_signature r' = r_signature r \<and> r_funded r' = r_funded r)"

lemma record_le_refl [simp]: "record_le r r"
  by (simp add: record_le_def)

lemma record_le_trans: "record_le a b \<Longrightarrow> record_le b c \<Longrightarrow> record_le a c"
  unfolding record_le_def by auto

text \<open>What an advance that does not raise has established about its arguments.\<close>

lemma adopt_funding_Inr:
  assumes "adopt_funding funded r = Inr (r', b)" and "wf_record r"
    and "\<And>f. funded = Some f \<Longrightarrow> is_ascii_digits f"
  shows "funding_ok funded r"
proof (cases funded)
  case None
  then show ?thesis by (simp add: funding_ok_def)
next
  case (Some f)
  show ?thesis
  proof (cases "f = r_funded r")
    case True
    with Some assms(2) show ?thesis by (simp add: funding_ok_def wf_recordD)
  next
    case False
    with assms(1) Some have le: "py_int (r_funded r) \<le> py_int f"
      and "validate_record (r\<lparr>r_funded := f\<rparr>) = Inr r'"
      by (auto simp: adopt_funding_def res_iffs split: if_splits)
    then have v: "record_fields (r\<lparr>r_funded := f\<rparr>) = Inr r'"
      by (auto simp: validate_record_def res_iffs split: option.splits)
    then have d: "drops_text (pydantic_strip f)"
      by (auto simp: record_fields_def res_iffs drops_field_Inr)
    with Some le assms(3) [OF Some] show ?thesis by (simp add: funding_ok_def is_ascii_digits_def)
  qed
qed

lemma require_record_Inr:
  "require_record c network channel = Inr r \<longleftrightarrow> c = Some r \<and> matches network channel r"
  by (auto simp: require_record_def matches_def split: option.splits if_splits)

lemma drops_string_text_Inr [simp]:
  "drops_string n (DropsText s) = Inr v \<longleftrightarrow> drops_text s \<and> v = s"
  by (auto split: sum.splits simp: validate_drops_def)

lemma evaluate_high_water_args:
  "evaluate_high_water c (DropsText a) (DropsText q) s t clk = Inr d \<Longrightarrow> drops_text a \<and> drops_text q"
  by (auto simp: evaluate_high_water_def res_iffs simp del: drops_string.simps)

lemma advance_mutate_Inr_args:
  assumes "advance_mutate network channel amount signature requested funded timestamp c = Inr out"
    and "\<And>f. funded = Some f \<Longrightarrow> is_ascii_digits f"
    and "\<And>r. c = Some r \<Longrightarrow> wf_record r"
  obtains r where "c = Some r" "matches network channel r" "\<not> r_finalized r" "funding_ok funded r"
    "drops_text amount" "drops_text requested" "py_int amount \<le> py_int (r_funded (funded_after funded r))"
proof -
  from assms(1) obtain r r1 b hw d where r: "c = Some r" "matches network channel r"
    and nf: "\<not> r_finalized r" and ad: "adopt_funding funded r = Inr (r1, b)"
    and fit: "py_int amount \<le> py_int (r_funded r1)"
    and ev: "evaluate_high_water (Some hw) (DropsText amount) (DropsText requested) signature
        (Some (max (r_updated_at r1) timestamp)) 0 = Inr d"
    by (auto simp: advance_mutate_def res_iffs require_record_Inr Let_def)
  have wf: "wf_record r" using r(1) assms(3) by blast
  then have fo: "funding_ok funded r" using adopt_funding_Inr [OF ad] assms(2) by blast
  with wf ad have "r1 = funded_after funded r" by (simp add: adopt_funding_ok)
  with that r nf fo fit evaluate_high_water_args [OF ev] show ?thesis by blast
qed

lemma funded_after_le:
  "wf_record r \<Longrightarrow> funding_ok funded r \<Longrightarrow> \<not> r_finalized r \<Longrightarrow> record_le r (funded_after funded r)"
  by (auto simp: record_le_def funded_after_def funding_ok_def split: option.splits)

lemma advanced_record_le:
  "\<not> r_finalized r \<Longrightarrow> py_int (r_cumulative r) \<le> py_int a \<Longrightarrow> record_le r (advanced_record a s t r)"
  by (auto simp: record_le_def advanced_record_def)

lemma wf_advanced_record:
  assumes "wf_record r" and "drops_text a" and "signature_text s" and "s \<noteq> []"
    and "py_int (r_cumulative r) \<le> py_int a" and "py_int a \<le> py_int (r_funded r)"
  shows "wf_record (advanced_record a s t r)"
  unfolding advanced_record_def using assms by (intro wf_set_cumulative) auto

text \<open>
  Any mutation built from caller-supplied arguments, applied to a well-formed record, stores a
  well-formed successor of it.
\<close>

lemma claim_signature_Inr:
  "claim_signature_field s = Inr t \<longleftrightarrow> t = pydantic_strip s \<and> signature_text t \<and> t \<noteq> []"
  by (auto simp: claim_signature_field_def constrained_Inr signature_text_def hex_text_def Suc_le_eq)

lemma voucher_payload_Inr:
  "voucher_payload c a s = Inr (c', a', s') \<longleftrightarrow>
     c' = pydantic_strip c \<and> hex64 c' \<and> a' = pydantic_strip a \<and> drops_text a' \<and>
     s' = pydantic_strip s \<and> signature_text s' \<and> s' \<noteq> []"
  by (auto simp: voucher_payload_def res_iffs channel_id_field_def pattern_str_Inr drops_field_Inr
      claim_signature_Inr)

lemma advance_mutation_step:
  assumes mut: "advance_mutation network channel cumulative requested signature funded timestamp = Inr mut"
    and run: "mut (Some r) = Inr (res, Some r')" and wf: "wf_record r"
  shows "wf_record r' \<and> record_le r r'"
proof -
  from mut obtain amount sg where m: "mut = advance_mutate network channel amount sg requested funded timestamp"
    and v: "drops_text amount" "signature_text sg" "sg \<noteq> []"
    and f: "\<And>f. funded = Some f \<Longrightarrow> is_ascii_digits f"
    by (auto simp: advance_mutation_def res_iffs voucher_payload_Inr split: option.splits)
  have "\<And>r'. Some r = Some r' \<Longrightarrow> wf_record r'" using wf by simp
  with run [unfolded m] f obtain matches: "matches network channel r" and nf: "\<not> r_finalized r"
    and fo: "funding_ok funded r" and q: "drops_text requested"
    and fit: "py_int amount \<le> py_int (r_funded (funded_after funded r))"
    by (blast elim: advance_mutate_Inr_args)
  let ?r1 = "funded_after funded r"
  let ?st = "advance_decision (py_int (r_cumulative r)) (py_int amount) (py_int requested)"
  note eq = advance_mutate_eq [OF wf matches nf fo v(1) q v(2,3) fit, of timestamp]
  have r1: "wf_record ?r1" "record_le r ?r1" using wf fo nf by (simp_all add: funded_after_le)
  show ?thesis
  proof (cases "?st = Advanced")
    case True
    then have "py_int (r_cumulative r) \<le> py_int amount"
      by (auto simp: advance_decision_def split: if_splits)
    moreover have "r' = advanced_record amount sg timestamp ?r1"
      using run True by (simp add: m eq Let_def)
    ultimately show ?thesis
      using r1 v fit nf advanced_record_le [of ?r1 amount sg timestamp]
      by (auto intro: wf_advanced_record record_le_trans)
  next
    case False
    then have "r' = ?r1" using run by (auto simp: m eq Let_def split: if_splits)
    then show ?thesis using r1 by simp
  qed
qed

lemma text_within_of_validate:
  "validate_record r = Inr r' \<Longrightarrow> text_within 512 (r_redemption_reference r')"
  using validate_record_wf wf_record_def by blast

lemma validate_record_copies:
  assumes "validate_record r = Inr r'" and "signature_text (r_signature r)"
    and "py_upper (r_signature r) = r_signature r" and "hex64 (r_channel_id r)"
    and "py_upper (r_channel_id r) = r_channel_id r" and "classic_address (r_payer r)"
    and "classic_address (r_recipient r)" and "drops_text (r_funded r)" and "drops_text (r_cumulative r)"
    and "drops_text (r_redeemed r)"
  shows "r' = r\<lparr>r_finalized_reason := map_option pydantic_strip (r_finalized_reason r),
    r_redemption_reference := map_option pydantic_strip (r_redemption_reference r)\<rparr>"
  using assms
  by (auto simp: validate_record_def record_fields_def res_iffs channel_id_field_def pattern_str_Inr
      drops_field_Inr stored_signature_Inr opt_text_Inr split: option.splits)

lemma wf_record_texts:
  "wf_record r \<Longrightarrow> hex64 (r_channel_id r) \<and> py_upper (r_channel_id r) = r_channel_id r \<and>
     classic_address (r_payer r) \<and> classic_address (r_recipient r) \<and>
     map_option pydantic_strip (r_finalized_reason r) = r_finalized_reason r \<and>
     map_option pydantic_strip (r_redemption_reference r) = r_redemption_reference r"
  by (auto simp: wf_record_def text_within_strip)

lemma redeem_mutation_step:
  assumes mut: "redeem_mutation network channel cumulative reference timestamp = Inr mut"
    and run: "mut (Some r) = Inr (res, Some r')" and wf: "wf_record r"
  shows "wf_record r' \<and> record_le r r'"
proof -
  from mut obtain amount where m: "mut = redeem_mutate network channel amount reference timestamp"
    and a: "drops_text amount"
    by (auto simp: redeem_mutation_def res_iffs voucher_payload_Inr)
  let ?t = "max (r_updated_at r) timestamp"
  from run have v: "validate_record (r\<lparr>r_redeemed := amount, r_redeemed_at := Some ?t,
        r_redemption_reference := reference, r_updated_at := ?t\<rparr>) = Inr r'"
    and le: "py_int (r_redeemed r) \<le> py_int amount"
    by (auto simp: m redeem_mutate_def res_iffs require_record_Inr Let_def split: if_splits)
  have "r' = r\<lparr>r_redeemed := amount, r_redeemed_at := Some ?t,
        r_redemption_reference := map_option pydantic_strip reference, r_updated_at := ?t\<rparr>"
    using validate_record_copies [OF v] wf_recordD [OF wf] wf_record_texts [OF wf] a by simp
  with validate_record_wf [OF v] le show ?thesis by (auto simp: record_le_def)
qed

lemma finalize_mutation_step:
  assumes mut: "finalize_mutation network channel reason expected timestamp = Inr mut"
    and run: "mut (Some r) = Inr (res, Some r')" and wf: "wf_record r"
  shows "wf_record r' \<and> record_le r r'"
proof -
  from mut obtain reason' ex where m: "mut = finalize_mutate network channel reason' ex timestamp"
    by (auto simp: finalize_mutation_def Let_def res_iffs split: if_splits)
  let ?t = "max (r_updated_at r) timestamp"
  from run have v: "validate_record (r\<lparr>r_finalized := True, r_finalized_at := Some ?t,
        r_finalized_reason := Some reason', r_updated_at := ?t\<rparr>) = Inr r'"
    and nf: "\<not> r_finalized r"
    by (auto simp: m finalize_mutate_def res_iffs require_record_Inr Let_def split: if_splits)
  have "r' = r\<lparr>r_finalized := True, r_finalized_at := Some ?t,
        r_finalized_reason := Some (pydantic_strip reason'), r_updated_at := ?t\<rparr>"
    using validate_record_copies [OF v] wf_recordD [OF wf] wf_record_texts [OF wf] by simp
  with validate_record_wf [OF v] nf show ?thesis by (auto simp: record_le_def)
qed

lemma mutations_need_record:
  "advance_mutation network channel cumulative requested signature funded timestamp = Inr mut \<Longrightarrow>
     mut None = Inl (StoreError ''CHANNEL_NOT_FOUND'')"
  "redeem_mutation network channel cumulative reference timestamp = Inr mut2 \<Longrightarrow>
     mut2 None = Inl (StoreError ''CHANNEL_NOT_FOUND'')"
  "finalize_mutation network channel reason expected timestamp = Inr mut2 \<Longrightarrow>
     mut2 None = Inl (StoreError ''CHANNEL_NOT_FOUND'')"
  by (auto simp: advance_mutation_def redeem_mutation_def finalize_mutation_def res_iffs Let_def
      advance_mutate_def redeem_mutate_def finalize_mutate_def require_record_def split: if_splits)

end
