(* ===== verification/StoreSpec.thy ===== *)
theory StoreSpec
  imports StoreLemmas
begin

text \<open>
  The contract of a channel store. Abstractly the durable state is a partial map from keys to
  records, and every operation is one atomic transition of it (\<open>spec_get\<close> to
  \<open>spec_finalize\<close>). A concrete operation is \<^emph>\<open>linearizable\<close> when its outcome is that of the
  atomic transition at some moment of the call, with other requests and replicas moving the map
  along \<open>evolves\<close> before and after, or an infrastructure error. The locale \<open>channel_store\<close>
  states this for the operations of the protocol class \<open>PayChannelStore\<close>; its clients are
  proved against the locale alone, so what they show holds under every interleaving.
\<close>

section \<open>Operations of a store\<close>

record 'w store_ops =
  st_create :: "pc_record \<Rightarrow> ('w, create_result) proc"
  st_get :: "string \<Rightarrow> string \<Rightarrow> ('w, pc_record option) proc"
  st_advance :: "string \<Rightarrow> string \<Rightarrow> string \<Rightarrow> string \<Rightarrow> string \<Rightarrow> string option \<Rightarrow> int option \<Rightarrow>
    ('w, advance_result) proc"
  st_mark_redeemed :: "string \<Rightarrow> string \<Rightarrow> string \<Rightarrow> string option \<Rightarrow> int option \<Rightarrow> ('w, pc_record) proc"
  st_finalize :: "string \<Rightarrow> string \<Rightarrow> string \<Rightarrow> string option \<Rightarrow> int option \<Rightarrow> ('w, pc_record) proc"
  st_scan :: "string \<Rightarrow> int \<Rightarrow> int \<Rightarrow> ('w, int \<times> pc_record list) proc"
  st_claim :: "string \<Rightarrow> string \<Rightarrow> int \<Rightarrow> ('w, string option) proc"
  st_release :: "string \<Rightarrow> string \<Rightarrow> string \<Rightarrow> ('w, unit) proc"

section \<open>The abstract store\<close>

type_synonym channel_map = "string \<Rightarrow> pc_record option"

definition atomically :: "string \<Rightarrow> 'a mutation \<Rightarrow> channel_map \<Rightarrow> 'a res \<times> channel_map" where
  "atomically key mutation m = (case mutation (m key) of
     Inl e \<Rightarrow> (Inl e, m)
   | Inr (result, updated) \<Rightarrow>
       (Inr result, case updated of None \<Rightarrow> m | Some r \<Rightarrow> m(key \<mapsto> r)))"

definition spec_get :: "string \<Rightarrow> string \<Rightarrow> channel_map \<Rightarrow> pc_record option res \<times> channel_map" where
  "spec_get network channel m = (case channel_key network channel of
     Inl e \<Rightarrow> (Inl e, m) | Inr k \<Rightarrow> (Inr (m k), m))"

definition spec_create :: "pc_record \<Rightarrow> channel_map \<Rightarrow> create_result res \<times> channel_map" where
  "spec_create record m = (case channel_key (r_network record) (r_channel_id record) of
     Inl e \<Rightarrow> (Inl e, m) | Inr k \<Rightarrow> atomically k (create_mutation record) m)"

definition spec_mutate ::
  "string \<Rightarrow> string \<Rightarrow> 'a mutation res \<Rightarrow> channel_map \<Rightarrow> 'a res \<times> channel_map"
where
  "spec_mutate network channel mutation m = (case channel_key network channel of
     Inl e \<Rightarrow> (Inl e, m)
   | Inr k \<Rightarrow> (case mutation of Inl e \<Rightarrow> (Inl e, m) | Inr mut \<Rightarrow> atomically k mut m))"

definition spec_advance ::
  "string \<Rightarrow> string \<Rightarrow> string \<Rightarrow> string \<Rightarrow> string \<Rightarrow> string option \<Rightarrow> int \<Rightarrow> channel_map \<Rightarrow>
     advance_result res \<times> channel_map"
where
  "spec_advance network channel cumulative requested signature funded timestamp m =
     spec_mutate network channel
       (advance_mutation network channel cumulative requested signature funded timestamp) m"

definition spec_redeem ::
  "string \<Rightarrow> string \<Rightarrow> string \<Rightarrow> string option \<Rightarrow> int \<Rightarrow> channel_map \<Rightarrow> pc_record res \<times> channel_map"
where
  "spec_redeem network channel cumulative reference timestamp m =
     spec_mutate network channel (redeem_mutation network channel cumulative reference timestamp) m"

definition spec_finalize ::
  "string \<Rightarrow> string \<Rightarrow> string \<Rightarrow> string option \<Rightarrow> int \<Rightarrow> channel_map \<Rightarrow> pc_record res \<times> channel_map"
where
  "spec_finalize network channel reason expected timestamp m =
     spec_mutate network channel (finalize_mutation network channel reason expected timestamp) m"

section \<open>Good maps and their evolution\<close>

definition keyed :: "string \<Rightarrow> pc_record \<Rightarrow> bool" where
  "keyed k r \<longleftrightarrow> wf_record r \<and> channel_key (r_network r) (r_channel_id r) = Inr k"

definition good :: "channel_map \<Rightarrow> bool" where
  "good m \<longleftrightarrow> (\<forall>k r. m k = Some r \<longrightarrow> keyed k r)"

definition evolves :: "channel_map \<Rightarrow> channel_map \<Rightarrow> bool" where
  "evolves m m' \<longleftrightarrow> (good m \<longrightarrow> good m') \<and>
     (\<forall>k r. m k = Some r \<longrightarrow> (\<exists>r'. m' k = Some r' \<and> record_le r r'))"

lemma evolves_refl [simp]: "evolves m m"
  by (simp add: evolves_def)

lemma evolves_trans: "evolves a b \<Longrightarrow> evolves b c \<Longrightarrow> evolves a c"
  unfolding evolves_def by (metis record_le_trans)

lemma evolves_good: "evolves m m' \<Longrightarrow> good m \<Longrightarrow> good m'"
  by (simp add: evolves_def)

lemma evolvesD: "evolves m m' \<Longrightarrow> m k = Some r \<Longrightarrow> \<exists>r'. m' k = Some r' \<and> record_le r r'"
  by (simp add: evolves_def)

lemma keyed_update: "keyed k r \<Longrightarrow> wf_record r' \<Longrightarrow> record_le r r' \<Longrightarrow> keyed k r'"
  by (auto simp: keyed_def record_le_def)

lemma evolves_update:
  "good m \<Longrightarrow> m k = Some r \<Longrightarrow> wf_record r' \<Longrightarrow> record_le r r' \<Longrightarrow> evolves m (m(k \<mapsto> r'))"
  unfolding evolves_def good_def by (auto intro: keyed_update)

lemma evolves_insert: "keyed k r \<Longrightarrow> m k = None \<Longrightarrow> evolves m (m(k \<mapsto> r))"
  unfolding evolves_def good_def by auto

text \<open>A mutation whose stored record is a well-formed successor moves the map forward.\<close>

lemma atomically_evolves:
  assumes "good m" and "atomically k mut m = (res, m')"
    and "mut None = Inl e"
    and "\<And>r result r'. wf_record r \<Longrightarrow> mut (Some r) = Inr (result, Some r') \<Longrightarrow> wf_record r' \<and> record_le r r'"
  shows "evolves m m'"
proof (cases "m k")
  case None
  with assms(2,3) show ?thesis by (simp add: atomically_def)
next
  case (Some r)
  with assms(1) have wf: "wf_record r" by (auto simp: good_def keyed_def)
  show ?thesis
  proof (cases "mut (Some r)")
    case (Inl e')
    with assms(2) Some show ?thesis by (simp add: atomically_def)
  next
    case (Inr out)
    obtain result upd where out: "out = (result, upd)" by force
    show ?thesis
    proof (cases upd)
      case None
      with assms(2) Some Inr out show ?thesis by (simp add: atomically_def)
    next
      case (Some r')
      with assms(4) [OF wf, of result r'] Inr out have "wf_record r' \<and> record_le r r'" by simp
      moreover have "m' = m(k \<mapsto> r')"
        using assms(2) \<open>m k = Some r\<close> Inr out Some by (simp add: atomically_def)
      ultimately show ?thesis using assms(1) \<open>m k = Some r\<close> by (simp add: evolves_update)
    qed
  qed
qed

lemma spec_mutate_evolves:
  assumes "good m" and "spec_mutate network channel mutation m = (res, m')"
    and "\<And>mut. mutation = Inr mut \<Longrightarrow> \<exists>e. mut None = Inl e"
    and "\<And>mut r result r'. mutation = Inr mut \<Longrightarrow> wf_record r \<Longrightarrow>
      mut (Some r) = Inr (result, Some r') \<Longrightarrow> wf_record r' \<and> record_le r r'"
  shows "evolves m m'"
  using assms(2)
proof (simp add: spec_mutate_def split: sum.splits)
  fix k mut
  assume "mutation = Inr mut" and at: "atomically k mut m = (res, m')"
  with assms(3) obtain e where "mut None = Inl e" by blast
  with assms(1) at show ?thesis
    using assms(4) [OF \<open>mutation = Inr mut\<close>] by (rule atomically_evolves)
qed

lemma spec_advance_evolves:
  "good m \<Longrightarrow> spec_advance network channel c q s f t m = (res, m') \<Longrightarrow> evolves m m'"
  unfolding spec_advance_def
  by (erule (1) spec_mutate_evolves) (blast dest: mutations_need_record advance_mutation_step)+

lemma spec_redeem_evolves:
  "good m \<Longrightarrow> spec_redeem network channel c ref t m = (res, m') \<Longrightarrow> evolves m m'"
  unfolding spec_redeem_def
  by (erule (1) spec_mutate_evolves) (blast dest: mutations_need_record redeem_mutation_step)+

lemma spec_finalize_evolves:
  "good m \<Longrightarrow> spec_finalize network channel reason e t m = (res, m') \<Longrightarrow> evolves m m'"
  unfolding spec_finalize_def
  by (erule (1) spec_mutate_evolves) (blast dest: mutations_need_record finalize_mutation_step)+

lemma spec_get_evolves: "spec_get network channel m = (res, m') \<Longrightarrow> evolves m m'"
  by (auto simp: spec_get_def split: sum.splits)

lemma spec_create_evolves:
  assumes "spec_create r m = (res, m')" and "wf_record r"
  shows "evolves m m'"
proof (cases "channel_key (r_network r) (r_channel_id r)")
  case (Inl e)
  with assms show ?thesis by (simp add: spec_create_def)
next
  case (Inr k)
  with assms(2) have "keyed k r" by (simp add: keyed_def)
  with assms(1) Inr show ?thesis
    by (auto simp: spec_create_def atomically_def create_mutation_def intro: evolves_insert
        split: option.splits if_splits)
qed

text \<open>The key of a validated network and channel ID.\<close>

lemma drops_text_0 [simp]: "drops_text ''0''"
  by (simp add: drops_text_def max_drops_digits_def is_digit_def ch_def)

lemma signature_text_00 [simp]: "signature_text ''00''"
  by (simp add: signature_text_def max_claim_signature_length_def is_hex_def is_digit_def ch_def)

lemma channel_key_ok:
  "network \<in> set xrpl_networks \<Longrightarrow> hex64 channel \<Longrightarrow>
     channel_key network channel = Inr (channel_prefix network @ py_upper channel)"
proof -
  assume "network \<in> set xrpl_networks" "hex64 channel"
  moreover have "voucher_payload channel ''0'' ''00'' = Inr (channel, ''0'', ''00'')"
    using \<open>hex64 channel\<close> by (simp add: voucher_payload_Inr)
  ultimately show ?thesis by (simp add: channel_key_def)
qed

lemma wf_record_key:
  "wf_record r \<Longrightarrow> channel_key (r_network r) (r_channel_id r) =
     Inr (channel_prefix (r_network r) @ r_channel_id r)"
  by (simp add: wf_record_def channel_key_ok)

lemma network_no_colon: "n \<in> set xrpl_networks \<Longrightarrow> CHR '':'' \<notin> set n"
  by (auto simp: xrpl_networks_def)

lemma channel_prefix_split:
  assumes "n \<in> set xrpl_networks" and "n' \<in> set xrpl_networks"
    and "channel_prefix n @ c = channel_prefix n' @ c'"
  shows "n = n' \<and> c = c'"
proof -
  have eq: "n @ CHR '':'' # c = n' @ CHR '':'' # c'" using assms(3) by (simp add: channel_prefix_def)
  have "takeWhile (\<lambda>x. x \<noteq> CHR '':'') (n @ CHR '':'' # c) = n" if "CHR '':'' \<notin> set n" for n c
    using that by (subst takeWhile_append2) auto
  with network_no_colon [OF assms(1)] network_no_colon [OF assms(2)] have "n = n'" by (metis eq)
  with eq show ?thesis by simp
qed

lemma keyed_identity:
  assumes "keyed k r" and "channel_key network channel = Inr k" and "hex64 channel"
  shows "r_network r = network \<and> r_channel_id r = py_upper channel"
proof -
  have n: "network \<in> set xrpl_networks"
    using assms(2) by (auto simp: channel_key_def res_iffs)
  have k: "k = channel_prefix network @ py_upper channel"
    using assms(2,3) n by (simp add: channel_key_ok)
  from assms(1) have wf: "wf_record r" and "channel_key (r_network r) (r_channel_id r) = Inr k"
    unfolding keyed_def by blast+
  with k have split: "channel_prefix (r_network r) @ r_channel_id r = channel_prefix network @ py_upper channel"
    using wf_record_key [OF wf] by simp
  have "r_network r \<in> set xrpl_networks" using wf unfolding wf_record_def by blast
  from channel_prefix_split [OF this n split] show ?thesis .
qed

section \<open>The interface\<close>

definition linearizable ::
  "('w \<Rightarrow> bool) \<Rightarrow> ('w \<Rightarrow> channel_map) \<Rightarrow> (channel_map \<Rightarrow> 'a res \<times> channel_map \<Rightarrow> bool) \<Rightarrow>
     ('w, 'a) proc \<Rightarrow> bool"
where
  "linearizable okay view spec p \<longleftrightarrow> (\<forall>w r w'. okay w \<longrightarrow> p w = (r, w') \<longrightarrow>
     okay w' \<and> evolves (view w) (view w') \<and>
     ((\<exists>m1 m2. evolves (view w) m1 \<and> spec m1 (r, m2) \<and> evolves m2 (view w')) \<or>
      (\<exists>msg. r = Inl (OtherError msg))))"

lemma linearizableI:
  assumes "\<And>w r w'. okay w \<Longrightarrow> p w = (r, w') \<Longrightarrow> okay w' \<and> spec (view w) (r, view w') \<and> evolves (view w) (view w')"
  shows "linearizable okay view spec p"
  unfolding linearizable_def using assms by (meson evolves_refl)

lemma linearizableE:
  assumes "linearizable okay view spec p" and "okay w" and "p w = (Inr x, w')"
  obtains m1 m2 where "okay w'" "evolves (view w) m1" "spec m1 (Inr x, m2)" "evolves m2 (view w')"
  using assms unfolding linearizable_def by blast

locale channel_store =
  fixes ops :: "'w store_ops"
    and view :: "'w \<Rightarrow> channel_map"
    and okay :: "'w \<Rightarrow> bool"
  assumes inv_good: "okay w \<Longrightarrow> good (view w)"
    and create_law: "wf_record r \<Longrightarrow>
      linearizable okay view (\<lambda>m out. out = spec_create r m) (st_create ops r)"
    and get_law: "hex64 channel \<Longrightarrow>
      linearizable okay view (\<lambda>m out. out = spec_get network channel m) (st_get ops network channel)"
    and advance_law: "linearizable okay view
      (\<lambda>m out. \<exists>t. (\<forall>t'. timestamp = Some t' \<longrightarrow> t = t') \<and>
         out = spec_advance network channel cumulative requested signature funded t m)
      (st_advance ops network channel cumulative requested signature funded timestamp)"
    and redeem_law: "linearizable okay view
      (\<lambda>m out. \<exists>t. (\<forall>t'. timestamp = Some t' \<longrightarrow> t = t') \<and>
         out = spec_redeem network channel cumulative reference t m)
      (st_mark_redeemed ops network channel cumulative reference timestamp)"
    and finalize_law: "linearizable okay view
      (\<lambda>m out. \<exists>t. (\<forall>t'. timestamp = Some t' \<longrightarrow> t = t') \<and>
         out = spec_finalize network channel reason expected t m)
      (st_finalize ops network channel reason expected timestamp)"
    and scan_law: "linearizable okay view
      (\<lambda>m out. snd out = m \<and> (\<forall>c rs. fst out = Inr (c, rs) \<longrightarrow>
         (\<forall>r \<in> set rs. r_network r = network \<and> (\<exists>k. m k = Some r))))
      (st_scan ops network cursor limit)"
    and claim_law: "linearizable okay view (\<lambda>m out. snd out = m) (st_claim ops network channel seconds)"
    and release_law: "linearizable okay view (\<lambda>m out. snd out = m) (st_release ops network channel lease)"

end
