(* ===== verification/Redis.thy ===== *)
theory Redis
  imports StoreSpec
begin

text \<open>
  Redis as the stack uses it. The server is the in-process double \<open>FakeRedis\<close> of
  \<open>tests/fakes.py\<close>: string keys with an optional expiry, hashes, \<open>SET NX EX\<close>, \<open>SCAN\<close>, the
  compare-and-delete script, and pipelines with optimistic locking. Times are microseconds. A
  string is text or the JSON text of a channel record, kept as the record it parses to.

  A transaction of the code is a loop: \<open>WATCH\<close> some keys, read them, decide, and either return or
  queue commands for \<open>EXEC\<close>, which fails when a watched key changed meanwhile. What other
  clients (and the clock) do between the reads and \<open>EXEC\<close> is a list of rivals, one per attempt.
  \<open>watch_loop_linear\<close> shows that such a loop acts atomically at one moment, whatever the rivals
  do; both durable stores build on it.
\<close>

section \<open>The server\<close>

datatype redis_value = Text string | Json pc_record

record redis =
  rd_now :: int
  rd_strings :: "(string \<times> (redis_value \<times> int option)) list"
  rd_hashes :: "(string \<times> (string \<times> string) list) list"

definition expired :: "int \<Rightarrow> int option \<Rightarrow> bool" where
  "expired now expires_at = (case expires_at of None \<Rightarrow> False | Some t \<Rightarrow> t \<le> now)"

definition purge :: "redis \<Rightarrow> redis" where
  "purge db = db\<lparr>rd_strings := filter (\<lambda>(k, v, x). \<not> expired (rd_now db) x) (rd_strings db)\<rparr>"

definition rget :: "redis \<Rightarrow> string \<Rightarrow> redis_value option" where
  "rget db key = map_option fst (map_of (rd_strings (purge db)) key)"

definition rmget :: "redis \<Rightarrow> string list \<Rightarrow> redis_value option list" where
  "rmget db keys = map (rget db) keys"

definition expires_at :: "redis \<Rightarrow> int option \<Rightarrow> int option" where
  "expires_at db ttl = (case ttl of None \<Rightarrow> None | Some s \<Rightarrow> Some (rd_now db + s * 1000000))"

definition rset :: "string \<Rightarrow> redis_value \<Rightarrow> int option \<Rightarrow> redis \<Rightarrow> redis" where
  "rset key v ex db =
     (let db' = purge db in db'\<lparr>rd_strings := AList.update key (v, expires_at db' ex) (rd_strings db')\<rparr>)"

text \<open>\<open>SET key value NX EX ttl\<close>: whether the key was set.\<close>

definition rset_nx :: "string \<Rightarrow> redis_value \<Rightarrow> int option \<Rightarrow> redis \<Rightarrow> bool \<times> redis" where
  "rset_nx key v ex db =
     (if rget db key \<noteq> None then (False, purge db) else (True, rset key v ex db))"

definition rdelete :: "string \<Rightarrow> redis \<Rightarrow> redis" where
  "rdelete key db = (let db' = purge db in
     db'\<lparr>rd_strings := AList.delete key (rd_strings db'), rd_hashes := AList.delete key (rd_hashes db')\<rparr>)"

text \<open>The script of \<open>release_redemption\<close>: delete the key if it holds the expected text.\<close>

definition rcompare_delete :: "string \<Rightarrow> redis_value \<Rightarrow> redis \<Rightarrow> redis" where
  "rcompare_delete key expected db = (if rget db key \<noteq> Some expected then purge db else rdelete key db)"

definition rscan :: "int \<Rightarrow> string \<Rightarrow> int \<Rightarrow> redis \<Rightarrow> int \<times> string list" where
  "rscan cursor prefix count db =
     (let keys = sort (filter (starts_with prefix) (map fst (rd_strings (purge db))));
          stop = min (int (length keys)) (cursor + count)
      in (if int (length keys) \<le> stop then 0 else stop,
          take (nat (stop - cursor)) (drop (nat cursor) keys)))"

definition rhgetall :: "string \<Rightarrow> redis \<Rightarrow> (string \<times> string) list" where
  "rhgetall key db = (case map_of (rd_hashes db) key of None \<Rightarrow> [] | Some h \<Rightarrow> h)"

definition radvance :: "int \<Rightarrow> redis \<Rightarrow> redis" where
  "radvance micros_passed db = purge (db\<lparr>rd_now := rd_now db + micros_passed\<rparr>)"

definition redis_init :: "int \<Rightarrow> redis" where
  "redis_init now = \<lparr>rd_now = now, rd_strings = [], rd_hashes = []\<rparr>"

datatype rcommand = RSet string redis_value "int option" | RDelete string

fun run_command :: "rcommand \<Rightarrow> redis \<Rightarrow> redis" where
  "run_command (RSet k v ex) db = rset k v ex db"
| "run_command (RDelete k) db = rdelete k db"

definition rexec :: "rcommand list \<Rightarrow> redis \<Rightarrow> redis" where
  "rexec cmds db = fold run_command cmds (purge db)"

section \<open>Optimistic transactions\<close>

datatype 'a plan = Return "'a res" | Commit "rcommand list" 'a

type_synonym rivals = "(redis \<Rightarrow> redis) list"

fun watch_loop ::
  "string list \<Rightarrow> (redis_value option list \<Rightarrow> 'a plan) \<Rightarrow> rivals \<Rightarrow> redis \<Rightarrow> 'a res \<times> redis \<times> rivals"
where
  "watch_loop keys plan [] db = (case plan (rmget db keys) of
     Return r \<Rightarrow> (r, db, [])
   | Commit cmds x \<Rightarrow> (Inr x, rexec cmds db, []))"
| "watch_loop keys plan (rival # rivals) db = (case plan (rmget db keys) of
     Return r \<Rightarrow> (r, db, rival # rivals)
   | Commit cmds x \<Rightarrow>
       let db' = rival db in
       if rmget db' keys \<noteq> rmget db keys then watch_loop keys plan rivals db'
       else (Inr x, rexec cmds db', rivals))"

text \<open>
  A client of the server: the database, what the others will do, its millisecond clock, and how
  many UUIDs it has drawn.
\<close>

record redis_client =
  rc_db :: redis
  rc_rivals :: rivals
  rc_clock :: int
  rc_drawn :: nat

definition transact ::
  "string list \<Rightarrow> (redis_value option list \<Rightarrow> 'a plan) \<Rightarrow> (redis_client, 'a) proc"
where
  "transact keys plan = (\<lambda>s. case watch_loop keys plan (rc_rivals s) (rc_db s) of
     (r, db, rivals) \<Rightarrow> (r, s\<lparr>rc_db := db, rc_rivals := rivals\<rparr>))"

text \<open>The database the loop acts on is the first one with a prefix of the rivals applied.\<close>

definition run_rivals :: "rivals \<Rightarrow> redis \<Rightarrow> redis" where
  "run_rivals rivals db = fold (\<lambda>f d. f d) rivals db"

definition atomic_plan :: "string list \<Rightarrow> (redis_value option list \<Rightarrow> 'a plan) \<Rightarrow> redis \<Rightarrow> 'a res \<times> redis" where
  "atomic_plan keys plan db = (case plan (rmget db keys) of
     Return r \<Rightarrow> (r, db) | Commit cmds x \<Rightarrow> (Inr x, rexec cmds db))"

lemma watch_loop_linear:
  "watch_loop keys plan rivals db = (r, db2, rest) \<Longrightarrow>
     \<exists>used. rivals = used @ rest \<and> atomic_plan keys plan (run_rivals used db) = (r, db2)"
proof (induction rivals arbitrary: db)
  case Nil
  then show ?case
    by (auto simp: atomic_plan_def run_rivals_def split: plan.splits)
next
  case (Cons rival rivals)
  show ?case
  proof (cases "plan (rmget db keys)")
    case (Return r0)
    with Cons.prems show ?thesis
      by (auto simp: atomic_plan_def run_rivals_def intro!: exI [of _ "[]"])
  next
    case (Commit cmds x)
    show ?thesis
    proof (cases "rmget (rival db) keys = rmget db keys")
      case True
      with Commit Cons.prems show ?thesis
        by (auto simp: atomic_plan_def run_rivals_def intro!: exI [of _ "[rival]"])
    next
      case False
      with Commit Cons.prems have "watch_loop keys plan rivals (rival db) = (r, db2, rest)" by simp
      from Cons.IH [OF this] obtain used
        where "rivals = used @ rest" "atomic_plan keys plan (run_rivals used (rival db)) = (r, db2)"
        by blast
      then show ?thesis by (auto simp: run_rivals_def intro!: exI [of _ "rival # used"])
    qed
  qed
qed

lemma transact_linear:
  assumes "transact keys plan s = (r, s')"
  shows "\<exists>used. rc_rivals s = used @ rc_rivals s' \<and>
    atomic_plan keys plan (run_rivals used (rc_db s)) = (r, rc_db s') \<and>
    s' = s\<lparr>rc_db := rc_db s', rc_rivals := rc_rivals s'\<rparr>"
  using assms by (auto simp: transact_def split: prod.splits dest!: watch_loop_linear)

text \<open>The loop returns within one attempt more than there are rivals: it cannot retry for ever.\<close>

lemma watch_loop_no_rivals: "fst (watch_loop keys plan [] db) = fst (atomic_plan keys plan db)"
  by (simp add: atomic_plan_def split: plan.split)

section \<open>Reading and writing keys\<close>

lemma map_of_filter_val:
  "distinct (map fst xs) \<Longrightarrow>
     map_of (filter (\<lambda>(k, v). p v) xs) k = (case map_of xs k of None \<Rightarrow> None | Some v \<Rightarrow> if p v then Some v else None)"
proof (induction xs)
  case (Cons x xs)
  then show ?case
    by (cases x) (auto split: option.splits dest: map_of_SomeD simp: image_iff)
qed simp

definition rd_ok :: "redis \<Rightarrow> bool" where
  "rd_ok db \<longleftrightarrow> distinct (map fst (rd_strings db))"

lemma distinct_filter_keys: "distinct (map fst xs) \<Longrightarrow> distinct (map fst (filter p xs))"
  by (induction xs) auto

lemma rd_ok_purge [simp]: "rd_ok db \<Longrightarrow> rd_ok (purge db)"
  by (simp add: rd_ok_def purge_def distinct_filter_keys)

lemma rd_now_simps [simp]:
  "rd_now (purge db) = rd_now db" "rd_now (rset k v ex db) = rd_now db" "rd_now (rdelete k db) = rd_now db"
  by (simp_all add: purge_def rset_def rdelete_def Let_def)

lemma purge_idem [simp]: "purge (purge db) = purge db"
  by (simp add: purge_def)

lemma map_of_purge:
  "rd_ok db \<Longrightarrow> map_of (rd_strings (purge db)) k = (case map_of (rd_strings db) k of None \<Rightarrow> None
     | Some (v, x) \<Rightarrow> if expired (rd_now db) x then None else Some (v, x))"
  using map_of_filter_val [of "rd_strings db" "\<lambda>(v, x). \<not> expired (rd_now db) x" k]
  by (auto simp: rd_ok_def purge_def case_prod_unfold split: option.splits)

lemma map_of_rset:
  "rd_ok db \<Longrightarrow> map_of (rd_strings (rset k v ex db)) k' =
     (if k' = k then Some (v, expires_at db ex) else map_of (rd_strings (purge db)) k')"
  by (auto simp: rset_def Let_def update_conv' expires_at_def split: option.splits)

lemma map_of_rdelete:
  "rd_ok db \<Longrightarrow> map_of (rd_strings (rdelete k db)) k' =
     (if k' = k then None else map_of (rd_strings (purge db)) k')"
  by (auto simp: rdelete_def Let_def delete_conv')

lemma rd_ok_rset [simp]: "rd_ok db \<Longrightarrow> rd_ok (rset k v ex db)"
  using rd_ok_purge [of db] by (simp add: rd_ok_def rset_def Let_def distinct_update)

lemma rd_ok_rdelete [simp]: "rd_ok db \<Longrightarrow> rd_ok (rdelete k db)"
  using rd_ok_purge [of db] by (simp add: rd_ok_def rdelete_def Let_def distinct_delete)

lemma rd_ok_run_command [simp]: "rd_ok db \<Longrightarrow> rd_ok (run_command c db)"
  by (cases c) simp_all

lemma rd_ok_rexec [simp]: "rd_ok db \<Longrightarrow> rd_ok (rexec cmds db)"
proof -
  have "rd_ok db' \<Longrightarrow> rd_ok (fold run_command cmds db')" for db'
    by (induction cmds arbitrary: db') auto
  then show "rd_ok db \<Longrightarrow> rd_ok (rexec cmds db)" by (simp add: rexec_def)
qed

lemma rget_raw:
  "rd_ok db \<Longrightarrow> rget db k = (case map_of (rd_strings db) k of None \<Rightarrow> None
     | Some (v, x) \<Rightarrow> if expired (rd_now db) x then None else Some v)"
  by (auto simp: rget_def purge_def rd_ok_def split: option.splits prod.splits)
    (auto simp: map_of_filter_val [where p = "\<lambda>(v, x). \<not> expired (rd_now db) x", simplified case_prod_unfold]
      case_prod_unfold split: if_splits)

end
