(* ===== verification/ReplayStore.thy ===== *)
theory ReplayStore
  imports Redis
begin

text \<open>
  The replay stores of \<open>replay_store.py\<close>: how long a marker must live, the process-local and
  the Redis challenge claim, and the two-key reservation (InvoiceID and blob hash) of the charge
  intent with its pending and processed markers. \<open>sha256\<close> stands for the hexadecimal digest,
  \<open>fromiso\<close> for \<open>datetime.fromisoformat\<close> with \<open>None\<close> for its \<open>ValueError\<close>.
\<close>

section \<open>Keys and lifetimes\<close>

definition replay_error :: exn where
  "replay_error = ValueError ''Transaction already processed (replay attack)''"

definition challenge_claim_prefix :: string where
  "challenge_claim_prefix = ''facilitator:replay:paychannel-challenge:''"

definition challenge_key :: "(string \<Rightarrow> string) \<Rightarrow> string \<Rightarrow> string res" where
  "challenge_key sha256 challenge_id = (let normalized = py_strip challenge_id in
     if normalized = [] then Inl (ValueError ''challenge_id is required'')
     else Inr (challenge_claim_prefix @ sha256 normalized))"

definition validate_retention :: "int option \<Rightarrow> int option res" where
  "validate_retention retention = (case retention of None \<Rightarrow> Inr None
   | Some r \<Rightarrow> if r \<le> 0 then Inl (ValueError ''retention_seconds must be a positive integer or None'')
              else Inr (Some r))"

text \<open>\<open>value.replace("Z", "+00:00")\<close>\<close>

definition iso_offset :: "string \<Rightarrow> string" where
  "iso_offset s = concat (map (\<lambda>c. if c = CHR ''Z'' then ''+00:00'' else [c]) s)"

definition replay_retention_seconds ::
  "(string \<Rightarrow> datetime option) \<Rightarrow> string option \<Rightarrow> int \<Rightarrow> datetime \<Rightarrow> int res"
where
  "replay_retention_seconds fromiso expires timeout now = (case expires of
     None \<Rightarrow> Inl (ValueError ''Charge challenge carries no usable expires timestamp'')
   | Some e \<Rightarrow>
       if py_strip e = [] then Inl (ValueError ''Charge challenge carries no usable expires timestamp'')
       else if timeout \<le> 0 then Inl (ValueError ''validation_timeout_seconds must be a positive integer'')
       else (case fromiso (iso_offset e) of
         None \<Rightarrow> Inl (ValueError ''Charge challenge carries no usable expires timestamp'')
       | Some expiry \<Rightarrow>
           if \<not> is_aware expiry
             then Inl (ValueError ''Charge challenge expires timestamp must include a time zone'')
           else if \<not> is_aware now then Inl (ValueError ''Replay-retention clock must be timezone-aware'')
           else let remaining = total_seconds (micros expiry - micros now) in
             if remaining \<le> 0 then Inl (ValueError ''Charge challenge expired'')
             else Inr (\<lceil>remaining\<rceil> + timeout + 60)))"

definition replay_pending_ttl_seconds :: "int \<Rightarrow> int \<Rightarrow> int" where
  "replay_pending_ttl_seconds processed_ttl validation_timeout =
     max processed_ttl (max (validation_timeout + 60) 300)"

section \<open>The process-local challenge store\<close>

text \<open>\<open>time()\<close> is a float; so is the instant a claim ends.\<close>

record mem_replay =
  mr_claims :: "(string \<times> rat option) list"
  mr_clock :: rat

definition claim_live :: "rat \<Rightarrow> rat option \<Rightarrow> bool" where
  "claim_live now expiry = (case expiry of None \<Rightarrow> True | Some t \<Rightarrow> \<not> t \<le> now)"

definition mem_claim_challenge ::
  "(string \<Rightarrow> string) \<Rightarrow> string \<Rightarrow> int option \<Rightarrow> (mem_replay, bool) proc"
where
  "mem_claim_challenge sha256 challenge_id retention = (\<lambda>s.
     case challenge_key sha256 challenge_id of Inl e \<Rightarrow> (Inl e, s)
   | Inr key \<Rightarrow> (case validate_retention retention of Inl e \<Rightarrow> (Inl e, s)
   | Inr life \<Rightarrow>
       let now = mr_clock s; live = filter (\<lambda>(k, x). claim_live now x) (mr_claims s) in
       if key \<in> fst ` set live then (Inr False, s\<lparr>mr_claims := live\<rparr>)
       else (Inr True, s\<lparr>mr_claims :=
              AList.update key (map_option (\<lambda>r. fl (now + fl (of_int r))) life) live\<rparr>)))"

section \<open>The Redis store\<close>

record replay_config =
  rp_network :: string
  rp_processed_ttl :: int
  rp_pending_ttl :: int

record reservation =
  rv_invoice :: "string option"
  rv_blob :: string
  rv_id :: string
  rv_retention :: "int option"

definition invoice_key :: "replay_config \<Rightarrow> string \<Rightarrow> string" where
  "invoice_key cfg invoice = ''facilitator:replay:'' @ rp_network cfg @ '':invoice:'' @ invoice"

definition blob_key :: "replay_config \<Rightarrow> string \<Rightarrow> string" where
  "blob_key cfg blob = ''facilitator:replay:'' @ rp_network cfg @ '':blob:'' @ blob"

definition replay_keys :: "replay_config \<Rightarrow> string option \<Rightarrow> string \<Rightarrow> string list" where
  "replay_keys cfg invoice blob =
     (case invoice of None \<Rightarrow> [] | Some i \<Rightarrow> [invoice_key cfg i]) @ [blob_key cfg blob]"

definition pending_value :: "string \<Rightarrow> redis_value" where
  "pending_value reservation_id = Text (''pending:'' @ reservation_id)"

definition processed_value :: redis_value where
  "processed_value = Text ''processed''"

definition claim_plan :: "string \<Rightarrow> int option \<Rightarrow> redis_value option list \<Rightarrow> bool plan" where
  "claim_plan key life values =
     (if hd values \<noteq> None then Return (Inr False) else Commit [RSet key processed_value life] True)"

definition rp_claim_challenge ::
  "(string \<Rightarrow> string) \<Rightarrow> string \<Rightarrow> int option \<Rightarrow> (redis_client, bool) proc"
where
  "rp_claim_challenge sha256 challenge_id retention =
     andthen (lift (challenge_key sha256 challenge_id)) (\<lambda>key.
     andthen (lift (validate_retention retention)) (\<lambda>life.
     transact [key] (claim_plan key life)))"

definition rp_guard_available :: "replay_config \<Rightarrow> string option \<Rightarrow> string \<Rightarrow> (redis_client, unit) proc" where
  "rp_guard_available cfg invoice blob = (\<lambda>s.
     (guard_res (list_all (\<lambda>v. v = None) (rmget (rc_db s) (replay_keys cfg invoice blob))) replay_error, s))"

definition marker_ttl :: "int option \<Rightarrow> int \<Rightarrow> int option" where
  "marker_ttl life least = (case life of None \<Rightarrow> None | Some r \<Rightarrow> Some (max r least))"

definition reserve_plan :: "replay_config \<Rightarrow> reservation \<Rightarrow> redis_value option list \<Rightarrow> reservation plan" where
  "reserve_plan cfg rv values =
     (if list_ex (\<lambda>v. v \<noteq> None) values then Return (Inl replay_error)
      else Commit
        (map (\<lambda>key. RSet key (pending_value (rv_id rv)) (marker_ttl (rv_retention rv) (rp_pending_ttl cfg)))
           (replay_keys cfg (rv_invoice rv) (rv_blob rv)))
        rv)"

definition rp_reserve ::
  "(nat \<Rightarrow> string) \<Rightarrow> replay_config \<Rightarrow> string option \<Rightarrow> string \<Rightarrow> int option \<Rightarrow>
     (redis_client, reservation) proc"
where
  "rp_reserve uuid4 cfg invoice blob retention = (\<lambda>s. case validate_retention retention of
     Inl e \<Rightarrow> (Inl e, s)
   | Inr life \<Rightarrow>
       transact (replay_keys cfg invoice blob)
         (reserve_plan cfg \<lparr>rv_invoice = invoice, rv_blob = blob, rv_id = uuid4 (rc_drawn s), rv_retention = life\<rparr>)
         (s\<lparr>rc_drawn := Suc (rc_drawn s)\<rparr>))"

definition processed_commands :: "replay_config \<Rightarrow> reservation \<Rightarrow> rcommand list" where
  "processed_commands cfg rv =
     map (\<lambda>key. RSet key processed_value (marker_ttl (rv_retention rv) (rp_processed_ttl cfg)))
       (replay_keys cfg (rv_invoice rv) (rv_blob rv))"

definition rp_mark_processed :: "replay_config \<Rightarrow> reservation \<Rightarrow> (redis_client, unit) proc" where
  "rp_mark_processed cfg rv = (\<lambda>s. case validate_retention (rv_retention rv) of
     Inl e \<Rightarrow> (Inl e, s)
   | Inr life \<Rightarrow> (Inr (), s\<lparr>rc_db := rexec (processed_commands cfg rv) (rc_db s)\<rparr>))"

definition release_plan :: "replay_config \<Rightarrow> reservation \<Rightarrow> redis_value option list \<Rightarrow> unit plan" where
  "release_plan cfg rv values =
     (let mine = (\<lambda>v. v = Some (pending_value (rv_id rv))) in
      Commit
        ((case rv_invoice rv of None \<Rightarrow> []
          | Some i \<Rightarrow> if mine (hd values) then [RDelete (invoice_key cfg i)] else []) @
         (if mine (last values) then [RDelete (blob_key cfg (rv_blob rv))] else []))
        ())"

definition rp_release_pending :: "replay_config \<Rightarrow> reservation \<Rightarrow> (redis_client, unit) proc" where
  "rp_release_pending cfg rv =
     transact (replay_keys cfg (rv_invoice rv) (rv_blob rv)) (release_plan cfg rv)"


section \<open>What other clients and the clock may do\<close>

text \<open>
  One event is one atomic transaction of some replica, or time passing. \<open>transact_linear\<close>
  shows that the transactions of the code are atomic, so every history of the database is such a
  list.
\<close>

datatype replay_event =
    EvClaim string "int option"
  | EvReserve reservation
  | EvMark reservation
  | EvRelease reservation
  | EvWait nat

fun run_event :: "replay_config \<Rightarrow> replay_event \<Rightarrow> redis \<Rightarrow> redis" where
  "run_event cfg (EvClaim digest life) db =
     snd (atomic_plan [challenge_claim_prefix @ digest] (claim_plan (challenge_claim_prefix @ digest) life) db)"
| "run_event cfg (EvReserve rv) db =
     snd (atomic_plan (replay_keys cfg (rv_invoice rv) (rv_blob rv)) (reserve_plan cfg rv) db)"
| "run_event cfg (EvMark rv) db = rexec (processed_commands cfg rv) db"
| "run_event cfg (EvRelease rv) db =
     snd (atomic_plan (replay_keys cfg (rv_invoice rv) (rv_blob rv)) (release_plan cfg rv) db)"
| "run_event cfg (EvWait us) db = radvance (int us) db"

definition run_events :: "replay_config \<Rightarrow> replay_event list \<Rightarrow> redis \<Rightarrow> redis" where
  "run_events cfg evs db = fold (run_event cfg) evs db"

text \<open>
  An event spares a reservation when it is not its release by the holder, and a mark of another
  reservation does not touch its keys.
\<close>

definition rv_keys :: "replay_config \<Rightarrow> reservation \<Rightarrow> string list" where
  "rv_keys cfg rv = replay_keys cfg (rv_invoice rv) (rv_blob rv)"

fun spares :: "replay_config \<Rightarrow> reservation \<Rightarrow> replay_event \<Rightarrow> bool" where
  "spares cfg rv (EvRelease rv') = (rv_id rv' \<noteq> rv_id rv)"
| "spares cfg rv (EvMark rv') \<longleftrightarrow> rv' = rv \<or> set (rv_keys cfg rv') \<inter> set (rv_keys cfg rv) = {}"
| "spares cfg rv _ = True"

section \<open>Markers live long enough\<close>

text \<open>A key holds one of some values, at least until a moment.\<close>

definition lasts :: "int option \<Rightarrow> int \<Rightarrow> bool" where
  "lasts x until = (case x of None \<Rightarrow> True | Some t \<Rightarrow> until \<le> t)"

definition marked :: "redis \<Rightarrow> string \<Rightarrow> redis_value set \<Rightarrow> int \<Rightarrow> bool" where
  "marked db k vs until \<longleftrightarrow>
     (\<exists>v x. map_of (rd_strings db) k = Some (v, x) \<and> v \<in> vs \<and> lasts x until)"

lemma marked_live: "rd_ok db \<Longrightarrow> marked db k vs t \<Longrightarrow> rd_now db < t \<Longrightarrow> \<exists>v \<in> vs. rget db k = Some v"
  by (auto simp: marked_def rget_raw expired_def lasts_def split: option.splits)

lemma marked_purge: "rd_ok db \<Longrightarrow> marked db k vs t \<Longrightarrow> rd_now db < t \<Longrightarrow> marked (purge db) k vs t"
  by (auto simp: marked_def map_of_purge expired_def lasts_def split: option.splits)

lemma marked_rset:
  "rd_ok db \<Longrightarrow> marked db k vs t \<Longrightarrow> rd_now db < t \<Longrightarrow>
     k' \<noteq> k \<or> (v \<in> vs \<and> lasts (expires_at db ex) t) \<Longrightarrow> marked (rset k' v ex db) k vs t"
  using marked_purge [of db k vs t] by (auto simp: marked_def map_of_rset)

lemma marked_rdelete:
  "rd_ok db \<Longrightarrow> marked db k vs t \<Longrightarrow> rd_now db < t \<Longrightarrow> k' \<noteq> k \<Longrightarrow> marked (rdelete k' db) k vs t"
  using marked_purge [of db k vs t] by (auto simp: marked_def map_of_rdelete)

fun command_spares :: "redis \<Rightarrow> string \<Rightarrow> redis_value set \<Rightarrow> int \<Rightarrow> rcommand \<Rightarrow> bool" where
  "command_spares db k vs t (RSet k' v ex) \<longleftrightarrow> k' \<noteq> k \<or> (v \<in> vs \<and> lasts (expires_at db ex) t)"
| "command_spares db k vs t (RDelete k') \<longleftrightarrow> k' \<noteq> k"

lemma rd_now_run_command [simp]: "rd_now (run_command c db) = rd_now db"
  by (cases c) simp_all

lemma rd_now_fold [simp]: "rd_now (fold run_command cs db) = rd_now db"
  by (induction cs arbitrary: db) simp_all

lemma rd_now_rexec [simp]: "rd_now (rexec cs db) = rd_now db"
  by (simp add: rexec_def)

lemma command_spares_now: "rd_now db = rd_now db' \<Longrightarrow> command_spares db k vs t c = command_spares db' k vs t c"
  by (cases c) (simp_all add: expires_at_def cong: option.case_cong)

lemma marked_run_command:
  "rd_ok db \<Longrightarrow> marked db k vs t \<Longrightarrow> rd_now db < t \<Longrightarrow> command_spares db k vs t c \<Longrightarrow>
     marked (run_command c db) k vs t"
  by (cases c) (auto intro: marked_rset marked_rdelete)

lemma marked_fold:
  assumes "rd_ok db" and "marked db k vs t" and "rd_now db < t"
    and "\<And>c. c \<in> set cs \<Longrightarrow> command_spares db k vs t c"
  shows "marked (fold run_command cs db) k vs t"
  using assms
proof (induction cs arbitrary: db)
  case (Cons c cs)
  have "marked (run_command c db) k vs t"
    using Cons.prems by (intro marked_run_command) auto
  moreover have "command_spares (run_command c db) k vs t c'" if "c' \<in> set cs" for c'
    using Cons.prems(4) [of c'] that command_spares_now [of "run_command c db" db] by simp
  ultimately show ?case using Cons by simp
qed simp

lemma marked_rexec:
  assumes "rd_ok db" and "marked db k vs t" and "rd_now db < t"
    and "\<And>c. c \<in> set cs \<Longrightarrow> command_spares db k vs t c"
  shows "marked (rexec cs db) k vs t"
  using assms command_spares_now [of "purge db" db]
  by (auto simp: rexec_def intro!: marked_fold marked_purge)

text \<open>Setting several keys at once marks all of them.\<close>

lemma rexec_marks:
  assumes "rd_ok db" and "k \<in> set keys" and "v \<in> vs" and "lasts (expires_at db ex) t" and "rd_now db < t"
  shows "marked (rexec (map (\<lambda>k. RSet k v ex) keys) db) k vs t"
proof -
  obtain a b where keys: "keys = a @ k # b" using assms(2) by (blast dest: split_list)
  let ?f = "\<lambda>ks. fold run_command (map (\<lambda>k. RSet k v ex) ks)"
  let ?d = "?f a (purge db)"
  have d: "rd_ok ?d" "rd_now ?d = rd_now db"
    using rd_ok_rexec [OF assms(1), of "map (\<lambda>k. RSet k v ex) a"] by (simp_all add: rexec_def)
  then have e: "expires_at ?d ex = expires_at db ex" by (simp add: expires_at_def cong: option.case_cong)
  have "marked (rset k v ex ?d) k vs t" using d e assms by (simp add: marked_def map_of_rset)
  moreover have "lasts (expires_at (rset k v ex ?d) ex) t" using d e assms by (simp add: expires_at_def cong: option.case_cong)
  ultimately have "marked (?f b (rset k v ex ?d)) k vs t"
    using d assms by (intro marked_fold) auto
  then show ?thesis by (simp add: rexec_def keys)
qed

lemma rmget_replay_keys [simp]:
  "last (rmget db (replay_keys cfg io blob)) = rget db (blob_key cfg blob)"
  "hd (rmget db (replay_keys cfg (Some i) blob)) = rget db (invoice_key cfg i)"
  by (simp_all add: rmget_def replay_keys_def)

lemma list_ex_rmget: "list_ex (\<lambda>v. v \<noteq> None) (rmget db keys) \<longleftrightarrow> (\<exists>k \<in> set keys. rget db k \<noteq> None)"
  by (auto simp: rmget_def list_ex_iff)

lemma pending_value_eq [simp]:
  "pending_value a = pending_value b \<longleftrightarrow> a = b" "pending_value a \<noteq> processed_value"
  "processed_value \<noteq> pending_value a"
  by (auto simp: pending_value_def processed_value_def)

lemma rd_ok_radvance [simp]: "rd_ok db \<Longrightarrow> rd_ok (radvance n db)"
  unfolding radvance_def by (rule rd_ok_purge) (simp add: rd_ok_def)

lemma rd_now_radvance [simp]: "rd_now (radvance n db) = rd_now db + n"
  by (simp add: radvance_def)

lemma rd_ok_atomic_plan: "rd_ok db \<Longrightarrow> rd_ok (snd (atomic_plan keys plan db))"
  by (auto simp: atomic_plan_def split: plan.split)

lemma rd_now_atomic_plan [simp]: "rd_now (snd (atomic_plan keys plan db)) = rd_now db"
  by (auto simp: atomic_plan_def split: plan.split)

lemma run_event_frame: "rd_ok db \<Longrightarrow> rd_ok (run_event cfg ev db) \<and> rd_now db \<le> rd_now (run_event cfg ev db)"
  by (cases ev) (auto intro: rd_ok_atomic_plan)

lemma run_events_frame: "rd_ok db \<Longrightarrow> rd_ok (run_events cfg evs db) \<and> rd_now db \<le> rd_now (run_events cfg evs db)"
  unfolding run_events_def
proof (induction evs arbitrary: db)
  case (Cons e evs)
  from run_event_frame [OF Cons.prems, of cfg e] Cons.IH [of "run_event cfg e db"] show ?case
    by (auto intro: order_trans)
qed simp

lemma marked_atomic:
  assumes "rd_ok db" and "marked db k vs t" and "rd_now db < t"
    and "\<And>cs x c. plan (rmget db keys) = Commit cs x \<Longrightarrow> c \<in> set cs \<Longrightarrow> command_spares db k vs t c"
  shows "marked (snd (atomic_plan keys plan db)) k vs t"
  using assms by (auto simp: atomic_plan_def split: plan.split intro!: marked_rexec)

definition holder_values :: "reservation \<Rightarrow> redis_value set" where
  "holder_values rv = {pending_value (rv_id rv), processed_value}"

definition within_retention :: "reservation \<Rightarrow> redis \<Rightarrow> int \<Rightarrow> bool" where
  "within_retention rv db t \<longleftrightarrow> (\<forall>r. rv_retention rv = Some r \<longrightarrow> t \<le> rd_now db + r * 1000000)"

lemma marked_release:
  assumes "rd_ok db" and "marked db k (holder_values rv) t" and "rd_now db < t" and "rv_id rv' \<noteq> rv_id rv"
  shows "marked (run_event cfg (EvRelease rv') db) k (holder_values rv) t"
proof -
  have "rget db k \<noteq> Some (pending_value (rv_id rv'))"
    using marked_live [OF assms(1-3)] assms(4) by (auto simp: holder_values_def)
  then show ?thesis unfolding run_event.simps
    by (intro marked_atomic assms(1-3))
      (auto simp: release_plan_def Let_def split: option.splits if_splits)
qed

lemma marked_mark:
  assumes "rd_ok db" and "marked db k (holder_values rv) t" and "rd_now db < t"
    and "k \<in> set (rv_keys cfg rv)" and "within_retention rv db t"
    and "rv' = rv \<or> set (rv_keys cfg rv') \<inter> set (rv_keys cfg rv) = {}"
  shows "marked (run_event cfg (EvMark rv') db) k (holder_values rv) t"
proof -
  have "lasts (expires_at db (marker_ttl (rv_retention rv) (rp_processed_ttl cfg))) t"
    using assms(5) by (auto simp: lasts_def expires_at_def marker_ttl_def within_retention_def split: option.splits)
  then show ?thesis unfolding run_event.simps using assms
    by (intro marked_rexec) (auto simp: processed_commands_def holder_values_def rv_keys_def)
qed

lemma run_event_spares:
  assumes "rd_ok db" and m: "marked db k (holder_values rv) t" and now: "rd_now (run_event cfg ev db) < t"
    and k: "k \<in> set (rv_keys cfg rv)" and w: "within_retention rv db t" and sp: "spares cfg rv ev"
  shows "marked (run_event cfg ev db) k (holder_values rv) t \<and> within_retention rv (run_event cfg ev db) t"
proof
  have now': "rd_now db < t" using now run_event_frame [OF assms(1), of cfg ev] by linarith
  have live: "rget db k \<noteq> None" using marked_live [OF assms(1) m now'] by auto
  show "within_retention rv (run_event cfg ev db) t"
    using w run_event_frame [OF assms(1), of cfg ev] by (fastforce simp: within_retention_def)
  show "marked (run_event cfg ev db) k (holder_values rv) t"
  proof (cases ev)
    case (EvClaim d r)
    then show ?thesis using live
      by (auto simp: claim_plan_def rmget_def intro!: marked_atomic assms(1) m now' split: if_splits)
  next
    case (EvReserve rv')
    then show ?thesis using live
      by (auto simp: reserve_plan_def list_ex_rmget simp del: not_None_eq
          intro!: marked_atomic assms(1) m now' split: if_splits)
  next
    case (EvMark rv')
    with marked_mark [OF assms(1) m now' k w] sp show ?thesis by simp
  next
    case (EvRelease rv')
    with marked_release [OF assms(1) m now'] sp show ?thesis by simp
  next
    case (EvWait n)
    have "marked (db\<lparr>rd_now := rd_now db + int n\<rparr>) k (holder_values rv) t" using m by (simp add: marked_def)
    then show ?thesis using EvWait now assms(1)
      by (auto simp: radvance_def rd_ok_def intro!: marked_purge)
  qed
qed

lemma run_events_spare:
  assumes "rd_ok db" and "marked db k (holder_values rv) t" and "rd_now (run_events cfg evs db) < t"
    and "k \<in> set (rv_keys cfg rv)" and "within_retention rv db t" and "list_all (spares cfg rv) evs"
  shows "marked (run_events cfg evs db) k (holder_values rv) t"
  using assms
proof (induction evs arbitrary: db)
  case Nil
  then show ?case by (simp add: run_events_def)
next
  case (Cons e evs)
  note f = run_event_frame [OF Cons.prems(1), of cfg e]
  have "rd_now (run_event cfg e db) < t"
    using run_events_frame [of "run_event cfg e db" cfg evs] f Cons.prems(3) by (simp add: run_events_def)
  from run_event_spares [OF Cons.prems(1,2) this Cons.prems(4,5)] Cons.prems(3,4,6) f
    Cons.IH [of "run_event cfg e db"] show ?case by (simp add: run_events_def)
qed


section \<open>Reservations and claims exclude each other\<close>

lemma reserve_marks:
  assumes "rd_ok db" and "atomic_plan (rv_keys cfg rv) (reserve_plan cfg rv) db = (Inr x, db')"
  shows "x = rv \<and> rd_ok db' \<and> rd_now db' = rd_now db \<and>
    (\<forall>k \<in> set (rv_keys cfg rv). \<forall>t. rd_now db < t \<longrightarrow> within_retention rv db' t \<longrightarrow>
       marked db' k (holder_values rv) t)"
proof -
  from assms(2) have x: "x = rv" and db': "db' = rexec (map (\<lambda>k. RSet k (pending_value (rv_id rv))
      (marker_ttl (rv_retention rv) (rp_pending_ttl cfg))) (rv_keys cfg rv)) db"
    by (auto simp: atomic_plan_def reserve_plan_def rv_keys_def split: if_splits)
  have "lasts (expires_at db (marker_ttl (rv_retention rv) (rp_pending_ttl cfg))) t"
    if "within_retention rv db' t" for t
    using that by (auto simp: db' lasts_def expires_at_def marker_ttl_def within_retention_def split: option.splits)
  then show ?thesis using assms(1) x unfolding db'
    by (auto simp: holder_values_def intro!: rexec_marks)
qed

lemma reserve_blocked:
  assumes "rd_ok db" and "marked db k vs t" and "rd_now db < t" and "k \<in> set (rv_keys cfg rv)"
  shows "atomic_plan (rv_keys cfg rv) (reserve_plan cfg rv) db = (Inl replay_error, db)"
proof -
  have "rget db k \<noteq> None" using marked_live [OF assms(1-3)] by auto
  then show ?thesis using assms(4)
    by (auto simp: atomic_plan_def reserve_plan_def list_ex_rmget simp del: not_None_eq)
qed

lemma claim_blocked:
  assumes "rd_ok db" and "marked db k vs t" and "rd_now db < t"
  shows "atomic_plan [k] (claim_plan k life) db = (Inr False, db)"
  using marked_live [OF assms] by (auto simp: atomic_plan_def claim_plan_def rmget_def)

lemma claim_marks:
  assumes "rd_ok db" and "atomic_plan [k] (claim_plan k life) db = (Inr True, db')"
    and "lasts (expires_at db' life) t" and "rd_now db' < t"
  shows "marked db' k {processed_value} t \<and> rd_ok db'"
proof -
  from assms(2) have db': "db' = rexec (map (\<lambda>k. RSet k processed_value life) [k]) db"
    by (auto simp: atomic_plan_def claim_plan_def split: if_splits)
  then have "rd_now db' = rd_now db" by simp
  with assms(3,4) have "lasts (expires_at db life) t" "rd_now db < t"
    by (simp_all add: expires_at_def cong: option.case_cong)
  with assms(1) show ?thesis using rexec_marks [of db k "[k]" processed_value "{processed_value}" life t]
    by (simp add: db')
qed

lemma run_rivals_events: "run_rivals (map (run_events cfg) ess) db = run_events cfg (concat ess) db"
  by (induction ess arbitrary: db) (simp_all add: run_rivals_def run_events_def)

lemma run_events_append: "run_events cfg (a @ b) db = run_events cfg b (run_events cfg a db)"
  by (simp add: run_events_def)

lemma map_append_prefix: "map f xs = a @ b \<Longrightarrow> \<exists>ys zs. xs = ys @ zs \<and> a = map f ys"
  by (metis append_eq_map_conv)

text \<open>No challenge claim shares a key with a reservation, and nothing ever deletes it.\<close>

lemma claim_key_apart:
  assumes "rp_network cfg \<in> set xrpl_networks" and "k \<in> set (rv_keys cfg rv)"
  shows "k \<noteq> challenge_claim_prefix @ digest"
  using assms by (auto simp: rv_keys_def replay_keys_def invoice_key_def blob_key_def
      challenge_claim_prefix_def xrpl_networks_def split: option.splits)

lemma claim_survives_event:
  assumes "rd_ok db" and "marked db k vs t" and "rd_now (run_event cfg ev db) < t"
    and "k = challenge_claim_prefix @ digest" and net: "rp_network cfg \<in> set xrpl_networks"
  shows "marked (run_event cfg ev db) k vs t"
proof -
  have now': "rd_now db < t" using assms(3) run_event_frame [OF assms(1), of cfg ev] by linarith
  have live: "rget db k \<noteq> None" using marked_live [OF assms(1,2) now'] by auto
  have apart: "k' \<noteq> k" if "k' \<in> set (rv_keys cfg rv)" for k' rv
    using claim_key_apart [OF net that] assms(4) by blast
  note keys = apart [unfolded rv_keys_def]
  have inv: "invoice_key cfg i \<noteq> k" and blob: "blob_key cfg b \<noteq> k" for i b
    using keys [of _ "\<lparr>rv_invoice = Some i, rv_blob = b, rv_id = [], rv_retention = None\<rparr>"]
    by (auto simp: replay_keys_def)
  show ?thesis
  proof (cases ev)
    case (EvClaim d r)
    then show ?thesis using live
      by (auto simp: claim_plan_def rmget_def intro!: marked_atomic assms(1,2) now' split: if_splits)
  next
    case (EvReserve rv)
    then show ?thesis using keys
      by (auto simp: reserve_plan_def intro!: marked_atomic assms(1,2) now' split: if_splits)
  next
    case (EvMark rv)
    then show ?thesis using keys
      by (auto simp: processed_commands_def intro!: marked_rexec assms(1,2) now')
  next
    case (EvRelease rv)
    then show ?thesis using inv blob
      by (auto simp: release_plan_def Let_def intro!: marked_atomic assms(1,2) now' split: option.splits if_splits)
  next
    case (EvWait n)
    have "marked (db\<lparr>rd_now := rd_now db + int n\<rparr>) k vs t" using assms(2) by (simp add: marked_def)
    then show ?thesis using EvWait assms(1,3)
      by (auto simp: radvance_def rd_ok_def intro!: marked_purge)
  qed
qed

lemma claim_survives:
  assumes "rd_ok db" and "marked db k vs t" and "rd_now (run_events cfg evs db) < t"
    and "k = challenge_claim_prefix @ digest" and "rp_network cfg \<in> set xrpl_networks"
  shows "marked (run_events cfg evs db) k vs t"
  using assms
proof (induction evs arbitrary: db)
  case Nil
  then show ?case by (simp add: run_events_def)
next
  case (Cons e evs)
  note f = run_event_frame [OF Cons.prems(1), of cfg e]
  have "rd_now (run_event cfg e db) < t"
    using run_events_frame [of "run_event cfg e db" cfg evs] f Cons.prems(3) by (simp add: run_events_def)
  from claim_survives_event [OF Cons.prems(1,2) this Cons.prems(4,5)] Cons.prems(3-5) f
    Cons.IH [of "run_event cfg e db"] show ?case by (simp add: run_events_def)
qed

end
