(* ===== verification/Challenge.thy ===== *)
theory Challenge
  imports Encoding Paychannel PyTime ReplayStore
begin

text \<open>
  Payment challenges and credentials (\<open>models.py\<close>, and the challenge part of \<open>helpers.py\<close>):
  validation, the HMAC-bound challenge ID and its key ring, expiry, and decoding of the request.
  The parameters of \<open>lib\<close> stand for \<open>json.loads\<close> (pairs as written), \<open>rfc8785.dumps\<close>,
  \<open>datetime.fromisoformat\<close>, HMAC-SHA256 (raw bytes), and the SHA-256 and SHA-512 hex digests.
\<close>

record lib =
  lib_loads :: "string \<Rightarrow> json option"
  lib_jcs :: "json \<Rightarrow> string option"
  lib_fromiso :: "string \<Rightarrow> datetime option"
  lib_hmac :: "string \<Rightarrow> string \<Rightarrow> string"
  lib_sha256 :: "string \<Rightarrow> string"
  lib_sha512 :: "string \<Rightarrow> string"

section \<open>The challenge\<close>

definition challenge_id_max_length :: nat where "challenge_id_max_length = 512"
definition request_parameter_max_length :: nat where "request_parameter_max_length = 16384"

definition payment_authorization_header :: string where
  "payment_authorization_header = ''Payment-Authorization''"

record payment_challenge =
  pch_id :: string
  pch_realm :: string
  pch_method :: string
  pch_intent :: string
  pch_request :: string
  pch_digest :: "string option"
  pch_expires :: "string option"
  pch_description :: "string option"
  pch_header :: "string option"
  pch_opaque :: "string option"

definition method_text :: "string \<Rightarrow> bool" where
  "method_text s \<longleftrightarrow> s \<noteq> [] \<and> list_all is_lower s"

definition intent_char :: "char \<Rightarrow> bool" where
  "intent_char c \<longleftrightarrow> is_upper c \<or> is_lower c \<or> is_digit c \<or> c = CHR ''-''"

definition intent_text :: "string \<Rightarrow> bool" where
  "intent_text s \<longleftrightarrow> s \<noteq> [] \<and> list_all intent_char s"

definition nonblank :: "string \<Rightarrow> bool" where
  "nonblank s \<longleftrightarrow> py_strip s \<noteq> []"

definition checked :: "string \<Rightarrow> (string \<Rightarrow> bool) \<Rightarrow> json \<Rightarrow> string res" where
  "checked field p j = bind_res (as_str field j) (\<lambda>s.
     if p s then Inr s else Inl (ValidationError field))"

text \<open>\<open>_validate_request_json\<close>: canonical JSON behind the base64url.\<close>

definition canonical_request :: "lib \<Rightarrow> string \<Rightarrow> bool" where
  "canonical_request L s =
     (case bind_res (decode_base64url_json (lib_loads L) s) (encode_json_to_base64url (lib_jcs L)) of
        Inl _ \<Rightarrow> False | Inr t \<Rightarrow> t = s)"

definition flat_string_map :: "json \<Rightarrow> bool" where
  "flat_string_map j = (case j of
     JObj kvs \<Rightarrow> list_all (\<lambda>p. case snd p of JStr _ \<Rightarrow> True | _ \<Rightarrow> False) kvs | _ \<Rightarrow> False)"

definition canonical_opaque :: "lib \<Rightarrow> string \<Rightarrow> bool" where
  "canonical_opaque L s = (b64url_text s \<and>
     (case decode_base64url_json (lib_loads L) s of Inl _ \<Rightarrow> False
      | Inr j \<Rightarrow> flat_string_map j \<and> encode_json_to_base64url (lib_jcs L) j = Inr s))"

definition aware_timestamp :: "lib \<Rightarrow> string \<Rightarrow> bool" where
  "aware_timestamp L s = (case lib_fromiso L (iso_offset s) of None \<Rightarrow> False | Some t \<Rightarrow> is_aware t)"

definition valid_challenge_id :: "string \<Rightarrow> bool" where
  "valid_challenge_id s \<longleftrightarrow> text_length s \<le> challenge_id_max_length \<and> nonblank s"

definition valid_request :: "lib \<Rightarrow> string \<Rightarrow> bool" where
  "valid_request L s \<longleftrightarrow> length s \<le> request_parameter_max_length \<and> nonblank s \<and> b64url_text s
     \<and> canonical_request L s"

definition validate_challenge :: "lib \<Rightarrow> (string \<times> json) list \<Rightarrow> payment_challenge res" where
  "validate_challenge L kvs =
     bind_res (bind_res (required (plain ''id'') kvs) (checked ''id'' valid_challenge_id)) (\<lambda>i.
     bind_res (bind_res (required (plain ''realm'') kvs) (checked ''realm'' nonblank)) (\<lambda>r.
     bind_res (bind_res (required (plain ''method'') kvs) (checked ''method'' (\<lambda>s. nonblank s \<and> method_text s))) (\<lambda>m.
     bind_res (bind_res (required (plain ''intent'') kvs) (checked ''intent'' intent_text)) (\<lambda>n.
     bind_res (bind_res (required (plain ''request'') kvs) (checked ''request'' (valid_request L))) (\<lambda>q.
     bind_res (opt_field (as_str ''digest'') (dget kvs ''digest'')) (\<lambda>d.
     bind_res (opt_field (checked ''expires'' (aware_timestamp L)) (dget kvs ''expires'')) (\<lambda>x.
     bind_res (opt_field (as_str ''description'') (dget kvs ''description'')) (\<lambda>t.
     bind_res (opt_field (literal ''header'' [payment_authorization_header]) (dget kvs ''header'')) (\<lambda>h.
     bind_res (opt_field (checked ''opaque'' (canonical_opaque L)) (dget kvs ''opaque'')) (\<lambda>p.
     Inr \<lparr>pch_id = i, pch_realm = r, pch_method = m, pch_intent = n, pch_request = q, pch_digest = d,
          pch_expires = x, pch_description = t, pch_header = h, pch_opaque = p\<rparr>))))))))))"

definition wf_challenge :: "lib \<Rightarrow> payment_challenge \<Rightarrow> bool" where
  "wf_challenge L c \<longleftrightarrow> valid_challenge_id (pch_id c) \<and> nonblank (pch_realm c)
     \<and> nonblank (pch_method c) \<and> method_text (pch_method c) \<and> intent_text (pch_intent c)
     \<and> valid_request L (pch_request c)
     \<and> (\<forall>x. pch_expires c = Some x \<longrightarrow> aware_timestamp L x)
     \<and> pch_header c \<in> {None, Some payment_authorization_header}
     \<and> (\<forall>x. pch_opaque c = Some x \<longrightarrow> canonical_opaque L x)"

section \<open>Credentials\<close>

record payment_credential =
  pcr_challenge :: payment_challenge
  pcr_payload :: "(string \<times> json) list"
  pcr_source :: "string option"

text \<open>The keys of the payload are stripped like every string of the model; its values are \<open>Any\<close>.\<close>

definition stripped_keys :: "(string \<times> 'a) list \<Rightarrow> (string \<times> 'a) list" where
  "stripped_keys kvs = dict_of (map (\<lambda>(k, v). (pydantic_strip k, v)) kvs)"

definition validate_credential :: "lib \<Rightarrow> json \<Rightarrow> payment_credential res" where
  "validate_credential L j = bind_res (as_dict j) (\<lambda>kvs.
     bind_res (bind_res (bind_res (required (plain ''challenge'') kvs) as_dict) (validate_challenge L)) (\<lambda>c.
     bind_res (bind_res (required (plain ''payload'') kvs) as_dict) (\<lambda>p.
     bind_res (opt_field (stripped_str ''source'') (dget kvs ''source'')) (\<lambda>s.
     Inr \<lparr>pcr_challenge = c, pcr_payload = stripped_keys p, pcr_source = s\<rparr>))))"

section \<open>Binding\<close>

definition or_empty :: "string option \<Rightarrow> string" where
  "or_empty x = (case x of None \<Rightarrow> [] | Some s \<Rightarrow> s)"

definition challenge_slots :: "payment_challenge \<Rightarrow> string list" where
  "challenge_slots c =
     [pch_realm c, pch_method c, pch_intent c, pch_request c, or_empty (pch_expires c),
      or_empty (pch_digest c), or_empty (pch_opaque c)]
     @ (case pch_header c of None \<Rightarrow> [] | Some h \<Rightarrow> [h])"

definition build_challenge_id :: "lib \<Rightarrow> string \<Rightarrow> payment_challenge \<Rightarrow> string res" where
  "build_challenge_id L secret c =
     (if pch_header c \<noteq> None \<and> pch_header c \<noteq> Some payment_authorization_header
        then Inl (ValueError ''Unsupported payment credential header'')
      else Inr (b64_encode (lib_hmac L secret (py_join ''|'' (challenge_slots c)))))"

text \<open>\<open>hmac.compare_digest\<close> of two strings refuses text that is not ASCII.\<close>

definition compare_digest :: "string \<Rightarrow> string \<Rightarrow> bool res" where
  "compare_digest a b =
     (if list_all (\<lambda>c. ch c < 128) a \<and> list_all (\<lambda>c. ch c < 128) b then Inr (a = b)
      else Inl (TypeError ''comparing strings with non-ASCII characters is not supported''))"

definition key_ring :: "string list \<Rightarrow> string list res" where
  "key_ring secrets = (let normalized = map py_strip (filter nonblank secrets) in
     if normalized = [] then Inl (ValueError ''At least one challenge-binding secret is required'')
     else Inr normalized)"

fun ring_verifies :: "lib \<Rightarrow> string list \<Rightarrow> payment_challenge \<Rightarrow> bool res" where
  "ring_verifies L [] c = Inr False"
| "ring_verifies L (secret # rest) c =
     bind_res (build_challenge_id L secret c) (\<lambda>i.
     bind_res (compare_digest i (pch_id c)) (\<lambda>same.
     if same then Inr True else ring_verifies L rest c))"

definition verify_challenge_binding :: "lib \<Rightarrow> string list \<Rightarrow> payment_challenge \<Rightarrow> bool res" where
  "verify_challenge_binding L secrets c =
     (if secrets = [] then Inl (ValueError ''A challenge-binding secret is required'')
      else bind_res (key_ring secrets) (\<lambda>ring. ring_verifies L ring c))"

section \<open>Expiry and request\<close>

definition challenge_is_expired :: "lib \<Rightarrow> payment_challenge \<Rightarrow> datetime \<Rightarrow> bool res" where
  "challenge_is_expired L c now =
     (if or_empty (pch_expires c) = [] then Inr False
      else case lib_fromiso L (iso_offset (or_empty (pch_expires c))) of
        None \<Rightarrow> Inl (ValueError ''Invalid isoformat string'')
      | Some t \<Rightarrow> dt_le t now)"

datatype challenge_request = ChargeRequest charge_request | SessionRequest session_request

definition decode_challenge_request :: "lib \<Rightarrow> payment_challenge \<Rightarrow> challenge_request res" where
  "decode_challenge_request L c =
     bind_res (decode_base64url_json (lib_loads L) (pch_request c)) (\<lambda>j.
     if pch_intent c = ''charge'' then
       bind_res (validate_charge_request (lib_loads L) j) (\<lambda>r. Inr (ChargeRequest r))
     else if pch_intent c = ''session'' then
       bind_res (validate_session_request j) (\<lambda>r. Inr (SessionRequest r))
     else Inl (ValueError ''Unsupported challenge intent''))"

section \<open>What validation guarantees\<close>

lemma checked_Inr: "checked field p j = Inr s \<longleftrightarrow> j = JStr s \<and> p s"
  by (auto simp: checked_def as_str_def split: json.splits if_splits)

lemma opt_field_Some: "opt_field f j = Inr (Some y) \<Longrightarrow> f j = Inr y"
  by (auto simp: opt_field_def res_iffs split: json.splits)

lemma validate_challenge_wf: "validate_challenge L kvs = Inr c \<Longrightarrow> wf_challenge L c"
proof -
  assume "validate_challenge L kvs = Inr c"
  then obtain i r m n q d x t h p where
    req: "valid_challenge_id i" "nonblank r" "nonblank m" "method_text m" "intent_text n" "valid_request L q"
    and opt: "opt_field (checked ''expires'' (aware_timestamp L)) (dget kvs ''expires'') = Inr x"
      "opt_field (literal ''header'' [payment_authorization_header]) (dget kvs ''header'') = Inr h"
      "opt_field (checked ''opaque'' (canonical_opaque L)) (dget kvs ''opaque'') = Inr p"
    and c: "c = \<lparr>pch_id = i, pch_realm = r, pch_method = m, pch_intent = n, pch_request = q, pch_digest = d,
          pch_expires = x, pch_description = t, pch_header = h, pch_opaque = p\<rparr>"
    unfolding validate_challenge_def bind_res_Inr_iff checked_Inr by blast
  from opt have "\<And>y. x = Some y \<Longrightarrow> aware_timestamp L y" "\<And>y. h = Some y \<Longrightarrow> y = payment_authorization_header"
    "\<And>y. p = Some y \<Longrightarrow> canonical_opaque L y"
    by (auto simp: checked_Inr dest!: opt_field_Some)
  with req show "wf_challenge L c" unfolding c wf_challenge_def by (cases h) auto
qed

text \<open>The dictionary of the fields a challenge carries.\<close>

definition challenge_fields :: "payment_challenge \<Rightarrow> (string \<times> string option) list" where
  "challenge_fields c =
     [(''id'', Some (pch_id c)), (''realm'', Some (pch_realm c)), (''method'', Some (pch_method c)),
      (''intent'', Some (pch_intent c)), (''request'', Some (pch_request c)), (''digest'', pch_digest c),
      (''expires'', pch_expires c), (''description'', pch_description c), (''header'', pch_header c),
      (''opaque'', pch_opaque c)]"

section \<open>What the binding guarantees\<close>

lemma ring_verifies_True:
  "ring_verifies L ring c = Inr True \<Longrightarrow> \<exists>secret \<in> set ring. build_challenge_id L secret c = Inr (pch_id c)"
  by (induction ring) (auto simp: res_iffs compare_digest_def split: if_splits)

lemma ascii_b64: "b64_value c \<noteq> None \<Longrightarrow> ch c < 128"
  by (auto simp: b64_value_def is_upper_def is_lower_def is_digit_def ch_def split: if_splits)

lemma build_challenge_id_ascii: "build_challenge_id L secret c = Inr i \<Longrightarrow> list_all (\<lambda>c. ch c < 128) i"
  using b64_encode_text [of "lib_hmac L secret (py_join ''|'' (challenge_slots c))"] ascii_b64
  by (auto simp: build_challenge_id_def list_all_iff split: if_splits)

lemma ring_verifies_iff:
  assumes "list_all (\<lambda>c. ch c < 128) (pch_id c)"
    and "pch_header c = None \<or> pch_header c = Some payment_authorization_header"
  shows "ring_verifies L ring c =
    Inr (\<exists>secret \<in> set ring. build_challenge_id L secret c = Inr (pch_id c))"
proof (induction ring)
  case (Cons secret ring)
  obtain i where i: "build_challenge_id L secret c = Inr i"
    using assms(2) by (auto simp: build_challenge_id_def)
  with build_challenge_id_ascii [OF i] assms(1) Cons show ?case by (simp add: compare_digest_def)
qed simp

lemma slots_recovered:
  assumes "\<forall>s \<in> set (challenge_slots c). CHR ''|'' \<notin> set s"
  shows "py_split (CHR ''|'') (py_join ''|'' (challenge_slots c)) = challenge_slots c"
  by (rule py_split_join) (use assms in \<open>auto simp: challenge_slots_def\<close>)

lemma challenge_slots_eq:
  "challenge_slots a = challenge_slots b \<longleftrightarrow>
     pch_realm a = pch_realm b \<and> pch_method a = pch_method b \<and> pch_intent a = pch_intent b \<and>
     pch_request a = pch_request b \<and> or_empty (pch_expires a) = or_empty (pch_expires b) \<and>
     or_empty (pch_digest a) = or_empty (pch_digest b) \<and> or_empty (pch_opaque a) = or_empty (pch_opaque b) \<and>
     pch_header a = pch_header b"
  by (auto simp: challenge_slots_def split: option.splits)

lemma no_bar_class: "list_all p s \<Longrightarrow> \<not> p (CHR ''|'') \<Longrightarrow> CHR ''|'' \<notin> set s"
  by (auto simp: list_all_iff)

lemma wf_slots_no_bar:
  assumes "wf_challenge L c"
    and "CHR ''|'' \<notin> set (pch_realm c)" "CHR ''|'' \<notin> set (or_empty (pch_digest c))"
    and "CHR ''|'' \<notin> set (or_empty (pch_expires c))"
  shows "\<forall>s \<in> set (challenge_slots c). CHR ''|'' \<notin> set s"
proof -
  have "\<not> is_lower (CHR ''|'')" "\<not> intent_char (CHR ''|'')" "b64_value (CHR ''|'') = None"
    by (simp_all add: is_lower_def is_upper_def intent_char_def is_digit_def b64_value_def ch_def)
  moreover have "list_all is_lower (pch_method c)" "list_all intent_char (pch_intent c)"
    "b64url_text (pch_request c)" "\<And>x. pch_opaque c = Some x \<Longrightarrow> b64url_text x"
    using assms(1) by (auto simp: wf_challenge_def valid_request_def method_text_def intent_text_def
        canonical_opaque_def)
  ultimately have "CHR ''|'' \<notin> set (pch_method c)" "CHR ''|'' \<notin> set (pch_intent c)"
    "CHR ''|'' \<notin> set (pch_request c)" "\<And>x. pch_opaque c = Some x \<Longrightarrow> CHR ''|'' \<notin> set x"
    by (auto simp: list_all_iff b64url_text_def)
  then have "CHR ''|'' \<notin> set (or_empty (pch_opaque c))" by (cases "pch_opaque c") (auto simp: or_empty_def)
  moreover have "CHR ''|'' \<notin> set payment_authorization_header" by (simp add: payment_authorization_header_def)
  ultimately show ?thesis using assms \<open>CHR ''|'' \<notin> set (pch_method c)\<close> \<open>CHR ''|'' \<notin> set (pch_intent c)\<close>
    \<open>CHR ''|'' \<notin> set (pch_request c)\<close>
    by (auto simp: challenge_slots_def wf_challenge_def split: option.splits)
qed

end
