(* ===== verification/Assets.thy ===== *)
theory Assets
  imports Xrpl
begin

text \<open>
  \<open>xrpl_mpp_core/assets.py\<close>: currency codes in their display and ledger forms, and the list of
  assets a facilitator accepts.
\<close>

record asset_key =
  ak_code :: string
  ak_issuer :: "string option"
  ak_mpt :: "string option"

definition issued_asset :: "string \<Rightarrow> string \<Rightarrow> asset_key" where
  "issued_asset code issuer = \<lparr>ak_code = code, ak_issuer = Some issuer, ak_mpt = None\<rparr>"

definition xrp_asset :: asset_key where
  "xrp_asset = \<lparr>ak_code = ''XRP'', ak_issuer = None, ak_mpt = None\<rparr>"

section \<open>Currency codes\<close>

definition hex_value :: "char \<Rightarrow> nat" where
  "hex_value c = (if is_digit c then ch c - 48 else if is_upper c then ch c - 55 else ch c - 87)"

text \<open>\<open>bytes.fromhex\<close> of an even number of digits, and \<open>bytes.hex().upper()\<close>.\<close>

fun from_hex :: "string \<Rightarrow> string" where
  "from_hex (a # b # rest) = char_of (16 * hex_value a + hex_value b) # from_hex rest"
| "from_hex _ = []"

definition upper_hex_digit :: "nat \<Rightarrow> char" where
  "upper_hex_digit d = (if d < 10 then char_of (48 + d) else char_of (55 + d))"

definition to_hex :: "string \<Rightarrow> string" where
  "to_hex s = concat (map (\<lambda>c. [upper_hex_digit (ch c div 16), upper_hex_digit (ch c mod 16)]) s)"

definition hex40 :: "string \<Rightarrow> bool" where
  "hex40 s \<longleftrightarrow> length s = 40 \<and> list_all is_hex s"

definition printable :: "char \<Rightarrow> bool" where
  "printable c \<longleftrightarrow> 32 \<le> ch c \<and> ch c \<le> 126"

definition rstrip_zero :: "string \<Rightarrow> string" where
  "rstrip_zero s = rev (dropWhile (\<lambda>c. ch c = 0) (rev s))"

definition normalize_currency_code :: "string \<Rightarrow> string res" where
  "normalize_currency_code currency = (let normalized = py_upper (py_strip currency) in
     if normalized = [] then Inl (ValueError ''Asset code is required'')
     else if hex40 normalized then
       (let decoded = rstrip_zero (from_hex normalized) in
        if decoded \<noteq> [] \<and> list_all printable decoded then Inr (py_upper decoded) else Inr normalized)
     else Inr normalized)"

definition ljust_zero :: "nat \<Rightarrow> string \<Rightarrow> string" where
  "ljust_zero n s = s @ replicate (n - length s) (CHR ''0'')"

definition xrpl_currency_code :: "string \<Rightarrow> string res" where
  "xrpl_currency_code code = (let raw = py_strip code in
     if raw = [] then Inl (ValueError ''Asset code is required'')
     else if hex40 raw then Inr (py_upper raw)
     else bind_res (normalize_currency_code raw) (\<lambda>normalized.
       if length normalized = 3 then Inr normalized
       else if 20 < length normalized
         then Inl (ValueError ''Issued currency codes must be 20 ASCII bytes or fewer'')
       else if \<not> list_all (\<lambda>c. ch c < 128) normalized then Inl (ValueError ''ordinal not in range(128)'')
       else Inr (ljust_zero 40 (to_hex normalized))))"

section \<open>Accepted assets\<close>

definition legacy_rlusd_testnet_issuer :: string where
  "legacy_rlusd_testnet_issuer = ''rnEVYfAWYP5HpPaWQiPSJMyDeUiEJ6zhy2''"

definition partition_colon :: "string \<Rightarrow> string \<times> string option" where
  "partition_colon s = (case dropWhile (\<lambda>c. c \<noteq> CHR '':'') s of
     [] \<Rightarrow> (s, None) | _ # t \<Rightarrow> (takeWhile (\<lambda>c. c \<noteq> CHR '':'') s, Some t))"

definition parse_asset_entry :: "string \<Rightarrow> asset_key res" where
  "parse_asset_entry entry = (case partition_colon entry of (code, rest) \<Rightarrow>
     bind_res (normalize_currency_code code) (\<lambda>normalized.
     let issuer = (case rest of None \<Rightarrow> [] | Some i \<Rightarrow> py_strip i) in
     if issuer = [] then Inl (ValueError ''ALLOWED_ISSUED_ASSETS entries must use CODE:ISSUER format'')
     else if normalized = ''XRP'' then Inl (ValueError ''ALLOWED_ISSUED_ASSETS cannot include XRP'')
     else if normalized = ''RLUSD'' \<and> issuer = legacy_rlusd_testnet_issuer
       then Inl (ValueError ''The former XRPL Testnet RLUSD issuer is not canonical'')
     else Inr (issued_asset normalized issuer)))"

text \<open>Append what was not seen before.\<close>

definition add_new :: "'a list \<Rightarrow> 'a \<Rightarrow> 'a list" where
  "add_new seen x = (if x \<in> set seen then seen else seen @ [x])"

definition parse_allowed_issued_assets :: "string \<Rightarrow> asset_key list res" where
  "parse_allowed_issued_assets raw =
     bind_res (list_field parse_asset_entry
       (filter (\<lambda>e. e \<noteq> []) (map py_strip (py_split (CHR '','') raw)))) (\<lambda>assets.
     Inr (foldl add_new [] assets))"

definition rlusd_issuer :: "string \<Rightarrow> string option" where
  "rlusd_issuer network = (if network = ''mainnet'' then Some ''rMxCKbEDwqr76QuheSUMdEGf4B9xJ8m5De''
     else if network = ''testnet'' then Some ''rQhWct2fv4Vc4KRjRgMrxa8xPN9Zx9iLKV'' else None)"

definition usdc_issuer :: "string \<Rightarrow> string option" where
  "usdc_issuer network = (if network = ''mainnet'' then Some ''rGm7WCVp9gb4jZHWTEtGUr4dd74z2XuWhE''
     else if network = ''testnet'' then Some ''rHuGNhqTG32mfmAvWA8hUyWRLV3tCSwKQt'' else None)"

definition built_in_assets :: "string \<Rightarrow> asset_key list" where
  "built_in_assets network =
     (case rlusd_issuer network of None \<Rightarrow> [] | Some i \<Rightarrow> [issued_asset ''RLUSD'' i])
     @ (case usdc_issuer network of None \<Rightarrow> [] | Some i \<Rightarrow> [issued_asset ''USDC'' i])"

definition supported_asset_keys :: "string \<Rightarrow> string \<Rightarrow> asset_key list res" where
  "supported_asset_keys network raw =
     bind_res (parse_allowed_issued_assets raw) (\<lambda>allowed.
     Inr (foldl add_new [xrp_asset] (built_in_assets network @ allowed)))"

section \<open>Codes round trip\<close>

lemma hex_value_upper_hex_digit [simp]: "d < 16 \<Longrightarrow> hex_value (upper_hex_digit d) = d"
  by (auto simp: hex_value_def upper_hex_digit_def is_digit_def is_upper_def)

lemma upper_hex_digit_hex [simp]: "d < 16 \<Longrightarrow> is_hex (upper_hex_digit d) \<and> to_upper (upper_hex_digit d) = upper_hex_digit d"
  by (auto simp: upper_hex_digit_def is_hex_def is_digit_def to_upper_def is_lower_def)

lemma from_hex_to_hex: "from_hex (to_hex s @ t) = s @ from_hex t"
proof (induction s)
  case (Cons c s)
  have "ch c div 16 < 16" by (simp add: less_mult_imp_div_less ch_def)
  then show ?case using Cons by (simp add: to_hex_def ch_def)
qed (simp add: to_hex_def)

lemma length_to_hex [simp]: "length (to_hex s) = 2 * length s"
  by (induction s) (simp_all add: to_hex_def)

lemma from_hex_zeros: "from_hex (replicate (2 * n) (CHR ''0'')) = replicate n (char_of (0::nat))"
  by (induction n) (simp_all add: hex_value_def is_digit_def ch_def)

lemma rstrip_zeros: "s = [] \<or> ch (last s) \<noteq> 0 \<Longrightarrow> rstrip_zero (s @ replicate n (char_of (0::nat))) = s"
proof (cases s rule: rev_cases)
  case (snoc t c)
  assume "s = [] \<or> ch (last s) \<noteq> 0"
  then have "dropWhile (\<lambda>c. ch c = 0) (replicate n (char_of (0::nat)) @ c # rev t) = c # rev t"
    using snoc by (subst dropWhile_append2) (auto simp: ch_def)
  then show ?thesis using snoc by (simp add: rstrip_zero_def)
qed (simp add: rstrip_zero_def)

definition display_code :: "string \<Rightarrow> bool" where
  "display_code s \<longleftrightarrow> s \<noteq> [] \<and> length s \<le> 20 \<and> list_all printable s \<and> py_upper s = s \<and> py_strip s = s"

lemma to_hex_hex: "list_all is_hex (to_hex s) \<and> py_upper (to_hex s) = to_hex s"
proof (induction s)
  case (Cons c s)
  have "ch c div 16 < 16" by (simp add: less_mult_imp_div_less ch_def)
  then show ?case using Cons by (simp add: to_hex_def py_upper_def)
qed (simp add: to_hex_def py_upper_def)

lemma normalize_ledger_code:
  assumes "display_code s"
  shows "normalize_currency_code (ljust_zero 40 (to_hex s)) = Inr s"
proof -
  let ?h = "ljust_zero 40 (to_hex s)"
  have len: "length s \<le> 20" using assms by (simp add: display_code_def)
  have pad: "?h = to_hex s @ replicate (2 * (20 - length s)) (CHR ''0'')"
    by (simp add: ljust_zero_def diff_mult_distrib2)
  have zero: "is_hex (CHR ''0'')" "to_upper (CHR ''0'') = CHR ''0''"
    by (simp_all add: is_hex_def is_digit_def to_upper_def is_lower_def ch_def)
  have hex: "list_all is_hex ?h" "py_upper ?h = ?h" "length ?h = 40"
    using to_hex_hex [of s] zero len by (auto simp: pad py_upper_def list_all_iff)
  have ne: "?h \<noteq> []" using \<open>length ?h = 40\<close> by force
  have "py_strip ?h = ?h" using hex(1) by (simp add: py_strip_def strip_by_none list_all_iff)
  moreover have "from_hex ?h = s @ replicate (20 - length s) (char_of (0::nat))"
    unfolding pad from_hex_to_hex from_hex_zeros ..
  moreover have "rstrip_zero (s @ replicate (20 - length s) (char_of (0::nat))) = s"
  proof (rule rstrip_zeros)
    have "s \<noteq> []" using assms by (simp add: display_code_def)
    then have "printable (last s)" using assms by (simp add: display_code_def list_all_iff)
    then show "s = [] \<or> ch (last s) \<noteq> 0" by (simp add: printable_def)
  qed
  ultimately show ?thesis using hex ne assms
    by (simp add: normalize_currency_code_def hex40_def display_code_def)
qed

lemma display_code_short: "display_code s \<Longrightarrow> \<not> hex40 s"
  by (auto simp: display_code_def hex40_def)

lemma ledger_code_round_trip:
  assumes "display_code s"
  shows "\<exists>t. xrpl_currency_code s = Inr t \<and> normalize_currency_code t = Inr s"
proof -
  have n: "normalize_currency_code s = Inr s"
    using assms display_code_short [OF assms] by (simp add: normalize_currency_code_def display_code_def)
  have "list_all (\<lambda>c. ch c < 128) s"
    using assms by (auto simp: display_code_def list_all_iff printable_def)
  then show ?thesis using assms display_code_short [OF assms] n normalize_ledger_code [OF assms]
    by (auto simp: xrpl_currency_code_def display_code_def)
qed

section \<open>The accepted list\<close>

lemma foldl_add_new: "distinct seen \<Longrightarrow> distinct (foldl add_new seen xs) \<and> set (foldl add_new seen xs) = set seen \<union> set xs"
  by (induction xs arbitrary: seen) (auto simp: add_new_def)

lemma parse_asset_entry_ok:
  "parse_asset_entry e = Inr a \<Longrightarrow> ak_code a \<noteq> ''XRP'' \<and> (\<exists>i. ak_issuer a = Some i \<and> i \<noteq> []) \<and> ak_mpt a = None"
  by (auto simp: parse_asset_entry_def res_iffs Let_def issued_asset_def split: prod.splits if_splits)

lemma list_field_all: "list_field f xs = Inr ys \<Longrightarrow> y \<in> set ys \<Longrightarrow> \<exists>x \<in> set xs. f x = Inr y"
  by (induction xs arbitrary: ys) (auto simp: res_iffs)

lemma foldl_add_new_prefix: "\<exists>zs. foldl add_new seen xs = seen @ zs"
  by (induction xs arbitrary: seen) (auto simp: add_new_def, metis append.assoc)

lemma supported_assets_shape:
  assumes "supported_asset_keys network raw = Inr assets"
  shows "distinct assets \<and> (\<exists>rest. assets = xrp_asset # rest \<and>
    (\<forall>a \<in> set rest. ak_code a \<noteq> ''XRP'' \<and> ak_issuer a \<noteq> None))"
proof -
  obtain entries where entries: "list_field parse_asset_entry
      (filter (\<lambda>e. e \<noteq> []) (map py_strip (py_split (CHR '','') raw))) = Inr entries"
    and assets: "assets = foldl add_new [xrp_asset] (built_in_assets network @ foldl add_new [] entries)"
    using assms by (auto simp: supported_asset_keys_def parse_allowed_issued_assets_def res_iffs)
  have e: "\<forall>a \<in> set entries. ak_code a \<noteq> ''XRP'' \<and> ak_issuer a \<noteq> None"
    using list_field_all [OF entries] parse_asset_entry_ok by fastforce
  have b: "\<forall>a \<in> set (built_in_assets network). ak_code a \<noteq> ''XRP'' \<and> ak_issuer a \<noteq> None"
    by (auto simp: built_in_assets_def issued_asset_def rlusd_issuer_def usdc_issuer_def split: if_splits)
  have d: "distinct assets" and s: "set assets = {xrp_asset} \<union> set (built_in_assets network) \<union> set entries"
    using foldl_add_new [of "[xrp_asset]" "built_in_assets network @ foldl add_new [] entries"]
      foldl_add_new [of "[]" entries] by (simp_all add: assets Un_assoc)
  obtain rest where rest: "assets = xrp_asset # rest"
    using foldl_add_new_prefix [of "[xrp_asset]"] assets by (metis append_Cons append_Nil)
  have "set rest \<subseteq> set assets - {xrp_asset}" using d rest by auto
  then have "set rest \<subseteq> set (built_in_assets network) \<union> set entries" using s by blast
  with e b d rest show ?thesis by blast
qed

end
