(* ===== verification/Service.thy ===== *)
theory Service
  imports Challenge Assets StoreSpec
begin

text \<open>
  \<open>PayChannelService\<close> of \<open>paychannel_service.py\<close>: verification of one session credential. The
  world \<^typ>\<open>'w\<close> holds the durable stores; every injected hook is a computation over it. The XRPL
  library (\<open>xrpl.core\<close>) is third-party: its functions are the record \<open>xrpl_lib\<close>, with
  \<open>None\<close> for an exception. \<open>verify_claim_action\<close> is cut at its phases: find the record, prove
  the claim, move the high-water mark, settle a close, finalize.
\<close>

section \<open>Configuration\<close>

type_synonym tx_json = "(string \<times> json) list"

record xrpl_lib =
  x_signing_claim :: "string \<Rightarrow> string \<Rightarrow> string option"
  x_encode_for_signing :: "tx_json \<Rightarrow> string option"
  x_valid_message :: "string \<Rightarrow> string \<Rightarrow> string \<Rightarrow> bool option"
  x_derive_address :: "string \<Rightarrow> string option"

record 'w service =
  sv_lib :: lib
  sv_xrpl :: xrpl_lib
  sv_store :: "'w store_ops"
  sv_claim_challenge :: "string \<Rightarrow> int option \<Rightarrow> ('w, bool) proc"
  sv_secrets :: "string list"
  sv_network :: string
  sv_recipient :: string
  sv_public_key :: string
  sv_payer :: string
  sv_open_submitter :: "(string \<Rightarrow> tx_json \<Rightarrow> ('w, string \<times> string) proc) option"
  sv_ledger_verifier :: "(pc_record \<Rightarrow> string \<Rightarrow> ('w, string option) proc) option"
  sv_channel_loader :: "(string \<Rightarrow> ('w, pc_record) proc) option"
  sv_close_settler :: "(pc_record \<Rightarrow> ('w, string) proc) option"
  sv_signer_authorizer :: "(string \<Rightarrow> string \<Rightarrow> ('w, bool) proc) option"
  sv_current_ledger_index :: "('w, int) proc option"
  sv_minimum_settle_delay :: int
  sv_settlement_margin_seconds :: int
  sv_redemption_lease_seconds :: int
  sv_transaction_decoder :: "string \<Rightarrow> json option"
  sv_now :: "'w \<Rightarrow> datetime"

text \<open>The constructor: normalised secrets and key, derived payer, and the checks in their order.\<close>

definition init_service :: "'w service \<Rightarrow> 'w service res" where
  "init_service S =
     (let secrets = map py_strip (filter nonblank (sv_secrets S));
          public_key = py_upper (py_strip (sv_public_key S)) in
      if secrets = [] then Inl (ValueError ''at least one challenge-binding secret is required'')
      else bind_res (literal ''network'' xrpl_networks (JStr (sv_network S))) (\<lambda>network.
      if \<not> classic_address (sv_recipient S) then Inl (ValidationError ''recipient'')
      else case x_derive_address (sv_xrpl S) public_key of
        None \<Rightarrow> Inl (ValueError ''payer_public_key is not a valid XRPL public key'')
      | Some payer \<Rightarrow>
          if \<not> classic_address payer then Inl (ValueError ''payer_public_key is not a valid XRPL public key'')
          else if payer = sv_recipient S
            then Inl (ValueError ''PayChannel payer and recipient must be different accounts'')
          else if sv_minimum_settle_delay S < 0
            then Inl (ValueError ''minimum_settle_delay must be a non-negative integer'')
          else if sv_settlement_margin_seconds S < 0
            then Inl (ValueError ''settlement_margin_seconds must be a non-negative integer'')
          else if sv_redemption_lease_seconds S \<le> 0
            then Inl (ValueError ''redemption_lease_seconds must be a positive integer'')
          else Inr (S\<lparr>sv_secrets := secrets, sv_network := network, sv_public_key := public_key,
                     sv_payer := payer\<rparr>)))"

section \<open>Results and errors\<close>

record verification_result =
  vr_action :: string
  vr_challenge_id :: string
  vr_network :: string
  vr_payer :: string
  vr_recipient :: string
  vr_channel_id :: string
  vr_cumulative :: string
  vr_previous :: string
  vr_reference :: string
  vr_replayed :: bool
  vr_finalized :: bool
  vr_tx_hash :: "string option"

text \<open>The pydantic model of the result.\<close>

definition mk_result :: "verification_result \<Rightarrow> verification_result res" where
  "mk_result r =
     bind_res (literal ''action'' [''open'', ''voucher'', ''close''] (JStr (vr_action r))) (\<lambda>action.
     bind_res (literal ''network'' xrpl_networks (JStr (vr_network r))) (\<lambda>network.
     bind_res (pattern_str ''payer'' classic_address (vr_payer r)) (\<lambda>payer.
     bind_res (pattern_str ''recipient'' classic_address (vr_recipient r)) (\<lambda>recipient.
     bind_res (channel_id_field (vr_channel_id r)) (\<lambda>channel.
     bind_res (drops_field ''cumulative'' (vr_cumulative r)) (\<lambda>cumulative.
     bind_res (drops_field ''previous'' (vr_previous r)) (\<lambda>previous.
     bind_res (case vr_tx_hash r of None \<Rightarrow> Inr None
               | Some h \<Rightarrow> bind_res (pattern_str ''txHash'' hex64 h) (\<lambda>h'. Inr (Some h'))) (\<lambda>tx_hash.
     Inr (r\<lparr>vr_challenge_id := pydantic_strip (vr_challenge_id r), vr_payer := payer,
            vr_recipient := recipient, vr_channel_id := channel, vr_cumulative := cumulative,
            vr_previous := previous, vr_reference := pydantic_strip (vr_reference r),
            vr_tx_hash := tx_hash\<rparr>)))))))))"

definition verr :: "string \<Rightarrow> exn" where
  "verr code = VerificationError code"

text \<open>\<open>_store_error\<close>: a store error keeps its code.\<close>

definition store_error :: "exn \<Rightarrow> exn" where
  "store_error e = (case e of StoreError code \<Rightarrow> VerificationError code | _ \<Rightarrow> e)"

definition on_store_error :: "('w, 'a) proc \<Rightarrow> ('w, 'a) proc" where
  "on_store_error p = except p (\<lambda>e. fail (store_error e))"

text \<open>\<open>except PayChannelStoreError ... except Exception\<close> with one code for the latter.\<close>

definition store_or :: "string \<Rightarrow> exn \<Rightarrow> exn" where
  "store_or code e = (case e of StoreError c \<Rightarrow> VerificationError c
     | _ \<Rightarrow> if is_exception e then verr code else e)"

text \<open>\<open>except Exception\<close> with one code.\<close>

definition any_error :: "string \<Rightarrow> exn \<Rightarrow> exn" where
  "any_error code e = (if is_exception e then verr code else e)"

section \<open>Clock and challenge claim\<close>

definition timestamp_ms :: "'w service \<Rightarrow> ('w, int) proc" where
  "timestamp_ms S = (\<lambda>w. if is_aware (sv_now S w) then (Inr (millis_of (sv_now S w)), w)
     else (Inl (ValueError ''service clock must return a timezone-aware datetime''), w))"

definition challenge_retention_seconds :: "lib \<Rightarrow> string option \<Rightarrow> datetime \<Rightarrow> int option res" where
  "challenge_retention_seconds L expires now = (case expires of
     None \<Rightarrow> Inr None
   | Some e \<Rightarrow> (case lib_fromiso L (iso_offset e) of
       None \<Rightarrow> Inl (ValueError ''Invalid isoformat string'')
     | Some t \<Rightarrow> bind_res (dt_sub t now) (\<lambda>us.
         Inr (Some (max 1 (max 0 \<lceil>total_seconds us\<rceil> + 60))))))"

definition challenge_claim_id :: "'w service \<Rightarrow> payment_challenge \<Rightarrow> string" where
  "challenge_claim_id S c = sv_network S @ char_of (0::nat) # pch_id c"

definition claim_challenge :: "'w service \<Rightarrow> payment_challenge \<Rightarrow> ('w, unit) proc" where
  "claim_challenge S c =
     andthen
       (except
         (andthen (reading (\<lambda>w. lift (challenge_retention_seconds (sv_lib S) (pch_expires c) (sv_now S w))))
            (\<lambda>retention. sv_claim_challenge S (challenge_claim_id S c) retention))
         (\<lambda>e. fail (any_error ''CHALLENGE_REPLAY_CHECK_FAILED'' e)))
       (\<lambda>claimed. check claimed (verr ''CHANNEL_REPLAY''))"

definition max_uint64 :: int where "max_uint64 = 18446744073709551615"

definition require_uint64 :: "string \<Rightarrow> unit res" where
  "require_uint64 v = guard_res (py_int v \<le> max_uint64) (verr ''INVALID_AMOUNT'')"

section \<open>The envelope\<close>

definition as_error :: "string \<Rightarrow> 'a res \<Rightarrow> 'a res" where
  "as_error code r = catch_res r (\<lambda>e. Inl (if is_value_or_type_error e then verr code else e))"

definition request_network :: "session_request \<Rightarrow> string option" where
  "request_network r = (case sr_method_details r of None \<Rightarrow> None | Some d \<Rightarrow> smd_network d)"

definition request_cumulative :: "session_request \<Rightarrow> string option" where
  "request_cumulative r = (case sr_method_details r of None \<Rightarrow> None | Some d \<Rightarrow> smd_cumulative_amount d)"

text \<open>What binds the payload to the challenge: an open starts at zero, a claim names its channel.\<close>

definition check_action :: "session_request \<Rightarrow> session_payload \<Rightarrow> unit res" where
  "check_action request payload = (case payload of
     OpenPayload _ _ _ \<Rightarrow>
       bind_res (guard_res (sr_channel_id request = []) (verr ''CHANNEL_MISMATCH'')) (\<lambda>_.
       guard_res (request_cumulative request \<in> {None, Some ''0''}) (verr ''CUMULATIVE_MISMATCH''))
   | VoucherPayload channel _ _ \<Rightarrow>
       bind_res (guard_res (sr_channel_id request \<noteq> []) (verr ''CHANNEL_MISMATCH'')) (\<lambda>_.
       guard_res (py_upper channel = py_upper (sr_channel_id request)) (verr ''CHANNEL_MISMATCH''))
   | ClosePayload channel _ _ \<Rightarrow>
       bind_res (guard_res (sr_channel_id request \<noteq> []) (verr ''CHANNEL_MISMATCH'')) (\<lambda>_.
       guard_res (py_upper channel = py_upper (sr_channel_id request)) (verr ''CHANNEL_MISMATCH'')))"

definition session_request_of :: "challenge_request \<Rightarrow> session_request res" where
  "session_request_of r = (case r of
     SessionRequest s \<Rightarrow> Inr s | ChargeRequest _ \<Rightarrow> Inl (verr ''INVALID_SESSION_REQUEST''))"

definition verify_envelope ::
  "'w service \<Rightarrow> payment_credential \<Rightarrow> datetime \<Rightarrow> (session_request \<times> session_payload) res"
where
  "verify_envelope S cred now = (let c = pcr_challenge cred in
     bind_res (guard_res (pch_method c = ''xrpl'') (verr ''UNSUPPORTED_METHOD'')) (\<lambda>_.
     bind_res (guard_res (pch_intent c = ''session'') (verr ''UNSUPPORTED_INTENT'')) (\<lambda>_.
     bind_res (verify_challenge_binding (sv_lib S) (sv_secrets S) c) (\<lambda>bound.
     bind_res (guard_res bound (verr ''INVALID_CHALLENGE_BINDING'')) (\<lambda>_.
     bind_res (guard_res (is_aware now)
       (ValueError ''service clock must return a timezone-aware datetime'')) (\<lambda>_.
     bind_res (challenge_is_expired (sv_lib S) c now) (\<lambda>late.
     bind_res (guard_res (\<not> late) (verr ''CHALLENGE_EXPIRED'')) (\<lambda>_.
     bind_res (as_error ''INVALID_SESSION_REQUEST'' (decode_challenge_request (sv_lib S) c)) (\<lambda>decoded.
     bind_res (session_request_of decoded) (\<lambda>request.
     bind_res (guard_res (request_network request \<in> {None, Some (sv_network S)})
       (verr ''NETWORK_MISMATCH'')) (\<lambda>_.
     bind_res (guard_res (sr_recipient request = sv_recipient S) (verr ''RECIPIENT_MISMATCH'')) (\<lambda>_.
     bind_res (as_error ''INVALID_SOURCE''
       (parse_xrpl_did (or_empty (pcr_source cred)) (Some (sv_network S)))) (\<lambda>source.
     bind_res (guard_res (did_address source = sv_payer S) (verr ''SOURCE_MISMATCH'')) (\<lambda>_.
     bind_res (as_error ''INVALID_SESSION_PAYLOAD''
       (validate_session_payload (JObj (pcr_payload cred)))) (\<lambda>payload.
     bind_res (require_uint64 (sr_amount request)) (\<lambda>_.
     bind_res (require_uint64 (payload_amount payload)) (\<lambda>_.
     bind_res (case request_cumulative request of None \<Rightarrow> Inr () | Some c \<Rightarrow> require_uint64 c) (\<lambda>_.
     bind_res (check_action request payload) (\<lambda>_.
     Inr (request, payload))))))))))))))))))))"

section \<open>Claim signatures\<close>

text \<open>\<open>bytes.fromhex\<close>: pairs of digits, ASCII white space between them.\<close>

fun fromhex :: "string \<Rightarrow> string option" where
  "fromhex [] = Some []"
| "fromhex (c # cs) = (if py_space c then fromhex cs
     else case cs of
       [] \<Rightarrow> None
     | d # ds \<Rightarrow> if is_hex c \<and> is_hex d
         then map_option (\<lambda>t. char_of (16 * hex_value c + hex_value d) # t) (fromhex ds) else None)"

text \<open>The claim of a channel ID and an amount, as the recipient can redeem it.\<close>

definition claim_valid :: "xrpl_lib \<Rightarrow> string \<Rightarrow> string \<Rightarrow> string \<Rightarrow> string \<Rightarrow> bool option" where
  "claim_valid X channel cumulative signature public_key =
     Option.bind (Option.bind (x_signing_claim X channel cumulative) fromhex) (\<lambda>message.
     Option.bind (fromhex signature) (\<lambda>sig. x_valid_message X message sig public_key))"

definition verify_claim_signature :: "'w service \<Rightarrow> string \<Rightarrow> string \<Rightarrow> string \<Rightarrow> unit res" where
  "verify_claim_signature S channel cumulative signature =
     guard_res (claim_valid (sv_xrpl S) channel cumulative signature (sv_public_key S) = Some True)
       (verr ''INVALID_SIGNATURE'')"

section \<open>The transaction that opens a channel\<close>

definition is_text :: "json \<Rightarrow> string option" where
  "is_text j = (case j of JStr s \<Rightarrow> Some s | _ \<Rightarrow> None)"

definition is_int :: "json \<Rightarrow> int option" where
  "is_int j = (case j of JInt i \<Rightarrow> Some i | _ \<Rightarrow> None)"

text \<open>The static checks: type, parties, key, funding, settle delay, ledger bound.\<close>

definition check_open_static :: "'w service \<Rightarrow> string \<Rightarrow> tx_json \<Rightarrow> (string \<times> int) res" where
  "check_open_static S recipient tx =
     bind_res (guard_res (dget tx ''TransactionType'' = JStr ''PaymentChannelCreate'') (verr ''INVALID_OPEN_TRANSACTION'')) (\<lambda>_.
     bind_res (guard_res (\<not> truthy (dget tx ''Signers'')) (verr ''INVALID_OPEN_TRANSACTION'')) (\<lambda>_.
     bind_res (guard_res (dget tx ''Account'' = JStr (sv_payer S)) (verr ''SOURCE_MISMATCH'')) (\<lambda>_.
     bind_res (guard_res (dget tx ''Destination'' = JStr recipient \<and> dget tx ''Destination'' = JStr (sv_recipient S))
       (verr ''RECIPIENT_MISMATCH'')) (\<lambda>_.
     bind_res (guard_res (map_option py_upper (is_text (dget tx ''PublicKey'')) = Some (sv_public_key S))
       (verr ''PUBLIC_KEY_MISMATCH'')) (\<lambda>_.
     bind_res (as_error ''INVALID_FUNDING'' (bind_res (as_str ''Amount'' (dget tx ''Amount'')) validate_drops)) (\<lambda>funded.
     bind_res (guard_res (0 < py_int funded) (verr ''INVALID_FUNDING'')) (\<lambda>_.
     bind_res (require_uint64 funded) (\<lambda>_.
     bind_res (guard_res (case is_int (dget tx ''SettleDelay'') of None \<Rightarrow> False
         | Some d \<Rightarrow> sv_minimum_settle_delay S \<le> d) (verr ''SETTLE_DELAY_TOO_SHORT'')) (\<lambda>_.
     case is_int (dget tx ''LastLedgerSequence'') of
       None \<Rightarrow> Inl (verr ''OPEN_TRANSACTION_UNBOUNDED'')
     | Some sequence \<Rightarrow> if sequence \<le> 0 then Inl (verr ''OPEN_TRANSACTION_UNBOUNDED'') else Inr (funded, sequence))))))))))"

text \<open>
  The transaction must still be able to enter a ledger, and must not outlive the challenge:
  at one ledger per four seconds, with a slack of four ledgers.
\<close>

definition expiry_cap :: "int \<Rightarrow> int \<Rightarrow> int" where
  "expiry_cap current remaining_ms = current + \<lceil>fl (of_int remaining_ms / 4000)\<rceil> + 4"

definition check_open_ledger :: "'w service \<Rightarrow> string option \<Rightarrow> int \<Rightarrow> ('w, unit) proc" where
  "check_open_ledger S expires sequence = (case sv_current_ledger_index S of
     None \<Rightarrow> fail (verr ''LEDGER_INDEX_UNAVAILABLE'')
   | Some index \<Rightarrow>
       andthen (except (andthen index (\<lambda>current.
                 andthen (check (0 \<le> current) (ValueError ''invalid current ledger index'')) (\<lambda>_. ret current)))
               (\<lambda>e. fail (any_error ''LEDGER_INDEX_UNAVAILABLE'' e))) (\<lambda>current.
       andthen (check (current < sequence) (verr ''OPEN_TRANSACTION_EXPIRED'')) (\<lambda>_.
       if or_empty expires = [] then ret ()
       else reading (\<lambda>w. lift (
         case lib_fromiso (sv_lib S) (iso_offset (or_empty expires)) of
           None \<Rightarrow> Inl (ValueError ''Invalid isoformat string'')
         | Some t \<Rightarrow> bind_res (dt_sub t (sv_now S w)) (\<lambda>us.
             let remaining_ms = max 0 (py_trunc (fl (total_seconds us * 1000))) in
             guard_res (sequence \<le> expiry_cap current remaining_ms) (verr ''OPEN_TRANSACTION_OUTLIVES_CHALLENGE'')))))))"

definition ripple_epoch :: int where "ripple_epoch = 946684800"

definition check_cancel_after :: "'w service \<Rightarrow> json \<Rightarrow> datetime \<Rightarrow> unit res" where
  "check_cancel_after S cancel_after now =
     (if cancel_after = JNull then Inr ()
      else case is_int cancel_after of
        None \<Rightarrow> Inl (verr ''INVALID_OPEN_TRANSACTION'')
      | Some c \<Rightarrow>
          if c \<le> 0 then Inl (verr ''INVALID_OPEN_TRANSACTION'')
          else guard_res (py_trunc (timestamp_of now) - ripple_epoch + sv_settlement_margin_seconds S < c)
                 (verr ''CHANNEL_CLOSING''))"

text \<open>The signature over the transaction without \<open>TxnSignature\<close>; the result is the signing address.\<close>

definition transaction_signer :: "xrpl_lib \<Rightarrow> tx_json \<Rightarrow> string \<Rightarrow> string \<Rightarrow> (string \<times> bool) option" where
  "transaction_signer X tx key signature =
     Option.bind (x_derive_address X key) (\<lambda>address.
     Option.bind (Option.bind (x_encode_for_signing X (dpop ''TxnSignature'' tx)) fromhex) (\<lambda>message.
     Option.bind (fromhex signature) (\<lambda>sig.
     Option.bind (x_valid_message X message sig key) (\<lambda>valid. Some (address, valid)))))"

definition check_open_signature :: "'w service \<Rightarrow> tx_json \<Rightarrow> string res" where
  "check_open_signature S tx =
     (case is_text (dget tx ''SigningPubKey'') of None \<Rightarrow> Inl (verr ''INVALID_OPEN_SIGNATURE'')
      | Some key \<Rightarrow> (case is_text (dget tx ''TxnSignature'') of None \<Rightarrow> Inl (verr ''INVALID_OPEN_SIGNATURE'')
      | Some signature \<Rightarrow>
          if key = [] \<or> signature = [] then Inl (verr ''INVALID_OPEN_SIGNATURE'')
          else (case transaction_signer (sv_xrpl S) tx key signature of
            Some (address, True) \<Rightarrow> Inr address
          | _ \<Rightarrow> Inl (verr ''INVALID_OPEN_SIGNATURE''))))"

definition authorize_signer :: "'w service \<Rightarrow> string \<Rightarrow> string \<Rightarrow> ('w, unit) proc" where
  "authorize_signer S account address =
     (if address = account then ret ()
      else case sv_signer_authorizer S of
        None \<Rightarrow> fail (verr ''UNAUTHORIZED_SIGNER'')
      | Some authorizer \<Rightarrow>
          andthen (except (authorizer account address)
                    (\<lambda>e. fail (any_error ''SIGNER_AUTHORIZATION_FAILED'' e)))
            (\<lambda>ok. check ok (verr ''UNAUTHORIZED_SIGNER'')))"

definition decode_open_transaction :: "'w service \<Rightarrow> string \<Rightarrow> tx_json res" where
  "decode_open_transaction S blob = (case sv_transaction_decoder S blob of
     Some (JObj tx) \<Rightarrow> Inr tx | _ \<Rightarrow> Inl (verr ''INVALID_OPEN_TRANSACTION''))"

definition decode_and_verify_open_transaction ::
  "'w service \<Rightarrow> string \<Rightarrow> string \<Rightarrow> string option \<Rightarrow> ('w, tx_json \<times> string) proc"
where
  "decode_and_verify_open_transaction S blob recipient expires =
     andthen (lift (decode_open_transaction S blob)) (\<lambda>tx.
     andthen (lift (check_open_static S recipient tx)) (\<lambda>(funded, sequence).
     andthen (check_open_ledger S expires sequence) (\<lambda>_.
     andthen (reading (\<lambda>w. lift (check_cancel_after S (dget tx ''CancelAfter'') (sv_now S w)))) (\<lambda>_.
     andthen (lift (check_open_signature S tx)) (\<lambda>address.
     andthen (authorize_signer S (sv_payer S) address) (\<lambda>_.
     ret (tx, funded)))))))"

section \<open>Opening a channel\<close>

definition advance_failure :: "advance_status \<Rightarrow> exn" where
  "advance_failure status = (case status of
     Replay \<Rightarrow> verr ''CHANNEL_REPLAY'' | Regressed \<Rightarrow> verr ''CUMULATIVE_REGRESSION''
   | Short \<Rightarrow> verr ''SHORT_PAYMENT'' | Advanced \<Rightarrow> OtherError ''KeyError'')"

definition record_bound :: "'w service \<Rightarrow> string \<Rightarrow> string \<Rightarrow> pc_record \<Rightarrow> bool" where
  "record_bound S channel recipient r \<longleftrightarrow>
     r_network r = sv_network S \<and> r_channel_id r = py_upper channel \<and> r_payer r = sv_payer S
     \<and> r_recipient r = recipient \<and> r_recipient r = sv_recipient S"

definition assert_record_binding :: "'w service \<Rightarrow> string \<Rightarrow> string \<Rightarrow> pc_record \<Rightarrow> ('w, unit) proc" where
  "assert_record_binding S channel recipient r =
     check (record_bound S channel recipient r) (verr ''CHANNEL_BINDING_MISMATCH'')"

text \<open>\<open>OpenChannelSubmission.model_validate\<close>\<close>

definition validate_submission :: "string \<times> string \<Rightarrow> (string \<times> string) res" where
  "validate_submission p =
     bind_res (channel_id_field (fst p)) (\<lambda>c.
     bind_res (pattern_str ''txHash'' hex64 (snd p)) (\<lambda>h. Inr (c, h)))"

definition open_error :: "exn \<Rightarrow> exn" where
  "open_error e = (case e of VerificationError _ \<Rightarrow> e | SettlementPending _ \<Rightarrow> e
     | _ \<Rightarrow> any_error ''OPEN_SUBMISSION_FAILED'' e)"

definition submit_open :: "'w service \<Rightarrow> string \<Rightarrow> tx_json \<Rightarrow> ('w, string \<times> string) proc" where
  "submit_open S blob tx = (case sv_open_submitter S of
     None \<Rightarrow> fail (verr ''OPEN_SUBMISSION_REQUIRED'')
   | Some submitter \<Rightarrow>
       except (andthen (submitter blob tx) (\<lambda>p. lift (validate_submission p)))
         (\<lambda>e. fail (open_error e)))"

text \<open>Find the record of the opened channel, or create it; a lost creation race reads the winner's.\<close>

definition create_or_read :: "'w service \<Rightarrow> string \<Rightarrow> pc_record \<Rightarrow> ('w, pc_record \<times> bool) proc" where
  "create_or_read S channel candidate =
     except (andthen (st_create (sv_store S) candidate) (\<lambda>c. ret (c_record c, c_created c)))
       (\<lambda>e. if e = StoreError ''CHANNEL_CONFLICT''
         then andthen (st_get (sv_store S) (sv_network S) channel) (\<lambda>again. case again of
                Some r \<Rightarrow> ret (r, False) | None \<Rightarrow> fail e)
         else fail e)"

definition open_record :: "'w service \<Rightarrow> string \<Rightarrow> string \<Rightarrow> ('w, pc_record \<times> bool) proc" where
  "open_record S channel funded = on_store_error (
     andthen (st_get (sv_store S) (sv_network S) channel) (\<lambda>found. case found of
       Some r \<Rightarrow> ret (r, False)
     | None \<Rightarrow>
         andthen (timestamp_ms S) (\<lambda>ts.
         andthen (lift (validate_record (new_record (sv_network S) channel (sv_payer S) (sv_recipient S) funded ts)))
           (create_or_read S channel))))"

definition open_result ::
  "'w service \<Rightarrow> payment_credential \<Rightarrow> string \<Rightarrow> string \<Rightarrow> string \<Rightarrow> pc_record \<Rightarrow> verification_result res"
where
  "open_result S cred channel tx_hash previous r =
     mk_result \<lparr>vr_action = ''open'', vr_challenge_id = pch_id (pcr_challenge cred),
       vr_network = sv_network S, vr_payer = sv_payer S, vr_recipient = sv_recipient S,
       vr_channel_id = channel, vr_cumulative = r_cumulative r, vr_previous = previous,
       vr_reference = ''open:'' @ channel @ '':'' @ py_upper tx_hash, vr_replayed = False,
       vr_finalized = r_finalized r, vr_tx_hash = Some (py_upper tx_hash)\<rparr>"

text \<open>The initial cumulative amount, when there is one, goes through the same compare-and-set.\<close>

definition open_advance ::
  "'w service \<Rightarrow> string \<Rightarrow> string \<Rightarrow> string \<Rightarrow> string \<Rightarrow> pc_record \<Rightarrow> bool \<Rightarrow> ('w, pc_record \<times> string) proc"
where
  "open_advance S channel amount requested signature r created =
     (if 0 < py_int amount then
        andthen (timestamp_ms S) (\<lambda>ts.
        andthen (on_store_error (st_advance (sv_store S) (sv_network S) channel amount requested signature
                  None (Some ts))) (\<lambda>advance.
        if a_status advance = Advanced then ret (a_record advance, a_previous advance)
        else fail (advance_failure (a_status advance))))
      else if \<not> created then fail (verr ''CHANNEL_REPLAY'')
      else ret (r, r_cumulative r))"

text \<open>After the ledger accepted the transaction: the claim signature, the challenge, the record.\<close>

definition register_open ::
  "'w service \<Rightarrow> payment_credential \<Rightarrow> session_request \<Rightarrow> string \<Rightarrow> string \<Rightarrow> string \<Rightarrow> string \<times> string \<Rightarrow>
     ('w, verification_result) proc"
where
  "register_open S cred request amount signature funded submission =
     (let channel = py_upper (fst submission) in
      andthen (if 0 < py_int amount then lift (verify_claim_signature S channel amount signature) else ret ()) (\<lambda>_.
      andthen (claim_challenge S (pcr_challenge cred)) (\<lambda>_.
      andthen (open_record S channel funded) (\<lambda>(r, created).
      andthen (assert_record_binding S channel (sr_recipient request) r) (\<lambda>_.
      andthen (check (r_funded r = funded) (verr ''CHANNEL_CONFLICT'')) (\<lambda>_.
      andthen (open_advance S channel amount (sr_amount request) signature r created) (\<lambda>(r', previous).
      lift (open_result S cred channel (snd submission) previous r'))))))))"

definition verify_open ::
  "'w service \<Rightarrow> payment_credential \<Rightarrow> session_request \<Rightarrow> string \<Rightarrow> string \<Rightarrow> string \<Rightarrow>
     ('w, verification_result) proc"
where
  "verify_open S cred request blob amount signature =
     andthen (check (py_int (sr_amount request) \<le> py_int amount) (verr ''SHORT_PAYMENT'')) (\<lambda>_.
     andthen (decode_and_verify_open_transaction S blob (sr_recipient request)
                (pch_expires (pcr_challenge cred))) (\<lambda>(tx, funded).
     andthen (check (py_int amount \<le> py_int funded) (verr ''CHANNEL_EXHAUSTED'')) (\<lambda>_.
     andthen (submit_open S blob tx) (register_open S cred request amount signature funded))))"

section \<open>Vouchers and closes\<close>

text \<open>
  The record of the channel: stored, or imported from the ledger by the loader. The handler of
  the import sees \<open>PayChannelVerificationError\<close>, a store error (a lost creation race reads the
  winner's record), and any other exception.
\<close>

definition import_failure :: "'w service \<Rightarrow> string \<Rightarrow> exn \<Rightarrow> ('w, pc_record) proc" where
  "import_failure S channel e = (case e of
     VerificationError _ \<Rightarrow> fail e
   | StoreError code \<Rightarrow>
       if code \<noteq> ''CHANNEL_CONFLICT'' then fail (VerificationError code)
       else andthen (st_get (sv_store S) (sv_network S) channel) (\<lambda>again. case again of
              Some r \<Rightarrow> ret r | None \<Rightarrow> fail (VerificationError code))
   | _ \<Rightarrow> fail (any_error ''CHANNEL_LOOKUP_FAILED'' e))"

definition import_channel :: "'w service \<Rightarrow> string \<Rightarrow> string \<Rightarrow> (string \<Rightarrow> ('w, pc_record) proc) \<Rightarrow> ('w, pc_record) proc" where
  "import_channel S channel recipient loader =
     andthen (loader channel) (\<lambda>candidate.
     andthen (assert_record_binding S channel recipient candidate) (\<lambda>_.
     andthen (st_create (sv_store S) candidate) (\<lambda>created. ret (c_record created))))"

definition claim_record :: "'w service \<Rightarrow> string \<Rightarrow> string \<Rightarrow> ('w, pc_record) proc" where
  "claim_record S channel recipient =
     andthen (on_store_error (st_get (sv_store S) (sv_network S) channel)) (\<lambda>found.
     andthen (case found of
       Some r \<Rightarrow> ret r
     | None \<Rightarrow> (case sv_channel_loader S of
         None \<Rightarrow> fail (verr ''CHANNEL_NOT_FOUND'')
       | Some loader \<Rightarrow>
           except (import_channel S channel recipient loader) (import_failure S channel))) (\<lambda>r.
     andthen (assert_record_binding S channel recipient r) (\<lambda>_. ret r)))"

definition ledger_error :: "exn \<Rightarrow> exn" where
  "ledger_error e = (case e of VerificationError _ \<Rightarrow> e
     | _ \<Rightarrow> any_error ''CHANNEL_LEDGER_CHECK_FAILED'' e)"

definition ledger_funding :: "'w service \<Rightarrow> pc_record \<Rightarrow> string \<Rightarrow> ('w, string option) proc" where
  "ledger_funding S r amount = (case sv_ledger_verifier S of
     None \<Rightarrow> ret None
   | Some verifier \<Rightarrow> except (verifier r amount) (\<lambda>e. fail (ledger_error e)))"

text \<open>Every proof, and only then the challenge; the result is the funding seen on the ledger.\<close>

definition prove_claim ::
  "'w service \<Rightarrow> payment_credential \<Rightarrow> string \<Rightarrow> string \<Rightarrow> string \<Rightarrow> pc_record \<Rightarrow> ('w, string option) proc"
where
  "prove_claim S cred channel amount signature r =
     andthen (check (\<not> r_finalized r) (verr ''CHANNEL_FINALIZED'')) (\<lambda>_.
     andthen (lift (verify_claim_signature S channel amount signature)) (\<lambda>_.
     andthen (ledger_funding S r amount) (\<lambda>funded.
     andthen (claim_challenge S (pcr_challenge cred)) (\<lambda>_. ret funded))))"

definition resumable :: "bool \<Rightarrow> advance_result \<Rightarrow> bool" where
  "resumable closing advance \<longleftrightarrow> closing \<and> a_status advance = Replay \<and> a_exact_replay advance
     \<and> \<not> r_finalized (a_record advance)"

text \<open>The durable compare-and-set; a close may resume from the exact voucher already stored.\<close>

definition advance_claim ::
  "'w service \<Rightarrow> bool \<Rightarrow> string \<Rightarrow> string \<Rightarrow> string \<Rightarrow> string \<Rightarrow> string option \<Rightarrow> ('w, advance_result \<times> bool) proc"
where
  "advance_claim S closing channel amount requested signature funded =
     andthen (timestamp_ms S) (\<lambda>ts.
     andthen (on_store_error (st_advance (sv_store S) (sv_network S) channel amount requested signature
               funded (Some ts))) (\<lambda>advance.
     if a_status advance = Advanced then ret (advance, False)
     else if resumable closing advance then ret (advance, True)
     else fail (advance_failure (a_status advance))))"

section \<open>Settling a close\<close>

definition release_redemption_lease :: "'w service \<Rightarrow> string \<Rightarrow> string \<Rightarrow> ('w, unit) proc" where
  "release_redemption_lease S channel lease_id =
     except (st_release (sv_store S) (sv_network S) channel lease_id)
       (\<lambda>e. fail (store_or ''REDEMPTION_LEASE_FAILED'' e))"

definition settle_error :: "exn \<Rightarrow> exn" where
  "settle_error e = (case e of SettlementPending _ \<Rightarrow> e | VerificationError _ \<Rightarrow> e
     | _ \<Rightarrow> any_error ''CLOSE_SETTLEMENT_FAILED'' e)"

definition tx_hash_of :: "string \<Rightarrow> string res" where
  "tx_hash_of h = (if hex64 h then Inr (py_upper h) else Inl (ValidationError ''txHash''))"

text \<open>The on-ledger redemption of the record, and its entry in the store.\<close>

definition redeem_on_ledger ::
  "'w service \<Rightarrow> string \<Rightarrow> (pc_record \<Rightarrow> ('w, string) proc) \<Rightarrow> pc_record \<Rightarrow> ('w, pc_record \<times> string) proc"
where
  "redeem_on_ledger S channel settler r =
     andthen (except (andthen (settler r) (\<lambda>h. lift (tx_hash_of h))) (\<lambda>e. fail (settle_error e))) (\<lambda>tx_hash.
     andthen (timestamp_ms S) (\<lambda>ts.
     andthen (on_store_error (st_mark_redeemed (sv_store S) (sv_network S) channel (r_cumulative r)
               (Some (py_upper tx_hash)) (Some ts))) (\<lambda>r'. ret (r', tx_hash))))"

definition unredeemed :: "pc_record \<Rightarrow> bool" where
  "unredeemed r \<longleftrightarrow> py_int (r_redeemed r) < py_int (r_cumulative r)"

text \<open>The latest record under the lease, unchanged since the high-water mark was moved.\<close>

definition coordinated_record ::
  "'w service \<Rightarrow> string \<Rightarrow> string \<Rightarrow> pc_record \<Rightarrow> string option \<Rightarrow> ('w, pc_record) proc"
where
  "coordinated_record S channel recipient r lease =
     andthen (except (st_get (sv_store S) (sv_network S) channel)
               (\<lambda>e. fail (store_or ''REDEMPTION_LEASE_FAILED'' e))) (\<lambda>found. case found of
       None \<Rightarrow> fail (verr ''CHANNEL_NOT_FOUND'')
     | Some latest \<Rightarrow>
         andthen (assert_record_binding S channel recipient latest) (\<lambda>_.
         if r_cumulative latest \<noteq> r_cumulative r \<or> r_signature latest \<noteq> r_signature r then
           andthen (case lease of None \<Rightarrow> ret () | Some l \<Rightarrow> release_redemption_lease S channel l)
             (\<lambda>_. fail (verr ''CHANNEL_STATE_CHANGED''))
         else ret latest))"

definition nonempty_text :: "string option \<Rightarrow> string option" where
  "nonempty_text v = (case v of None \<Rightarrow> None | Some s \<Rightarrow> if s = [] then None else Some s)"

definition settle_close ::
  "'w service \<Rightarrow> string \<Rightarrow> string \<Rightarrow> pc_record \<Rightarrow> ('w, pc_record \<times> string option) proc"
where
  "settle_close S channel recipient r = (case sv_close_settler S of
     None \<Rightarrow> ret (r, None)
   | Some settler \<Rightarrow>
       if unredeemed r then
         andthen (except (st_claim (sv_store S) (sv_network S) channel (sv_redemption_lease_seconds S))
                   (\<lambda>e. fail (store_or ''REDEMPTION_LEASE_FAILED'' e))) (\<lambda>lease.
         andthen (coordinated_record S channel recipient r lease) (\<lambda>latest.
         andthen (check (lease \<noteq> None \<or> \<not> unredeemed latest)
                   (SettlementPending (channel @ '':'' @ r_cumulative latest))) (\<lambda>_.
         andthen (if unredeemed latest
                  then andthen (redeem_on_ledger S channel settler latest) (\<lambda>(r', h). ret (r', Some h))
                  else ret (latest, None)) (\<lambda>(r', tx_hash).
         andthen (case lease of None \<Rightarrow> ret () | Some l \<Rightarrow> release_redemption_lease S channel l) (\<lambda>_.
         ret (r', if tx_hash = None then nonempty_text (r_redemption_reference r') else tx_hash))))))
       else ret (r, nonempty_text (r_redemption_reference r)))"

definition finish_close ::
  "'w service \<Rightarrow> string \<Rightarrow> string \<Rightarrow> string \<Rightarrow> pc_record \<Rightarrow> ('w, pc_record \<times> string option) proc"
where
  "finish_close S channel amount recipient r =
     andthen (settle_close S channel recipient r) (\<lambda>(_, tx_hash).
     andthen (timestamp_ms S) (\<lambda>ts.
     andthen (on_store_error (st_finalize (sv_store S) (sv_network S) channel ''closed'' (Some amount) (Some ts)))
       (\<lambda>r'. ret (r', tx_hash))))"

definition claim_result ::
  "'w service \<Rightarrow> payment_credential \<Rightarrow> bool \<Rightarrow> string \<Rightarrow> string \<Rightarrow> bool \<Rightarrow> pc_record \<Rightarrow> string option \<Rightarrow>
     verification_result res"
where
  "claim_result S cred closing channel previous replayed r tx_hash =
     mk_result \<lparr>vr_action = (if closing then ''close'' else ''voucher''),
       vr_challenge_id = pch_id (pcr_challenge cred), vr_network = sv_network S, vr_payer = sv_payer S,
       vr_recipient = sv_recipient S, vr_channel_id = channel, vr_cumulative = r_cumulative r,
       vr_previous = previous, vr_reference = channel @ '':'' @ r_cumulative r, vr_replayed = replayed,
       vr_finalized = r_finalized r, vr_tx_hash = map_option py_upper (nonempty_text tx_hash)\<rparr>"

definition verify_claim_action ::
  "'w service \<Rightarrow> payment_credential \<Rightarrow> session_request \<Rightarrow> bool \<Rightarrow> string \<Rightarrow> string \<Rightarrow> string \<Rightarrow>
     ('w, verification_result) proc"
where
  "verify_claim_action S cred request closing payload_channel amount signature =
     (let channel = py_upper payload_channel in
      andthen (claim_record S channel (sr_recipient request)) (\<lambda>r.
      andthen (prove_claim S cred channel amount signature r) (\<lambda>funded.
      andthen (advance_claim S closing channel amount (sr_amount request) signature funded) (\<lambda>(advance, replayed).
      andthen (if closing then finish_close S channel amount (sr_recipient request) (a_record advance)
               else ret (a_record advance, None)) (\<lambda>(r', tx_hash).
      lift (claim_result S cred closing channel (a_previous advance) replayed r' tx_hash))))))"

definition verify :: "'w service \<Rightarrow> payment_credential \<Rightarrow> ('w, verification_result) proc" where
  "verify S cred =
     andthen (reading (\<lambda>w. lift (verify_envelope S cred (sv_now S w)))) (\<lambda>(request, payload). case payload of
       OpenPayload blob amount signature \<Rightarrow> verify_open S cred request blob amount signature
     | VoucherPayload channel amount signature \<Rightarrow>
         verify_claim_action S cred request False channel amount signature
     | ClosePayload channel amount signature \<Rightarrow>
         verify_claim_action S cred request True channel amount signature)"

end
