(* ===== verification/Accounting.thy ===== *)
theory Accounting
  imports StoreSpec
begin

text \<open>
  What the atomic advance means for money. An accepted voucher covers the previous high-water mark
  plus the price of its request and stays within the funding; a channel's history interleaves
  accepted vouchers with anything else the stores may do; over any history the prices sum to at
  most what the recipient can redeem. A finalized channel accepts nothing more.
\<close>

lemma spec_advance_Inr:
  assumes "good m" and run: "spec_advance network channel cumulative requested signature funded t m = (Inr adv, m')"
  obtains k r amount sg upd where "channel_key network channel = Inr k" "m k = Some r" "wf_record r"
    "matches network channel r" "\<not> r_finalized r" "funding_ok funded r" "amount = pydantic_strip cumulative"
    "drops_text amount" "drops_text requested" "signature_text sg" "sg \<noteq> []" "sg = pydantic_strip signature"
    "py_int amount \<le> py_int (r_funded (funded_after funded r))"
    "advance_mutate network channel amount sg requested funded t (Some r) = Inr (adv, upd)"
    "m' = (case upd of None \<Rightarrow> m | Some r' \<Rightarrow> m(k \<mapsto> r'))"
proof -
  from run obtain k mut where k: "channel_key network channel = Inr k"
    and mut: "advance_mutation network channel cumulative requested signature funded t = Inr mut"
    and at: "atomically k mut m = (Inr adv, m')"
    by (auto simp: spec_advance_def spec_mutate_def split: sum.splits)
  from mut obtain amount sg where m: "mut = advance_mutate network channel amount sg requested funded t"
    and v: "amount = pydantic_strip cumulative" "drops_text amount" "signature_text sg" "sg \<noteq> []"
      "sg = pydantic_strip signature"
    and f: "\<And>f. funded = Some f \<Longrightarrow> is_ascii_digits f"
    by (auto simp: advance_mutation_def res_iffs voucher_payload_Inr split: option.splits)
  from at obtain upd where out: "mut (m k) = Inr (adv, upd)"
    and m': "m' = (case upd of None \<Rightarrow> m | Some r' \<Rightarrow> m(k \<mapsto> r'))"
    by (auto simp: atomically_def split: sum.splits)
  have "\<And>r. m k = Some r \<Longrightarrow> wf_record r" using assms(1) by (auto simp: good_def keyed_def)
  with out [unfolded m] f obtain r where r: "m k = Some r" "wf_record r" "matches network channel r" "\<not> r_finalized r"
    "funding_ok funded r" "drops_text requested" "py_int amount \<le> py_int (r_funded (funded_after funded r))"
    by (blast elim: advance_mutate_Inr_args)
  with out [unfolded m] show thesis by (intro that [OF k _ _ _ _ _ v(1,2) _ v(3,4,5) _ _ m']) simp_all
qed

lemma spec_advance_accepted:
  assumes "good m" and "spec_advance network channel cumulative requested signature funded t m = (Inr adv, m')"
    and "a_status adv = Advanced"
  obtains k r where "channel_key network channel = Inr k" "m k = Some r" "wf_record r" "\<not> r_finalized r"
    "py_int (r_cumulative r) < py_int (pydantic_strip cumulative)"
    "py_int (r_cumulative r) + py_int requested \<le> py_int (pydantic_strip cumulative)"
    "py_int (pydantic_strip cumulative) \<le> py_int (r_funded (a_record adv))"
    "a_previous adv = py_str_int (py_int (r_cumulative r))"
    "r_cumulative (a_record adv) = pydantic_strip cumulative"
    "r_signature (a_record adv) = py_upper (pydantic_strip signature)"
    "\<not> r_finalized (a_record adv)" "wf_record (a_record adv)" "record_le r (a_record adv)"
    "m' = m(k \<mapsto> a_record adv)"
proof -
  from spec_advance_Inr [OF assms(1,2)] obtain k r amount sg upd where k: "channel_key network channel = Inr k" "m k = Some r"
    and wf: "wf_record r" and mt: "matches network channel r" and nf: "\<not> r_finalized r" and fo: "funding_ok funded r"
    and am: "amount = pydantic_strip cumulative" and a: "drops_text amount" and q: "drops_text requested"
    and s: "signature_text sg" "sg \<noteq> []" and sg: "sg = pydantic_strip signature"
    and fit: "py_int amount \<le> py_int (r_funded (funded_after funded r))"
    and run: "advance_mutate network channel amount sg requested funded t (Some r) = Inr (adv, upd)"
    and m': "m' = (case upd of None \<Rightarrow> m | Some r' \<Rightarrow> m(k \<mapsto> r'))" by metis
  let ?r1 = "funded_after funded r"
  note eq = advance_mutate_eq [OF wf mt nf fo a q s fit, of t]
  have adv: "advance_decision (py_int (r_cumulative r)) (py_int amount) (py_int requested) = Advanced"
    using run assms(3) unfolding eq Let_def by (auto split: if_splits)
  with run have rec: "a_record adv = advanced_record amount sg t ?r1" "upd = Some (a_record adv)"
    "a_previous adv = py_str_int (py_int (r_cumulative r))"
    unfolding eq Let_def by auto
  from adv have less: "py_int (r_cumulative r) < py_int amount" "py_int (r_cumulative r) + py_int requested \<le> py_int amount"
    by (auto simp: advance_decision_def py_int_def split: if_splits)
  have wf1: "wf_record (a_record adv)" unfolding rec
    using wf fo less fit a s by (intro wf_advanced_record wf_funded_after) simp_all
  have le: "record_le r (a_record adv)" unfolding rec
    using funded_after_le [OF wf fo nf] advanced_record_le [of ?r1 amount sg t] nf less
    by (auto intro: record_le_trans)
  show thesis
    using rec m' less fit am sg nf wf1 le by (intro that [OF k wf nf]) (simp_all add: advanced_record_def)
qed

text \<open>The only other outcome the verifier accepts: the exact voucher already stored.\<close>

lemma spec_advance_exact:
  assumes "good m" and "spec_advance network channel cumulative requested signature funded t m = (Inr adv, m')"
    and "a_exact_replay adv"
  obtains k r where "channel_key network channel = Inr k" "m k = Some r" "wf_record r" "\<not> r_finalized r"
    "r_cumulative r = pydantic_strip cumulative" "py_upper (r_signature r) = py_upper (pydantic_strip signature)"
    "a_record adv = funded_after funded r" "a_previous adv = py_str_int (py_int (r_cumulative r))"
proof -
  from spec_advance_Inr [OF assms(1,2)] obtain k r amount sg upd where k: "channel_key network channel = Inr k" "m k = Some r"
    and wf: "wf_record r" and mt: "matches network channel r" and nf: "\<not> r_finalized r" and fo: "funding_ok funded r"
    and am: "amount = pydantic_strip cumulative" and a: "drops_text amount" and q: "drops_text requested"
    and s: "signature_text sg" "sg \<noteq> []" and sg: "sg = pydantic_strip signature"
    and fit: "py_int amount \<le> py_int (r_funded (funded_after funded r))"
    and run: "advance_mutate network channel amount sg requested funded t (Some r) = Inr (adv, upd)"
    by metis
  note eq = advance_mutate_eq [OF wf mt nf fo a q s fit, of t]
  from run assms(3) have "r_cumulative r = amount \<and> py_upper (r_signature r) = py_upper sg \<and>
      a_record adv = funded_after funded r \<and> a_previous adv = py_str_int (py_int (r_cumulative r))"
    unfolding eq Let_def by (auto split: if_splits)
  then show thesis using am sg by (intro that [OF k wf nf]) simp_all
qed

section \<open>Histories of a channel\<close>

inductive channel_history :: "string \<Rightarrow> channel_map \<Rightarrow> int list \<Rightarrow> channel_map \<Rightarrow> bool" for k m0 where
  start: "channel_history k m0 [] m0"
| others: "channel_history k m0 prices m \<Longrightarrow> evolves m m' \<Longrightarrow> channel_history k m0 prices m'"
| voucher: "channel_history k m0 prices m \<Longrightarrow> channel_key network channel = Inr k \<Longrightarrow>
    spec_advance network channel cumulative requested signature funded t m = (Inr adv, m') \<Longrightarrow>
    a_status adv = Advanced \<Longrightarrow> channel_history k m0 (py_int requested # prices) m'"

lemma channel_history_good: "channel_history k m0 prices m \<Longrightarrow> good m0 \<Longrightarrow> good m"
  by (induction rule: channel_history.induct) (auto dest: evolves_good spec_advance_evolves)

definition cumulative_at :: "string \<Rightarrow> channel_map \<Rightarrow> int" where
  "cumulative_at k m = (case m k of None \<Rightarrow> 0 | Some r \<Rightarrow> py_int (r_cumulative r))"

lemma cumulative_at_evolves: "evolves m m' \<Longrightarrow> cumulative_at k m \<le> cumulative_at k m'"
  using evolvesD [of m m' k]
  by (cases "m k") (auto simp: cumulative_at_def record_le_def py_int_def split: option.splits)

lemma channel_history_prices:
  "channel_history k m0 prices m \<Longrightarrow> good m0 \<Longrightarrow> cumulative_at k m0 + sum_list prices \<le> cumulative_at k m"
proof (induction rule: channel_history.induct)
  case (others prices m m')
  then show ?case using cumulative_at_evolves [of m m' k] by simp
next
  case (voucher prices m network channel cumulative requested signature funded t adv m')
  then have "good m" by (blast dest: channel_history_good)
  from spec_advance_accepted [OF this voucher.hyps(3,4)] obtain k' r where
    "channel_key network channel = Inr k'" "m k' = Some r"
    "py_int (r_cumulative r) + py_int requested \<le> py_int (pydantic_strip cumulative)"
    "r_cumulative (a_record adv) = pydantic_strip cumulative" "m' = m(k' \<mapsto> a_record adv)" by metis
  with voucher show ?case by (simp add: cumulative_at_def)
qed simp

lemma good_cumulative_funded:
  "good m \<Longrightarrow> m k = Some r \<Longrightarrow> py_int (r_cumulative r) \<le> py_int (r_funded r)"
  by (auto simp: good_def keyed_def wf_record_def accounting_None_iff)

text \<open>A finalized channel.\<close>

lemma finalized_refuses:
  assumes "good m" and "channel_key network channel = Inr k" and "m k = Some r" and "r_finalized r"
    and "evolves m m1"
  shows "fst (spec_advance network channel cumulative requested signature funded t m1) \<noteq> Inr adv"
proof
  assume run: "fst (spec_advance network channel cumulative requested signature funded t m1) = Inr adv"
  obtain m2 where "spec_advance network channel cumulative requested signature funded t m1 = (Inr adv, m2)"
    using run by (metis prod.collapse)
  with spec_advance_Inr [OF evolves_good [OF assms(5,1)] this] obtain r1
    where "m1 k = Some r1" "\<not> r_finalized r1" using assms(2) by (metis Inr_inject)
  with evolvesD [OF assms(5,3)] assms(4) show False by (auto simp: record_le_def)
qed

lemma finalize_mutate_Inr:
  assumes "finalize_mutate network channel reason expected t c = Inr (r', upd)"
  obtains r where "c = Some r" "matches network channel r" "r_finalized r'"
    "\<And>e. expected = Some e \<Longrightarrow> r_cumulative r = e" "upd = None \<Longrightarrow> r' = r" "\<And>x. upd = Some x \<Longrightarrow> x = r'"
  using assms
  by (fastforce simp: finalize_mutate_def res_iffs require_record_Inr Let_def validate_record_def record_fields_def
      split: if_splits option.splits)

lemma spec_finalize_Inr:
  assumes "good m" and run: "spec_finalize network channel reason expected t m = (Inr r', m')"
  obtains k where "channel_key network channel = Inr k" "m' k = Some r'" "r_finalized r'"
    "\<And>e. expected = Some e \<Longrightarrow> cumulative_at k m = py_int e"
proof -
  from run obtain k mut where k: "channel_key network channel = Inr k"
    and mut: "finalize_mutation network channel reason expected t = Inr mut"
    and at: "atomically k mut m = (Inr r', m')"
    by (auto simp: spec_finalize_def spec_mutate_def split: sum.splits)
  from mut have m: "mut = finalize_mutate network channel (py_strip reason) expected t"
    by (auto simp: finalize_mutation_def res_iffs validate_drops_def Let_def split: if_splits option.splits)
  from at obtain upd where out: "mut (m k) = Inr (r', upd)"
    and m': "m' = (case upd of None \<Rightarrow> m | Some x \<Rightarrow> m(k \<mapsto> x))"
    by (auto simp: atomically_def split: sum.splits)
  from finalize_mutate_Inr [OF out [unfolded m]] obtain r where r: "m k = Some r" "r_finalized r'"
    "\<And>e. expected = Some e \<Longrightarrow> r_cumulative r = e" "upd = None \<Longrightarrow> r' = r" "\<And>x. upd = Some x \<Longrightarrow> x = r'"
    by metis
  then have "m' k = Some r'" by (cases upd) (simp_all add: m')
  with r that k show thesis by (simp add: cumulative_at_def)
qed

end
