(* ===== verification/ServiceSafety.thy ===== *)
theory ServiceSafety
  imports Service Accounting
begin

text \<open>
  What \<open>PayChannelService.verify\<close> guarantees over any store that meets the contract
  \<open>channel_store\<close>, with hooks that let other requests run meanwhile. A computation is
  \<^emph>\<open>calm\<close> when, whatever its outcome, the channels only evolve. The locale
  \<open>session_service\<close> collects what the verifier relies on.
\<close>

section \<open>Calm computations\<close>

definition calm :: "('w \<Rightarrow> bool) \<Rightarrow> ('w \<Rightarrow> channel_map) \<Rightarrow> ('w, 'a) proc \<Rightarrow> bool" where
  "calm okay view p \<longleftrightarrow> (\<forall>w r w'. okay w \<longrightarrow> p w = (r, w') \<longrightarrow> okay w' \<and> evolves (view w) (view w'))"

lemma calmI: "(\<And>w r w'. okay w \<Longrightarrow> p w = (r, w') \<Longrightarrow> okay w' \<and> evolves (view w) (view w')) \<Longrightarrow> calm okay view p"
  by (simp add: calm_def)

lemma calmD: "calm okay view p \<Longrightarrow> okay w \<Longrightarrow> p w = (r, w') \<Longrightarrow> okay w' \<and> evolves (view w) (view w')"
  by (simp add: calm_def)

named_theorems calm_rules \<open>composition of calm computations\<close>

lemma calm_prims [calm_rules]:
  "calm okay view (ret x)" "calm okay view (fail e)" "calm okay view (lift r)" "calm okay view (check b e)"
  by (auto simp: calm_def check_def ret_def fail_def lift_def)

lemma calm_andthen [calm_rules]:
  assumes "calm okay view m" and "\<And>x. calm okay view (f x)"
  shows "calm okay view (andthen m f)"
proof (rule calmI)
  fix w r w' assume ok: "okay w" and run: "andthen m f w = (r, w')"
  obtain r0 w0 where m: "m w = (r0, w0)" by force
  with assms(1) ok have 0: "okay w0 \<and> evolves (view w) (view w0)" by (rule calmD)
  show "okay w' \<and> evolves (view w) (view w')"
  proof (cases r0)
    case (Inl e)
    with m run 0 show ?thesis by (simp add: andthen_def)
  next
    case (Inr x)
    with m run have "f x w0 = (r, w')" by (simp add: andthen_def)
    with calmD [OF assms(2)] 0 show ?thesis by (metis evolves_trans)
  qed
qed

lemma calm_andthen_post:
  assumes "calm okay view m" and "\<And>w x w'. m w = (Inr x, w') \<Longrightarrow> P x" and "\<And>x. P x \<Longrightarrow> calm okay view (f x)"
  shows "calm okay view (andthen m f)"
proof -
  have "andthen m f = andthen m (\<lambda>x. if P x then f x else ret undefined)"
    using assms(2) by (fastforce simp: andthen_def fun_eq_iff split: prod.splits sum.splits)
  moreover have "calm okay view (andthen m (\<lambda>x. if P x then f x else ret undefined))"
    using assms(3) by (intro calm_andthen assms(1)) (auto intro: calm_prims)
  ultimately show ?thesis by simp
qed

lemma calm_except [calm_rules]:
  assumes "calm okay view m" and "\<And>e. calm okay view (h e)"
  shows "calm okay view (except m h)"
proof (rule calmI)
  fix w r w' assume ok: "okay w" and run: "except m h w = (r, w')"
  obtain r0 w0 where m: "m w = (r0, w0)" by force
  with assms(1) ok have 0: "okay w0 \<and> evolves (view w) (view w0)" by (rule calmD)
  show "okay w' \<and> evolves (view w) (view w')"
  proof (cases r0)
    case (Inr x)
    with m run 0 show ?thesis by (simp add: except_def)
  next
    case (Inl e)
    with m run have "h e w0 = (r, w')" by (simp add: except_def)
    with calmD [OF assms(2)] 0 show ?thesis by (metis evolves_trans)
  qed
qed

lemma calm_world [calm_rules]: "(\<And>w. calm okay view (p w)) \<Longrightarrow> calm okay view (reading p)"
  by (auto simp: calm_def reading_def)

lemma calm_case_option [calm_rules]:
  "(x = None \<Longrightarrow> calm okay view a) \<Longrightarrow> (\<And>y. x = Some y \<Longrightarrow> calm okay view (b y)) \<Longrightarrow>
     calm okay view (case x of None \<Rightarrow> a | Some y \<Rightarrow> b y)"
  by (cases x) simp_all

lemma calm_if [calm_rules]:
  "(b \<Longrightarrow> calm okay view p) \<Longrightarrow> (\<not> b \<Longrightarrow> calm okay view q) \<Longrightarrow> calm okay view (if b then p else q)"
  by simp

lemma calm_case_prod [calm_rules]:
  "(\<And>a b. calm okay view (f a b)) \<Longrightarrow> calm okay view (case x of (a, b) \<Rightarrow> f a b)"
  by (cases x) simp

lemma linearizable_calm: "linearizable okay view spec p \<Longrightarrow> calm okay view p"
  unfolding linearizable_def calm_def by blast

lemma calm_timestamp [calm_rules]: "calm okay view (timestamp_ms S)"
  by (auto simp: calm_def timestamp_ms_def)

lemma calm_store_error [calm_rules]: "calm okay view p \<Longrightarrow> calm okay view (on_store_error p)"
  unfolding on_store_error_def by (intro calm_rules)

section \<open>What the pure checks establish\<close>

lemma payload_hex:
  "validate_session_payload j = Inr p \<Longrightarrow>
     case p of OpenPayload _ _ _ \<Rightarrow> True | VoucherPayload c _ _ \<Rightarrow> hex64 c | ClosePayload c _ _ \<Rightarrow> hex64 c"
  by (auto simp: validate_session_payload_def open_fields_def claim_fields_def voucher_payload_def res_iffs
      channel_id_field_def pattern_str_Inr split: if_splits)

lemma envelope_hex:
  "verify_envelope S cred now = Inr (request, p) \<Longrightarrow>
     case p of OpenPayload _ _ _ \<Rightarrow> True | VoucherPayload c _ _ \<Rightarrow> hex64 c | ClosePayload c _ _ \<Rightarrow> hex64 c"
  by (auto simp: verify_envelope_def Let_def res_iffs as_error_def dest!: payload_hex split: if_splits)

lemma mk_result_Inr:
  "mk_result r = Inr r' \<Longrightarrow> vr_finalized r' = vr_finalized r \<and> vr_replayed r' = vr_replayed r \<and>
     vr_cumulative r' = pydantic_strip (vr_cumulative r) \<and> vr_previous r' = pydantic_strip (vr_previous r)"
  by (auto simp: mk_result_def res_iffs drops_field_def constrained_Inr)

lemma validate_submission_hex: "validate_submission p = Inr (c, h) \<Longrightarrow> hex64 c \<and> hex64 h"
  by (auto simp: validate_submission_def res_iffs channel_id_field_def pattern_str_Inr)

section \<open>The service over a store\<close>

text \<open>The claim was signed for this channel and amount, and the challenge was claimed for this request.\<close>

definition claim_proved :: "'w service \<Rightarrow> payment_credential \<Rightarrow> string \<Rightarrow> string \<Rightarrow> string \<Rightarrow> bool" where
  "claim_proved S cred channel amount signature \<longleftrightarrow>
     claim_valid (sv_xrpl S) channel amount signature (sv_public_key S) = Some True \<and>
     (\<exists>life wa wb. sv_claim_challenge S (challenge_claim_id S (pcr_challenge cred)) life wa = (Inr True, wb))"

locale session_service = channel_store ops view okay
  for ops :: "'w store_ops" and view :: "'w \<Rightarrow> channel_map" and okay :: "'w \<Rightarrow> bool" +
  fixes S :: "'w service"
  assumes store: "sv_store S = ops"
    and claim_hook: "calm okay view (sv_claim_challenge S cid life)"
    and submit_hook: "sv_open_submitter S = Some submitter \<Longrightarrow> calm okay view (submitter blob tx)"
    and ledger_hook: "sv_ledger_verifier S = Some verifier \<Longrightarrow> calm okay view (verifier r amount)"
    and loader_hook: "sv_channel_loader S = Some loader \<Longrightarrow> calm okay view (loader channel)"
    and loader_wf: "sv_channel_loader S = Some loader \<Longrightarrow> loader channel w = (Inr r, w') \<Longrightarrow> wf_record r"
    and settle_hook: "sv_close_settler S = Some settler \<Longrightarrow> calm okay view (settler r)"
    and signer_hook: "sv_signer_authorizer S = Some authorizer \<Longrightarrow> calm okay view (authorizer a b)"
    and index_hook: "sv_current_ledger_index S = Some index \<Longrightarrow> calm okay view index"
begin

lemma calm_get: "hex64 channel \<Longrightarrow> calm okay view (st_get (sv_store S) (sv_network S) channel)"
  unfolding store by (rule linearizable_calm) (rule get_law)

lemma calm_create: "wf_record r \<Longrightarrow> calm okay view (st_create (sv_store S) r)"
  unfolding store by (rule linearizable_calm) (rule create_law)

lemma calm_advance: "calm okay view (st_advance (sv_store S) n c a q s f t)"
  unfolding store by (rule linearizable_calm) (rule advance_law)

lemma calm_redeem: "calm okay view (st_mark_redeemed (sv_store S) n c a ref t)"
  unfolding store by (rule linearizable_calm) (rule redeem_law)

lemma calm_finalize: "calm okay view (st_finalize (sv_store S) n c reason e t)"
  unfolding store by (rule linearizable_calm) (rule finalize_law)

lemma calm_lease: "calm okay view (st_claim (sv_store S) n c l)"
  unfolding store by (rule linearizable_calm) (rule claim_law)

lemma calm_unlease: "calm okay view (st_release (sv_store S) n c l)"
  unfolding store by (rule linearizable_calm) (rule release_law)

lemmas calm_ops = calm_get calm_advance calm_redeem calm_finalize calm_lease calm_unlease

lemma calm_claim_challenge: "calm okay view (claim_challenge S c)"
  unfolding claim_challenge_def by (intro calm_rules claim_hook)

lemma calm_prove_claim: "calm okay view (prove_claim S cred channel amount signature r)"
  unfolding prove_claim_def ledger_funding_def
  by (intro calm_rules calm_claim_challenge) (rule ledger_hook)

lemma calm_advance_claim: "calm okay view (advance_claim S closing channel amount requested signature funded)"
  unfolding advance_claim_def by (intro calm_rules calm_ops)

lemma calm_settle_close:
  assumes "hex64 channel"
  shows "calm okay view (settle_close S channel recipient r)"
  unfolding settle_close_def coordinated_record_def redeem_on_ledger_def release_redemption_lease_def
    assert_record_binding_def
  by (intro calm_rules calm_ops assms) (rule settle_hook)

lemma calm_finish_close: "hex64 channel \<Longrightarrow> calm okay view (finish_close S channel amount recipient r)"
  unfolding finish_close_def by (intro calm_rules calm_settle_close calm_ops)

lemma calm_import_failure: "hex64 channel \<Longrightarrow> calm okay view (import_failure S channel e)"
  unfolding import_failure_def by (cases e; simp; intro calm_rules calm_get impI conjI; simp)

lemma calm_import_channel:
  assumes "sv_channel_loader S = Some loader"
  shows "calm okay view (import_channel S channel recipient loader)"
  unfolding import_channel_def assert_record_binding_def
  by (rule calm_andthen_post [where P = wf_record, OF loader_hook [OF assms] loader_wf [OF assms]], assumption)
    (intro calm_rules calm_create)

lemma calm_claim_record: "hex64 channel \<Longrightarrow> calm okay view (claim_record S channel recipient)"
  unfolding claim_record_def assert_record_binding_def
  by (intro calm_rules calm_get calm_import_channel calm_import_failure)

lemma calm_verify_claim_action:
  "hex64 channel \<Longrightarrow> calm okay view (verify_claim_action S cred request closing channel amount signature)"
  unfolding verify_claim_action_def Let_def
  by (intro calm_rules calm_claim_record calm_prove_claim calm_advance_claim calm_finish_close hex64_upper)

lemma calm_create_or_read:
  "hex64 channel \<Longrightarrow> wf_record r \<Longrightarrow> calm okay view (create_or_read S channel r)"
  unfolding create_or_read_def by (intro calm_rules calm_get calm_create)

lemma calm_open_record:
  assumes "hex64 channel"
  shows "calm okay view (open_record S channel funded)"
proof -
  let ?new = "\<lambda>ts. validate_record (new_record (sv_network S) channel (sv_payer S) (sv_recipient S) funded ts)"
  have "calm okay view (andthen (lift (?new ts)) (create_or_read S channel))" for ts
    by (rule calm_andthen_post [where P = wf_record])
      (auto intro: calm_prims calm_create_or_read assms dest: validate_record_wf [OF sym])
  then show ?thesis unfolding open_record_def
    by (intro calm_store_error calm_andthen [OF calm_get [OF assms]] calm_case_option
        calm_andthen [OF calm_timestamp] calm_prims)
qed

lemma submit_open_hex: "submit_open S blob tx w = (Inr (c, h), w') \<Longrightarrow> hex64 c \<and> hex64 h"
  by (auto simp: submit_open_def proc_iffs dest: validate_submission_hex [OF sym] split: option.splits)

lemma calm_decode_open: "calm okay view (decode_and_verify_open_transaction S blob recipient expires)"
  unfolding decode_and_verify_open_transaction_def check_open_ledger_def authorize_signer_def
  by (intro calm_rules) (blast intro: index_hook signer_hook)+

lemma calm_submit_open: "calm okay view (submit_open S blob tx)"
  unfolding submit_open_def by (intro calm_rules) (rule submit_hook)

lemma calm_register_open:
  "hex64 (fst p) \<Longrightarrow> calm okay view (register_open S cred request amount signature funded p)"
  unfolding register_open_def Let_def assert_record_binding_def open_advance_def
  by (intro calm_rules calm_claim_challenge calm_open_record calm_advance hex64_upper)

lemma calm_verify_open: "calm okay view (verify_open S cred request blob amount signature)"
  unfolding verify_open_def
  by (intro calm_andthen [OF calm_prims(4)] calm_andthen [OF calm_decode_open] calm_case_prod
      calm_andthen_post [where P = "\<lambda>p. hex64 (fst p)", OF calm_submit_open _ calm_register_open])
    (auto dest: submit_open_hex)

text \<open>Whatever a request does, and however it ends, channels only move forward.\<close>

lemma calm_verify: "calm okay view (verify S cred)"
  unfolding verify_def
proof (rule calm_andthen_post [where P = "\<lambda>(request, p). case p of OpenPayload _ _ _ \<Rightarrow> True
    | VoucherPayload c _ _ \<Rightarrow> hex64 c | ClosePayload c _ _ \<Rightarrow> hex64 c"], goal_cases)
  case 1
  show ?case by (intro calm_rules)
next
  case (2 w x w')
  then show ?case by (cases x) (auto simp: reading_def dest: envelope_hex [OF sym])
next
  case (3 x)
  then show ?case
    by (cases x; cases "snd x") (auto intro: calm_verify_open calm_verify_claim_action)
qed

section \<open>What a success has established\<close>

lemma advance_claim_success:
  assumes "okay w" and "advance_claim S closing channel amount requested signature funded w = (Inr (adv, replayed), w')"
  shows "okay w' \<and> (\<exists>m1 m2 t. evolves (view w) m1 \<and> good m1 \<and> evolves m2 (view w') \<and>
    spec_advance (sv_network S) channel amount requested signature funded t m1 = (Inr adv, m2)) \<and>
    (a_status adv = Advanced \<and> \<not> replayed \<or> resumable closing adv \<and> replayed)"
proof -
  from assms(2) obtain ts where run: "st_advance ops (sv_network S) channel amount requested signature
      funded (Some ts) w = (Inr adv, w')"
    and st: "a_status adv = Advanced \<and> \<not> replayed \<or> resumable closing adv \<and> replayed"
    by (auto simp: advance_claim_def on_store_error_def proc_iffs timestamp_ms_def store split: if_splits)
  from linearizableE [OF advance_law assms(1) run] obtain m1 m2 where "okay w'" "evolves (view w) m1"
    "\<exists>t. (\<forall>t'. Some ts = Some t' \<longrightarrow> t = t') \<and>
      (Inr adv, m2) = spec_advance (sv_network S) channel amount requested signature funded t m1"
    "evolves m2 (view w')" by blast
  moreover have "good m1" using inv_good [OF assms(1)] \<open>evolves (view w) m1\<close> by (blast dest: evolves_good)
  ultimately show ?thesis using st by metis
qed

lemma finish_close_success:
  assumes "okay w" and "hex64 channel"
    and "finish_close S channel amount recipient r w = (Inr (r', tx_hash), w')"
  shows "okay w' \<and> r_finalized r' \<and> (\<exists>k m1 m2. evolves (view w) m1 \<and> good m2 \<and> evolves m2 (view w') \<and>
    channel_key (sv_network S) channel = Inr k \<and> cumulative_at k m1 = py_int amount \<and> m2 k = Some r')"
proof -
  from assms(3) obtain r0 h ts w1 where settle: "settle_close S channel recipient r w = (Inr (r0, h), w1)"
    and run: "st_finalize ops (sv_network S) channel ''closed'' (Some amount) (Some ts) w1 = (Inr r', w')"
    by (auto simp: finish_close_def on_store_error_def proc_iffs timestamp_ms_def store split: if_splits prod.splits)
  from calmD [OF calm_settle_close [OF assms(2)] assms(1) settle] have ok1: "okay w1"
    and ev1: "evolves (view w) (view w1)" by blast+
  from linearizableE [OF finalize_law ok1 run] obtain m1 m2 t where "okay w'" and ev: "evolves (view w1) m1"
    "evolves m2 (view w')"
    and sp: "spec_finalize (sv_network S) channel ''closed'' (Some amount) t m1 = (Inr r', m2)" by metis
  have g1: "good m1" using inv_good [OF ok1] ev(1) by (blast dest: evolves_good)
  from spec_finalize_Inr [OF this sp] obtain k where "channel_key (sv_network S) channel = Inr k"
    "m2 k = Some r'" "r_finalized r'" "cumulative_at k m1 = py_int amount" by metis
  moreover have "good m2" using spec_finalize_evolves [OF g1 sp] g1 by (blast dest: evolves_good)
  ultimately show ?thesis using \<open>okay w'\<close> evolves_trans [OF ev1 ev(1)] ev(2) by blast
qed

lemma prove_claim_success:
  assumes "prove_claim S cred channel amount signature r w = (Inr funded, w')"
  shows "claim_proved S cred channel amount signature"
  using assms by (auto simp: prove_claim_def claim_challenge_def verify_claim_signature_def proc_iffs
      claim_proved_def reading_def dest: sym) blast

lemma verify_claim_success:
  assumes ok: "okay w" and hex: "hex64 channel"
    and run: "verify_claim_action S cred request closing channel amount signature w = (Inr res, w')"
  shows "claim_proved S cred (py_upper channel) amount signature"
    and "\<exists>m1 m2 t funded adv. evolves (view w) m1 \<and> good m1 \<and> evolves m2 (view w') \<and>
      spec_advance (sv_network S) (py_upper channel) amount (sr_amount request) signature funded t m1 = (Inr adv, m2) \<and>
      (a_status adv = Advanced \<or> resumable closing adv) \<and>
      vr_previous res = pydantic_strip (a_previous adv) \<and>
      (\<not> closing \<longrightarrow> a_status adv = Advanced \<and> vr_cumulative res = pydantic_strip (r_cumulative (a_record adv)))"
    and "closing \<Longrightarrow> vr_finalized res \<and> (\<exists>k m r. channel_key (sv_network S) (py_upper channel) = Inr k \<and>
      good m \<and> m k = Some r \<and> r_finalized r \<and> evolves m (view w'))"
    and "okay w'"
proof -
  let ?ch = "py_upper channel"
  from run obtain r w1 funded w2 adv replayed w3 r' tx_hash where
    r: "claim_record S ?ch (sr_recipient request) w = (Inr r, w1)"
    and prove: "prove_claim S cred ?ch amount signature r w1 = (Inr funded, w2)"
    and adv: "advance_claim S closing ?ch amount (sr_amount request) signature funded w2 = (Inr (adv, replayed), w3)"
    and fin: "(if closing then finish_close S ?ch amount (sr_recipient request) (a_record adv)
               else ret (a_record adv, None)) w3 = (Inr (r', tx_hash), w')"
    and res: "claim_result S cred closing ?ch (a_previous adv) replayed r' tx_hash = Inr res"
    unfolding verify_claim_action_def Let_def by (auto simp: proc_iffs split: prod.splits)
  have h: "hex64 ?ch" using hex by simp
  from calmD [OF calm_claim_record [OF h] ok r] have ok1: "okay w1" "evolves (view w) (view w1)" by blast+
  from calmD [OF calm_prove_claim ok1(1) prove] ok1(2) have ok2: "okay w2" "evolves (view w) (view w2)"
    by (blast intro: evolves_trans)+
  from advance_claim_success [OF ok2(1) adv] obtain m1 m2 t where ok3: "okay w3" and ev1: "evolves (view w2) m1"
    and g1: "good m1" and ev2: "evolves m2 (view w3)"
    and sp: "spec_advance (sv_network S) ?ch amount (sr_amount request) signature funded t m1 = (Inr adv, m2)"
    and st: "a_status adv = Advanced \<and> \<not> replayed \<or> resumable closing adv \<and> replayed" by blast
  have "calm okay view (if closing then finish_close S ?ch amount (sr_recipient request) (a_record adv)
               else ret (a_record adv, None))" by (intro calm_rules calm_finish_close h)
  from calmD [OF this ok3 fin] have okw: "okay w'" and ev3: "evolves (view w3) (view w')" by blast+
  show "okay w'" by (rule okw)
  show "claim_proved S cred ?ch amount signature" using prove by (rule prove_claim_success)
  note mk = mk_result_Inr [OF res [unfolded claim_result_def]]
  have "\<not> closing \<Longrightarrow> a_status adv = Advanced \<and> r' = a_record adv" using st fin by (auto simp: resumable_def)
  with mk st sp g1 evolves_trans [OF ok2(2) ev1] evolves_trans [OF ev2 ev3]
  show "\<exists>m1 m2 t funded adv. evolves (view w) m1 \<and> good m1 \<and> evolves m2 (view w') \<and>
      spec_advance (sv_network S) ?ch amount (sr_amount request) signature funded t m1 = (Inr adv, m2) \<and>
      (a_status adv = Advanced \<or> resumable closing adv) \<and>
      vr_previous res = pydantic_strip (a_previous adv) \<and>
      (\<not> closing \<longrightarrow> a_status adv = Advanced \<and> vr_cumulative res = pydantic_strip (r_cumulative (a_record adv)))"
    by (intro exI conjI) (assumption | auto)+
  show "vr_finalized res \<and> (\<exists>k m r. channel_key (sv_network S) ?ch = Inr k \<and>
      good m \<and> m k = Some r \<and> r_finalized r \<and> evolves m (view w'))" if closing
  proof -
    from that fin have "finish_close S ?ch amount (sr_recipient request) (a_record adv) w3 = (Inr (r', tx_hash), w')" by simp
    from finish_close_success [OF ok3 h this] mk show ?thesis by auto
  qed
qed

end

end
