(* ===== verification/Worker.thy ===== *)
theory Worker
  imports ServiceSafety
begin

text \<open>
  \<open>PayChannelRedemptionWorker\<close> of \<open>paychannel_worker.py\<close>: sweeps over pages of channel records,
  redeems what is owed on the ledger under a lease, and closes idle channels. The worker keeps a
  scan cursor beside the world; the counters of a sweep are lost when an exception leaves it.
  Logging has no effect on the state and is left out; \<open>asyncio.CancelledError\<close> is a \<open>BaseExn\<close>.
\<close>

section \<open>Configuration\<close>

record 'w worker =
  wk_store :: "'w store_ops"
  wk_settler :: "pc_record \<Rightarrow> ('w, string) proc"
  wk_network :: string
  wk_interval_seconds :: int
  wk_idle_close_ms :: int
  wk_batch_size :: int
  wk_lease_seconds :: int
  wk_clock :: "'w \<Rightarrow> int"

definition positive_setting :: "string \<Rightarrow> int \<Rightarrow> bool \<Rightarrow> unit res" where
  "positive_setting name value allow_zero =
     guard_res ((if allow_zero then 0 else 1) \<le> value)
       (ValueError (name @ '' must be a '' @ (if allow_zero then ''non-negative'' else ''positive'') @ '' integer''))"

definition init_worker ::
  "'w store_ops \<Rightarrow> (pc_record \<Rightarrow> ('w, string) proc) \<Rightarrow> string \<Rightarrow> int \<Rightarrow> int \<Rightarrow> int \<Rightarrow> int \<Rightarrow> ('w \<Rightarrow> int) \<Rightarrow> 'w worker res"
where
  "init_worker store settler network interval idle batch lease clock =
     bind_res (positive_setting ''interval_seconds'' interval False) (\<lambda>_.
     bind_res (positive_setting ''idle_close_seconds'' idle True) (\<lambda>_.
     bind_res (positive_setting ''batch_size'' batch False) (\<lambda>_.
     bind_res (positive_setting ''lease_seconds'' lease False) (\<lambda>_.
     Inr \<lparr>wk_store = store, wk_settler = settler, wk_network = network, wk_interval_seconds = interval,
          wk_idle_close_ms = idle * 1000, wk_batch_size = batch, wk_lease_seconds = lease, wk_clock = clock\<rparr>))))"

section \<open>One sweep\<close>

record sweep =
  sw_inspected :: nat
  sw_redeemed :: nat
  sw_finalized :: nat
  sw_leased_elsewhere :: nat
  sw_failed :: nat

definition no_sweep :: sweep where
  "no_sweep = \<lparr>sw_inspected = 0, sw_redeemed = 0, sw_finalized = 0, sw_leased_elsewhere = 0, sw_failed = 0\<rparr>"

definition is_idle :: "'w worker \<Rightarrow> pc_record \<Rightarrow> int \<Rightarrow> bool" where
  "is_idle W r now \<longleftrightarrow> \<not> r_finalized r \<and> 0 < wk_idle_close_ms W \<and> r_updated_at r \<le> now - wk_idle_close_ms W"

text \<open>A \<open>try\<close> body with \<open>except Exception\<close>: whether it succeeded.\<close>

definition attempt :: "('w, 'a) proc \<Rightarrow> ('w, bool) proc" where
  "attempt p = except (andthen p (\<lambda>_. ret True)) (\<lambda>e. if is_exception e then ret False else fail e)"

definition finalize_idle :: "'w worker \<Rightarrow> int \<Rightarrow> pc_record \<Rightarrow> ('w, bool) proc" where
  "finalize_idle W now r = attempt (st_finalize (wk_store W) (wk_network W) (r_channel_id r) ''idle-close''
     (Some (r_cumulative r)) (Some now))"

definition redeem_claim :: "'w worker \<Rightarrow> int \<Rightarrow> pc_record \<Rightarrow> ('w, bool) proc" where
  "redeem_claim W now r = attempt (andthen (wk_settler W r) (\<lambda>tx_hash.
     st_mark_redeemed (wk_store W) (wk_network W) (r_channel_id r) (r_cumulative r) (Some tx_hash) (Some now)))"

text \<open>
  The body that runs under the lease. Any failure keeps the lease until it expires, because the
  submission may have reached the ledger; only a complete pass releases it.
\<close>

definition settle_leased :: "'w worker \<Rightarrow> int \<Rightarrow> pc_record \<Rightarrow> string \<Rightarrow> sweep \<Rightarrow> ('w, sweep) proc" where
  "settle_leased W now r lease_id s =
     (let release = (\<lambda>s. andthen (st_release (wk_store W) (wk_network W) (r_channel_id r) lease_id) (\<lambda>_. ret s)) in
      andthen (redeem_claim W now r) (\<lambda>redeemed.
      if \<not> redeemed then ret (s\<lparr>sw_failed := Suc (sw_failed s)\<rparr>)
      else let s1 = s\<lparr>sw_redeemed := Suc (sw_redeemed s)\<rparr> in
        if is_idle W r now then
          andthen (finalize_idle W now r) (\<lambda>finalized.
          if finalized then release (s1\<lparr>sw_finalized := Suc (sw_finalized s1)\<rparr>)
          else ret (s1\<lparr>sw_failed := Suc (sw_failed s1)\<rparr>))
        else release s1))"

definition sweep_record :: "'w worker \<Rightarrow> int \<Rightarrow> pc_record \<Rightarrow> sweep \<Rightarrow> ('w, sweep) proc" where
  "sweep_record W now r s =
     (if \<not> py_int (r_redeemed r) < py_int (r_cumulative r) then
        (if is_idle W r now then
           andthen (finalize_idle W now r) (\<lambda>finalized.
           ret (if finalized then s\<lparr>sw_finalized := Suc (sw_finalized s)\<rparr>
                else s\<lparr>sw_failed := Suc (sw_failed s)\<rparr>))
         else ret s)
      else
        andthen (st_claim (wk_store W) (wk_network W) (r_channel_id r) (wk_lease_seconds W)) (\<lambda>lease. case lease of
          None \<Rightarrow> ret (s\<lparr>sw_leased_elsewhere := Suc (sw_leased_elsewhere s)\<rparr>)
        | Some lease_id \<Rightarrow> settle_leased W now r lease_id s))"

fun sweep_records :: "'w worker \<Rightarrow> int \<Rightarrow> pc_record list \<Rightarrow> sweep \<Rightarrow> ('w, sweep) proc" where
  "sweep_records W now [] s = ret s"
| "sweep_records W now (r # rs) s = andthen (sweep_record W now r s) (sweep_records W now rs)"

text \<open>\<open>run_once\<close>: the cursor of the next page is kept even when the sweep fails later.\<close>

definition run_once :: "'w worker \<Rightarrow> ('w \<times> int, sweep) proc" where
  "run_once W = (\<lambda>(w, cursor). case st_scan (wk_store W) (wk_network W) cursor (wk_batch_size W) w of
     (Inl e, w1) \<Rightarrow> (Inl e, (w1, cursor))
   | (Inr (next_cursor, records), w1) \<Rightarrow> (case sweep_records W (wk_clock W w1) records no_sweep w1 of
       (Inl e, w2) \<Rightarrow> (Inl e, (w2, next_cursor))
     | (Inr s, w2) \<Rightarrow> (Inr (s\<lparr>sw_inspected := length records\<rparr>), (w2, next_cursor))))"

text \<open>The first \<open>n\<close> rounds of \<open>run_forever\<close>: only a cancellation ends the loop.\<close>

fun run_sweeps :: "'w worker \<Rightarrow> nat \<Rightarrow> ('w \<times> int, unit) proc" where
  "run_sweeps W 0 = ret ()"
| "run_sweeps W (Suc n) = (\<lambda>st. case run_once W st of
     (Inl e, st') \<Rightarrow> if is_exception e then run_sweeps W n st' else (Inl e, st')
   | (Inr _, st') \<Rightarrow> run_sweeps W n st')"

section \<open>What the store operations establish\<close>

lemma validate_record_amounts:
  "validate_record r = Inr r' \<Longrightarrow> r_cumulative r' = pydantic_strip (r_cumulative r) \<and>
     r_redeemed r' = pydantic_strip (r_redeemed r) \<and> r_finalized r' = r_finalized r"
  by (auto simp: validate_record_def record_fields_def res_iffs drops_field_Inr split: option.splits)

lemma spec_finalize_cumulative:
  assumes "good m" and run: "spec_finalize network channel reason (Some e) t m = (Inr r', m')"
  obtains k r where "channel_key network channel = Inr k" "m k = Some r" "r_cumulative r = e"
    "m' k = Some r'" "r_finalized r'" "r_cumulative r' = e"
proof -
  from run obtain k mut where k: "channel_key network channel = Inr k"
    and mut: "finalize_mutation network channel reason (Some e) t = Inr mut"
    and at: "atomically k mut m = (Inr r', m')"
    by (auto simp: spec_finalize_def spec_mutate_def split: sum.splits)
  from mut have m: "mut = finalize_mutate network channel (py_strip reason) (Some e) t"
    by (auto simp: finalize_mutation_def res_iffs validate_drops_def Let_def split: if_splits)
  from at obtain upd where out: "mut (m k) = Inr (r', upd)"
    and m': "m' = (case upd of None \<Rightarrow> m | Some x \<Rightarrow> m(k \<mapsto> x))"
    by (auto simp: atomically_def split: sum.splits)
  from out obtain r where r: "m k = Some r" "r_cumulative r = e"
    by (auto simp: m finalize_mutate_def res_iffs require_record_Inr split: if_splits)
  from assms(1) r(1) have "drops_text (r_cumulative r)" by (auto simp: good_def keyed_def wf_record_def)
  with out r have "r_finalized r' \<and> r_cumulative r' = e \<and> (upd = None \<longrightarrow> r' = r) \<and> (\<forall>x. upd = Some x \<longrightarrow> x = r')"
    by (auto simp: m finalize_mutate_def res_iffs require_record_Inr Let_def dest!: validate_record_amounts
        split: if_splits)
  with k r that show thesis by (cases upd) (auto simp: m')
qed

lemma spec_redeem_amount:
  assumes "good m" and run: "spec_redeem network channel c ref t m = (Inr r', m')"
  obtains k r where "channel_key network channel = Inr k" "m k = Some r" "m' k = Some r'"
    "py_int (r_redeemed r') = py_int (pydantic_strip c)" "r_cumulative r' = r_cumulative r"
proof -
  from run obtain k mut where k: "channel_key network channel = Inr k"
    and mut: "redeem_mutation network channel c ref t = Inr mut"
    and at: "atomically k mut m = (Inr r', m')"
    by (auto simp: spec_redeem_def spec_mutate_def split: sum.splits)
  from mut have m: "mut = redeem_mutate network channel (pydantic_strip c) ref t"
    by (auto simp: redeem_mutation_def res_iffs voucher_payload_Inr)
  from at obtain upd where out: "mut (m k) = Inr (r', upd)"
    and m': "m' = (case upd of None \<Rightarrow> m | Some x \<Rightarrow> m(k \<mapsto> x))"
    by (auto simp: atomically_def split: sum.splits)
  from out obtain r where r: "m k = Some r"
    by (auto simp: m redeem_mutate_def res_iffs require_record_Inr split: if_splits)
  from assms(1) r(1) have "drops_text (r_cumulative r)" by (auto simp: good_def keyed_def wf_record_def)
  with out r have "py_int (r_redeemed r') = py_int (pydantic_strip c) \<and> r_cumulative r' = r_cumulative r \<and>
      (upd = None \<longrightarrow> r' = r) \<and> (\<forall>x. upd = Some x \<longrightarrow> x = r')"
    by (auto simp: m redeem_mutate_def res_iffs require_record_Inr Let_def pydantic_strip_idem
        dest!: validate_record_amounts split: if_splits)
  with k r that show thesis by (cases upd) (auto simp: m')
qed

lemma attempt_True: "attempt p w = (Inr True, w') \<longleftrightarrow> (\<exists>x. p w = (Inr x, w'))"
  by (auto simp: attempt_def proc_iffs)

lemma calm_attempt [calm_rules]: "calm okay view p \<Longrightarrow> calm okay view (attempt p)"
  unfolding attempt_def by (intro calm_rules)

section \<open>The worker over a store\<close>

locale redemption_worker = channel_store ops view okay
  for ops :: "'w store_ops" and view :: "'w \<Rightarrow> channel_map" and okay :: "'w \<Rightarrow> bool" +
  fixes W :: "'w worker"
  assumes worker_store: "wk_store W = ops"
    and settler_hook: "calm okay view (wk_settler W r)"
begin

lemma calm_worker_ops:
  "calm okay view (st_mark_redeemed (wk_store W) n c a ref t)"
  "calm okay view (st_finalize (wk_store W) n c reason e t)"
  "calm okay view (st_claim (wk_store W) n c l)"
  "calm okay view (st_release (wk_store W) n c lease)"
  "calm okay view (st_scan (wk_store W) n cursor limit)"
  unfolding worker_store
  by (rule linearizable_calm, rule redeem_law, rule linearizable_calm, rule finalize_law,
      rule linearizable_calm, rule claim_law, rule linearizable_calm, rule release_law,
      rule linearizable_calm, rule scan_law)

lemma calm_sweep_record: "calm okay view (sweep_record W now r s)"
  unfolding sweep_record_def settle_leased_def Let_def finalize_idle_def redeem_claim_def
  by (intro calm_rules calm_worker_ops settler_hook)

lemma calm_sweep_records: "calm okay view (sweep_records W now rs s)"
  by (induction rs arbitrary: s) (auto intro!: calm_rules calm_sweep_record)

lemma run_once_calm:
  assumes "okay w" and "run_once W (w, cursor) = (r, (w', cursor'))"
  shows "okay w' \<and> evolves (view w) (view w')"
proof -
  obtain q w1 where scan: "st_scan (wk_store W) (wk_network W) cursor (wk_batch_size W) w = (q, w1)" by fastforce
  from calmD [OF calm_worker_ops(5) assms(1) scan] have 1: "okay w1" "evolves (view w) (view w1)" by blast+
  show ?thesis
  proof (cases q)
    case (Inl e)
    with assms(2) scan 1 show ?thesis by (simp add: run_once_def)
  next
    case (Inr page)
    obtain next_cursor records where page: "page = (next_cursor, records)" by fastforce
    obtain v w2 where sweep: "sweep_records W (wk_clock W w1) records no_sweep w1 = (v, w2)" by fastforce
    from calmD [OF calm_sweep_records 1(1) sweep] 1(2) have "okay w2" "evolves (view w) (view w2)"
      by (blast intro: evolves_trans)+
    moreover have "w' = w2" using assms(2) scan Inr page sweep by (cases v) (auto simp: run_once_def)
    ultimately show ?thesis by simp
  qed
qed

lemma run_sweeps_calm: "okay (fst st) \<Longrightarrow> run_sweeps W n st = (r, st') \<Longrightarrow> okay (fst st') \<and> evolves (view (fst st)) (view (fst st'))"
proof (induction n arbitrary: st r)
  case (Suc n)
  obtain w cursor q w1 c1 where st: "st = (w, cursor)" and run: "run_once W (w, cursor) = (q, (w1, c1))"
    by (metis prod.collapse)
  with Suc.prems have 1: "okay w1 \<and> evolves (view w) (view w1)" using run_once_calm by simp
  have "st' = (w1, c1) \<or> (\<exists>r. run_sweeps W n (w1, c1) = (r, st'))"
    using Suc.prems(2) by (auto simp: st run split: sum.splits if_splits)
  with 1 Suc.IH [of "(w1, c1)"] show ?case by (auto simp: st intro: evolves_trans)
qed (auto simp: ret_def)

text \<open>An idle close goes through only at the amount that was read.\<close>

lemma finalize_idle_closes:
  assumes "okay w" and "finalize_idle W now r w = (Inr True, w')"
  obtains k r' where "channel_key (wk_network W) (r_channel_id r) = Inr k" "okay w'" "evolves (view w) (view w')"
    "view w' k = Some r'" "r_finalized r'" "r_cumulative r' = r_cumulative r"
proof -
  from assms(2) obtain x where run: "st_finalize ops (wk_network W) (r_channel_id r) ''idle-close''
      (Some (r_cumulative r)) (Some now) w = (Inr x, w')"
    by (auto simp: finalize_idle_def attempt_True worker_store)
  from linearizableE [OF finalize_law assms(1) run] obtain m1 m2 t where ok: "okay w'" and ev: "evolves (view w) m1"
    "evolves m2 (view w')" and sp: "spec_finalize (wk_network W) (r_channel_id r) ''idle-close''
      (Some (r_cumulative r)) t m1 = (Inr x, m2)" by metis
  have g: "good m1" using inv_good [OF assms(1)] ev(1) by (blast dest: evolves_good)
  from spec_finalize_cumulative [OF this sp] obtain k where k: "channel_key (wk_network W) (r_channel_id r) = Inr k"
    "m2 k = Some x" "r_finalized x" "r_cumulative x = r_cumulative r" by metis
  from evolvesD [OF ev(2) k(2)] obtain r' where "view w' k = Some r'" "record_le x r'" by blast
  moreover have "evolves (view w) (view w')"
    using evolves_trans [OF ev(1) evolves_trans [OF spec_finalize_evolves [OF g sp] ev(2)]] .
  ultimately show thesis using that [OF k(1) ok, of r'] k by (auto simp: record_le_def)
qed

lemma redeem_claim_redeems:
  assumes "okay w" and "redeem_claim W now r w = (Inr True, w')"
  obtains k r' where "channel_key (wk_network W) (r_channel_id r) = Inr k" "okay w'" "evolves (view w) (view w')"
    "view w' k = Some r'" "py_int (pydantic_strip (r_cumulative r)) \<le> py_int (r_redeemed r')"
proof -
  from assms(2) obtain h x w1 where s: "wk_settler W r w = (Inr h, w1)" and run: "st_mark_redeemed ops (wk_network W)
      (r_channel_id r) (r_cumulative r) (Some h) (Some now) w1 = (Inr x, w')"
    by (auto simp: redeem_claim_def attempt_True proc_iffs worker_store)
  from calmD [OF settler_hook assms(1) s] have ok1: "okay w1" and ev1: "evolves (view w) (view w1)" by blast+
  from linearizableE [OF redeem_law ok1 run] obtain m1 m2 t where ok: "okay w'" and ev: "evolves (view w1) m1"
    "evolves m2 (view w')" and sp: "spec_redeem (wk_network W) (r_channel_id r) (r_cumulative r) (Some h) t m1 = (Inr x, m2)"
    by metis
  have g: "good m1" using inv_good [OF ok1] ev(1) by (blast dest: evolves_good)
  from spec_redeem_amount [OF this sp] obtain k where k: "channel_key (wk_network W) (r_channel_id r) = Inr k"
    "m2 k = Some x" "py_int (r_redeemed x) = py_int (pydantic_strip (r_cumulative r))" by metis
  from evolvesD [OF ev(2) k(2)] obtain r' where "view w' k = Some r'" "record_le x r'" by blast
  moreover have "evolves (view w) (view w')"
    using evolves_trans [OF ev1 evolves_trans [OF ev(1) evolves_trans [OF spec_redeem_evolves [OF g sp] ev(2)]]] .
  ultimately show thesis using that [OF k(1) ok, of r'] k by (auto simp: record_le_def)
qed

text \<open>A channel the sweep counts as finalized is closed and paid out in full.\<close>

lemma sweep_record_close:
  assumes ok: "okay w" and k: "channel_key (wk_network W) (r_channel_id r) = Inr k" and "view w k = Some r0"
    and le: "py_int (r_redeemed r) \<le> py_int (r_redeemed r0)" and d: "drops_text (r_cumulative r)"
    and run: "sweep_record W now r s w = (Inr s', w')" and fin: "sw_finalized s < sw_finalized s'"
  shows "is_idle W r now \<and> (\<exists>r'. view w' k = Some r' \<and> r_finalized r' \<and>
    py_int (r_cumulative r') = py_int (r_cumulative r) \<and> py_int (r_redeemed r') = py_int (r_cumulative r'))"
proof -
  have paid: "is_idle W r now \<and> (\<exists>r'. view w' k = Some r' \<and> r_finalized r' \<and>
      py_int (r_cumulative r') = py_int (r_cumulative r) \<and> py_int (r_redeemed r') = py_int (r_cumulative r'))"
    if idle: "is_idle W r now" and okv: "okay v" and x: "view v k = Some x"
      "py_int (r_cumulative r) \<le> py_int (r_redeemed x)"
      and close: "finalize_idle W now r v = (Inr True, v')" and after: "okay v' \<Longrightarrow> evolves (view v') (view w')"
      and okw: "okay w'" for v v' x
  proof -
    from finalize_idle_closes [OF okv close] k obtain y where y: "okay v'" "evolves (view v) (view v')"
      "view v' k = Some y" "r_finalized y" "r_cumulative y = r_cumulative r" by (metis Inr_inject)
    from evolvesD [OF evolves_trans [OF y(2) after [OF y(1)]] x(1)] obtain z where z: "view w' k = Some z" "record_le x z" by blast
    from evolvesD [OF after [OF y(1)] y(3)] z(1) y(4) have "r_finalized z" "r_cumulative z = r_cumulative y"
      by (auto simp: record_le_def)
    moreover have "py_int (r_redeemed z) \<le> py_int (r_cumulative z)"
      using inv_good [OF okw] z(1) by (auto simp: good_def keyed_def wf_record_def accounting_None_iff)
    ultimately show ?thesis using idle z y(5) x(2) by (auto simp: record_le_def)
  qed
  have okw: "okay w'" using calmD [OF calm_sweep_record ok run] by blast
  show ?thesis
  proof (cases "py_int (r_redeemed r) < py_int (r_cumulative r)")
    case False
    with run fin have "is_idle W r now" "finalize_idle W now r w = (Inr True, w')"
      by (auto simp: sweep_record_def proc_iffs split: if_splits)
    with paid [of w r0 w'] ok assms(3) le False okw show ?thesis by auto
  next
    case True
    with run fin obtain lease w1 where lease: "st_claim (wk_store W) (wk_network W) (r_channel_id r) (wk_lease_seconds W) w =
        (Inr (Some lease), w1)" and st: "settle_leased W now r lease s w1 = (Inr s', w')"
      by (auto simp: sweep_record_def proc_iffs split: option.splits)
    from calmD [OF calm_worker_ops(3) ok lease] have ok1: "okay w1" by blast
    from st fin obtain w2 v where redeem: "redeem_claim W now r w1 = (Inr True, w2)" and idle: "is_idle W r now"
      and close: "finalize_idle W now r w2 = (Inr True, v)"
      and rel: "\<exists>u. st_release (wk_store W) (wk_network W) (r_channel_id r) lease v = (u, w')"
      by (auto simp: settle_leased_def Let_def proc_iffs split: if_splits)
    from redeem_claim_redeems [OF ok1 redeem] k d obtain x where "okay w2" "view w2 k = Some x"
      "py_int (r_cumulative r) \<le> py_int (r_redeemed x)" by (metis Inr_inject drops_text_strip)
    moreover have "okay v \<Longrightarrow> evolves (view v) (view w')" using rel calmD [OF calm_worker_ops(4)] by blast
    ultimately show ?thesis using paid [OF idle _ _ _ close _ okw] by blast
  qed
qed

end

end
