(* ===== verification/RedisStore.thy ===== *)
theory RedisStore
  imports Redis
begin

text \<open>
  \<open>RedisPayChannelStore\<close> of \<open>paychannel_store.py\<close>: the shared durable store. Every
  mutation runs in the \<open>WATCH\<close>/\<open>MULTI\<close>/\<open>EXEC\<close> loop of \<open>_mutate\<close>. The interpretation at the
  end shows that it meets the same contract as the in-memory store, with other replicas acting
  between the read and the commit of every attempt.
\<close>

definition deserialize :: "redis_value option \<Rightarrow> pc_record option res" where
  "deserialize raw = (case raw of
     None \<Rightarrow> Inr None
   | Some (Json r) \<Rightarrow> (case validate_record r of
       Inl _ \<Rightarrow> Inl (StoreError ''CORRUPT_CHANNEL_STATE'') | Inr r' \<Rightarrow> Inr (Some r'))
   | Some (Text _) \<Rightarrow> Inl (StoreError ''CORRUPT_CHANNEL_STATE''))"

definition mutate_plan :: "string \<Rightarrow> 'a mutation \<Rightarrow> redis_value option list \<Rightarrow> 'a plan" where
  "mutate_plan key mutation values =
     (case bind_res (deserialize (hd values)) mutation of
        Inl e \<Rightarrow> Return (Inl e)
      | Inr (result, None) \<Rightarrow> Return (Inr result)
      | Inr (result, Some r) \<Rightarrow> Commit [RSet key (Json r) None] result)"

definition rs_mutate :: "string \<Rightarrow> 'a mutation \<Rightarrow> (redis_client, 'a) proc" where
  "rs_mutate key mutation = transact [key] (mutate_plan key mutation)"

definition rs_create :: "pc_record \<Rightarrow> (redis_client, create_result) proc" where
  "rs_create record = (\<lambda>s. case channel_key (r_network record) (r_channel_id record) of
     Inl e \<Rightarrow> (Inl e, s) | Inr key \<Rightarrow> rs_mutate key (create_mutation record) s)"

definition rs_get :: "string \<Rightarrow> string \<Rightarrow> (redis_client, pc_record option) proc" where
  "rs_get network channel = (\<lambda>s. case channel_key network channel of
     Inl e \<Rightarrow> (Inl e, s)
   | Inr key \<Rightarrow> (case deserialize (rget (rc_db s) key) of
       Inl e \<Rightarrow> (Inl e, s)
     | Inr None \<Rightarrow> (Inr None, s)
     | Inr (Some r) \<Rightarrow> (bind_res (require_record (Some r) network channel) (\<lambda>r'. Inr (Some r')), s)))"

definition rs_clock_or :: "int option \<Rightarrow> redis_client \<Rightarrow> int" where
  "rs_clock_or timestamp s = (case timestamp of Some t \<Rightarrow> t | None \<Rightarrow> rc_clock s)"

definition rs_advance ::
  "string \<Rightarrow> string \<Rightarrow> string \<Rightarrow> string \<Rightarrow> string \<Rightarrow> string option \<Rightarrow> int option \<Rightarrow>
     (redis_client, advance_result) proc"
where
  "rs_advance network channel cumulative requested signature funded timestamp = (\<lambda>s.
     case channel_key network channel of Inl e \<Rightarrow> (Inl e, s)
   | Inr key \<Rightarrow> (case advance_mutation network channel cumulative requested signature funded
                        (rs_clock_or timestamp s) of
       Inl e \<Rightarrow> (Inl e, s) | Inr mutation \<Rightarrow> rs_mutate key mutation s))"

definition rs_mark_redeemed ::
  "string \<Rightarrow> string \<Rightarrow> string \<Rightarrow> string option \<Rightarrow> int option \<Rightarrow> (redis_client, pc_record) proc"
where
  "rs_mark_redeemed network channel cumulative reference timestamp = (\<lambda>s.
     case channel_key network channel of Inl e \<Rightarrow> (Inl e, s)
   | Inr key \<Rightarrow> (case redeem_mutation network channel cumulative reference (rs_clock_or timestamp s) of
       Inl e \<Rightarrow> (Inl e, s) | Inr mutation \<Rightarrow> rs_mutate key mutation s))"

definition rs_finalize ::
  "string \<Rightarrow> string \<Rightarrow> string \<Rightarrow> string option \<Rightarrow> int option \<Rightarrow> (redis_client, pc_record) proc"
where
  "rs_finalize network channel reason expected timestamp = (\<lambda>s.
     case channel_key network channel of Inl e \<Rightarrow> (Inl e, s)
   | Inr key \<Rightarrow> (case finalize_mutation network channel reason expected (rs_clock_or timestamp s) of
       Inl e \<Rightarrow> (Inl e, s) | Inr mutation \<Rightarrow> rs_mutate key mutation s))"

text \<open>
  One page: the keys of \<open>SCAN\<close>, their values, and the identity check of every record against its
  key. A key that vanished between the two reads is skipped.
\<close>

fun scan_records :: "string \<Rightarrow> (string \<times> redis_value option) list \<Rightarrow> pc_record list res" where
  "scan_records network [] = Inr []"
| "scan_records network ((key, raw) # rest) =
     bind_res (deserialize raw) (\<lambda>record. case record of
       None \<Rightarrow> scan_records network rest
     | Some r \<Rightarrow>
         if \<not> starts_with (channel_prefix network) key then Inl (StoreError ''CORRUPT_CHANNEL_STATE'')
         else bind_res (require_record (Some r) network (drop (length (channel_prefix network)) key)) (\<lambda>r'.
              bind_res (scan_records network rest) (\<lambda>rs. Inr (r' # rs))))"

definition rs_scan :: "string \<Rightarrow> int \<Rightarrow> int \<Rightarrow> (redis_client, int \<times> pc_record list) proc" where
  "rs_scan network cursor limit = (\<lambda>s. case validate_scan cursor limit of
     Inl e \<Rightarrow> (Inl e, s)
   | Inr (cursor', limit') \<Rightarrow> (case literal ''network'' xrpl_networks (JStr network) of
       Inl e \<Rightarrow> (Inl e, s)
     | Inr n \<Rightarrow> (case rscan cursor' (channel_prefix n) limit' (rc_db s) of (next_cursor, keys) \<Rightarrow>
         if keys = [] then (Inr (next_cursor, []), s)
         else (bind_res (scan_records n (zip keys (rmget (rc_db s) keys))) (\<lambda>rs. Inr (next_cursor, rs)), s))))"

definition rs_claim :: "(nat \<Rightarrow> string) \<Rightarrow> string \<Rightarrow> string \<Rightarrow> int \<Rightarrow> (redis_client, string option) proc" where
  "rs_claim uuid4 network channel lease_seconds = (\<lambda>s. case validate_lease_seconds lease_seconds of
     Inl e \<Rightarrow> (Inl e, s)
   | Inr seconds \<Rightarrow>
       let lease_id = uuid4 (rc_drawn s); s' = s\<lparr>rc_drawn := Suc (rc_drawn s)\<rparr> in
       (case redemption_lease_key network channel of
          Inl e \<Rightarrow> (Inl e, s')
        | Inr key \<Rightarrow> (case rset_nx key (Text lease_id) (Some seconds) (rc_db s) of (claimed, db) \<Rightarrow>
            (Inr (if claimed then Some lease_id else None), s'\<lparr>rc_db := db\<rparr>))))"

definition rs_release :: "string \<Rightarrow> string \<Rightarrow> string \<Rightarrow> (redis_client, unit) proc" where
  "rs_release network channel lease_id = (\<lambda>s. case redemption_lease_key network channel of
     Inl e \<Rightarrow> (Inl e, s)
   | Inr key \<Rightarrow> (Inr (), s\<lparr>rc_db := rcompare_delete key (Text lease_id) (rc_db s)\<rparr>))"

definition redis_ops :: "(nat \<Rightarrow> string) \<Rightarrow> redis_client store_ops" where
  "redis_ops uuid4 = \<lparr>st_create = rs_create, st_get = rs_get, st_advance = rs_advance,
     st_mark_redeemed = rs_mark_redeemed, st_finalize = rs_finalize, st_scan = rs_scan,
     st_claim = rs_claim uuid4, st_release = rs_release\<rparr>"

section \<open>The channel map held in Redis\<close>

definition json_at :: "(redis_value \<times> int option) option \<Rightarrow> pc_record option" where
  "json_at entry = (case entry of Some (Json r, None) \<Rightarrow> Some r | _ \<Rightarrow> None)"

definition redis_map :: "redis \<Rightarrow> channel_map" where
  "redis_map db k = json_at (map_of (rd_strings db) k)"

lemma json_at_simps [simp]:
  "json_at None = None" "json_at (Some (Json r, None)) = Some r" "json_at (Some (Text t, x)) = None"
  "json_at (Some (v, Some t')) = None"
  by (simp_all add: json_at_def split: redis_value.split)

definition channel_space :: "string \<Rightarrow> bool" where
  "channel_space k = starts_with ''facilitator:paychannel:'' k"

definition channel_values :: "redis \<Rightarrow> bool" where
  "channel_values db \<longleftrightarrow> (\<forall>k v x. map_of (rd_strings db) k = Some (v, x) \<longrightarrow> channel_space k \<longrightarrow>
     x = None \<and> (\<exists>r. v = Json r))"

definition db_ok :: "redis \<Rightarrow> bool" where
  "db_ok db \<longleftrightarrow> rd_ok db \<and> good (redis_map db) \<and> channel_values db"

definition rival_ok :: "(redis \<Rightarrow> redis) \<Rightarrow> bool" where
  "rival_ok f \<longleftrightarrow> (\<forall>db. db_ok db \<longrightarrow> db_ok (f db) \<and> evolves (redis_map db) (redis_map (f db)))"

definition client_ok :: "redis_client \<Rightarrow> bool" where
  "client_ok s \<longleftrightarrow> db_ok (rc_db s) \<and> (\<forall>f \<in> set (rc_rivals s). rival_ok f)"

definition client_map :: "redis_client \<Rightarrow> channel_map" where
  "client_map s = redis_map (rc_db s)"

lemma redis_map_purge [simp]: "rd_ok db \<Longrightarrow> redis_map (purge db) = redis_map db"
  by (auto simp: fun_eq_iff redis_map_def map_of_purge expired_def split: option.splits)

lemma json_at_purge [simp]:
  "rd_ok db \<Longrightarrow> json_at (map_of (rd_strings (purge db)) k) = json_at (map_of (rd_strings db) k)"
  using redis_map_purge [of db, unfolded fun_eq_iff redis_map_def] by blast

lemma db_ok_purge [simp]: "db_ok db \<Longrightarrow> db_ok (purge db)"
  by (auto simp: db_ok_def channel_values_def map_of_purge split: option.splits prod.splits if_splits)

lemma redis_map_rset_json:
  "rd_ok db \<Longrightarrow> redis_map (rset k (Json r) None db) = (redis_map db)(k \<mapsto> r)"
  by (auto simp: fun_eq_iff redis_map_def rset_def Let_def expires_at_def update_conv')

lemma redis_map_rset_other:
  "rd_ok db \<Longrightarrow> redis_map db k = None \<Longrightarrow> redis_map (rset k (Text t) x db) = redis_map db"
  by (auto simp: fun_eq_iff redis_map_def rset_def Let_def update_conv')

lemma redis_map_rdelete_other:
  "rd_ok db \<Longrightarrow> redis_map db k = None \<Longrightarrow> redis_map (rdelete k db) = redis_map db"
  by (auto simp: fun_eq_iff redis_map_def rdelete_def Let_def delete_conv')

lemma channel_prefix_space [simp]: "channel_space (channel_prefix n @ c)"
  by (simp add: channel_space_def channel_prefix_def)

lemma redis_map_space:
  assumes "db_ok db" and "redis_map db k = Some r"
  shows "channel_space k"
proof -
  have "keyed k r" using assms by (auto simp: db_ok_def good_def)
  then have "k = channel_prefix (r_network r) @ r_channel_id r" by (auto simp: keyed_def wf_record_key)
  then show ?thesis by simp
qed

lemma deserialize_rget:
  assumes "db_ok db" and "channel_space k"
  shows "deserialize (rget db k) = Inr (redis_map db k)"
proof (cases "map_of (rd_strings db) k")
  case None
  then show ?thesis using assms by (simp add: db_ok_def rget_raw redis_map_def deserialize_def)
next
  case (Some p)
  then obtain v x where p: "p = (v, x)" by force
  with Some assms have "x = None" and "\<exists>r. v = Json r"
    unfolding db_ok_def channel_values_def by blast+
  then obtain r where v: "p = (Json r, None)" using p by auto
  then have "redis_map db k = Some r" using Some by (simp add: redis_map_def)
  with assms(1) have "wf_record r" by (auto simp: db_ok_def good_def keyed_def)
  then show ?thesis using assms Some v
    by (simp add: db_ok_def rget_raw redis_map_def deserialize_def expired_def)
qed

lemma channel_values_rset:
  "rd_ok db \<Longrightarrow> channel_values db \<Longrightarrow> (channel_space k \<Longrightarrow> x = None \<and> (\<exists>r. v = Json r)) \<Longrightarrow>
     channel_values (rset k v x db)"
  by (auto simp: channel_values_def rset_def Let_def expires_at_def update_conv' map_of_purge
      split: option.splits if_splits prod.splits)

lemma channel_values_rdelete: "rd_ok db \<Longrightarrow> channel_values db \<Longrightarrow> channel_values (rdelete k db)"
  by (auto simp: channel_values_def rdelete_def Let_def delete_conv' map_of_purge
      split: option.splits if_splits prod.splits)

text \<open>One atomic attempt of \<open>_mutate\<close> is the abstract mutation.\<close>

lemma mutate_plan_refines:
  assumes ok: "db_ok db" and k: "channel_space k"
    and run: "atomic_plan [k] (mutate_plan k mut) db = (r, db')"
  shows "(r, redis_map db') = atomically k mut (redis_map db) \<and> rd_ok db' \<and> channel_values db'"
proof -
  have d: "deserialize (rget db k) = Inr (redis_map db k)" using ok k by (rule deserialize_rget)
  have rd: "rd_ok db" "channel_values db" using ok by (simp_all add: db_ok_def)
  then have "channel_values (purge db)" using db_ok_purge [OF ok] by (simp add: db_ok_def)
  with rd d run k show ?thesis
    by (auto simp: atomic_plan_def mutate_plan_def rmget_def atomically_def rexec_def redis_map_rset_json
        intro: channel_values_rset split: sum.splits prod.splits option.splits)
qed

lemma run_rivals_ok:
  "db_ok db \<Longrightarrow> \<forall>f \<in> set fs. rival_ok f \<Longrightarrow>
     db_ok (run_rivals fs db) \<and> evolves (redis_map db) (redis_map (run_rivals fs db))"
proof (induction fs arbitrary: db)
  case Nil
  then show ?case by (simp add: run_rivals_def)
next
  case (Cons f fs)
  then have "db_ok (f db)" and "evolves (redis_map db) (redis_map (f db))"
    by (auto simp: rival_ok_def)
  with Cons show ?case by (auto simp: run_rivals_def intro: evolves_trans)
qed

lemma rs_mutate_linear:
  assumes ok: "client_ok s" and k: "channel_space k" and run: "rs_mutate k mut s = (r, s')"
    and moves: "\<And>m r m'. good m \<Longrightarrow> atomically k mut m = (r, m') \<Longrightarrow> evolves m m'"
  shows "client_ok s' \<and> evolves (client_map s) (client_map s') \<and>
    (\<exists>m1. evolves (client_map s) m1 \<and> (r, client_map s') = atomically k mut m1)"
proof -
  from run obtain used db2 rest where s': "s' = s\<lparr>rc_db := db2, rc_rivals := rest\<rparr>"
    and used: "rc_rivals s = used @ rest"
    and at: "atomic_plan [k] (mutate_plan k mut) (run_rivals used (rc_db s)) = (r, db2)"
    unfolding rs_mutate_def by (blast dest: transact_linear)
  let ?db1 = "run_rivals used (rc_db s)"
  have ok1: "db_ok ?db1" and ev1: "evolves (redis_map (rc_db s)) (redis_map ?db1)"
    using run_rivals_ok [of "rc_db s" used] ok used by (auto simp: client_ok_def)
  from mutate_plan_refines [OF ok1 k at]
  have eq: "(r, redis_map db2) = atomically k mut (redis_map ?db1)" and rd: "rd_ok db2" "channel_values db2"
    by blast+
  have ev2: "evolves (redis_map ?db1) (redis_map db2)"
    using moves [OF _ eq [symmetric]] ok1 by (simp add: db_ok_def)
  with ok1 have "good (redis_map db2)" by (simp add: db_ok_def evolves_good)
  with rd ok used s' have "client_ok s'" by (auto simp: client_ok_def db_ok_def)
  then show ?thesis using ev1 ev2 eq s' by (auto simp: client_map_def intro: evolves_trans)
qed

section \<open>The store meets the contract\<close>

lemma channel_key_space: "channel_key n c = Inr k \<Longrightarrow> channel_space k"
  by (auto simp: channel_key_def res_iffs split: prod.splits)

lemma lease_key_no_space: "redemption_lease_key n c = Inr k \<Longrightarrow> \<not> channel_space k"
  by (auto simp: redemption_lease_key_def res_iffs channel_space_def)

lemma client_state:
  assumes "client_ok s"
  shows "db_ok (rc_db s)" "rd_ok (rc_db s)" "good (client_map s)"
  using assms by (auto simp: client_ok_def db_ok_def client_map_def)

lemma redis_map_lease:
  "db_ok db \<Longrightarrow> \<not> channel_space k \<Longrightarrow> redis_map db k = None"
  using redis_map_space by (cases "redis_map db k") auto

lemma rs_timed_linearizable:
  assumes p: "p = (\<lambda>s. case channel_key n c of Inl e \<Rightarrow> (Inl e, s)
      | Inr key \<Rightarrow> (case mut (rs_clock_or timestamp s) of Inl e \<Rightarrow> (Inl e, s) | Inr m \<Rightarrow> rs_mutate key m s))"
    and moves: "\<And>t m r m'. good m \<Longrightarrow> spec_mutate n c (mut t) m = (r, m') \<Longrightarrow> evolves m m'"
  shows "linearizable client_ok client_map
    (\<lambda>m out. \<exists>t. (\<forall>t'. timestamp = Some t' \<longrightarrow> t = t') \<and> out = spec_mutate n c (mut t) m) p"
  unfolding linearizable_def
proof (intro allI impI)
  fix s r s'
  assume ok: "client_ok s" and run: "p s = (r, s')"
  let ?t = "rs_clock_or timestamp s"
  have t: "\<forall>t'. timestamp = Some t' \<longrightarrow> ?t = t'" by (simp add: rs_clock_or_def)
  let ?goal = "client_ok s' \<and> evolves (client_map s) (client_map s') \<and>
    (\<exists>m1 m2. evolves (client_map s) m1 \<and> (r, m2) = spec_mutate n c (mut ?t) m1 \<and> evolves m2 (client_map s'))"
  have ?goal
  proof (cases "channel_key n c")
    case (Inl e)
    with run p ok show ?thesis by (auto simp: spec_mutate_def intro: evolves_refl)
  next
    case key: (Inr k)
    show ?thesis
    proof (cases "mut ?t")
      case (Inl e)
      with key run p ok show ?thesis by (auto simp: spec_mutate_def intro: evolves_refl)
    next
      case m: (Inr m)
      have eq: "spec_mutate n c (mut ?t) m1 = atomically k m m1" for m1
        using key m by (simp add: spec_mutate_def)
      from run p key m have "rs_mutate k m s = (r, s')" by simp
      from rs_mutate_linear [OF ok channel_key_space [OF key] this] moves [where t = ?t] eq
      show ?thesis by (metis evolves_refl)
    qed
  qed
  with t show "client_ok s' \<and> evolves (client_map s) (client_map s') \<and>
    ((\<exists>m1 m2. evolves (client_map s) m1 \<and> (\<exists>t. (\<forall>t'. timestamp = Some t' \<longrightarrow> t = t') \<and>
        (r, m2) = spec_mutate n c (mut t) m1) \<and> evolves m2 (client_map s')) \<or>
     (\<exists>msg. r = Inl (OtherError msg)))" by blast
qed

lemma rs_create_linear:
  assumes "wf_record rec" and ok: "client_ok s" and run: "rs_create rec s = (r, s')"
  shows "client_ok s' \<and> evolves (client_map s) (client_map s') \<and>
    (\<exists>m1. evolves (client_map s) m1 \<and> (r, client_map s') = spec_create rec m1)"
proof -
  obtain k where k: "channel_key (r_network rec) (r_channel_id rec) = Inr k"
    using assms(1) by (simp add: wf_record_key)
  have eq: "spec_create rec m = atomically k (create_mutation rec) m" for m
    using k by (simp add: spec_create_def)
  from run k have "rs_mutate k (create_mutation rec) s = (r, s')" by (simp add: rs_create_def)
  from rs_mutate_linear [OF ok channel_key_space [OF k] this] show ?thesis
    using spec_create_evolves [OF _ assms(1)] by (simp add: eq)
qed

lemma rs_get_exact:
  assumes "client_ok s" and "rs_get network channel s = (r, s')" and "hex64 channel"
  shows "s' = s \<and> (r, client_map s) = spec_get network channel (client_map s)"
proof (cases "channel_key network channel")
  case (Inl e)
  with assms show ?thesis by (simp add: rs_get_def spec_get_def)
next
  case (Inr k)
  have d: "deserialize (rget (rc_db s) k) = Inr (client_map s k)"
    using deserialize_rget [OF client_state(1) [OF assms(1)] channel_key_space [OF Inr]]
    by (simp add: client_map_def)
  show ?thesis
  proof (cases "client_map s k")
    case None
    with Inr d assms show ?thesis by (simp add: rs_get_def spec_get_def)
  next
    case (Some rec)
    with client_state(3) [OF assms(1)] have "keyed k rec" by (auto simp: good_def)
    from keyed_identity [OF this Inr assms(3)]
    have "require_record (Some rec) network channel = Inr rec" by (simp add: require_record_def)
    with Inr d Some assms show ?thesis by (simp add: rs_get_def spec_get_def)
  qed
qed

lemma scan_records_found:
  assumes "db_ok db"
  shows "scan_records n (zip keys (rmget db keys)) = Inr rs \<Longrightarrow> r \<in> set rs \<Longrightarrow>
    r_network r = n \<and> (\<exists>k. redis_map db k = Some r)"
proof (induction keys arbitrary: rs)
  case Nil
  then show ?case by (simp add: rmget_def)
next
  case (Cons k keys)
  show ?case
  proof (cases "deserialize (rget db k)")
    case (Inl e)
    with Cons.prems show ?thesis by (simp add: rmget_def)
  next
    case d: (Inr v)
    show ?thesis
    proof (cases v)
      case None
      with d Cons show ?thesis by (simp add: rmget_def)
    next
      case (Some x)
      with d Cons.prems(1) obtain rest where p: "starts_with (channel_prefix n) k"
        and x: "r_network x = n" and rest: "scan_records n (zip keys (rmget db keys)) = Inr rest"
        and rs: "rs = x # rest"
        by (auto simp: rmget_def res_iffs require_record_Inr matches_def split: if_splits)
      from p have "channel_space k" by (auto simp: starts_with_append)
      with deserialize_rget [OF assms this] d Some have "redis_map db k = Some x" by simp
      with Cons.IH [OF rest] Cons.prems(2) x rs show ?thesis by auto
    qed
  qed
qed

lemma db_ok_rset_lease:
  assumes "db_ok db" and "\<not> channel_space k"
  shows "db_ok (rset k (Text t) x db) \<and> redis_map (rset k (Text t) x db) = redis_map db"
  using assms redis_map_rset_other [of db k t x] redis_map_lease [OF assms]
  by (auto simp: db_ok_def intro: channel_values_rset)

lemma db_ok_delete_lease:
  assumes "db_ok db" and "\<not> channel_space k"
  shows "db_ok (rdelete k db) \<and> redis_map (rdelete k db) = redis_map db"
  using assms redis_map_rdelete_other [of db k] redis_map_lease [OF assms]
  by (simp add: db_ok_def channel_values_rdelete)

lemma purge_frame: "db_ok db \<Longrightarrow> db_ok (purge db) \<and> redis_map (purge db) = redis_map db"
  by (simp add: db_ok_def [of db])

lemma client_frame:
  "client_ok s \<Longrightarrow> db_ok db \<and> redis_map db = redis_map (rc_db s) \<Longrightarrow>
     client_ok (s\<lparr>rc_db := db\<rparr>) \<and> client_map (s\<lparr>rc_db := db\<rparr>) = client_map s"
  by (simp add: client_ok_def client_map_def)

lemma client_drawn [simp]:
  "client_ok (s\<lparr>rc_drawn := n\<rparr>) = client_ok s" "client_map (s\<lparr>rc_drawn := n\<rparr>) = client_map s"
  by (simp_all add: client_ok_def client_map_def)

lemma rs_claim_frame:
  assumes ok: "client_ok s" and run: "rs_claim u n c l s = (r, s')"
  shows "client_ok s' \<and> client_map s' = client_map s"
proof (cases "redemption_lease_key n c")
  case (Inl e)
  with run ok show ?thesis by (auto simp: rs_claim_def Let_def split: sum.splits)
next
  case (Inr k)
  let ?s = "s\<lparr>rc_drawn := Suc (rc_drawn s)\<rparr>"
  note lease = lease_key_no_space [OF Inr]
  have "db_ok (snd (rset_nx k (Text (u (rc_drawn s))) (Some l) (rc_db s))) \<and>
      redis_map (snd (rset_nx k (Text (u (rc_drawn s))) (Some l) (rc_db s))) = redis_map (rc_db ?s)"
    using db_ok_rset_lease [OF client_state(1) [OF ok] lease] purge_frame [OF client_state(1) [OF ok]]
    by (simp add: rset_nx_def)
  from client_frame [OF _ this] ok run Inr show ?thesis
    by (auto simp: rs_claim_def Let_def validate_lease_seconds_def split: sum.splits prod.splits if_splits)
qed

lemma rs_release_frame:
  assumes ok: "client_ok s" and run: "rs_release n c l s = (r, s')"
  shows "client_ok s' \<and> client_map s' = client_map s"
proof (cases "redemption_lease_key n c")
  case (Inl e)
  with run ok show ?thesis by (simp add: rs_release_def)
next
  case (Inr k)
  from client_frame [OF ok] db_ok_delete_lease [OF client_state(1) [OF ok] lease_key_no_space [OF Inr]]
    purge_frame [OF client_state(1) [OF ok]] run Inr
  show ?thesis by (auto simp: rs_release_def rcompare_delete_def)
qed

lemma rs_scan_records:
  assumes ok: "client_ok s" and run: "rs_scan network cursor limit s = (r, s')"
  shows "s' = s \<and> (\<forall>c rs. r = Inr (c, rs) \<longrightarrow>
    (\<forall>x \<in> set rs. r_network x = network \<and> (\<exists>k. client_map s k = Some x)))"
  using run scan_records_found [OF client_state(1) [OF ok]]
  by (auto simp: rs_scan_def res_iffs client_map_def split: sum.splits prod.splits if_splits)

interpretation redis: channel_store "redis_ops uuid4" client_map client_ok for uuid4
proof (unfold_locales, goal_cases)
  case (1 w)
  then show ?case by (rule client_state)
next
  case (2 r)
  then show ?case unfolding redis_ops_def store_ops.simps linearizable_def
    by (metis rs_create_linear evolves_refl)
next
  case (3 network channel)
  then show ?case unfolding redis_ops_def store_ops.simps
    by (intro linearizableI) (use rs_get_exact evolves_refl in blast)
next
  case (4 timestamp network channel cumulative requested signature funded)
  show ?case unfolding redis_ops_def store_ops.simps spec_advance_def
    by (rule rs_timed_linearizable, simp add: rs_advance_def)
      (rule spec_advance_evolves, assumption, simp add: spec_advance_def)
next
  case (5 timestamp network channel cumulative reference)
  show ?case unfolding redis_ops_def store_ops.simps spec_redeem_def
    by (rule rs_timed_linearizable, simp add: rs_mark_redeemed_def)
      (rule spec_redeem_evolves, assumption, simp add: spec_redeem_def)
next
  case (6 timestamp network channel reason expected)
  show ?case unfolding redis_ops_def store_ops.simps spec_finalize_def
    by (rule rs_timed_linearizable, simp add: rs_finalize_def)
      (rule spec_finalize_evolves, assumption, simp add: spec_finalize_def)
next
  case (7 network cursor limit)
  show ?case
    unfolding redis_ops_def store_ops.simps
    by (intro linearizableI, frule (1) rs_scan_records) auto
next
  case (8 network channel seconds)
  show ?case unfolding redis_ops_def store_ops.simps
    by (intro linearizableI, frule (1) rs_claim_frame) simp
next
  case (9 network channel lease)
  show ?case unfolding redis_ops_def store_ops.simps
    by (intro linearizableI, frule (1) rs_release_frame) simp
qed

end
