(* ===== verification/RedisSession.thy ===== *)
theory RedisSession
  imports Worker RedisStore ReplayStore
begin

text \<open>
  The session verifier as the facilitator deploys it: channel store and challenge claims in one
  Redis, and what the XRP Ledger answers given by \<open>ledger_view\<close>, arbitrary functions of the
  question. The interpretation makes everything of \<open>ServiceSafety\<close> a fact about it, with other
  replicas committing between any two steps of a transaction.
\<close>

record ledger_view =
  lv_submit :: "(string \<Rightarrow> tx_json \<Rightarrow> (string \<times> string) res) option"
  lv_funding :: "(pc_record \<Rightarrow> string \<Rightarrow> string option res) option"
  lv_load :: "(string \<Rightarrow> pc_record res) option"
  lv_redeem :: "(pc_record \<Rightarrow> string res) option"
  lv_signer :: "(string \<Rightarrow> string \<Rightarrow> bool res) option"
  lv_index :: "int res option"

text \<open>\<open>base\<close> carries the configuration: secrets, network, parties, keys, limits, clock.\<close>

definition redis_session ::
  "(nat \<Rightarrow> string) \<Rightarrow> redis_client service \<Rightarrow> ledger_view \<Rightarrow> redis_client service"
where
  "redis_session uuid4 base V = base\<lparr>
     sv_store := redis_ops uuid4,
     sv_claim_challenge := rp_claim_challenge (lib_sha256 (sv_lib base)),
     sv_open_submitter := map_option (\<lambda>f blob tx. lift (f blob tx)) (lv_submit V),
     sv_ledger_verifier := map_option (\<lambda>f r amount. lift (f r amount)) (lv_funding V),
     sv_channel_loader := map_option (\<lambda>f channel. lift (bind_res (f channel) validate_record)) (lv_load V),
     sv_close_settler := map_option (\<lambda>f r. lift (f r)) (lv_redeem V),
     sv_signer_authorizer := map_option (\<lambda>f a b. lift (f a b)) (lv_signer V),
     sv_current_ledger_index := map_option lift (lv_index V)\<rparr>"

lemma challenge_key_no_space: "challenge_key sha256 c = Inr k \<Longrightarrow> \<not> channel_space k"
  by (auto simp: challenge_key_def challenge_claim_prefix_def channel_space_def Let_def split: if_splits)

lemma claim_plan_frame:
  assumes "db_ok db" and "\<not> channel_space k" and "atomic_plan [k] (claim_plan k life) db = (r, db')"
  shows "db_ok db' \<and> redis_map db' = redis_map db"
proof -
  have p: "db_ok (purge db)" "redis_map (purge db) = redis_map db" using purge_frame [OF assms(1)] by simp_all
  from assms(3) consider "db' = db" | "db' = rset k processed_value life (purge db)"
    by (auto simp: atomic_plan_def claim_plan_def rexec_def split: if_splits)
  then show ?thesis
    using assms(1) db_ok_rset_lease [OF p(1) assms(2), of "''processed''" life] p(2)
    by cases (simp_all add: processed_value_def)
qed

lemma calm_rp_claim: "calm client_ok client_map (rp_claim_challenge sha256 c life)"
proof -
  have "calm client_ok client_map (transact [k] (claim_plan k l))" if k: "\<not> channel_space k" for k l
  proof (rule calmI)
    fix s r s' assume ok: "client_ok s" and run: "transact [k] (claim_plan k l) s = (r, s')"
    from transact_linear [OF run] obtain used where used: "rc_rivals s = used @ rc_rivals s'"
      and at: "atomic_plan [k] (claim_plan k l) (run_rivals used (rc_db s)) = (r, rc_db s')" by blast
    have ok1: "db_ok (run_rivals used (rc_db s))"
      and ev1: "evolves (redis_map (rc_db s)) (redis_map (run_rivals used (rc_db s)))"
      using run_rivals_ok [of "rc_db s" used] ok used by (auto simp: client_ok_def)
    from claim_plan_frame [OF ok1 k at] ev1 ok used
    show "client_ok s' \<and> evolves (client_map s) (client_map s')"
      by (auto simp: client_ok_def client_map_def)
  qed
  then show ?thesis unfolding rp_claim_challenge_def
    by (intro calm_andthen_post [where P = "\<lambda>k. \<not> channel_space k"] calm_rules)
      (auto dest: challenge_key_no_space [OF sym])
qed

lemma validated_wf: "Inr r = bind_res m validate_record \<Longrightarrow> wf_record r"
  by (cases m) (auto dest: validate_record_wf [OF sym])

interpretation redis_session: session_service "redis_ops uuid4" client_map client_ok
  "redis_session uuid4 base V" for uuid4 base V
  by unfold_locales
    (auto simp: redis_session_def res_iffs intro: calm_prims calm_rp_claim dest: validated_wf)

text \<open>The redemption worker over the same store; \<open>redeem\<close> answers for the ledger.\<close>

definition redis_worker ::
  "(nat \<Rightarrow> string) \<Rightarrow> redis_client worker \<Rightarrow> (pc_record \<Rightarrow> string res) \<Rightarrow> redis_client worker"
where
  "redis_worker uuid4 base redeem = base\<lparr>wk_store := redis_ops uuid4, wk_settler := (\<lambda>r. lift (redeem r))\<rparr>"

interpretation redis_worker: redemption_worker "redis_ops uuid4" client_map client_ok
  "redis_worker uuid4 base redeem" for uuid4 base redeem
  by unfold_locales (auto simp: redis_worker_def intro: calm_prims)

end
