(* ===== verification/Demo.thy ===== *)
theory Demo
  imports RedisSession
begin

text \<open>
  A small concrete deployment, used to show that the hypotheses of the properties can hold: one
  channel of 1000 drops with 10 already claimed, which the loader finds on the ledger, and a
  challenge priced at 5 drops. The parameters of the model are instantiated by simple functions.
\<close>

definition demo_channel :: string where "demo_channel = replicate 64 CHR ''A''"
definition demo_payer :: string where "demo_payer = CHR ''r'' # replicate 24 CHR ''P''"
definition demo_recipient :: string where "demo_recipient = CHR ''r'' # replicate 24 CHR ''Q''"

definition demo_request :: "string \<Rightarrow> json" where
  "demo_request channel = JObj [(''amount'', JStr ''5''), (''channelId'', JStr channel),
     (''recipient'', JStr demo_recipient)]"

text \<open>The only text the JSON library knows is \<open>{}\<close>; the key is its own digest.\<close>

definition demo_lib :: "string \<Rightarrow> lib" where
  "demo_lib channel = \<lparr>lib_loads = (\<lambda>s. if s = ''{}'' then Some (demo_request channel) else None),
     lib_jcs = (\<lambda>j. Some ''{}''), lib_fromiso = (\<lambda>s. if s = ''E'' then Some (Aware 60000000) else None),
     lib_hmac = (\<lambda>k m. k), lib_sha256 = (\<lambda>s. s), lib_sha512 = (\<lambda>s. s)\<rparr>"

definition demo_xrpl :: xrpl_lib where
  "demo_xrpl = \<lparr>x_signing_claim = (\<lambda>c a. Some ''00''), x_encode_for_signing = (\<lambda>tx. Some ''00''),
     x_valid_message = (\<lambda>m s k. Some True), x_derive_address = (\<lambda>k. Some demo_payer)\<rparr>"

definition demo_base :: "string \<Rightarrow> redis_client service" where
  "demo_base channel = \<lparr>sv_lib = demo_lib channel, sv_xrpl = demo_xrpl, sv_store = redis_ops (\<lambda>n. ''u''),
     sv_claim_challenge = (\<lambda>c r. ret True), sv_secrets = [''s''], sv_network = ''testnet'',
     sv_recipient = demo_recipient, sv_public_key = ''ED'', sv_payer = demo_payer,
     sv_open_submitter = None, sv_ledger_verifier = None, sv_channel_loader = None,
     sv_close_settler = None, sv_signer_authorizer = None, sv_current_ledger_index = None,
     sv_minimum_settle_delay = 0, sv_settlement_margin_seconds = 0, sv_redemption_lease_seconds = 60,
     sv_transaction_decoder = (\<lambda>s. None), sv_now = (\<lambda>w. Aware 1000000)\<rparr>"

definition demo_record :: pc_record where
  "demo_record = (new_record ''testnet'' demo_channel demo_payer demo_recipient ''1000'' 0)
     \<lparr>r_cumulative := ''10'', r_signature := ''AB''\<rparr>"

definition demo_view :: ledger_view where
  "demo_view = \<lparr>lv_submit = None, lv_funding = Some (\<lambda>r a. Inr (Some ''2000'')),
     lv_load = Some (\<lambda>c. Inr demo_record), lv_redeem = Some (\<lambda>r. Inr (replicate 64 CHR ''F'')),
     lv_signer = None, lv_index = None\<rparr>"

definition demo_challenge :: payment_challenge where
  "demo_challenge = \<lparr>pch_id = b64_encode ''s'', pch_realm = ''a'', pch_method = ''xrpl'',
     pch_intent = ''session'', pch_request = b64_encode ''{}'', pch_digest = None, pch_expires = None,
     pch_description = None, pch_header = None, pch_opaque = None\<rparr>"

definition demo_credential :: "string \<Rightarrow> string \<Rightarrow> payment_credential" where
  "demo_credential action amount = \<lparr>pcr_challenge = demo_challenge,
     pcr_payload = [(''action'', JStr action), (''channelId'', JStr demo_channel),
       (''amount'', JStr amount), (''signature'', JStr ''CD'')],
     pcr_source = Some (''did:pkh:xrpl:testnet:'' @ demo_payer)\<rparr>"

definition demo_start :: redis_client where
  "demo_start = \<lparr>rc_db = redis_init 0, rc_rivals = [], rc_clock = 0, rc_drawn = 0\<rparr>"

text \<open>The same without a recipient signer: a close is final, but not redeemed on the ledger.\<close>

definition demo_offline :: ledger_view where
  "demo_offline = demo_view\<lparr>lv_redeem := None, lv_funding := None\<rparr>"

definition demo_session :: "ledger_view \<Rightarrow> redis_client service" where
  "demo_session V = redis_session (\<lambda>n. ''u'') (demo_base demo_channel) V"

lemma demo_start_ok: "client_ok demo_start"
  by (simp add: demo_start_def client_ok_def db_ok_def redis_init_def rd_ok_def good_def
      redis_map_def channel_values_def)

section \<open>What the deployment computes\<close>

definition is_ok :: "'a res \<Rightarrow> bool" where "is_ok r = (case r of Inl _ \<Rightarrow> False | Inr _ \<Rightarrow> True)"

lemma is_okE: "is_ok r \<Longrightarrow> (\<And>x. r = Inr x \<Longrightarrow> P) \<Longrightarrow> P"
  by (auto simp: is_ok_def split: sum.splits)

lemma is_ok_run: "is_ok (fst r) \<Longrightarrow> (\<And>x w. r = (Inr x, w) \<Longrightarrow> P) \<Longrightarrow> P"
  by (cases r) (auto elim: is_okE)

definition demo_session_request :: session_request where
  "demo_session_request = \<lparr>sr_amount = ''5'', sr_currency = None, sr_channel_id = demo_channel,
     sr_recipient = demo_recipient, sr_description = None, sr_external_id = None,
     sr_method_details = None\<rparr>"

lemma demo_json_text: "valid_utf8 ''{}''" "length (b64_encode ''{}'') \<le> max_encoded_header_value_length"
proof -
  show "valid_utf8 ''{}''" by code_simp
  have "length (b64_encode ''{}'') = 3" by code_simp
  then show "length (b64_encode ''{}'') \<le> max_encoded_header_value_length"
    by (simp add: max_encoded_header_value_length_def)
qed

lemma demo_json_decode:
  "decode_base64url_json (lib_loads (demo_lib c)) (b64_encode ''{}'') = Inr (collapse (demo_request c))"
  unfolding decode_json_Inr
  by (rule exI [of _ "''{}''"], rule exI [of _ "demo_request c"]) (simp_all only: demo_json_text, simp_all add: demo_lib_def)

lemma demo_collapse: "collapse (demo_request c) = demo_request c"
  by (simp add: demo_request_def dict_of_def)

lemma demo_decode: "decode_challenge_request (demo_lib demo_channel) demo_challenge = Inr (SessionRequest demo_session_request)"
proof -
  have j: "decode_base64url_json (lib_loads (demo_lib demo_channel)) (pch_request demo_challenge) = Inr (demo_request demo_channel)"
    using demo_json_decode [of demo_channel] by (simp add: demo_challenge_def demo_collapse)
  have r: "validate_session_request (demo_request demo_channel) = Inr demo_session_request" by code_simp
  show ?thesis using j r by (simp add: decode_challenge_request_def demo_challenge_def)
qed

lemma demo_bound: "verify_challenge_binding (demo_lib demo_channel) [''s''] demo_challenge = Inr True"
  by code_simp

lemma demo_source: "parse_xrpl_did (''did:pkh:xrpl:testnet:'' @ demo_payer) (Some ''testnet'') =
    Inr \<lparr>did_network = ''testnet'', did_address = demo_payer\<rparr>"
  by code_simp

lemma demo_voucher: "validate_session_payload (JObj (pcr_payload (demo_credential ''voucher'' ''15''))) =
    Inr (VoucherPayload demo_channel ''15'' ''CD'')"
  by code_simp

lemma demo_close: "validate_session_payload (JObj (pcr_payload (demo_credential ''close'' ''15''))) =
    Inr (ClosePayload demo_channel ''15'' ''CD'')"
  by code_simp

lemma demo_open: "check_action demo_session_request (VoucherPayload demo_channel ''15'' ''CD'') = Inr ()"
  "check_action demo_session_request (ClosePayload demo_channel ''15'' ''CD'') = Inr ()"
  "require_uint64 ''15'' = Inr ()" "require_uint64 ''5'' = Inr ()"
  by code_simp+

lemma demo_session_simps [simp]: "sv_lib (demo_session V) = demo_lib demo_channel" "sv_secrets (demo_session V) = [''s'']"
  "sv_network (demo_session V) = ''testnet''" "sv_recipient (demo_session V) = demo_recipient"
  "sv_payer (demo_session V) = demo_payer" "sv_now (demo_session V) w = Aware 1000000"
  by (simp_all add: demo_session_def redis_session_def demo_base_def)

lemma demo_envelope:
  "verify_envelope (demo_session V) (demo_credential ''voucher'' ''15'') (Aware 1000000) =
     Inr (demo_session_request, VoucherPayload demo_channel ''15'' ''CD'')"
  "verify_envelope (demo_session V) (demo_credential ''close'' ''15'') (Aware 1000000) =
     Inr (demo_session_request, ClosePayload demo_channel ''15'' ''CD'')"
  using demo_decode demo_bound demo_source demo_voucher demo_close demo_open
  by (simp_all add: verify_envelope_def demo_credential_def Let_def guard_res_def as_error_def catch_res_def
      session_request_of_def challenge_is_expired_def request_network_def request_cumulative_def or_empty_def
      bind_res_def demo_challenge_def demo_session_request_def)

lemma demo_runs:
  "is_ok (fst (verify_claim_action (demo_session demo_view) (demo_credential ''voucher'' ''15'') demo_session_request False
     demo_channel ''15'' ''CD'' demo_start))"
  by code_simp

lemma demo_verify:
  "verify (demo_session V) (demo_credential ''voucher'' ''15'') w = verify_claim_action (demo_session V)
     (demo_credential ''voucher'' ''15'') demo_session_request False demo_channel ''15'' ''CD'' w"
  "verify (demo_session V) (demo_credential ''close'' ''15'') w = verify_claim_action (demo_session V)
     (demo_credential ''close'' ''15'') demo_session_request True demo_channel ''15'' ''CD'' w"
  using demo_envelope by (simp_all add: verify_def andthen_def reading_def lift_def)

lemma demo_success:
  obtains res s' where "verify (demo_session demo_view) (demo_credential ''voucher'' ''15'') demo_start = (Inr res, s')"
  using demo_runs unfolding demo_verify by (rule is_ok_run)

lemma demo_close_runs:
  "is_ok (fst (verify_claim_action (demo_session demo_offline) (demo_credential ''close'' ''15'') demo_session_request
     True demo_channel ''15'' ''CD'' demo_start))"
  by code_simp

lemma demo_close_success:
  obtains res s' where "verify (demo_session demo_offline) (demo_credential ''close'' ''15'') demo_start = (Inr res, s')"
  using demo_close_runs unfolding demo_verify by (rule is_ok_run)

lemma demo_wf_challenge: "wf_challenge (demo_lib demo_channel) demo_challenge"
proof -
  have a: "valid_challenge_id (pch_id demo_challenge)" by code_simp
  have b: "nonblank (pch_realm demo_challenge)" "nonblank (pch_method demo_challenge)"
    "method_text (pch_method demo_challenge)" "intent_text (pch_intent demo_challenge)" by code_simp+
  have c: "b64url_text (pch_request demo_challenge)" "nonblank (pch_request demo_challenge)"
    "length (pch_request demo_challenge) = 3" by code_simp+
  then have l: "length (pch_request demo_challenge) \<le> request_parameter_max_length"
    by (simp add: request_parameter_max_length_def)
  have d: "canonical_request (demo_lib demo_channel) (pch_request demo_challenge)"
    using demo_json_decode [of demo_channel]
    by (simp add: canonical_request_def demo_challenge_def encode_json_to_base64url_def demo_lib_def)
  have e: "pch_expires demo_challenge = None" "pch_header demo_challenge = None" "pch_opaque demo_challenge = None"
    by (simp_all add: demo_challenge_def)
  show ?thesis unfolding wf_challenge_def valid_request_def e using a b c(1,2) l d by blast
qed

lemma demo_key_ring: "key_ring [''s''] = Inr [''s'']" "list_all (\<lambda>x. ch x < 128) (pch_id demo_challenge)"
  by code_simp+

end
