(* ===== verification/SessionProperties.thy ===== *)
theory SessionProperties
  imports Demo
begin

text \<open>
  The properties of the deployed session verifier, each a fact of the interpretation
  \<open>redis_session\<close> written out, and a concrete deployment that witnesses them.
\<close>

section \<open>Consequences of the envelope\<close>

lemma payload_drops:
  "validate_session_payload j = Inr p \<Longrightarrow> drops_text (payload_amount p)"
  by (auto simp: validate_session_payload_def open_fields_def claim_fields_def voucher_payload_Inr res_iffs
      drops_field_Inr split: if_splits)

lemma envelope_drops: "verify_envelope S cred now = Inr (request, p) \<Longrightarrow> drops_text (payload_amount p)"
  by (auto simp: verify_envelope_def Let_def res_iffs as_error_def dest: payload_drops split: if_splits)

lemma verify_claim_runs:
  assumes "verify S cred w = (Inr res, w')"
    and "verify_envelope S cred (sv_now S w) = Inr (request, p)"
  shows "(case p of OpenPayload _ _ _ \<Rightarrow> True
    | VoucherPayload c a s \<Rightarrow> verify_claim_action S cred request False c a s w = (Inr res, w')
    | ClosePayload c a s \<Rightarrow> verify_claim_action S cred request True c a s w = (Inr res, w'))"
  using assms by (auto simp: verify_def proc_iffs reading_def split: session_payload.splits prod.splits)

text \<open>Whether a payload asks for a close; its channel and signature.\<close>

fun claims :: "session_payload \<Rightarrow> (bool \<times> string \<times> string \<times> string) option" where
  "claims (OpenPayload _ _ _) = None"
| "claims (VoucherPayload c a s) = Some (False, c, a, s)"
| "claims (ClosePayload c a s) = Some (True, c, a, s)"

lemma claims_run:
  assumes "verify S cred w = (Inr res, w')"
    and "verify_envelope S cred (sv_now S w) = Inr (request, p)" and "claims p = Some (closing, c, a, s)"
  shows "verify_claim_action S cred request closing c a s w = (Inr res, w') \<and> hex64 c \<and> drops_text a"
  using verify_claim_runs [OF assms(1,2)] envelope_hex [OF assms(2)] envelope_drops [OF assms(2)] assms(3)
  by (cases p) auto

lemma drops_strip [simp]: "drops_text a \<Longrightarrow> pydantic_strip a = a"
  by (rule drops_text_strip)

lemma strip_str_int [simp]: "pydantic_strip (py_str_int (py_int x)) = py_str_int (py_int x)"
proof -
  have "\<not> py_int x < 0" using py_int_nonneg [of x] by linarith
  then show ?thesis by (simp add: py_str_int_def)
qed

lemma cumulative_after_advance:
  assumes "good m" and "spec_advance n c a q sig f t m = (Inr adv, m')" and "drops_text a"
    and "a_status adv = Advanced \<or> resumable closing adv"
  obtains k r where "channel_key n c = Inr k" "m k = Some r" "\<not> r_finalized r"
    "closing \<or> py_int (r_cumulative r) + py_int q \<le> py_int a" "py_int (r_cumulative r) \<le> py_int a"
    "py_int a \<le> py_int (r_funded (a_record adv))" "a_previous adv = py_str_int (py_int (r_cumulative r))"
    "py_int a \<le> cumulative_at k m'"
proof (cases "a_status adv = Advanced")
  case True
  from spec_advance_accepted [OF assms(1,2) True] obtain k r where "channel_key n c = Inr k" "m k = Some r"
    "\<not> r_finalized r" "py_int (r_cumulative r) < py_int a" "py_int (r_cumulative r) + py_int q \<le> py_int a"
    "py_int a \<le> py_int (r_funded (a_record adv))" "a_previous adv = py_str_int (py_int (r_cumulative r))"
    "r_cumulative (a_record adv) = a" "m' = m(k \<mapsto> a_record adv)"
    using assms(3) by (metis drops_strip)
  with that show thesis by (simp add: cumulative_at_def)
next
  case False
  with assms(4) have res: "closing" "a_exact_replay adv" by (auto simp: resumable_def)
  from spec_advance_Inr [OF assms(1,2)] obtain r0 k0 where r0: "channel_key n c = Inr k0" "m k0 = Some r0"
    "wf_record r0" "funding_ok f r0" by metis
  from spec_advance_exact [OF assms(1,2) res(2)] obtain k r where r: "channel_key n c = Inr k" "m k = Some r"
    "\<not> r_finalized r" "wf_record r" "r_cumulative r = a" "a_record adv = funded_after f r"
    "a_previous adv = py_str_int (py_int (r_cumulative r))"
    using assms(3) by (metis drops_strip)
  with r0 have "wf_record (a_record adv)" by simp
  then have "py_int (r_cumulative (a_record adv)) \<le> py_int (r_funded (a_record adv))"
    by (simp add: wf_record_def accounting_None_iff)
  moreover have "cumulative_at k m \<le> cumulative_at k m'"
    using spec_advance_evolves [OF assms(1,2)] by (rule cumulative_at_evolves)
  ultimately show thesis using that [OF r(1-3)] r res by (simp add: cumulative_at_def)
qed

lemma claims_accepted:
  fixes uuid4 base V
  defines "T \<equiv> redis_session uuid4 base V"
  assumes ok: "client_ok s" and run: "verify T cred s = (Inr res, s')"
    and env: "verify_envelope T cred (sv_now T s) = Inr (request, p)" and p: "claims p = Some (closing, c, a, sig)"
  obtains m k r where "claim_proved T cred (py_upper c) a sig"
    "evolves (client_map s) m" "channel_key (sv_network T) (py_upper c) = Inr k" "m k = Some r"
    "\<not> r_finalized r" "closing \<or> py_int (r_cumulative r) + py_int (sr_amount request) \<le> py_int a"
    "py_int (r_cumulative r) \<le> py_int a"
    "vr_previous res = py_str_int (py_int (r_cumulative r))" "py_int a \<le> cumulative_at k (client_map s')"
    "client_ok s'" "closing \<Longrightarrow> vr_finalized res \<and> (\<exists>r'. client_map s' k = Some r' \<and> r_finalized r')"
proof -
  from claims_run [OF run env p] have act: "verify_claim_action T cred request closing c a sig s = (Inr res, s')"
    and hex: "hex64 c" and a: "drops_text a" by blast+
  note succ = redis_session.verify_claim_success [OF ok hex act [unfolded T_def], folded T_def]
  from succ(2) obtain m1 m2 t funded adv where ev: "evolves (client_map s) m1" "good m1" "evolves m2 (client_map s')"
    and sp: "spec_advance (sv_network T) (py_upper c) a (sr_amount request) sig funded t m1 = (Inr adv, m2)"
    and st: "a_status adv = Advanced \<or> resumable closing adv"
    and prev: "vr_previous res = pydantic_strip (a_previous adv)" by blast
  from cumulative_after_advance [OF ev(2) sp a st] obtain k r where k: "channel_key (sv_network T) (py_upper c) = Inr k"
    and r: "m1 k = Some r" "\<not> r_finalized r" "closing \<or> py_int (r_cumulative r) + py_int (sr_amount request) \<le> py_int a"
      "py_int (r_cumulative r) \<le> py_int a" "a_previous adv = py_str_int (py_int (r_cumulative r))"
      "py_int a \<le> cumulative_at k m2" by metis
  have "cumulative_at k m2 \<le> cumulative_at k (client_map s')" using ev(3) by (rule cumulative_at_evolves)
  moreover have "vr_finalized res \<and> (\<exists>r'. client_map s' k = Some r' \<and> r_finalized r')" if closing
  proof -
    from succ(3) [OF that] k obtain m x where "vr_finalized res" "m k = Some x" "r_finalized x"
      "evolves m (client_map s')" by auto
    with evolvesD [of m "client_map s'" k x] show ?thesis by (auto simp: record_le_def)
  qed
  ultimately show thesis using that [OF succ(1) ev(1) k r(1-4)] r(5,6) prev succ(4) by simp
qed

section \<open>Properties\<close>

text \<open>
  C1. A voucher is accepted only when it is paid: a successful verification of a voucher means that
  the claim signature is valid for exactly this channel and amount, the challenge was claimed, and
  at one moment during the call the stored channel was open with
  previous + price <= amount; the reported previous amount is that of this moment, and afterwards the
  recipient holds a claim of at least the voucher's amount. Other replicas may act at any step.
\<close>

theorem accepted_voucher_is_paid:
  assumes "client_ok s"
    and "verify (redis_session uuid4 base V) cred s = (Inr res, s')"
    and "verify_envelope (redis_session uuid4 base V) cred (sv_now base s) =
      Inr (request, VoucherPayload channel amount signature)"
  shows "claim_valid (sv_xrpl base) (py_upper channel) amount signature (sv_public_key base) = Some True \<and>
    (\<exists>m k r. evolves (client_map s) m \<and> channel_key (sv_network base) (py_upper channel) = Inr k \<and>
       m k = Some r \<and> \<not> r_finalized r \<and>
       py_int (r_cumulative r) + py_int (sr_amount request) \<le> py_int amount \<and>
       vr_previous res = py_str_int (py_int (r_cumulative r)) \<and>
       py_int amount \<le> cumulative_at k (client_map s'))"
proof -
  let ?T = "redis_session uuid4 base V"
  have same: "sv_now ?T = sv_now base" "sv_xrpl ?T = sv_xrpl base" "sv_public_key ?T = sv_public_key base"
    "sv_network ?T = sv_network base" by (simp_all add: redis_session_def)
  from claims_accepted [OF assms(1,2) assms(3) [folded same(1)], of False channel amount signature] same
  show ?thesis unfolding claim_proved_def by (metis claims.simps(2))
qed

lemma accepted_voucher_is_paid_witness:
  "\<exists>res s'. verify (demo_session demo_view) (demo_credential ''voucher'' ''15'') demo_start = (Inr res, s') \<and>
     15 \<le> cumulative_at (''facilitator:paychannel:testnet:'' @ demo_channel) (client_map s')"
proof -
  obtain res s' where run: "verify (demo_session demo_view) (demo_credential ''voucher'' ''15'') demo_start = (Inr res, s')"
    by (rule demo_success)
  have "verify_envelope (demo_session demo_view) (demo_credential ''voucher'' ''15'') (sv_now (demo_base demo_channel) demo_start) =
      Inr (demo_session_request, VoucherPayload demo_channel ''15'' ''CD'')"
    using demo_envelope(1) by (simp add: demo_base_def)
  from accepted_voucher_is_paid [OF demo_start_ok run [unfolded demo_session_def] this [unfolded demo_session_def]]
  obtain k where "channel_key ''testnet'' (py_upper demo_channel) = Inr k" "py_int ''15'' \<le> cumulative_at k (client_map s')"
    by (auto simp: demo_base_def)
  moreover have "channel_key ''testnet'' (py_upper demo_channel) = Inr (''facilitator:paychannel:testnet:'' @ demo_channel)"
    by code_simp
  moreover have "py_int ''15'' = 15" by code_simp
  ultimately show ?thesis using run by auto
qed

text \<open>
  C2. Nothing a request does loses value: however a session request ends, with success, a refusal or a
  crash, the durable channels satisfy their accounting rules afterwards and every channel has only moved
  forward (amounts and times grow, parties stay, a closed channel stays closed).
\<close>

theorem any_request_moves_forward:
  assumes "client_ok s" and "verify (redis_session uuid4 base V) cred s = (outcome, s')"
  shows "client_ok s' \<and> evolves (client_map s) (client_map s')"
  using calmD [OF redis_session.calm_verify assms] .

lemma any_request_moves_forward_witness:
  "\<exists>outcome s'. verify (demo_session demo_view) (demo_credential ''voucher'' ''15'') demo_start = (outcome, s') \<and> client_ok s'"
  using any_request_moves_forward [OF demo_start_ok] unfolding demo_session_def by (metis prod.collapse)

text \<open>A history of one channel: requests that are accepted for it, and whatever else moves the store forward.\<close>

inductive served :: "redis_client service \<Rightarrow> string \<Rightarrow> redis_client \<Rightarrow> int list \<Rightarrow> redis_client \<Rightarrow> bool" for T k s0 where
  start: "client_ok s0 \<Longrightarrow> served T k s0 [] s0"
| others: "served T k s0 prices s \<Longrightarrow> client_ok s' \<Longrightarrow> evolves (client_map s) (client_map s') \<Longrightarrow> served T k s0 prices s'"
| request: "served T k s0 prices s \<Longrightarrow> verify T cred s = (Inr res, s') \<Longrightarrow>
    verify_envelope T cred (sv_now T s) = Inr (request, VoucherPayload channel amount signature) \<Longrightarrow>
    channel_key (sv_network T) (py_upper channel) = Inr k \<Longrightarrow>
    served T k s0 (py_int (sr_amount request) # prices) s'"

lemma voucher_raises_cumulative:
  assumes "client_ok s" and "verify (redis_session uuid4 base V) cred s = (Inr res, s')"
    and "verify_envelope (redis_session uuid4 base V) cred (sv_now (redis_session uuid4 base V) s) =
      Inr (request, VoucherPayload channel amount signature)"
    and "channel_key (sv_network (redis_session uuid4 base V)) (py_upper channel) = Inr k"
  shows "cumulative_at k (client_map s) + py_int (sr_amount request) \<le> cumulative_at k (client_map s') \<and> client_ok s'"
proof -
  from claims_accepted [OF assms(1-3), of False channel amount signature] assms(4) obtain m r where
    m: "evolves (client_map s) m" "m k = Some r" "py_int (r_cumulative r) + py_int (sr_amount request) \<le> py_int amount"
      "py_int amount \<le> cumulative_at k (client_map s')" "client_ok s'" by (metis Inr_inject claims.simps(2))
  with cumulative_at_evolves [OF m(1), of k] show ?thesis by (simp add: cumulative_at_def)
qed

text \<open>
  C3. The recipient is paid for everything served: along any history, the channel's stored claim has grown
  by at least the sum of the prices of all accepted vouchers, and it never exceeds the channel's funding,
  so the claim can be redeemed; other channels, replicas and refused requests interleave freely.
\<close>

theorem served_requests_are_paid:
  assumes "served (redis_session uuid4 base V) k s0 prices s"
  shows "cumulative_at k (client_map s0) + sum_list prices \<le> cumulative_at k (client_map s) \<and>
    (case client_map s k of None \<Rightarrow> sum_list prices \<le> 0
     | Some r \<Rightarrow> py_int (r_cumulative r) \<le> py_int (r_funded r))"
proof -
  from assms have "client_ok s \<and> cumulative_at k (client_map s0) + sum_list prices \<le> cumulative_at k (client_map s)"
  proof (induction rule: served.induct)
    case (others prices s s')
    then show ?case using cumulative_at_evolves [of "client_map s" "client_map s'" k] by simp
  next
    case (request prices s cred res s' req channel amount signature)
    with voucher_raises_cumulative [OF _ request.hyps(2,3,4)] show ?case by simp
  qed simp
  moreover have "client_ok s \<Longrightarrow> client_map s k = Some r \<Longrightarrow> py_int (r_cumulative r) \<le> py_int (r_funded r)" for r
    using good_cumulative_funded client_state(3) by blast
  moreover have "0 \<le> cumulative_at k (client_map s0)"
    by (cases "client_map s0 k") (simp_all add: cumulative_at_def)
  ultimately show ?thesis by (auto simp: cumulative_at_def split: option.splits)
qed

lemma served_requests_are_paid_witness:
  "\<exists>s. served (demo_session demo_view) (''facilitator:paychannel:testnet:'' @ demo_channel) demo_start [5] s \<and>
     5 \<le> cumulative_at (''facilitator:paychannel:testnet:'' @ demo_channel) (client_map s)"
proof -
  let ?k = "''facilitator:paychannel:testnet:'' @ demo_channel"
  obtain res s' where run: "verify (demo_session demo_view) (demo_credential ''voucher'' ''15'') demo_start = (Inr res, s')"
    by (rule demo_success)
  have key: "channel_key ''testnet'' (py_upper demo_channel) = Inr ?k" by code_simp
  have five: "py_int (sr_amount demo_session_request) = 5" by code_simp
  have "served (demo_session demo_view) ?k demo_start [py_int (sr_amount demo_session_request)] s'"
    by (rule served.request [OF served.start [OF demo_start_ok] run, where request = demo_session_request
          and channel = demo_channel and amount = "''15''" and signature = "''CD''"])
      (simp_all only: demo_envelope demo_session_simps key)
  then have sv: "served (demo_session demo_view) ?k demo_start [5] s'" by (simp only: five)
  from served_requests_are_paid [OF this [unfolded demo_session_def]]
  have "5 \<le> cumulative_at ?k (client_map s')"
    by (simp add: cumulative_at_def demo_start_def client_map_def redis_map_def redis_init_def)
  with sv show ?thesis by blast
qed

text \<open>
  C4. A close is final: once a close request succeeds, its result says so, and no voucher or close for
  that channel is ever accepted again, by any replica, in any state the store can move to.
\<close>

theorem closed_channel_stays_closed:
  assumes "client_ok s" and "verify (redis_session uuid4 base V) cred s = (Inr res, s')"
    and "verify_envelope (redis_session uuid4 base V) cred (sv_now (redis_session uuid4 base V) s) =
      Inr (request, ClosePayload channel amount signature)"
    and "client_ok t" and "evolves (client_map s') (client_map t)"
    and "verify_envelope (redis_session uuid4 base V') cred' (sv_now (redis_session uuid4 base V') t) = Inr (request', p)"
    and "claims p = Some (closing, channel', amount', signature')"
    and "py_upper channel' = py_upper channel"
  shows "vr_finalized res \<and> (\<exists>e. fst (verify (redis_session uuid4 base V') cred' t) = Inl e)"
proof -
  have same: "sv_network (redis_session uuid4 base V') = sv_network (redis_session uuid4 base V)"
    by (simp add: redis_session_def)
  from claims_accepted [OF assms(1-3), of True channel amount signature] obtain k r' where
    k: "channel_key (sv_network (redis_session uuid4 base V)) (py_upper channel) = Inr k"
    and fin: "vr_finalized res" "client_map s' k = Some r'" "r_finalized r'" by (metis claims.simps(3))
  have False if succ: "verify (redis_session uuid4 base V') cred' t = (Inr res', t')" for res' t'
  proof -
    from claims_accepted [OF assms(4) succ assms(6,7)] assms(8) k same obtain m r where
      "evolves (client_map t) m" "m k = Some r" "\<not> r_finalized r" by (metis Inr_inject)
    with evolvesD [OF evolves_trans [OF assms(5) this(1)] fin(2)] fin(3) show False by (auto simp: record_le_def)
  qed
  with fin(1) show ?thesis by (cases "verify (redis_session uuid4 base V') cred' t"; cases "fst (verify (redis_session uuid4 base V') cred' t)") auto
qed

lemma closed_channel_stays_closed_witness:
  "\<exists>res s' e. verify (demo_session demo_offline) (demo_credential ''close'' ''15'') demo_start = (Inr res, s') \<and>
     vr_finalized res \<and> fst (verify (demo_session demo_view) (demo_credential ''voucher'' ''15'') s') = Inl e"
proof -
  obtain res s' where run: "verify (demo_session demo_offline) (demo_credential ''close'' ''15'') demo_start = (Inr res, s')"
    by (rule demo_close_success)
  have ok: "client_ok s'" using calmD [OF redis_session.calm_verify demo_start_ok run [unfolded demo_session_def]] by blast
  note e1 = demo_envelope(2) [of demo_offline] and e2 = demo_envelope(1) [of demo_view]
  have n: "sv_now (redis_session (\<lambda>n. ''u'') (demo_base demo_channel) V) w = Aware 1000000" for V w
    by (simp add: redis_session_def demo_base_def)
  from closed_channel_stays_closed [OF demo_start_ok run [unfolded demo_session_def] _ ok evolves_refl]
    e1 [unfolded demo_session_def] e2 [unfolded demo_session_def]
  have "vr_finalized res \<and> (\<exists>e. fst (verify (demo_session demo_view) (demo_credential ''voucher'' ''15'') s') = Inl e)"
    unfolding demo_session_def n by (metis claims.simps(2))
  with run show ?thesis by blast
qed

end
