(* ===== verification/HeaderSyntax.thy ===== *)
theory HeaderSyntax
  imports Challenge
begin

text \<open>
  The \<open>WWW-Authenticate\<close> header of \<open>helpers.py\<close>: rendering a challenge, and the scanner that
  finds every \<open>Payment\<close> scheme of a header and reads its auth-params. Positions are indices into
  the header as in the source; a loop over a run of characters is \<open>takeWhile\<close> of the rest.
\<close>

section \<open>Rendering\<close>

definition backslash :: char where "backslash = char_of (92::nat)"
definition dquote :: char where "dquote = char_of (34::nat)"

text \<open>The two \<open>replace\<close> calls: first every backslash, then every quote.\<close>

definition escape_header_value :: "string \<Rightarrow> string" where
  "escape_header_value v =
     concat (map (\<lambda>c. if c = dquote then [backslash, dquote] else [c])
       (concat (map (\<lambda>c. if c = backslash then [backslash, backslash] else [c]) v)))"

definition render_param :: "string \<times> string \<Rightarrow> string" where
  "render_param p = fst p @ ''='' @ [dquote] @ escape_header_value (snd p) @ [dquote]"

text \<open>The five required parameters, then those of the optional ones that are not empty.\<close>

definition challenge_params :: "payment_challenge \<Rightarrow> (string \<times> string) list" where
  "challenge_params c =
     [(''id'', pch_id c), (''realm'', pch_realm c), (''method'', pch_method c),
      (''intent'', pch_intent c), (''request'', pch_request c)]
     @ filter (\<lambda>p. snd p \<noteq> [])
         [(''digest'', or_empty (pch_digest c)), (''expires'', or_empty (pch_expires c)),
          (''description'', or_empty (pch_description c)), (''header'', or_empty (pch_header c)),
          (''opaque'', or_empty (pch_opaque c))]"

definition render_payment_challenge :: "payment_challenge \<Rightarrow> string" where
  "render_payment_challenge c = ''Payment '' @ py_join '', '' (map render_param (challenge_params c))"

section \<open>Scanning\<close>

definition header_space :: "char \<Rightarrow> bool" where
  "header_space c \<longleftrightarrow> ch c = 32 \<or> ch c = 9"

definition token_char :: "char \<Rightarrow> bool" where
  "token_char c \<longleftrightarrow> is_digit c \<or> is_upper c \<or> is_lower c \<or> c \<in> set ''!#$%&*+-.^_`|~'' \<or> ch c = 39"

definition consume_header_whitespace :: "string \<Rightarrow> nat \<Rightarrow> nat" where
  "consume_header_whitespace v start = start + length (takeWhile header_space (drop start v))"

fun find_sub :: "string \<Rightarrow> string \<Rightarrow> nat option" where
  "find_sub pat [] = (if pat = [] then Some 0 else None)"
| "find_sub pat (c # cs) =
     (if starts_with pat (c # cs) then Some 0 else map_option Suc (find_sub pat cs))"

text \<open>\<open>value.find(pat, start)\<close>\<close>

definition py_find :: "string \<Rightarrow> string \<Rightarrow> nat \<Rightarrow> nat option" where
  "py_find v pat start = map_option (\<lambda>k. start + k) (find_sub pat (drop start v))"

definition payment_scheme :: string where "payment_scheme = ''payment''"

definition starts_payment_scheme :: "string \<Rightarrow> nat \<Rightarrow> bool" where
  "starts_payment_scheme v i =
     (if py_lower (take (length payment_scheme) (drop i v)) \<noteq> payment_scheme then False
      else let scheme_end = i + length payment_scheme in
        if length v \<le> scheme_end \<or> \<not> header_space (v ! scheme_end) then False
        else case dropWhile header_space (rev (take i v)) of [] \<Rightarrow> True | c # _ \<Rightarrow> c = CHR '','')"

definition starts_other_auth_scheme :: "string \<Rightarrow> nat \<Rightarrow> bool" where
  "starts_other_auth_scheme v start =
     (let token_end = start + length (takeWhile token_char (drop start v)) in
      if token_end = start then False
      else let after = consume_header_whitespace v token_end in
        token_end < after \<and> (length v \<le> after \<or> v ! after \<noteq> CHR ''=''))"

lemma find_sub_bounds: "find_sub pat s = Some k \<Longrightarrow> k + length pat \<le> length s"
proof (induction s arbitrary: k)
  case (Cons c cs)
  then show ?case using starts_with_length [of pat "c # cs"] by (auto split: if_splits)
qed (auto split: if_splits)

lemma py_find_bounds: "py_find v pat i = Some j \<Longrightarrow> pat \<noteq> [] \<Longrightarrow> i \<le> j \<and> j + length pat \<le> length v"
  by (auto simp: py_find_def dest!: find_sub_bounds) (cases "i \<le> length v"; simp)

text \<open>A failed candidate moves the search past the word, so the search ends.\<close>

function find_next_payment_scheme :: "string \<Rightarrow> nat \<Rightarrow> nat option" where
  "find_next_payment_scheme v i = (case py_find (py_lower v) payment_scheme i of
     None \<Rightarrow> None
   | Some j \<Rightarrow> if starts_payment_scheme v j then Some j
              else find_next_payment_scheme v (j + length payment_scheme))"
  by pat_completeness auto
termination
  by (relation "measure (\<lambda>(v, i). length v - i)")
    (auto simp: payment_scheme_def dest!: py_find_bounds)

declare find_next_payment_scheme.simps [simp del]

definition malformed :: exn where
  "malformed = ValueError ''WWW-Authenticate Payment header has malformed auth params''"

definition parse_auth_param_name :: "string \<Rightarrow> nat \<Rightarrow> (string \<times> nat) res" where
  "parse_auth_param_name v start =
     (let name = takeWhile token_char (drop start v) in
      if name = [] then Inl malformed else Inr (name, start + length name))"

fun quoted_body :: "string \<Rightarrow> string \<Rightarrow> nat \<Rightarrow> (string \<times> nat) res" where
  "quoted_body [] buffer i =
     Inl (ValueError ''WWW-Authenticate Payment header has an unterminated quoted string'')"
| "quoted_body (c # cs) buffer i =
     (if c = backslash then (case cs of
        [] \<Rightarrow> Inl (ValueError ''WWW-Authenticate Payment header has an unterminated escape'')
      | d # ds \<Rightarrow> quoted_body ds (buffer @ [d]) (i + 2))
      else if c = dquote then Inr (buffer, i + 1)
      else quoted_body cs (buffer @ [c]) (i + 1))"

definition parse_quoted_string :: "string \<Rightarrow> nat \<Rightarrow> (string \<times> nat) res" where
  "parse_quoted_string v start =
     (if length v \<le> start \<or> v ! start \<noteq> dquote
        then Inl (ValueError ''WWW-Authenticate Payment header auth params must be quoted'')
      else quoted_body (drop (start + 1) v) [] (start + 1))"

definition parse_auth_param_value :: "string \<Rightarrow> nat \<Rightarrow> (string \<times> nat) res" where
  "parse_auth_param_value v start =
     (if start < length v \<and> v ! start = dquote then parse_quoted_string v start
      else let token = takeWhile token_char (drop start v) in
        if token = [] then Inl (ValueError
          ''WWW-Authenticate Payment header auth params must use token or quoted-string values'')
        else Inr (token, start + length token))"

text \<open>What follows the value of one auth-param: the end, another scheme, or the next auth-param.\<close>

datatype after_param = Finished nat | NextParam nat

definition after_auth_param :: "string \<Rightarrow> string \<Rightarrow> nat \<Rightarrow> after_param res" where
  "after_auth_param v name i =
     (if length v \<le> i then Inr (Finished i)
      else if v ! i \<noteq> CHR '','' then
        (if name = ''description''
           then Inr (Finished (case find_next_payment_scheme v i of None \<Rightarrow> length v | Some j \<Rightarrow> j))
         else Inl malformed)
      else let next_index = consume_header_whitespace v (i + 1) in
        if starts_payment_scheme v next_index \<or> starts_other_auth_scheme v next_index
          then Inr (Finished next_index) else Inr (NextParam next_index))"

text \<open>One auth-param: its name, its value, and the position after it and its white space.\<close>

definition parse_auth_param :: "string \<Rightarrow> nat \<Rightarrow> ((string \<times> string) \<times> nat) res" where
  "parse_auth_param v i =
     bind_res (parse_auth_param_name v i) (\<lambda>(name, i1).
     let i2 = consume_header_whitespace v i1 in
     if length v \<le> i2 \<or> v ! i2 \<noteq> CHR ''='' then Inl malformed
     else bind_res (parse_auth_param_value v (consume_header_whitespace v (i2 + 1))) (\<lambda>(param_value, i3).
       Inr ((py_lower name, param_value), consume_header_whitespace v i3)))"

lemma quoted_body_moves: "quoted_body s b i = Inr (t, j) \<Longrightarrow> i < j"
  by (induction s b i rule: quoted_body.induct) (fastforce split: if_splits list.splits)+

lemma consume_moves [simp]: "i \<le> consume_header_whitespace v i"
  by (simp add: consume_header_whitespace_def)

lemma parse_auth_param_value_moves: "parse_auth_param_value v i = Inr (t, j) \<Longrightarrow> i < j"
  by (auto simp: parse_auth_param_value_def parse_quoted_string_def Let_def
      dest!: quoted_body_moves split: if_splits)

lemma parse_auth_param_moves: "parse_auth_param v i = Inr (p, j) \<Longrightarrow> i < j"
proof -
  assume "parse_auth_param v i = Inr (p, j)"
  then obtain name i1 val i3 where n: "parse_auth_param_name v i = Inr (name, i1)"
    and val: "parse_auth_param_value v (consume_header_whitespace v (consume_header_whitespace v i1 + 1)) = Inr (val, i3)"
    and j: "j = consume_header_whitespace v i3"
    by (auto simp: parse_auth_param_def res_iffs Let_def split: if_splits)
  from n have "i < i1" by (auto simp: parse_auth_param_name_def Let_def split: if_splits)
  also have "i1 \<le> consume_header_whitespace v (consume_header_whitespace v i1 + 1)"
    using consume_moves [of i1 v] consume_moves [of "consume_header_whitespace v i1 + 1" v] by linarith
  also have "\<dots> < i3" using val by (rule parse_auth_param_value_moves)
  also have "i3 \<le> j" using j by simp
  finally show "i < j" .
qed

lemma parse_auth_param_name_in: "parse_auth_param v i = Inr (p, j) \<Longrightarrow> i < length v"
  by (cases "i < length v")
    (auto simp: parse_auth_param_def parse_auth_param_name_def res_iffs Let_def split: if_splits)

lemma after_auth_param_moves: "after_auth_param v n i = Inr (NextParam j) \<Longrightarrow> i < j"
proof -
  assume "after_auth_param v n i = Inr (NextParam j)"
  then have "j = consume_header_whitespace v (i + 1)"
    by (auto simp: after_auth_param_def Let_def split: if_splits)
  then show "i < j" using consume_moves [of "i + 1" v] by linarith
qed

function auth_params_loop ::
  "string \<Rightarrow> nat \<Rightarrow> (string \<times> string) list \<Rightarrow> ((string \<times> string) list \<times> nat) res"
where
  "auth_params_loop v i params =
     (if length v \<le> i then Inr (params, i)
      else case parse_auth_param v i of Inl e \<Rightarrow> Inl e
      | Inr (p, j) \<Rightarrow>
          if fst p \<in> fst ` set params
            then Inl (ValueError ''WWW-Authenticate Payment header contains a duplicate auth param'')
          else (case after_auth_param v (fst p) j of Inl e \<Rightarrow> Inl e
            | Inr (Finished k) \<Rightarrow> Inr (params @ [p], k)
            | Inr (NextParam k) \<Rightarrow> auth_params_loop v k (params @ [p])))"
  by pat_completeness auto
termination
  by (relation "measure (\<lambda>(v, i, _). length v - i)")
    (auto dest!: parse_auth_param_moves after_auth_param_moves)

declare auth_params_loop.simps [simp del]

definition parse_auth_params :: "string \<Rightarrow> nat \<Rightarrow> ((string \<times> string) list \<times> nat) res" where
  "parse_auth_params v start =
     bind_res (auth_params_loop v (consume_header_whitespace v start) []) (\<lambda>(params, i).
     if params = [] then Inl (ValueError ''WWW-Authenticate Payment header has no auth params'')
     else Inr (params, i))"

lemma find_next_in:
  "find_next_payment_scheme v i = Some j \<Longrightarrow> i \<le> j \<and> j + length payment_scheme \<le> length v"
proof (induction v i rule: find_next_payment_scheme.induct)
  case (1 v i)
  show ?case
  proof (cases "py_find (py_lower v) payment_scheme i")
    case None
    with "1.prems" show ?thesis by (simp add: find_next_payment_scheme.simps [of v i])
  next
    case (Some k)
    have k: "i \<le> k" "k + length payment_scheme \<le> length v"
      using py_find_bounds [OF Some] by (simp_all add: payment_scheme_def)
    show ?thesis
    proof (cases "starts_payment_scheme v k")
      case True
      with "1.prems" Some k show ?thesis by (simp add: find_next_payment_scheme.simps [of v i])
    next
      case False
      with "1.prems" Some have "find_next_payment_scheme v (k + length payment_scheme) = Some j"
        by (simp add: find_next_payment_scheme.simps [of v i])
      from "1.IH" [OF Some False this] k show ?thesis by linarith
    qed
  qed
qed

lemma after_auth_param_ends: "after_auth_param v n i = Inr (Finished j) \<Longrightarrow> i \<le> j"
proof -
  assume a: "after_auth_param v n i = Inr (Finished j)"
  have "i \<le> consume_header_whitespace v (i + 1)" using consume_moves [of "i + 1" v] by linarith
  with a show ?thesis
    by (auto simp: after_auth_param_def Let_def dest: find_next_in split: if_splits option.splits)
qed

lemma auth_params_loop_moves: "auth_params_loop v i ps = Inr (qs, j) \<Longrightarrow> i \<le> j"
proof (induction v i ps rule: auth_params_loop.induct)
  case (1 v i ps)
  show ?case
  proof (cases "length v \<le> i")
    case True
    with "1.prems" show ?thesis by (simp add: auth_params_loop.simps [of v i])
  next
    case False
    with "1.prems" obtain p k where p: "parse_auth_param v i = Inr (p, k)" and fresh: "fst p \<notin> fst ` set ps"
      by (auto simp: auth_params_loop.simps [of v i] split: sum.splits prod.splits if_splits)
    have "i < k" using p by (rule parse_auth_param_moves)
    moreover have "k \<le> j"
    proof (cases "after_auth_param v (fst p) k")
      case (Inl e)
      with "1.prems" False p fresh show ?thesis by (simp add: auth_params_loop.simps [of v i])
    next
      case (Inr a)
      show ?thesis
      proof (cases a)
        case (Finished l)
        with "1.prems" False p fresh Inr show ?thesis
          by (auto simp: auth_params_loop.simps [of v i] dest: after_auth_param_ends)
      next
        case (NextParam l)
        with "1.prems" False p fresh Inr have "auth_params_loop v l (ps @ [p]) = Inr (qs, j)"
          by (simp add: auth_params_loop.simps [of v i])
        from "1.IH" [OF False p refl fresh Inr NextParam this] after_auth_param_moves [of v "fst p" k l]
          Inr NextParam show ?thesis by simp
      qed
    qed
    ultimately show ?thesis by simp
  qed
qed

lemma parse_auth_params_moves: "parse_auth_params v i = Inr (ps, j) \<Longrightarrow> i \<le> j"
  by (auto simp: parse_auth_params_def res_iffs split: if_splits
      dest!: auth_params_loop_moves intro: order_trans [OF consume_moves])

section \<open>Every Payment challenge of a header\<close>

text \<open>A Payment scheme whose parameters do not validate is skipped.\<close>

function challenges_from :: "lib \<Rightarrow> string \<Rightarrow> nat \<Rightarrow> payment_challenge list res" where
  "challenges_from L v i = (case find_next_payment_scheme v i of
     None \<Rightarrow> Inr []
   | Some j \<Rightarrow> (case parse_auth_params v (j + length payment_scheme) of
       Inl e \<Rightarrow> Inl e
     | Inr (params, k) \<Rightarrow>
         (case validate_challenge L (map (\<lambda>(n, x). (n, JStr x)) params) of
           Inl _ \<Rightarrow> challenges_from L v k
         | Inr c \<Rightarrow> bind_res (challenges_from L v k) (\<lambda>cs. Inr (c # cs)))))"
  by pat_completeness auto
termination
proof (relation "measure (\<lambda>(L, v, i). length v - i)", goal_cases)
  case (2 L v i j x params k e)
  then show ?case using find_next_in [of v i j] parse_auth_params_moves [of v "j + length payment_scheme" params k]
    by (auto simp: payment_scheme_def)
next
  case (3 L v i j x params k c)
  then show ?case using find_next_in [of v i j] parse_auth_params_moves [of v "j + length payment_scheme" params k]
    by (auto simp: payment_scheme_def)
qed simp

declare challenges_from.simps [simp del]

definition parse_payment_challenge_values :: "lib \<Rightarrow> string \<Rightarrow> payment_challenge list res" where
  "parse_payment_challenge_values L raw = challenges_from L (py_strip raw) 0"

definition parse_payment_challenge :: "lib \<Rightarrow> string \<Rightarrow> payment_challenge res" where
  "parse_payment_challenge L raw =
     bind_res (parse_payment_challenge_values L raw) (\<lambda>cs. case cs of
       [] \<Rightarrow> Inl (ValueError ''WWW-Authenticate header does not use the Payment scheme'')
     | [c] \<Rightarrow> Inr c
     | _ \<Rightarrow> Inl (ValueError ''WWW-Authenticate header contains multiple Payment challenges''))"

definition extract_payment_challenges :: "lib \<Rightarrow> string list \<Rightarrow> payment_challenge list res" where
  "extract_payment_challenges L values =
     bind_res (list_field (parse_payment_challenge_values L) values) (\<lambda>css. Inr (concat css))"

section \<open>A rendered challenge reads back\<close>

lemma escape_Nil [simp]: "escape_header_value [] = []"
  by (simp add: escape_header_value_def)

lemma backslash_dquote [simp]: "backslash \<noteq> dquote" "dquote \<noteq> backslash"
  by (simp_all add: backslash_def dquote_def)

lemma escape_Cons [simp]:
  "escape_header_value (c # v) =
     (if c = backslash \<or> c = dquote then [backslash, c] else [c]) @ escape_header_value v"
  by (simp add: escape_header_value_def)

lemma quoted_body_escape:
  "quoted_body (escape_header_value x @ dquote # rest) b i =
     Inr (b @ x, i + length (escape_header_value x) + 1)"
  by (induction x arbitrary: b i) auto

lemma spaces_not_token:
  "\<not> token_char (CHR ''='')" "\<not> header_space (CHR ''='')" "\<not> header_space (CHR '','')"
  "header_space (CHR '' '')" "\<not> header_space dquote" "\<not> token_char (CHR '','')"
  by (simp_all add: token_char_def header_space_def is_digit_def is_upper_def is_lower_def ch_def dquote_def)

lemma token_not_space: "token_char c \<Longrightarrow> \<not> header_space c"
  by (auto simp: token_char_def header_space_def is_digit_def is_upper_def is_lower_def ch_def)

lemma consume_stop: "i = length pre \<Longrightarrow> rest = [] \<or> \<not> header_space (hd rest) \<Longrightarrow>
    consume_header_whitespace (pre @ rest) i = i"
  by (cases rest) (auto simp: consume_header_whitespace_def)

lemma takeWhile_token: "list_all token_char n \<Longrightarrow> takeWhile token_char (n @ CHR ''='' # rest) = n"
  by (induction n) (auto simp: spaces_not_token)

lemma parse_auth_param_rendered:
  assumes "n \<noteq> []" and "list_all token_char n" and "py_lower n = n" and "rest = [] \<or> \<not> header_space (hd rest)"
  shows "parse_auth_param (pre @ render_param (n, x) @ rest) (length pre) =
    Inr ((n, x), length pre + length (render_param (n, x)))"
proof -
  let ?e = "escape_header_value x"
  let ?v = "pre @ render_param (n, x) @ rest"
  have v1: "?v = (pre @ n) @ CHR ''='' # dquote # ?e @ dquote # rest" by (simp add: render_param_def)
  have v2: "?v = (pre @ n @ [CHR ''='']) @ dquote # ?e @ dquote # rest" by (simp add: render_param_def)
  have v3: "?v = (pre @ n @ [CHR ''='', dquote] @ ?e @ [dquote]) @ rest" by (simp add: render_param_def)
  have name: "parse_auth_param_name ?v (length pre) = Inr (n, length pre + length n)"
    using assms(1,2) by (simp add: parse_auth_param_name_def render_param_def takeWhile_token)
  have c1: "consume_header_whitespace ?v (length pre + length n) = length pre + length n"
    unfolding v1 by (rule consume_stop) (simp_all add: spaces_not_token)
  have c2: "consume_header_whitespace ?v (length pre + length n + 1) = length pre + length n + 1"
    unfolding v2 by (rule consume_stop) (simp_all add: spaces_not_token)
  have at: "?v ! (length pre + length n) = CHR ''=''" "?v ! (length pre + length n + 1) = dquote"
    using nth_append_length [of "pre @ n"] nth_append_length [of "pre @ n @ [CHR ''='']"]
    unfolding v1 by (simp_all add: nth_append)
  have "drop (length pre + length n + 2) ?v = ?e @ dquote # rest" by (simp add: render_param_def)
  then have val: "parse_auth_param_value ?v (length pre + length n + 1) =
      Inr (x, length pre + length n + 2 + length ?e + 1)"
    using at by (simp add: parse_auth_param_value_def parse_quoted_string_def quoted_body_escape render_param_def)
  have c3: "consume_header_whitespace ?v (length pre + length n + 2 + length ?e + 1) =
      length pre + length n + 2 + length ?e + 1"
    unfolding v3 by (rule consume_stop) (use assms(4) in simp_all)
  show ?thesis
    using name c1 c2 c3 at val assms(3) by (simp add: parse_auth_param_def render_param_def)
qed

definition plain_name :: "string \<Rightarrow> bool" where
  "plain_name n \<longleftrightarrow> n \<noteq> [] \<and> list_all token_char n \<and> py_lower n = n \<and> hd n \<noteq> CHR ''p''"

lemma plain_name_next:
  assumes "plain_name n" and i: "i = length pre"
  shows "\<not> starts_payment_scheme (pre @ render_param (n, x) @ rest) i"
    and "\<not> starts_other_auth_scheme (pre @ render_param (n, x) @ rest) i"
proof -
  let ?v = "pre @ render_param (n, x) @ rest"
  obtain c t where n: "n = c # t" using assms by (cases n) (auto simp: plain_name_def)
  then have "to_lower c \<noteq> CHR ''p''" using assms by (auto simp: plain_name_def py_lower_def)
  then show "\<not> starts_payment_scheme ?v i"
    using n i by (simp add: starts_payment_scheme_def render_param_def payment_scheme_def py_lower_def)
  have tk: "takeWhile token_char (drop i ?v) = n"
    using assms by (simp add: plain_name_def render_param_def takeWhile_token)
  have "?v = (pre @ n) @ CHR ''='' # dquote # escape_header_value x @ dquote # rest"
    by (simp add: render_param_def)
  then have "consume_header_whitespace ?v (i + length n) = i + length n"
    using consume_stop [of "i + length n" "pre @ n"] i by (simp add: spaces_not_token)
  then show "\<not> starts_other_auth_scheme ?v i"
    unfolding starts_other_auth_scheme_def tk Let_def by simp
qed

lemma plain_name_head:
  "plain_name n \<Longrightarrow> \<exists>c t. render_param (n, x) = c # t \<and> \<not> header_space c"
  by (cases n) (auto simp: plain_name_def render_param_def token_not_space)

lemma auth_params_loop_rendered:
  "ps \<noteq> [] \<Longrightarrow> list_all plain_name (map fst ps) \<Longrightarrow> distinct (map fst (acc @ ps)) \<Longrightarrow>
     v = pre @ py_join '', '' (map render_param ps) \<Longrightarrow>
     auth_params_loop v (length pre) acc = Inr (acc @ ps, length v)"
proof (induction ps arbitrary: pre acc rule: induct_list012)
  case 1
  then show ?case by simp
next
  case (2 p)
  obtain n x where p: "p = (n, x)" by force
  with 2 have n: "n \<noteq> []" "list_all token_char n" "py_lower n = n" and v: "v = pre @ render_param (n, x) @ []"
    by (simp_all add: plain_name_def)
  have "length pre < length v" using v by (simp add: render_param_def)
  then show ?case using parse_auth_param_rendered [OF n, of "[]" pre x] 2(3) p v
    by (subst auth_params_loop.simps) (auto simp: after_auth_param_def)
next
  case (3 p q ps)
  obtain n x m y where p: "p = (n, x)" and q: "q = (m, y)" by force
  with 3 have n: "n \<noteq> []" "list_all token_char n" "py_lower n = n" and m: "plain_name m"
    by (simp_all add: plain_name_def)
  let ?rest = "py_join '', '' (map render_param (q # ps))"
  let ?i = "length pre + length (render_param (n, x))"
  have v: "v = pre @ render_param (n, x) @ '', '' @ ?rest" using "3.prems"(4) p by simp
  have lt: "length pre < length v" using v by (simp add: render_param_def)
  have step: "parse_auth_param v (length pre) = Inr ((n, x), ?i)"
    unfolding v by (rule parse_auth_param_rendered [OF n]) (simp add: spaces_not_token)
  obtain tail where tail: "?rest = render_param (m, y) @ tail" using q by (cases ps) auto
  let ?pre' = "pre @ render_param (n, x) @ '', ''"
  have v': "v = ?pre' @ render_param (m, y) @ tail" using v tail by simp
  obtain c t where hd: "render_param (m, y) = c # t" "\<not> header_space c" using plain_name_head [OF m] by blast
  have at: "v ! ?i = CHR '',''" and len: "?i < length v" unfolding v by (simp_all add: nth_append)
  have "drop (?i + 1) v = CHR '' '' # c # t @ tail" using v' hd(1) by simp
  then have next_at: "consume_header_whitespace v (?i + 1) = length ?pre'"
    using hd(2) by (simp add: consume_header_whitespace_def spaces_not_token)
  have "after_auth_param v n ?i = Inr (NextParam (length ?pre'))"
    using at len next_at plain_name_next [OF m refl, of ?pre' y tail] v' by (simp add: after_auth_param_def)
  moreover have "n \<notin> fst ` set acc" using "3.prems"(3) p by auto
  ultimately have "auth_params_loop v (length pre) acc = auth_params_loop v (length ?pre') (acc @ [p])"
    using lt step p by (subst auth_params_loop.simps) simp
  also have "\<dots> = Inr ((acc @ [p]) @ (q # ps), length v)"
    by (rule "3.IH"(2)) (use "3.prems" v p in auto)
  finally show ?case by simp
qed

lemma challenge_params_plain: "list_all plain_name (map fst (challenge_params c))"
  by (simp add: challenge_params_def plain_name_def token_char_def py_lower_def to_lower_def
      is_upper_def is_lower_def is_digit_def ch_def list_all_iff)

lemma challenge_params_distinct: "distinct (map fst (challenge_params c))"
  by (simp add: challenge_params_def)

lemma challenge_params_start: "\<exists>t. py_join '', '' (map render_param (challenge_params c)) = CHR ''i'' # t"
  by (simp add: challenge_params_def render_param_def)

lemma render_param_last: "render_param p \<noteq> [] \<and> last (render_param p) = dquote"
  by (simp add: render_param_def)

lemma py_join_last: "ps \<noteq> [] \<Longrightarrow> last ps \<noteq> [] \<Longrightarrow> py_join sep ps \<noteq> [] \<and> last (py_join sep ps) = last (last ps)"
  by (induction ps rule: induct_list012) auto

lemma render_not_stripped: "py_strip (render_payment_challenge c) = render_payment_challenge c"
proof -
  let ?ps = "map render_param (challenge_params c)"
  have ne: "?ps \<noteq> []" by (simp add: challenge_params_def)
  have "last ?ps \<in> set ?ps" using ne by (rule last_in_set)
  then obtain p where "last ?ps = render_param p" by auto
  then have last: "last ?ps \<noteq> []" "last (last ?ps) = dquote" using render_param_last [of p] by simp_all
  have "\<not> py_space (CHR ''P'')" "\<not> py_space dquote" by (simp_all add: py_space_def ch_def dquote_def)
  then show ?thesis unfolding py_strip_def render_payment_challenge_def
    using py_join_last [OF ne last(1), of "'', ''"] last(2) by (intro strip_by_noop) simp
qed

lemma parse_rendered_params:
  "parse_auth_params (render_payment_challenge c) 7 =
     Inr (challenge_params c, length (render_payment_challenge c))"
proof -
  let ?v = "render_payment_challenge c"
  obtain t where t: "py_join '', '' (map render_param (challenge_params c)) = CHR ''i'' # t"
    using challenge_params_start by blast
  have "\<not> header_space (CHR ''i'')" by (simp add: header_space_def ch_def)
  then have "consume_header_whitespace ?v 7 = length ''Payment ''"
    using t by (simp add: consume_header_whitespace_def render_payment_challenge_def spaces_not_token)
  moreover have "auth_params_loop ?v (length ''Payment '') [] = Inr ([] @ challenge_params c, length ?v)"
    by (rule auth_params_loop_rendered)
      (use challenge_params_plain challenge_params_distinct in
        \<open>auto simp: challenge_params_def render_payment_challenge_def\<close>)
  ultimately show ?thesis by (simp add: parse_auth_params_def challenge_params_def)
qed

lemma to_lower_lower: "is_lower c \<Longrightarrow> to_lower c = c"
  by (simp add: to_lower_def is_lower_def is_upper_def)

lemma lower_letters: "is_lower (CHR ''a'')" "is_lower (CHR ''y'')" "is_lower (CHR ''m'')" "is_lower (CHR ''e'')"
  "is_lower (CHR ''n'')" "is_lower (CHR ''t'')"
  by (simp_all add: is_lower_def ch_def)

lemma to_lower_P [simp]: "to_lower (CHR ''P'') = CHR ''p''"
  by code_simp

lemma length_payment_scheme: "length payment_scheme = 7"
  by (simp add: payment_scheme_def)

lemma find_rendered: "find_next_payment_scheme (render_payment_challenge c) 0 = Some 0"
proof -
  let ?v = "render_payment_challenge c"
  have "py_lower (take 7 ?v) = payment_scheme"
    by (simp add: render_payment_challenge_def py_lower_def to_lower_lower lower_letters payment_scheme_def)
  moreover have "py_find (py_lower ?v) payment_scheme 0 = Some 0"
    by (simp add: render_payment_challenge_def py_lower_def to_lower_lower lower_letters payment_scheme_def
        py_find_def)
  moreover have "?v ! 7 = CHR '' ''" "7 < length ?v" by (simp_all add: render_payment_challenge_def)
  ultimately have "starts_payment_scheme ?v 0"
    by (simp add: starts_payment_scheme_def length_payment_scheme spaces_not_token)
  with \<open>py_find (py_lower ?v) payment_scheme 0 = Some 0\<close> show ?thesis
    by (simp add: find_next_payment_scheme.simps)
qed

lemma find_past_end: "find_next_payment_scheme v (length v) = None"
proof (cases "find_next_payment_scheme v (length v)")
  case (Some j)
  from find_next_in [OF this] show ?thesis by (auto simp: payment_scheme_def)
qed simp

definition no_empty_option :: "payment_challenge \<Rightarrow> bool" where
  "no_empty_option c \<longleftrightarrow>
     pch_digest c \<noteq> Some [] \<and> pch_expires c \<noteq> Some [] \<and> pch_description c \<noteq> Some []"

definition challenge_dict :: "payment_challenge \<Rightarrow> (string \<times> json) list" where
  "challenge_dict c = map (\<lambda>(n, x). (n, JStr x)) (challenge_params c)"

lemma challenge_dict_required:
  "required (plain ''id'') (challenge_dict c) = Inr (JStr (pch_id c))"
  "required (plain ''realm'') (challenge_dict c) = Inr (JStr (pch_realm c))"
  "required (plain ''method'') (challenge_dict c) = Inr (JStr (pch_method c))"
  "required (plain ''intent'') (challenge_dict c) = Inr (JStr (pch_intent c))"
  "required (plain ''request'') (challenge_dict c) = Inr (JStr (pch_request c))"
  by (simp_all add: challenge_dict_def challenge_params_def required_def used_key_def plain_def)

definition nonempty_field :: "string option \<Rightarrow> json" where
  "nonempty_field x = (if or_empty x = [] then JNull else JStr (or_empty x))"

lemma challenge_dict_optional:
  "dget (challenge_dict c) ''digest'' = nonempty_field (pch_digest c)"
  "dget (challenge_dict c) ''expires'' = nonempty_field (pch_expires c)"
  "dget (challenge_dict c) ''description'' = nonempty_field (pch_description c)"
  "dget (challenge_dict c) ''header'' = nonempty_field (pch_header c)"
  "dget (challenge_dict c) ''opaque'' = nonempty_field (pch_opaque c)"
  by (simp_all add: challenge_dict_def challenge_params_def dget_def nonempty_field_def)

lemma opt_field_nonempty:
  "x \<noteq> Some [] \<Longrightarrow> (\<And>s. x = Some s \<Longrightarrow> f (JStr s) = Inr s) \<Longrightarrow> opt_field f (nonempty_field x) = Inr x"
  by (cases x) (auto simp: nonempty_field_def or_empty_def opt_field_def)

lemma validate_challenge_dict:
  assumes "wf_challenge L c" and "no_empty_option c"
  shows "validate_challenge L (challenge_dict c) = Inr c"
proof -
  have "pch_opaque c \<noteq> Some []" "pch_header c \<noteq> Some []"
    using assms(1) by (auto simp: wf_challenge_def canonical_opaque_def b64url_text_def
        payment_authorization_header_def)
  then have
    "opt_field (as_str ''digest'') (nonempty_field (pch_digest c)) = Inr (pch_digest c)"
    "opt_field (checked ''expires'' (aware_timestamp L)) (nonempty_field (pch_expires c)) = Inr (pch_expires c)"
    "opt_field (as_str ''description'') (nonempty_field (pch_description c)) = Inr (pch_description c)"
    "opt_field (literal ''header'' [payment_authorization_header]) (nonempty_field (pch_header c)) = Inr (pch_header c)"
    "opt_field (checked ''opaque'' (canonical_opaque L)) (nonempty_field (pch_opaque c)) = Inr (pch_opaque c)"
    using assms by (intro opt_field_nonempty; force simp: wf_challenge_def no_empty_option_def checked_def
        as_str_def literal_def)+
  then show ?thesis using assms(1)
    by (simp add: validate_challenge_def challenge_dict_required challenge_dict_optional checked_def as_str_def
        wf_challenge_def)
qed

lemma parse_rendered_values:
  assumes "wf_challenge L c" and "no_empty_option c"
  shows "parse_payment_challenge_values L (render_payment_challenge c) = Inr [c]"
proof -
  have v: "validate_challenge L (map (\<lambda>(n, x). (n, JStr x)) (challenge_params c)) = Inr c"
    using validate_challenge_dict [OF assms] by (simp add: challenge_dict_def)
  show ?thesis unfolding parse_payment_challenge_values_def render_not_stripped
    by (subst challenges_from.simps, subst challenges_from.simps)
      (simp add: find_rendered find_past_end parse_rendered_params length_payment_scheme v)
qed

text \<open>What a rendered challenge says: an empty optional field is not rendered, so it reads back as absent.\<close>

definition drop_empty :: "string option \<Rightarrow> string option" where
  "drop_empty x = (if x = Some [] then None else x)"

definition sent_challenge :: "payment_challenge \<Rightarrow> payment_challenge" where
  "sent_challenge c = c\<lparr>pch_digest := drop_empty (pch_digest c), pch_expires := drop_empty (pch_expires c),
     pch_description := drop_empty (pch_description c)\<rparr>"

lemma or_empty_drop [simp]: "or_empty (drop_empty x) = or_empty x"
  by (simp add: drop_empty_def or_empty_def)

lemma sent_challenge_simps [simp]:
  "pch_id (sent_challenge c) = pch_id c" "pch_realm (sent_challenge c) = pch_realm c"
  "pch_method (sent_challenge c) = pch_method c" "pch_intent (sent_challenge c) = pch_intent c"
  "pch_request (sent_challenge c) = pch_request c" "pch_header (sent_challenge c) = pch_header c"
  "pch_opaque (sent_challenge c) = pch_opaque c" "pch_digest (sent_challenge c) = drop_empty (pch_digest c)"
  "pch_expires (sent_challenge c) = drop_empty (pch_expires c)"
  "pch_description (sent_challenge c) = drop_empty (pch_description c)"
  by (simp_all add: sent_challenge_def)

lemma render_sent: "render_payment_challenge (sent_challenge c) = render_payment_challenge c"
  by (simp add: render_payment_challenge_def challenge_params_def sent_challenge_def)

lemma sent_slots: "challenge_slots (sent_challenge c) = challenge_slots c"
  by (simp add: challenge_slots_eq)

lemma sent_full: "no_empty_option c \<Longrightarrow> sent_challenge c = c"
  by (simp add: sent_challenge_def no_empty_option_def drop_empty_def)

lemma wf_sent: "wf_challenge L c \<Longrightarrow> wf_challenge L (sent_challenge c)"
  by (simp add: wf_challenge_def drop_empty_def)

text \<open>Rendering and parsing give back the challenge up to its empty optional fields.\<close>

lemma parse_rendered_sent:
  "wf_challenge L c \<Longrightarrow> parse_payment_challenge_values L (render_payment_challenge c) = Inr [sent_challenge c]"
  using parse_rendered_values [OF wf_sent, of L c]
  by (simp add: render_sent) (simp add: sent_challenge_def no_empty_option_def drop_empty_def)

section \<open>Authorization headers\<close>

text \<open>\<open>s.partition(sep)\<close> at the first separator.\<close>

definition py_partition :: "char \<Rightarrow> string \<Rightarrow> (string \<times> string) option" where
  "py_partition sep s = (case dropWhile (\<lambda>c. c \<noteq> sep) s of
     [] \<Rightarrow> None | _ # t \<Rightarrow> Some (takeWhile (\<lambda>c. c \<noteq> sep) s, t))"

definition scheme_and_token :: "string \<Rightarrow> (string \<times> string) option" where
  "scheme_and_token s = (case py_partition (CHR '' '') s of
     Some p \<Rightarrow> Some p | None \<Rightarrow> py_partition (char_of (9::nat)) s)"

definition decode_payment_credential :: "lib \<Rightarrow> string \<Rightarrow> payment_credential res" where
  "decode_payment_credential L raw = (case decode_base64url_json (lib_loads L) raw of
     Inl _ \<Rightarrow> Inl (ValueError ''Header payload is not valid base64url JSON'')
   | Inr j \<Rightarrow> (case validate_credential L j of
       Inl _ \<Rightarrow> Inl (ValueError ''Header payload does not match the MPP schema'')
     | Inr c \<Rightarrow> Inr c))"

definition parse_payment_authorization_header :: "lib \<Rightarrow> string \<Rightarrow> payment_credential res" where
  "parse_payment_authorization_header L raw = (case scheme_and_token (py_strip raw) of
     None \<Rightarrow> Inl (ValueError ''Authorization header does not use the Payment scheme'')
   | Some (scheme, token) \<Rightarrow>
       if py_lower scheme \<noteq> payment_scheme
         then Inl (ValueError ''Authorization header does not use the Payment scheme'')
       else if py_strip token = [] then Inl (ValueError ''Payment authorization token is required'')
       else decode_payment_credential L (py_strip token))"

definition payment_credential_header :: "payment_challenge \<Rightarrow> string" where
  "payment_credential_header c = (if or_empty (pch_header c) = [] then ''Authorization'' else or_empty (pch_header c))"

lemma parse_authorization_errors:
  "parse_payment_authorization_header L raw = Inl e \<Longrightarrow> \<exists>msg. e = ValueError msg"
  by (auto simp: parse_payment_authorization_header_def decode_payment_credential_def
      split: option.splits prod.splits if_splits sum.splits)

end
