(* ===== verification/AcceptPayment.thy ===== *)
theory AcceptPayment
  imports Challenge
begin

text \<open>
  The \<open>Accept-Payment\<close> negotiation of \<open>helpers.py\<close> and \<open>models.py\<close>: weighted payment
  ranges, their parser and printer, and the ranking of the challenges a server offers. A weight
  has at most three decimals, so it is kept as its number of thousandths.
\<close>

record accept_range =
  ar_method :: string
  ar_intent :: string
  ar_q :: nat

definition any_token :: string where "any_token = ''*''"

text \<open>\<open>AcceptPaymentRange\<close>: what its validators let through.\<close>

definition wf_range :: "accept_range \<Rightarrow> bool" where
  "wf_range r \<longleftrightarrow> (ar_method r = any_token \<or> method_text (ar_method r))
     \<and> (ar_intent r = any_token \<or> intent_text (ar_intent r)) \<and> ar_q r \<le> 1000"

definition range_matches :: "accept_range \<Rightarrow> payment_challenge \<Rightarrow> bool" where
  "range_matches r c \<longleftrightarrow> ar_method r \<in> {any_token, pch_method c} \<and> ar_intent r \<in> {any_token, pch_intent c}"

definition specificity :: "accept_range \<Rightarrow> nat" where
  "specificity r = (if ar_method r \<noteq> any_token then 1 else 0) + (if ar_intent r \<noteq> any_token then 1 else 0)"

section \<open>Parsing\<close>

text \<open>The weights \<open>0(\.\d{1,3})?|1(\.0{1,3})?\<close>, in thousandths.\<close>

definition parse_q :: "string \<Rightarrow> nat option" where
  "parse_q s = (case py_split (CHR ''.'') s of
     [a] \<Rightarrow> if a = ''0'' then Some 0 else if a = ''1'' then Some 1000 else None
   | [a, b] \<Rightarrow>
       if \<not> (1 \<le> length b \<and> length b \<le> 3) then None
       else if a = ''0'' \<and> list_all is_digit b then Some (digits_nat b * 10 ^ (3 - length b))
       else if a = ''1'' \<and> list_all (\<lambda>c. c = CHR ''0'') b then Some 1000 else None
   | _ \<Rightarrow> None)"

text \<open>\<open>(?:\s*;\s*q=...)?$\<close> after the intent.\<close>

definition parse_weight :: "string \<Rightarrow> nat option" where
  "parse_weight s =
     (if s = [] then Some 1000
      else case dropWhile py_space s of
        c # t \<Rightarrow> if c \<noteq> CHR '';'' then None
          else (let u = dropWhile py_space t in
                if starts_with ''q='' u then parse_q (drop 2 u) else None)
      | [] \<Rightarrow> None)"

definition parse_range :: "string \<Rightarrow> accept_range option" where
  "parse_range entry = (case py_split (CHR ''/'') entry of
     [m, rest] \<Rightarrow>
       (let star = starts_with any_token rest;
            i = (if star then any_token else takeWhile intent_char rest) in
        if (m = any_token \<or> method_text m) \<and> (star \<or> i \<noteq> [])
        then map_option (\<lambda>q. \<lparr>ar_method = m, ar_intent = i, ar_q = q\<rparr>) (parse_weight (drop (length i) rest))
        else None)
   | _ \<Rightarrow> None)"

definition parse_accept_payment :: "string \<Rightarrow> accept_range list res" where
  "parse_accept_payment raw =
     (if py_strip raw = [] then Inl (ValueError ''Accept-Payment cannot be empty'')
      else list_field (\<lambda>entry. case parse_range (py_strip entry) of
             None \<Rightarrow> Inl (ValueError ''Accept-Payment contains an invalid payment range'')
           | Some r \<Rightarrow> Inr r) (py_split (CHR '','') raw))"

section \<open>Printing\<close>

text \<open>\<open>format(q, "f").rstrip("0").rstrip(".")\<close>, of a weight below one.\<close>

definition strip_zeros :: "string \<Rightarrow> string" where
  "strip_zeros s = rev (dropWhile (\<lambda>c. c = CHR ''0'') (rev s))"

definition three_digits :: "nat \<Rightarrow> string" where
  "three_digits n = [digit_char (n div 100), digit_char (n div 10 mod 10), digit_char (n mod 10)]"

definition render_q :: "nat \<Rightarrow> string" where
  "render_q q = (if q = 0 then ''0'' else ''0.'' @ strip_zeros (three_digits q))"

definition render_range :: "accept_range \<Rightarrow> string" where
  "render_range r = ar_method r @ ''/'' @ ar_intent r
     @ (if ar_q r \<noteq> 1000 then '';q='' @ render_q (ar_q r) else [])"

definition render_accept_payment :: "accept_range list \<Rightarrow> string" where
  "render_accept_payment rs = py_join '', '' (map render_range rs)"

section \<open>Ranking\<close>

text \<open>
  \<open>max\<close> with the key (specificity, minus the index): the most specific matching range, and of
  those the first. The sort key (minus the weight, server index) is a stable sort by weight.
\<close>

fun best_range :: "accept_range list \<Rightarrow> accept_range option" where
  "best_range [] = None"
| "best_range (r # rs) = (case best_range rs of
     None \<Rightarrow> Some r
   | Some s \<Rightarrow> if specificity s \<le> specificity r then Some r else Some s)"

definition selected_weight :: "accept_range list \<Rightarrow> payment_challenge \<Rightarrow> nat option" where
  "selected_weight ranges c = map_option ar_q (best_range (filter (\<lambda>r. range_matches r c) ranges))"

definition rank_payment_challenges ::
  "payment_challenge list \<Rightarrow> accept_range list \<Rightarrow> payment_challenge list"
where
  "rank_payment_challenges cs ranges =
     (let ranked = List.map_filter (\<lambda>c. case selected_weight ranges c of
            None \<Rightarrow> None | Some q \<Rightarrow> if q = 0 then None else Some (q, c)) cs
      in map snd (sort_key (\<lambda>(q, c). - int q) ranked))"

section \<open>Correctness of the ranking\<close>

definition acceptable :: "accept_range list \<Rightarrow> payment_challenge \<Rightarrow> bool" where
  "acceptable ranges c \<longleftrightarrow> (\<exists>q. selected_weight ranges c = Some q \<and> 0 < q)"

definition weight_of :: "accept_range list \<Rightarrow> payment_challenge \<Rightarrow> nat" where
  "weight_of ranges c = (case selected_weight ranges c of None \<Rightarrow> 0 | Some q \<Rightarrow> q)"

lemma best_range_in: "best_range rs = Some r \<Longrightarrow> r \<in> set rs"
  by (induction rs arbitrary: r) (auto split: option.splits if_splits)

lemma best_range_max: "best_range rs = Some r \<Longrightarrow> s \<in> set rs \<Longrightarrow> specificity s \<le> specificity r"
proof (induction rs arbitrary: r)
  case (Cons x xs)
  show ?case
  proof (cases "best_range xs")
    case None
    then have "xs = []" by (cases xs) (auto split: option.splits if_splits)
    with Cons.prems show ?thesis by simp
  next
    case (Some y)
    with Cons show ?thesis by (fastforce split: if_splits)
  qed
qed simp

lemma best_range_None [simp]: "best_range rs = None \<longleftrightarrow> rs = []"
  by (cases rs) (auto split: option.splits)

lemma rank_as_sort:
  "rank_payment_challenges cs ranges = sort_key (\<lambda>c. - int (weight_of ranges c)) (filter (acceptable ranges) cs)"
proof -
  let ?f = "\<lambda>c. (weight_of ranges c, c)"
  have "List.map_filter (\<lambda>c. case selected_weight ranges c of None \<Rightarrow> None
        | Some q \<Rightarrow> if q = 0 then None else Some (q, c)) cs = map ?f (filter (acceptable ranges) cs)"
    by (induction cs) (auto simp: List.map_filter_simps acceptable_def weight_of_def split: option.splits)
  moreover have "map snd (sort_key (\<lambda>(q, c). - int q) (map ?f xs)) = sort_key (\<lambda>c. - int (weight_of ranges c)) xs" for xs
  proof -
    have ins: "insort_key (\<lambda>(q, c). - int q) (?f x) (map ?f ys) = map ?f (insort_key (\<lambda>c. - int (weight_of ranges c)) x ys)" for x ys
      by (induction ys) auto
    have "sort_key (\<lambda>(q, c). - int q) (map ?f xs) = map ?f (sort_key (\<lambda>c. - int (weight_of ranges c)) xs)"
      by (induction xs) (simp_all add: ins)
    then show ?thesis by (simp add: comp_def)
  qed
  ultimately show ?thesis by (simp add: rank_payment_challenges_def Let_def)
qed

section \<open>Round trip\<close>

lemma digit_char_0 [simp]: "d < 10 \<Longrightarrow> digit_char d = CHR ''0'' \<longleftrightarrow> d = 0"
  using ch_inject [of "digit_char d" "CHR ''0''"] by (simp add: ch_def [of "CHR ''0''"])

lemma digit_char_dot [simp]: "d < 10 \<Longrightarrow> digit_char d \<noteq> CHR ''.''"
  using ch_inject [of "digit_char d" "CHR ''.''"] by (simp add: ch_def [of "CHR ''.''"])

lemma three_digits_strip:
  assumes "0 < q" and "q < 1000"
  obtains b where "strip_zeros (three_digits q) = b" "1 \<le> length b" "length b \<le> 3"
    "list_all is_digit b" "digits_nat b * 10 ^ (3 - length b) = q"
proof -
  define x y z where "x = q div 100" and "y = q div 10 mod 10" and "z = q mod 10"
  have d: "x < 10" "y < 10" "z < 10" using assms(2) by (simp_all add: x_def y_def z_def less_mult_imp_div_less)
  have "q = q div 10 * 10 + q mod 10" "q div 10 = x * 10 + q div 10 mod 10"
    by (simp_all add: x_def div_mult2_eq [of q 10 10, simplified])
  then have q: "q = 100 * x + 10 * y + z" unfolding y_def z_def by linarith
  have t: "three_digits q = [digit_char x, digit_char y, digit_char z]"
    by (simp add: three_digits_def x_def y_def z_def)
  consider "z \<noteq> 0" | "z = 0" "y \<noteq> 0" | "z = 0" "y = 0" "x \<noteq> 0" using q assms(1) by auto
  then show thesis
  proof cases
    case 1
    then show ?thesis using d q [symmetric]
      by (intro that [of "[digit_char x, digit_char y, digit_char z]"]) (simp_all add: t strip_zeros_def digits_nat_def)
  next
    case 2
    then show ?thesis using d q [symmetric]
      by (intro that [of "[digit_char x, digit_char y]"]) (simp_all add: t strip_zeros_def digits_nat_def)
  next
    case 3
    then show ?thesis using d q [symmetric]
      by (intro that [of "[digit_char x]"]) (simp_all add: t strip_zeros_def digits_nat_def)
  qed
qed

lemma digits_no_dot: "list_all is_digit b \<Longrightarrow> CHR ''.'' \<notin> set b"
  by (auto simp: list_all_iff is_digit_def ch_def)

lemma parse_render_q: "q < 1000 \<Longrightarrow> parse_q (render_q q) = Some q"
proof (cases "q = 0")
  case True
  then show ?thesis by (simp add: parse_q_def render_q_def)
next
  case False
  assume "q < 1000"
  with False obtain b where b: "strip_zeros (three_digits q) = b" "1 \<le> length b" "length b \<le> 3"
    "list_all is_digit b" "digits_nat b * 10 ^ (3 - length b) = q"
    by (metis three_digits_strip gr0I)
  then have "py_split (CHR ''.'') (''0'' @ CHR ''.'' # b) = [''0'', b]"
    by (subst py_split_append) (simp_all add: py_split_no_sep digits_no_dot)
  with False b show ?thesis by (auto simp: parse_q_def render_q_def)
qed

definition range_char :: "char \<Rightarrow> bool" where
  "range_char c \<longleftrightarrow> intent_char c \<or> c \<in> set ''*./;=''"

lemma range_char_facts:
  "range_char c \<Longrightarrow> c \<noteq> CHR '','' \<and> \<not> py_space c"
  "intent_char c \<Longrightarrow> range_char c \<and> c \<noteq> CHR ''/'' \<and> c \<noteq> CHR ''*'' \<and> c \<noteq> CHR '';''"
  by (auto simp: range_char_def intent_char_def py_space_def is_upper_def is_lower_def is_digit_def ch_def)

lemma method_intent: "is_lower c \<Longrightarrow> intent_char c" "is_digit c \<Longrightarrow> intent_char c"
  by (simp_all add: intent_char_def)

lemma render_q_chars: "q < 1000 \<Longrightarrow> list_all range_char (render_q q)"
proof (cases "q = 0")
  case False
  assume "q < 1000"
  with False obtain b where "strip_zeros (three_digits q) = b" "list_all is_digit b"
    by (metis three_digits_strip gr0I)
  with False show ?thesis
    by (auto simp: render_q_def range_char_def list_all_iff method_intent)
      (simp_all add: intent_char_def is_digit_def ch_def)
qed (simp add: render_q_def range_char_def intent_char_def is_digit_def ch_def)

lemma wf_range_chars:
  assumes "wf_range r"
  shows "list_all range_char (render_range r)" and "render_range r \<noteq> []"
    and "CHR ''/'' \<notin> set (ar_method r)"
proof -
  have m: "list_all (\<lambda>c. intent_char c \<or> c = CHR ''*'') (ar_method r)"
    and i: "list_all (\<lambda>c. intent_char c \<or> c = CHR ''*'') (ar_intent r)"
    using assms by (auto simp: wf_range_def any_token_def method_text_def intent_text_def list_all_iff method_intent)
  then show "CHR ''/'' \<notin> set (ar_method r)" using range_char_facts(2) by (auto simp: list_all_iff)
  have "ar_q r \<noteq> 1000 \<Longrightarrow> list_all range_char (render_q (ar_q r))"
    using assms by (intro render_q_chars) (simp add: wf_range_def)
  moreover have "list_all range_char (ar_method r)" "list_all range_char (ar_intent r)"
    using m i by (auto simp: list_all_iff range_char_def)
  moreover have "range_char (CHR ''/'')" "range_char (CHR '';'')" "range_char (CHR ''q'')" "range_char (CHR ''='')"
    by (simp_all add: range_char_def intent_char_def is_lower_def ch_def)
  ultimately show "list_all range_char (render_range r)" by (simp add: render_range_def)
  show "render_range r \<noteq> []" by (simp add: render_range_def)
qed

lemma parse_weight_rendered:
  "q \<le> 1000 \<Longrightarrow> parse_weight (if q \<noteq> 1000 then '';q='' @ render_q q else []) = Some q"
proof (cases "q = 1000")
  case False
  assume "q \<le> 1000"
  with False have "parse_q (render_q q) = Some q" by (intro parse_render_q) simp
  moreover have "\<not> py_space (CHR '';'')" "\<not> py_space (CHR ''q'')" by (simp_all add: py_space_def ch_def)
  ultimately show ?thesis using False by (simp add: parse_weight_def)
qed (simp add: parse_weight_def)

lemma parse_render_range:
  assumes wf: "wf_range r"
  shows "parse_range (render_range r) = Some r"
proof -
  let ?w = "if ar_q r \<noteq> 1000 then '';q='' @ render_q (ar_q r) else []"
  have rr: "render_range r = ar_method r @ CHR ''/'' # (ar_intent r @ ?w)" by (simp add: render_range_def)
  have "ar_q r \<noteq> 1000 \<Longrightarrow> CHR ''/'' \<notin> set (render_q (ar_q r))"
  proof -
    assume "ar_q r \<noteq> 1000"
    with wf have "ar_q r < 1000" by (simp add: wf_range_def)
    then show ?thesis
    proof (cases "ar_q r = 0")
      case False
      with \<open>ar_q r < 1000\<close> obtain b where "strip_zeros (three_digits (ar_q r)) = b" "list_all is_digit b"
        by (metis three_digits_strip gr0I)
      with False show ?thesis by (auto simp: render_q_def list_all_iff is_digit_def ch_def)
    qed (simp add: render_q_def)
  qed
  moreover have "CHR ''/'' \<notin> set (ar_intent r)"
    using wf range_char_facts(2) by (auto simp: wf_range_def any_token_def intent_text_def list_all_iff)
  ultimately have "CHR ''/'' \<notin> set (ar_intent r @ ?w)" by auto
  then have split: "py_split (CHR ''/'') (render_range r) = [ar_method r, ar_intent r @ ?w]"
    unfolding rr using wf_range_chars(3) [OF wf] by (simp add: py_split_append py_split_no_sep)
  have w: "parse_weight ?w = Some (ar_q r)" using wf by (intro parse_weight_rendered) (simp add: wf_range_def)
  have m: "ar_method r = any_token \<or> method_text (ar_method r)" using wf by (simp add: wf_range_def)
  show ?thesis
  proof (cases "ar_intent r = any_token")
    case True
    with split w m show ?thesis by (simp add: parse_range_def any_token_def)
  next
    case False
    with wf have i: "ar_intent r \<noteq> []" "list_all intent_char (ar_intent r)"
      by (auto simp: wf_range_def intent_text_def)
    then have "\<not> starts_with any_token (ar_intent r @ ?w)"
      by (cases "ar_intent r") (auto simp: any_token_def dest: range_char_facts(2))
    moreover have "\<not> intent_char (CHR '';'')" using range_char_facts(2) by blast
    then have "takeWhile intent_char (ar_intent r @ ?w) = ar_intent r"
      using i(2) by (subst takeWhile_append2) (auto simp: list_all_iff)
    ultimately show ?thesis using split w m i(1) by (simp add: parse_range_def Let_def)
  qed
qed

lemma strip_range:
  assumes "list_all range_char p" and "p \<noteq> []"
  shows "py_strip (CHR '' '' # p) = p" and "py_strip p = p"
proof -
  have "list_all (\<lambda>c. \<not> py_space c) p" using assms(1) range_char_facts(1) by (auto simp: list_all_iff)
  then have "strip_by py_space p = p" by (rule strip_by_none)
  then show "py_strip p = p" by (simp add: py_strip_def)
  moreover have "py_space (CHR '' '')" by (simp add: py_space_def ch_def)
  ultimately show "py_strip (CHR '' '' # p) = p" by (simp add: py_strip_def strip_by_def)
qed

lemma range_no_comma: "list_all range_char p \<Longrightarrow> CHR '','' \<notin> set p"
  using range_char_facts(1) by (auto simp: list_all_iff)

lemma split_joined:
  "ps \<noteq> [] \<Longrightarrow> \<forall>p \<in> set ps. list_all range_char p \<and> p \<noteq> [] \<Longrightarrow>
     \<exists>qs. py_split (CHR '','') (py_join '', '' ps) = qs \<and> map py_strip qs = ps
        \<and> map py_strip (py_split (CHR '','') (CHR '' '' # py_join '', '' ps)) = ps"
proof (induction ps rule: induct_list012)
  case (2 p)
  then show ?case using strip_range [of p] range_no_comma [of p] by (simp add: py_split_no_sep)
next
  case (3 p q ps)
  let ?rest = "py_join '', '' (q # ps)"
  have p: "list_all range_char p" "p \<noteq> []" using 3 by auto
  have "py_split (CHR '','') (p @ CHR '','' # CHR '' '' # ?rest) = p # py_split (CHR '','') (CHR '' '' # ?rest)"
    using range_no_comma [OF p(1)] by (rule py_split_append)
  moreover have "py_split (CHR '','') ((CHR '' '' # p) @ CHR '','' # CHR '' '' # ?rest) =
      (CHR '' '' # p) # py_split (CHR '','') (CHR '' '' # ?rest)"
    using range_no_comma [OF p(1)] by (intro py_split_append) simp
  ultimately show ?case using 3 strip_range [OF p] by simp
qed simp

lemma list_field_map: "(\<And>x. x \<in> set xs \<Longrightarrow> f x = Inr (g x)) \<Longrightarrow> list_field f xs = Inr (map g xs)"
  by (induction xs) auto

lemma list_field_comp: "list_field (\<lambda>x. f (g x)) xs = list_field f (map g xs)"
  by (induction xs) auto

lemma parse_render_accept:
  assumes "rs \<noteq> []" and "\<forall>r \<in> set rs. wf_range r"
  shows "parse_accept_payment (render_accept_payment rs) = Inr rs"
proof -
  let ?ps = "map render_range rs"
  have ps: "?ps \<noteq> []" "\<forall>p \<in> set ?ps. list_all range_char p \<and> p \<noteq> []"
    using assms wf_range_chars by auto
  from split_joined [OF this]
  have split: "map py_strip (py_split (CHR '','') (render_accept_payment rs)) = ?ps"
    by (auto simp: render_accept_payment_def)
  obtain p ps' where p: "?ps = p # ps'" using ps(1) by (cases ?ps) auto
  with ps(2) obtain c t where c: "p = c # t" "\<not> py_space c"
    using range_char_facts(1) by (cases p) auto
  have "\<exists>u. render_accept_payment rs = c # u"
    using p c by (cases ps') (auto simp: render_accept_payment_def)
  then have "py_strip (render_accept_payment rs) \<noteq> []"
    using c(2) by (auto simp: py_strip_def strip_by_def dropWhile_eq_Nil_conv)
  moreover have "list_field (\<lambda>entry. case parse_range entry of
      None \<Rightarrow> Inl (ValueError ''Accept-Payment contains an invalid payment range'') | Some r \<Rightarrow> Inr r) ?ps = Inr rs"
    using assms(2) parse_render_range by (induction rs) auto
  ultimately show ?thesis using list_field_comp [of "\<lambda>entry. case parse_range entry of
      None \<Rightarrow> Inl (ValueError ''Accept-Payment contains an invalid payment range'') | Some r \<Rightarrow> Inr r" py_strip]
    by (simp add: parse_accept_payment_def split)
qed

end
