(* ===== verification/ProtocolProperties.thy ===== *)
theory ProtocolProperties
  imports Demo HeaderSyntax AcceptPayment "HOL-Library.Multiset"
begin

text \<open>
  The properties of the wire protocol: headers, base64url payloads, the HMAC that binds a
  challenge, Accept-Payment ranges, payer DIDs and asset codes, each with a concrete instance.
\<close>

section \<open>Base64url payloads\<close>

text \<open>
  Encoded header values have one spelling: a value decodes to a text exactly when it is the
  encoding of that text, which is valid UTF-8 and within the size limit.
\<close>

theorem base64url_text_canonical:
  "decode_base64url_text raw = Inr v \<longleftrightarrow>
     length raw \<le> max_encoded_header_value_length \<and> valid_utf8 v \<and> raw = encode_base64url_text v"
  by (simp add: decode_text_Inr encode_base64url_text_def)

text \<open>
  A JSON value survives its header form: if the library reads back its own canonical text, then
  encoding a value and decoding the result gives the value, for texts within the header limit.
\<close>

theorem json_payload_round_trip:
  assumes "jcs v = Some t" and "loads t = Some v" and "t \<noteq> []" and "valid_utf8 t"
    and "length (b64_encode t) \<le> max_encoded_header_value_length"
  shows "bind_res (encode_json_to_base64url jcs v) (decode_base64url_json loads) = Inr (collapse v)"
proof -
  have "decode_base64url_json loads (b64_encode t) = Inr (collapse v)"
    unfolding decode_json_Inr using assms(2-5) by blast
  with assms(1) show ?thesis by (simp add: encode_json_to_base64url_def)
qed

lemma json_payload_round_trip_witness:
  "bind_res (encode_json_to_base64url (lib_jcs (demo_lib demo_channel)) (demo_request demo_channel))
     (decode_base64url_json (lib_loads (demo_lib demo_channel))) = Inr (collapse (demo_request demo_channel))"
  by (rule json_payload_round_trip [where t = "''{}''"]) (simp_all only: demo_json_text, simp_all add: demo_lib_def)

section \<open>Challenges\<close>

lemma demo_challenge_wf: "wf_challenge (demo_lib demo_channel) demo_challenge \<and> no_empty_option demo_challenge"
  using demo_wf_challenge by (simp add: no_empty_option_def) (simp add: demo_challenge_def)

text \<open>
  C39. A challenge survives its header: a valid challenge, rendered as WWW-Authenticate and parsed, gives
  back the same challenge, alone, whatever quotes and backslashes its fields contain. A digest, expiry or
  description that is present but empty is not rendered and reads back as absent, which changes neither
  what the id binds nor the header; without such fields the result is the challenge itself.
\<close>

theorem challenge_header_round_trip:
  assumes "wf_challenge L c"
  shows "parse_payment_challenge L (render_payment_challenge c) = Inr (sent_challenge c) \<and>
    extract_payment_challenges L [render_payment_challenge c] = Inr [sent_challenge c] \<and>
    challenge_slots (sent_challenge c) = challenge_slots c \<and> pch_id (sent_challenge c) = pch_id c \<and>
    drop_empty (pch_description c) = pch_description (sent_challenge c) \<and>
    (sent_challenge c = c \<longleftrightarrow> no_empty_option c)"
proof -
  have "sent_challenge c = c \<Longrightarrow> no_empty_option c"
    by (cases c) (auto simp: sent_challenge_def no_empty_option_def drop_empty_def split: if_splits)
  then have "sent_challenge c = c \<longleftrightarrow> no_empty_option c" using sent_full by blast
  with parse_rendered_sent [OF assms] show ?thesis
    by (simp add: parse_payment_challenge_def extract_payment_challenges_def sent_slots)
qed

text \<open>A challenge with an empty description comes back without one; the demo challenge comes back as it is.\<close>

definition blank_challenge :: payment_challenge where
  "blank_challenge = demo_challenge\<lparr>pch_description := Some []\<rparr>"

lemma challenge_header_round_trip_witness:
  "parse_payment_challenge (demo_lib demo_channel) (render_payment_challenge blank_challenge) = Inr demo_challenge \<and>
   parse_payment_challenge (demo_lib demo_channel) (render_payment_challenge demo_challenge) = Inr demo_challenge"
proof -
  have full: "sent_challenge demo_challenge = demo_challenge" using sent_full demo_challenge_wf by blast
  have blank: "sent_challenge blank_challenge = demo_challenge"
    by (simp add: sent_challenge_def blank_challenge_def demo_challenge_def drop_empty_def)
  have "wf_challenge (demo_lib demo_channel) blank_challenge"
    using demo_challenge_wf by (simp add: wf_challenge_def blank_challenge_def)
  from challenge_header_round_trip [OF this] challenge_header_round_trip [of "demo_lib demo_channel" demo_challenge]
    demo_challenge_wf show ?thesis unfolding full blank by blast
qed

lemma challenges_from_wf: "challenges_from L v i = Inr cs \<Longrightarrow> c \<in> set cs \<Longrightarrow> wf_challenge L c"
proof (induction L v i arbitrary: cs rule: challenges_from.induct)
  case (1 L v i)
  show ?case
  proof (cases "find_next_payment_scheme v i")
    case None
    with "1.prems" show ?thesis by (subst (asm) challenges_from.simps) simp
  next
    case (Some j)
    with "1.prems" obtain params k where p: "parse_auth_params v (j + length payment_scheme) = Inr (params, k)"
      by (subst (asm) challenges_from.simps) (auto split: sum.splits)
    show ?thesis
    proof (cases "validate_challenge L (map (\<lambda>(n, x). (n, JStr x)) params)")
      case (Inl e)
      with Some p "1.prems" have "challenges_from L v k = Inr cs" by (subst (asm) challenges_from.simps) simp
      with "1.IH"(1) [OF Some p refl Inl] "1.prems"(2) show ?thesis by blast
    next
      case (Inr d)
      with Some p "1.prems" obtain ds where "challenges_from L v k = Inr ds" "cs = d # ds"
        by (subst (asm) challenges_from.simps) (auto simp: res_iffs)
      with "1.IH"(2) [OF Some p refl Inr] "1.prems"(2) validate_challenge_wf [OF Inr] show ?thesis by auto
    qed
  qed
qed

text \<open>
  C40. Whatever a server sends, only valid challenges come out of the parser: every challenge
  extracted from WWW-Authenticate values has a bounded id, canonical request JSON behind it, an
  RFC 3339 expiry with a time zone, and no unknown credential header.
\<close>

theorem extracted_challenges_valid:
  assumes "extract_payment_challenges L values = Inr cs" and "c \<in> set cs"
  shows "wf_challenge L c"
proof -
  from assms obtain css where css: "list_field (parse_payment_challenge_values L) values = Inr css"
    and "cs = concat css" by (auto simp: extract_payment_challenges_def res_iffs)
  with assms(2) obtain xs where "xs \<in> set css" "c \<in> set xs" by auto
  with list_field_all [OF css] show ?thesis
    unfolding parse_payment_challenge_values_def by (metis challenges_from_wf)
qed

lemma extracted_challenges_valid_witness: "wf_challenge (demo_lib demo_channel) demo_challenge"
  by (rule extracted_challenges_valid [of _ "[render_payment_challenge demo_challenge]" "[demo_challenge]"])
    (simp_all add: extract_payment_challenges_def parse_rendered_values demo_challenge_wf)

section \<open>The binding of a challenge\<close>

text \<open>
  Nobody without a secret can issue a challenge: verification succeeds exactly for an id that is
  the base64url HMAC of the challenge's parameters under one of the configured secrets.
\<close>

theorem challenge_binding_iff:
  assumes "wf_challenge L c" and "list_all (\<lambda>x. ch x < 128) (pch_id c)" and "key_ring secrets = Inr ring"
  shows "verify_challenge_binding L secrets c = Inr (\<exists>secret \<in> set ring.
    pch_id c = b64_encode (lib_hmac L secret (py_join ''|'' (challenge_slots c))))"
proof -
  have h: "pch_header c = None \<or> pch_header c = Some payment_authorization_header"
    using assms(1) by (simp add: wf_challenge_def)
  have "secrets \<noteq> []" using assms(3) by (auto simp: key_ring_def)
  with assms(3) ring_verifies_iff [OF assms(2) h, of L ring] have
    "verify_challenge_binding L secrets c = Inr (\<exists>secret \<in> set ring. build_challenge_id L secret c = Inr (pch_id c))"
    by (simp add: verify_challenge_binding_def)
  moreover have "build_challenge_id L secret c = Inr (b64_encode (lib_hmac L secret (py_join ''|'' (challenge_slots c))))" for secret
    using h by (auto simp: build_challenge_id_def)
  ultimately show ?thesis by (simp add: eq_commute)
qed

lemma challenge_binding_iff_witness:
  "verify_challenge_binding (demo_lib demo_channel) [''s''] demo_challenge = Inr True"
proof -
  note r = demo_key_ring
  have "pch_id demo_challenge = b64_encode (lib_hmac (demo_lib demo_channel) ''s'' m)" for m
    by (simp add: demo_challenge_def demo_lib_def)
  with challenge_binding_iff [OF conjunct1 [OF demo_challenge_wf] r(2,1)] show ?thesis by simp
qed

text \<open>
  C22. A bound challenge cannot be altered: with a collision-free HMAC, two valid challenges with the
  same id under one secret agree in every bound parameter (realm, method, intent, request, expiry,
  digest, opaque data, credential header); only the display text is free. The separator must not
  occur in realm, digest or expiry, which the code does not check.
\<close>

theorem binding_determines_challenge:
  assumes "wf_challenge L a" and "wf_challenge L b"
    and "\<And>x. x \<in> {a, b} \<Longrightarrow> CHR ''|'' \<notin> set (pch_realm x @ or_empty (pch_digest x) @ or_empty (pch_expires x))"
    and "build_challenge_id L secret a = Inr i" and "build_challenge_id L secret b = Inr i"
    and "\<And>m m'. lib_hmac L secret m = lib_hmac L secret m' \<Longrightarrow> m = m'"
  shows "pch_realm a = pch_realm b \<and> pch_method a = pch_method b \<and> pch_intent a = pch_intent b \<and>
     pch_request a = pch_request b \<and> or_empty (pch_expires a) = or_empty (pch_expires b) \<and>
     or_empty (pch_digest a) = or_empty (pch_digest b) \<and> or_empty (pch_opaque a) = or_empty (pch_opaque b) \<and>
     pch_header a = pch_header b"
proof -
  have "b64_encode (lib_hmac L secret (py_join ''|'' (challenge_slots a))) =
      b64_encode (lib_hmac L secret (py_join ''|'' (challenge_slots b)))"
    using assms(4,5) by (auto simp: build_challenge_id_def split: if_splits)
  then have "py_join ''|'' (challenge_slots a) = py_join ''|'' (challenge_slots b)"
    using assms(6) by (auto simp: b64_encode_inject)
  moreover have "py_split (CHR ''|'') (py_join ''|'' (challenge_slots x)) = challenge_slots x" if "x \<in> {a, b}" for x
    using assms(1,2) assms(3) [OF that] that by (intro slots_recovered wf_slots_no_bar [of L]) auto
  ultimately have "challenge_slots a = challenge_slots b" by (metis insertCI)
  then show ?thesis by (simp add: challenge_slots_eq)
qed

definition demo_echo_lib :: lib where
  "demo_echo_lib = (demo_lib demo_channel)\<lparr>lib_hmac := (\<lambda>k m. m)\<rparr>"

definition demo_relabelled :: payment_challenge where
  "demo_relabelled = demo_challenge\<lparr>pch_description := Some ''d''\<rparr>"

lemma binding_determines_challenge_witness:
  "build_challenge_id demo_echo_lib ''s'' demo_challenge = build_challenge_id demo_echo_lib ''s'' demo_relabelled \<and>
     pch_request demo_challenge = pch_request demo_relabelled"
proof -
  have same: "valid_request demo_echo_lib = valid_request (demo_lib demo_channel)"
    by (simp add: fun_eq_iff valid_request_def canonical_request_def demo_echo_lib_def)
  have wf: "wf_challenge demo_echo_lib demo_challenge" "wf_challenge demo_echo_lib demo_relabelled"
    using demo_wf_challenge by (simp_all add: wf_challenge_def same demo_relabelled_def demo_challenge_def)
  have slots: "challenge_slots demo_relabelled = challenge_slots demo_challenge"
    by (simp add: demo_relabelled_def challenge_slots_def)
  have id: "build_challenge_id demo_echo_lib ''s'' demo_challenge = Inr (b64_encode (py_join ''|'' (challenge_slots demo_challenge)))"
    "build_challenge_id demo_echo_lib ''s'' demo_relabelled = Inr (b64_encode (py_join ''|'' (challenge_slots demo_challenge)))"
    using slots by (simp_all add: build_challenge_id_def demo_echo_lib_def demo_relabelled_def demo_challenge_def)
  have bar: "x \<in> {demo_challenge, demo_relabelled} \<Longrightarrow>
      CHR ''|'' \<notin> set (pch_realm x @ or_empty (pch_digest x) @ or_empty (pch_expires x))" for x
    by (auto simp: demo_relabelled_def demo_challenge_def or_empty_def)
  have "pch_request demo_challenge = pch_request demo_relabelled"
    using binding_determines_challenge [OF wf bar id] by (simp add: demo_echo_lib_def)
  with id show ?thesis by simp
qed

text \<open>
  An id that is not ASCII is not refused but crashes the check: \<open>hmac.compare_digest\<close> raises
  \<open>TypeError\<close> for it, whatever the secrets, before any comparison succeeds.
\<close>

theorem non_ascii_id_type_error:
  assumes "wf_challenge L c" and "\<not> list_all (\<lambda>x. ch x < 128) (pch_id c)" and "key_ring secrets = Inr ring"
  shows "\<exists>msg. verify_challenge_binding L secrets c = Inl (TypeError msg)"
proof -
  have h: "pch_header c = None \<or> pch_header c = Some payment_authorization_header"
    using assms(1) by (simp add: wf_challenge_def)
  have ring: "ring \<noteq> []" "secrets \<noteq> []" using assms(3) by (auto simp: key_ring_def Let_def split: if_splits)
  with h assms(2,3) show ?thesis
    by (cases ring) (auto simp: verify_challenge_binding_def build_challenge_id_def compare_digest_def)
qed

definition demo_accented :: payment_challenge where
  "demo_accented = demo_challenge\<lparr>pch_id := [char_of (233::nat)]\<rparr>"

lemma non_ascii_id_type_error_witness:
  "\<exists>msg. verify_challenge_binding (demo_lib demo_channel) [''s''] demo_accented = Inl (TypeError msg)"
proof (rule non_ascii_id_type_error)
  have "valid_challenge_id (pch_id demo_accented)"
    by (simp add: demo_accented_def valid_challenge_id_def nonblank_def challenge_id_max_length_def py_strip_def
        text_length_def strip_by_def py_space_def ch_def)
  then show "wf_challenge (demo_lib demo_channel) demo_accented"
    using demo_wf_challenge by (simp add: wf_challenge_def demo_accented_def)
  show "\<not> list_all (\<lambda>x. ch x < 128) (pch_id demo_accented)" by (simp add: demo_accented_def ch_def)
qed (rule demo_key_ring(1))

section \<open>Credentials\<close>

text \<open>
  A credential header is refused with \<open>ValueError\<close> and nothing else, and whatever it yields carries
  a valid challenge under the Payment scheme.
\<close>

theorem authorization_header_sound:
  "case parse_payment_authorization_header L raw of
     Inl e \<Rightarrow> \<exists>msg. e = ValueError msg
   | Inr cred \<Rightarrow> wf_challenge L (pcr_challenge cred) \<and>
       (\<exists>scheme token. scheme_and_token (py_strip raw) = Some (scheme, token) \<and> py_lower scheme = payment_scheme)"
proof (cases "parse_payment_authorization_header L raw")
  case (Inl e)
  with parse_authorization_errors [OF Inl] show ?thesis by simp
next
  case (Inr cred)
  then obtain scheme token j where "scheme_and_token (py_strip raw) = Some (scheme, token)"
    "py_lower scheme = payment_scheme" "validate_credential L j = Inr cred"
    by (auto simp: parse_payment_authorization_header_def decode_payment_credential_def
        split: option.splits prod.splits if_splits sum.splits)
  moreover from this(3) have "wf_challenge L (pcr_challenge cred)"
    by (auto simp: validate_credential_def res_iffs dest: validate_challenge_wf)
  ultimately show ?thesis using Inr by auto
qed

section \<open>Accept-Payment\<close>

text \<open>
  Preferences survive the Accept-Payment header: rendering ranges and parsing the value gives the
  same ranges, with every weight of up to three decimal places.
\<close>

theorem accept_payment_round_trip:
  assumes "rs \<noteq> []" and "\<forall>r \<in> set rs. wf_range r"
  shows "parse_accept_payment (render_accept_payment rs) = Inr rs"
  by (rule parse_render_accept [OF assms])

lemma accept_payment_round_trip_witness:
  "parse_accept_payment (render_accept_payment [\<lparr>ar_method = ''xrpl'', ar_intent = ''*'', ar_q = 250\<rparr>]) =
     Inr [\<lparr>ar_method = ''xrpl'', ar_intent = ''*'', ar_q = 250\<rparr>]"
  by (rule accept_payment_round_trip)
    (simp_all add: wf_range_def method_text_def any_token_def is_lower_def ch_def)

text \<open>
  Ranking keeps exactly the challenges some range accepts, with their multiplicity, never puts a
  less preferred one before a more preferred one, and keeps the server's order among equals; the
  weight of a challenge is that of a matching range no other matching range is more specific than.
\<close>

theorem ranking_correct:
  "mset (rank_payment_challenges cs ranges) = filter_mset (acceptable ranges) (mset cs) \<and>
   sorted_wrt (\<lambda>a b. weight_of ranges b \<le> weight_of ranges a) (rank_payment_challenges cs ranges) \<and>
   filter (\<lambda>c. weight_of ranges c = q) (rank_payment_challenges cs ranges) =
     filter (\<lambda>c. acceptable ranges c \<and> weight_of ranges c = q) cs \<and>
   (acceptable ranges c \<longleftrightarrow> (\<exists>r \<in> set ranges. range_matches r c \<and> 0 < ar_q r \<and> weight_of ranges c = ar_q r \<and>
     (\<forall>s \<in> set ranges. range_matches s c \<longrightarrow> specificity s \<le> specificity r)))"
proof -
  let ?k = "\<lambda>c. - int (weight_of ranges c)"
  have "mset (rank_payment_challenges cs ranges) = filter_mset (acceptable ranges) (mset cs)"
    by (simp add: rank_as_sort)
  moreover have "sorted (map ?k (rank_payment_challenges cs ranges))" by (simp add: rank_as_sort)
  then have "sorted_wrt (\<lambda>a b. weight_of ranges b \<le> weight_of ranges a) (rank_payment_challenges cs ranges)"
    by (simp add: sorted_map)
  moreover have "filter (\<lambda>c. ?k c = - int q) (sort_key ?k (filter (acceptable ranges) cs)) =
      filter (\<lambda>c. ?k c = - int q) (filter (acceptable ranges) cs)" by (rule sort_key_stable)
  then have "filter (\<lambda>c. weight_of ranges c = q) (rank_payment_challenges cs ranges) =
     filter (\<lambda>c. acceptable ranges c \<and> weight_of ranges c = q) cs"
    by (simp add: rank_as_sort conj_commute)
  moreover have "acceptable ranges c \<longleftrightarrow> (\<exists>r \<in> set ranges. range_matches r c \<and> 0 < ar_q r \<and> weight_of ranges c = ar_q r \<and>
     (\<forall>s \<in> set ranges. range_matches s c \<longrightarrow> specificity s \<le> specificity r))" (is "_ \<longleftrightarrow> ?r")
  proof
    assume "acceptable ranges c"
    then obtain r where r: "best_range (filter (\<lambda>r. range_matches r c) ranges) = Some r" "0 < ar_q r"
      by (auto simp: acceptable_def selected_weight_def)
    with best_range_in [OF r(1)] best_range_max [OF r(1)] show ?r
      by (intro bexI [of _ r]) (auto simp: weight_of_def selected_weight_def)
  next
    assume ?r
    then have "filter (\<lambda>r. range_matches r c) ranges \<noteq> []" "0 < weight_of ranges c" by (auto simp: filter_empty_conv)
    then show "acceptable ranges c" by (auto simp: acceptable_def weight_of_def split: option.splits)
  qed
  ultimately show ?thesis by blast
qed

lemma ranking_correct_witness:
  "mset (rank_payment_challenges [demo_challenge] [\<lparr>ar_method = ''*'', ar_intent = ''session'', ar_q = 5\<rparr>]) =
     {# demo_challenge #}"
proof -
  let ?r = "\<lparr>ar_method = ''*'', ar_intent = ''session'', ar_q = 5\<rparr>"
  have "range_matches ?r demo_challenge \<and> weight_of [?r] demo_challenge = 5" by code_simp
  then have "acceptable [?r] demo_challenge" using ranking_correct [of "[]" "[?r]" 0 demo_challenge] by simp
  then show ?thesis using ranking_correct [of "[demo_challenge]" "[?r]"] by simp
qed

section \<open>Payer DIDs\<close>

definition valid_did :: "xrpl_did \<Rightarrow> bool" where
  "valid_did d \<longleftrightarrow> did_network d \<in> set xrpl_networks \<and> classic_address (did_address d)"

lemma base58_no_colon: "classic_address a \<Longrightarrow> CHR '':'' \<notin> set a"
proof -
  have "\<not> base58_char (CHR '':'')" by code_simp
  then show "classic_address a \<Longrightarrow> CHR '':'' \<notin> set a"
    by (auto simp: classic_address_def list_all_iff split: list.splits)
qed

lemma mk_did_Inr: "mk_did n a = Inr d \<longleftrightarrow> valid_did d \<and> did_network d = n \<and> did_address d = pydantic_strip a"
  by (cases d) (auto simp: mk_did_def res_iffs pattern_str_Inr valid_did_def)

lemma did_str_pieces:
  assumes "valid_did d"
  shows "py_split (CHR '':'') (did_str d) = [''did'', ''pkh'', ''xrpl'', did_network d, did_address d]"
proof -
  have "py_split (CHR '':'') (did_network d @ CHR '':'' # did_address d) = [did_network d, did_address d]"
    using assms by (subst py_split_append)
      (simp_all add: valid_did_def network_no_colon py_split_no_sep base58_no_colon)
  then show ?thesis by (simp add: did_str_def)
qed

text \<open>
  A payer DID reads back: \<open>did:pkh:xrpl:network:address\<close> of a known network and a classic address
  parses to that pair when its network is the expected one or none is expected, and is refused with a
  \<open>ValueError\<close> otherwise.
\<close>

theorem did_round_trip:
  assumes "valid_did d"
  shows "if expected \<in> {None, Some (did_network d)} then parse_xrpl_did (did_str d) expected = Inr d
    else \<exists>msg. parse_xrpl_did (did_str d) expected = Inl (ValueError msg)"
proof -
  have "mk_did (did_network d) (did_address d) = Inr d" using assms by (auto simp: mk_did_Inr valid_did_def)
  moreover have "did_str d \<noteq> []" by (simp add: did_str_def)
  ultimately show ?thesis using did_str_pieces [OF assms] by (auto simp: parse_xrpl_did_def did_of_parts_def split: option.splits)
qed

lemma did_round_trip_witness:
  "parse_xrpl_did (did_str \<lparr>did_network = ''testnet'', did_address = demo_payer\<rparr>) (Some ''testnet'') =
     Inr \<lparr>did_network = ''testnet'', did_address = demo_payer\<rparr>"
proof -
  have "valid_did \<lparr>did_network = ''testnet'', did_address = demo_payer\<rparr>" by code_simp
  from did_round_trip [OF this, of "Some ''testnet''"] show ?thesis by simp
qed

lemma did_of_parts_Inr:
  "did_of_parts scheme n a expected = Inr d \<longleftrightarrow> scheme = [''did'', ''pkh'', ''xrpl''] \<and>
     mk_did n a = Inr d \<and> expected \<in> {None, Some (did_network d)}"
proof (cases "scheme = [''did'', ''pkh'', ''xrpl'']")
  case True
  show ?thesis unfolding did_of_parts_def
    by (cases "mk_did n a"; cases expected) (auto simp only: True simp_thms if_False bind_res_simps option.simps
        insert_iff empty_iff sum.inject sum.simps split: if_split)
next
  case False
  then show ?thesis unfolding did_of_parts_def by (simp only: not_False_eq_True if_True sum.simps simp_thms)
qed

lemma parse_xrpl_did_parts:
  "parse_xrpl_did source expected = Inr d \<Longrightarrow>
     \<exists>a b c n x. py_split (CHR '':'') source = [a, b, c, n, x] \<and> did_of_parts [a, b, c] n x expected = Inr d"
  by (auto simp: parse_xrpl_did_def split: list.splits if_splits)

lemma parsed_did_shape:
  assumes "parse_xrpl_did source expected = Inr d"
  shows "valid_did d \<and> expected \<in> {None, Some (did_network d)} \<and>
    (\<exists>a. source = ''did:pkh:xrpl:'' @ did_network d @ '':'' @ a \<and> did_address d = pydantic_strip a)"
proof -
  from parse_xrpl_did_parts [OF assms] obtain x y z n a where
    "py_split (CHR '':'') source = [x, y, z, n, a]" "did_of_parts [x, y, z] n a expected = Inr d" by blast
  then have split: "py_split (CHR '':'') source = [''did'', ''pkh'', ''xrpl'', n, a]"
    and d: "mk_did n a = Inr d" "expected \<in> {None, Some (did_network d)}" by (auto simp: did_of_parts_Inr)
  have "source = py_join '':'' (py_split (CHR '':'') source)" by (simp add: py_join_split)
  with split d show ?thesis by (auto simp: mk_did_Inr)
qed

text \<open>
  Nothing else passes for a payer: a source that parses has five parts under \<open>did:pkh:xrpl\<close>, a known
  network that is the expected one, and a classic address.
\<close>

theorem parsed_did_valid:
  assumes "parse_xrpl_did source expected = Inr d"
  shows "valid_did d \<and> expected \<in> {None, Some (did_network d)} \<and>
    (\<exists>a. source = ''did:pkh:xrpl:'' @ did_network d @ '':'' @ a \<and> did_address d = pydantic_strip a)"
  by (rule parsed_did_shape [OF assms])

lemma parsed_did_valid_witness: "valid_did \<lparr>did_network = ''testnet'', did_address = demo_payer\<rparr>"
  using parsed_did_valid [OF demo_source] by blast

section \<open>Currencies and assets\<close>

definition wf_currency :: "xrpl_currency \<Rightarrow> bool" where
  "wf_currency c = (case c of XRP \<Rightarrow> True
   | IssuedCurrency code issuer \<Rightarrow> constrained ''currency'' 1 40 (\<lambda>_. True) code = Inr code \<and> classic_address issuer
   | MPToken i \<Rightarrow> constrained ''mpt_issuance_id'' 1 128 hex_text i = Inr i)"

definition currency_fields :: "xrpl_currency \<Rightarrow> (string \<times> string) list" where
  "currency_fields c = (case c of XRP \<Rightarrow> []
   | IssuedCurrency code issuer \<Rightarrow> [(''currency'', code), (''issuer'', issuer)]
   | MPToken i \<Rightarrow> [(''mpt_issuance_id'', i)])"

text \<open>
  A currency survives the string form of a charge request: with a JSON library that reads back the
  object written for it, \<open>XRP\<close>, an issued currency and an MPT parse to themselves.
\<close>

theorem currency_round_trip:
  assumes "wf_currency c"
    and "loads (dumps_object (currency_fields c)) = Some (JObj (map (\<lambda>(k, v). (k, JStr v)) (currency_fields c)))"
  shows "parse_currency loads (serialize_currency c) = Inr c"
proof (cases c)
  case (IssuedCurrency code issuer)
  have "serialize_currency c = dumps_object (currency_fields c)" "serialize_currency c \<noteq> ''XRP''"
    by (simp_all add: IssuedCurrency serialize_currency_def currency_fields_def) (simp add: dumps_object_def)
  moreover have "no_duplicate_keys (JObj (map (\<lambda>(k, v). (k, JStr v)) (currency_fields c)))"
    by (simp add: IssuedCurrency currency_fields_def)
  moreover have "pattern_str ''issuer'' classic_address issuer = Inr issuer"
    using assms(1) by (simp add: IssuedCurrency wf_currency_def pattern_str_Inr)
  then have "issued_currency (map (\<lambda>(k, v). (k, JStr v)) (currency_fields c)) = Inr c"
    using assms(1) by (simp add: IssuedCurrency currency_fields_def issued_currency_def required_def used_key_def
        plain_def as_str_def address_field_def wf_currency_def no_extra_def)
  ultimately show ?thesis using assms(2) by (simp add: parse_currency_def loads_unique_def)
    (simp add: IssuedCurrency currency_fields_def)
next
  case (MPToken i)
  have "serialize_currency c = dumps_object (currency_fields c)" "serialize_currency c \<noteq> ''XRP''"
    by (simp_all add: MPToken serialize_currency_def currency_fields_def) (simp add: dumps_object_def)
  moreover have "no_duplicate_keys (JObj (map (\<lambda>(k, v). (k, JStr v)) (currency_fields c)))"
    by (simp add: MPToken currency_fields_def)
  moreover have "mp_token (map (\<lambda>(k, v). (k, JStr v)) (currency_fields c)) = Inr c"
    using assms(1) by (simp add: MPToken currency_fields_def mp_token_def required_def used_key_def
        plain_def as_str_def wf_currency_def no_extra_def)
  ultimately show ?thesis using assms(2) by (simp add: parse_currency_def loads_unique_def)
    (simp add: MPToken currency_fields_def)
qed (simp add: parse_currency_def serialize_currency_def)

lemma currency_round_trip_witness:
  "parse_currency (\<lambda>s. Some (JObj [(''mpt_issuance_id'', JStr ''AB'')])) (serialize_currency (MPToken ''AB'')) =
     Inr (MPToken ''AB'')"
proof (rule currency_round_trip)
  show "wf_currency (MPToken ''AB'')" by code_simp
qed (simp add: currency_fields_def)

text \<open>
  A currency code survives the ledger: a code of at most 20 printable ASCII characters becomes a
  three-character or 40-digit ledger code that is normalised back to the same code.
\<close>

theorem currency_code_round_trip:
  assumes "display_code s"
  shows "\<exists>t. xrpl_currency_code s = Inr t \<and> normalize_currency_code t = Inr s"
  by (rule ledger_code_round_trip [OF assms])

lemma currency_code_round_trip_witness:
  "\<exists>t. xrpl_currency_code ''RLUSD'' = Inr t \<and> normalize_currency_code t = Inr ''RLUSD''"
proof (rule currency_code_round_trip)
  show "display_code ''RLUSD''" by code_simp
qed

text \<open>
  The accepted assets start with XRP and never repeat one; every other entry is an issued asset that
  does not call itself XRP, whatever the operator configured.
\<close>

theorem supported_assets_sound:
  assumes "supported_asset_keys network raw = Inr assets"
  shows "distinct assets \<and> (\<exists>rest. assets = xrp_asset # rest \<and>
    (\<forall>a \<in> set rest. ak_code a \<noteq> ''XRP'' \<and> ak_issuer a \<noteq> None))"
  by (rule supported_assets_shape [OF assms])

lemma supported_assets_sound_witness:
  "\<exists>assets. supported_asset_keys ''xrpl:1'' ''ABC:rX, ABC:rX'' = Inr assets \<and> distinct assets"
proof -
  have "is_ok (supported_asset_keys ''xrpl:1'' ''ABC:rX, ABC:rX'')" by code_simp
  then obtain assets where "supported_asset_keys ''xrpl:1'' ''ABC:rX, ABC:rX'' = Inr assets" by (rule is_okE)
  with supported_assets_sound [OF this] show ?thesis by blast
qed

section \<open>The high-water mark\<close>

text \<open>
  The price of a voucher is enforced by arithmetic alone: for a new amount \<open>c\<close> over a previous \<open>p\<close>
  and a price \<open>q\<close>, \<open>c = p\<close> is a replay, \<open>c < p\<close> a regression, \<open>c < p + q\<close> a short payment, and anything
  else advances the mark to exactly \<open>c\<close>; the reported previous amount is always \<open>p\<close>, and an amount that
  is not 1 to 20 digits is refused.
\<close>

theorem high_water_outcomes:
  assumes "well_formed_high_water current" and "signature_text s" and "s \<noteq> []" and "0 \<le> t"
  shows "evaluate_high_water current (DropsText c) (DropsText q) s (Some t) clock =
    (if \<not> drops_text c then Inl (ValueError ''cumulative must be an unsigned drops string'')
     else if \<not> drops_text q then Inl (ValueError ''requested must be an unsigned drops string'')
     else let p = hw_value current;
         reject = (\<lambda>status. Inr \<lparr>hd_status = status, hd_previous = py_str_int p, hd_state = None\<rparr>) in
     if py_int c = p then reject Replay
     else if py_int c < p then reject Regressed
     else if py_int c < p + py_int q then reject Short
     else Inr \<lparr>hd_status = Advanced, hd_previous = py_str_int p, hd_state =
         Some \<lparr>hw_cumulative = c, hw_signature = s, hw_timestamp = t\<rparr>\<rparr>)"
proof (cases "drops_text c \<and> drops_text q")
  case True
  then have "mk_high_water c s t = Inr \<lparr>hw_cumulative = c, hw_signature = s, hw_timestamp = t\<rparr>"
    using assms by (auto simp: mk_high_water_Inr signature_text_def)
  moreover have "0 \<le> py_int q" by simp
  ultimately show ?thesis using True
    by (simp add: evaluate_high_water_text [OF assms(1)] Let_def)
next
  case False
  then show ?thesis by (auto simp: evaluate_high_water_def validate_drops_def)
qed

lemma high_water_outcomes_witness:
  "evaluate_high_water None (DropsText ''7'') (DropsText ''8'') ''AB'' (Some 1) 0 =
     Inr \<lparr>hd_status = Short, hd_previous = py_str_int 0, hd_state = None\<rparr>"
proof -
  have "signature_text ''AB''" "drops_text ''7''" "drops_text ''8''" "py_int ''7'' = 7" "py_int ''8'' = 8" by code_simp+
  then show ?thesis using high_water_outcomes [of None "''AB''" 1 "''7''" "''8''" 0]
    by (simp add: well_formed_high_water_def hw_value_def)
qed

end
