(* ===== verification/SettlementProperties.thy ===== *)
theory SettlementProperties
  imports SessionProperties ProtocolProperties
begin

text \<open>
  The properties of the phases of a session request and of the redemption worker: what the envelope
  accepts, that an unproved claim costs nothing, and when value moves on the ledger.
\<close>

section \<open>The envelope\<close>

lemma session_request_Inr: "session_request_of r = Inr s \<longleftrightarrow> r = SessionRequest s"
  by (cases r) (auto simp: session_request_of_def)

text \<open>
  C5. What gets past the envelope is bound: an accepted credential answers an unexpired XRPL session
  challenge issued under a configured secret, for this recipient and network, from the payer whose key
  the service holds, and its payload is the validated payload of the credential; a claim names the
  challenge's channel, an open names none and starts at zero. The three amounts the service computes
  with, the price, the claimed total and, where the challenge carries one, the cumulative hint, fit an
  unsigned 64-bit integer.
\<close>

theorem envelope_sound:
  assumes "verify_envelope S cred now = Inr (request, payload)"
  shows "let c = pcr_challenge cred in
    pch_method c = ''xrpl'' \<and> pch_intent c = ''session'' \<and>
    verify_challenge_binding (sv_lib S) (sv_secrets S) c = Inr True \<and>
    challenge_is_expired (sv_lib S) c now = Inr False \<and>
    decode_challenge_request (sv_lib S) c = Inr (SessionRequest request) \<and>
    validate_session_payload (JObj (pcr_payload cred)) = Inr payload \<and>
    sr_recipient request = sv_recipient S \<and> request_network request \<in> {None, Some (sv_network S)} \<and>
    parse_xrpl_did (or_empty (pcr_source cred)) (Some (sv_network S)) =
      Inr \<lparr>did_network = sv_network S, did_address = sv_payer S\<rparr> \<and>
    (case payload of
       OpenPayload _ _ _ \<Rightarrow> sr_channel_id request = [] \<and> request_cumulative request \<in> {None, Some ''0''}
     | VoucherPayload channel _ _ \<Rightarrow> py_upper channel = py_upper (sr_channel_id request) \<and> channel \<noteq> []
     | ClosePayload channel _ _ \<Rightarrow> py_upper channel = py_upper (sr_channel_id request) \<and> channel \<noteq> []) \<and>
    py_int (sr_amount request) < 2 ^ 64 \<and> py_int (payload_amount payload) < 2 ^ 64 \<and>
    (case request_cumulative request of None \<Rightarrow> True | Some hint \<Rightarrow> py_int hint < 2 ^ 64)"
proof -
  obtain d where d: "parse_xrpl_did (or_empty (pcr_source cred)) (Some (sv_network S)) = Inr d" "did_address d = sv_payer S"
    and rest: "pch_method (pcr_challenge cred) = ''xrpl''" "pch_intent (pcr_challenge cred) = ''session''"
      "verify_challenge_binding (sv_lib S) (sv_secrets S) (pcr_challenge cred) = Inr True"
      "challenge_is_expired (sv_lib S) (pcr_challenge cred) now = Inr False"
      "decode_challenge_request (sv_lib S) (pcr_challenge cred) = Inr (SessionRequest request)"
      "validate_session_payload (JObj (pcr_payload cred)) = Inr payload"
      "sr_recipient request = sv_recipient S" "request_network request \<in> {None, Some (sv_network S)}"
      "check_action request payload = Inr ()" "py_int (sr_amount request) \<le> max_uint64"
      "py_int (payload_amount payload) \<le> max_uint64"
      "case request_cumulative request of None \<Rightarrow> True | Some hint \<Rightarrow> py_int hint \<le> max_uint64"
    using assms by (auto simp: verify_envelope_def Let_def res_iffs as_error_def session_request_Inr
        require_uint64_def split: option.splits)
  from parsed_did_shape [OF d(1)] d(2) have "d = \<lparr>did_network = sv_network S, did_address = sv_payer S\<rparr>" by simp
  moreover have "case payload of
       OpenPayload _ _ _ \<Rightarrow> sr_channel_id request = [] \<and> request_cumulative request \<in> {None, Some ''0''}
     | VoucherPayload channel _ _ \<Rightarrow> py_upper channel = py_upper (sr_channel_id request) \<and> channel \<noteq> []
     | ClosePayload channel _ _ \<Rightarrow> py_upper channel = py_upper (sr_channel_id request) \<and> channel \<noteq> []"
    using rest(9) by (auto simp: check_action_def res_iffs eq_commute [of "[]"] split: session_payload.splits)
  ultimately show ?thesis using d rest unfolding Let_def by (auto simp: max_uint64_def split: option.splits)
qed

text \<open>The demo challenge with a cumulative hint: 10 drops are already claimed of the channel.\<close>

definition hinted_request :: json where
  "hinted_request = JObj [(''amount'', JStr ''5''), (''channelId'', JStr demo_channel),
     (''recipient'', JStr demo_recipient),
     (''methodDetails'', JObj [(''network'', JStr ''testnet''), (''cumulativeAmount'', JStr ''10'')])]"

definition hinted_service :: "redis_client service" where
  "hinted_service = (demo_session demo_view)\<lparr>sv_lib := (demo_lib demo_channel)
     \<lparr>lib_loads := (\<lambda>s. if s = ''{}'' then Some hinted_request else None)\<rparr>\<rparr>"

definition hinted_session_request :: session_request where
  "hinted_session_request = demo_session_request\<lparr>sr_method_details := Some
     \<lparr>smd_reference = None, smd_network = Some ''testnet'', smd_cumulative_amount = Some ''10''\<rparr>\<rparr>"

lemma hinted_envelope:
  "verify_envelope hinted_service (demo_credential ''voucher'' ''15'') (Aware 1000000) =
     Inr (hinted_session_request, VoucherPayload demo_channel ''15'' ''CD'')"
proof -
  have j: "decode_base64url_json (lib_loads (sv_lib hinted_service)) (pch_request demo_challenge) = Inr hinted_request"
    unfolding decode_json_Inr
    by (rule exI [of _ "''{}''"], rule exI [of _ hinted_request])
      (use demo_json_text in \<open>simp_all add: hinted_service_def demo_challenge_def hinted_request_def dict_of_def\<close>)
  have "validate_session_request hinted_request = Inr hinted_session_request" by code_simp
  then have d: "decode_challenge_request (sv_lib hinted_service) demo_challenge = Inr (SessionRequest hinted_session_request)"
    using j by (simp add: decode_challenge_request_def demo_challenge_def)
  have b: "verify_challenge_binding (sv_lib hinted_service) [''s''] demo_challenge = Inr True" by code_simp
  have a: "check_action hinted_session_request (VoucherPayload demo_channel ''15'' ''CD'') = Inr ()"
    "require_uint64 ''10'' = Inr ()" by code_simp+
  show ?thesis using a b d demo_source demo_voucher demo_open
    by (simp add: verify_envelope_def demo_credential_def Let_def guard_res_def as_error_def catch_res_def
        session_request_of_def challenge_is_expired_def request_network_def request_cumulative_def or_empty_def
        bind_res_def demo_challenge_def hinted_session_request_def demo_session_request_def hinted_service_def)
qed

lemma envelope_sound_witness:
  "sr_recipient hinted_session_request = demo_recipient \<and>
   py_upper demo_channel = py_upper (sr_channel_id hinted_session_request) \<and>
   py_int (sr_amount hinted_session_request) < 2 ^ 64 \<and> py_int ''15'' < 2 ^ 64 \<and>
   request_cumulative hinted_session_request = Some ''10'' \<and> py_int ''10'' < 2 ^ 64"
proof -
  have hint: "request_cumulative hinted_session_request = Some ''10''"
    by (simp add: request_cumulative_def hinted_session_request_def)
  show ?thesis using envelope_sound [OF hinted_envelope] hint
    by (simp add: Let_def hinted_service_def)
qed

section \<open>A claim that is not proved\<close>

text \<open>
  C6. A bad signature burns nothing: a voucher or close whose claim signature is not valid is refused
  before the challenge is claimed, so its outcome and the state it leaves do not depend on the replay store.
\<close>

theorem unproved_claim_spares_challenge:
  assumes "verify_envelope S cred (sv_now S w) = Inr (request, p)" and "claims p = Some (closing, channel, amount, signature)"
    and "claim_valid (sv_xrpl S) (py_upper channel) amount signature (sv_public_key S) \<noteq> Some True"
  shows "(\<exists>e. fst (verify S cred w) = Inl e) \<and> verify (S\<lparr>sv_claim_challenge := claim\<rparr>) cred w = verify S cred w"
proof -
  let ?T = "S\<lparr>sv_claim_challenge := claim\<rparr>"
  have a: "assert_record_binding ?T = assert_record_binding S"
    by (intro ext) (simp add: assert_record_binding_def record_bound_def)
  have b: "import_failure ?T = import_failure S" by (intro ext) (simp add: import_failure_def split: exn.split)
  have c: "import_channel ?T = import_channel S" by (intro ext) (simp add: import_channel_def a)
  have d: "sv_channel_loader ?T = sv_channel_loader S" by simp
  have rec: "claim_record ?T = claim_record S"
    unfolding claim_record_def a b c d by (intro ext) simp
  have prove: "prove_claim ?T cred c amount signature r = prove_claim S cred c amount signature r \<and>
      prove_claim S cred c amount signature r v = (Inl (if r_finalized r then verr ''CHANNEL_FINALIZED'' else verr ''INVALID_SIGNATURE''), v)"
    if "c = py_upper channel" for c r v
    using assms(3) that by (auto simp: prove_claim_def verify_claim_signature_def fun_eq_iff proc_simps)
  have env: "verify_envelope ?T cred now = verify_envelope S cred now" for now by (simp add: verify_envelope_def Let_def check_action_def)
  have act: "verify_claim_action ?T cred request closing channel amount signature w =
      verify_claim_action S cred request closing channel amount signature w \<and>
      (\<exists>e. fst (verify_claim_action S cred request closing channel amount signature w) = Inl e)"
    by (auto simp: verify_claim_action_def Let_def rec proc_simps prove split: prod.splits sum.splits)
  have run: "verify S' cred w = verify_claim_action S' cred request closing channel amount signature w"
    if "verify_envelope S' cred (sv_now S' w) = Inr (request, p)" for S' :: "'a service"
    using that assms(2) by (cases p) (auto simp: verify_def proc_simps)
  show ?thesis using act run [OF assms(1)] run [of ?T] assms(1) by (simp add: env)
qed

definition demo_refusing :: "redis_client service" where
  "demo_refusing = (demo_session demo_view)\<lparr>sv_xrpl := demo_xrpl\<lparr>x_valid_message := (\<lambda>m s k. Some False)\<rparr>\<rparr>"

lemma unproved_claim_spares_challenge_witness:
  "\<exists>e. fst (verify demo_refusing (demo_credential ''voucher'' ''15'') demo_start) = Inl e"
proof -
  have "verify_envelope demo_refusing cred now = verify_envelope (demo_session demo_view) cred now" for cred now
    by (simp add: demo_refusing_def verify_envelope_def Let_def)
  then have env: "verify_envelope demo_refusing (demo_credential ''voucher'' ''15'') (sv_now demo_refusing demo_start) =
      Inr (demo_session_request, VoucherPayload demo_channel ''15'' ''CD'')"
    using demo_envelope(1) [of demo_view] by (simp add: demo_refusing_def)
  have "claim_valid (sv_xrpl demo_refusing) (py_upper demo_channel) ''15'' ''CD'' (sv_public_key demo_refusing) \<noteq> Some True"
    by (simp add: demo_refusing_def claim_valid_def bind_eq_Some_conv)
  from unproved_claim_spares_challenge [OF env _ this, of False] show ?thesis by simp
qed

section \<open>Settlement of a close\<close>

definition demo_created :: redis_client where
  "demo_created = snd (rs_create demo_record demo_start)"

definition demo_leased :: redis_client where
  "demo_leased = snd (rs_claim (\<lambda>n. ''v'') ''testnet'' demo_channel 60 demo_created)"

definition demo_lost :: "redis_client service" where
  "demo_lost = demo_session (demo_view\<lparr>lv_redeem := Some (\<lambda>r. Inl (SettlementPending ''h''))\<rparr>)"

lemma demo_unredeemed: "unredeemed demo_record" by code_simp

lemma demo_settler: "sv_close_settler demo_lost = Some (\<lambda>r. lift (Inl (SettlementPending ''h'')))"
  "sv_redemption_lease_seconds demo_lost = 60" "sv_store demo_lost = redis_ops (\<lambda>n. ''u'')" "sv_network demo_lost = ''testnet''"
  by (simp_all add: demo_lost_def demo_session_def redis_session_def demo_view_def demo_base_def)

text \<open>
  C7. One redemption at a time: when another worker or close holds the redemption lease, a close never
  calls the settler (its outcome is the same for any settler), and while the channel is still unredeemed
  it answers settlement-pending instead of finalizing.
\<close>

theorem no_lease_no_settlement:
  assumes "sv_close_settler S = Some settler" and "unredeemed r"
    and "st_claim (sv_store S) (sv_network S) channel (sv_redemption_lease_seconds S) w = (Inr None, w1)"
  shows "settle_close (S\<lparr>sv_close_settler := Some other\<rparr>) channel recipient r w = settle_close S channel recipient r w \<and>
    (\<forall>latest w2. coordinated_record S channel recipient r None w1 = (Inr latest, w2) \<longrightarrow> unredeemed latest \<longrightarrow>
       settle_close S channel recipient r w = (Inl (SettlementPending (channel @ '':'' @ r_cumulative latest)), w2))"
proof -
  let ?T = "S\<lparr>sv_close_settler := Some other\<rparr>"
  have a: "assert_record_binding ?T = assert_record_binding S"
    by (intro ext) (simp add: assert_record_binding_def record_bound_def)
  have b: "release_redemption_lease ?T = release_redemption_lease S" by (intro ext) (simp add: release_redemption_lease_def)
  have co: "coordinated_record ?T = coordinated_record S" unfolding coordinated_record_def a b by (intro ext) simp
  show ?thesis using assms by (auto simp: settle_close_def proc_simps co split: prod.splits sum.splits)
qed

lemma no_lease_no_settlement_witness:
  "\<forall>other. settle_close (demo_lost\<lparr>sv_close_settler := Some other\<rparr>) demo_channel demo_recipient demo_record demo_leased =
     settle_close demo_lost demo_channel demo_recipient demo_record demo_leased"
proof -
  have "fst (rs_claim (\<lambda>n. ''u'') ''testnet'' demo_channel 60 demo_leased) = Inr None" by code_simp
  then have "st_claim (sv_store demo_lost) (sv_network demo_lost) demo_channel (sv_redemption_lease_seconds demo_lost) demo_leased =
      (Inr None, snd (rs_claim (\<lambda>n. ''u'') ''testnet'' demo_channel 60 demo_leased))"
    by (metis demo_settler(2-4) prod.collapse redis_ops_def store_ops.select_convs(7))
  from no_lease_no_settlement [OF demo_settler(1) demo_unredeemed this] show ?thesis by blast
qed

text \<open>
  An unresolved submission is not retried and not hidden: when the settler reports that the claim may
  have reached the ledger, the close fails with settlement-pending in exactly the state the settler left:
  the lease is kept and the channel is not finalized.
\<close>

theorem pending_keeps_lease:
  assumes "sv_close_settler S = Some settler" and "unredeemed r"
    and "st_claim (sv_store S) (sv_network S) channel (sv_redemption_lease_seconds S) w = (Inr (Some lease), w1)"
    and "coordinated_record S channel recipient r (Some lease) w1 = (Inr latest, w2)" and "unredeemed latest"
    and "settler latest w2 = (Inl (SettlementPending h), w3)"
  shows "finish_close S channel amount recipient r w = (Inl (SettlementPending h), w3)"
  using assms by (simp add: finish_close_def settle_close_def redeem_on_ledger_def proc_simps settle_error_def)

lemma pending_keeps_lease_witness:
  "\<exists>w. finish_close demo_lost demo_channel ''10'' demo_recipient demo_record demo_created = (Inl (SettlementPending ''h''), w)"
proof -
  let ?claim = "rs_claim (\<lambda>n. ''u'') ''testnet'' demo_channel 60 demo_created"
  let ?get = "coordinated_record demo_lost demo_channel demo_recipient demo_record (Some ''u'') (snd ?claim)"
  have "fst ?claim = Inr (Some ''u'')" by code_simp
  then have c: "st_claim (sv_store demo_lost) (sv_network demo_lost) demo_channel (sv_redemption_lease_seconds demo_lost) demo_created =
      (Inr (Some ''u''), snd ?claim)"
    by (metis demo_settler(2-4) prod.collapse redis_ops_def store_ops.select_convs(7))
  have "fst ?get = Inr demo_record" by code_simp
  then have g: "?get = (Inr demo_record, snd ?get)" by (metis prod.collapse)
  from pending_keeps_lease [OF demo_settler(1) demo_unredeemed c g demo_unredeemed] show ?thesis
    by (simp add: proc_simps)
qed

section \<open>The redemption worker\<close>


definition demo_worker :: "redis_client worker" where
  "demo_worker = \<lparr>wk_store = redis_ops (\<lambda>n. ''u''), wk_settler = (\<lambda>r. lift (Inr (replicate 64 CHR ''F''))),
     wk_network = ''testnet'', wk_interval_seconds = 30, wk_idle_close_ms = 60000, wk_batch_size = 10,
     wk_lease_seconds = 60, wk_clock = rc_clock\<rparr>"

lemma demo_created_state: "client_ok demo_created"
  "client_map demo_created (''facilitator:paychannel:testnet:'' @ demo_channel) = Some demo_record"
proof -
  have "validate_record demo_record = Inr demo_record" by code_simp
  then have wf: "wf_record demo_record" by (simp only: wf_record_iff)
  have run: "rs_create demo_record demo_start = (fst (rs_create demo_record demo_start), demo_created)"
    by (simp add: demo_created_def)
  from rs_create_linear [OF wf demo_start_ok run] show "client_ok demo_created" by blast
  show "client_map demo_created (''facilitator:paychannel:testnet:'' @ demo_channel) = Some demo_record" by code_simp
qed

lemma demo_key: "channel_key ''testnet'' demo_channel = Inr (''facilitator:paychannel:testnet:'' @ demo_channel)"
  by code_simp


text \<open>
  However many rounds the worker runs, and whatever fails in them, the durable channels stay valid and
  only move forward; a round that raises does not end the loop.
\<close>

theorem worker_moves_forward:
  assumes "client_ok s" and "run_sweeps (redis_worker uuid4 W redeem) n (s, cursor) = (outcome, (s', cursor'))"
  shows "client_ok s' \<and> evolves (client_map s) (client_map s')"
  using redis_worker.run_sweeps_calm [of "(s, cursor)", OF _ assms(2)] assms(1) by simp

lemma worker_moves_forward_witness:
  "\<exists>outcome s' c. run_sweeps (redis_worker (\<lambda>n. ''u'') demo_worker (\<lambda>r. Inl (OtherError ''rpc''))) 3 (demo_start, 0) =
     (outcome, (s', c)) \<and> client_ok s'"
  using worker_moves_forward [OF demo_start_ok] by (metis prod.collapse)

end
