(* ===== verification/MemStore.thy ===== *)
theory MemStore
  imports StoreSpec
begin

text \<open>
  \<open>InMemoryPayChannelStore\<close> of \<open>paychannel_store.py\<close>: one dictionary of records, one of
  redemption leases, a millisecond clock. Its lock makes every method one atomic step. Dictionaries
  are association lists. \<open>uuid4 n\<close> is the hexadecimal text of the n-th UUID drawn.
\<close>

record mem_store =
  ms_records :: "(string \<times> pc_record) list"
  ms_leases :: "(string \<times> (string \<times> int)) list"
  ms_clock :: int
  ms_drawn :: nat

definition mem_create :: "pc_record \<Rightarrow> (mem_store, create_result) proc" where
  "mem_create record = (\<lambda>s. case channel_key (r_network record) (r_channel_id record) of
     Inl e \<Rightarrow> (Inl e, s)
   | Inr key \<Rightarrow> (case map_of (ms_records s) key of
       Some existing \<Rightarrow>
         if existing = record then (Inr \<lparr>c_created = False, c_record = existing\<rparr>, s)
         else (Inl (StoreError ''CHANNEL_CONFLICT''), s)
     | None \<Rightarrow> (Inr \<lparr>c_created = True, c_record = record\<rparr>,
                s\<lparr>ms_records := AList.update key record (ms_records s)\<rparr>)))"

definition mem_get :: "string \<Rightarrow> string \<Rightarrow> (mem_store, pc_record option) proc" where
  "mem_get network channel = (\<lambda>s. case channel_key network channel of
     Inl e \<Rightarrow> (Inl e, s) | Inr key \<Rightarrow> (Inr (map_of (ms_records s) key), s))"

definition mem_mutate :: "string \<Rightarrow> 'a mutation \<Rightarrow> (mem_store, 'a) proc" where
  "mem_mutate key mutation = (\<lambda>s. case mutation (map_of (ms_records s) key) of
     Inl e \<Rightarrow> (Inl e, s)
   | Inr (result, updated) \<Rightarrow> (Inr result, case updated of
       None \<Rightarrow> s | Some r \<Rightarrow> s\<lparr>ms_records := AList.update key r (ms_records s)\<rparr>))"

definition clock_or :: "int option \<Rightarrow> mem_store \<Rightarrow> int" where
  "clock_or timestamp s = (case timestamp of Some t \<Rightarrow> t | None \<Rightarrow> ms_clock s)"

definition mem_advance ::
  "string \<Rightarrow> string \<Rightarrow> string \<Rightarrow> string \<Rightarrow> string \<Rightarrow> string option \<Rightarrow> int option \<Rightarrow>
     (mem_store, advance_result) proc"
where
  "mem_advance network channel cumulative requested signature funded timestamp = (\<lambda>s.
     case channel_key network channel of Inl e \<Rightarrow> (Inl e, s)
   | Inr key \<Rightarrow> (case advance_mutation network channel cumulative requested signature funded
                        (clock_or timestamp s) of
       Inl e \<Rightarrow> (Inl e, s) | Inr mutation \<Rightarrow> mem_mutate key mutation s))"

definition mem_mark_redeemed ::
  "string \<Rightarrow> string \<Rightarrow> string \<Rightarrow> string option \<Rightarrow> int option \<Rightarrow> (mem_store, pc_record) proc"
where
  "mem_mark_redeemed network channel cumulative reference timestamp = (\<lambda>s.
     case channel_key network channel of Inl e \<Rightarrow> (Inl e, s)
   | Inr key \<Rightarrow> (case redeem_mutation network channel cumulative reference (clock_or timestamp s) of
       Inl e \<Rightarrow> (Inl e, s) | Inr mutation \<Rightarrow> mem_mutate key mutation s))"

definition mem_finalize ::
  "string \<Rightarrow> string \<Rightarrow> string \<Rightarrow> string option \<Rightarrow> int option \<Rightarrow> (mem_store, pc_record) proc"
where
  "mem_finalize network channel reason expected timestamp = (\<lambda>s.
     case channel_key network channel of Inl e \<Rightarrow> (Inl e, s)
   | Inr key \<Rightarrow> (case finalize_mutation network channel reason expected (clock_or timestamp s) of
       Inl e \<Rightarrow> (Inl e, s) | Inr mutation \<Rightarrow> mem_mutate key mutation s))"

text \<open>\<open>records[cursor:end]\<close> with the cursor of the next page, 0 when this was the last.\<close>

definition page_of :: "'a list \<Rightarrow> int \<Rightarrow> int \<Rightarrow> int \<times> 'a list" where
  "page_of records cursor limit =
     (let n = int (length records) in
      if n \<le> cursor then (0, [])
      else let stop = min n (cursor + limit)
           in (if n \<le> stop then 0 else stop,
               take (nat (stop - cursor)) (drop (nat cursor) records)))"

definition mem_scan :: "string \<Rightarrow> int \<Rightarrow> int \<Rightarrow> (mem_store, int \<times> pc_record list) proc" where
  "mem_scan network cursor limit = (\<lambda>s. case validate_scan cursor limit of
     Inl e \<Rightarrow> (Inl e, s)
   | Inr (cursor', limit') \<Rightarrow> (case literal ''network'' xrpl_networks (JStr network) of
       Inl e \<Rightarrow> (Inl e, s)
     | Inr n \<Rightarrow>
         (Inr (page_of (List.map_filter (map_of (ms_records s))
                 (filter (starts_with (channel_prefix n)) (sort (map fst (ms_records s)))))
               cursor' limit'), s)))"

definition mem_claim :: "(nat \<Rightarrow> string) \<Rightarrow> string \<Rightarrow> string \<Rightarrow> int \<Rightarrow> (mem_store, string option) proc" where
  "mem_claim uuid4 network channel lease_seconds = (\<lambda>s. case validate_lease_seconds lease_seconds of
     Inl e \<Rightarrow> (Inl e, s)
   | Inr seconds \<Rightarrow> (case redemption_lease_key network channel of
       Inl e \<Rightarrow> (Inl e, s)
     | Inr key \<Rightarrow>
         if (case map_of (ms_leases s) key of None \<Rightarrow> False | Some (_, until) \<Rightarrow> ms_clock s < until)
         then (Inr None, s)
         else let lease_id = uuid4 (ms_drawn s) in
           (Inr (Some lease_id),
            s\<lparr>ms_leases := AList.update key (lease_id, ms_clock s + seconds * 1000) (ms_leases s),
              ms_drawn := Suc (ms_drawn s)\<rparr>)))"

definition mem_release :: "string \<Rightarrow> string \<Rightarrow> string \<Rightarrow> (mem_store, unit) proc" where
  "mem_release network channel lease_id = (\<lambda>s. case redemption_lease_key network channel of
     Inl e \<Rightarrow> (Inl e, s)
   | Inr key \<Rightarrow>
       (Inr (), if (case map_of (ms_leases s) key of None \<Rightarrow> False | Some (l, _) \<Rightarrow> l = lease_id)
                then s\<lparr>ms_leases := AList.delete key (ms_leases s)\<rparr> else s))"

definition mem_ops :: "(nat \<Rightarrow> string) \<Rightarrow> mem_store store_ops" where
  "mem_ops uuid4 = \<lparr>st_create = mem_create, st_get = mem_get, st_advance = mem_advance,
     st_mark_redeemed = mem_mark_redeemed, st_finalize = mem_finalize, st_scan = mem_scan,
     st_claim = mem_claim uuid4, st_release = mem_release\<rparr>"

definition mem_init :: "int \<Rightarrow> mem_store" where
  "mem_init clock = \<lparr>ms_records = [], ms_leases = [], ms_clock = clock, ms_drawn = 0\<rparr>"

section \<open>The store meets the contract\<close>

definition mem_map :: "mem_store \<Rightarrow> channel_map" where
  "mem_map s = map_of (ms_records s)"

definition mem_ok :: "mem_store \<Rightarrow> bool" where
  "mem_ok s \<longleftrightarrow> good (mem_map s)"

lemma mem_map_update [simp]:
  "mem_map (s\<lparr>ms_records := AList.update k r (ms_records s)\<rparr>) = (mem_map s)(k \<mapsto> r)"
  by (simp add: mem_map_def update_conv')

lemma mem_map_other [simp]:
  "mem_map (s\<lparr>ms_leases := l\<rparr>) = mem_map s" "mem_map (s\<lparr>ms_drawn := n\<rparr>) = mem_map s"
  "mem_map (s\<lparr>ms_clock := c\<rparr>) = mem_map s"
  by (simp_all add: mem_map_def)

lemma mem_mutate_refines:
  "mem_mutate k mut s = (r, s') \<Longrightarrow> (r, mem_map s') = atomically k mut (mem_map s)"
  by (auto simp: mem_mutate_def atomically_def mem_map_def update_conv' split: sum.splits option.splits)

lemma mem_get_refines: "mem_get n c s = (r, s') \<Longrightarrow> (r, mem_map s') = spec_get n c (mem_map s)"
  by (auto simp: mem_get_def spec_get_def mem_map_def split: sum.splits)

lemma mem_create_refines: "mem_create rc s = (r, s') \<Longrightarrow> (r, mem_map s') = spec_create rc (mem_map s)"
  by (auto simp: mem_create_def spec_create_def atomically_def create_mutation_def mem_map_def update_conv'
      split: sum.splits option.splits if_splits)

lemma mem_advance_refines:
  "mem_advance n c u q g f t s = (r, s') \<Longrightarrow>
     (r, mem_map s') = spec_advance n c u q g f (clock_or t s) (mem_map s)"
  by (auto simp: mem_advance_def spec_advance_def spec_mutate_def dest: mem_mutate_refines split: sum.splits)

lemma mem_redeem_refines:
  "mem_mark_redeemed n c u ref t s = (r, s') \<Longrightarrow>
     (r, mem_map s') = spec_redeem n c u ref (clock_or t s) (mem_map s)"
  by (auto simp: mem_mark_redeemed_def spec_redeem_def spec_mutate_def dest: mem_mutate_refines split: sum.splits)

lemma mem_finalize_refines:
  "mem_finalize n c reason e t s = (r, s') \<Longrightarrow>
     (r, mem_map s') = spec_finalize n c reason e (clock_or t s) (mem_map s)"
  by (auto simp: mem_finalize_def spec_finalize_def spec_mutate_def dest: mem_mutate_refines split: sum.splits)

lemma mem_claim_frame: "mem_claim u n c l s = (r, s') \<Longrightarrow> mem_map s' = mem_map s"
  by (auto simp: mem_claim_def Let_def mem_map_def split: sum.splits if_splits)

lemma mem_release_frame: "mem_release n c l s = (r, s') \<Longrightarrow> mem_map s' = mem_map s"
  by (auto simp: mem_release_def split: sum.splits)

lemma set_page_of: "page_of rs c l = (n, xs) \<Longrightarrow> set xs \<subseteq> set rs"
  by (auto simp: page_of_def Let_def split: if_splits dest!: in_set_takeD in_set_dropD)

lemma mem_scan_records:
  assumes "mem_scan network cursor limit s = (r, s')" and "mem_ok s"
  shows "s' = s \<and> (\<forall>c rs. r = Inr (c, rs) \<longrightarrow>
    (\<forall>x \<in> set rs. r_network x = network \<and> (\<exists>k. mem_map s k = Some x)))"
proof (intro conjI allI impI ballI)
  show "s' = s" using assms(1) by (auto simp: mem_scan_def split: sum.splits prod.splits)
  fix c rs x
  assume r: "r = Inr (c, rs)" and x: "x \<in> set rs"
  from assms(1) r have n: "network \<in> set xrpl_networks"
    and pg: "page_of (List.map_filter (map_of (ms_records s))
        (filter (starts_with (channel_prefix network)) (sort (map fst (ms_records s)))))
        (fst (cursor, limit)) (snd (cursor, limit)) = (c, rs)"
    by (auto simp: mem_scan_def validate_scan_def split: sum.splits prod.splits if_splits)
  from set_page_of [OF pg] x obtain k where k: "map_of (ms_records s) k = Some x"
    and p: "starts_with (channel_prefix network) k"
    by (fastforce simp: List.map_filter_def)
  then show "\<exists>k. mem_map s k = Some x" by (auto simp: mem_map_def)
  from k assms(2) have "keyed k x" by (auto simp: mem_ok_def good_def mem_map_def)
  then have wf: "wf_record x" and "k = channel_prefix (r_network x) @ r_channel_id x"
    by (auto simp: keyed_def wf_record_key)
  with p channel_prefix_split [of "r_network x" network] n show "r_network x = network"
    by (auto simp: starts_with_append wf_record_def)
qed

lemma mem_step_ok:
  "mem_ok s \<Longrightarrow> evolves (mem_map s) (mem_map s') \<Longrightarrow> mem_ok s'"
  by (simp add: mem_ok_def evolves_good)

lemma mem_timed_linearizable:
  assumes refines: "\<And>s r s'. p s = (r, s') \<Longrightarrow> (r, mem_map s') = spec (clock_or timestamp s) (mem_map s)"
    and moves: "\<And>t m r m'. good m \<Longrightarrow> spec t m = (r, m') \<Longrightarrow> evolves m m'"
  shows "linearizable mem_ok mem_map
    (\<lambda>m out. \<exists>t. (\<forall>t'. timestamp = Some t' \<longrightarrow> t = t') \<and> out = spec t m) p"
proof (rule linearizableI)
  fix w r w'
  assume ok: "mem_ok w" and run: "p w = (r, w')"
  note eq = refines [OF run]
  have ev: "evolves (mem_map w) (mem_map w')"
    using moves [OF _ eq [symmetric]] ok by (simp add: mem_ok_def)
  have "\<forall>t'. timestamp = Some t' \<longrightarrow> clock_or timestamp w = t'" by (simp add: clock_or_def)
  with eq have "\<exists>t. (\<forall>t'. timestamp = Some t' \<longrightarrow> t = t') \<and> (r, mem_map w') = spec t (mem_map w)"
    by blast
  with ev ok show "mem_ok w' \<and> (\<exists>t. (\<forall>t'. timestamp = Some t' \<longrightarrow> t = t') \<and>
      (r, mem_map w') = spec t (mem_map w)) \<and> evolves (mem_map w) (mem_map w')"
    using mem_step_ok by blast
qed

interpretation mem: channel_store "mem_ops uuid4" mem_map mem_ok for uuid4
proof (unfold_locales, goal_cases)
  case (1 w)
  then show ?case by (simp add: mem_ok_def)
next
  case (2 r)
  then show ?case
    by (auto simp: mem_ops_def intro!: linearizableI dest!: mem_create_refines
        dest: spec_create_evolves [OF sym] intro: mem_step_ok)
next
  case (3 network channel)
  then show ?case
    by (auto simp: mem_ops_def intro!: linearizableI dest!: mem_get_refines
        dest: spec_get_evolves [OF sym] intro: mem_step_ok)
next
  case (4 timestamp network channel cumulative requested signature funded)
  show ?case unfolding mem_ops_def store_ops.simps
    by (rule mem_timed_linearizable
        [where spec = "spec_advance network channel cumulative requested signature funded"])
      (fact mem_advance_refines, fact spec_advance_evolves)
next
  case (5 timestamp network channel cumulative reference)
  show ?case unfolding mem_ops_def store_ops.simps
    by (rule mem_timed_linearizable
        [where spec = "spec_redeem network channel cumulative reference"])
      (fact mem_redeem_refines, fact spec_redeem_evolves)
next
  case (6 timestamp network channel reason expected)
  show ?case unfolding mem_ops_def store_ops.simps
    by (rule mem_timed_linearizable
        [where spec = "spec_finalize network channel reason expected"])
      (fact mem_finalize_refines, fact spec_finalize_evolves)
next
  case (7 network cursor limit)
  show ?case
    by (rule linearizableI) (auto simp: mem_ops_def dest!: mem_scan_records)
next
  case (8 network channel seconds)
  show ?case
    by (rule linearizableI) (auto simp: mem_ops_def dest!: mem_claim_frame simp: mem_ok_def)
next
  case (9 network channel lease)
  show ?case
    by (rule linearizableI) (auto simp: mem_ops_def dest!: mem_release_frame simp: mem_ok_def)
qed

end
