(* ===== verification/StoreProperties.thy ===== *)
theory StoreProperties
  imports RedisSession MemStore Demo
begin

text \<open>
  The properties of the channel stores: the Redis store refines the abstract store under any
  interleaving, both stores compute the same when nothing interferes, and a redemption lease is held by
  one worker at a time.
\<close>

section \<open>Refinement\<close>

text \<open>
  C19. The Redis store refines the abstract store: whatever other replicas commit between the read and
  the write of every attempt, an advance answers exactly what the abstract advance answers at one map
  between the map before and the map after, and leaves every channel at least where it was; the only other
  outcome is an infrastructure error.
\<close>

theorem redis_advance_refines:
  assumes "client_ok s" and "rs_advance network channel cumulative requested signature funded (Some t) s = (r, s')"
  shows "client_ok s' \<and> evolves (client_map s) (client_map s') \<and>
    ((\<exists>m1 m2. evolves (client_map s) m1 \<and>
        spec_advance network channel cumulative requested signature funded t m1 = (r, m2) \<and> evolves m2 (client_map s')) \<or>
     (\<exists>msg. r = Inl (OtherError msg)))"
proof -
  note law = redis.advance_law [of "Some t" network channel cumulative requested signature funded,
      unfolded redis_ops_def store_ops.simps linearizable_def, rule_format, OF assms]
  then consider (done_at) m1 m2 t' where "evolves (client_map s) m1" "t' = t"
      "(r, m2) = spec_advance network channel cumulative requested signature funded t' m1" "evolves m2 (client_map s')"
    | (infra) msg where "r = Inl (OtherError msg)"
    by (elim conjE disjE exE) simp_all
  then show ?thesis
  proof cases
    case done_at
    then have "spec_advance network channel cumulative requested signature funded t m1 = (r, m2)" by simp
    with done_at law show ?thesis by blast
  next
    case infra
    with law show ?thesis by blast
  qed
qed

lemma redis_advance_refines_witness:
  "\<exists>r s'. rs_advance ''testnet'' demo_channel ''5'' ''5'' ''AB'' None (Some 1) demo_start = (r, s') \<and> client_ok s'"
proof -
  obtain r s' where run: "rs_advance ''testnet'' demo_channel ''5'' ''5'' ''AB'' None (Some 1) demo_start = (r, s')" by fastforce
  from redis_advance_refines [OF demo_start_ok run] run show ?thesis by blast
qed

section \<open>One behaviour, two stores\<close>

text \<open>
  The coupling of the two stores: no other replica acts, they hold the same channels, their clocks
  agree (Redis counts microseconds), and they hold the same leases. \<open>held_lease\<close> is a lease of the
  in-memory store that has not run out.
\<close>

definition lease_space :: "string \<Rightarrow> bool" where
  "lease_space k \<longleftrightarrow> starts_with ''facilitator:paychannel-redemption-lease:'' k"

definition held_lease :: "mem_store \<Rightarrow> string \<Rightarrow> (string \<times> int) option" where
  "held_lease ms k = (case map_of (ms_leases ms) k of
     None \<Rightarrow> None | Some (l, until) \<Rightarrow> if ms_clock ms < until then Some (l, until) else None)"

definition same_leases :: "redis \<Rightarrow> mem_store \<Rightarrow> bool" where
  "same_leases db ms \<longleftrightarrow> (\<forall>k. lease_space k \<longrightarrow> map_of (rd_strings (purge db)) k =
     map_option (\<lambda>(l, until). (Text l, Some (until * 1000))) (held_lease ms k))"

definition in_step :: "redis_client \<Rightarrow> mem_store \<Rightarrow> bool" where
  "in_step s ms \<longleftrightarrow> client_ok s \<and> rc_rivals s = [] \<and> client_map s = mem_map ms \<and>
     distinct (map fst (ms_records ms)) \<and> rc_clock s = ms_clock ms \<and>
     rd_now (rc_db s) = ms_clock ms * 1000 \<and> same_leases (rc_db s) ms"

text \<open>Two runs agree when they have the same outcome and leave coupled stores.\<close>

definition agree :: "'a res \<times> redis_client \<Rightarrow> 'a res \<times> mem_store \<Rightarrow> bool" where
  "agree a b \<longleftrightarrow> fst a = fst b \<and> in_step (snd a) (snd b)"

lemma in_stepD:
  assumes "in_step s ms"
  shows "client_ok s" "rc_rivals s = []" "client_map s = mem_map ms" "rc_clock s = ms_clock ms"
    "rd_now (rc_db s) = ms_clock ms * 1000" "same_leases (rc_db s) ms" "distinct (map fst (ms_records ms))"
  using assms by (auto simp: in_step_def)

lemma agree_refused [simp]: "agree (Inl e, s) (Inl e', ms) \<longleftrightarrow> e = e' \<and> in_step s ms"
  "agree (Inr x, s) (Inr x', ms) \<longleftrightarrow> x = x' \<and> in_step s ms"
  by (auto simp: agree_def)

subsection \<open>Mutations\<close>

lemma space_disjoint: "channel_space k \<Longrightarrow> lease_space k' \<Longrightarrow> k \<noteq> k'"
  by (auto simp: channel_space_def lease_space_def starts_with_append)

lemma same_leases_purge [simp]: "same_leases (purge db) ms = same_leases db ms"
  by (simp add: same_leases_def)

lemma live_rset:
  assumes "rd_ok db"
  shows "map_of (rd_strings (purge (rset k v ex db))) k' = (if k' = k
    then (if expired (rd_now db) (expires_at db ex) then None else Some (v, expires_at db ex))
    else map_of (rd_strings (purge db)) k')"
  using assms by (auto simp: map_of_purge map_of_rset split: option.splits)

lemma live_rdelete:
  assumes "rd_ok db"
  shows "map_of (rd_strings (purge (rdelete k db))) k' = (if k' = k then None else map_of (rd_strings (purge db)) k')"
  using assms by (auto simp: map_of_purge map_of_rdelete split: option.splits)

lemma same_leases_rset_channel:
  "same_leases db ms \<Longrightarrow> rd_ok db \<Longrightarrow> channel_space k \<Longrightarrow> same_leases (rset k v None db) ms"
  using space_disjoint [of k] by (auto simp: same_leases_def live_rset)

lemma rs_mutate_alone:
  assumes "client_ok s" and "rc_rivals s = []" and "channel_space k" and "rs_mutate k mut s = (r, s')"
  shows "(r, client_map s') = atomically k mut (client_map s) \<and> rc_rivals s' = [] \<and>
    rc_clock s' = rc_clock s \<and> rd_now (rc_db s') = rd_now (rc_db s) \<and>
    (same_leases (rc_db s) ms \<longrightarrow> same_leases (rc_db s') ms) \<and> rd_ok (rc_db s') \<and> channel_values (rc_db s')"
proof -
  from transact_linear [OF assms(4) [unfolded rs_mutate_def]] assms(2)
  have at: "atomic_plan [k] (mutate_plan k mut) (rc_db s) = (r, rc_db s')" and "rc_rivals s' = []"
    and s': "s' = s\<lparr>rc_db := rc_db s', rc_rivals := rc_rivals s'\<rparr>" by (auto simp: run_rivals_def)
  from mutate_plan_refines [OF client_state(1) [OF assms(1)] assms(3) at]
  have "(r, client_map s') = atomically k mut (client_map s)" "rd_ok (rc_db s')" "channel_values (rc_db s')"
    by (auto simp: client_map_def)
  moreover from at have "rc_db s' = rc_db s \<or> (\<exists>v. rc_db s' = rset k v None (purge (rc_db s)))"
    by (auto simp: atomic_plan_def mutate_plan_def rexec_def dest: sym split: sum.splits prod.splits option.splits)
  then have "rd_now (rc_db s') = rd_now (rc_db s)" "same_leases (rc_db s) ms \<longrightarrow> same_leases (rc_db s') ms"
    using same_leases_rset_channel [of "purge (rc_db s)" ms k] client_state(2) [OF assms(1)] assms(3) by auto
  moreover from s' have "rc_clock s' = rc_clock s" by (metis redis_client.surjective redis_client.update_convs(1,2) redis_client.select_convs(3))
  ultimately show ?thesis using \<open>rc_rivals s' = []\<close> by blast
qed

lemma agree_mutate:
  assumes step: "in_step s ms" and "channel_space k" and safe: "client_ok (snd (rs_mutate k mut s))"
  shows "agree (rs_mutate k mut s) (mem_mutate k mut ms)"
proof -
  obtain r s' r' ms' where runs: "rs_mutate k mut s = (r, s')" "mem_mutate k mut ms = (r', ms')" by fastforce
  note d = in_stepD [OF step]
  have same: "same_leases db ms' = same_leases db ms" "ms_clock ms' = ms_clock ms" "distinct (map fst (ms_records ms'))" for db
    using runs(2) d(7) by (auto simp: mem_mutate_def same_leases_def held_lease_def distinct_update split: sum.splits option.splits)
  from rs_mutate_alone [OF d(1,2) assms(2) runs(1), of ms] mem_mutate_refines [OF runs(2)] d(3)
  have "(r, client_map s') = (r', mem_map ms')" by simp
  then show ?thesis using rs_mutate_alone [OF d(1,2) assms(2) runs(1), of ms] d same safe
    by (simp add: agree_def runs in_step_def)
qed

lemma agree_timed:
  assumes step: "in_step s ms" and "channel_key n c = Inr k" and "client_ok (snd (case mutation of Inl e \<Rightarrow> (Inl e, s) | Inr m \<Rightarrow> rs_mutate k m s))"
  shows "agree (case mutation of Inl e \<Rightarrow> (Inl e, s) | Inr m \<Rightarrow> rs_mutate k m s)
    (case mutation of Inl e \<Rightarrow> (Inl e, ms) | Inr m \<Rightarrow> mem_mutate k m ms)"
  using agree_mutate [OF step channel_key_space [OF assms(2)]] step assms(3)
  by (cases mutation) simp_all

lemma redis_keeps:
  assumes "client_ok s"
  shows "client_ok (snd (rs_advance n c u q g f t s))" "client_ok (snd (rs_mark_redeemed n c u ref t s))"
    "client_ok (snd (rs_finalize n c reason e t s))" "wf_record record \<Longrightarrow> client_ok (snd (rs_create record s))"
  using assms redis.advance_law [of t n c u q g f] redis.redeem_law [of t n c u ref]
    redis.finalize_law [of t n c reason e] redis.create_law [of "record"]
  by (auto simp: redis_ops_def linearizable_def split_pairs2)

lemma rs_clock_agrees: "in_step s ms \<Longrightarrow> rs_clock_or t s = clock_or t ms"
  by (simp add: rs_clock_or_def clock_or_def in_step_def split: option.split)

lemma agree_advance: "in_step s ms \<Longrightarrow> agree (rs_advance n c u q g f t s) (mem_advance n c u q g f t ms)"
  using agree_timed [where n = n and c = c and s = s and ms = ms and mutation = "advance_mutation n c u q g f (clock_or t ms)"] redis_keeps(1) [of s n c u q g f t] rs_clock_agrees [of s ms t] in_stepD(1) [of s ms]
  by (cases "channel_key n c") (simp_all add: rs_advance_def mem_advance_def)

lemma agree_redeem: "in_step s ms \<Longrightarrow> agree (rs_mark_redeemed n c u ref t s) (mem_mark_redeemed n c u ref t ms)"
  using agree_timed [where n = n and c = c and s = s and ms = ms and mutation = "redeem_mutation n c u ref (clock_or t ms)"] redis_keeps(2) [of s n c u ref t] rs_clock_agrees [of s ms t] in_stepD(1) [of s ms]
  by (cases "channel_key n c") (simp_all add: rs_mark_redeemed_def mem_mark_redeemed_def)

lemma agree_finalize: "in_step s ms \<Longrightarrow> agree (rs_finalize n c reason e t s) (mem_finalize n c reason e t ms)"
  using agree_timed [where n = n and c = c and s = s and ms = ms and mutation = "finalize_mutation n c reason e (clock_or t ms)"] redis_keeps(3) [of s n c reason e t] rs_clock_agrees [of s ms t] in_stepD(1) [of s ms]
  by (cases "channel_key n c") (simp_all add: rs_finalize_def mem_finalize_def)

lemma mem_create_mutate:
  "mem_create record ms = (case channel_key (r_network record) (r_channel_id record) of
     Inl e \<Rightarrow> (Inl e, ms) | Inr k \<Rightarrow> mem_mutate k (create_mutation record) ms)"
  by (auto simp: mem_create_def mem_mutate_def create_mutation_def split: sum.splits option.splits)

lemma agree_create:
  assumes "in_step s ms" and "wf_record record"
  shows "agree (rs_create record s) (mem_create record ms)"
proof -
  obtain k where k: "channel_key (r_network record) (r_channel_id record) = Inr k" using assms(2) by (simp add: wf_record_key)
  from agree_mutate [OF assms(1) channel_key_space [OF this], of "create_mutation record"]
    redis_keeps(4) [OF in_stepD(1) [OF assms(1)] assms(2)]
  show ?thesis by (simp add: rs_create_def mem_create_mutate k)
qed


subsection \<open>Reads\<close>

lemma agree_get:
  assumes "in_step s ms" and "pydantic_strip c = c"
  shows "agree (rs_get n c s) (mem_get n c ms)"
proof (cases "channel_key n c")
  case (Inl e)
  then show ?thesis using assms(1) by (simp add: rs_get_def mem_get_def)
next
  case (Inr k)
  then have "hex64 c" using assms(2) by (auto simp: channel_key_def res_iffs voucher_payload_Inr)
  obtain r s' where run: "rs_get n c s = (r, s')" by fastforce
  from rs_get_exact [OF in_stepD(1) [OF assms(1)] run \<open>hex64 c\<close>] Inr assms(1)
  show ?thesis by (auto simp: run spec_get_def mem_get_def in_step_def mem_map_def)
qed

lemma live_channel:
  assumes "db_ok db" and "channel_space k"
  shows "k \<in> set (map fst (rd_strings (purge db))) \<longleftrightarrow> redis_map db k \<noteq> None"
proof -
  have "map_of (rd_strings (purge db)) k \<noteq> None \<longleftrightarrow> redis_map db k \<noteq> None"
  proof (cases "map_of (rd_strings db) k")
    case None
    with assms show ?thesis by (simp add: db_ok_def map_of_purge redis_map_def)
  next
    case (Some p)
    with assms obtain r where "p = (Json r, None)" unfolding db_ok_def channel_values_def by (cases p) blast
    with Some assms show ?thesis by (simp add: db_ok_def map_of_purge redis_map_def expired_def)
  qed
  then show ?thesis by (metis map_of_eq_None_iff list.set_map)
qed

lemma same_keys:
  assumes "in_step s ms"
  shows "sort (filter (starts_with (channel_prefix n)) (map fst (rd_strings (purge (rc_db s))))) =
    filter (starts_with (channel_prefix n)) (sort (map fst (ms_records ms)))"
proof (rule sorted_distinct_set_unique)
  note d = in_stepD [OF assms]
  have "rd_ok (purge (rc_db s))" using client_state(2) [OF d(1)] by simp
  then show "distinct (sort (filter (starts_with (channel_prefix n)) (map fst (rd_strings (purge (rc_db s))))))"
    by (simp add: rd_ok_def)
  have "k \<in> set (map fst (rd_strings (purge (rc_db s)))) \<longleftrightarrow> k \<in> set (map fst (ms_records ms))"
    if "starts_with (channel_prefix n) k" for k
  proof -
    from that have "channel_space k" by (auto simp: starts_with_append)
    from live_channel [OF client_state(1) [OF d(1)] this] d(3)
    have "k \<in> set (map fst (rd_strings (purge (rc_db s)))) \<longleftrightarrow> map_of (ms_records ms) k \<noteq> None"
      by (metis client_map_def mem_map_def)
    then show ?thesis by (simp add: map_of_eq_None_iff)
  qed
  then show "set (sort (filter (starts_with (channel_prefix n)) (map fst (rd_strings (purge (rc_db s)))))) =
      set (filter (starts_with (channel_prefix n)) (sort (map fst (ms_records ms))))"
    by auto
qed (use in_stepD(7) [OF assms] in \<open>simp_all add: filter_sort distinct_filter\<close>)

lemma scan_records_all:
  assumes "db_ok db" and n: "n \<in> set xrpl_networks"
  shows "\<forall>k \<in> set keys. starts_with (channel_prefix n) k \<and> redis_map db k \<noteq> None \<Longrightarrow>
    scan_records n (zip keys (rmget db keys)) = Inr (map (\<lambda>k. the (redis_map db k)) keys)"
proof (induction keys)
  case Nil
  then show ?case by (simp add: rmget_def)
next
  case (Cons k keys)
  then obtain r where r: "redis_map db k = Some r" and p: "starts_with (channel_prefix n) k" by auto
  then have d: "deserialize (rget db k) = Inr (Some r)" using deserialize_rget [OF assms(1)] by (auto simp: starts_with_append)
  from r assms(1) have "keyed k r" by (auto simp: db_ok_def good_def)
  then have wf: "wf_record r" and key: "channel_key (r_network r) (r_channel_id r) = Inr k" unfolding keyed_def by blast+
  then have k: "k = channel_prefix (r_network r) @ r_channel_id r" and h: "hex64 (r_channel_id r)"
    using wf_record_key [OF wf] by (simp_all add: wf_record_def)
  with p channel_prefix_split [of "r_network r" n] n wf
  have "r_network r = n" by (auto simp: starts_with_append wf_record_def)
  with keyed_identity [OF \<open>keyed k r\<close> key h]
  have "require_record (Some r) n (drop (length (channel_prefix n)) k) = Inr r" by (simp add: k require_record_def)
  with d p r Cons show ?case by (simp add: rmget_def)
qed

lemma page_of_map:
  "0 \<le> cursor \<Longrightarrow> 0 < limit \<Longrightarrow> page_of (map f keys) cursor limit =
     (let stop = min (int (length keys)) (cursor + limit)
      in (if int (length keys) \<le> stop then 0 else stop, map f (take (nat (stop - cursor)) (drop (nat cursor) keys))))"
  by (auto simp: page_of_def Let_def take_map drop_map min_def)

lemma map_filter_total: "\<forall>k \<in> set keys. f k \<noteq> None \<Longrightarrow> List.map_filter f keys = map (\<lambda>k. the (f k)) keys"
  by (induction keys) (auto simp: List.map_filter_def)

lemma agree_scan:
  assumes "in_step s ms"
  shows "agree (rs_scan n cursor limit s) (mem_scan n cursor limit ms)"
proof (cases "0 \<le> cursor \<and> 0 < limit \<and> n \<in> set xrpl_networks")
  case False
  then show ?thesis using assms
    by (auto simp: rs_scan_def mem_scan_def validate_scan_def literal_def split: sum.splits)
next
  case ok: True
  note d = in_stepD [OF assms]
  let ?keys = "filter (starts_with (channel_prefix n)) (sort (map fst (ms_records ms)))"
  have m: "client_map s k = map_of (ms_records ms) k" for k using d(3) by (simp add: mem_map_def)
  have all: "\<forall>k \<in> set ?keys. map_of (ms_records ms) k \<noteq> None" by (auto simp: map_of_eq_None_iff image_iff)
  let ?stop = "min (int (length ?keys)) (cursor + limit)"
  let ?page = "take (nat (?stop - cursor)) (drop (nat cursor) ?keys)"
  have "\<forall>k \<in> set ?page. starts_with (channel_prefix n) k \<and> redis_map (rc_db s) k \<noteq> None"
    using all m by (auto simp: client_map_def dest!: in_set_takeD in_set_dropD)
  from scan_records_all [OF client_state(1) [OF d(1)] _ this] ok
  have recs: "scan_records n (zip ?page (rmget (rc_db s) ?page)) = Inr (map (\<lambda>k. the (map_of (ms_records ms) k)) ?page)"
    using m by (simp add: client_map_def)
  have "rscan cursor (channel_prefix n) limit (rc_db s) = (if int (length ?keys) \<le> ?stop then 0 else ?stop, ?page)"
    by (simp add: rscan_def same_keys [OF assms] Let_def)
  then have rs: "rs_scan n cursor limit s =
      (Inr (if int (length ?keys) \<le> ?stop then 0 else ?stop, map (\<lambda>k. the (map_of (ms_records ms) k)) ?page), s)"
    using ok recs by (simp add: rs_scan_def validate_scan_def)
  have "page_of (List.map_filter (map_of (ms_records ms)) ?keys) cursor limit =
      (if int (length ?keys) \<le> ?stop then 0 else ?stop, map (\<lambda>k. the (map_of (ms_records ms) k)) ?page)"
    unfolding map_filter_total [OF all] by (simp only: page_of_map ok Let_def)
  then show ?thesis using ok assms by (simp add: rs mem_scan_def validate_scan_def)
qed

subsection \<open>Leases and time\<close>

lemma lease_key_space: "redemption_lease_key n c = Inr k \<Longrightarrow> lease_space k"
  by (auto simp: redemption_lease_key_def res_iffs lease_space_def starts_with_append)

lemma rget_lease:
  assumes "in_step s ms" and "lease_space k"
  shows "rget (rc_db s) k = map_option (\<lambda>(l, until). Text l) (held_lease ms k)"
  using in_stepD(6) [OF assms(1)] assms(2)
  by (simp add: rget_def same_leases_def option.map_comp comp_def case_prod_unfold)

lemma in_step_leases:
  assumes "in_step s ms" and "client_ok s' \<and> client_map s' = client_map s"
    and "rc_rivals s' = rc_rivals s" and "rc_clock s' = rc_clock s" and "rd_now (rc_db s') = rd_now (rc_db s)"
    and "ms_records ms' = ms_records ms" and "ms_clock ms' = ms_clock ms" and "same_leases (rc_db s') ms'"
  shows "in_step s' ms'"
  using assms by (simp add: in_step_def mem_map_def)

lemma same_leases_granted:
  assumes "in_step s ms" and "0 < seconds"
  shows "same_leases (rset k (Text i) (Some seconds) (rc_db s))
    (ms\<lparr>ms_leases := AList.update k (i, ms_clock ms + seconds * 1000) (ms_leases ms), ms_drawn := d\<rparr>)"
  using in_stepD(5,6) [OF assms(1)] client_state(2) [OF in_stepD(1) [OF assms(1)]] assms(2)
  by (auto simp: same_leases_def live_rset held_lease_def update_conv' expires_at_def expired_def cong: option.case_cong)

lemma agree_claim:
  assumes step: "in_step s ms" and same_id: "ids (rc_drawn s) = ids' (ms_drawn ms)"
  shows "agree (rs_claim ids n c seconds s) (mem_claim ids' n c seconds ms)"
proof (cases "0 < seconds")
  case False
  then show ?thesis using step by (simp add: rs_claim_def mem_claim_def validate_lease_seconds_def)
next
  case pos: True
  have frame: "client_ok (snd (rs_claim ids n c seconds s)) \<and> client_map (snd (rs_claim ids n c seconds s)) = client_map s"
    using rs_claim_frame [OF in_stepD(1) [OF step], of ids n c seconds] by (metis prod.collapse)
  show ?thesis
  proof (cases "redemption_lease_key n c")
    case (Inl e)
    then show ?thesis using step pos frame
      by (auto simp: rs_claim_def mem_claim_def validate_lease_seconds_def Let_def in_step_def)
  next
    case (Inr k)
    note lk = lease_key_space [OF Inr]
    show ?thesis
    proof (cases "held_lease ms k")
      case None
      then have free: "\<not> (case map_of (ms_leases ms) k of None \<Rightarrow> False | Some (_, until) \<Rightarrow> ms_clock ms < until)"
        by (auto simp: held_lease_def split: option.splits if_splits)
      show ?thesis unfolding agree_def using frame rget_lease [OF step lk] None free pos same_id
        by (auto simp: rs_claim_def mem_claim_def validate_lease_seconds_def Inr Let_def rset_nx_def
            intro!: in_step_leases [OF step] same_leases_granted [OF step pos])
    next
      case (Some held)
      then have busy: "case map_of (ms_leases ms) k of None \<Rightarrow> False | Some (_, until) \<Rightarrow> ms_clock ms < until"
        by (auto simp: held_lease_def split: option.splits if_splits)
      show ?thesis unfolding agree_def using frame rget_lease [OF step lk] Some busy pos in_stepD(6) [OF step]
        by (auto simp: rs_claim_def mem_claim_def validate_lease_seconds_def Inr Let_def rset_nx_def
            intro!: in_step_leases [OF step])
    qed
  qed
qed

lemma same_leases_released:
  assumes "in_step s ms" and "lease_space k"
  shows "same_leases (rcompare_delete k (Text i) (rc_db s))
    (if (case map_of (ms_leases ms) k of None \<Rightarrow> False | Some (l, _) \<Rightarrow> l = i)
     then ms\<lparr>ms_leases := AList.delete k (ms_leases ms)\<rparr> else ms)"
  using in_stepD(6) [OF assms(1)] client_state(2) [OF in_stepD(1) [OF assms(1)]] rget_lease [OF assms] assms(2)
  by (auto simp: rcompare_delete_def same_leases_def live_rdelete held_lease_def delete_conv' split: option.splits if_splits)

lemma agree_release:
  assumes step: "in_step s ms"
  shows "agree (rs_release n c i s) (mem_release n c i ms)"
proof (cases "redemption_lease_key n c")
  case (Inl e)
  then show ?thesis using step by (simp add: rs_release_def mem_release_def)
next
  case (Inr k)
  have frame: "client_ok (snd (rs_release n c i s)) \<and> client_map (snd (rs_release n c i s)) = client_map s"
    using rs_release_frame [OF in_stepD(1) [OF step], of n c i] by (metis prod.collapse)
  then show ?thesis unfolding agree_def using same_leases_released [OF step lease_key_space [OF Inr], of i]
    by (auto simp: rs_release_def mem_release_def Inr rcompare_delete_def intro!: in_step_leases [OF step])
qed

lemma live_radvance:
  "rd_ok db \<Longrightarrow> 0 \<le> d \<Longrightarrow> map_of (rd_strings (purge (radvance d db))) k = (case map_of (rd_strings (purge db)) k of
     None \<Rightarrow> None | Some (v, x) \<Rightarrow> if expired (rd_now db + d) x then None else Some (v, x))"
  using map_of_purge [of "db\<lparr>rd_now := rd_now db + d\<rparr>" k]
  by (auto simp: radvance_def map_of_purge rd_ok_def expired_def split: option.splits prod.splits)

lemma in_step_wait:
  assumes "in_step s ms"
  shows "in_step (s\<lparr>rc_db := radvance (int ms_passed * 1000) (rc_db s), rc_clock := rc_clock s + int ms_passed\<rparr>)
    (ms\<lparr>ms_clock := ms_clock ms + int ms_passed\<rparr>)"
proof -
  note d = in_stepD [OF assms]
  let ?db = "rc_db s\<lparr>rd_now := rd_now (rc_db s) + int ms_passed * 1000\<rparr>"
  have map: "redis_map ?db = redis_map (rc_db s)" by (simp add: redis_map_def fun_eq_iff)
  have ok: "db_ok ?db" using client_state(1) [OF d(1)] map by (simp add: db_ok_def rd_ok_def channel_values_def)
  have "same_leases (radvance (int ms_passed * 1000) (rc_db s)) (ms\<lparr>ms_clock := ms_clock ms + int ms_passed\<rparr>)"
    using d(5,6) live_radvance [OF client_state(2) [OF d(1)], of "int ms_passed * 1000"]
    by (auto simp: same_leases_def held_lease_def expired_def split: option.splits if_splits)
  then show ?thesis using d ok map purge_frame [OF ok]
    by (simp add: in_step_def client_ok_def client_map_def radvance_def mem_map_def)
qed

lemma in_step_start: "in_step \<lparr>rc_db = redis_init (1000 * t), rc_rivals = [], rc_clock = t, rc_drawn = u\<rparr> (mem_init t)"
  by (simp add: in_step_def mem_init_def client_ok_def db_ok_def redis_init_def rd_ok_def good_def channel_values_def
      client_map_def redis_map_def mem_map_def same_leases_def held_lease_def purge_def fun_eq_iff)

text \<open>
  C20. The two stores are one store: as long as no other replica interferes and their clocks agree, every
  operation has the same outcome on the in-memory store of the tests and on the Redis store of the
  deployment and leaves them with the same channels and the same leases, errors and pages of a scan
  included, with an explicit timestamp or the clock's. Fresh stores are coupled and time keeps them so.
  A lookup needs a channel ID without surrounding white space (with it only the in-memory store finds the
  record); what is created is a valid record; and a lease has the id that both draw.
\<close>

theorem stores_agree:
  assumes "in_step s ms" and "wf_record r" and "pydantic_strip c' = c'" and "ids (rc_drawn s) = ids' (ms_drawn ms)"
  shows "agree (rs_create r s) (mem_create r ms) \<and>
    agree (rs_get n c' s) (mem_get n c' ms) \<and>
    agree (rs_advance n c u q g f t s) (mem_advance n c u q g f t ms) \<and>
    agree (rs_mark_redeemed n c u ref t s) (mem_mark_redeemed n c u ref t ms) \<and>
    agree (rs_finalize n c reason e t s) (mem_finalize n c reason e t ms) \<and>
    agree (rs_scan n cursor limit s) (mem_scan n cursor limit ms) \<and>
    agree (rs_claim ids n c seconds s) (mem_claim ids' n c seconds ms) \<and>
    agree (rs_release n c i s) (mem_release n c i ms) \<and>
    in_step (s\<lparr>rc_db := radvance (int passed * 1000) (rc_db s), rc_clock := rc_clock s + int passed\<rparr>)
      (ms\<lparr>ms_clock := ms_clock ms + int passed\<rparr>) \<and>
    in_step \<lparr>rc_db = redis_init (1000 * now), rc_rivals = [], rc_clock = now, rc_drawn = d\<rparr> (mem_init now)"
  by (intro conjI agree_create agree_get agree_advance agree_redeem agree_finalize agree_scan agree_claim
      agree_release in_step_wait in_step_start assms)

text \<open>At work: a channel is created in fresh stores, a voucher accepted on it, and a page of channels read.\<close>

lemma stores_agree_witness:
  "let s1 = snd (rs_create demo_record demo_start); m1 = snd (mem_create demo_record (mem_init 0));
       a = rs_advance ''testnet'' demo_channel ''15'' ''5'' ''CD'' None None s1;
       b = mem_advance ''testnet'' demo_channel ''15'' ''5'' ''CD'' None None m1
   in is_ok (fst a) \<and> fst a = fst b \<and> client_map (snd a) = mem_map (snd b) \<and> mem_map (snd b) \<noteq> Map.empty \<and>
      rs_scan ''testnet'' 0 10 (snd a) = (fst (mem_scan ''testnet'' 0 10 (snd b)), snd a)"
proof -
  let ?id = "\<lambda>_::nat. ''u''"
  let ?s1 = "snd (rs_create demo_record demo_start)" let ?m1 = "snd (mem_create demo_record (mem_init 0))"
  let ?a = "rs_advance ''testnet'' demo_channel ''15'' ''5'' ''CD'' None None ?s1"
  let ?b = "mem_advance ''testnet'' demo_channel ''15'' ''5'' ''CD'' None None ?m1"
  have start: "in_step demo_start (mem_init 0)" using in_step_start [of 0 0] by (simp add: demo_start_def)
  have wf: "wf_record demo_record" unfolding wf_record_iff by code_simp
  have strip: "pydantic_strip demo_channel = demo_channel" by code_simp
  note both = stores_agree [where r = demo_record and c' = demo_channel and c = demo_channel and n = "''testnet''"
      and u = "''15''" and q = "''5''" and g = "''CD''" and f = None and t = None and cursor = 0 and limit = 10
      and ids = ?id and ids' = ?id, OF _ wf strip refl]
  from both [OF start] have "in_step ?s1 ?m1" by (auto simp: agree_def)
  from both [OF this] have adv: "agree ?a ?b" by blast
  then have step: "in_step (snd ?a) (snd ?b)" by (simp add: agree_def)
  from both [OF this] have scan: "agree (rs_scan ''testnet'' 0 10 (snd ?a)) (mem_scan ''testnet'' 0 10 (snd ?b))" by blast
  have "is_ok (fst ?a)" by code_simp
  moreover have "map_of (ms_records (snd ?b)) (''facilitator:paychannel:testnet:'' @ demo_channel) \<noteq> None" by code_simp
  then have "mem_map (snd ?b) \<noteq> Map.empty" by (auto simp: mem_map_def)
  moreover have "snd (rs_scan ''testnet'' 0 10 (snd ?a)) = snd ?a"
    using rs_scan_records [OF in_stepD(1) [OF step]] by (metis prod.collapse)
  then have "rs_scan ''testnet'' 0 10 (snd ?a) = (fst (mem_scan ''testnet'' 0 10 (snd ?b)), snd ?a)"
    using scan unfolding agree_def by (intro prod_eqI) simp_all
  moreover have "fst ?a = fst ?b" using adv unfolding agree_def by (rule conjunct1)
  ultimately show ?thesis using in_stepD(3) [OF step] unfolding Let_def by blast
qed

section \<open>Leases\<close>

text \<open>What may happen to a lease key: attempts to claim it, releases, and time passing.\<close>

datatype lease_event = LeaseClaim string int | LeaseRelease string | LeaseWait nat

fun lease_step :: "string \<Rightarrow> lease_event \<Rightarrow> redis \<Rightarrow> redis" where
  "lease_step key (LeaseClaim i seconds) db = snd (rset_nx key (Text i) (Some seconds) db)"
| "lease_step key (LeaseRelease i) db = rcompare_delete key (Text i) db"
| "lease_step key (LeaseWait us) db = radvance (int us) db"

definition lease_held :: "redis \<Rightarrow> string \<Rightarrow> string \<Rightarrow> int \<Rightarrow> bool" where
  "lease_held db key i until \<longleftrightarrow> rd_ok db \<and> marked db key {Text i} until"

lemma lease_step_held:
  assumes "lease_held db key i t" and "rd_now (lease_step key ev db) < t" and "ev \<noteq> LeaseRelease i"
  shows "lease_held (lease_step key ev db) key i t"
proof -
  have ok: "rd_ok db" "marked db key {Text i} t" using assms(1) by (simp_all add: lease_held_def)
  have now: "rd_now db < t" using assms(2)
    by (cases ev) (auto simp: rset_nx_def rcompare_delete_def rd_now_radvance split: if_splits)
  have live: "rget db key = Some (Text i)" using marked_live [OF ok now] by auto
  show ?thesis
  proof (cases ev)
    case (LeaseWait us)
    have "marked (db\<lparr>rd_now := rd_now db + int us\<rparr>) key {Text i} t" using ok(2) by (simp add: marked_def)
    then have "marked (radvance (int us) db) key {Text i} t" using LeaseWait assms(2) ok(1)
      by (auto simp: radvance_def rd_ok_def intro!: marked_purge)
    with LeaseWait ok(1) show ?thesis by (simp add: lease_held_def)
  qed (use ok now live assms(3) in \<open>auto simp: lease_held_def rset_nx_def rcompare_delete_def intro: marked_purge\<close>)
qed

lemma lease_step_now: "rd_now db \<le> rd_now (lease_step key ev db)"
  by (cases ev) (auto simp: rset_nx_def rcompare_delete_def)

lemma lease_steps_held:
  assumes "lease_held db key i t" and "rd_now (fold (lease_step key) evs db) < t" and "LeaseRelease i \<notin> set evs"
  shows "lease_held (fold (lease_step key) evs db) key i t"
  using assms
proof (induction evs arbitrary: db)
  case (Cons ev evs)
  have mono: "rd_now d \<le> rd_now (fold (lease_step key) evs d)" for d
    by (induction evs arbitrary: d) (auto intro: order_trans [OF lease_step_now])
  have "rd_now (lease_step key ev db) < t" using mono [of "lease_step key ev db"] Cons.prems(2) by simp
  with lease_step_held [OF Cons.prems(1) this] Cons show ?case by auto
qed simp

text \<open>
  C21. One worker redeems at a time: after a lease was granted nobody gets another one for the same channel
  until its time is over or its holder gives it up, however many replicas claim and release leases.
\<close>

theorem lease_exclusive:
  assumes "rd_ok (rc_db s)" and "redemption_lease_key n c = Inr k"
    and "rs_claim uuid4 n c seconds s = (Inr (Some i), s1)"
    and "rc_db s2 = fold (lease_step k) evs (rc_db s1)" and "LeaseRelease i \<notin> set evs"
    and "rd_now (rc_db s2) < rd_now (rc_db s1) + seconds * 1000000" and "validate_lease_seconds seconds' = Inr x"
  shows "fst (rs_claim uuid4' n c seconds' s2) = Inr None"
proof -
  let ?t = "rd_now (rc_db s1) + seconds * 1000000"
  from assms(2,3) have db: "rc_db s1 = rset k (Text i) (Some seconds) (rc_db s)"
    by (auto simp: rs_claim_def validate_lease_seconds_def rset_nx_def Let_def split: sum.splits prod.splits if_splits)
  have "marked (rc_db s1) k {Text i} ?t"
    using assms(1) by (simp add: db marked_def map_of_rset lasts_def expires_at_def)
  then have "lease_held (rc_db s1) k i ?t" using assms(1) by (simp add: lease_held_def db)
  from lease_steps_held [OF this, of evs] assms(4-6) have "rd_ok (rc_db s2)" "marked (rc_db s2) k {Text i} ?t"
    by (simp_all add: lease_held_def)
  from marked_live [OF this assms(6)] have "rget (rc_db s2) k = Some (Text i)" by simp
  with assms(2,7) show ?thesis by (simp add: rs_claim_def rset_nx_def Let_def)
qed

lemma lease_exclusive_witness:
  "fst (rs_claim (\<lambda>n. ''v'') ''testnet'' demo_channel 60 (demo_start
     \<lparr>rc_db := fold (lease_step (''facilitator:paychannel-redemption-lease:testnet:'' @ demo_channel)) [LeaseRelease ''w'', LeaseWait 59000000]
        (rc_db (snd (rs_claim (\<lambda>n. ''u'') ''testnet'' demo_channel 60 demo_start)))\<rparr>)) = Inr None"
proof -
  let ?k = "''facilitator:paychannel-redemption-lease:testnet:'' @ demo_channel"
  let ?r = "rs_claim (\<lambda>n. ''u'') ''testnet'' demo_channel 60 demo_start"
  have ok: "rd_ok (rc_db demo_start)" by (simp add: demo_start_def redis_init_def rd_ok_def)
  have key: "redemption_lease_key ''testnet'' demo_channel = Inr ?k" by code_simp
  have "fst ?r = Inr (Some ''u'')" by code_simp
  then have run: "?r = (Inr (Some ''u''), snd ?r)" by (metis prod.collapse)
  have later: "rd_now (fold (lease_step k) [LeaseRelease ''w'', LeaseWait 59000000] db) < rd_now db + 60 * 1000000" for k db
    by (simp add: rcompare_delete_def)
  show ?thesis
    by (rule lease_exclusive [OF ok key run, where evs = "[LeaseRelease ''w'', LeaseWait 59000000]"])
      (use later in \<open>simp_all add: validate_lease_seconds_def\<close>)
qed

end
