(* ===== verification/Config.thy ===== *)
theory Config
  imports Assets
begin

text \<open>
  \<open>Settings\<close> of \<open>config.py\<close>: the values the facilitator's services read, the range checks of
  the validators, the cross-field checks and the list of challenge secrets. The environment, the
  \<open>.env\<close> file and the check of \<open>XRPL_RPC_URL\<close> (\<open>urlsplit\<close>, \<open>ipaddress\<close>) are left out.
\<close>

record settings =
  se_auth_mode :: string
  se_destination :: string
  se_bearer_token :: "string option"
  se_network :: string
  se_settlement_mode :: string
  se_validation_timeout :: int
  se_min_xrp_drops :: int
  se_issued_assets :: string
  se_mpt_ids :: string
  se_max_body_bytes :: int
  se_processed_ttl :: int
  se_ledger_window :: int
  se_secret :: string
  se_previous_secrets :: string
  se_challenge_ttl :: int
  se_default_realm :: "string option"
  se_payer_key :: "string option"
  se_recipient_seed :: "string option"
  se_min_settle_delay :: int
  se_settlement_margin :: int
  se_max_redemption_fee :: int
  se_redeem_interval :: int
  se_idle_close :: int
  se_redeem_batch :: int
  se_redeem_lease :: int

definition above_zero :: "settings \<Rightarrow> bool" where
  "above_zero C \<longleftrightarrow> list_all (\<lambda>v. 0 < v)
     [se_validation_timeout C, se_max_body_bytes C, se_processed_ttl C, se_ledger_window C, se_challenge_ttl C,
      se_max_redemption_fee C, se_redeem_batch C, se_redeem_lease C]"

definition not_below_zero :: "settings \<Rightarrow> bool" where
  "not_below_zero C \<longleftrightarrow> list_all (\<lambda>v. 0 \<le> v)
     [se_min_settle_delay C, se_settlement_margin C, se_redeem_interval C, se_idle_close C]"

definition check_auth_settings :: "settings \<Rightarrow> unit res" where
  "check_auth_settings C =
     bind_res (guard_res (se_auth_mode C \<noteq> ''single_token'' \<or> se_bearer_token C \<noteq> None)
       (ValidationError ''FACILITATOR_BEARER_TOKEN is required when GATEWAY_AUTH_MODE=single_token'')) (\<lambda>_.
     bind_res (guard_res (case se_default_realm C of None \<Rightarrow> True | Some r \<Rightarrow> py_strip r \<noteq> [])
       (ValidationError ''MPP_DEFAULT_REALM must be non-empty when provided'')) (\<lambda>_.
     bind_res (guard_res (\<not> (0 < se_idle_close C \<and> se_redeem_interval C = 0))
       (ValidationError ''PAYCHANNEL_IDLE_CLOSE_SECONDS requires PAYCHANNEL_REDEEM_INTERVAL_SECONDS'')) (\<lambda>_.
     guard_res (se_redeem_batch C \<le> 1000) (ValidationError ''PAYCHANNEL_REDEEM_BATCH_SIZE must not exceed 1000''))))"

definition validate_settings :: "settings \<Rightarrow> settings res" where
  "validate_settings C =
     bind_res (literal ''GATEWAY_AUTH_MODE'' [''single_token'', ''redis_gateways''] (JStr (se_auth_mode C))) (\<lambda>_.
     bind_res (literal ''NETWORK_ID'' xrpl_networks (JStr (se_network C))) (\<lambda>_.
     bind_res (literal ''SETTLEMENT_MODE'' [''validated''] (JStr (se_settlement_mode C))) (\<lambda>_.
     bind_res (guard_res (above_zero C) (ValidationError ''must be greater than zero'')) (\<lambda>_.
     bind_res (guard_res (0 \<le> se_min_xrp_drops C) (ValidationError ''must be zero or greater'')) (\<lambda>_.
     bind_res (guard_res (not_below_zero C) (ValidationError ''must be zero or greater'')) (\<lambda>_.
     bind_res (check_auth_settings C) (\<lambda>_. Inr C)))))))"

definition gateway_auth_uses_redis :: "settings \<Rightarrow> bool" where
  "gateway_auth_uses_redis C \<longleftrightarrow> se_auth_mode C = ''redis_gateways''"

text \<open>The comma-separated lists: stripped, blank items dropped.\<close>

definition comma_items :: "string \<Rightarrow> string list" where
  "comma_items s = filter (\<lambda>t. t \<noteq> []) (map py_strip (py_split (CHR '','') s))"

definition challenge_secrets :: "settings \<Rightarrow> string list" where
  "challenge_secrets C = py_strip (se_secret C) # comma_items (se_previous_secrets C)"

end
