(* ===== verification/PyNum.thy ===== *)
theory PyNum
  imports Wire
begin

text \<open>
  The Python numbers the charge path reads: \<open>int\<close> of a text in base ten or with a base prefix,
  \<open>str\<close> of a decoded value, \<open>decimal.Decimal\<close> with its exact value, its infinities and its
  NaN, and \<open>==\<close> on decoded JSON. The exponent limits of the C decimal (ten to the eighteen)
  are not modelled.
\<close>

section \<open>Integers as text\<close>

definition py_sign :: "string \<Rightarrow> bool \<times> string" where
  "py_sign s = (case s of [] \<Rightarrow> (False, s)
     | c # t \<Rightarrow> if c = CHR ''-'' then (True, t) else if c = CHR ''+'' then (False, t) else (False, s))"

definition with_sign :: "bool \<Rightarrow> int \<Rightarrow> int" where
  "with_sign negative i = (if negative then - i else i)"

text \<open>Digits, with single underscores between them.\<close>

definition grouped_digits :: "(char \<Rightarrow> bool) \<Rightarrow> string \<Rightarrow> bool" where
  "grouped_digits p s \<longleftrightarrow> list_all (\<lambda>piece. piece \<noteq> [] \<and> list_all p piece) (py_split (CHR ''_'') s)"

definition bare_digits :: "string \<Rightarrow> string" where
  "bare_digits s = filter (\<lambda>c. c \<noteq> CHR ''_'') s"

definition max_str_digits :: nat where "max_str_digits = 4300"

text \<open>\<open>int(s)\<close>, with \<open>None\<close> for its \<open>ValueError\<close>.\<close>

definition int_text :: "string \<Rightarrow> int option" where
  "int_text s = (case py_sign (py_strip s) of (negative, t) \<Rightarrow>
     if grouped_digits is_digit t \<and> length (bare_digits t) \<le> max_str_digits
     then Some (with_sign negative (py_int (bare_digits t))) else None)"

definition digit_of :: "char \<Rightarrow> nat" where
  "digit_of c = (if is_digit c then ch c - 48 else ch (to_lower c) - 87)"

definition base_value :: "nat \<Rightarrow> string \<Rightarrow> nat" where
  "base_value b s = foldl (\<lambda>n c. b * n + digit_of c) 0 s"

definition base_digit :: "nat \<Rightarrow> char \<Rightarrow> bool" where
  "base_digit b c \<longleftrightarrow> is_hex c \<and> digit_of c < b"

text \<open>\<open>int(s, 0)\<close>: the base from the prefix; a decimal number has no leading zeros.\<close>

definition int_prefixed :: "string \<Rightarrow> int option" where
  "int_prefixed s = (case py_sign (py_strip s) of (negative, t) \<Rightarrow>
     let base = (case py_lower (take 2 t) of
           p \<Rightarrow> if p = ''0x'' then 16 else if p = ''0o'' then 8 else if p = ''0b'' then 2 else 10);
         body = (if base = 10 then t else (case drop 2 t of [] \<Rightarrow> [] | c # r \<Rightarrow> if c = CHR ''_'' then r else c # r))
     in if \<not> grouped_digits (base_digit base) body then None
        else if base = 10 \<and> (hd body = CHR ''0'' \<and> list_ex (\<lambda>c. c \<noteq> CHR ''0'') (bare_digits body)) then None
        else if base = 10 \<and> max_str_digits < length (bare_digits body) then None
        else Some (with_sign negative (int (base_value base (bare_digits body)))))"

section \<open>Text of a value\<close>

text \<open>
  \<open>str(value)\<close>: \<open>repr\<close> stands for the text of a float or a container.
\<close>

definition py_str :: "(json \<Rightarrow> string) \<Rightarrow> json \<Rightarrow> string" where
  "py_str repr j = (case j of JStr s \<Rightarrow> s | JNull \<Rightarrow> ''None'' | JBool b \<Rightarrow> if b then ''True'' else ''False''
     | JInt i \<Rightarrow> py_str_int i | _ \<Rightarrow> repr j)"

section \<open>Decimals\<close>

datatype decimal = Finite rat | Infinite bool | NotANumber bool

definition power_of_ten :: "int \<Rightarrow> rat" where
  "power_of_ten e = (if 0 \<le> e then 10 ^ nat e else 1 / 10 ^ nat (- e))"

text \<open>Digits, an optional fraction, an optional exponent; at least one digit in the coefficient.\<close>

definition decimal_number :: "string \<Rightarrow> rat option" where
  "decimal_number t =
     (let mantissa = takeWhile (\<lambda>c. c \<noteq> CHR ''e'') t; tail = dropWhile (\<lambda>c. c \<noteq> CHR ''e'') t;
          exponent = (if tail = [] then Some 0
            else case py_sign (tl tail) of (negative, d) \<Rightarrow>
              if is_ascii_digits d then Some (with_sign negative (py_int d)) else None) in
      case (py_split (CHR ''.'') mantissa, exponent) of
        ([a], Some e) \<Rightarrow> if is_ascii_digits a then Some (of_int (py_int a) * power_of_ten e) else None
      | ([a, b], Some e) \<Rightarrow> if is_ascii_digits (a @ b)
          then Some (of_int (py_int (a @ b)) * power_of_ten (e - int (length b))) else None
      | _ \<Rightarrow> None)"

text \<open>\<open>Decimal(s)\<close>, with \<open>None\<close> for \<open>InvalidOperation\<close>.\<close>

definition decimal_text :: "string \<Rightarrow> decimal option" where
  "decimal_text s = (case py_sign (py_lower (bare_digits (py_strip s))) of (negative, t) \<Rightarrow>
     if t = ''inf'' \<or> t = ''infinity'' then Some (Infinite negative)
     else if starts_with ''nan'' t \<and> list_all is_digit (drop 3 t) then Some (NotANumber False)
     else if starts_with ''snan'' t \<and> list_all is_digit (drop 4 t) then Some (NotANumber True)
     else map_option (\<lambda>x. Finite (if negative then - x else x)) (decimal_number t))"

definition invalid_operation :: exn where
  "invalid_operation = OtherError ''InvalidOperation''"

text \<open>\<open>d < 0\<close> raises for a NaN; \<open>==\<close> raises for a signalling one only.\<close>

definition dec_negative :: "decimal \<Rightarrow> bool res" where
  "dec_negative d = (case d of Finite x \<Rightarrow> Inr (x < 0) | Infinite negative \<Rightarrow> Inr negative
     | NotANumber _ \<Rightarrow> Inl invalid_operation)"

fun dec_eq :: "decimal \<Rightarrow> decimal \<Rightarrow> bool res" where
  "dec_eq (NotANumber s) d = (if s \<or> d = NotANumber True then Inl invalid_operation else Inr False)"
| "dec_eq d (NotANumber s) = (if s then Inl invalid_operation else Inr False)"
| "dec_eq d d' = Inr (d = d')"

section \<open>Equality of decoded values\<close>

definition number_of :: "json \<Rightarrow> rat option" where
  "number_of j = (case j of JBool b \<Rightarrow> Some (if b then 1 else 0) | JInt i \<Rightarrow> Some (of_int i)
     | JFloat x \<Rightarrow> Some x | _ \<Rightarrow> None)"

text \<open>\<open>==\<close>: numbers by value, dictionaries without regard to the order of their keys.\<close>

primrec py_eq :: "json \<Rightarrow> json \<Rightarrow> bool" where
  "py_eq JNull = (\<lambda>j. j = JNull)"
| "py_eq (JBool b) = (\<lambda>j. number_of j = number_of (JBool b))"
| "py_eq (JInt i) = (\<lambda>j. number_of j = number_of (JInt i))"
| "py_eq (JFloat x) = (\<lambda>j. number_of j = number_of (JFloat x))"
| "py_eq (JStr s) = (\<lambda>j. j = JStr s)"
| "py_eq (JArr xs) = (\<lambda>j. case j of JArr ys \<Rightarrow> list_all2 (\<lambda>f y. f y) (map py_eq xs) ys | _ \<Rightarrow> False)"
| "py_eq (JObj kvs) = (\<lambda>j. case j of
     JObj kvs' \<Rightarrow> length kvs = length kvs' \<and>
       list_all (\<lambda>(k, f). case map_of kvs' k of None \<Rightarrow> False | Some v \<Rightarrow> f v) (map (map_prod id py_eq) kvs)
   | _ \<Rightarrow> False)"

section \<open>Facts\<close>

lemma py_strip_digits: "list_all is_digit s \<Longrightarrow> py_strip s = s"
  unfolding py_strip_def by (rule strip_by_none) (auto simp: list_all_iff py_space_def is_digit_def)

lemma digits_no_mark: "list_all is_digit s \<Longrightarrow> c \<in> set s \<Longrightarrow> c \<noteq> CHR ''_'' \<and> c \<noteq> CHR ''-'' \<and> c \<noteq> CHR ''+'' \<and> c \<noteq> CHR ''e'' \<and> c \<noteq> CHR ''.''"
  by (auto simp: list_all_iff is_digit_def ch_def)

lemma py_sign_digits: "list_all is_digit s \<Longrightarrow> py_sign s = (False, s)"
  by (cases s) (auto simp: py_sign_def is_digit_def ch_def)

lemma bare_digits_digits: "list_all is_digit s \<Longrightarrow> bare_digits s = s"
  using digits_no_mark [of s] by (auto simp: bare_digits_def filter_id_conv)

lemma grouped_plain: "list_all is_digit s \<Longrightarrow> s \<noteq> [] \<Longrightarrow> grouped_digits is_digit s"
  using py_split_no_sep [of "CHR ''_''" s] digits_no_mark [of s] by (force simp: grouped_digits_def)

lemma int_text_digits:
  "is_ascii_digits s \<Longrightarrow> length s \<le> max_str_digits \<Longrightarrow> int_text s = Some (py_int s)"
  by (simp add: int_text_def is_ascii_digits_def py_strip_digits py_sign_digits bare_digits_digits grouped_plain with_sign_def)

text \<open>A validated charge amount is a finite decimal, and a whole one when it has no point.\<close>

lemma decimal_plain:
  assumes "list_all (\<lambda>c. is_digit c \<or> c = CHR ''.'') s" and "is_digit (hd s)" and "s \<noteq> []"
  shows "decimal_text s = map_option Finite (decimal_number s)"
proof -
  have dot: "\<not> is_digit CHR ''.''" "\<not> py_space CHR ''.''" by (simp_all add: is_digit_def py_space_def ch_def)
  have strip: "py_strip s = s" unfolding py_strip_def using assms(1)
    by (intro strip_by_none) (auto simp: list_all_iff py_space_def is_digit_def ch_def)
  have bare: "bare_digits s = s" using assms(1)
    by (auto simp: bare_digits_def filter_id_conv list_all_iff is_digit_def ch_def)
  have low: "py_lower s = s" using assms(1)
    by (auto simp: py_lower_def to_lower_def is_upper_def is_digit_def list_all_iff ch_def intro!: map_idI)
  obtain c t where s: "s = c # t" "is_digit c" using assms(2,3) by (cases s) auto
  then have "s \<noteq> ''inf''" "s \<noteq> ''infinity''" "\<not> starts_with ''nan'' s" "\<not> starts_with ''snan'' s" "py_sign s = (False, s)"
    by (auto simp: is_digit_def ch_def py_sign_def)
  then show ?thesis by (simp add: decimal_text_def strip bare low)
qed

lemma no_exponent: "list_all (\<lambda>c. is_digit c \<or> c = CHR ''.'') s \<Longrightarrow> takeWhile (\<lambda>c. c \<noteq> CHR ''e'') s = s \<and> dropWhile (\<lambda>c. c \<noteq> CHR ''e'') s = []"
  by (auto simp: list_all_iff is_digit_def ch_def)

lemma power_of_ten_nonneg: "0 \<le> power_of_ten e"
  by (simp add: power_of_ten_def)

lemma decimal_text_amount:
  assumes "list_all is_digit a" and "a \<noteq> []"
  shows "decimal_text a = Some (Finite (of_int (py_int a)))"
proof -
  have "list_all (\<lambda>c. is_digit c \<or> c = CHR ''.'') a" "is_digit (hd a)" using assms by (auto simp: list_all_iff)
  moreover have "CHR ''.'' \<notin> set a" using digits_no_mark [OF assms(1), of "CHR ''.''"] by auto
  ultimately show ?thesis using assms
    by (simp add: decimal_plain decimal_number_def no_exponent py_split_no_sep is_ascii_digits_def power_of_ten_def)
qed

lemma decimal_text_fraction:
  assumes "is_ascii_digits a" and "is_ascii_digits b"
  obtains x where "decimal_text (a @ CHR ''.'' # b) = Some (Finite x)" "0 \<le> x"
proof -
  let ?s = "a @ CHR ''.'' # b"
  have all: "list_all (\<lambda>c. is_digit c \<or> c = CHR ''.'') ?s" "is_digit (hd ?s)"
    using assms by (auto simp: is_ascii_digits_def list_all_iff hd_append)
  have "CHR ''.'' \<notin> set a" "CHR ''.'' \<notin> set b"
    using assms digits_no_mark [of a "CHR ''.''"] digits_no_mark [of b "CHR ''.''"] by (auto simp: is_ascii_digits_def)
  then have "py_split (CHR ''.'') ?s = [a, b]" by (simp add: py_split_append py_split_no_sep)
  then have "decimal_number ?s = Some (of_int (py_int (a @ b)) * power_of_ten (- int (length b)))"
    using assms by (simp add: decimal_number_def no_exponent [OF all(1)] is_ascii_digits_def)
  then have "decimal_text ?s = Some (Finite (of_int (py_int (a @ b)) * power_of_ten (- int (length b))))"
    using decimal_plain [OF all] by simp
  with that show thesis using power_of_ten_nonneg by (meson mult_nonneg_nonneg of_int_0_le_iff py_int_nonneg)
qed

end
