(* ===== verification/Ledger.thy ===== *)
theory Ledger
  imports Service Config PyNum
begin

text \<open>
  The ledger side of \<open>XRPLService\<close> (\<open>xrpl_service.py\<close>): who signed a transaction, how amounts
  are normalised and compared, the payment policy, and the interface to rippled. The XRPL library and
  the node are third-party: \<open>ledger_lib\<close> holds the pure functions of xrpl-py (a transaction
  model is given by its JSON, with \<open>None\<close> or an error for an exception), \<open>node\<close> the RPC
  client, the sleep and the clock.
\<close>

section \<open>The node and the XRPL library\<close>

datatype rpc_request =
    AccountInfo string
  | LedgerIndex
  | LedgerEntry string
  | SubmitOnly string
  | TxLookup string

text \<open>\<open>client.request(request).result\<close>; an exception of the client is the failure of the request.\<close>

record 'w node =
  nd_request :: "rpc_request \<Rightarrow> ('w, json) proc"
  nd_sleep :: "('w, unit) proc"
  nd_now :: "'w \<Rightarrow> int"

text \<open>The amount of a \<open>Payment\<close>: a decoded value, or one of the two amount objects.\<close>

datatype tx_amount =
    AmountValue json
  | AmountMpt string string
  | AmountIssued string string string

record payment =
  pay_account :: string
  pay_destination :: string
  pay_amount :: tx_amount
  pay_flags :: json
  pay_last_ledger :: "int option"
  pay_invoice_id :: "string option"
  pay_destination_tag :: "int option"
  pay_source_tag :: "int option"

record ledger_lib =
  ll_xrpl :: xrpl_lib
  ll_decode :: "string \<Rightarrow> tx_json option"
  ll_payment :: "tx_json \<Rightarrow> payment res"
  ll_signed :: "tx_json \<Rightarrow> bool"
  ll_hash :: "tx_json \<Rightarrow> string res"
  ll_repr :: "json \<Rightarrow> string"

definition now_dt :: "'w node \<Rightarrow> 'w \<Rightarrow> datetime" where
  "now_dt N w = Aware (nd_now N w)"

section \<open>Signatures and authority\<close>

text \<open>A non-empty string field.\<close>

definition filled :: "json \<Rightarrow> string option" where
  "filled j = (case j of JStr s \<Rightarrow> if s = [] then None else Some s | _ \<Rightarrow> None)"

definition verify_single_signer_signature :: "xrpl_lib \<Rightarrow> tx_json \<Rightarrow> (string \<times> string) res" where
  "verify_single_signer_signature X tx =
     (if truthy (dget tx ''Signers'') then Inl (ValueError ''Multisigned transactions are not supported'')
      else case filled (dget tx ''Account'') of None \<Rightarrow> Inl (ValueError ''Transaction Account missing'')
      | Some account \<Rightarrow> (case filled (dget tx ''SigningPubKey'') of
          None \<Rightarrow> Inl (ValueError ''Transaction SigningPubKey missing'')
      | Some key \<Rightarrow> (case filled (dget tx ''TxnSignature'') of
          None \<Rightarrow> Inl (ValueError ''Transaction signature missing'')
      | Some signature \<Rightarrow> (case transaction_signer X tx key signature of
          Some (address, True) \<Rightarrow> Inr (account, address)
        | _ \<Rightarrow> Inl (ValueError ''Transaction signature invalid'')))))"

definition account_root_flag_disable_master :: int where "account_root_flag_disable_master = 1048576"

text \<open>Bit 20 of the account flags, or a truthy entry of the decoded flags.\<close>

definition master_key_is_disabled :: "(json \<Rightarrow> string) \<Rightarrow> (string \<times> json) list \<Rightarrow> bool" where
  "master_key_is_disabled repr account_data =
     ((case dget account_data ''account_flags'' of
         JObj flags \<Rightarrow> truthy (dget flags ''disableMasterKey'') \<or> truthy (dget flags ''DisableMasterKey'')
       | _ \<Rightarrow> False)
      \<or> (case int_prefixed (py_str repr (dget account_data ''Flags'')) of
           None \<Rightarrow> False | Some flags \<Rightarrow> bit flags 20))"

text \<open>\<open>result.get(key)\<close> of a response that may not be a dictionary.\<close>

definition result_dict :: "json \<Rightarrow> string \<Rightarrow> (string \<times> json) list option" where
  "result_dict result key = (case result of
     JObj kvs \<Rightarrow> (case dget kvs key of JObj d \<Rightarrow> Some d | _ \<Rightarrow> None) | _ \<Rightarrow> None)"

definition authorized_addresses :: "(json \<Rightarrow> string) \<Rightarrow> string \<Rightarrow> (string \<times> json) list \<Rightarrow> string list" where
  "authorized_addresses repr account data =
     (if master_key_is_disabled repr data then [] else [account]) @
     (case dget data ''RegularKey'' of JStr k \<Rightarrow> if py_strip k = [] then [] else [py_strip k] | _ \<Rightarrow> [])"

definition ensure_signing_address_authorized ::
  "ledger_lib \<Rightarrow> 'w node \<Rightarrow> string \<Rightarrow> string \<Rightarrow> ('w, unit) proc"
where
  "ensure_signing_address_authorized L N account address =
     (if address = account then ret ()
      else andthen (nd_request N (AccountInfo account)) (\<lambda>result. case result_dict result ''account_data'' of
        None \<Rightarrow> fail (ValueError ''Unable to verify signing authority'')
      | Some data \<Rightarrow> check (address \<in> set (authorized_addresses (ll_repr L) account data))
          (ValueError ''SigningPubKey is not authorized for Account'')))"

definition signer_is_authorized :: "ledger_lib \<Rightarrow> 'w node \<Rightarrow> string \<Rightarrow> string \<Rightarrow> ('w, bool) proc" where
  "signer_is_authorized L N account address =
     except (andthen (ensure_signing_address_authorized L N account address) (\<lambda>_. ret True))
       (\<lambda>e. if is_value_error e then ret False else fail e)"

definition decode_payment :: "ledger_lib \<Rightarrow> 'w node \<Rightarrow> string \<Rightarrow> ('w, payment \<times> tx_json) proc" where
  "decode_payment L N blob = (case ll_decode L blob of
     None \<Rightarrow> fail (ValueError ''Could not decode signed XRPL transaction'')
   | Some raw \<Rightarrow>
       if dget raw ''TransactionType'' \<noteq> JStr ''Payment'' then fail (ValueError ''TransactionType must be Payment'')
       else
         andthen (lift (verify_single_signer_signature (ll_xrpl L) raw)) (\<lambda>(account, address).
         andthen (ensure_signing_address_authorized L N account address) (\<lambda>_.
         andthen (lift (ll_payment L raw)) (\<lambda>p.
         andthen (check (ll_signed L raw) (ValueError ''Transaction must be signed'')) (\<lambda>_.
         ret (p, raw))))))"

section \<open>Amounts\<close>

record normalized_amount =
  na_asset :: asset_key
  na_value :: decimal
  na_drops :: "int option"

definition mpt_asset :: "string \<Rightarrow> asset_key" where
  "mpt_asset mpt = \<lparr>ak_code = ''MPT'', ak_issuer = None, ak_mpt = Some mpt\<rparr>"

text \<open>A value read with \<open>Decimal(str(raw))\<close> that must not be negative.\<close>

definition unsigned_decimal :: "string \<Rightarrow> string \<Rightarrow> string \<Rightarrow> decimal res" where
  "unsigned_decimal text invalid negative = (case decimal_text text of
     None \<Rightarrow> Inl (ValueError invalid)
   | Some v \<Rightarrow> bind_res (dec_negative v) (\<lambda>below. if below then Inl (ValueError negative) else Inr v))"

definition normalize_issued_amount_fields :: "string \<Rightarrow> string \<Rightarrow> string \<Rightarrow> normalized_amount res" where
  "normalize_issued_amount_fields currency issuer raw =
     bind_res (normalize_currency_code currency) (\<lambda>code.
     bind_res (guard_res (py_strip issuer \<noteq> []) (ValueError ''Issued asset issuer missing'')) (\<lambda>_.
     bind_res (unsigned_decimal raw ''Issued asset value invalid'' ''Negative issued asset amount not allowed'') (\<lambda>v.
     Inr \<lparr>na_asset = issued_asset code (py_strip issuer), na_value = v, na_drops = None\<rparr>)))"

definition normalize_mpt :: "string \<Rightarrow> string \<Rightarrow> normalized_amount res" where
  "normalize_mpt mpt raw =
     bind_res (unsigned_decimal raw ''MPT amount is invalid'' ''Negative MPT amount not allowed'') (\<lambda>v.
     Inr \<lparr>na_asset = mpt_asset (py_upper mpt), na_value = v, na_drops = None\<rparr>)"

definition normalize_drops :: "int option \<Rightarrow> normalized_amount res" where
  "normalize_drops drops = (case drops of
     None \<Rightarrow> Inl (ValueError ''XRP amount must be an integer drops value'')
   | Some d \<Rightarrow> if d < 0 then Inl (ValueError ''Negative XRP amount not allowed'')
       else Inr \<lparr>na_asset = xrp_asset, na_value = Finite (of_int d), na_drops = Some d\<rparr>)"

definition normalize_amount_dict :: "(json \<Rightarrow> string) \<Rightarrow> (string \<times> json) list \<Rightarrow> normalized_amount res" where
  "normalize_amount_dict repr amount =
     (let mpt = (if truthy (dget amount ''mpt_issuance_id'') then dget amount ''mpt_issuance_id''
                 else dget amount ''mptIssuanceId'') in
      if mpt \<noteq> JNull then normalize_mpt (py_str repr mpt) (py_str repr (dget amount ''value''))
      else normalize_issued_amount_fields
        (case map_of amount ''currency'' of None \<Rightarrow> [] | Some c \<Rightarrow> py_str repr c)
        (case map_of amount ''issuer'' of None \<Rightarrow> [] | Some i \<Rightarrow> py_str repr i)
        (py_str repr (dget amount ''value'')))"

fun normalize_amount :: "(json \<Rightarrow> string) \<Rightarrow> tx_amount \<Rightarrow> normalized_amount res" where
  "normalize_amount repr (AmountValue j) = (case j of
     JStr s \<Rightarrow> if s = ''unavailable'' then Inl (ValueError ''Delivered amount unavailable'')
              else normalize_drops (int_text s)
   | JInt i \<Rightarrow> normalize_drops (Some i)
   | JBool b \<Rightarrow> normalize_drops (Some (if b then 1 else 0))
   | JObj amount \<Rightarrow> normalize_amount_dict repr amount
   | _ \<Rightarrow> Inl (ValueError ''Unsupported payment amount format''))"
| "normalize_amount repr (AmountMpt mpt v) =
     normalize_amount_dict repr [(''mpt_issuance_id'', JStr mpt), (''value'', JStr v)]"
| "normalize_amount repr (AmountIssued currency issuer v) = normalize_issued_amount_fields currency issuer v"

definition normalize_requested_amount :: "lib \<Rightarrow> string \<Rightarrow> string \<Rightarrow> normalized_amount res" where
  "normalize_requested_amount B currency amount =
     bind_res (parse_currency (lib_loads B) currency) (\<lambda>parsed.
     if parsed = XRP then
       (if CHR ''.'' \<in> set amount then Inl (ValueError ''XRP request amount must be integer drops'')
        else if amount = ''unavailable'' then Inl (ValueError ''Delivered amount unavailable'')
        else normalize_drops (int_text amount))
     else case decimal_text amount of
       None \<Rightarrow> Inl (ValueError ''Requested amount is invalid'')
     | Some v \<Rightarrow> (case parsed of
         IssuedCurrency code issuer \<Rightarrow> bind_res (normalize_currency_code code) (\<lambda>c.
           Inr \<lparr>na_asset = issued_asset c issuer, na_value = v, na_drops = None\<rparr>)
       | MPToken mpt \<Rightarrow> Inr \<lparr>na_asset = mpt_asset (py_upper mpt), na_value = v, na_drops = None\<rparr>
       | XRP \<Rightarrow> Inl (ValueError ''Unsupported XRPL currency'')))"

section \<open>Policy and supported methods\<close>

record facilitator =
  fa_settings :: settings
  fa_assets :: "asset_key list"
  fa_mpt_ids :: "string list"
  fa_session :: bool

text \<open>\<open>int(payment.flags or 0)\<close>, from text with a base prefix.\<close>

definition payment_flags :: "json \<Rightarrow> int res" where
  "payment_flags flags =
     (if \<not> truthy flags then Inr 0
      else case flags of
        JStr s \<Rightarrow> (case int_prefixed s of None \<Rightarrow> Inl (ValueError ''invalid literal for int()'') | Some i \<Rightarrow> Inr i)
      | JInt i \<Rightarrow> Inr i
      | JBool b \<Rightarrow> Inr 1
      | JFloat x \<Rightarrow> Inr (py_trunc x)
      | _ \<Rightarrow> Inl (TypeError ''int() argument''))"

text \<open>\<open>TF_PARTIAL_PAYMENT\<close> is bit 17.\<close>

definition ensure_policy :: "facilitator \<Rightarrow> payment \<Rightarrow> normalized_amount \<Rightarrow> unit res" where
  "ensure_policy F p a =
     bind_res (payment_flags (pay_flags p)) (\<lambda>flags.
     if bit flags 17 then Inl (ValueError ''Partial payments are not supported'')
     else if pay_destination p \<noteq> se_destination (fa_settings F) then Inl (ValueError ''Wrong destination address'')
     else if ak_code (na_asset a) = ''XRP'' then
       guard_res (case na_drops a of None \<Rightarrow> False | Some d \<Rightarrow> se_min_xrp_drops (fa_settings F) \<le> d)
         (ValueError ''Payment below minimum amount'')
     else case ak_mpt (na_asset a) of
       Some mpt \<Rightarrow> guard_res (mpt \<in> set (fa_mpt_ids F)) (ValueError ''Unsupported MPT issuance'')
     | None \<Rightarrow> guard_res (na_asset a \<in> set (fa_assets F) \<and> ak_issuer (na_asset a) \<noteq> None)
         (ValueError ''Unsupported issued asset''))"

text \<open>The part of the constructor that prepares the accepted assets.\<close>

definition init_facilitator :: "settings \<Rightarrow> bool \<Rightarrow> facilitator res" where
  "init_facilitator C session =
     bind_res (supported_asset_keys (se_network C) (se_issued_assets C)) (\<lambda>assets.
     Inr \<lparr>fa_settings = C, fa_assets = assets,
          fa_mpt_ids = remdups (map py_upper (comma_items (se_mpt_ids C))), fa_session = session\<rparr>)"

definition supported_currencies :: "facilitator \<Rightarrow> string list res" where
  "supported_currencies F =
     bind_res (list_field (\<lambda>a. case ak_issuer a of None \<Rightarrow> Inr None
         | Some i \<Rightarrow> bind_res (xrpl_currency_code (ak_code a)) (\<lambda>c.
             Inr (Some (serialize_currency (IssuedCurrency c i))))) (fa_assets F)) (\<lambda>issued.
     Inr (''XRP'' # map the (filter (\<lambda>x. x \<noteq> None) issued)
          @ map (\<lambda>m. serialize_currency (MPToken m)) (sort (fa_mpt_ids F))))"

record supported_method =
  sm_method :: string
  sm_intents :: "string list"
  sm_network :: string
  sm_currencies :: "string list"
  sm_settlement_mode :: string

definition supported_methods :: "facilitator \<Rightarrow> supported_method list res" where
  "supported_methods F =
     bind_res (supported_currencies F) (\<lambda>currencies.
     Inr [\<lparr>sm_method = ''xrpl'', sm_intents = ''charge'' # (if fa_session F then [''session''] else []),
           sm_network = se_network (fa_settings F), sm_currencies = currencies,
           sm_settlement_mode = se_settlement_mode (fa_settings F)\<rparr>])"

section \<open>The validated ledger\<close>

text \<open>\<open>int(result["ledger_index"])\<close>.\<close>

definition as_int :: "json \<Rightarrow> int option" where
  "as_int j = (case j of JInt i \<Rightarrow> Some i | JBool b \<Rightarrow> Some (if b then 1 else 0)
     | JFloat x \<Rightarrow> Some (py_trunc x) | JStr s \<Rightarrow> int_text s | _ \<Rightarrow> None)"

definition latest_validated_ledger :: "'w node \<Rightarrow> ('w, int) proc" where
  "latest_validated_ledger N =
     andthen (nd_request N LedgerIndex) (\<lambda>result.
     case (case result of JObj kvs \<Rightarrow> as_int (dget kvs ''ledger_index'') | _ \<Rightarrow> None) of
       None \<Rightarrow> fail (ValueError ''Unable to determine current validated ledger'')
     | Some i \<Rightarrow> ret i)"

end
