(* ===== verification/Charge.thy ===== *)
theory Charge
  imports Ledger
begin

text \<open>
  The charge intent of \<open>XRPLService\<close> (\<open>xrpl_service.py\<close>): pull payments (a signed blob, which
  the service submits) and push payments (the hash of a submitted transaction). The replay store is
  the interface \<open>replay_ops\<close>. Logging is left out; the polling loops run \<open>VALIDATION_TIMEOUT\<close>
  rounds.
\<close>

section \<open>Services\<close>

record 'w replay_ops =
  ro_reserve :: "string option \<Rightarrow> string \<Rightarrow> int option \<Rightarrow> ('w, reservation) proc"
  ro_guard :: "string option \<Rightarrow> string \<Rightarrow> ('w, unit) proc"
  ro_mark :: "reservation \<Rightarrow> ('w, unit) proc"
  ro_release :: "reservation \<Rightarrow> ('w, unit) proc"

record 'w charge_service =
  cs_lib :: lib
  cs_ledger :: ledger_lib
  cs_node :: "'w node"
  cs_fac :: facilitator
  cs_replay :: "'w replay_ops"

abbreviation cs_settings :: "'w charge_service \<Rightarrow> settings" where
  "cs_settings S \<equiv> fa_settings (cs_fac S)"

record validated_payment =
  va_tx :: payment
  va_raw :: tx_json
  va_invoice :: string
  va_hash :: string
  va_amount :: normalized_amount
  va_blob :: "string option"
  va_reservation :: "reservation option"

section \<open>Freshness\<close>

definition iso_datetime :: "lib \<Rightarrow> string \<Rightarrow> datetime res" where
  "iso_datetime B s = (case lib_fromiso B (iso_offset s) of
     None \<Rightarrow> Inl (ValueError ''Invalid isoformat string'') | Some t \<Rightarrow> Inr t)"

text \<open>\<open>current + math.ceil(seconds / 4) + 4\<close>: a ledger closes about every four seconds.\<close>

definition ledger_cap :: "int \<Rightarrow> rat \<Rightarrow> int" where
  "ledger_cap current seconds = current + \<lceil>seconds / 4\<rceil> + 4"

definition check_expiry_window :: "lib \<Rightarrow> string \<Rightarrow> datetime \<Rightarrow> int \<Rightarrow> int \<Rightarrow> unit res" where
  "check_expiry_window B expires now current last_seq =
     bind_res (iso_datetime B expires) (\<lambda>t.
     bind_res (dt_sub t now) (\<lambda>us.
     if total_seconds us \<le> 4 then Inl (ValueError ''Challenge leaves no XRPL ledger interval for settlement'')
     else guard_res (\<not> ledger_cap current (total_seconds us) < last_seq)
       (ValueError ''Transaction LastLedgerSequence outlives the challenge expiry'')))"

definition ensure_payment_freshness ::
  "'w charge_service \<Rightarrow> payment \<Rightarrow> string option \<Rightarrow> ('w, unit) proc"
where
  "ensure_payment_freshness S p expires = (case pay_last_ledger p of
     None \<Rightarrow> fail (ValueError ''Pull payment requires LastLedgerSequence'')
   | Some last_seq \<Rightarrow>
       andthen (latest_validated_ledger (cs_node S)) (\<lambda>current.
       if last_seq \<le> current then fail (ValueError ''Transaction LastLedgerSequence expired'')
       else if current + se_ledger_window (cs_settings S) < last_seq
         then fail (ValueError ''Transaction LastLedgerSequence too far in the future'')
       else case expires of None \<Rightarrow> ret ()
         | Some e \<Rightarrow> reading (\<lambda>w. lift (check_expiry_window (cs_lib S) e (now_dt (cs_node S) w) current last_seq))))"

definition resolve_invoice_id :: "payment \<Rightarrow> string \<Rightarrow> string res" where
  "resolve_invoice_id p expected =
     (if or_empty (pay_invoice_id p) = [] then Inl (ValueError ''Payment carries no challenge-bound InvoiceID'')
      else if py_upper (or_empty (pay_invoice_id p)) \<noteq> py_upper expected
        then Inl (ValueError ''Payment InvoiceID does not match the challenge'')
      else Inr (py_upper (or_empty (pay_invoice_id p))))"

definition retention_now :: "'w charge_service \<Rightarrow> string option \<Rightarrow> ('w, int) proc" where
  "retention_now S expires = reading (\<lambda>w. lift (replay_retention_seconds (lib_fromiso (cs_lib S)) expires
     (se_validation_timeout (cs_settings S)) (now_dt (cs_node S) w)))"

section \<open>Pull payments\<close>

definition validate_pull_payment ::
  "'w charge_service \<Rightarrow> string \<Rightarrow> string \<Rightarrow> bool \<Rightarrow> string option \<Rightarrow> ('w, validated_payment) proc"
where
  "validate_pull_payment S blob expected_invoice reserve expires =
     andthen (decode_payment (cs_ledger S) (cs_node S) blob) (\<lambda>(p, raw).
     andthen (lift (resolve_invoice_id p expected_invoice)) (\<lambda>invoice.
     andthen (lift (normalize_amount (ll_repr (cs_ledger S)) (pay_amount p))) (\<lambda>amount.
     andthen (lift (ensure_policy (cs_fac S) p amount)) (\<lambda>_.
     andthen (ensure_payment_freshness S p expires) (\<lambda>_.
     andthen (lift (ll_hash (cs_ledger S) raw)) (\<lambda>h.
     let blob_hash = lib_sha256 (cs_lib S) blob;
         validated = (\<lambda>rv. \<lparr>va_tx = p, va_raw = raw, va_invoice = invoice, va_hash = py_upper h,
                           va_amount = amount, va_blob = Some blob, va_reservation = rv\<rparr>) in
     if reserve then
       andthen (retention_now S expires) (\<lambda>retention.
       andthen (ro_reserve (cs_replay S) (Some invoice) blob_hash (Some retention)) (\<lambda>rv.
       ret (validated (Some rv))))
     else andthen (ro_guard (cs_replay S) (Some invoice) blob_hash) (\<lambda>_. ret (validated None))))))))"

section \<open>The payment against the challenge\<close>

definition memo_entry :: "string \<Rightarrow> string option \<Rightarrow> (string \<times> json) list" where
  "memo_entry key text = (if or_empty text = [] then [] else [(key, JStr (to_hex (or_empty text)))])"

definition expected_memos :: "xrpl_memo list \<Rightarrow> json" where
  "expected_memos memos = JArr (map (\<lambda>m. JObj [(''Memo'', JObj (memo_entry ''MemoType'' (memo_type m)
     @ memo_entry ''MemoFormat'' (memo_format m) @ memo_entry ''MemoData'' (memo_data m)))]) memos)"

definition or_list :: "json \<Rightarrow> json" where
  "or_list j = (if truthy j then j else JArr [])"

definition tag_matches :: "int option \<Rightarrow> int option \<Rightarrow> bool" where
  "tag_matches expected actual \<longleftrightarrow> expected = None \<or> actual = expected"

definition memos_match :: "xrpl_memo list option \<Rightarrow> tx_json \<Rightarrow> bool" where
  "memos_match expected raw = (case expected of None \<Rightarrow> True
     | Some memos \<Rightarrow> py_eq (or_list (dget raw ''Memos'')) (expected_memos memos))"

definition check_details :: "validated_payment \<Rightarrow> charge_method_details option \<Rightarrow> unit res" where
  "check_details va details = (case details of None \<Rightarrow> Inr ()
   | Some d \<Rightarrow>
       if \<not> tag_matches (cmd_destination_tag d) (pay_destination_tag (va_tx va))
         then Inl (ValueError ''Payment DestinationTag does not match the challenge'')
       else if \<not> tag_matches (cmd_source_tag d) (pay_source_tag (va_tx va))
         then Inl (ValueError ''Payment SourceTag does not match the challenge'')
       else guard_res (memos_match (cmd_memos d) (va_raw va)) (ValueError ''Payment memos do not match the challenge''))"

definition assert_payment_matches_request ::
  "'w charge_service \<Rightarrow> validated_payment \<Rightarrow> charge_request \<Rightarrow> unit res"
where
  "assert_payment_matches_request S va request =
     bind_res (normalize_requested_amount (cs_lib S) (cr_currency request) (cr_amount request)) (\<lambda>expected.
     if pay_destination (va_tx va) \<noteq> cr_recipient request
       then Inl (ValueError ''Payment recipient does not match the challenge'')
     else bind_res (if na_asset expected \<noteq> na_asset (va_amount va) then Inr False
                    else dec_eq (na_value expected) (na_value (va_amount va))) (\<lambda>same.
     if \<not> same then Inl (ValueError ''Payment amount or currency does not match the challenge'')
     else check_details va (cr_method_details request)))"

definition assert_source :: "'w charge_service \<Rightarrow> payment_credential \<Rightarrow> string \<Rightarrow> unit res" where
  "assert_source S cred account =
     bind_res (parse_xrpl_did (or_empty (pcr_source cred)) (Some (se_network (cs_settings S)))) (\<lambda>source.
     guard_res (did_address source = account) (ValueError ''Credential source does not match transaction Account''))"

definition assert_bound ::
  "'w charge_service \<Rightarrow> validated_payment \<Rightarrow> charge_request \<Rightarrow> payment_credential \<Rightarrow> unit res"
where
  "assert_bound S va request cred =
     bind_res (assert_payment_matches_request S va request) (\<lambda>_. assert_source S cred (pay_account (va_tx va)))"

section \<open>Settlement\<close>

definition first_truthy :: "(string \<times> json) list \<Rightarrow> string \<Rightarrow> string \<Rightarrow> json" where
  "first_truthy d a b = (if truthy (dget d a) then dget d a else dget d b)"

definition extract_delivered_amount :: "(string \<times> json) list \<Rightarrow> json res" where
  "extract_delivered_amount result =
     (case first_truthy result ''meta'' ''metaData'' of
        JObj meta \<Rightarrow>
          (let delivered = first_truthy meta ''delivered_amount'' ''DeliveredAmount'' in
           if delivered = JNull then Inl (ValueError ''Validated transaction missing delivered_amount'')
           else Inr delivered)
      | j \<Rightarrow> if truthy j then Inl (OtherError ''AttributeError'')
             else Inl (ValueError ''Validated transaction missing delivered_amount''))"

definition delivered_of :: "'w charge_service \<Rightarrow> (string \<times> json) list \<Rightarrow> normalized_amount res" where
  "delivered_of S result = bind_res (extract_delivered_amount result)
     (\<lambda>j. normalize_amount (ll_repr (cs_ledger S)) (AmountValue j))"

definition accepted_submit_results :: "string list" where
  "accepted_submit_results = [''tesSUCCESS'', ''terQUEUED'', ''tefALREADY'', ''tefPAST_SEQ'']"

definition rejection_detail :: "(json \<Rightarrow> string) \<Rightarrow> (string \<times> json) list \<Rightarrow> string" where
  "rejection_detail repr result =
     (let detail = (if truthy (dget result ''engine_result_message'') then dget result ''engine_result_message''
            else if truthy (dget result ''error_message'') then dget result ''error_message''
            else dget result ''engine_result'')
      in if truthy detail then py_str repr detail else ''unknown'')"

text \<open>Membership in a \<open>frozenset\<close> hashes the value: a list or a dictionary raises.\<close>

definition ensure_submit_succeeded :: "(json \<Rightarrow> string) \<Rightarrow> json \<Rightarrow> (string \<times> json) list res" where
  "ensure_submit_succeeded repr result = (case result of
     JObj kvs \<Rightarrow> (case dget kvs ''engine_result'' of
         JArr _ \<Rightarrow> Inl (TypeError ''unhashable type'')
       | JObj _ \<Rightarrow> Inl (TypeError ''unhashable type'')
       | JStr s \<Rightarrow> if s \<in> set accepted_submit_results then Inr kvs
           else Inl (SubmissionRejected (rejection_detail repr kvs))
       | _ \<Rightarrow> Inl (SubmissionRejected (rejection_detail repr kvs)))
   | _ \<Rightarrow> Inl (SubmissionRejected ''XRPL submission returned an invalid response''))"

text \<open>
  A round of the polling loops: the result of a transaction once it is validated; a failed request or
  an unvalidated result sleeps and tries again.
\<close>

definition validated_result :: "json \<Rightarrow> (string \<times> json) list option" where
  "validated_result result = (case result of
     JObj kvs \<Rightarrow> if truthy (dget kvs ''validated'') then Some kvs else None | _ \<Rightarrow> None)"

definition lookup_tx :: "'w node \<Rightarrow> string \<Rightarrow> ('w, (string \<times> json) list option) proc" where
  "lookup_tx N h = except (andthen (nd_request N (TxLookup h)) (\<lambda>result. ret (validated_result result)))
     (\<lambda>e. if is_exception e then ret None else fail e)"

fun poll_tx :: "'w node \<Rightarrow> string \<Rightarrow> nat \<Rightarrow> ('w, (string \<times> json) list option) proc" where
  "poll_tx N h 0 = ret None"
| "poll_tx N h (Suc n) = andthen (lookup_tx N h) (\<lambda>found. case found of
     Some result \<Rightarrow> ret (Some result)
   | None \<Rightarrow> andthen (nd_sleep N) (\<lambda>_. poll_tx N h n))"

text \<open>Submitting: a definite rejection gives the payment up, any other failure leaves it open.\<close>

definition submit_blob :: "'w charge_service \<Rightarrow> string \<Rightarrow> string \<Rightarrow> reservation \<Rightarrow> ('w, unit) proc" where
  "submit_blob S blob h rv =
     except (andthen (nd_request (cs_node S) (SubmitOnly blob)) (\<lambda>response.
             andthen (lift (ensure_submit_succeeded (ll_repr (cs_ledger S)) response)) (\<lambda>_. ret ())))
       (\<lambda>e. case e of
          SubmissionRejected _ \<Rightarrow> andthen (ro_release (cs_replay S) rv) (\<lambda>_. fail e)
        | _ \<Rightarrow> if is_exception e then fail (SettlementPending h) else fail e)"

text \<open>The outcome of a validated pull payment decides what becomes of its markers.\<close>

definition conclude_pull ::
  "'w charge_service \<Rightarrow> validated_payment \<Rightarrow> reservation \<Rightarrow> (string \<times> json) list \<Rightarrow> ('w, string) proc"
where
  "conclude_pull S va rv result =
     (case first_truthy result ''meta'' ''metaData'' of
        JObj metadata \<Rightarrow>
          if dget metadata ''TransactionResult'' \<noteq> JStr ''tesSUCCESS'' then
            andthen (ro_release (cs_replay S) rv) (\<lambda>_. fail (ValueError ''Payment did not validate successfully''))
          else (case delivered_of S result of
              Inl e \<Rightarrow> andthen (ro_mark (cs_replay S) rv) (\<lambda>_. fail e)
            | Inr delivered \<Rightarrow>
                andthen (ro_mark (cs_replay S) rv) (\<lambda>_.
                if delivered \<noteq> va_amount va
                  then fail (ValueError ''Validated transaction delivered an unexpected amount'')
                else ret (va_hash va)))
      | _ \<Rightarrow> fail (SettlementPending (va_hash va)))"

definition settle_pull_payment :: "'w charge_service \<Rightarrow> validated_payment \<Rightarrow> ('w, string) proc" where
  "settle_pull_payment S va = (case (va_blob va, va_reservation va) of
     (Some blob, Some rv) \<Rightarrow>
       andthen (submit_blob S blob (va_hash va) rv) (\<lambda>_.
       andthen (poll_tx (cs_node S) (va_hash va) (nat (se_validation_timeout (cs_settings S)))) (\<lambda>found. case found of
         None \<Rightarrow> fail (SettlementPending (va_hash va))
       | Some result \<Rightarrow> conclude_pull S va rv result))
   | _ \<Rightarrow> fail (ValueError ''Pull payment is missing settlement state''))"

section \<open>Push payments\<close>

text \<open>The transaction inside the lookup result, without the fields rippled adds to it.\<close>

definition pushed_transaction :: "(string \<times> json) list \<Rightarrow> tx_json res" where
  "pushed_transaction result =
     (case (if truthy (dget result ''tx_json'') then dget result ''tx_json''
            else if truthy (dget result ''transaction'') then dget result ''transaction'' else JObj result) of
        JObj raw \<Rightarrow> Inr (dpop ''date'' (dpop ''ledger_index'' (dpop ''hash'' raw)))
      | _ \<Rightarrow> Inl (ValueError ''Validated transaction payload is malformed''))"

definition check_pushed :: "'w charge_service \<Rightarrow> string \<Rightarrow> (string \<times> json) list \<Rightarrow> (payment \<times> tx_json) res" where
  "check_pushed S h result =
     bind_res (pushed_transaction result) (\<lambda>raw.
     if dget raw ''TransactionType'' \<noteq> JStr ''Payment'' then Inl (ValueError ''TransactionType must be Payment'')
     else bind_res (ll_payment (cs_ledger S) raw) (\<lambda>p.
     bind_res (ll_hash (cs_ledger S) raw) (\<lambda>calculated.
     if py_upper calculated \<noteq> py_upper h
       then Inl (ValueError ''Validated transaction hash does not match the credential'')
     else case first_truthy result ''meta'' ''metaData'' of
       JObj metadata \<Rightarrow> if dget metadata ''TransactionResult'' = JStr ''tesSUCCESS'' then Inr (p, raw)
         else Inl (ValueError ''Payment did not validate successfully'')
     | _ \<Rightarrow> Inl (ValueError ''Payment did not validate successfully''))))"

fun shift_seconds :: "datetime \<Rightarrow> int \<Rightarrow> datetime" where
  "shift_seconds (Aware t) s = Aware (t + s * 1000000)"
| "shift_seconds (Naive t) s = Naive (t + s * 1000000)"

text \<open>The transaction must lie in the window of the challenge and not outlive its expiry.\<close>

definition check_push_window ::
  "'w charge_service \<Rightarrow> payment \<Rightarrow> string \<Rightarrow> int \<Rightarrow> int \<Rightarrow> datetime \<Rightarrow> unit res"
where
  "check_push_window S p expires tx_ledger current now =
     bind_res (iso_datetime (cs_lib S) expires) (\<lambda>expires_at.
     let issued = shift_seconds expires_at (- se_challenge_ttl (cs_settings S)) in
     bind_res (dt_le issued now) (\<lambda>issued_before.
     if \<not> issued_before then Inl (ValueError ''Push challenge validity exceeds facilitator policy'')
     else bind_res (dt_sub now issued) (\<lambda>elapsed_us.
     if tx_ledger < current - \<lceil>total_seconds elapsed_us / 4\<rceil> - 4
       then Inl (ValueError ''Push transaction predates the challenge window'')
     else case pay_last_ledger p of None \<Rightarrow> Inr ()
     | Some last_seq \<Rightarrow> bind_res (dt_sub expires_at now) (\<lambda>us.
         if total_seconds us \<le> 0 then Inl (ValueError ''Challenge expired'')
         else guard_res (\<not> ledger_cap current (total_seconds us) < last_seq)
           (ValueError ''Transaction LastLedgerSequence outlives the challenge expiry'')))))"

definition push_ledger_index :: "(string \<times> json) list \<Rightarrow> int res" where
  "push_ledger_index result = (case dget result ''ledger_index'' of
     JInt i \<Rightarrow> Inr i | _ \<Rightarrow> Inl (ValueError ''Validated push transaction has no ledger_index''))"

definition check_push_freshness ::
  "'w charge_service \<Rightarrow> payment \<Rightarrow> (string \<times> json) list \<Rightarrow> string option \<Rightarrow> ('w, unit) proc"
where
  "check_push_freshness S p result expires = (case expires of
     None \<Rightarrow> fail (ValueError ''Push payment challenges must carry expires'')
   | Some e \<Rightarrow>
       andthen (lift (push_ledger_index result)) (\<lambda>tx_ledger.
       andthen (latest_validated_ledger (cs_node S)) (\<lambda>current.
       reading (\<lambda>w. lift (check_push_window S p e tx_ledger current (now_dt (cs_node S) w))))))"

definition validate_push_payment ::
  "'w charge_service \<Rightarrow> string \<Rightarrow> string \<Rightarrow> string option \<Rightarrow> ('w, validated_payment \<times> (string \<times> json) list) proc"
where
  "validate_push_payment S h expected_invoice expires =
     andthen (poll_tx (cs_node S) (py_upper h) (nat (se_validation_timeout (cs_settings S)))) (\<lambda>found. case found of
       None \<Rightarrow> fail (SettlementPending (py_upper h))
     | Some result \<Rightarrow>
         andthen (lift (check_pushed S h result)) (\<lambda>(p, raw).
         andthen (check_push_freshness S p result expires) (\<lambda>_.
         andthen (lift (resolve_invoice_id p expected_invoice)) (\<lambda>invoice.
         andthen (lift (normalize_amount (ll_repr (cs_ledger S)) (pay_amount p))) (\<lambda>amount.
         andthen (lift (ensure_policy (cs_fac S) p amount)) (\<lambda>_.
         andthen (retention_now S expires) (\<lambda>retention.
         andthen (ro_reserve (cs_replay S) (Some invoice) (py_upper h) (Some retention)) (\<lambda>rv.
         ret (\<lparr>va_tx = p, va_raw = raw, va_invoice = invoice, va_hash = py_upper h, va_amount = amount,
               va_blob = None, va_reservation = Some rv\<rparr>, result)))))))))"

text \<open>The push branch of \<open>charge\<close>: any \<open>Exception\<close> gives the reservation back.\<close>

definition release_on_error :: "'w charge_service \<Rightarrow> validated_payment \<Rightarrow> ('w, 'a) proc \<Rightarrow> ('w, 'a) proc" where
  "release_on_error S va p = except p (\<lambda>e.
     if is_exception e then
       (case va_reservation va of None \<Rightarrow> fail e
        | Some rv \<Rightarrow> andthen (ro_release (cs_replay S) rv) (\<lambda>_. fail e))
     else fail e)"

definition confirm_push ::
  "'w charge_service \<Rightarrow> validated_payment \<Rightarrow> (string \<times> json) list \<Rightarrow> charge_request \<Rightarrow> payment_credential \<Rightarrow> ('w, unit) proc"
where
  "confirm_push S va result request cred = release_on_error S va
     (andthen (lift (assert_bound S va request cred)) (\<lambda>_.
      andthen (lift (delivered_of S result)) (\<lambda>delivered.
      andthen (check (delivered = va_amount va) (ValueError ''Validated transaction delivered an unexpected amount'')) (\<lambda>_.
      case va_reservation va of None \<Rightarrow> fail (ValueError ''Push payment is missing replay state'')
      | Some rv \<Rightarrow> ro_mark (cs_replay S) rv))))"

section \<open>The charge\<close>

definition assert_credential :: "'w charge_service \<Rightarrow> payment_credential \<Rightarrow> string \<Rightarrow> datetime \<Rightarrow> unit res" where
  "assert_credential S cred intent now = (let c = pcr_challenge cred in
     if pch_method c \<noteq> ''xrpl'' \<or> pch_intent c \<noteq> intent then Inl (ValueError (''Credential must use xrpl/'' @ intent))
     else if intent = ''charge'' \<and> pch_expires c = None then Inl (ValueError ''XRPL charge challenges must carry expires'')
     else bind_res (verify_challenge_binding (cs_lib S) (challenge_secrets (cs_settings S)) c) (\<lambda>bound.
     if \<not> bound then Inl (ValueError ''Challenge binding invalid'')
     else bind_res (challenge_is_expired (cs_lib S) c now) (\<lambda>expired.
     guard_res (\<not> expired) (ValueError ''Challenge expired''))))"

record charge_terms =
  ct_request :: charge_request
  ct_network :: string
  ct_invoice :: string
  ct_payload :: charge_payload

definition charge_terms_of :: "'w charge_service \<Rightarrow> payment_credential \<Rightarrow> charge_terms res" where
  "charge_terms_of S cred =
     bind_res (decode_challenge_request (cs_lib S) (pcr_challenge cred)) (\<lambda>r. case r of
       SessionRequest _ \<Rightarrow> Inl (OtherError ''AttributeError'')
     | ChargeRequest request \<Rightarrow>
         (let details = cr_method_details request;
              network = (case Option.bind details cmd_network of None \<Rightarrow> se_network (cs_settings S)
                         | Some n \<Rightarrow> if n = [] then se_network (cs_settings S) else n);
              invoice = or_empty (Option.bind details cmd_invoice_id) in
          if network \<noteq> se_network (cs_settings S)
            then Inl (ValueError ''Challenge network does not match facilitator network'')
          else bind_res (if invoice \<noteq> [] then Inr invoice
                 else challenge_invoice_id (lib_sha512 (cs_lib S)) (pch_id (pcr_challenge cred))) (\<lambda>expected.
          bind_res (validate_charge_payload (JObj (pcr_payload cred))) (\<lambda>payload.
          Inr \<lparr>ct_request = request, ct_network = network, ct_invoice = expected, ct_payload = payload\<rparr>))))"

record charge_receipt =
  cp_challenge_id :: string
  cp_network :: string
  cp_payer :: string
  cp_recipient :: string
  cp_invoice_id :: string
  cp_tx_hash :: string

definition charge_pull ::
  "'w charge_service \<Rightarrow> payment_credential \<Rightarrow> charge_terms \<Rightarrow> string \<Rightarrow> ('w, validated_payment \<times> string) proc"
where
  "charge_pull S cred terms blob =
     andthen (validate_pull_payment S blob (ct_invoice terms) True (pch_expires (pcr_challenge cred))) (\<lambda>va.
     andthen (release_on_error S va (lift (assert_bound S va (ct_request terms) cred))) (\<lambda>_.
     andthen (settle_pull_payment S va) (\<lambda>h. ret (va, h))))"

definition charge_push ::
  "'w charge_service \<Rightarrow> payment_credential \<Rightarrow> charge_terms \<Rightarrow> string \<Rightarrow> ('w, validated_payment \<times> string) proc"
where
  "charge_push S cred terms h =
     andthen (validate_push_payment S h (ct_invoice terms) (pch_expires (pcr_challenge cred))) (\<lambda>(va, result).
     andthen (confirm_push S va result (ct_request terms) cred) (\<lambda>_. ret (va, va_hash va)))"

definition charge_by_payload ::
  "'w charge_service \<Rightarrow> payment_credential \<Rightarrow> charge_terms \<Rightarrow> ('w, validated_payment \<times> string) proc"
where
  "charge_by_payload S cred terms = (case ct_payload terms of
     TransactionPayload blob \<Rightarrow> charge_pull S cred terms blob | HashPayload h \<Rightarrow> charge_push S cred terms h)"

definition charge :: "'w charge_service \<Rightarrow> payment_credential \<Rightarrow> ('w, charge_receipt) proc" where
  "charge S cred =
     andthen (reading (\<lambda>w. lift (assert_credential S cred ''charge'' (now_dt (cs_node S) w)))) (\<lambda>_.
     andthen (lift (charge_terms_of S cred)) (\<lambda>terms.
     andthen (charge_by_payload S cred terms) (\<lambda>(va, h).
     ret \<lparr>cp_challenge_id = pydantic_strip (pch_id (pcr_challenge cred)), cp_network = ct_network terms,
          cp_payer = pydantic_strip (pay_account (va_tx va)),
          cp_recipient = pydantic_strip (pay_destination (va_tx va)),
          cp_invoice_id = pydantic_strip (va_invoice va), cp_tx_hash = pydantic_strip h\<rparr>)))"

end
