(* ===== verification/ChannelLedger.thy ===== *)
theory ChannelLedger
  imports Charge Worker
begin

text \<open>
  The ledger hooks \<open>XRPLService\<close> gives its PayChannel service and worker
  (\<open>xrpl_service.py\<close>): submit a channel creation, read a channel from the validated ledger,
  check it before a claim, and redeem a claim; and the constructor that wires them. The transaction
  models of xrpl-py are third-party: \<open>claim_lib\<close> holds their constructor, \<open>autofill\<close>, the
  signer and \<open>submit_and_wait\<close>.
\<close>

section \<open>Opening a channel\<close>

definition created_channel :: "json \<Rightarrow> string option" where
  "created_channel wrapped = (case wrapped of
     JObj w \<Rightarrow> (case dget w ''CreatedNode'' of
       JObj created \<Rightarrow>
         if dget created ''LedgerEntryType'' \<noteq> JStr ''PayChannel'' then None
         else (case dget created ''LedgerIndex'' of
           JStr s \<Rightarrow> if hex64 s then Some (py_upper s) else None | _ \<Rightarrow> None)
     | _ \<Rightarrow> None) | _ \<Rightarrow> None)"

fun first_some :: "('a \<Rightarrow> 'b option) \<Rightarrow> 'a list \<Rightarrow> 'b option" where
  "first_some f [] = None"
| "first_some f (x # xs) = (case f x of None \<Rightarrow> first_some f xs | Some y \<Rightarrow> Some y)"

definition extract_created_channel_id :: "(string \<times> json) list \<Rightarrow> string res" where
  "extract_created_channel_id metadata = (case dget metadata ''AffectedNodes'' of
     JArr nodes \<Rightarrow> (case first_some created_channel nodes of
       None \<Rightarrow> Inl (ValueError ''Validated PaymentChannelCreate metadata has no PayChannel node'')
     | Some c \<Rightarrow> Inr c)
   | _ \<Rightarrow> Inl (ValueError ''Validated PaymentChannelCreate metadata has no AffectedNodes''))"

definition conclude_open :: "string \<Rightarrow> (string \<times> json) list \<Rightarrow> (string \<times> string) res" where
  "conclude_open h result = (case first_truthy result ''meta'' ''metaData'' of
     JObj metadata \<Rightarrow>
       if dget metadata ''TransactionResult'' = JNull then Inl (SettlementPending h)
       else if dget metadata ''TransactionResult'' \<noteq> JStr ''tesSUCCESS''
         then Inl (ValueError ''PaymentChannelCreate did not validate successfully'')
       else bind_res (catch_res (extract_created_channel_id metadata) (\<lambda>_. Inl (SettlementPending h))) (\<lambda>c.
         validate_submission (c, h))
   | _ \<Rightarrow> Inl (SettlementPending h))"

text \<open>\<open>open_hash\<close> stands for \<open>PaymentChannelCreate.from_xrpl(tx).get_hash()\<close>.\<close>

definition submit_open_channel ::
  "(json \<Rightarrow> string) \<Rightarrow> 'w node \<Rightarrow> (tx_json \<Rightarrow> string option) \<Rightarrow> int \<Rightarrow> string \<Rightarrow> tx_json \<Rightarrow> ('w, string \<times> string) proc"
where
  "submit_open_channel repr N open_hash timeout blob tx = (case open_hash tx of
     None \<Rightarrow> fail (ValueError ''Could not calculate PaymentChannelCreate transaction hash'')
   | Some raw_hash \<Rightarrow> let h = py_upper raw_hash in
       andthen (except (andthen (nd_request N (SubmitOnly blob)) (\<lambda>response.
                  andthen (lift (ensure_submit_succeeded repr response)) (\<lambda>_. ret ())))
          (\<lambda>e. case e of SubmissionRejected _ \<Rightarrow> fail e
             | _ \<Rightarrow> if is_exception e then fail (SettlementPending h) else fail e)) (\<lambda>_.
       andthen (poll_tx N h (nat timeout)) (\<lambda>found. case found of
         None \<Rightarrow> fail (SettlementPending h)
       | Some result \<Rightarrow> lift (conclude_open h result))))"

section \<open>A channel in the validated ledger\<close>

definition channel_node :: "'w node \<Rightarrow> string \<Rightarrow> ('w, (string \<times> json) list) proc" where
  "channel_node N channel = andthen (nd_request N (LedgerEntry channel)) (\<lambda>result.
     case result_dict result ''node'' of None \<Rightarrow> fail (verr ''CHANNEL_NOT_FOUND'') | Some node \<Rightarrow> ret node)"

definition digits_of :: "json \<Rightarrow> string option" where
  "digits_of j = (case j of JStr s \<Rightarrow> if is_ascii_digits s then Some s else None | _ \<Rightarrow> None)"

definition node_balance :: "(string \<times> json) list \<Rightarrow> json" where
  "node_balance node = (case map_of node ''Balance'' of None \<Rightarrow> JStr ''0'' | Some b \<Rightarrow> b)"

definition check_settle_delay :: "settings \<Rightarrow> (string \<times> json) list \<Rightarrow> unit res" where
  "check_settle_delay C node = guard_res (case dget node ''SettleDelay'' of
     JInt d \<Rightarrow> se_min_settle_delay C \<le> d | _ \<Rightarrow> False) (verr ''SETTLE_DELAY_TOO_SHORT'')"

text \<open>Neither \<open>Expiration\<close> nor \<open>CancelAfter\<close> lies inside the settlement margin.\<close>

definition outside_margin :: "int \<Rightarrow> json \<Rightarrow> bool" where
  "outside_margin deadline expiry = (case expiry of JNull \<Rightarrow> True | JInt t \<Rightarrow> deadline < t | _ \<Rightarrow> False)"

definition check_not_closing :: "settings \<Rightarrow> datetime \<Rightarrow> (string \<times> json) list \<Rightarrow> unit res" where
  "check_not_closing C now node =
     (let deadline = py_trunc (timestamp_of now) - ripple_epoch + se_settlement_margin C in
      guard_res (outside_margin deadline (dget node ''Expiration'') \<and> outside_margin deadline (dget node ''CancelAfter''))
        (verr ''CHANNEL_CLOSING''))"

definition check_node_parties :: "string option \<Rightarrow> pc_record \<Rightarrow> (string \<times> json) list \<Rightarrow> unit res" where
  "check_node_parties key r node =
     (if dget node ''Account'' \<noteq> JStr (r_payer r) \<or> dget node ''Destination'' \<noteq> JStr (r_recipient r)
        then Inl (verr ''CHANNEL_BINDING_MISMATCH'')
      else guard_res (case (key, is_text (dget node ''PublicKey'')) of
          (Some k, Some p) \<Rightarrow> py_upper p = py_upper k | _ \<Rightarrow> False) (verr ''PUBLIC_KEY_MISMATCH''))"

definition check_node_amounts :: "string \<Rightarrow> (string \<times> json) list \<Rightarrow> string res" where
  "check_node_amounts cumulative node = (case (digits_of (dget node ''Amount''), digits_of (node_balance node)) of
     (Some amount, Some balance) \<Rightarrow>
       if py_int amount < py_int cumulative then Inl (verr ''CHANNEL_EXHAUSTED'')
       else if py_int cumulative < py_int balance then Inl (verr ''CUMULATIVE_REGRESSION'')
       else if py_int amount < py_int balance then Inl (verr ''INVALID_CHANNEL_STATE'')
       else Inr amount
   | _ \<Rightarrow> Inl (verr ''INVALID_CHANNEL_STATE''))"

definition check_channel_node :: "settings \<Rightarrow> datetime \<Rightarrow> pc_record \<Rightarrow> string \<Rightarrow> (string \<times> json) list \<Rightarrow> string res" where
  "check_channel_node C now r cumulative node =
     bind_res (check_node_parties (se_payer_key C) r node) (\<lambda>_.
     bind_res (check_node_amounts cumulative node) (\<lambda>amount.
     bind_res (check_settle_delay C node) (\<lambda>_.
     bind_res (check_not_closing C now node) (\<lambda>_. Inr amount))))"

definition verify_channel_ledger ::
  "settings \<Rightarrow> 'w node \<Rightarrow> pc_record \<Rightarrow> string \<Rightarrow> ('w, string option) proc"
where
  "verify_channel_ledger C N r cumulative =
     andthen (channel_node N (r_channel_id r)) (\<lambda>node.
     reading (\<lambda>w. lift (bind_res (check_channel_node C (now_dt N w) r cumulative node) (\<lambda>amount. Inr (Some amount)))))"

text \<open>The record of a channel that is only known to the ledger.\<close>

definition imported_record :: "settings \<Rightarrow> string \<Rightarrow> string \<Rightarrow> string \<Rightarrow> string \<Rightarrow> int \<Rightarrow> pc_record" where
  "imported_record C channel payer funded balance timestamp = (let paid = 0 < py_int balance in
     \<lparr>r_network = se_network C, r_channel_id = channel, r_payer = payer, r_recipient = se_destination C,
      r_funded = funded, r_cumulative = balance, r_signature = (if paid then ''00'' else []), r_redeemed = balance,
      r_created_at = timestamp, r_updated_at = timestamp, r_finalized = False, r_finalized_at = None,
      r_finalized_reason = None, r_redeemed_at = (if paid then Some timestamp else None),
      r_redemption_reference = (if paid then Some ''ledger-import'' else None)\<rparr>)"

definition loaded_amounts :: "(string \<times> json) list \<Rightarrow> (string \<times> string) res" where
  "loaded_amounts node = (case (digits_of (dget node ''Amount''), digits_of (node_balance node)) of
     (Some funded, Some balance) \<Rightarrow>
       if 0 < py_int funded \<and> \<not> py_int funded < py_int balance then Inr (funded, balance)
       else Inl (verr ''INVALID_CHANNEL_STATE'')
   | _ \<Rightarrow> Inl (verr ''INVALID_CHANNEL_STATE''))"

definition load_channel_node ::
  "ledger_lib \<Rightarrow> settings \<Rightarrow> datetime \<Rightarrow> string \<Rightarrow> (string \<times> json) list \<Rightarrow> pc_record res"
where
  "load_channel_node L C now channel node = (case se_payer_key C of
     None \<Rightarrow> Inl (verr ''PUBLIC_KEY_MISMATCH'')
   | Some key \<Rightarrow> (case x_derive_address (ll_xrpl L) key of
       None \<Rightarrow> Inl (OtherError ''XRPLKeypairsException'')
     | Some payer \<Rightarrow>
         if dget node ''Account'' \<noteq> JStr payer \<or> dget node ''Destination'' \<noteq> JStr (se_destination C)
           \<or> py_upper (case map_of node ''PublicKey'' of None \<Rightarrow> [] | Some k \<Rightarrow> py_str (ll_repr L) k) \<noteq> py_upper key
           then Inl (verr ''CHANNEL_BINDING_MISMATCH'')
         else bind_res (loaded_amounts node) (\<lambda>(funded, balance).
              bind_res (check_settle_delay C node) (\<lambda>_.
              bind_res (check_not_closing C now node) (\<lambda>_.
              validate_record (imported_record C channel payer funded balance (millis_of now)))))))"

definition load_paychannel_record :: "ledger_lib \<Rightarrow> settings \<Rightarrow> 'w node \<Rightarrow> string \<Rightarrow> ('w, pc_record) proc" where
  "load_paychannel_record L C N channel =
     andthen (channel_node N channel) (\<lambda>node. reading (\<lambda>w. lift (load_channel_node L C (now_dt N w) channel node)))"

section \<open>Redeeming a claim\<close>

record claim_tx =
  ctx_fields :: tx_json
  ctx_fee :: "string option"
  ctx_last_ledger :: "int option"
  ctx_signed :: bool
  ctx_hash :: "string res"

record claim_terms =
  ctm_account :: string
  ctm_channel :: string
  ctm_balance :: string
  ctm_amount :: string
  ctm_signature :: string
  ctm_public_key :: string

text \<open>The signer answers \<open>None\<close> with anything that is not a \<open>PaymentChannelClaim\<close>.\<close>

record 'w claim_lib =
  cl_account :: string
  cl_new :: "claim_terms \<Rightarrow> claim_tx res"
  cl_autofill :: "claim_tx \<Rightarrow> ('w, claim_tx) proc"
  cl_sign :: "claim_tx \<Rightarrow> ('w, claim_tx option) proc"
  cl_submit_and_wait :: "claim_tx \<Rightarrow> ('w, json) proc"

definition claim_terms_of :: "string \<Rightarrow> string \<Rightarrow> pc_record \<Rightarrow> claim_terms" where
  "claim_terms_of account key r = \<lparr>ctm_account = account, ctm_channel = r_channel_id r, ctm_balance = r_cumulative r,
     ctm_amount = r_cumulative r, ctm_signature = r_signature r, ctm_public_key = py_upper key\<rparr>"

definition check_prepared :: "settings \<Rightarrow> claim_tx \<Rightarrow> unit res" where
  "check_prepared C prepared =
     bind_res (guard_res (case ctx_fee prepared of None \<Rightarrow> False
         | Some fee \<Rightarrow> is_ascii_digits fee \<and> py_int fee \<le> se_max_redemption_fee C)
       (ValueError ''PaymentChannelClaim fee exceeds the configured maximum'')) (\<lambda>_.
     guard_res (ctx_last_ledger prepared \<noteq> None)
       (ValueError ''PaymentChannelClaim autofill returned no LastLedgerSequence''))"

definition unsigned_fields :: "claim_tx \<Rightarrow> json" where
  "unsigned_fields t = JObj (dpop ''TxnSignature'' (dpop ''SigningPubKey'' (ctx_fields t)))"

definition check_signed :: "claim_tx \<Rightarrow> claim_tx option \<Rightarrow> claim_tx res" where
  "check_signed prepared answer = (case answer of
     None \<Rightarrow> Inl (ValueError ''Recipient signer returned an unexpected transaction type'')
   | Some signed \<Rightarrow>
       if \<not> py_eq (unsigned_fields signed) (unsigned_fields prepared) \<or> \<not> ctx_signed signed
         then Inl (ValueError ''Recipient signer changed the prepared PaymentChannelClaim'')
       else Inr signed)"

definition confirmed_claim :: "string \<Rightarrow> json \<Rightarrow> string res" where
  "confirmed_claim h result = (case result of
     JObj kvs \<Rightarrow> (case first_truthy kvs ''meta'' ''metaData'' of
       JObj metadata \<Rightarrow>
         if dget metadata ''TransactionResult'' \<noteq> JStr ''tesSUCCESS'' \<or> dget kvs ''validated'' \<noteq> JBool True
           then Inl (ValueError ''PaymentChannelClaim did not validate successfully'')
         else (case dget kvs ''hash'' of
           JStr v \<Rightarrow> if \<not> hex64 v then Inl (ValueError ''Validated PaymentChannelClaim returned no transaction hash'')
             else if py_upper v \<noteq> h
               then Inl (ValueError ''Validated PaymentChannelClaim hash does not match signed claim'')
             else Inr h
         | _ \<Rightarrow> Inl (ValueError ''Validated PaymentChannelClaim returned no transaction hash''))
     | _ \<Rightarrow> Inl (ValueError ''PaymentChannelClaim did not validate successfully''))
   | _ \<Rightarrow> Inl (ValueError ''PaymentChannelClaim did not validate successfully''))"

definition settle_paychannel_claim :: "settings \<Rightarrow> 'w claim_lib option \<Rightarrow> pc_record \<Rightarrow> ('w, string) proc" where
  "settle_paychannel_claim C signer r = (case (signer, se_payer_key C) of
     (Some X, Some key) \<Rightarrow>
       andthen (lift (cl_new X (claim_terms_of (cl_account X) key r))) (\<lambda>tx.
       andthen (cl_autofill X tx) (\<lambda>prepared.
       andthen (lift (check_prepared C prepared)) (\<lambda>_.
       andthen (cl_sign X prepared) (\<lambda>answer.
       andthen (lift (check_signed prepared answer)) (\<lambda>signed.
       andthen (lift (ctx_hash signed)) (\<lambda>h.
       andthen (cl_submit_and_wait X signed) (\<lambda>result.
       lift (confirmed_claim (py_upper h) result))))))))
   | _ \<Rightarrow> fail (ValueError ''PayChannel recipient signer is not configured''))"

section \<open>The facilitator service\<close>

record 'w xrpl_service =
  xs_charge :: "'w charge_service"
  xs_session :: "'w service option"
  xs_worker :: "'w worker option"

text \<open>What the constructor is given besides the settings.\<close>

record 'w deployment =
  de_lib :: lib
  de_ledger :: ledger_lib
  de_node :: "'w node"
  de_replay :: "'w replay_ops"
  de_store :: "'w store_ops"
  de_claim_challenge :: "string \<Rightarrow> int option \<Rightarrow> ('w, bool) proc"
  de_open_hash :: "tx_json \<Rightarrow> string option"
  de_signer :: "'w claim_lib option"
  de_seed_signer :: "string \<Rightarrow> 'w claim_lib res"
  de_worker_clock :: "'w \<Rightarrow> int"

definition redemption_lease :: "settings \<Rightarrow> int" where
  "redemption_lease C = max (se_redeem_lease C) (se_validation_timeout C + 60)"

definition recipient_signer_of :: "settings \<Rightarrow> 'w deployment \<Rightarrow> 'w claim_lib option res" where
  "recipient_signer_of C D =
     (if \<not> Option.is_none (de_signer D) \<and> se_recipient_seed C \<noteq> None
        then Inl (ValueError ''recipient_signer cannot be combined with PAYCHANNEL_RECIPIENT_SEED'')
      else bind_res (case se_recipient_seed C of None \<Rightarrow> Inr (de_signer D)
          | Some seed \<Rightarrow> if py_strip seed = [] then Inl (ValueError ''recipient seed is required'')
              else bind_res (de_seed_signer D (py_strip seed)) (\<lambda>s. Inr (Some s))) (\<lambda>signer.
      case signer of None \<Rightarrow> Inr None
      | Some s \<Rightarrow> if cl_account s = se_destination C then Inr (Some s)
          else Inl (ValueError ''PayChannel recipient signer does not match MY_DESTINATION_ADDRESS'')))"

definition paychannel_service :: "settings \<Rightarrow> 'w deployment \<Rightarrow> 'w claim_lib option \<Rightarrow> string \<Rightarrow> 'w service res" where
  "paychannel_service C D signer key = init_service
     \<lparr>sv_lib = de_lib D, sv_xrpl = ll_xrpl (de_ledger D), sv_store = de_store D,
      sv_claim_challenge = de_claim_challenge D, sv_secrets = challenge_secrets C, sv_network = se_network C,
      sv_recipient = se_destination C, sv_public_key = key, sv_payer = [],
      sv_open_submitter = Some (submit_open_channel (ll_repr (de_ledger D)) (de_node D) (de_open_hash D) (se_validation_timeout C)),
      sv_ledger_verifier = Some (verify_channel_ledger C (de_node D)),
      sv_channel_loader = Some (load_paychannel_record (de_ledger D) C (de_node D)),
      sv_close_settler = (case signer of None \<Rightarrow> None | Some _ \<Rightarrow> Some (settle_paychannel_claim C signer)),
      sv_signer_authorizer = Some (signer_is_authorized (de_ledger D) (de_node D)),
      sv_current_ledger_index = Some (latest_validated_ledger (de_node D)),
      sv_minimum_settle_delay = se_min_settle_delay C, sv_settlement_margin_seconds = se_settlement_margin C,
      sv_redemption_lease_seconds = redemption_lease C,
      sv_transaction_decoder = (\<lambda>blob. map_option JObj (ll_decode (de_ledger D) blob)),
      sv_now = now_dt (de_node D)\<rparr>"

definition redemption_worker_of :: "settings \<Rightarrow> 'w deployment \<Rightarrow> 'w claim_lib option \<Rightarrow> 'w worker option res" where
  "redemption_worker_of C D signer =
     (if se_redeem_interval C \<le> 0 then Inr None
      else if Option.is_none signer then Inl (ValueError ''PayChannel background redemption requires a recipient signer'')
      else bind_res (init_worker (de_store D) (settle_paychannel_claim C signer) (se_network C) (se_redeem_interval C)
             (se_idle_close C) (se_redeem_batch C) (redemption_lease C) (de_worker_clock D)) (\<lambda>W. Inr (Some W)))"

definition init_xrpl_service :: "settings \<Rightarrow> 'w deployment \<Rightarrow> 'w xrpl_service res" where
  "init_xrpl_service C D =
     bind_res (init_facilitator C (se_payer_key C \<noteq> None)) (\<lambda>F.
     bind_res (recipient_signer_of C D) (\<lambda>signer.
     bind_res (case se_payer_key C of None \<Rightarrow> Inr (None, None)
         | Some key \<Rightarrow> bind_res (paychannel_service C D signer key) (\<lambda>V.
             bind_res (redemption_worker_of C D signer) (\<lambda>W. Inr (Some V, W)))) (\<lambda>(session, worker).
     bind_res (guard_res (\<not> (0 < se_redeem_interval C \<and> Option.is_none worker))
       (ValueError ''PayChannel background redemption requires configured session support'')) (\<lambda>_.
     Inr \<lparr>xs_charge = \<lparr>cs_lib = de_lib D, cs_ledger = de_ledger D, cs_node = de_node D, cs_fac = F,
                      cs_replay = de_replay D\<rparr>,
          xs_session = session, xs_worker = worker\<rparr>))))"

record session_receipt =
  sx_reference :: string
  sx_challenge_id :: string
  sx_network :: string
  sx_payer :: string
  sx_recipient :: string
  sx_channel_id :: string
  sx_cumulative :: string
  sx_action :: string
  sx_tx_hash :: "string option"

definition session :: "'w xrpl_service \<Rightarrow> payment_credential \<Rightarrow> ('w, session_receipt) proc" where
  "session X cred = (case xs_session X of
     None \<Rightarrow> fail (ValueError ''XRPL PayChannel support is not configured'')
   | Some S \<Rightarrow> andthen (verify S cred) (\<lambda>r.
       ret \<lparr>sx_reference = vr_reference r, sx_challenge_id = vr_challenge_id r, sx_network = vr_network r,
            sx_payer = vr_payer r, sx_recipient = vr_recipient r, sx_channel_id = vr_channel_id r,
            sx_cumulative = vr_cumulative r, sx_action = vr_action r, sx_tx_hash = vr_tx_hash r\<rparr>))"

end
