(* ===== verification/ChargeDemo.thy ===== *)
theory ChargeDemo
  imports Demo ChannelLedger
begin

text \<open>
  A concrete charge for the witnesses: five drops to the recipient of \<open>Demo\<close>, paid by a signed
  blob that the ledger validates at once, with the markers in Redis.
\<close>

definition redis_replay :: "(nat \<Rightarrow> string) \<Rightarrow> replay_config \<Rightarrow> redis_client replay_ops" where
  "redis_replay uuid4 cfg = \<lparr>ro_reserve = rp_reserve uuid4 cfg, ro_guard = rp_guard_available cfg,
     ro_mark = rp_mark_processed cfg, ro_release = rp_release_pending cfg\<rparr>"

definition charge_json :: json where
  "charge_json = JObj [(''amount'', JStr ''5''), (''currency'', JStr ''XRP''), (''recipient'', JStr demo_recipient)]"

definition charge_lib :: lib where
  "charge_lib = demo_lib []\<lparr>lib_loads := (\<lambda>s. if s = ''{}'' then Some charge_json else None)\<rparr>"

definition charge_challenge :: payment_challenge where
  "charge_challenge = demo_challenge\<lparr>pch_intent := ''charge'', pch_expires := Some ''E''\<rparr>"

definition charge_credential :: payment_credential where
  "charge_credential = \<lparr>pcr_challenge = charge_challenge,
     pcr_payload = [(''type'', JStr ''transaction''), (''blob'', JStr ''AB'')],
     pcr_source = Some (''did:pkh:xrpl:testnet:'' @ demo_payer)\<rparr>"

definition charge_raw :: tx_json where
  "charge_raw = [(''TransactionType'', JStr ''Payment''), (''Account'', JStr demo_payer),
     (''SigningPubKey'', JStr ''ED''), (''TxnSignature'', JStr ''00'')]"

definition charge_payment :: payment where
  "charge_payment = \<lparr>pay_account = demo_payer, pay_destination = demo_recipient, pay_amount = AmountValue (JStr ''5''),
     pay_flags = JInt 0, pay_last_ledger = Some 110, pay_invoice_id = Some (b64_encode ''s''),
     pay_destination_tag = None, pay_source_tag = None\<rparr>"

definition charge_ledger :: ledger_lib where
  "charge_ledger = \<lparr>ll_xrpl = demo_xrpl, ll_decode = (\<lambda>b. Some charge_raw), ll_payment = (\<lambda>t. Inr charge_payment),
     ll_signed = (\<lambda>t. True), ll_hash = (\<lambda>t. Inr ''FF''), ll_repr = (\<lambda>j. [])\<rparr>"

definition charge_result :: "json \<Rightarrow> (string \<times> json) list" where
  "charge_result delivered = [(''validated'', JBool True),
     (''meta'', JObj [(''TransactionResult'', JStr ''tesSUCCESS''), (''delivered_amount'', delivered)])]"

text \<open>A node that answers from a table and leaves the world alone.\<close>

definition quiet_node :: "(rpc_request \<Rightarrow> json res) \<Rightarrow> int \<Rightarrow> 'w node" where
  "quiet_node answer now = \<lparr>nd_request = (\<lambda>q. lift (answer q)), nd_sleep = ret (), nd_now = (\<lambda>w. now)\<rparr>"

definition charge_answers :: "rpc_request \<Rightarrow> json res" where
  "charge_answers q = (case q of
     SubmitOnly b \<Rightarrow> Inr (JObj [(''engine_result'', JStr ''tesSUCCESS'')])
   | TxLookup h \<Rightarrow> Inr (JObj (charge_result (JStr ''5'')))
   | LedgerIndex \<Rightarrow> Inr (JObj [(''ledger_index'', JInt 100)])
   | _ \<Rightarrow> Inl (OtherError ''rpc''))"

definition charge_settings :: settings where
  "charge_settings = \<lparr>se_auth_mode = ''single_token'', se_destination = demo_recipient, se_bearer_token = Some ''t'',
     se_network = ''testnet'', se_settlement_mode = ''validated'', se_validation_timeout = 2, se_min_xrp_drops = 1,
     se_issued_assets = [], se_mpt_ids = [], se_max_body_bytes = 100, se_processed_ttl = 600, se_ledger_window = 20,
     se_secret = ''s'', se_previous_secrets = [], se_challenge_ttl = 300, se_default_realm = None,
     se_payer_key = None, se_recipient_seed = None, se_min_settle_delay = 0, se_settlement_margin = 0,
     se_max_redemption_fee = 10, se_redeem_interval = 0, se_idle_close = 0, se_redeem_batch = 10, se_redeem_lease = 75\<rparr>"

definition charge_config :: replay_config where
  "charge_config = \<lparr>rp_network = ''testnet'', rp_processed_ttl = 600, rp_pending_ttl = 300\<rparr>"

definition charge_demo :: "(rpc_request \<Rightarrow> json res) \<Rightarrow> redis_client charge_service" where
  "charge_demo answers = \<lparr>cs_lib = charge_lib, cs_ledger = charge_ledger, cs_node = quiet_node answers 1000000,
     cs_fac = \<lparr>fa_settings = charge_settings, fa_assets = [xrp_asset], fa_mpt_ids = [], fa_session = False\<rparr>,
     cs_replay = redis_replay (\<lambda>n. ''u'') charge_config\<rparr>"

definition charge_request_demo :: charge_request where
  "charge_request_demo = \<lparr>cr_amount = ''5'', cr_currency = ''XRP'', cr_recipient = demo_recipient, cr_description = None,
     cr_external_id = None, cr_method_details = None\<rparr>"

definition charge_terms_demo :: charge_terms where
  "charge_terms_demo = \<lparr>ct_request = charge_request_demo, ct_network = ''testnet'',
     ct_invoice = py_upper (take 64 (b64_encode ''s'')), ct_payload = TransactionPayload ''AB''\<rparr>"

lemma charge_demo_simps [simp]: "cs_lib (charge_demo a) = charge_lib" "cs_settings (charge_demo a) = charge_settings"
  "cs_node (charge_demo a) = quiet_node a 1000000" "cs_replay (charge_demo a) = redis_replay (\<lambda>n. ''u'') charge_config"
  by (simp_all add: charge_demo_def)

lemma charge_decode: "decode_base64url_json (lib_loads charge_lib) (b64_encode ''{}'') = Inr charge_json"
proof -
  have "collapse charge_json = charge_json" by (simp add: charge_json_def dict_of_def)
  then show ?thesis unfolding decode_json_Inr
    by (intro exI [of _ "''{}''"] exI [of _ charge_json]) (simp_all only: demo_json_text, simp_all add: charge_lib_def)
qed

lemma charge_demo_terms: "charge_terms_of (charge_demo a) charge_credential = Inr charge_terms_demo"
proof -
  have r: "validate_charge_request (lib_loads charge_lib) charge_json = Inr charge_request_demo" by code_simp
  have p: "validate_charge_payload (JObj (pcr_payload charge_credential)) = Inr (TransactionPayload ''AB'')" by code_simp
  have i: "challenge_invoice_id (lib_sha512 charge_lib) (pch_id charge_challenge) = Inr (py_upper (take 64 (b64_encode ''s'')))"
    by code_simp
  have d: "decode_challenge_request charge_lib charge_challenge = Inr (ChargeRequest charge_request_demo)"
    using charge_decode r by (simp add: decode_challenge_request_def charge_challenge_def demo_challenge_def)
  have c: "pcr_challenge charge_credential = charge_challenge" by (simp add: charge_credential_def)
  show ?thesis using d p i
    by (simp add: charge_terms_of_def c charge_request_demo_def charge_settings_def charge_terms_demo_def or_empty_def)
qed

lemma charge_demo_credential:
  "assert_credential (charge_demo a) charge_credential ''charge'' (Aware 1000000) = Inr ()"
proof -
  have "verify_challenge_binding charge_lib (challenge_secrets charge_settings) charge_challenge = Inr True" by code_simp
  moreover have "challenge_is_expired charge_lib charge_challenge (Aware 1000000) = Inr False" by code_simp
  ultimately show ?thesis
    by (simp add: assert_credential_def charge_credential_def Let_def)
      (simp add: charge_challenge_def demo_challenge_def)
qed

lemma charge_demo_eval:
  "charge (charge_demo a) charge_credential w =
     andthen (charge_pull (charge_demo a) charge_credential charge_terms_demo ''AB'') (\<lambda>(va, h).
       ret \<lparr>cp_challenge_id = pydantic_strip (pch_id charge_challenge), cp_network = ct_network charge_terms_demo,
          cp_payer = pydantic_strip (pay_account (va_tx va)),
          cp_recipient = pydantic_strip (pay_destination (va_tx va)),
          cp_invoice_id = pydantic_strip (va_invoice va), cp_tx_hash = pydantic_strip h\<rparr>) w"
proof -
  have t: "ct_payload charge_terms_demo = TransactionPayload ''AB''"
    "pcr_challenge charge_credential = charge_challenge"
    by (simp_all add: charge_terms_demo_def charge_credential_def)
  have n: "now_dt (quiet_node a 1000000) w = Aware 1000000" by (simp add: now_dt_def quiet_node_def)
  show ?thesis using charge_demo_credential [of a] charge_demo_terms [of a]
    by (simp add: charge_def charge_by_payload_def reading_def lift_def andthen_def n t)
qed

lemma charge_demo_runs: "is_ok (fst (charge (charge_demo charge_answers) charge_credential demo_start))"
  unfolding charge_demo_eval by code_simp

lemma charge_demo_quiet: "length (rc_rivals (snd (charge (charge_demo charge_answers) charge_credential demo_start))) = 0"
  unfolding charge_demo_eval by code_simp

end
