(* ===== verification/ReplayProperties.thy ===== *)
theory ReplayProperties
  imports ReplayStore
begin

text \<open>
  The properties of the replay stores: a challenge is claimed once, a payment is reserved by one
  request at a time, and the markers outlive every presentation of what they mark. Other replicas act
  between any two steps of a transaction: the rivals of a client are lists of replay events.
\<close>

section \<open>Transactions among replay events\<close>

lemma transact_among_events:
  assumes "transact keys plan s = (r, s')" and "rc_rivals s = map (run_events cfg) ess"
  obtains before after where "concat ess = before @ after"
    "rc_rivals s' = map (run_events cfg) (drop (length (rc_rivals s) - length (rc_rivals s')) ess)"
    "atomic_plan keys plan (run_events cfg before (rc_db s)) = (r, rc_db s')"
proof -
  from transact_linear [OF assms(1)] obtain used where used: "rc_rivals s = used @ rc_rivals s'"
    and at: "atomic_plan keys plan (run_rivals used (rc_db s)) = (r, rc_db s')" by blast
  from map_append_prefix [of "run_events cfg" ess used "rc_rivals s'"] used assms(2) obtain ys zs where
    e: "ess = ys @ zs" "used = map (run_events cfg) ys" "rc_rivals s' = map (run_events cfg) zs" by auto
  have "run_rivals used (rc_db s) = run_events cfg (concat ys) (rc_db s)" by (simp add: e(2) run_rivals_events)
  with at that [of "concat ys" "concat zs"] e used show thesis by simp
qed

text \<open>The moment a marker with a lifetime ends.\<close>

definition expiry_after :: "int option \<Rightarrow> redis \<Rightarrow> int \<Rightarrow> bool" where
  "expiry_after life db now \<longleftrightarrow> (case life of None \<Rightarrow> True | Some r \<Rightarrow> now < rd_now db + r * 1000000)"

section \<open>Challenges\<close>

text \<open>
  C9. A challenge is claimed at most once: after one client's claim has succeeded, every later claim of
  the same challenge by any client answers no, as long as the retention lasts (forever without one),
  whatever claims, reservations, marks, releases and waits happen in between, even inside the second
  claim's own transaction.
\<close>

theorem challenge_claimed_once:
  assumes "rd_ok (rc_db s)" and "rc_rivals s = map (run_events cfg) ess" and "rp_network cfg \<in> set xrpl_networks"
    and "rp_claim_challenge sha256 c life s = (Inr True, s1)"
    and "rc_db s2 = run_events cfg evs (rc_db s1)" and "rc_rivals s2 = map (run_events cfg) ess2"
    and "expiry_after life (rc_db s1) (rd_now (run_events cfg (evs @ concat ess2) (rc_db s1)))"
    and "validate_retention life2 = Inr l2"
  shows "fst (rp_claim_challenge sha256 c life2 s2) = Inr False"
proof -
  from assms(4) obtain k where key: "challenge_key sha256 c = Inr k" and life: "validate_retention life = Inr life"
    and t1: "transact [k] (claim_plan k life) s = (Inr True, s1)"
    by (auto simp: rp_claim_challenge_def proc_iffs validate_retention_def
        eq_commute [of "Inr _" "challenge_key _ _"] split: option.splits if_splits)
  obtain before where at1: "atomic_plan [k] (claim_plan k life) (run_events cfg before (rc_db s)) = (Inr True, rc_db s1)"
    using transact_among_events [OF t1 assms(2)] by metis
  define end_now where "end_now = rd_now (run_events cfg (evs @ concat ess2) (rc_db s1))"
  define t where "t = (case life of None \<Rightarrow> end_now + 1 | Some r \<Rightarrow> rd_now (rc_db s1) + r * 1000000)"
  have okb: "rd_ok (run_events cfg before (rc_db s))" using run_events_frame [OF assms(1)] by blast
  have ok1: "rd_ok (rc_db s1)" using rd_ok_atomic_plan [OF okb, of "[k]" "claim_plan k life"] at1 by simp
  have endt: "end_now < t" using assms(7) by (auto simp: t_def expiry_after_def end_now_def split: option.splits)
  have le: "rd_now (rc_db s1) \<le> end_now" using run_events_frame [OF ok1] by (simp add: end_now_def)
  have "lasts (expires_at (rc_db s1) life) t" by (auto simp: lasts_def expires_at_def t_def split: option.splits)
  from claim_marks [OF okb at1 this] le endt have m1: "marked (rc_db s1) k {processed_value} t" by simp
  obtain r s3 where t2: "transact [k] (claim_plan k l2) s2 = (r, s3)" by fastforce
  obtain b2 a2 where split: "concat ess2 = b2 @ a2"
    and at2: "atomic_plan [k] (claim_plan k l2) (run_events cfg b2 (rc_db s2)) = (r, rc_db s3)"
    using transact_among_events [OF t2 assms(6)] by metis
  have db2: "run_events cfg b2 (rc_db s2) = run_events cfg (evs @ b2) (rc_db s1)"
    by (simp add: assms(5) run_events_append)
  have ok2: "rd_ok (run_events cfg (evs @ b2) (rc_db s1))" using run_events_frame [OF ok1] by blast
  have "rd_now (run_events cfg (evs @ b2) (rc_db s1)) \<le> end_now"
    using run_events_frame [OF ok2, of cfg a2] by (simp add: end_now_def split run_events_append)
  then have lt: "rd_now (run_events cfg (evs @ b2) (rc_db s1)) < t" using endt by simp
  obtain d where "k = challenge_claim_prefix @ d" using key by (auto simp: challenge_key_def Let_def split: if_splits)
  from claim_survives [OF ok1 m1 lt this assms(3)]
  have "atomic_plan [k] (claim_plan k l2) (run_events cfg (evs @ b2) (rc_db s1)) =
      (Inr False, run_events cfg (evs @ b2) (rc_db s1))" by (rule claim_blocked [OF ok2 _ lt])
  with at2 db2 t2 key assms(8) show ?thesis by (simp add: rp_claim_challenge_def proc_simps)
qed

definition demo_client :: redis_client where
  "demo_client = \<lparr>rc_db = redis_init 0, rc_rivals = [], rc_clock = 0, rc_drawn = 0\<rparr>"

definition demo_config :: replay_config where
  "demo_config = \<lparr>rp_network = ''testnet'', rp_processed_ttl = 600, rp_pending_ttl = 300\<rparr>"

definition demo_reservation :: reservation where
  "demo_reservation = \<lparr>rv_invoice = Some ''I'', rv_blob = ''blob'', rv_id = ''v'', rv_retention = Some 60\<rparr>"

lemma demo_client_facts: "rd_ok (rc_db demo_client)" "rc_rivals demo_client = map (run_events demo_config) []"
  "rp_network demo_config \<in> set xrpl_networks"
  by (simp_all add: demo_client_def redis_init_def rd_ok_def demo_config_def xrpl_networks_def)

lemma demo_idle: "rc_rivals (demo_client\<lparr>rc_db := db\<rparr>) = map (run_events demo_config) []"
  by (simp add: demo_client_def)

lemma challenge_claimed_once_witness:
  "fst (rp_claim_challenge id ''c'' (Some 60)
     (demo_client\<lparr>rc_db := run_events demo_config [EvWait 59000000] (rc_db (snd (rp_claim_challenge id ''c'' (Some 60) demo_client)))\<rparr>)) =
   Inr False"
proof -
  let ?s1 = "snd (rp_claim_challenge id ''c'' (Some 60) demo_client)"
  have "fst (rp_claim_challenge id ''c'' (Some 60) demo_client) = Inr True" by code_simp
  then have run: "rp_claim_challenge id ''c'' (Some 60) demo_client = (Inr True, ?s1)" by (metis prod.collapse)
  have "expiry_after (Some 60) (rc_db ?s1) (rd_now (run_events demo_config ([EvWait 59000000] @ concat []) (rc_db ?s1)))"
    by (simp add: expiry_after_def run_events_def)
  then show ?thesis
    by (intro challenge_claimed_once [OF demo_client_facts run _ demo_idle])
      (simp_all add: validate_retention_def)
qed

section \<open>Reservations\<close>

text \<open>
  C10. A payment is settled by one request at a time: after a successful reservation, no request that
  shares its InvoiceID or its transaction blob gets a reservation before the retention is over, unless the
  holder itself releases it: other releases, marks of other payments, the holder's own processed mark,
  claims and waits do not open the window.
\<close>

theorem reservation_exclusive:
  assumes "rd_ok (rc_db s)" and "rc_rivals s = map (run_events cfg) ess"
    and "rp_reserve uuid4 cfg invoice blob life s = (Inr rv, s1)"
    and "rc_db s2 = run_events cfg evs (rc_db s1)" and "rc_rivals s2 = map (run_events cfg) ess2"
    and "list_all (spares cfg rv) (evs @ concat ess2)"
    and "expiry_after life (rc_db s1) (rd_now (run_events cfg (evs @ concat ess2) (rc_db s1)))"
    and "(invoice' = invoice \<and> invoice \<noteq> None) \<or> blob' = blob" and "validate_retention life2 = Inr l2"
  shows "fst (rp_reserve uuid4 cfg invoice' blob' life2 s2) = Inl replay_error"
proof -
  define rv0 where "rv0 = \<lparr>rv_invoice = invoice, rv_blob = blob, rv_id = uuid4 (rc_drawn s), rv_retention = life\<rparr>"
  define s' where "s' = s\<lparr>rc_drawn := Suc (rc_drawn s)\<rparr>"
  have "validate_retention life = Inr l \<Longrightarrow> l = life" for l
    by (auto simp: validate_retention_def split: option.splits if_splits)
  then have t1: "transact (rv_keys cfg rv0) (reserve_plan cfg rv0) s' = (Inr rv, s1)"
    using assms(3) by (auto simp: rp_reserve_def rv_keys_def rv0_def s'_def split: sum.splits)
  have s': "rc_rivals s' = map (run_events cfg) ess" "rc_db s' = rc_db s" using assms(2) by (simp_all add: s'_def)
  obtain before where at1: "atomic_plan (rv_keys cfg rv0) (reserve_plan cfg rv0) (run_events cfg before (rc_db s)) = (Inr rv, rc_db s1)"
    using transact_among_events [OF t1 s'(1)] s'(2) by metis
  have okb: "rd_ok (run_events cfg before (rc_db s))" using run_events_frame [OF assms(1)] by blast
  note marks = reserve_marks [OF okb at1]
  define end_now where "end_now = rd_now (run_events cfg (evs @ concat ess2) (rc_db s1))"
  define t where "t = (case life of None \<Rightarrow> end_now + 1 | Some r \<Rightarrow> rd_now (rc_db s1) + r * 1000000)"
  have rv: "rv = rv0" and ok1: "rd_ok (rc_db s1)" using marks by blast+
  have endt: "end_now < t" using assms(7) by (auto simp: t_def expiry_after_def end_now_def split: option.splits)
  have le: "rd_now (rc_db s1) \<le> end_now" using run_events_frame [OF ok1] by (simp add: end_now_def)
  have w: "within_retention rv0 (rc_db s1) t" by (auto simp: within_retention_def rv0_def t_def)
  define rv' where "rv' = \<lparr>rv_invoice = invoice', rv_blob = blob', rv_id = uuid4 (rc_drawn s2), rv_retention = l2\<rparr>"
  obtain k where k: "k \<in> set (rv_keys cfg rv0)" "k \<in> set (rv_keys cfg rv')"
    using assms(8) by (fastforce simp: rv_keys_def replay_keys_def rv0_def rv'_def split: option.splits)
  have m1: "marked (rc_db s1) k (holder_values rv0) t" using marks k(1) w le endt unfolding rv by auto
  obtain r s3 where t2: "transact (rv_keys cfg rv') (reserve_plan cfg rv') (s2\<lparr>rc_drawn := Suc (rc_drawn s2)\<rparr>) = (r, s3)"
    by fastforce
  obtain b2 a2 where split: "concat ess2 = b2 @ a2" and at2: "atomic_plan (rv_keys cfg rv') (reserve_plan cfg rv')
      (run_events cfg b2 (rc_db s2)) = (r, rc_db s3)"
    by (rule transact_among_events [OF t2, of cfg ess2]) (simp_all add: assms(5))
  have db2: "run_events cfg b2 (rc_db s2) = run_events cfg (evs @ b2) (rc_db s1)"
    by (simp add: assms(4) run_events_append)
  have ok2: "rd_ok (run_events cfg (evs @ b2) (rc_db s1))" using run_events_frame [OF ok1] by blast
  have "rd_now (run_events cfg (evs @ b2) (rc_db s1)) \<le> end_now"
    using run_events_frame [OF ok2, of cfg a2] by (simp add: end_now_def split run_events_append)
  then have lt: "rd_now (run_events cfg (evs @ b2) (rc_db s1)) < t" using endt by simp
  have sp: "list_all (spares cfg rv0) (evs @ b2)" using assms(6) by (simp add: split rv)
  from run_events_spare [OF ok1 m1 lt k(1) w sp]
  have "atomic_plan (rv_keys cfg rv') (reserve_plan cfg rv') (run_events cfg (evs @ b2) (rc_db s1)) =
      (Inl replay_error, run_events cfg (evs @ b2) (rc_db s1))" by (rule reserve_blocked [OF ok2 _ lt k(2)])
  with at2 db2 t2 assms(9) show ?thesis by (simp add: rp_reserve_def rv'_def rv_keys_def)
qed

lemma reservation_exclusive_witness:
  "fst (rp_reserve (\<lambda>n. ''v'') demo_config (Some ''I'') ''other'' (Some 60)
     (demo_client\<lparr>rc_db := run_events demo_config [EvWait 59000000]
        (rc_db (snd (rp_reserve (\<lambda>n. ''v'') demo_config (Some ''I'') ''blob'' (Some 60) demo_client)))\<rparr>)) = Inl replay_error"
proof -
  let ?rv = "\<lparr>rv_invoice = Some ''I'', rv_blob = ''blob'', rv_id = ''v'', rv_retention = Some 60\<rparr>"
  let ?s1 = "snd (rp_reserve (\<lambda>n. ''v'') demo_config (Some ''I'') ''blob'' (Some 60) demo_client)"
  have "fst (rp_reserve (\<lambda>n. ''v'') demo_config (Some ''I'') ''blob'' (Some 60) demo_client) = Inr ?rv" by code_simp
  then have run: "rp_reserve (\<lambda>n. ''v'') demo_config (Some ''I'') ''blob'' (Some 60) demo_client = (Inr ?rv, ?s1)"
    by (metis prod.collapse)
  have e: "expiry_after (Some 60) (rc_db ?s1) (rd_now (run_events demo_config ([EvWait 59000000] @ concat []) (rc_db ?s1)))"
    by (simp add: expiry_after_def run_events_def)
  show ?thesis
    by (rule reservation_exclusive [OF demo_client_facts(1,2) run _ demo_idle _ e])
      (simp_all add: validate_retention_def)
qed

lemma rget_rdelete: "rd_ok db \<Longrightarrow> rget (rdelete k db) k' = (if k' = k then None else rget db k')"
  by (auto simp: rget_raw map_of_rdelete map_of_purge split: option.splits if_splits)

lemma rget_purge [simp]: "rget (purge db) k = rget db k"
  by (simp add: rget_def)

lemma rget_rexec_deletes:
  assumes "rd_ok db"
  shows "rget (rexec (map RDelete ks) db) k = (if k \<in> set ks then None else rget db k)"
proof -
  have "rd_ok d \<Longrightarrow> rget (fold run_command (map RDelete ks) d) k = (if k \<in> set ks then None else rget d k)" for d
    by (induction ks arbitrary: d) (auto simp: rget_rdelete)
  from this [of "purge db"] assms show ?thesis by (simp add: rexec_def)
qed

lemma release_commands:
  "release_plan cfg rv (rmget db (rv_keys cfg rv)) =
     Commit (map RDelete (filter (\<lambda>k. rget db k = Some (pending_value (rv_id rv))) (rv_keys cfg rv))) ()"
  by (cases "rv_invoice rv") (simp_all add: release_plan_def Let_def rv_keys_def replay_keys_def rmget_def)

text \<open>
  Releasing gives up only what is one's own: a release deletes a marker exactly when it is the pending
  marker of the released reservation; processed markers and the markers of other requests stay, and the
  transaction that releases cannot fail.
\<close>

theorem release_only_own:
  assumes "rd_ok db"
  shows "fst (atomic_plan (rv_keys cfg rv) (release_plan cfg rv) db) = Inr () \<and>
    rget (snd (atomic_plan (rv_keys cfg rv) (release_plan cfg rv) db)) k =
      (if k \<in> set (rv_keys cfg rv) \<and> rget db k = Some (pending_value (rv_id rv)) then None else rget db k)"
  using assms by (simp add: atomic_plan_def release_commands rget_rexec_deletes)

lemma release_only_own_witness:
  "rget (snd (atomic_plan (rv_keys demo_config demo_reservation)
     (release_plan demo_config demo_reservation) (rset ''k'' processed_value None (redis_init 0)))) ''k'' = Some processed_value"
proof -
  let ?db = "rset ''k'' processed_value None (redis_init 0)"
  have ok: "rd_ok ?db" by (intro rd_ok_rset) (simp add: rd_ok_def redis_init_def)
  have "rget ?db ''k'' = Some processed_value" by code_simp
  with release_only_own [OF ok, of demo_config demo_reservation "''k''"] show ?thesis by simp
qed

section \<open>Retention\<close>

text \<open>
  C11. A marker outlives what it marks: the retention computed for a charge challenge is only given before
  the challenge expires, and it ends at least the validation timeout and 59 seconds after the expiry, so
  no request accepted before the expiry can still be validating when its markers go.
\<close>

theorem retention_outlives_presentation:
  assumes "replay_retention_seconds fromiso (Some e) timeout now = Inr n"
    and "fromiso (iso_offset e) = Some expiry" and "\<bar>micros expiry - micros now\<bar> \<le> 400000000000 * 1000000"
  shows "0 < timeout \<and> micros now < micros expiry \<and>
    micros expiry + (timeout + 59) * 1000000 \<le> micros now + n * 1000000"
proof -
  let ?us = "micros expiry - micros now"
  from assms(1,2) have t: "0 < timeout" and us: "0 < ?us" and n: "n = \<lceil>total_seconds ?us\<rceil> + timeout + 60"
    by (auto simp: replay_retention_seconds_def Let_def split: if_splits)
  have "of_int ?us / 1000000 - 1 / 10000 < (of_int \<lceil>total_seconds ?us\<rceil> :: rat)"
    using total_seconds_close [OF assms(3)] le_of_int_ceiling [of "total_seconds ?us"] by linarith
  then have "of_int ?us < (of_int (\<lceil>total_seconds ?us\<rceil> * 1000000 + 100) :: rat)" by (simp add: field_simps)
  then have "?us < \<lceil>total_seconds ?us\<rceil> * 1000000 + 100" by (simp only: of_int_less_iff)
  with t us n show ?thesis by (simp add: algebra_simps)
qed

lemma retention_outlives_presentation_witness:
  "\<exists>n. replay_retention_seconds (\<lambda>_. Some (Aware 60500000)) (Some ''e'') 30 (Aware 1000000) = Inr n \<and>
     60500000 + 89 * 1000000 \<le> 1000000 + n * 1000000"
proof -
  have run: "replay_retention_seconds (\<lambda>_. Some (Aware 60500000)) (Some ''e'') 30 (Aware 1000000) = Inr 150"
    by code_simp
  from retention_outlives_presentation [OF run refl] show ?thesis by (simp add: run)
qed

end
