(* ===== verification/Frame.thy ===== *)
theory Frame
  imports Prelude
begin

text \<open>
  What a computation leaves alone: \<open>keeps f p\<close> when no outcome of \<open>p\<close> changes the part
  \<open>f\<close> of the world. The rules follow the combinators, so a proof about a handler is one
  \<open>intro\<close> over its definition.
\<close>

named_theorems keeps_rules \<open>what computations leave alone\<close>

definition keeps :: "('w \<Rightarrow> 'v) \<Rightarrow> ('w, 'a) proc \<Rightarrow> bool" where
  "keeps f p \<longleftrightarrow> (\<forall>w. f (snd (p w)) = f w)"

lemma keepsI: "(\<And>w r w'. p w = (r, w') \<Longrightarrow> f w' = f w) \<Longrightarrow> keeps f p"
  by (auto simp: keeps_def) (metis prod.collapse)

lemma keepsD: "keeps f p \<Longrightarrow> p w = (r, w') \<Longrightarrow> f w' = f w"
  by (metis keeps_def snd_conv)

lemma keeps_prims [keeps_rules]:
  "keeps f (ret x)" "keeps f (fail e)" "keeps f (lift r)" "keeps f (check b e)"
  by (auto simp: keeps_def proc_simps)

lemma keeps_andthen [keeps_rules]: "keeps f p \<Longrightarrow> (\<And>x. keeps f (q x)) \<Longrightarrow> keeps f (andthen p q)"
  by (rule keepsI) (auto simp: andthen_def split: prod.splits sum.splits, (metis keepsD)+)

lemma keeps_except [keeps_rules]: "keeps f p \<Longrightarrow> (\<And>e. keeps f (h e)) \<Longrightarrow> keeps f (except p h)"
  by (rule keepsI) (auto simp: except_def split: prod.splits sum.splits, (metis keepsD)+)

lemma keeps_reading [keeps_rules]: "(\<And>w. keeps f (g w)) \<Longrightarrow> keeps f (reading g)"
  by (simp add: keeps_def reading_def)

lemma keeps_case_option [keeps_rules]:
  "keeps f p \<Longrightarrow> (\<And>x. keeps f (q x)) \<Longrightarrow> keeps f (case y of None \<Rightarrow> p | Some x \<Rightarrow> q x)"
  by (cases y) auto

lemma keeps_case_prod [keeps_rules]: "(\<And>x y. keeps f (q x y)) \<Longrightarrow> keeps f (case z of (x, y) \<Rightarrow> q x y)"
  by (cases z) auto

lemma keeps_if [keeps_rules]: "keeps f p \<Longrightarrow> keeps f q \<Longrightarrow> keeps f (if b then p else q)"
  by simp

end
