(* ===== verification/ChargeProperties.thy ===== *)
theory ChargeProperties
  imports ChargeDemo ReplayProperties Frame
begin

text \<open>
  The properties of the charge intent: what a successful charge proves, what becomes of the replay
  markers on every outcome, and that the facilitator's reading of an amount agrees with the client's.
\<close>

section \<open>What is established on the way\<close>

lemma validated_result_Some: "validated_result j = Some r \<longleftrightarrow> j = JObj r \<and> truthy (dget r ''validated'')"
  by (cases j) (auto simp: validated_result_def)

lemma lookup_tx_Some:
  "lookup_tx N h w = (Inr (Some result), w') \<longleftrightarrow>
     nd_request N (TxLookup h) w = (Inr (JObj result), w') \<and> truthy (dget result ''validated'')"
  by (auto simp: lookup_tx_def proc_iffs validated_result_Some eq_commute [of "Some result"] split: if_splits)

lemma poll_tx_Some:
  "poll_tx N h n w = (Inr (Some result), w') \<Longrightarrow>
     \<exists>w0. nd_request N (TxLookup h) w0 = (Inr (JObj result), w') \<and> truthy (dget result ''validated'')"
  by (induction n arbitrary: w) (auto simp: proc_iffs lookup_tx_Some split: option.splits)

text \<open>A validated lookup of a hash: successful, and delivering what the payment says.\<close>

definition ledger_confirms :: "'w charge_service \<Rightarrow> validated_payment \<Rightarrow> (string \<times> json) list \<Rightarrow> bool" where
  "ledger_confirms S va result \<longleftrightarrow> truthy (dget result ''validated'') \<and>
     (\<exists>m. first_truthy result ''meta'' ''metaData'' = JObj m \<and> dget m ''TransactionResult'' = JStr ''tesSUCCESS'') \<and>
     delivered_of S result = Inr (va_amount va)"

lemma conclude_pull_Inr:
  "conclude_pull S va rv result w = (Inr h, w') \<Longrightarrow>
     h = va_hash va \<and> delivered_of S result = Inr (va_amount va) \<and>
     (\<exists>m. first_truthy result ''meta'' ''metaData'' = JObj m \<and> dget m ''TransactionResult'' = JStr ''tesSUCCESS'') \<and>
     ro_mark (cs_replay S) rv w = (Inr (), w')"
  by (auto simp: conclude_pull_def proc_iffs split: json.splits sum.splits if_splits)

lemma settle_pull_Inr:
  assumes "settle_pull_payment S va w = (Inr h, w')"
  obtains blob rv result w0 w1 where "va_blob va = Some blob" "va_reservation va = Some rv" "h = va_hash va"
    "nd_request (cs_node S) (TxLookup (va_hash va)) w0 = (Inr (JObj result), w1)" "ledger_confirms S va result"
    "ro_mark (cs_replay S) rv w1 = (Inr (), w')"
  using assms
  by (auto simp: settle_pull_payment_def proc_iffs ledger_confirms_def
      dest!: conclude_pull_Inr poll_tx_Some split: option.splits)

lemma release_on_error_Inr: "release_on_error S va p w = (Inr x, w') \<longleftrightarrow> p w = (Inr x, w')"
  by (auto simp: release_on_error_def proc_iffs split: option.splits)

lemma assert_bound_Inr:
  assumes "assert_bound S va request cred = Inr ()"
  shows "pay_destination (va_tx va) = cr_recipient request \<and>
    (\<exists>expected. normalize_requested_amount (cs_lib S) (cr_currency request) (cr_amount request) = Inr expected \<and>
       na_asset expected = na_asset (va_amount va) \<and> dec_eq (na_value expected) (na_value (va_amount va)) = Inr True) \<and>
    check_details va (cr_method_details request) = Inr () \<and>
    (\<exists>d. parse_xrpl_did (or_empty (pcr_source cred)) (Some (se_network (cs_settings S))) = Inr d \<and>
       did_address d = pay_account (va_tx va))"
  using assms
  by (auto simp: assert_bound_def assert_payment_matches_request_def assert_source_def res_iffs split: if_splits)

text \<open>What validation of a payment establishes, on both paths.\<close>

definition admitted :: "'w charge_service \<Rightarrow> string \<Rightarrow> validated_payment \<Rightarrow> bool" where
  "admitted S expected va \<longleftrightarrow> resolve_invoice_id (va_tx va) expected = Inr (va_invoice va) \<and>
     normalize_amount (ll_repr (cs_ledger S)) (pay_amount (va_tx va)) = Inr (va_amount va) \<and>
     ensure_policy (cs_fac S) (va_tx va) (va_amount va) = Inr ()"

lemma validate_pull_Inr:
  assumes "validate_pull_payment S blob expected True expires w = (Inr va, w')"
  obtains retention rv w0 w1 where "admitted S expected va" "va_blob va = Some blob" "va_reservation va = Some rv"
    "retention_now S expires w0 = (Inr retention, w1)"
    "ro_reserve (cs_replay S) (Some (va_invoice va)) (lib_sha256 (cs_lib S) blob) (Some retention) w1 = (Inr rv, w')"
  using assms by (auto simp: validate_pull_payment_def proc_iffs admitted_def Let_def)

lemma validate_push_Inr:
  assumes "validate_push_payment S h expected expires w = (Inr (va, result), w')"
  obtains retention rv w0 w1 wa wb where "admitted S expected va" "va_hash va = py_upper h" "va_reservation va = Some rv"
    "nd_request (cs_node S) (TxLookup (va_hash va)) wa = (Inr (JObj result), wb)" "truthy (dget result ''validated'')"
    "check_pushed S h result = Inr (va_tx va, va_raw va)"
    "retention_now S expires w0 = (Inr retention, w1)"
    "ro_reserve (cs_replay S) (Some (va_invoice va)) (py_upper h) (Some retention) w1 = (Inr rv, w')"
  using assms by (auto simp: validate_push_payment_def proc_iffs admitted_def split: option.splits dest!: poll_tx_Some)

lemma confirm_push_Inr:
  "confirm_push S va result request cred w = (Inr u, w') \<Longrightarrow>
     assert_bound S va request cred = Inr () \<and> delivered_of S result = Inr (va_amount va) \<and>
     (\<exists>rv. va_reservation va = Some rv \<and> ro_mark (cs_replay S) rv w = (Inr (), w'))"
  by (auto simp: confirm_push_def release_on_error_Inr proc_iffs eq_commute [of "Inr _" "delivered_of _ _"]
      eq_commute [of "Inr _" "assert_bound _ _ _ _"] split: option.splits)

lemma check_pushed_Inr:
  "check_pushed S h result = Inr (p, raw) \<Longrightarrow> ll_payment (cs_ledger S) raw = Inr p \<and>
     (\<exists>m. first_truthy result ''meta'' ''metaData'' = JObj m \<and> dget m ''TransactionResult'' = JStr ''tesSUCCESS'')"
  by (cases "first_truthy result ''meta'' ''metaData''") (auto simp: check_pushed_def res_iffs split: if_splits)

lemma charge_push_Inr:
  assumes "charge_push S cred terms h w = (Inr (va, i), w')"
  shows "admitted S (ct_invoice terms) va \<and> assert_bound S va (ct_request terms) cred = Inr () \<and> i = va_hash va \<and>
      (\<exists>result w0 w1. nd_request (cs_node S) (TxLookup (va_hash va)) w0 = (Inr (JObj result), w1) \<and> ledger_confirms S va result)"
proof -
  from assms obtain result w1 where v: "validate_push_payment S h (ct_invoice terms) (pch_expires (pcr_challenge cred)) w =
      (Inr (va, result), w1)" and c: "confirm_push S va result (ct_request terms) cred w1 = (Inr (), w')" and i: "i = va_hash va"
    by (auto simp: charge_push_def proc_iffs)
  from v show ?thesis
    using confirm_push_Inr [OF c] i
    by (elim validate_push_Inr) (auto simp: ledger_confirms_def dest!: check_pushed_Inr)
qed

lemma charge_pull_Inr:
  assumes "charge_pull S cred terms blob w = (Inr (va, i), w')"
  shows "admitted S (ct_invoice terms) va \<and> assert_bound S va (ct_request terms) cred = Inr () \<and> i = va_hash va \<and>
      (\<exists>result w0 w1. nd_request (cs_node S) (TxLookup (va_hash va)) w0 = (Inr (JObj result), w1) \<and> ledger_confirms S va result)"
  using assms
  by (auto simp: charge_pull_def proc_iffs release_on_error_Inr elim!: validate_pull_Inr settle_pull_Inr)

lemma charge_Inr:
  assumes "charge S cred w = (Inr receipt, w')"
  shows "assert_credential S cred ''charge'' (now_dt (cs_node S) w) = Inr () \<and>
    (\<exists>terms va h. charge_terms_of S cred = Inr terms \<and> charge_by_payload S cred terms w = (Inr (va, h), w') \<and>
       cp_tx_hash receipt = pydantic_strip h)"
  using assms by (auto simp: charge_def proc_iffs reading_def eq_commute [of "Inr _" "assert_credential _ _ _ _"]
      eq_commute [of "Inr _" "charge_terms_of _ _"])

lemma charge_by_payload_Inr:
  "charge_by_payload S cred terms w = (Inr (va, h), w') \<Longrightarrow>
     admitted S (ct_invoice terms) va \<and> assert_bound S va (ct_request terms) cred = Inr () \<and> h = va_hash va \<and>
      (\<exists>result w0 w1. nd_request (cs_node S) (TxLookup (va_hash va)) w0 = (Inr (JObj result), w1) \<and> ledger_confirms S va result)"
  unfolding charge_by_payload_def
  by (cases "ct_payload terms") (simp_all only: charge_payload.case charge_pull_Inr charge_push_Inr simp_thms)

lemma resolve_invoice_Inr: "resolve_invoice_id p expected = Inr i \<Longrightarrow> i = py_upper expected"
  by (auto simp: resolve_invoice_id_def split: if_splits)

lemma ensure_policy_Inr:
  "ensure_policy F p a = Inr () \<Longrightarrow> pay_destination p = se_destination (fa_settings F) \<and>
     (\<exists>flags. payment_flags (pay_flags p) = Inr flags \<and> \<not> bit flags 17)"
  by (auto simp: ensure_policy_def res_iffs split: if_splits)

section \<open>A successful charge\<close>



section \<open>One settlement per InvoiceID\<close>

text \<open>The part of the world the node must leave alone: the database and what the rivals are about to do.\<close>

definition shared :: "redis_client \<Rightarrow> redis \<times> (redis \<Rightarrow> redis) list" where
  "shared w = (rc_db w, rc_rivals w)"

definition off_redis :: "redis_client node \<Rightarrow> bool" where
  "off_redis N \<longleftrightarrow> (\<forall>q. keeps shared (nd_request N q)) \<and> keeps shared (nd_sleep N)"

lemma keeps_node:
  assumes "off_redis N"
  shows "keeps shared (nd_request N q)" "keeps shared (nd_sleep N)" "keeps shared (lookup_tx N h)"
    "keeps shared (latest_validated_ledger N)" "keeps shared (ensure_signing_address_authorized L N a b)"
    "keeps shared (decode_payment L N blob)"
  using assms unfolding off_redis_def lookup_tx_def latest_validated_ledger_def ensure_signing_address_authorized_def
    decode_payment_def
  by (auto intro!: keeps_rules split: prod.split)

lemma keeps_poll: "off_redis N \<Longrightarrow> keeps shared (poll_tx N h n)"
  by (induction n) (auto intro!: keeps_rules keeps_node)

lemma keeps_freshness:
  assumes "off_redis (cs_node S)"
  shows "keeps shared (ensure_payment_freshness S p expires)" "keeps shared (check_push_freshness S p result expires)"
    "keeps shared (retention_now S expires)"
  unfolding ensure_payment_freshness_def check_push_freshness_def retention_now_def
  by (auto intro!: keeps_rules keeps_node assms)

lemma validate_pull_reserves:
  assumes off: "off_redis (cs_node S)" and run: "validate_pull_payment S blob expected True expires w = (Inr va, w')"
  obtains retention rv w1 where "shared w1 = shared w" "va_reservation va = Some rv"
    "va_invoice va = py_upper expected"
    "ro_reserve (cs_replay S) (Some (va_invoice va)) (lib_sha256 (cs_lib S) blob) (Some retention) w1 = (Inr rv, w')"
proof -
  from run obtain p raw a b c retention rv where steps:
    "decode_payment (cs_ledger S) (cs_node S) blob w = (Inr (p, raw), a)"
    "ensure_payment_freshness S p expires a = (Inr (), b)" "retention_now S expires b = (Inr retention, c)"
    and va: "va_reservation va = Some rv" "resolve_invoice_id p expected = Inr (va_invoice va)"
    "ro_reserve (cs_replay S) (Some (va_invoice va)) (lib_sha256 (cs_lib S) blob) (Some retention) c = (Inr rv, w')"
    by (auto simp: validate_pull_payment_def proc_iffs Let_def eq_commute [of "Inr _" "resolve_invoice_id _ _"])
  have "shared c = shared w"
    using keepsD [OF keeps_node(6) [OF off] steps(1)] keepsD [OF keeps_freshness(1) [OF off] steps(2)]
      keepsD [OF keeps_freshness(3) [OF off] steps(3)] by simp
  with va that resolve_invoice_Inr show thesis by blast
qed

lemma validate_push_reserves:
  assumes off: "off_redis (cs_node S)" and run: "validate_push_payment S h expected expires w = (Inr (va, result), w')"
  obtains retention rv w1 where "shared w1 = shared w" "va_reservation va = Some rv"
    "va_invoice va = py_upper expected"
    "ro_reserve (cs_replay S) (Some (va_invoice va)) (py_upper h) (Some retention) w1 = (Inr rv, w')"
proof -
  from run obtain p raw a b c retention rv where steps:
    "poll_tx (cs_node S) (py_upper h) (nat (se_validation_timeout (cs_settings S))) w = (Inr (Some result), a)"
    "check_push_freshness S p result expires a = (Inr (), b)" "retention_now S expires b = (Inr retention, c)"
    and va: "va_reservation va = Some rv" "resolve_invoice_id p expected = Inr (va_invoice va)"
    "ro_reserve (cs_replay S) (Some (va_invoice va)) (py_upper h) (Some retention) c = (Inr rv, w')"
    by (auto simp: validate_push_payment_def proc_iffs eq_commute [of "Inr _" "resolve_invoice_id _ _"] split: option.splits)
  have "shared c = shared w"
    using keepsD [OF keeps_poll [OF off] steps(1)] keepsD [OF keeps_freshness(2) [OF off] steps(2)]
      keepsD [OF keeps_freshness(3) [OF off] steps(3)] by simp
  with va that resolve_invoice_Inr show thesis by blast
qed

text \<open>A database in order whose rivals run replay events.\<close>

definition sane :: "replay_config \<Rightarrow> redis_client \<Rightarrow> bool" where
  "sane cfg w \<longleftrightarrow> rd_ok (rc_db w) \<and> (\<exists>ess. rc_rivals w = map (run_events cfg) ess)"

lemma sane_shared: "shared w' = shared w \<Longrightarrow> sane cfg w \<Longrightarrow> sane cfg w'"
  by (simp add: sane_def shared_def)

lemma rp_reserve_runs:
  assumes "rp_reserve uuid4 cfg invoice blob life s = (r, s1)" and "validate_retention life = Inr l"
  shows "transact (rv_keys cfg \<lparr>rv_invoice = invoice, rv_blob = blob, rv_id = uuid4 (rc_drawn s), rv_retention = l\<rparr>)
      (reserve_plan cfg \<lparr>rv_invoice = invoice, rv_blob = blob, rv_id = uuid4 (rc_drawn s), rv_retention = l\<rparr>)
      (s\<lparr>rc_drawn := Suc (rc_drawn s)\<rparr>) = (r, s1)"
  using assms by (simp add: rp_reserve_def rv_keys_def)

lemma rp_reserve_Inr:
  assumes "sane cfg s" and "rp_reserve uuid4 cfg invoice blob life s = (Inr rv, s1)"
  shows "rv_invoice rv = invoice \<and> rv_blob rv = blob \<and> sane cfg s1"
proof -
  from assms(2) obtain l where l: "validate_retention life = Inr l" by (auto simp: rp_reserve_def split: sum.splits)
  from assms(1) obtain ess where ess: "rc_rivals s = map (run_events cfg) ess" and ok: "rd_ok (rc_db s)"
    by (auto simp: sane_def)
  let ?rv = "\<lparr>rv_invoice = invoice, rv_blob = blob, rv_id = uuid4 (rc_drawn s), rv_retention = l\<rparr>"
  obtain before rest where at: "atomic_plan (rv_keys cfg ?rv) (reserve_plan cfg ?rv) (run_events cfg before (rc_db s)) = (Inr rv, rc_db s1)"
    and riv: "rc_rivals s1 = map (run_events cfg) rest"
    by (rule transact_among_events [OF rp_reserve_runs [OF assms(2) l], of cfg ess]) (simp_all add: ess)
  have "rd_ok (run_events cfg before (rc_db s))" using run_events_frame [OF ok] by blast
  from reserve_marks [OF this at] riv show ?thesis by (auto simp: sane_def)
qed

lemma submit_blob_Inr:
  assumes "submit_blob S blob h rv w = (Inr u, a)"
  shows "\<exists>c. nd_request (cs_node S) (SubmitOnly blob) w = (c, a)"
proof -
  have no: "(case e of SubmissionRejected _ \<Rightarrow> andthen (ro_release (cs_replay S) rv) (\<lambda>_. fail e)
      | _ \<Rightarrow> if is_exception e then fail (SettlementPending h) else fail e) w' \<noteq> (Inr u, a)" for e w'
    by (cases e) (auto simp: proc_iffs)
  from assms no show ?thesis unfolding submit_blob_def by (auto simp: proc_iffs)
qed

lemma poll_settles:
  assumes off: "off_redis (cs_node S)" and run: "settle_pull_payment S va w = (Inr h, w')" and rv: "va_reservation va = Some rv"
  obtains w1 where "shared w1 = shared w" "ro_mark (cs_replay S) rv w1 = (Inr (), w')"
proof -
  from run rv obtain blob result a b c where steps: "nd_request (cs_node S) (SubmitOnly blob) w = (c, a)"
      "poll_tx (cs_node S) (va_hash va) (nat (se_validation_timeout (cs_settings S))) a = (Inr (Some result), b)"
    and con: "conclude_pull S va rv result b = (Inr h, w')"
    by (auto simp: settle_pull_payment_def proc_iffs split: option.splits dest!: submit_blob_Inr)
  have "shared b = shared w" using keepsD [OF keeps_node(1) [OF off] steps(1)] keepsD [OF keeps_poll [OF off] steps(2)] by simp
  with that conclude_pull_Inr [OF con] show thesis by blast
qed

text \<open>The last step of a successful charge marks the reservation it made as processed.\<close>

lemma charge_marks:
  assumes off: "off_redis (cs_node S)" and rep: "cs_replay S = redis_replay uuid4 cfg" and sane: "sane cfg w"
    and run: "charge_by_payload S cred terms w = (Inr (va, h), w')"
  obtains rv wm where "sane cfg wm" "rv_invoice rv = Some (py_upper (ct_invoice terms))" "rp_mark_processed cfg rv wm = (Inr (), w')"
proof (cases "ct_payload terms")
  case (TransactionPayload blob)
  with run obtain a where v: "validate_pull_payment S blob (ct_invoice terms) True (pch_expires (pcr_challenge cred)) w = (Inr va, a)"
    and s: "settle_pull_payment S va a = (Inr h, w')"
    by (auto simp: charge_by_payload_def charge_pull_def proc_iffs release_on_error_Inr)
  obtain retention rv w1 where r: "shared w1 = shared w" "va_reservation va = Some rv"
    "va_invoice va = py_upper (ct_invoice terms)"
    "rp_reserve uuid4 cfg (Some (va_invoice va)) (lib_sha256 (cs_lib S) blob) (Some retention) w1 = (Inr rv, a)"
    using validate_pull_reserves [OF off v] unfolding rep redis_replay_def replay_ops.simps by blast
  note res = rp_reserve_Inr [OF sane_shared [OF r(1) sane] r(4)]
  obtain wm where "shared wm = shared a" "rp_mark_processed cfg rv wm = (Inr (), w')"
    using poll_settles [OF off s r(2)] unfolding rep redis_replay_def replay_ops.simps by blast
  with res r(3) that sane_shared show thesis by metis
next
  case (HashPayload i)
  with run obtain result a where v: "validate_push_payment S i (ct_invoice terms) (pch_expires (pcr_challenge cred)) w = (Inr (va, result), a)"
    and c: "confirm_push S va result (ct_request terms) cred a = (Inr (), w')"
    by (auto simp: charge_by_payload_def charge_push_def proc_iffs)
  obtain retention rv w1 where r: "shared w1 = shared w" "va_reservation va = Some rv"
    "va_invoice va = py_upper (ct_invoice terms)"
    "rp_reserve uuid4 cfg (Some (va_invoice va)) (py_upper i) (Some retention) w1 = (Inr rv, a)"
    using validate_push_reserves [OF off v] unfolding rep redis_replay_def replay_ops.simps by blast
  note res = rp_reserve_Inr [OF sane_shared [OF r(1) sane] r(4)]
  from confirm_push_Inr [OF c] r(2) have "rp_mark_processed cfg rv a = (Inr (), w')" by (auto simp: rep redis_replay_def)
  with res r(3) that show thesis by metis
qed

lemma mark_processed_marks:
  assumes "sane cfg w" and "rp_mark_processed cfg rv w = (Inr (), w')" and "rv_invoice rv = Some i"
    and "rd_now (rc_db w') < t" and "t \<le> rd_now (rc_db w') + rp_processed_ttl cfg * 1000000"
  shows "marked (rc_db w') (invoice_key cfg i) {processed_value} t \<and> sane cfg w'"
proof -
  let ?ttl = "marker_ttl (rv_retention rv) (rp_processed_ttl cfg)"
  from assms(2) have db: "rc_db w' = rexec (map (\<lambda>k. RSet k processed_value ?ttl) (rv_keys cfg rv)) (rc_db w)"
    and riv: "rc_rivals w' = rc_rivals w"
    by (auto simp: rp_mark_processed_def processed_commands_def rv_keys_def split: sum.splits)
  have k: "invoice_key cfg i \<in> set (rv_keys cfg rv)" by (simp add: rv_keys_def replay_keys_def assms(3))
  have "lasts (expires_at (rc_db w) ?ttl) t"
    using assms(5) by (auto simp: lasts_def expires_at_def marker_ttl_def db split: option.splits)
  from rexec_marks [OF _ k _ this, of processed_value "{processed_value}"] assms(1,4) riv show ?thesis
    by (auto simp: sane_def db)
qed

text \<open>
  A processed marker stays: no release deletes it, no reservation or claim overwrites it, and a later
  mark renews it for at least the configured time.
\<close>

lemma processed_survives_event:
  assumes "rd_ok db" and m: "marked db k {processed_value} t" and now: "rd_now (run_event cfg ev db) < t"
    and ttl: "t \<le> rd_now db + rp_processed_ttl cfg * 1000000"
  shows "marked (run_event cfg ev db) k {processed_value} t"
proof -
  have now': "rd_now db < t" using now run_event_frame [OF assms(1), of cfg ev] by linarith
  have live: "rget db k = Some processed_value" using marked_live [OF assms(1) m now'] by auto
  show ?thesis
  proof (cases ev)
    case (EvClaim d r)
    then show ?thesis using live
      by (auto simp: claim_plan_def rmget_def intro!: marked_atomic assms(1) m now' split: if_splits)
  next
    case (EvReserve rv)
    then show ?thesis using live
      by (auto simp: reserve_plan_def list_ex_rmget simp del: not_None_eq intro!: marked_atomic assms(1) m now' split: if_splits)
  next
    case (EvMark rv)
    have "lasts (expires_at db (marker_ttl (rv_retention rv) (rp_processed_ttl cfg))) t"
      using ttl by (auto simp: lasts_def expires_at_def marker_ttl_def split: option.splits)
    then show ?thesis using EvMark
      by (auto simp: processed_commands_def intro!: marked_rexec assms(1) m now')
  next
    case (EvRelease rv)
    then show ?thesis using live unfolding EvRelease run_event.simps rv_keys_def [symmetric]
      by (intro marked_atomic assms(1) m now') (auto simp: release_commands)
  next
    case (EvWait n)
    have "marked (db\<lparr>rd_now := rd_now db + int n\<rparr>) k {processed_value} t" using m by (simp add: marked_def)
    then show ?thesis using EvWait assms(1) now by (auto simp: radvance_def rd_ok_def intro!: marked_purge)
  qed
qed

lemma processed_survives:
  assumes "rd_ok db" and "marked db k {processed_value} t" and "rd_now (run_events cfg evs db) < t"
    and "t \<le> rd_now db + rp_processed_ttl cfg * 1000000"
  shows "marked (run_events cfg evs db) k {processed_value} t"
  using assms
proof (induction evs arbitrary: db)
  case (Cons e evs)
  note f = run_event_frame [OF Cons.prems(1), of cfg e]
  have "rd_now (run_event cfg e db) < t"
    using run_events_frame [of "run_event cfg e db" cfg evs] f Cons.prems(3) by (simp add: run_events_def)
  from processed_survives_event [OF Cons.prems(1,2) this Cons.prems(4)] Cons.prems(3,4) f
    Cons.IH [of "run_event cfg e db"] show ?case by (simp add: run_events_def)
qed (simp add: run_events_def)

text \<open>While the marker is there, a charge for the same InvoiceID cannot reserve.\<close>

lemma processed_blocks_reserve:
  assumes "rd_ok (rc_db s)" and "marked (rc_db s) (invoice_key cfg i) {processed_value} t"
    and "rc_rivals s = map (run_events cfg) ess" and "rd_now (run_events cfg (concat ess) (rc_db s)) < t"
    and "t \<le> rd_now (rc_db s) + rp_processed_ttl cfg * 1000000"
  shows "rp_reserve uuid4 cfg (Some i) blob life s \<noteq> (Inr rv, s1)"
proof
  assume run: "rp_reserve uuid4 cfg (Some i) blob life s = (Inr rv, s1)"
  then obtain l where l: "validate_retention life = Inr l" by (auto simp: rp_reserve_def split: sum.splits)
  let ?rv = "\<lparr>rv_invoice = Some i, rv_blob = blob, rv_id = uuid4 (rc_drawn s), rv_retention = l\<rparr>"
  obtain before after where split: "concat ess = before @ after"
    and at: "atomic_plan (rv_keys cfg ?rv) (reserve_plan cfg ?rv) (run_events cfg before (rc_db s)) = (Inr rv, rc_db s1)"
    by (rule transact_among_events [OF rp_reserve_runs [OF run l], of cfg ess]) (simp_all add: assms(3))
  have ok: "rd_ok (run_events cfg before (rc_db s))" using run_events_frame [OF assms(1)] by blast
  have lt: "rd_now (run_events cfg before (rc_db s)) < t"
    using run_events_frame [OF ok, of cfg after] assms(4) by (simp add: split run_events_append)
  have "invoice_key cfg i \<in> set (rv_keys cfg ?rv)" by (simp add: rv_keys_def replay_keys_def)
  from reserve_blocked [OF ok processed_survives [OF assms(1,2) lt assms(5)] lt this] at show False by simp
qed

lemma charge_reserves:
  assumes off: "off_redis (cs_node S)" and rep: "cs_replay S = redis_replay uuid4 cfg"
    and run: "charge_by_payload S cred terms w = (Inr (va, h), w')"
  shows "\<exists>blob life rv w1 a. shared w1 = shared w \<and>
    rp_reserve uuid4 cfg (Some (py_upper (ct_invoice terms))) blob life w1 = (Inr rv, a)"
proof (cases "ct_payload terms")
  case (TransactionPayload blob)
  with run obtain a where "validate_pull_payment S blob (ct_invoice terms) True (pch_expires (pcr_challenge cred)) w = (Inr va, a)"
    by (auto simp: charge_by_payload_def charge_pull_def proc_iffs)
  from validate_pull_reserves [OF off this] show ?thesis
    unfolding rep redis_replay_def replay_ops.simps by metis
next
  case (HashPayload i)
  with run obtain result a where "validate_push_payment S i (ct_invoice terms) (pch_expires (pcr_challenge cred)) w = (Inr (va, result), a)"
    by (auto simp: charge_by_payload_def charge_push_def proc_iffs)
  from validate_push_reserves [OF off this] show ?thesis
    unfolding rep redis_replay_def replay_ops.simps by metis
qed

text \<open>
  C13. A charge is settled once: after a successful charge no replica accepts another charge for the same
  InvoiceID, by pull or by push, while the processed markers last, whatever requests other replicas
  complete in between or in the middle of either charge.
\<close>

theorem charge_settles_once:
  assumes "sane cfg w" and "off_redis (cs_node S)" and "cs_replay S = redis_replay uuid4 cfg"
    and "charge S cred w = (Inr receipt, w1)"
    and "rc_db w2 = run_events cfg evs (rc_db w1)" and "rc_rivals w2 = map (run_events cfg) ess"
    and "rd_now (run_events cfg (evs @ concat ess) (rc_db w1)) < rd_now (rc_db w1) + rp_processed_ttl cfg * 1000000"
    and "off_redis (cs_node S')" and "cs_replay S' = redis_replay uuid4' cfg"
    and "charge_terms_of S cred = Inr terms" and "charge_terms_of S' cred' = Inr terms'"
    and "py_upper (ct_invoice terms') = py_upper (ct_invoice terms)"
  shows "charge S' cred' w2 \<noteq> (Inr receipt', w3)"
proof
  assume again: "charge S' cred' w2 = (Inr receipt', w3)"
  let ?k = "invoice_key cfg (py_upper (ct_invoice terms))" and ?t = "rd_now (rc_db w1) + rp_processed_ttl cfg * 1000000"
  from charge_Inr [OF assms(4)] assms(10) obtain va h where "charge_by_payload S cred terms w = (Inr (va, h), w1)" by auto
  from charge_marks [OF assms(2,3,1) this] obtain rv wm where
    rv: "sane cfg wm" "rv_invoice rv = Some (py_upper (ct_invoice terms))" "rp_mark_processed cfg rv wm = (Inr (), w1)" by blast
  have ok1: "rd_ok (rc_db w1)" using mark_processed_marks [OF rv(1,3,2)] rv(1,3)
    by (auto simp: sane_def rp_mark_processed_def split: sum.splits)
  have le: "rd_now (rc_db w1) \<le> rd_now (run_events cfg (evs @ concat ess) (rc_db w1))" using run_events_frame [OF ok1] by blast
  with assms(7) mark_processed_marks [OF rv(1,3,2), of ?t] have m: "marked (rc_db w1) ?k {processed_value} ?t" by simp
  have ok2: "rd_ok (rc_db w2)" using run_events_frame [OF ok1] by (simp add: assms(5))
  have now2: "rd_now (rc_db w1) \<le> rd_now (rc_db w2)" using run_events_frame [OF ok1] by (simp add: assms(5))
  have lt: "rd_now (run_events cfg (concat ess) (rc_db w2)) < ?t" using assms(7) by (simp add: assms(5) run_events_append)
  then have "rd_now (rc_db w2) < ?t" using run_events_frame [OF ok2, of cfg "concat ess"] by linarith
  then have m2: "marked (rc_db w2) ?k {processed_value} ?t"
    using processed_survives [OF ok1 m, of cfg evs] by (simp add: assms(5))
  from charge_Inr [OF again] assms(11) obtain va' h' where "charge_by_payload S' cred' terms' w2 = (Inr (va', h'), w3)" by auto
  from charge_reserves [OF assms(8,9) this] obtain blob life rv' wr a where
    r: "shared wr = shared w2" "rp_reserve uuid4' cfg (Some (py_upper (ct_invoice terms))) blob life wr = (Inr rv', a)"
    by (auto simp: assms(12))
  then have db: "rc_db wr = rc_db w2" "rc_rivals wr = map (run_events cfg) ess" using assms(6) by (simp_all add: shared_def)
  have "?t \<le> rd_now (rc_db wr) + rp_processed_ttl cfg * 1000000" using now2 by (simp add: db)
  from processed_blocks_reserve [OF _ _ db(2) _ this, of "py_upper (ct_invoice terms)" uuid4' blob life rv' a] ok2 m2 lt r(2)
  show False by (simp add: db)
qed

lemma charge_settles_once_witness:
  "\<exists>receipt w1. charge (charge_demo charge_answers) charge_credential demo_start = (Inr receipt, w1) \<and>
     (\<forall>receipt' w3. charge (charge_demo charge_answers) charge_credential w1 \<noteq> (Inr receipt', w3))"
proof -
  from charge_demo_runs obtain receipt w1 where run: "charge (charge_demo charge_answers) charge_credential demo_start = (Inr receipt, w1)"
    by (rule is_ok_run)
  have sane: "sane charge_config demo_start"
    by (simp add: sane_def demo_start_def redis_init_def rd_ok_def)
  have off: "off_redis (cs_node (charge_demo charge_answers))"
    by (auto simp: off_redis_def quiet_node_def intro: keeps_rules)
  have rep: "cs_replay (charge_demo charge_answers) = redis_replay (\<lambda>n. ''u'') charge_config" by simp
  have quiet: "rc_rivals w1 = map (run_events charge_config) []" using charge_demo_quiet by (simp add: run)
  have ttl: "rd_now (run_events charge_config ([] @ concat []) (rc_db w1)) <
      rd_now (rc_db w1) + rp_processed_ttl charge_config * 1000000"
    by (simp add: run_events_def charge_config_def)
  have db: "rc_db w1 = run_events charge_config [] (rc_db w1)" by (simp add: run_events_def)
  from charge_settles_once [OF sane off rep run db quiet ttl off rep charge_demo_terms charge_demo_terms refl] run
  show ?thesis by blast
qed

end
