(* ===== verification/LedgerProperties.thy ===== *)
theory LedgerProperties
  imports ChargeProperties ProtocolProperties
begin

text \<open>
  The rules of the ledger side of a charge: amounts mean the same to the client and to the
  facilitator, accepted transactions expire soon after their challenge, nothing is submitted without a
  reservation, and an unresolved submission keeps its markers.
\<close>

section \<open>Amounts\<close>

lemma charge_amount_cases:
  assumes "charge_amount_pattern v"
  obtains "is_ascii_digits v" | a b where "v = a @ CHR ''.'' # b" "is_ascii_digits a" "is_ascii_digits b"
proof -
  have v: "v = py_join ''.'' (py_split (CHR ''.'') v)" by (simp add: py_join_split)
  with assms that show thesis
    by (auto simp: charge_amount_pattern_def split: list.splits)
qed

lemma charge_amount_decimal:
  assumes "charge_amount_pattern v"
  obtains x where "decimal_text v = Some (Finite x)" "0 \<le> x"
  using assms
proof (cases rule: charge_amount_cases)
  case 1
  then show ?thesis using that by (simp add: is_ascii_digits_def decimal_text_amount)
next
  case (2 a b)
  with decimal_text_fraction [OF 2(2,3)] that show ?thesis by blast
qed

lemma charge_amount_unsigned: "charge_amount_pattern v \<Longrightarrow> \<exists>x. unsigned_decimal v i n = Inr (Finite x) \<and> decimal_text v = Some (Finite x)"
  by (elim charge_amount_decimal) (auto simp: unsigned_decimal_def dec_negative_def)

lemma classic_address_py_strip: "classic_address s \<Longrightarrow> py_strip s = s"
proof -
  have "base58_char c \<Longrightarrow> \<not> py_space c" for c
    by (auto simp: base58_char_def py_space_def is_digit_def is_upper_def is_lower_def)
  moreover have "\<not> py_space CHR ''r''" by (simp add: py_space_def ch_def)
  ultimately show "classic_address s \<Longrightarrow> py_strip s = s" unfolding py_strip_def
    by (intro strip_by_none) (auto simp: classic_address_def list_all_iff split: list.splits)
qed

text \<open>
  C16. The client and the facilitator read an amount alike: the ledger amount that \<open>build_ledger_amount\<close>
  makes of a charge request's amount and currency is normalised to exactly the amount that the
  facilitator expects for that request.
\<close>

theorem ledger_amount_agrees:
  assumes "build_ledger_amount amount c = Inr j" and "wf_currency c"
    and "parse_currency (lib_loads B) (serialize_currency c) = Inr c"
  shows "normalize_amount repr (AmountValue j) = normalize_requested_amount B (serialize_currency c) amount"
proof -
  from assms(1) have pat: "charge_amount_pattern amount" "1 \<le> length amount" "length amount \<le> max_amount_length"
    by (auto simp: build_ledger_amount_def validate_charge_amount_def split: if_splits)
  show ?thesis
  proof (cases c)
    case XRP
    with assms(1) pat have j: "j = JStr amount" "CHR ''.'' \<notin> set amount"
      by (auto simp: build_ledger_amount_def validate_charge_amount_def split: if_splits)
    with assms(3) XRP show ?thesis by (simp add: normalize_requested_amount_def)
  next
    case (IssuedCurrency code issuer)
    with assms(1) pat have j: "j = JObj [(''currency'', JStr code), (''issuer'', JStr issuer), (''value'', JStr amount)]"
      by (simp add: build_ledger_amount_def validate_charge_amount_def)
    have issuer: "classic_address issuer" using assms(2) by (simp add: wf_currency_def IssuedCurrency)
    then have "py_strip issuer = issuer" "issuer \<noteq> []" by (auto simp: classic_address_py_strip classic_address_def)
    moreover obtain x where "decimal_text amount = Some (Finite x)" "0 \<le> x" using pat(1) by (rule charge_amount_decimal)
    ultimately show ?thesis using assms(3) unfolding IssuedCurrency j
      by (simp add: normalize_requested_amount_def normalize_amount_dict_def normalize_issued_amount_fields_def
          dget_def py_str_def unsigned_decimal_def dec_negative_def Let_def)
  next
    case (MPToken m)
    with assms(1) pat have j: "j = JObj [(''mpt_issuance_id'', JStr m), (''value'', JStr amount)]"
      by (simp add: build_ledger_amount_def validate_charge_amount_def)
    have "m \<noteq> []" using assms(2) by (auto simp: wf_currency_def MPToken constrained_Inr)
    moreover obtain x where "decimal_text amount = Some (Finite x)" "0 \<le> x" using pat(1) by (rule charge_amount_decimal)
    ultimately show ?thesis using assms(3) unfolding MPToken j
      by (simp add: normalize_requested_amount_def normalize_amount_dict_def normalize_mpt_def
          dget_def py_str_def unsigned_decimal_def dec_negative_def Let_def)
  qed
qed

lemma ledger_amount_agrees_witness:
  "normalize_amount (\<lambda>_. []) (AmountValue (JObj [(''mpt_issuance_id'', JStr ''ab''), (''value'', JStr ''1.50'')])) =
     normalize_requested_amount (charge_lib\<lparr>lib_loads := (\<lambda>s. Some (JObj [(''mpt_issuance_id'', JStr ''ab'')]))\<rparr>)
       (serialize_currency (MPToken ''ab'')) ''1.50''"
proof (rule ledger_amount_agrees)
  show "build_ledger_amount ''1.50'' (MPToken ''ab'') = Inr (JObj [(''mpt_issuance_id'', JStr ''ab''), (''value'', JStr ''1.50'')])"
    by code_simp
  show "wf_currency (MPToken ''ab'')" by code_simp
qed (simp, code_simp)

section \<open>Time\<close>

text \<open>
  C17. An accepted pull payment cannot outlive its challenge: its last ledger lies after the current one,
  within the configured window, and at four seconds a ledger no more than twenty seconds after the
  challenge expires.
\<close>

theorem pull_payment_expires:
  assumes "ensure_payment_freshness S p (Some e) w = (Inr (), w')"
    and "lib_fromiso (cs_lib S) (iso_offset e) = Some t" and "\<bar>micros t - nd_now (cs_node S) w'\<bar> \<le> 400000000000 * 1000000"
  shows "\<exists>limit current w0. pay_last_ledger p = Some limit \<and>
    latest_validated_ledger (cs_node S) w = (Inr current, w') \<and>
    current < limit \<and> limit \<le> current + se_ledger_window (cs_settings S) \<and>
    4000000 < micros t - nd_now (cs_node S) w' + 100 \<and>
    (limit - current) * 4000000 < micros t - nd_now (cs_node S) w' + 20000100"
proof -
  from assms(1) obtain limit current where l: "pay_last_ledger p = Some limit"
    "latest_validated_ledger (cs_node S) w = (Inr current, w')" "current < limit" "limit \<le> current + se_ledger_window (cs_settings S)"
    and win: "check_expiry_window (cs_lib S) e (now_dt (cs_node S) w') current limit = Inr ()"
    by (auto simp: ensure_payment_freshness_def proc_iffs reading_def split: option.splits if_splits)
  define us where "us = micros t - nd_now (cs_node S) w'"
  from win assms(2) have s: "4 < total_seconds us" "limit \<le> ledger_cap current (total_seconds us)"
    by (auto simp: check_expiry_window_def iso_datetime_def res_iffs us_def now_dt_def dt_sub_def split: if_splits)
  have "\<bar>total_seconds us - of_int us / 1000000\<bar> < 1 / 10000" unfolding us_def by (rule total_seconds_close [OF assms(3)])
  then have close: "total_seconds us < of_int us / 1000000 + 1 / 10000" by linarith
  define d where "d = limit - current"
  have "d - 4 \<le> \<lceil>total_seconds us / 4\<rceil>" using s(2) by (simp add: ledger_cap_def d_def)
  then have "of_int (d - 4) < total_seconds us / 4 + 1" by linarith
  then have "of_int d < total_seconds us / 4 + 5" by simp
  with close have "of_int d * 4000000 < (of_int us + 20000100 :: rat)" by linarith
  then have "of_int ((limit - current) * 4000000) < (of_int (us + 20000100) :: rat)" by (simp add: d_def)
  moreover have "(of_int 4000000 :: rat) < of_int (us + 100)"
    using s(1) close by simp
  ultimately show ?thesis using l unfolding of_int_less_iff us_def by blast
qed

lemma pull_payment_expires_witness:
  "\<exists>limit current. pay_last_ledger charge_payment = Some limit \<and> current < limit \<and>
     (limit - current) * 4000000 < 60000000 - 1000000 + (20000100 :: int)"
proof -
  let ?S = "charge_demo charge_answers"
  have fresh: "is_ok (fst (ensure_payment_freshness ?S charge_payment (Some ''E'') demo_start))" by code_simp
  then obtain w' where run: "ensure_payment_freshness ?S charge_payment (Some ''E'') demo_start = (Inr (), w')"
    by (rule is_ok_run) simp
  have t: "lib_fromiso (cs_lib ?S) (iso_offset ''E'') = Some (Aware 60000000)" by code_simp
  have n: "nd_now (cs_node ?S) w' = 1000000" by (simp add: quiet_node_def)
  from pull_payment_expires [OF run t] n show ?thesis by auto
qed

section \<open>Settlement\<close>

text \<open>A node that answers a submission differently.\<close>

definition submitting :: "(string \<Rightarrow> ('w, json) proc) \<Rightarrow> 'w node \<Rightarrow> 'w node" where
  "submitting other N = N\<lparr>nd_request := (\<lambda>q. case q of SubmitOnly b \<Rightarrow> other b | _ \<Rightarrow> nd_request N q)\<rparr>"

lemma submitting_simps [simp]:
  "nd_request (submitting other N) (TxLookup h) = nd_request N (TxLookup h)"
  "nd_request (submitting other N) LedgerIndex = nd_request N LedgerIndex"
  "nd_request (submitting other N) (AccountInfo a) = nd_request N (AccountInfo a)"
  "nd_sleep (submitting other N) = nd_sleep N" "nd_now (submitting other N) = nd_now N"
  by (simp_all add: submitting_def)

lemma submitting_same [simp]:
  "now_dt (submitting other N) = now_dt N" "latest_validated_ledger (submitting other N) = latest_validated_ledger N"
  "ensure_signing_address_authorized L (submitting other N) = ensure_signing_address_authorized L N"
  "lookup_tx (submitting other N) h = lookup_tx N h"
  by (simp_all add: now_dt_def fun_eq_iff latest_validated_ledger_def ensure_signing_address_authorized_def lookup_tx_def)

lemma submitting_decode [simp]: "decode_payment L (submitting other N) = decode_payment L N"
  unfolding fun_eq_iff decode_payment_def submitting_same by blast

lemma submitting_poll [simp]: "poll_tx (submitting other N) h n = poll_tx N h n"
  by (induction n) simp_all

abbreviation with_submit :: "'w charge_service \<Rightarrow> (string \<Rightarrow> ('w, json) proc) \<Rightarrow> 'w charge_service" where
  "with_submit S other \<equiv> S\<lparr>cs_node := submitting other (cs_node S)\<rparr>"

lemma with_submit_node:
  "cs_node (with_submit S other) = submitting other (cs_node S)" "cs_lib (with_submit S other) = cs_lib S"
  "cs_ledger (with_submit S other) = cs_ledger S" "cs_fac (with_submit S other) = cs_fac S"
  "cs_replay (with_submit S other) = cs_replay S"
  by simp_all

lemma with_submit_checks [simp]:
  "retention_now (with_submit S other) = retention_now S"
  "ensure_payment_freshness (with_submit S other) = ensure_payment_freshness S"
  "check_push_window (with_submit S other) = check_push_window S"
  "check_pushed (with_submit S other) = check_pushed S"
  "assert_payment_matches_request (with_submit S other) = assert_payment_matches_request S"
  "assert_source (with_submit S other) = assert_source S"
  "release_on_error (with_submit S other) = release_on_error S"
  "delivered_of (with_submit S other) = delivered_of S"
  "charge_terms_of (with_submit S other) = charge_terms_of S"
  "assert_credential (with_submit S other) = assert_credential S"
  unfolding fun_eq_iff retention_now_def ensure_payment_freshness_def check_push_window_def check_pushed_def
    assert_payment_matches_request_def assert_source_def release_on_error_def delivered_of_def charge_terms_of_def
    assert_credential_def with_submit_node submitting_same by blast+

lemma with_submit_steps [simp]:
  "check_push_freshness (with_submit S other) = check_push_freshness S"
  "assert_bound (with_submit S other) = assert_bound S"
  unfolding fun_eq_iff check_push_freshness_def assert_bound_def with_submit_node submitting_same with_submit_checks by blast+

lemma with_submit_phases [simp]:
  "validate_pull_payment (with_submit S other) = validate_pull_payment S"
  "validate_push_payment (with_submit S other) = validate_push_payment S"
  "confirm_push (with_submit S other) = confirm_push S"
  unfolding fun_eq_iff validate_pull_payment_def validate_push_payment_def confirm_push_def with_submit_checks with_submit_steps
    with_submit_node submitting_decode submitting_poll by blast+

lemma with_submit_charge_push [simp]: "charge_push (with_submit S other) = charge_push S"
  unfolding fun_eq_iff charge_push_def with_submit_phases by blast

lemma refused_pull:
  assumes "\<And>i b l w. \<exists>e w'. ro_reserve (cs_replay S) i b l w = (Inl e, w')"
  shows "charge_pull (with_submit S other) cred terms blob w = charge_pull S cred terms blob w"
proof -
  have "\<exists>e w'. validate_pull_payment S blob i True x w = (Inl e, w')" for i x
  proof (cases "validate_pull_payment S blob i True x w")
    case (Pair r w')
    then show ?thesis
      using assms by (cases r) (auto elim!: validate_pull_Inr, metis Inr_Inl_False prod.inject)
  qed
  then obtain e w' where "validate_pull_payment S blob (ct_invoice terms) True (pch_expires (pcr_challenge cred)) w = (Inl e, w')"
    by blast
  then show ?thesis by (simp add: charge_pull_def andthen_def)
qed

text \<open>
  C14. Nothing is submitted without a reservation: when the replay store refuses, a charge runs exactly as
  it would with any other node answer to a submission, so no transaction reaches the ledger.
\<close>

theorem no_reservation_no_submission:
  assumes "\<And>i b l w. \<exists>e w'. ro_reserve (cs_replay S) i b l w = (Inl e, w')"
  shows "charge (with_submit S other) cred w = charge S cred w"
proof -
  have "charge_by_payload (with_submit S other) cred terms w = charge_by_payload S cred terms w" for terms w
    using refused_pull [OF assms] by (simp add: charge_by_payload_def split: charge_payload.split)
  then show ?thesis by (simp add: charge_def proc_simps cong: prod.case_cong sum.case_cong)
qed

lemma no_reservation_no_submission_witness:
  "\<forall>other. charge (with_submit (charge_demo charge_answers\<lparr>cs_replay := redis_replay (\<lambda>n. ''u'') charge_config
       \<lparr>ro_reserve := (\<lambda>i b l. fail replay_error)\<rparr>\<rparr>) other) charge_credential demo_start =
     charge (charge_demo charge_answers\<lparr>cs_replay := redis_replay (\<lambda>n. ''u'') charge_config
       \<lparr>ro_reserve := (\<lambda>i b l. fail replay_error)\<rparr>\<rparr>) charge_credential demo_start"
  by (intro allI no_reservation_no_submission) (simp add: fail_def)

lemma release_plan_commits: "\<exists>cs. release_plan cfg rv values = Commit cs ()"
  by (simp add: release_plan_def Let_def)

lemma rp_release_runs:
  assumes "sane cfg w" and "rp_release_pending cfg rv w = (r, w')"
  shows "r = Inr () \<and> (\<forall>k \<in> set (rv_keys cfg rv). rget (rc_db w') k \<noteq> Some (pending_value (rv_id rv)))"
proof -
  from assms(1) obtain ess where ess: "rc_rivals w = map (run_events cfg) ess" and ok: "rd_ok (rc_db w)" by (auto simp: sane_def)
  obtain before where at: "atomic_plan (rv_keys cfg rv) (release_plan cfg rv) (run_events cfg before (rc_db w)) = (r, rc_db w')"
    using transact_among_events [of "rv_keys cfg rv" "release_plan cfg rv" w r w' cfg ess] assms(2) ess
    by (metis rp_release_pending_def rv_keys_def)
  have "rd_ok (run_events cfg before (rc_db w))" using run_events_frame [OF ok] by blast
  moreover from at have "r = Inr ()" and "rc_db w' = rexec (map RDelete (filter (\<lambda>k. rget (run_events cfg before (rc_db w)) k =
      Some (pending_value (rv_id rv))) (rv_keys cfg rv))) (run_events cfg before (rc_db w))"
    by (simp_all add: atomic_plan_def release_commands)
  ultimately show ?thesis by (simp add: rget_rexec_deletes)
qed

lemma normalize_amount_error:
  "normalize_amount repr (AmountValue j) = Inl e \<Longrightarrow> e \<noteq> SettlementPending h"
  by (auto simp: normalize_amount_dict_def normalize_mpt_def normalize_issued_amount_fields_def normalize_drops_def
      unsigned_decimal_def dec_negative_def invalid_operation_def normalize_currency_code_def Let_def res_iffs
      split: json.split_asm option.split_asm if_split_asm decimal.split_asm)

lemma extract_delivered_error:
  "extract_delivered_amount result = Inl e \<Longrightarrow> e \<noteq> SettlementPending h"
  by (cases "first_truthy result ''meta'' ''metaData''") (auto simp: extract_delivered_amount_def Let_def split: if_splits)

lemma delivered_error: "delivered_of S result = Inl e \<Longrightarrow> e \<noteq> SettlementPending h"
  unfolding delivered_of_def bind_res_Inl_iff using extract_delivered_error normalize_amount_error by blast

lemma rp_mark_error: "rp_mark_processed cfg rv w \<noteq> (Inl (SettlementPending h), w')"
  by (auto simp: rp_mark_processed_def validate_retention_def split: option.splits if_splits)

lemma conclude_pull_pending:
  assumes rep: "cs_replay S = redis_replay uuid4 cfg" and "sane cfg w"
    and run: "conclude_pull S va rv result w = (Inl (SettlementPending h), w')"
  shows "w' = w"
proof (cases "first_truthy result ''meta'' ''metaData''")
  case (JObj m)
  have rel: "rp_release_pending cfg rv w \<noteq> (Inl e, w'')" for e w'' using rp_release_runs [OF assms(2)] by blast
  show ?thesis
  proof (cases "delivered_of S result")
    case (Inl e)
    with run JObj rel delivered_error [OF Inl] rp_mark_error show ?thesis
      by (auto simp: conclude_pull_def rep redis_replay_def proc_iffs split: if_splits)
  next
    case (Inr d)
    with run JObj rel rp_mark_error show ?thesis
      by (auto simp: conclude_pull_def rep redis_replay_def proc_iffs split: if_splits)
  qed
qed (use run in \<open>simp_all add: conclude_pull_def\<close>)

lemma submit_blob_pending:
  assumes rep: "cs_replay S = redis_replay uuid4 cfg" and sane: "sane cfg w" and off: "off_redis (cs_node S)"
    and run: "submit_blob S blob i rv w = (Inl (SettlementPending h), w')"
  shows "shared w' = shared w"
proof -
  let ?send = "andthen (nd_request (cs_node S) (SubmitOnly blob)) (\<lambda>response.
      andthen (lift (ensure_submit_succeeded (ll_repr (cs_ledger S)) response)) (\<lambda>_. ret ()))"
  from run obtain e a where e: "?send w = (Inl e, a)"
    and h: "(case e of SubmissionRejected _ \<Rightarrow> andthen (ro_release (cs_replay S) rv) (\<lambda>_. fail e)
        | _ \<Rightarrow> if is_exception e then fail (SettlementPending i) else fail e) a = (Inl (SettlementPending h) :: unit res, w')"
    unfolding submit_blob_def except_Inl_iff by blast
  have "keeps shared ?send" by (intro keeps_rules keeps_node off)
  from keepsD [OF this e] have a: "shared a = shared w" .
  then have "rp_release_pending cfg rv a \<noteq> (Inl e', w'')" for e' w'' using rp_release_runs [OF sane_shared [OF a sane]] by blast
  with h a show ?thesis by (cases e) (auto simp: rep redis_replay_def proc_iffs)
qed

text \<open>
  C15. An unresolved payment keeps its markers: when a pull payment ends with settlement-pending, nothing
  was written to the replay store, so the payment stays reserved for the full retention.
\<close>

theorem unresolved_payment_keeps_markers:
  assumes "cs_replay S = redis_replay uuid4 cfg" and "sane cfg w" and "off_redis (cs_node S)"
    and "settle_pull_payment S va w = (Inl (SettlementPending h), w')"
  shows "rc_db w' = rc_db w"
proof -
  from assms(4) obtain blob rv where va: "va_blob va = Some blob" "va_reservation va = Some rv"
    by (auto simp: settle_pull_payment_def split: option.splits)
  let ?poll = "poll_tx (cs_node S) (va_hash va) (nat (se_validation_timeout (cs_settings S)))"
  have poll: "?poll a = (r, b) \<Longrightarrow> shared b = shared a" for a r b by (rule keepsD [OF keeps_poll [OF assms(3)]])
  have sub: "shared a = shared w" if "submit_blob S blob (va_hash va) rv w = (Inr (), a)" for a
  proof -
    from submit_blob_Inr [OF that] obtain c where "nd_request (cs_node S) (SubmitOnly blob) w = (c, a)" by blast
    from keepsD [OF keeps_node(1) [OF assms(3)] this] show ?thesis .
  qed
  from assms(4) va consider "submit_blob S blob (va_hash va) rv w = (Inl (SettlementPending h), w')"
    | a where "submit_blob S blob (va_hash va) rv w = (Inr (), a)" "\<exists>r. ?poll a = (r, w')"
    | a result b where "submit_blob S blob (va_hash va) rv w = (Inr (), a)" "?poll a = (Inr (Some result), b)"
      "conclude_pull S va rv result b = (Inl (SettlementPending h), w')"
    by (auto simp: settle_pull_payment_def proc_iffs split: option.splits)
  then have "shared w' = shared w"
  proof cases
    case 1
    then show ?thesis by (rule submit_blob_pending [OF assms(1-3)])
  next
    case 2
    then obtain r where "?poll a = (r, w')" by blast
    from poll [OF this] sub [OF 2(1)] show ?thesis by simp
  next
    case 3
    have b: "shared b = shared w" using poll [OF 3(2)] sub [OF 3(1)] by simp
    with conclude_pull_pending [OF assms(1) sane_shared [OF b assms(2)] 3(3)] show ?thesis by simp
  qed
  then show ?thesis by (simp add: shared_def)
qed

definition lost_answers :: "rpc_request \<Rightarrow> json res" where
  "lost_answers q = (case q of SubmitOnly b \<Rightarrow> Inl (OtherError ''timeout'') | _ \<Rightarrow> charge_answers q)"

lemma unresolved_payment_keeps_markers_witness:
  "\<exists>w'. settle_pull_payment (charge_demo lost_answers) \<lparr>va_tx = charge_payment, va_raw = charge_raw, va_invoice = ''I'',
      va_hash = ''FF'', va_amount = \<lparr>na_asset = xrp_asset, na_value = Finite 5, na_drops = Some 5\<rparr>, va_blob = Some ''AB'',
      va_reservation = Some demo_reservation\<rparr> demo_start = (Inl (SettlementPending ''FF''), w') \<and> rc_db w' = rc_db demo_start"
proof -
  have run: "settle_pull_payment (charge_demo lost_answers) \<lparr>va_tx = charge_payment, va_raw = charge_raw, va_invoice = ''I'',
      va_hash = ''FF'', va_amount = \<lparr>na_asset = xrp_asset, na_value = Finite 5, na_drops = Some 5\<rparr>, va_blob = Some ''AB'',
      va_reservation = Some demo_reservation\<rparr> demo_start = (Inl (SettlementPending ''FF''), demo_start)"
    by (simp add: settle_pull_payment_def submit_blob_def proc_simps quiet_node_def lost_answers_def)
  have sane: "sane charge_config demo_start" by (simp add: sane_def demo_start_def redis_init_def rd_ok_def)
  have off: "off_redis (cs_node (charge_demo lost_answers))" by (auto simp: off_redis_def quiet_node_def intro: keeps_rules)
  have rep: "cs_replay (charge_demo lost_answers) = redis_replay (\<lambda>n. ''u'') charge_config" by simp
  from unresolved_payment_keeps_markers [OF rep sane off run] run show ?thesis by blast
qed

end
