(* ===== verification/Effort.thy ===== *)
theory Effort
  imports Frame
begin

text \<open>
  How much a computation does at most: \<open>costs f n p\<close> bounds what \<open>p\<close> adds to a counter in
  the world. Like the rules of \<open>keeps\<close>, the rules follow the combinators.
\<close>

text \<open>
  \<open>costs f n p\<close>: however \<open>p\<close> ends, it raises the counter \<open>f\<close> of the world by
  at most \<open>n\<close>.
\<close>

definition costs :: "('w \<Rightarrow> nat) \<Rightarrow> nat \<Rightarrow> ('w, 'a) proc \<Rightarrow> bool" where
  "costs f n p \<longleftrightarrow> (\<forall>w. f (snd (p w)) \<le> f w + n)"

lemma costsI: "(\<And>w r w'. p w = (r, w') \<Longrightarrow> f w' \<le> f w + n) \<Longrightarrow> costs f n p"
  by (auto simp: costs_def) (metis prod.collapse)

lemma costsD: "costs f n p \<Longrightarrow> p w = (r, w') \<Longrightarrow> f w' \<le> f w + n"
  by (metis costs_def snd_conv)

lemma keeps_costs: "keeps f p \<Longrightarrow> costs f n p"
  by (simp add: keeps_def costs_def)

lemma costs_mono: "costs f n p \<Longrightarrow> n \<le> m \<Longrightarrow> costs f m p"
  unfolding costs_def by (meson add_left_mono order_trans)

lemma costs_andthen: "costs f a p \<Longrightarrow> (\<And>x. costs f b (q x)) \<Longrightarrow> costs f (a + b) (andthen p q)"
  by (rule costsI) (fastforce simp: andthen_def split: prod.splits sum.splits dest: costsD)

lemma costs_except: "costs f a p \<Longrightarrow> (\<And>e. costs f b (h e)) \<Longrightarrow> costs f (a + b) (except p h)"
  by (rule costsI) (fastforce simp: except_def split: prod.splits sum.splits dest: costsD)

lemma costs_after: "keeps f p \<Longrightarrow> (\<And>x. costs f n (q x)) \<Longrightarrow> costs f n (andthen p q)"
  using costs_andthen [of f 0 p n q] keeps_costs by auto

lemma costs_before: "costs f n p \<Longrightarrow> (\<And>x. keeps f (q x)) \<Longrightarrow> costs f n (andthen p q)"
  using costs_andthen [of f n p 0 q] keeps_costs by auto

lemma costs_handled: "costs f n p \<Longrightarrow> (\<And>e. keeps f (h e)) \<Longrightarrow> costs f n (except p h)"
  using costs_except [of f n p 0 h] keeps_costs by auto

lemma costs_reading: "(\<And>w. costs f n (g w)) \<Longrightarrow> costs f n (reading g)"
  by (simp add: costs_def reading_def)

lemma costs_case_option:
  "costs f n p \<Longrightarrow> (\<And>x. costs f n (q x)) \<Longrightarrow> costs f n (case y of None \<Rightarrow> p | Some x \<Rightarrow> q x)"
  by (cases y) auto

lemma costs_case_prod: "(\<And>x y. costs f n (q x y)) \<Longrightarrow> costs f n (case z of (x, y) \<Rightarrow> q x y)"
  by (cases z) auto

lemma costs_if: "costs f n p \<Longrightarrow> costs f n q \<Longrightarrow> costs f n (if b then p else q)"
  by simp

end
