(* ===== verification/ChargeEffort.thy ===== *)
theory ChargeEffort
  imports LedgerProperties Effort
begin

text \<open>A charge asks the node a bounded number of questions, whatever the node answers.\<close>

section \<open>Effort\<close>

text \<open>The node counts the requests it gets; nothing else does.\<close>

definition counts_requests :: "('w \<Rightarrow> nat) \<Rightarrow> 'w charge_service \<Rightarrow> bool" where
  "counts_requests f S \<longleftrightarrow> (\<forall>q. costs f 1 (nd_request (cs_node S) q)) \<and> keeps f (nd_sleep (cs_node S)) \<and>
     (\<forall>i b l. keeps f (ro_reserve (cs_replay S) i b l)) \<and> (\<forall>rv. keeps f (ro_mark (cs_replay S) rv)) \<and>
     (\<forall>rv. keeps f (ro_release (cs_replay S) rv))"

lemma counts:
  assumes "counts_requests f S"
  shows "costs f 1 (nd_request (cs_node S) q)" "keeps f (nd_sleep (cs_node S))" "keeps f (ro_reserve (cs_replay S) i b l)"
    "keeps f (ro_mark (cs_replay S) rv)" "keeps f (ro_release (cs_replay S) rv)"
  using assms by (simp_all add: counts_requests_def)

lemma costs_pieces:
  assumes c: "counts_requests f S"
  shows "costs f 1 (lookup_tx (cs_node S) h)" "costs f 1 (latest_validated_ledger (cs_node S))"
    "costs f 1 (ensure_signing_address_authorized L (cs_node S) a b)"
  unfolding lookup_tx_def latest_validated_ledger_def ensure_signing_address_authorized_def
  by (intro costs_handled costs_before costs_if counts [OF c] keeps_rules keeps_costs)+

lemma costs_poll: "counts_requests f S \<Longrightarrow> costs f n (poll_tx (cs_node S) h n)"
proof (induction n)
  case (Suc n)
  have "costs f (1 + n) (poll_tx (cs_node S) h (Suc n))" unfolding poll_tx.simps
    by (intro costs_andthen costs_case_option costs_after costs_pieces counts keeps_rules keeps_costs [of f "ret x" for x] Suc)
  then show ?case by simp
qed (simp add: keeps_costs keeps_rules)

lemma costs_reads:
  assumes c: "counts_requests f S"
  shows "costs f 1 (decode_payment (cs_ledger S) (cs_node S) blob)" "costs f 1 (ensure_payment_freshness S p e)"
    "costs f 1 (check_push_freshness S p result e)"
  unfolding decode_payment_def ensure_payment_freshness_def check_push_freshness_def
  by (intro costs_case_option costs_if costs_case_prod costs_pieces [OF c] keeps_rules keeps_costs [of f "fail x" for x]
      costs_before [OF costs_pieces(2) [OF c]] costs_before [OF costs_pieces(3) [OF c]] costs_after [of f "lift r" for r])+

lemma keeps_writes:
  assumes c: "counts_requests f S"
  shows "keeps f (retention_now S e)" "keeps f (conclude_pull S va rv result)"
    "keeps f (confirm_push S va result request cred)" "keeps f (release_on_error S va (lift r))"
proof -
  show "keeps f (retention_now S e)" unfolding retention_now_def by (intro keeps_rules)
  show "keeps f (release_on_error S va (lift r))" unfolding release_on_error_def by (intro keeps_rules counts [OF c])
  show "keeps f (confirm_push S va result request cred)" unfolding confirm_push_def release_on_error_def
    by (intro keeps_rules counts [OF c])
  show "keeps f (conclude_pull S va rv result)"
    by (cases "first_truthy result ''meta'' ''metaData''"; cases "delivered_of S result")
      (auto simp: conclude_pull_def intro!: keeps_rules counts [OF c])
qed

lemma costs_submit:
  assumes c: "counts_requests f S"
  shows "costs f 1 (submit_blob S blob h rv)"
proof -
  have "keeps f (case e of SubmissionRejected _ \<Rightarrow> andthen (ro_release (cs_replay S) rv) (\<lambda>_. fail e)
      | _ \<Rightarrow> if is_exception e then fail (SettlementPending h) else fail e)" for e
    by (cases e) (auto intro!: keeps_rules counts [OF c])
  then show ?thesis unfolding submit_blob_def
    by (intro costs_handled costs_before counts [OF c] keeps_rules)
qed

lemma costs_settle:
  assumes c: "counts_requests f S"
  shows "costs f (1 + nat (se_validation_timeout (cs_settings S))) (settle_pull_payment S va)"
proof (cases "va_blob va")
  case None
  then show ?thesis by (simp add: settle_pull_payment_def keeps_costs keeps_rules)
next
  case (Some blob)
  have "costs f (nat (se_validation_timeout (cs_settings S))) (andthen (poll_tx (cs_node S) h (nat (se_validation_timeout (cs_settings S))))
      (\<lambda>found. case found of None \<Rightarrow> fail e | Some result \<Rightarrow> conclude_pull S va rv result))" for h e rv
    by (intro costs_before costs_poll [OF c] keeps_rules keeps_writes [OF c])
  then have "costs f (1 + nat (se_validation_timeout (cs_settings S))) (andthen (submit_blob S blob h rv) (\<lambda>_.
      andthen (poll_tx (cs_node S) h (nat (se_validation_timeout (cs_settings S))))
        (\<lambda>found. case found of None \<Rightarrow> fail e | Some result \<Rightarrow> conclude_pull S va rv result)))" for h e rv
    by (intro costs_andthen costs_submit [OF c])
  with Some show ?thesis
    by (cases "va_reservation va") (simp_all add: settle_pull_payment_def keeps_costs keeps_rules)
qed

lemma costs_validate:
  assumes c: "counts_requests f S"
  shows "costs f 2 (validate_pull_payment S blob i True e)"
    "costs f (nat (se_validation_timeout (cs_settings S)) + 1) (validate_push_payment S h i e)"
proof -
  have rest: "costs f 1 (andthen (lift (resolve_invoice_id p i)) (\<lambda>invoice.
     andthen (lift (normalize_amount (ll_repr (cs_ledger S)) (pay_amount p))) (\<lambda>amount.
     andthen (lift (ensure_policy (cs_fac S) p amount)) (\<lambda>_. andthen (ensure_payment_freshness S p e) (q invoice amount)))))"
    if "\<And>x y z. keeps f (q x y z)" for p and q :: "string \<Rightarrow> normalized_amount \<Rightarrow> unit \<Rightarrow> ('a, validated_payment) proc"
    by (intro costs_after costs_before costs_reads [OF c] that keeps_rules)
  have "costs f (1 + 1) (validate_pull_payment S blob i True e)"
    unfolding validate_pull_payment_def Let_def if_True
    by (intro costs_andthen costs_case_prod costs_reads [OF c] rest keeps_rules counts [OF c] keeps_writes [OF c])
  then show "costs f 2 (validate_pull_payment S blob i True e)" by (simp add: numeral_2_eq_2)
  show "costs f (nat (se_validation_timeout (cs_settings S)) + 1) (validate_push_payment S h i e)"
    unfolding validate_push_payment_def
    by (intro costs_andthen costs_poll [OF c] costs_case_option costs_case_prod costs_after [of f "lift r" for r]
        costs_before [OF costs_reads(3) [OF c]] keeps_rules keeps_costs [of f "fail x" for x] counts [OF c] keeps_writes [OF c])
qed

text \<open>
  C18. A charge ends: whatever the node answers, and however slowly the transaction validates, one charge
  asks the node at most three questions more than the configured validation timeout has seconds.
\<close>

theorem charge_requests_bounded:
  assumes "counts_requests f S" and "charge S cred w = (r, w')"
  shows "f w' \<le> f w + nat (se_validation_timeout (cs_settings S)) + 3"
proof -
  let ?n = "nat (se_validation_timeout (cs_settings S))"
  have "costs f (2 + (1 + ?n)) (charge_pull S cred terms blob)" for terms blob
    unfolding charge_pull_def
    by (intro costs_andthen costs_validate costs_after costs_before costs_settle keeps_writes keeps_rules assms(1))
  then have pull: "costs f (?n + 3) (charge_pull S cred terms blob)" for terms blob by (rule costs_mono) simp
  have "costs f (?n + 1) (charge_push S cred terms h)" for terms h
    unfolding charge_push_def
    by (intro costs_before costs_validate keeps_writes keeps_rules assms(1))
  then have push: "costs f (?n + 3) (charge_push S cred terms h)" for terms h by (rule costs_mono) simp
  have "costs f (?n + 3) (charge_by_payload S cred terms)" for terms
    using pull push by (simp add: charge_by_payload_def split: charge_payload.split)
  then have "costs f (?n + 3) (charge S cred)"
    unfolding charge_def by (intro costs_after costs_before keeps_rules)
  from costsD [OF this assms(2)] show ?thesis by simp
qed

definition counting_node :: "nat node" where
  "counting_node = \<lparr>nd_request = (\<lambda>q n. (charge_answers q, Suc n)), nd_sleep = ret (), nd_now = (\<lambda>n. 1000000)\<rparr>"

definition counting_charge :: "nat charge_service" where
  "counting_charge = \<lparr>cs_lib = charge_lib, cs_ledger = charge_ledger, cs_node = counting_node,
     cs_fac = cs_fac (charge_demo charge_answers),
     cs_replay = \<lparr>ro_reserve = (\<lambda>i b l. ret demo_reservation), ro_guard = (\<lambda>i b. ret ()), ro_mark = (\<lambda>rv. ret ()),
       ro_release = (\<lambda>rv. ret ())\<rparr>\<rparr>"

lemma charge_requests_bounded_witness: "snd (charge counting_charge charge_credential 0) \<le> 5"
proof -
  have c: "counts_requests (\<lambda>n. n) counting_charge"
    by (auto simp: counts_requests_def counting_charge_def counting_node_def keeps_rules intro!: costsI)
  obtain r w' where run: "charge counting_charge charge_credential 0 = (r, w')" by fastforce
  have "se_validation_timeout (cs_settings counting_charge) = 2"
    by (simp add: counting_charge_def charge_settings_def)
  with charge_requests_bounded [OF c run] show ?thesis by (simp add: run)
qed

end
