(* ===== verification/Receipt.thy ===== *)
theory Receipt
  imports HeaderSyntax PyNum Service
begin

text \<open>
  The messages that travel back to a payer and how a challenge is made: payment receipts and problem
  documents (\<open>models.py\<close>), their header form, the request models as dictionaries, the content
  digest and \<open>build_payment_challenge\<close> (\<open>helpers.py\<close>). The text of a time
  (\<open>datetime.isoformat\<close>) is an argument.
\<close>

section \<open>Payment receipts\<close>

record payment_receipt =
  pr_method :: string
  pr_timestamp :: string
  pr_reference :: string
  pr_challenge_id :: "string option"
  pr_network :: "string option"
  pr_payer :: "string option"
  pr_recipient :: "string option"
  pr_invoice_id :: "string option"
  pr_channel_id :: "string option"
  pr_cumulative :: "string option"
  pr_action :: "string option"
  pr_tx_hash :: "string option"
  pr_settlement_status :: "string option"
  pr_extra :: "(string \<times> json) list"

definition receipt_field_names :: "(string \<times> string) list" where
  "receipt_field_names =
     [plain ''status'', plain ''method'', plain ''timestamp'', plain ''reference'',
      (''challengeId'', ''challenge_id''), plain ''network'', plain ''payer'', plain ''recipient'',
      (''invoiceId'', ''invoice_id''), (''channelId'', ''channel_id''), plain ''cumulative'',
      plain ''action'', (''txHash'', ''tx_hash''), (''settlementStatus'', ''settlement_status'')]"

text \<open>\<open>extra="allow"\<close> keeps every key that no field has used.\<close>

definition extra_entries :: "(string \<times> string) list \<Rightarrow> (string \<times> json) list \<Rightarrow> (string \<times> json) list" where
  "extra_entries known kvs =
     filter (\<lambda>(k, _). k \<notin> set (map (\<lambda>f. used_key f kvs) known)) kvs"

definition text_option :: "string \<times> string \<Rightarrow> (string \<times> json) list \<Rightarrow> string option res" where
  "text_option f kvs = opt_field (stripped_str (fst f)) (optional f kvs)"

definition receipt_timestamp :: "lib \<Rightarrow> json \<Rightarrow> string res" where
  "receipt_timestamp L j = bind_res (stripped_str ''timestamp'' j) (\<lambda>s.
     if aware_timestamp L s then Inr s else Inl (ValidationError ''timestamp''))"

definition validate_receipt :: "lib \<Rightarrow> json \<Rightarrow> payment_receipt res" where
  "validate_receipt L j = bind_res (as_dict j) (\<lambda>kvs.
     bind_res (bind_res (required (plain ''status'') kvs) (literal ''status'' [''success''])) (\<lambda>_.
     bind_res (bind_res (required (plain ''method'') kvs) (stripped_str ''method'')) (\<lambda>m.
     bind_res (bind_res (required (plain ''timestamp'') kvs) (receipt_timestamp L)) (\<lambda>t.
     bind_res (bind_res (required (plain ''reference'') kvs) (stripped_str ''reference'')) (\<lambda>r.
     bind_res (text_option (''challengeId'', ''challenge_id'') kvs) (\<lambda>ci.
     bind_res (text_option (plain ''network'') kvs) (\<lambda>n.
     bind_res (text_option (plain ''payer'') kvs) (\<lambda>py.
     bind_res (text_option (plain ''recipient'') kvs) (\<lambda>rc.
     bind_res (text_option (''invoiceId'', ''invoice_id'') kvs) (\<lambda>iv.
     bind_res (text_option (''channelId'', ''channel_id'') kvs) (\<lambda>ch.
     bind_res (text_option (plain ''cumulative'') kvs) (\<lambda>cu.
     bind_res (opt_field (literal ''action'' [''open'', ''voucher'', ''close'']) (optional (plain ''action'') kvs)) (\<lambda>a.
     bind_res (text_option (''txHash'', ''tx_hash'') kvs) (\<lambda>h.
     bind_res (opt_field (literal ''settlementStatus'' [''validated''])
                (optional (''settlementStatus'', ''settlement_status'') kvs)) (\<lambda>s.
     Inr \<lparr>pr_method = m, pr_timestamp = t, pr_reference = r, pr_challenge_id = ci, pr_network = n,
          pr_payer = py, pr_recipient = rc, pr_invoice_id = iv, pr_channel_id = ch, pr_cumulative = cu,
          pr_action = a, pr_tx_hash = h, pr_settlement_status = s,
          pr_extra = extra_entries receipt_field_names kvs\<rparr>)))))))))))))))"

text \<open>\<open>model_dump(by_alias=True, exclude_none=True)\<close>: declared fields first, then the extra ones.\<close>

definition present_texts :: "(string \<times> string option) list \<Rightarrow> (string \<times> json) list" where
  "present_texts fs = concat (map (\<lambda>(k, v). case v of None \<Rightarrow> [] | Some s \<Rightarrow> [(k, JStr s)]) fs)"

definition receipt_dict :: "payment_receipt \<Rightarrow> (string \<times> json) list" where
  "receipt_dict r = present_texts
     [(''status'', Some ''success''), (''method'', Some (pr_method r)), (''timestamp'', Some (pr_timestamp r)),
      (''reference'', Some (pr_reference r)), (''challengeId'', pr_challenge_id r), (''network'', pr_network r),
      (''payer'', pr_payer r), (''recipient'', pr_recipient r), (''invoiceId'', pr_invoice_id r),
      (''channelId'', pr_channel_id r), (''cumulative'', pr_cumulative r), (''action'', pr_action r),
      (''txHash'', pr_tx_hash r), (''settlementStatus'', pr_settlement_status r)]
     @ filter (\<lambda>(_, v). v \<noteq> JNull) (pr_extra r)"

definition encode_payment_receipt :: "lib \<Rightarrow> payment_receipt \<Rightarrow> string res" where
  "encode_payment_receipt L r = encode_json_to_base64url (lib_jcs L) (JObj (receipt_dict r))"

definition decode_payment_receipt :: "lib \<Rightarrow> string \<Rightarrow> payment_receipt res" where
  "decode_payment_receipt L raw = (case decode_base64url_json (lib_loads L) raw of
     Inl _ \<Rightarrow> Inl (ValueError ''Header payload is not valid base64url JSON'')
   | Inr j \<Rightarrow> (case validate_receipt L j of
       Inl _ \<Rightarrow> Inl (ValueError ''Header payload does not match the MPP schema'')
     | Inr r \<Rightarrow> Inr r))"

text \<open>The documented extension fields a caller reads back.\<close>

definition receipt_extra :: "payment_receipt \<Rightarrow> string \<Rightarrow> json" where
  "receipt_extra r k = dget (pr_extra r) k"

section \<open>Problem documents\<close>

text \<open>
  A lax \<open>int\<close> field: an integer, a boolean, a whole float, or a text that \<open>int\<close> reads.
\<close>

definition lax_int :: "string \<Rightarrow> json \<Rightarrow> int res" where
  "lax_int field j = (case j of
     JInt i \<Rightarrow> Inr i | JBool b \<Rightarrow> Inr (if b then 1 else 0)
   | JFloat x \<Rightarrow> if of_int \<lfloor>x\<rfloor> = x then Inr \<lfloor>x\<rfloor> else Inl (ValidationError field)
   | JStr s \<Rightarrow> (case int_text s of Some i \<Rightarrow> Inr i | None \<Rightarrow> Inl (ValidationError field))
   | _ \<Rightarrow> Inl (ValidationError field))"

definition validate_problem :: "json \<Rightarrow> problem_details res" where
  "validate_problem j = bind_res (as_dict j) (\<lambda>kvs.
     bind_res (bind_res (required (plain ''type'') kvs) (stripped_str ''type'')) (\<lambda>t.
     bind_res (bind_res (required (plain ''title'') kvs) (stripped_str ''title'')) (\<lambda>ti.
     bind_res (bind_res (required (plain ''status'') kvs) (lax_int ''status'')) (\<lambda>s.
     bind_res (bind_res (required (plain ''detail'') kvs) (stripped_str ''detail'')) (\<lambda>d.
     bind_res (text_option (''challengeId'', ''challenge_id'') kvs) (\<lambda>c.
     bind_res (text_option (''paymentReference'', ''payment_reference'') kvs) (\<lambda>r.
     Inr \<lparr>pb_type = t, pb_title = ti, pb_status = s, pb_detail = d, pb_challenge_id = c,
          pb_payment_reference = r\<rparr>)))))))"

definition problem_dict :: "problem_details \<Rightarrow> (string \<times> json) list" where
  "problem_dict p =
     [(''type'', JStr (pb_type p)), (''title'', JStr (pb_title p)), (''status'', JInt (pb_status p)),
      (''detail'', JStr (pb_detail p))]
     @ present_texts [(''challengeId'', pb_challenge_id p), (''paymentReference'', pb_payment_reference p)]"

section \<open>Making a challenge\<close>

text \<open>\<open>build_content_digest\<close>: the padded standard base64 of the SHA-256 of a non-empty body.\<close>

definition standard_base64 :: "string \<Rightarrow> string" where
  "standard_base64 bytes = (let t = b64_encode bytes in
     map (\<lambda>c. if c = CHR ''-'' then CHR ''+'' else if c = CHR ''_'' then CHR ''/'' else c) t
     @ replicate ((4 - length t mod 4) mod 4) (CHR ''=''))"

definition build_content_digest :: "lib \<Rightarrow> string \<Rightarrow> string option" where
  "build_content_digest L body =
     (if body = [] then None
      else Some (''sha-256=:'' @ standard_base64 (from_hex (lib_sha256 L body)) @ '':''))"

definition present_ints :: "(string \<times> int option) list \<Rightarrow> (string \<times> json) list" where
  "present_ints fs = concat (map (\<lambda>(k, v). case v of None \<Rightarrow> [] | Some i \<Rightarrow> [(k, JInt i)]) fs)"

definition memo_json :: "xrpl_memo \<Rightarrow> json" where
  "memo_json m = JObj (present_texts [(''type'', memo_type m), (''format'', memo_format m), (''data'', memo_data m)])"

definition charge_request_dict :: "charge_request \<Rightarrow> (string \<times> json) list" where
  "charge_request_dict r =
     present_texts [(''amount'', Some (cr_amount r)), (''currency'', Some (cr_currency r)),
       (''recipient'', Some (cr_recipient r)), (''description'', cr_description r), (''externalId'', cr_external_id r)]
     @ (case cr_method_details r of None \<Rightarrow> []
        | Some d \<Rightarrow> [(''methodDetails'', JObj (present_texts
            [(''reference'', cmd_reference d), (''network'', cmd_network d), (''invoiceId'', cmd_invoice_id d)]
            @ present_ints [(''destinationTag'', cmd_destination_tag d), (''sourceTag'', cmd_source_tag d)]
            @ (case cmd_memos d of None \<Rightarrow> [] | Some ms \<Rightarrow> [(''memos'', JArr (map memo_json ms))])))])"

definition session_request_dict :: "session_request \<Rightarrow> (string \<times> json) list" where
  "session_request_dict r =
     present_texts [(''amount'', Some (sr_amount r)), (''currency'', sr_currency r),
       (''channelId'', Some (sr_channel_id r)), (''recipient'', Some (sr_recipient r)),
       (''description'', sr_description r), (''externalId'', sr_external_id r)]
     @ (case sr_method_details r of None \<Rightarrow> []
        | Some d \<Rightarrow> [(''methodDetails'', JObj (present_texts
            [(''reference'', smd_reference d), (''network'', smd_network d),
             (''cumulativeAmount'', smd_cumulative_amount d)]))])"

fun plus_seconds :: "datetime \<Rightarrow> int \<Rightarrow> datetime" where
  "plus_seconds (Aware t) s = Aware (t + s * 1000000)"
| "plus_seconds (Naive t) s = Naive (t + s * 1000000)"

text \<open>\<open>isoformat().replace("+00:00", "Z")\<close>, for a time in UTC.\<close>

definition utc_text :: "(datetime \<Rightarrow> string) \<Rightarrow> datetime \<Rightarrow> string" where
  "utc_text iso_text t = (let s = iso_text t in
     if 6 \<le> length s \<and> drop (length s - 6) s = ''+00:00'' then take (length s - 6) s @ ''Z'' else s)"

definition payment_challenge_model :: "lib \<Rightarrow> payment_challenge \<Rightarrow> payment_challenge res" where
  "payment_challenge_model L c = validate_challenge L (present_texts (challenge_fields c))"

definition build_payment_challenge ::
  "lib \<Rightarrow> (datetime \<Rightarrow> string) \<Rightarrow> string \<Rightarrow> string \<Rightarrow> string \<Rightarrow> string \<Rightarrow> (string \<times> json) list \<Rightarrow> int \<Rightarrow>
     string option \<Rightarrow> string option \<Rightarrow> (string \<times> json) list \<Rightarrow> string option \<Rightarrow> datetime \<Rightarrow> payment_challenge res"
where
  "build_payment_challenge L iso_text secret realm method intent request seconds description digest opq header now =
     bind_res (encode_json_to_base64url (lib_jcs L) (JObj request)) (\<lambda>request_b64.
     bind_res (if opq = [] then Inr None
               else bind_res (encode_json_to_base64url (lib_jcs L) (JObj opq)) (\<lambda>o64. Inr (Some o64))) (\<lambda>opaque_b64.
     let draft = \<lparr>pch_id = [], pch_realm = realm, pch_method = method, pch_intent = intent,
           pch_request = request_b64, pch_digest = digest,
           pch_expires = (if seconds = 0 then None else Some (utc_text iso_text (plus_seconds now seconds))),
           pch_description = description, pch_header = header, pch_opaque = opaque_b64\<rparr> in
     bind_res (build_challenge_id L secret draft) (\<lambda>i. payment_challenge_model L (draft\<lparr>pch_id := i\<rparr>))))"

section \<open>Facts\<close>

definition option_json :: "string option \<Rightarrow> json" where
  "option_json x = (case x of None \<Rightarrow> JNull | Some s \<Rightarrow> JStr s)"

lemma present_texts_simps [simp]:
  "present_texts [] = []"
  "present_texts ((k, None) # fs) = present_texts fs"
  "present_texts ((k, Some s) # fs) = (k, JStr s) # present_texts fs"
  by (simp_all add: present_texts_def)

lemma dget_challenge_fields:
  "dget (present_texts (challenge_fields c)) ''digest'' = option_json (pch_digest c)"
  "dget (present_texts (challenge_fields c)) ''expires'' = option_json (pch_expires c)"
  "dget (present_texts (challenge_fields c)) ''description'' = option_json (pch_description c)"
  "dget (present_texts (challenge_fields c)) ''header'' = option_json (pch_header c)"
  "dget (present_texts (challenge_fields c)) ''opaque'' = option_json (pch_opaque c)"
  by (simp_all add: challenge_fields_def present_texts_def dget_def option_json_def split: option.split)

lemma required_challenge_fields:
  "required (plain ''id'') (present_texts (challenge_fields c)) = Inr (JStr (pch_id c))"
  "required (plain ''realm'') (present_texts (challenge_fields c)) = Inr (JStr (pch_realm c))"
  "required (plain ''method'') (present_texts (challenge_fields c)) = Inr (JStr (pch_method c))"
  "required (plain ''intent'') (present_texts (challenge_fields c)) = Inr (JStr (pch_intent c))"
  "required (plain ''request'') (present_texts (challenge_fields c)) = Inr (JStr (pch_request c))"
  by (simp_all add: challenge_fields_def required_def plain_def used_key_def)

lemma opt_field_option_json:
  assumes "opt_field f (option_json x) = Inr y" and "\<And>s t. f (JStr s) = Inr t \<Longrightarrow> t = s"
  shows "y = x"
  using assms by (cases x) (auto simp: opt_field_def option_json_def res_iffs)

text \<open>The strings of a challenge are taken over unchanged.\<close>

lemma payment_challenge_model_same:
  assumes "payment_challenge_model L c = Inr c'"
  shows "c' = c"
proof -
  have same: "\<And>p fld s t. checked fld p (JStr s) = Inr t \<Longrightarrow> t = s"
    "\<And>fld s t. as_str fld (JStr s) = Inr t \<Longrightarrow> t = s"
    "\<And>fld xs s t. literal fld xs (JStr s) = Inr t \<Longrightarrow> t = s"
    by (auto simp: checked_Inr as_str_def)
  from assms obtain d x t h p where
    "opt_field (as_str ''digest'') (option_json (pch_digest c)) = Inr d"
    "opt_field (checked ''expires'' (aware_timestamp L)) (option_json (pch_expires c)) = Inr x"
    "opt_field (as_str ''description'') (option_json (pch_description c)) = Inr t"
    "opt_field (literal ''header'' [payment_authorization_header]) (option_json (pch_header c)) = Inr h"
    "opt_field (checked ''opaque'' (canonical_opaque L)) (option_json (pch_opaque c)) = Inr p"
    "c' = \<lparr>pch_id = pch_id c, pch_realm = pch_realm c, pch_method = pch_method c, pch_intent = pch_intent c,
       pch_request = pch_request c, pch_digest = d, pch_expires = x, pch_description = t, pch_header = h, pch_opaque = p\<rparr>"
    unfolding payment_challenge_model_def validate_challenge_def dget_challenge_fields required_challenge_fields
    by (auto simp: res_iffs checked_Inr)
  with same show ?thesis by (auto dest!: opt_field_option_json)
qed

text \<open>A challenge the program builds is valid and carries the HMAC of its own parameters.\<close>

lemma build_payment_challenge_shape:
  assumes "build_payment_challenge L iso_text secret realm m n request seconds d digest opq h now = Inr c"
  obtains q p where "encode_json_to_base64url (lib_jcs L) (JObj request) = Inr q"
    "(if opq = [] then Inr None
      else bind_res (encode_json_to_base64url (lib_jcs L) (JObj opq)) (\<lambda>o64. Inr (Some o64))) = Inr p"
    "wf_challenge L c" "build_challenge_id L secret c = Inr (pch_id c)"
    "c = \<lparr>pch_id = pch_id c, pch_realm = realm, pch_method = m, pch_intent = n, pch_request = q, pch_digest = digest,
        pch_expires = (if seconds = 0 then None else Some (utc_text iso_text (plus_seconds now seconds))),
        pch_description = d, pch_header = h, pch_opaque = p\<rparr>"
proof -
  from assms obtain q p i where built:
    "encode_json_to_base64url (lib_jcs L) (JObj request) = Inr q"
    "(if opq = [] then Inr None
      else bind_res (encode_json_to_base64url (lib_jcs L) (JObj opq)) (\<lambda>o64. Inr (Some o64))) = Inr p"
    and i: "build_challenge_id L secret \<lparr>pch_id = [], pch_realm = realm, pch_method = m, pch_intent = n, pch_request = q,
        pch_digest = digest, pch_expires = (if seconds = 0 then None else Some (utc_text iso_text (plus_seconds now seconds))),
        pch_description = d, pch_header = h, pch_opaque = p\<rparr> = Inr i"
    and model: "payment_challenge_model L \<lparr>pch_id = i, pch_realm = realm, pch_method = m, pch_intent = n, pch_request = q,
        pch_digest = digest, pch_expires = (if seconds = 0 then None else Some (utc_text iso_text (plus_seconds now seconds))),
        pch_description = d, pch_header = h, pch_opaque = p\<rparr> = Inr c"
    unfolding build_payment_challenge_def Let_def bind_res_Inr_iff by auto
  note c = payment_challenge_model_same [OF model]
  have "wf_challenge L c" using model unfolding payment_challenge_model_def by (rule validate_challenge_wf)
  moreover have "build_challenge_id L secret c = Inr (pch_id c)" using i
    by (simp only: c build_challenge_id_def challenge_slots_def payment_challenge.simps)
  ultimately show thesis using that built c by auto
qed

section \<open>Evaluation\<close>

text \<open>The length limits, compared as integers when a concrete request is evaluated.\<close>

lemma header_limit [code_unfold]: "max_encoded_header_value_length < length s \<longleftrightarrow> 65536 < int (length s)"
  by (auto simp: max_encoded_header_value_length_def)

lemma request_limit [code_unfold]: "length s \<le> request_parameter_max_length \<longleftrightarrow> int (length s) \<le> 16384"
  by (auto simp: request_parameter_max_length_def)

lemma challenge_id_limit [code_unfold]: "text_length s \<le> challenge_id_max_length \<longleftrightarrow> int (text_length s) \<le> 512"
  by (auto simp: challenge_id_max_length_def)

end
