(* ===== verification/FacilitatorClient.thy ===== *)
theory FacilitatorClient
  imports Receipt
begin

text \<open>
  The resource server's client of the facilitator (\<open>client.py\<close> of the middleware): the request, the
  classification of its answers, and the check that a receipt attests the credential that was sent.
  The HTTP client is an argument; its failures are the exceptions \<open>httpx.TimeoutException\<close> and
  \<open>httpx.HTTPError\<close>.
\<close>

section \<open>References\<close>

definition transaction_hash_prefix :: string where
  "transaction_hash_prefix = [char_of (84::nat), char_of (88::nat), char_of (78::nat), char_of (0::nat)]"

definition signed_transaction_hash :: "lib \<Rightarrow> string \<Rightarrow> string res" where
  "signed_transaction_hash L blob = (case fromhex blob of
     None \<Rightarrow> Inl (ValueError ''non-hexadecimal number found in fromhex() arg'')
   | Some bytes \<Rightarrow> Inr (py_upper (take 64 (lib_sha512 L (transaction_hash_prefix @ bytes)))))"

definition decode_charge_payload :: "payment_credential \<Rightarrow> charge_payload res" where
  "decode_charge_payload cred = validate_charge_payload (JObj (pcr_payload cred))"

definition decode_session_payload :: "payment_credential \<Rightarrow> session_payload res" where
  "decode_session_payload cred = validate_session_payload (JObj (pcr_payload cred))"

definition charge_reference :: "lib \<Rightarrow> charge_payload \<Rightarrow> string res" where
  "charge_reference L p = (case p of
     HashPayload h \<Rightarrow> Inr (py_upper h) | TransactionPayload blob \<Rightarrow> signed_transaction_hash L blob)"

definition claim_reference :: "string \<Rightarrow> string \<Rightarrow> string" where
  "claim_reference channel amount = py_upper channel @ '':'' @ amount"

text \<open>\<open>_credential_payment_reference\<close>: \<open>None\<close> for a payload that does not decode.\<close>

definition session_reference :: "lib \<Rightarrow> session_payload \<Rightarrow> string res" where
  "session_reference L p = (case p of
     OpenPayload t _ _ \<Rightarrow> signed_transaction_hash L t
   | VoucherPayload c a _ \<Rightarrow> Inr (claim_reference c a) | ClosePayload c a _ \<Rightarrow> Inr (claim_reference c a))"

definition credential_payment_reference :: "lib \<Rightarrow> payment_credential \<Rightarrow> string option" where
  "credential_payment_reference L cred =
     (let c = pcr_challenge cred;
          reference = (if pch_method c \<noteq> ''xrpl'' then Inr None
            else if pch_intent c = ''charge'' then
              bind_res (decode_charge_payload cred) (\<lambda>p. bind_res (charge_reference L p) (\<lambda>r. Inr (Some r)))
            else if pch_intent c = ''session'' then
              bind_res (decode_session_payload cred) (\<lambda>p. bind_res (session_reference L p) (\<lambda>r. Inr (Some r)))
            else Inr None)
      in case reference of Inl _ \<Rightarrow> None | Inr r \<Rightarrow> r)"

definition is_ascii :: "string \<Rightarrow> bool" where
  "is_ascii s = list_all (\<lambda>c. ch c < 128) s"

text \<open>
  \<open>_safe_retry_after\<close>. A value that is not a number of seconds goes to
  \<open>parseddate_to_datetime\<close>, a name the module does not define: the call raises
  \<open>NameError\<close>, which the handler around it does not list.
\<close>

definition name_error :: exn where
  "name_error = OtherError ''NameError''"

definition safe_retry_after :: "string option \<Rightarrow> string option res" where
  "safe_retry_after raw = (case raw of None \<Rightarrow> Inr None
   | Some r \<Rightarrow> let value = py_strip r in
       if value = [] \<or> 128 < length value \<or> \<not> is_ascii value then Inr None
       else if is_ascii_digits value then Inr (Some (py_str_int (py_int value)))
       else Inl name_error)"

definition control_char :: "char \<Rightarrow> bool" where
  "control_char c \<longleftrightarrow> ch c < 32 \<or> ch c = 127"

definition safe_reference :: "string option \<Rightarrow> string option" where
  "safe_reference v = (case v of None \<Rightarrow> None
   | Some r \<Rightarrow> let n = py_strip r in
       if n = [] \<or> 512 < length n \<or> \<not> is_ascii n \<or> list_ex control_char n then None else Some n)"

definition references_match :: "string \<Rightarrow> string \<Rightarrow> bool" where
  "references_match a b =
     (if length a = 64 \<and> length b = 64 then py_upper a = py_upper b else a = b)"

section \<open>Binding a receipt to the credential\<close>

definition protocol_error :: "string \<Rightarrow> exn" where
  "protocol_error detail = FacilitatorFailure (ProtocolFailure detail)"

definition bound_or_fail :: "bool \<Rightarrow> string \<Rightarrow> unit res" where
  "bound_or_fail ok detail =
     guard_res ok (protocol_error (''Facilitator receipt is not credential-bound: '' @ detail))"

text \<open>\<open>extra.get(k) not in {None, expected}\<close>: a list or an object is not hashable.\<close>

definition extra_is :: "payment_receipt \<Rightarrow> string \<Rightarrow> string \<Rightarrow> bool res" where
  "extra_is r k expected = (case receipt_extra r k of
     JNull \<Rightarrow> Inr True | JStr s \<Rightarrow> Inr (s = expected)
   | JArr _ \<Rightarrow> Inl (TypeError ''unhashable type'') | JObj _ \<Rightarrow> Inl (TypeError ''unhashable type'')
   | _ \<Rightarrow> Inr False)"

definition terms_network :: "challenge_request \<Rightarrow> string option" where
  "terms_network t = (case t of
     ChargeRequest r \<Rightarrow> Option.bind (cr_method_details r) cmd_network
   | SessionRequest r \<Rightarrow> Option.bind (sr_method_details r) smd_network)"

definition terms_recipient :: "challenge_request \<Rightarrow> string" where
  "terms_recipient t = (case t of ChargeRequest r \<Rightarrow> cr_recipient r | SessionRequest r \<Rightarrow> sr_recipient r)"

definition terms_invoice :: "challenge_request \<Rightarrow> string option" where
  "terms_invoice t = (case t of
     ChargeRequest r \<Rightarrow> Option.bind (cr_method_details r) cmd_invoice_id | SessionRequest _ \<Rightarrow> None)"

definition agrees :: "string option \<Rightarrow> string \<Rightarrow> bool" where
  "agrees x s \<longleftrightarrow> x = None \<or> x = Some s"

definition check_receipt_payer :: "payment_credential \<Rightarrow> payment_receipt \<Rightarrow> string option \<Rightarrow> unit res" where
  "check_receipt_payer cred r network = (case (pr_payer r, pcr_source cred) of
     (Some payer, Some source) \<Rightarrow> (case classic_address_from_did source network of
         Inl e \<Rightarrow> if is_value_error e
           then Inl (protocol_error ''Submitted credential contains an invalid XRPL source DID'') else Inl e
       | Inr expected \<Rightarrow> bound_or_fail (payer = expected) ''payer does not match the credential source'')
   | _ \<Rightarrow> Inr ())"

definition check_charge_receipt ::
  "lib \<Rightarrow> payment_credential \<Rightarrow> challenge_request \<Rightarrow> payment_receipt \<Rightarrow> unit res" where
  "check_charge_receipt L cred terms r =
     bind_res (decode_charge_payload cred) (\<lambda>p.
     bind_res (charge_reference L p) (\<lambda>expected.
     bind_res (bound_or_fail (references_match (pr_reference r) expected)
       ''reference does not match the signed charge credential'') (\<lambda>_.
     bind_res (bound_or_fail (case pr_tx_hash r of None \<Rightarrow> True | Some h \<Rightarrow> references_match h expected)
       ''txHash does not match the signed charge credential'') (\<lambda>_.
     bind_res (case terms_invoice terms of Some i \<Rightarrow> Inr i
               | None \<Rightarrow> challenge_invoice_id (lib_sha512 L) (pch_id (pcr_challenge cred))) (\<lambda>invoice.
     bind_res (bound_or_fail (case pr_invoice_id r of None \<Rightarrow> True | Some i \<Rightarrow> py_upper i = py_upper invoice)
       ''invoiceId does not match the challenge'') (\<lambda>_.
     bound_or_fail (pr_action r = None \<and> pr_channel_id r = None \<and> pr_cumulative r = None)
       ''PayChannel fields are not valid for a charge''))))))"

definition payload_action :: "session_payload \<Rightarrow> string" where
  "payload_action p = (case p of OpenPayload _ _ _ \<Rightarrow> ''open'' | VoucherPayload _ _ _ \<Rightarrow> ''voucher''
     | ClosePayload _ _ _ \<Rightarrow> ''close'')"

text \<open>The channel a session receipt has to name.\<close>

definition receipt_channel :: "lib \<Rightarrow> session_payload \<Rightarrow> payment_receipt \<Rightarrow> string res" where
  "receipt_channel L p r = (case p of
     OpenPayload t _ _ \<Rightarrow>
       bind_res (signed_transaction_hash L t) (\<lambda>h.
       case py_split (CHR '':'') (pr_reference r) of
         [a, channel, ref] \<Rightarrow>
           bind_res (bound_or_fail (a = ''open'' \<and> hex64 channel \<and> references_match ref h)
             ''reference does not match the signed channel-open transaction'') (\<lambda>_.
           bind_res (bound_or_fail (case pr_tx_hash r of None \<Rightarrow> True | Some x \<Rightarrow> references_match x h)
             ''txHash does not match the signed channel-open transaction'') (\<lambda>_.
           Inr (py_upper channel)))
       | _ \<Rightarrow> Inl (protocol_error (''Facilitator receipt is not credential-bound: '' @
             ''reference does not match the signed channel-open transaction'')))
   | VoucherPayload c a _ \<Rightarrow>
       bind_res (bound_or_fail (py_upper (pr_reference r) = claim_reference c a)
         ''reference does not match the signed session credential'') (\<lambda>_. Inr (py_upper c))
   | ClosePayload c a _ \<Rightarrow>
       bind_res (bound_or_fail (py_upper (pr_reference r) = claim_reference c a)
         ''reference does not match the signed session credential'') (\<lambda>_. Inr (py_upper c)))"

definition check_session_receipt :: "lib \<Rightarrow> payment_credential \<Rightarrow> payment_receipt \<Rightarrow> unit res" where
  "check_session_receipt L cred r =
     bind_res (decode_session_payload cred) (\<lambda>p.
     bind_res (bound_or_fail (agrees (pr_action r) (payload_action p))
       ''action does not match the session credential'') (\<lambda>_.
     bind_res (bound_or_fail (agrees (pr_cumulative r) (payload_amount p))
       ''cumulative does not match the session credential'') (\<lambda>_.
     bind_res (receipt_channel L p r) (\<lambda>channel.
     bound_or_fail (case pr_channel_id r of None \<Rightarrow> True | Some c \<Rightarrow> py_upper c = channel)
       ''channelId does not match the signed session credential''))))"

definition validate_receipt_binding :: "lib \<Rightarrow> payment_credential \<Rightarrow> payment_receipt \<Rightarrow> unit res" where
  "validate_receipt_binding L cred r = (let c = pcr_challenge cred in
     bind_res (bound_or_fail (pr_method r = pch_method c) ''method does not match the challenge'') (\<lambda>_.
     bind_res (bound_or_fail (agrees (pr_challenge_id r) (pch_id c)) ''challengeId does not match the challenge'') (\<lambda>_.
     bind_res (extra_is r ''intent'' (pch_intent c)) (\<lambda>same.
     bind_res (bound_or_fail same ''intent does not match the challenge'') (\<lambda>_.
     bind_res (extra_is r ''externalId'' (pch_id c)) (\<lambda>same.
     bind_res (bound_or_fail same ''externalId does not match the challenge ID'') (\<lambda>_.
     bind_res (catch_res (decode_challenge_request L c) (\<lambda>e. if is_value_or_type_error e
       then Inl (protocol_error ''Submitted credential contains an invalid challenge request'') else Inl e)) (\<lambda>terms.
     bind_res (bound_or_fail (terms_network terms = None \<or> pr_network r = None \<or> pr_network r = terms_network terms)
       ''network does not match the challenge'') (\<lambda>_.
     bind_res (bound_or_fail (agrees (pr_recipient r) (terms_recipient terms))
       ''recipient does not match the challenge'') (\<lambda>_.
     bind_res (check_receipt_payer cred r (terms_network terms)) (\<lambda>_.
     if pch_intent c = ''charge'' then check_charge_receipt L cred terms r
     else bind_res (bound_or_fail (pch_intent c = ''session'') ''unsupported challenge intent'') (\<lambda>_.
       check_session_receipt L cred r))))))))))))"

definition parse_bound_receipt :: "lib \<Rightarrow> payment_credential \<Rightarrow> (string \<times> json) list \<Rightarrow> payment_receipt res" where
  "parse_bound_receipt L cred response =
     bind_res (catch_res (validate_receipt L (JObj response)) (\<lambda>e. if is_value_or_type_error e
       then Inl (protocol_error ''Facilitator returned an invalid payment receipt'') else Inl e)) (\<lambda>r.
     bind_res (catch_res (validate_receipt_binding L cred r) (\<lambda>e. if is_value_or_type_error e
       then Inl (protocol_error ''Facilitator receipt is not bound to the submitted credential'') else Inl e)) (\<lambda>_.
     Inr r))"

section \<open>One request\<close>

text \<open>\<open>re_json\<close> is what \<open>response.json()\<close> returns, \<open>None\<close> when it raises.\<close>

record http_reply =
  re_status :: int
  re_content_type :: "string option"
  re_retry_after :: "string option"
  re_json :: "json option"
  re_text :: string

record 'w http_client =
  hc_request :: "string \<Rightarrow> string \<Rightarrow> json option \<Rightarrow> bool \<Rightarrow> ('w, http_reply) proc"

definition timeout_exception :: exn where "timeout_exception = OtherError ''httpx.TimeoutException''"
definition http_error :: exn where "http_error = OtherError ''httpx.HTTPError''"

definition settlement_pending_problem_type :: string where
  "settlement_pending_problem_type = ''https://paymentauth.org/problems/settlement-pending''"

definition or_text :: "string \<Rightarrow> string \<Rightarrow> string" where
  "or_text s fallback = (if s = [] then fallback else s)"

definition upto_semicolon :: "string \<Rightarrow> string" where
  "upto_semicolon s = takeWhile (\<lambda>c. c \<noteq> CHR '';'') s"

definition pending_problem :: "problem_details \<Rightarrow> string option \<Rightarrow> string \<Rightarrow> string option \<Rightarrow> problem_details" where
  "pending_problem p local upstream cid =
     \<lparr>pb_type = settlement_pending_problem_type,
      pb_title = or_text (take 200 (py_strip (pb_title p))) ''Payment settlement pending'', pb_status = 503,
      pb_detail = take 2048 (or_text (py_strip (pb_detail p)) ''Payment settlement is pending.'' @
        '' Do not initiate a fresh payment; reconcile paymentReference against validated ledger state first.''),
      pb_challenge_id = (if or_empty cid = [] then pb_challenge_id p else cid),
      pb_payment_reference = (case local of Some l \<Rightarrow> Some l | None \<Rightarrow> Some upstream)\<rparr>"

definition settlement_pending_error ::
  "http_reply \<Rightarrow> string option \<Rightarrow> string option \<Rightarrow> facilitator_failure option res" where
  "settlement_pending_error resp local cid =
     (if re_status resp \<noteq> 503 then Inr None
      else if py_lower (py_strip (upto_semicolon (or_empty (re_content_type resp)))) \<noteq> ''application/problem+json''
        then Inr None
      else case Option.bind (re_json resp) (\<lambda>j. case validate_problem j of Inl _ \<Rightarrow> None | Inr p \<Rightarrow> Some p) of
        None \<Rightarrow> Inr None
      | Some p \<Rightarrow>
          if pb_type p \<noteq> settlement_pending_problem_type \<or> pb_status p \<noteq> 503 then Inr None
          else (case safe_reference (pb_payment_reference p) of None \<Rightarrow> Inr None
          | Some upstream \<Rightarrow>
              if (case safe_reference local of None \<Rightarrow> False | Some l \<Rightarrow> \<not> references_match upstream l) then Inr None
              else if cid \<noteq> None \<and> pb_challenge_id p \<noteq> None \<and> pb_challenge_id p \<noteq> cid then Inr None
              else bind_res (safe_retry_after (re_retry_after resp)) (\<lambda>retry.
                Inr (Some (PendingSettlement (pending_problem p (safe_reference local) upstream cid) retry)))))"

definition extract_detail :: "http_reply \<Rightarrow> string" where
  "extract_detail resp =
     (let fallback = or_text (py_strip (re_text resp)) ''unknown facilitator error'' in
      case re_json resp of
        Some (JObj body) \<Rightarrow>
          (case if truthy (dget body ''detail'') then dget body ''detail'' else dget body ''error'' of
             JStr s \<Rightarrow> or_text (py_strip s) fallback | _ \<Rightarrow> fallback)
      | _ \<Rightarrow> fallback)"

definition outcome_unknown :: "string \<Rightarrow> string option \<Rightarrow> exn" where
  "outcome_unknown what ref = FacilitatorFailure (TransportFailure
     (what @ ''; payment outcome is unknown. Do not initiate another payment until paymentReference is reconciled.'') ref)"

definition transport_failure :: "string option \<Rightarrow> exn \<Rightarrow> exn" where
  "transport_failure ref e =
     (if e = timeout_exception then outcome_unknown ''Facilitator request timed out'' ref
      else if e = http_error then outcome_unknown ''Facilitator connection failed'' ref else e)"

definition classify_reply :: "string \<Rightarrow> string option \<Rightarrow> string option \<Rightarrow> http_reply \<Rightarrow> (string \<times> json) list res" where
  "classify_reply stage ref cid resp =
     bind_res (settlement_pending_error resp ref cid) (\<lambda>pending.
     case pending of Some f \<Rightarrow> Inl (FacilitatorFailure f)
     | None \<Rightarrow>
         if 500 \<le> re_status resp then Inl (outcome_unknown ''Facilitator is unavailable'' ref)
         else if re_status resp = 401
           then Inl (protocol_error (''Facilitator authentication failed: '' @ extract_detail resp))
         else if re_status resp = 402
           then Inl (FacilitatorFailure (PaymentRefused stage (extract_detail resp) (re_status resp)))
         else if 400 \<le> re_status resp
           then Inl (protocol_error (''Facilitator returned unexpected status '' @ py_str_int (re_status resp)
             @ '': '' @ extract_detail resp))
         else (case re_json resp of
             None \<Rightarrow> Inl (protocol_error ''Facilitator returned invalid JSON'')
           | Some (JObj body) \<Rightarrow> Inr body
           | Some _ \<Rightarrow> Inl (protocol_error ''Facilitator returned a non-object JSON response'')))"

definition client_request ::
  "'w http_client \<Rightarrow> string \<Rightarrow> string \<Rightarrow> json option \<Rightarrow> bool \<Rightarrow> string \<Rightarrow> string option \<Rightarrow> string option \<Rightarrow>
     ('w, (string \<times> json) list) proc"
where
  "client_request H verb path body auth stage ref cid =
     andthen (except (hc_request H verb path body auth) (\<lambda>e. fail (transport_failure ref e))) (\<lambda>resp.
     lift (classify_reply stage ref cid resp))"

definition credential_dict :: "payment_credential \<Rightarrow> (string \<times> json) list" where
  "credential_dict cred =
     [(''challenge'', JObj (present_texts (challenge_fields (pcr_challenge cred)))),
      (''payload'', JObj (pcr_payload cred))] @ present_texts [(''source'', pcr_source cred)]"

definition submit_credential ::
  "lib \<Rightarrow> 'w http_client \<Rightarrow> string \<Rightarrow> payment_credential \<Rightarrow> ('w, payment_receipt) proc" where
  "submit_credential L H stage cred =
     andthen (client_request H ''POST'' (''/'' @ stage) (Some (JObj [(''credential'', JObj (credential_dict cred))])) True
       stage (credential_payment_reference L cred) (Some (pch_id (pcr_challenge cred)))) (\<lambda>response.
     lift (parse_bound_receipt L cred response))"

definition client_charge :: "lib \<Rightarrow> 'w http_client \<Rightarrow> payment_credential \<Rightarrow> ('w, payment_receipt) proc" where
  "client_charge L H cred = submit_credential L H ''charge'' cred"

definition client_session :: "lib \<Rightarrow> 'w http_client \<Rightarrow> payment_credential \<Rightarrow> ('w, payment_receipt) proc" where
  "client_session L H cred = submit_credential L H ''session'' cred"

section \<open>What the facilitator offers\<close>

record offered_method =
  of_method :: string
  of_intents :: "string list"
  of_network :: string
  of_currencies :: "string list"

definition string_list :: "string \<Rightarrow> json \<Rightarrow> string list res" where
  "string_list field j = (case j of JArr js \<Rightarrow> list_field (stripped_str field) js | _ \<Rightarrow> Inl (ValidationError field))"

definition validate_offer :: "json \<Rightarrow> offered_method res" where
  "validate_offer j = bind_res (as_dict j) (\<lambda>kvs.
     bind_res (bind_res (required (plain ''method'') kvs) (stripped_str ''method'')) (\<lambda>m.
     bind_res (bind_res (required (plain ''intents'') kvs) (string_list ''intents'')) (\<lambda>i.
     bind_res (bind_res (required (plain ''network'') kvs) validate_network) (\<lambda>n.
     bind_res (bind_res (required (plain ''currencies'') kvs) (string_list ''currencies'')) (\<lambda>c.
     bind_res (bind_res (required (''settlementMode'', ''settlement_mode'') kvs) (literal ''settlementMode'' [''validated''])) (\<lambda>_.
     bind_res (guard_res (no_extra [plain ''method'', plain ''intents'', plain ''network'', plain ''currencies'',
         (''settlementMode'', ''settlement_mode'')] kvs) (ValidationError ''extra_forbidden'')) (\<lambda>_.
     Inr \<lparr>of_method = m, of_intents = i, of_network = n, of_currencies = c\<rparr>)))))))"

definition validate_supported :: "json \<Rightarrow> offered_method list res" where
  "validate_supported j = bind_res (as_dict j) (\<lambda>kvs.
     bind_res (required (plain ''methods'') kvs) (\<lambda>v. case v of
       JArr js \<Rightarrow> bind_res (list_field validate_offer js) (\<lambda>ms.
         bind_res (guard_res (no_extra [plain ''methods''] kvs) (ValidationError ''extra_forbidden'')) (\<lambda>_. Inr ms))
     | _ \<Rightarrow> Inl (ValidationError ''methods'')))"

text \<open>\<open>get_supported\<close> with the cache it keeps between calls.\<close>

definition get_supported ::
  "'w http_client \<Rightarrow> bool \<Rightarrow> offered_method list option \<Rightarrow> ('w, offered_method list \<times> offered_method list option) proc"
where
  "get_supported H force cache = (case cache of
     Some ms \<Rightarrow> if force
       then andthen (client_request H ''GET'' ''/supported'' None False ''request'' None None) (\<lambda>response.
         andthen (lift (validate_supported (JObj response))) (\<lambda>ms'. ret (ms', Some ms')))
       else ret (ms, cache)
   | None \<Rightarrow> andthen (client_request H ''GET'' ''/supported'' None False ''request'' None None) (\<lambda>response.
       andthen (lift (validate_supported (JObj response))) (\<lambda>ms. ret (ms, Some ms))))"

section \<open>Facts\<close>

lemma bound_or_fail_Inr [simp]: "bound_or_fail b d = Inr u \<longleftrightarrow> b"
  by (simp add: bound_or_fail_def)

lemma parse_bound_receipt_Inr:
  "parse_bound_receipt L cred response = Inr r \<longleftrightarrow>
     validate_receipt L (JObj response) = Inr r \<and> validate_receipt_binding L cred r = Inr ()"
  by (auto simp: parse_bound_receipt_def res_iffs split: if_splits)

text \<open>What a receipt that passed the check attests.\<close>

lemma receipt_binding_sound:
  assumes "validate_receipt_binding L cred r = Inr ()"
  shows "pr_method r = pch_method (pcr_challenge cred)"
    and "agrees (pr_challenge_id r) (pch_id (pcr_challenge cred))"
    and "pch_intent (pcr_challenge cred) = ''charge'' \<Longrightarrow> \<exists>p h. decode_charge_payload cred = Inr p \<and>
      charge_reference L p = Inr h \<and> references_match (pr_reference r) h"
    and "pch_intent (pcr_challenge cred) \<noteq> ''charge'' \<Longrightarrow> pch_intent (pcr_challenge cred) = ''session'' \<and>
      (\<exists>p channel. decode_session_payload cred = Inr p \<and> receipt_channel L p r = Inr channel)"
  using assms unfolding validate_receipt_binding_def check_charge_receipt_def check_session_receipt_def
  by (auto simp: Let_def res_iffs split: if_splits)

end
