(* ===== verification/Http.thy ===== *)
theory Http
  imports Prelude
begin

text \<open>
  The header lists of Starlette and httpx: names are compared in lower case, which is how they are
  stored here.
\<close>

text \<open>The first value of a header, all of them, and the values joined as httpx joins them.\<close>

definition hget :: "(string \<times> string) list \<Rightarrow> string \<Rightarrow> string option" where
  "hget hs name = map_of hs (py_lower name)"

definition hget_all :: "(string \<times> string) list \<Rightarrow> string \<Rightarrow> string list" where
  "hget_all hs name = map snd (filter (\<lambda>(n, _). n = py_lower name) hs)"

definition hget_joined :: "(string \<times> string) list \<Rightarrow> string \<Rightarrow> string option" where
  "hget_joined hs name = (case hget_all hs name of [] \<Rightarrow> None | vs \<Rightarrow> Some (py_join '', '' vs))"

text \<open>\<open>headers[name] = value\<close>: replace the first occurrence, drop the others, or append.\<close>

fun replace_first :: "string \<Rightarrow> string \<Rightarrow> (string \<times> string) list \<Rightarrow> (string \<times> string) list" where
  "replace_first n v [] = [(n, v)]"
| "replace_first n v ((m, u) # hs) =
     (if m = n then (n, v) # filter (\<lambda>(m, _). m \<noteq> n) hs else (m, u) # replace_first n v hs)"

definition hset :: "string \<Rightarrow> string \<Rightarrow> (string \<times> string) list \<Rightarrow> (string \<times> string) list" where
  "hset name v hs = replace_first (py_lower name) v hs"

definition hpop :: "string \<Rightarrow> (string \<times> string) list \<Rightarrow> (string \<times> string) list" where
  "hpop name hs = filter (\<lambda>(n, _). n \<noteq> py_lower name) hs"

lemma hget_hset_same: "hget (hset n v hs) n = Some v"
  unfolding hget_def hset_def by (induction hs rule: list.induct) (auto split: prod.splits)

lemma map_of_filter_key: "m \<noteq> n \<Longrightarrow> map_of (filter (\<lambda>(k, _). k \<noteq> n) hs) m = map_of hs m"
  by (induction hs) auto

lemma hget_hset_other: "py_lower m \<noteq> py_lower n \<Longrightarrow> hget (hset n v hs) m = hget hs m"
  unfolding hget_def hset_def by (induction hs) (auto simp: map_of_filter_key)

lemma hget_hpop: "hget (hpop n hs) m = (if py_lower m = py_lower n then None else hget hs m)"
  unfolding hget_def hpop_def by (induction hs) auto

lemma hget_all_hpop_same: "hget_all (hpop n hs) n = []"
  by (auto simp: hget_all_def hpop_def filter_empty_conv)

lemma hget_all_hpop_other: "py_lower m \<noteq> py_lower n \<Longrightarrow> hget_all (hpop n hs) m = hget_all hs m"
  unfolding hget_all_def hpop_def by (induction hs) auto

lemma hget_all_hset_other: "py_lower m \<noteq> py_lower n \<Longrightarrow> hget_all (hset n v hs) m = hget_all hs m"
proof -
  assume n: "py_lower m \<noteq> py_lower n"
  have f: "filter (\<lambda>x. (case x of (k, _) \<Rightarrow> k \<noteq> py_lower n) \<and> (case x of (k, _) \<Rightarrow> k = py_lower m)) ks =
      filter (\<lambda>(k, _). k = py_lower m) ks" for ks :: "(string \<times> string) list"
    using n by (intro filter_cong) auto
  show ?thesis unfolding hget_all_def hset_def using n by (induction hs) (auto simp: f)
qed

end
