(* ===== verification/Middleware.thy ===== *)
theory Middleware
  imports FacilitatorClient AcceptPayment Http
begin

text \<open>
  The paywall of a resource server (\<open>middleware.py\<close>, \<open>types.py\<close>): route configuration,
  reading the request body, issuing 402 challenges, checking a presented credential, settling it through
  the facilitator client and running the protected application. The application and the facilitator
  client are arguments; an application answers with the messages it sends and the exception it raises,
  if any.
\<close>

section \<open>Routes\<close>

record charge_option =
  co_network :: string
  co_recipient :: string
  co_currency :: string
  co_amount :: string
  co_description :: "string option"
  co_external_id :: "string option"

record session_option =
  so_network :: string
  so_recipient :: string
  so_amount :: string
  so_channel_id :: string
  so_description :: "string option"
  so_external_id :: "string option"

record route_config =
  rt_facilitator_url :: string
  rt_bearer_token :: string
  rt_charge_options :: "charge_option list"
  rt_session_options :: "session_option list"
  rt_description :: "string option"
  rt_realm :: "string option"
  rt_credential_header :: string
  rt_allow_insecure :: bool

definition required_text :: "string \<Rightarrow> json \<Rightarrow> string res" where
  "required_text field j = bind_res (as_str field j) (\<lambda>s.
     if py_strip s = [] then Inl (ValidationError field) else Inr (py_strip s))"

definition charge_option_names :: "(string \<times> string) list" where
  "charge_option_names = [plain ''network'', plain ''recipient'', plain ''currency'', plain ''amount'',
     plain ''description'', (''externalId'', ''external_id'')]"

definition validate_charge_option :: "lib \<Rightarrow> json \<Rightarrow> charge_option res" where
  "validate_charge_option L j = bind_res (as_dict j) (\<lambda>kvs.
     bind_res (bind_res (required (plain ''network'') kvs) validate_network) (\<lambda>n.
     bind_res (bind_res (required (plain ''recipient'') kvs) (required_text ''recipient'')) (\<lambda>r.
     bind_res (bind_res (required (plain ''currency'') kvs) (required_text ''currency'')) (\<lambda>c.
     bind_res (case parse_currency (lib_loads L) c of Inl _ \<Rightarrow> Inl (ValidationError ''currency'') | Inr _ \<Rightarrow> Inr ()) (\<lambda>_.
     bind_res (bind_res (required (plain ''amount'') kvs) (required_text ''amount'')) (\<lambda>a.
     bind_res (text_option (plain ''description'') kvs) (\<lambda>d.
     bind_res (text_option (''externalId'', ''external_id'') kvs) (\<lambda>x.
     bind_res (guard_res (no_extra charge_option_names kvs) (ValidationError ''extra_forbidden'')) (\<lambda>_.
     Inr \<lparr>co_network = n, co_recipient = r, co_currency = c, co_amount = a, co_description = d, co_external_id = x\<rparr>)))))))))"

definition session_option_names :: "(string \<times> string) list" where
  "session_option_names = [plain ''network'', plain ''recipient'', plain ''amount'', plain ''currency'',
     (''channelId'', ''channel_id''), plain ''description'', (''externalId'', ''external_id'')]"

definition option_channel_id :: "json \<Rightarrow> string res" where
  "option_channel_id j = (case j of JNull \<Rightarrow> Inl (ValidationError ''channelId'')
   | _ \<Rightarrow> bind_res (as_str ''channelId'' j) (\<lambda>s. let n = py_upper (py_strip s) in
       if n \<noteq> [] \<and> \<not> hex64 n then Inl (ValidationError ''channelId'') else Inr n))"

definition with_default :: "string \<times> string \<Rightarrow> json \<Rightarrow> (string \<times> json) list \<Rightarrow> json" where
  "with_default f d kvs = (case map_of kvs (used_key f kvs) of None \<Rightarrow> d | Some v \<Rightarrow> v)"

definition validate_session_option :: "json \<Rightarrow> session_option res" where
  "validate_session_option j = bind_res (as_dict j) (\<lambda>kvs.
     bind_res (bind_res (required (plain ''network'') kvs) validate_network) (\<lambda>n.
     bind_res (bind_res (required (plain ''recipient'') kvs) (required_text ''recipient'')) (\<lambda>r.
     bind_res (bind_res (required (plain ''amount'') kvs) (required_text ''amount'')) (\<lambda>a.
     bind_res (literal ''currency'' [''XRP''] (with_default (plain ''currency'') (JStr ''XRP'') kvs)) (\<lambda>_.
     bind_res (option_channel_id (with_default (''channelId'', ''channel_id'') (JStr []) kvs)) (\<lambda>c.
     bind_res (text_option (plain ''description'') kvs) (\<lambda>d.
     bind_res (text_option (''externalId'', ''external_id'') kvs) (\<lambda>x.
     bind_res (guard_res (no_extra session_option_names kvs) (ValidationError ''extra_forbidden'')) (\<lambda>_.
     Inr \<lparr>so_network = n, so_recipient = r, so_amount = a, so_channel_id = c, so_description = d, so_external_id = x\<rparr>)))))))))"

text \<open>A route needs an option; its other fields are checked one by one.\<close>

definition list_of :: "string \<Rightarrow> (json \<Rightarrow> 'a res) \<Rightarrow> json \<Rightarrow> 'a list res" where
  "list_of field f j = (case j of JArr js \<Rightarrow> list_field f js | _ \<Rightarrow> Inl (ValidationError field))"

definition route_config_names :: "(string \<times> string) list" where
  "route_config_names = [(''facilitatorUrl'', ''facilitator_url''), (''bearerToken'', ''bearer_token''),
     (''chargeOptions'', ''charge_options''), (''sessionOptions'', ''session_options''), plain ''description'',
     (''mimeType'', ''mime_type''), plain ''realm'', (''credentialHeader'', ''credential_header''),
     (''allowInsecureFacilitatorHttp'', ''allow_insecure_facilitator_http'')]"

text \<open>A lax \<open>bool\<close> field: a boolean, zero or one, or one of the words for them.\<close>

definition lax_bool :: "string \<Rightarrow> json \<Rightarrow> bool res" where
  "lax_bool field j = (case j of
     JBool b \<Rightarrow> Inr b
   | JInt i \<Rightarrow> if i = 0 then Inr False else if i = 1 then Inr True else Inl (ValidationError field)
   | JFloat x \<Rightarrow> if x = 0 then Inr False else if x = 1 then Inr True else Inl (ValidationError field)
   | JStr s \<Rightarrow>
       if py_lower s \<in> {''0'', ''off'', ''f'', ''false'', ''n'', ''no''} then Inr False
       else if py_lower s \<in> {''1'', ''on'', ''t'', ''true'', ''y'', ''yes''} then Inr True
       else Inl (ValidationError field)
   | _ \<Rightarrow> Inl (ValidationError field))"

definition validate_route_config :: "lib \<Rightarrow> json \<Rightarrow> route_config res" where
  "validate_route_config L j = bind_res (as_dict j) (\<lambda>kvs.
     bind_res (bind_res (required (''facilitatorUrl'', ''facilitator_url'') kvs) (required_text ''facilitatorUrl'')) (\<lambda>u.
     bind_res (bind_res (required (''bearerToken'', ''bearer_token'') kvs) (required_text ''bearerToken'')) (\<lambda>b.
     bind_res (list_of ''chargeOptions'' (validate_charge_option L)
       (with_default (''chargeOptions'', ''charge_options'') (JArr []) kvs)) (\<lambda>cs.
     bind_res (list_of ''sessionOptions'' validate_session_option
       (with_default (''sessionOptions'', ''session_options'') (JArr []) kvs)) (\<lambda>ss.
     bind_res (text_option (plain ''description'') kvs) (\<lambda>d.
     bind_res (text_option (plain ''realm'') kvs) (\<lambda>r.
     bind_res (literal ''credentialHeader'' [''Authorization'', payment_authorization_header]
       (with_default (''credentialHeader'', ''credential_header'') (JStr ''Authorization'') kvs)) (\<lambda>h.
     bind_res (as_str ''mimeType'' (with_default (''mimeType'', ''mime_type'') (JStr ''application/json'') kvs)) (\<lambda>_.
     bind_res (lax_bool ''allowInsecureFacilitatorHttp''
       (with_default (''allowInsecureFacilitatorHttp'', ''allow_insecure_facilitator_http'') (JBool False) kvs)) (\<lambda>i.
     bind_res (guard_res (no_extra route_config_names kvs) (ValidationError ''extra_forbidden'')) (\<lambda>_.
     bind_res (guard_res (cs \<noteq> [] \<or> ss \<noteq> []) (ValidationError ''At least one charge or session option is required'')) (\<lambda>_.
     Inr \<lparr>rt_facilitator_url = u, rt_bearer_token = b, rt_charge_options = cs, rt_session_options = ss,
          rt_description = d, rt_realm = r, rt_credential_header = h, rt_allow_insecure = i\<rparr>))))))))))))"

text \<open>\<open>_parse_route_key\<close>: \<open>METHOD /path\<close>.\<close>

definition route_error :: "string \<Rightarrow> exn" where
  "route_error m = OtherError (''RouteConfigurationError: '' @ m)"

definition parse_route_key :: "string \<Rightarrow> (string \<times> string) res" where
  "parse_route_key key = (case py_partition (CHR '' '') key of
     Some (verb, path) \<Rightarrow> if starts_with ''/'' path then Inr (py_upper verb, path)
       else Inl (route_error ''Route key must use the format METHOD /path'')
   | None \<Rightarrow> Inl (route_error ''Route key must use the format METHOD /path''))"

definition uses_payment_scheme :: "string \<Rightarrow> bool" where
  "uses_payment_scheme v = (case scheme_and_token (dropWhile py_space v) of
     None \<Rightarrow> False | Some (scheme, _) \<Rightarrow> py_lower scheme = payment_scheme)"

section \<open>The request body\<close>

datatype receive_message = RequestChunk string bool | OtherMessage

text \<open>
  \<open>_read_body\<close>: the loop ends at a chunk without \<open>more_body\<close> or above the limit; messages
  of another type are skipped. \<open>None\<close> stands for a loop that has not ended within the fuel.
\<close>

definition body_too_large :: exn where
  "body_too_large = OtherError ''RequestBodyTooLargeError''"

fun read_body :: "nat \<Rightarrow> (nat \<Rightarrow> receive_message) \<Rightarrow> int \<Rightarrow> nat \<Rightarrow> string \<Rightarrow> string res option" where
  "read_body 0 receive limit i acc = None"
| "read_body (Suc fuel) receive limit i acc = (case receive i of
     OtherMessage \<Rightarrow> read_body fuel receive limit (Suc i) acc
   | RequestChunk chunk more_body \<Rightarrow>
       if limit < int (length acc + length chunk) then Some (Inl body_too_large)
       else if more_body then read_body fuel receive limit (Suc i) (acc @ chunk)
       else Some (Inr (acc @ chunk)))"

section \<open>PayChannel hints\<close>

definition paychannel_id_header :: string where "paychannel_id_header = ''X-MPP-PayChannel-Id''"
definition paychannel_cumulative_header :: string where
  "paychannel_cumulative_header = ''X-MPP-PayChannel-Cumulative''"
definition max_xrpl_uint64 :: int where "max_xrpl_uint64 = 2 ^ 64 - 1"

definition hint_error :: "string \<Rightarrow> exn" where
  "hint_error m = OtherError (''InvalidPaymentHeaderError: '' @ m)"

definition valid_cumulative_hint :: "string \<Rightarrow> bool" where
  "valid_cumulative_hint s \<longleftrightarrow> s = py_strip s \<and> is_ascii_digits s \<and> length s \<le> 20 \<and> py_int s \<le> max_xrpl_uint64"

definition first_value :: "string list \<Rightarrow> string option" where
  "first_value vs = (case vs of [] \<Rightarrow> None | v # _ \<Rightarrow> Some v)"

definition validate_paychannel_hints :: "(string \<times> string) list \<Rightarrow> unit res" where
  "validate_paychannel_hints hs =
     (let ids = hget_all hs paychannel_id_header; cums = hget_all hs paychannel_cumulative_header in
      if 1 < length ids \<or> 1 < length cums then Inl (hint_error ''PayChannel hint headers must be unique'')
      else case (first_value ids, first_value cums) of
        (None, None) \<Rightarrow> Inr ()
      | (Some i, Some c) \<Rightarrow>
          if i \<noteq> py_strip i \<or> \<not> hex64 i then Inl (hint_error ''PayChannel ID hint is invalid'')
          else if \<not> valid_cumulative_hint c then Inl (hint_error ''PayChannel cumulative hint is invalid'')
          else Inr ()
      | _ \<Rightarrow> Inl (hint_error ''PayChannel ID and cumulative hint headers must be provided together''))"

section \<open>The middleware\<close>

record http_request =
  rq_method :: string
  rq_path :: string
  rq_query :: string
  rq_headers :: "(string \<times> string) list"

datatype http_message = ResponseStart int "(string \<times> string) list" | ResponseBody string bool

text \<open>What the protected application is called with: \<open>scope["state"]["mpp_payment"]\<close> and the replayed body.\<close>

record app_call =
  ac_request :: http_request
  ac_payment :: "payment_receipt option"
  ac_body :: "string option"

type_synonym 'w asgi_app = "app_call \<Rightarrow> 'w \<Rightarrow> (http_message list \<times> exn option) \<times> 'w"

record 'w facilitator_ops =
  fo_startup :: "('w, unit) proc"
  fo_supported :: "('w, offered_method list) proc"
  fo_charge :: "payment_credential \<Rightarrow> ('w, payment_receipt) proc"
  fo_session :: "payment_credential \<Rightarrow> ('w, payment_receipt) proc"

record 'w middleware =
  mw_lib :: lib
  mw_iso_text :: "datetime \<Rightarrow> string"
  mw_now :: "'w \<Rightarrow> datetime"
  mw_app :: "'w asgi_app"
  mw_routes :: "((string \<times> string) \<times> route_config) list"
  mw_secrets :: "string list"
  mw_ttl :: int
  mw_realm :: "string option"
  mw_client :: "route_config \<Rightarrow> 'w facilitator_ops"
  mw_max_body :: int
  mw_started :: "'w \<Rightarrow> bool"
  mw_set_started :: "bool \<Rightarrow> 'w \<Rightarrow> 'w"

text \<open>The constructor: the key ring, the two limits, and the parsed route table.\<close>

fun parse_routes :: "(string \<times> route_config) list \<Rightarrow> ((string \<times> string) \<times> route_config) list res" where
  "parse_routes [] = Inr []"
| "parse_routes ((key, config) # rest) =
     bind_res (parse_route_key key) (\<lambda>k. bind_res (parse_routes rest) (\<lambda>rs. Inr ((k, config) # rs)))"

definition init_middleware :: "'w middleware \<Rightarrow> (string \<times> route_config) list \<Rightarrow> 'w middleware res" where
  "init_middleware M configs =
     bind_res (catch_res (key_ring (mw_secrets M)) (\<lambda>e. Inl (route_error ''challenge secret''))) (\<lambda>secrets.
     bind_res (guard_res (0 < mw_ttl M) (route_error ''challenge_ttl_seconds must be greater than zero'')) (\<lambda>_.
     bind_res (guard_res (0 < mw_max_body M) (route_error ''max_request_body_bytes must be greater than zero'')) (\<lambda>_.
     bind_res (parse_routes configs) (\<lambda>rs.
     Inr (M\<lparr>mw_secrets := secrets, mw_realm := map_option py_strip (case mw_realm M of Some [] \<Rightarrow> None | r \<Rightarrow> r),
       mw_routes := foldl (\<lambda>d kv. AList.update (fst kv) (snd kv) d) [] rs\<rparr>)))))"

section \<open>Responses\<close>

datatype mw_response =
    JsonResponse int "(string \<times> string) list" json
  | AppResponse "http_message list"

definition send_error :: "int \<Rightarrow> string \<Rightarrow> mw_response" where
  "send_error status detail = JsonResponse status [] (JObj [(''detail'', JStr detail)])"

definition request_too_large :: mw_response where
  "request_too_large = send_error 413 ''Request body too large''"

definition problem_title :: "string \<Rightarrow> string" where
  "problem_title code =
     (if code = ''malformed-credential'' then ''Malformed Payment Credential''
      else if code = ''invalid-challenge'' then ''Invalid Payment Challenge''
      else if code = ''payment-expired'' then ''Payment Expired''
      else if code = ''verification-failed'' then ''Payment Verification Failed''
      else ''Payment Required'')"

definition operation_binding :: "http_request \<Rightarrow> (string \<times> json) list" where
  "operation_binding rq = [(''httpMethod'', JStr (py_upper (rq_method rq))), (''path'', JStr (rq_path rq)),
     (''query'', JStr (rq_query rq))]"

definition selected_header :: "route_config \<Rightarrow> string option" where
  "selected_header rt = (if rt_credential_header rt = payment_authorization_header
     then Some payment_authorization_header else None)"

definition or_opt :: "string option \<Rightarrow> string option \<Rightarrow> string option" where
  "or_opt a b = (case a of Some (c # s) \<Rightarrow> a | _ \<Rightarrow> b)"

definition challenge_realm :: "'w middleware \<Rightarrow> route_config \<Rightarrow> (string \<times> string) list \<Rightarrow> string" where
  "challenge_realm M rt hs =
     (case or_opt (rt_realm rt) (or_opt (mw_realm M) (or_opt (hget hs ''host'') None)) of
        Some r \<Rightarrow> r | None \<Rightarrow> ''localhost'')"

definition opt_json :: "string option \<Rightarrow> json" where
  "opt_json x = (case x of None \<Rightarrow> JNull | Some s \<Rightarrow> JStr s)"

definition charge_offer :: "lib \<Rightarrow> route_config \<Rightarrow> charge_option \<Rightarrow> charge_request res" where
  "charge_offer L rt o1 = validate_charge_request (lib_loads L) (JObj
     [(''amount'', JStr (co_amount o1)), (''currency'', JStr (co_currency o1)), (''recipient'', JStr (co_recipient o1)),
      (''description'', opt_json (or_opt (co_description o1) (rt_description rt))),
      (''externalId'', opt_json (co_external_id o1)),
      (''methodDetails'', JObj [(''network'', JStr (co_network o1))])])"

definition session_offer :: "route_config \<Rightarrow> (string \<times> string) list \<Rightarrow> session_option \<Rightarrow> session_request res" where
  "session_offer rt hs o1 = validate_session_request (JObj
     [(''amount'', JStr (so_amount o1)), (''currency'', JStr ''XRP''),
      (''channelId'', JStr (py_upper (py_strip (case or_opt (hget hs paychannel_id_header) (Some (so_channel_id o1)) of
         Some c \<Rightarrow> c | None \<Rightarrow> [])))),
      (''recipient'', JStr (so_recipient o1)),
      (''description'', opt_json (or_opt (so_description o1) (rt_description rt))),
      (''externalId'', opt_json (so_external_id o1)),
      (''methodDetails'', JObj [(''network'', JStr (so_network o1)),
         (''cumulativeAmount'', opt_json (hget hs paychannel_cumulative_header))])])"

definition issue_challenge ::
  "'w middleware \<Rightarrow> route_config \<Rightarrow> http_request \<Rightarrow> string option \<Rightarrow> datetime \<Rightarrow> string \<Rightarrow> (string \<times> json) list \<Rightarrow>
     string option \<Rightarrow> payment_challenge res"
where
  "issue_challenge M rt rq digest now intent request description =
     build_payment_challenge (mw_lib M) (mw_iso_text M) (hd (mw_secrets M)) (challenge_realm M rt (rq_headers rq))
       ''xrpl'' intent request (mw_ttl M) description digest (operation_binding rq) (selected_header rt) now"

definition charge_offer_challenge ::
  "'w middleware \<Rightarrow> route_config \<Rightarrow> http_request \<Rightarrow> string option \<Rightarrow> datetime \<Rightarrow> charge_option \<Rightarrow> payment_challenge res" where
  "charge_offer_challenge M rt rq digest now o1 = bind_res (charge_offer (mw_lib M) rt o1) (\<lambda>r.
     issue_challenge M rt rq digest now ''charge'' (charge_request_dict r) (or_opt (co_description o1) (rt_description rt)))"

definition session_offer_challenge ::
  "'w middleware \<Rightarrow> route_config \<Rightarrow> http_request \<Rightarrow> string option \<Rightarrow> datetime \<Rightarrow> session_option \<Rightarrow> payment_challenge res" where
  "session_offer_challenge M rt rq digest now o1 = bind_res (session_offer rt (rq_headers rq) o1) (\<lambda>r.
     issue_challenge M rt rq digest now ''session'' (session_request_dict r) (or_opt (so_description o1) (rt_description rt)))"

definition rank_offers :: "payment_challenge list \<Rightarrow> string option \<Rightarrow> payment_challenge list" where
  "rank_offers cs accept = (case accept of
     Some (c # s) \<Rightarrow> (case parse_accept_payment (c # s) of
        Inl _ \<Rightarrow> cs
      | Inr ranges \<Rightarrow> if rank_payment_challenges cs ranges = [] then cs else rank_payment_challenges cs ranges)
   | _ \<Rightarrow> cs)"

definition build_challenges ::
  "'w middleware \<Rightarrow> route_config \<Rightarrow> http_request \<Rightarrow> string option \<Rightarrow> datetime \<Rightarrow> payment_challenge list res" where
  "build_challenges M rt rq digest now =
     bind_res (list_field (charge_offer_challenge M rt rq digest now) (rt_charge_options rt)) (\<lambda>cs.
     bind_res (list_field (session_offer_challenge M rt rq digest now) (rt_session_options rt)) (\<lambda>ss.
     Inr (rank_offers (cs @ ss) (hget (rq_headers rq) ''Accept-Payment''))))"

definition no_store :: "(string \<times> string) list" where
  "no_store = [(''Cache-Control'', ''no-store'')]"

definition send_challenge ::
  "'w middleware \<Rightarrow> route_config \<Rightarrow> http_request \<Rightarrow> string option \<Rightarrow> string option \<Rightarrow> string option \<Rightarrow> ('w, mw_response) proc"
where
  "send_challenge M rt rq digest err code = reading (\<lambda>w.
     andthen (lift (build_challenges M rt rq digest (mw_now M w))) (\<lambda>cs.
     let problem_code = (case code of Some c \<Rightarrow> c
           | None \<Rightarrow> if err = None then ''payment-required'' else ''verification-failed'') in
     ret (JsonResponse 402 (no_store @ map (\<lambda>c. (''www-authenticate'', render_payment_challenge c)) cs)
       (JObj (problem_dict \<lparr>pb_type = ''https://paymentauth.org/problems/'' @ problem_code,
         pb_title = problem_title problem_code, pb_status = 402,
         pb_detail = or_text (or_empty err) ''Payment required for this resource'',
         pb_challenge_id = (case cs of [] \<Rightarrow> None | c # _ \<Rightarrow> Some (pch_id c)), pb_payment_reference = None\<rparr>)))))"

definition facilitator_transport_response :: "facilitator_failure \<Rightarrow> mw_response" where
  "facilitator_transport_response f = (case f of
     PendingSettlement problem retry \<Rightarrow>
       JsonResponse 503 ((''Cache-Control'', ''private, no-store'') #
         (case retry of None \<Rightarrow> [] | Some r \<Rightarrow> [(''Retry-After'', r)])) (JObj (problem_dict problem))
   | TransportFailure detail ref \<Rightarrow>
       JsonResponse 503 [(''Cache-Control'', ''private, no-store'')] (JObj (problem_dict
         \<lparr>pb_type = ''https://paymentauth.org/problems/settlement-unknown'', pb_title = ''Payment settlement status unknown'',
          pb_status = 503, pb_detail = detail, pb_challenge_id = None, pb_payment_reference = ref\<rparr>))
   | ProtocolFailure m \<Rightarrow> send_error 502 m
   | PaymentRefused stage detail status \<Rightarrow> send_error 502 detail)"

definition paid_internal_error :: "payment_receipt \<Rightarrow> mw_response" where
  "paid_internal_error r = JsonResponse 500 [(''Cache-Control'', ''private'')] (JObj (problem_dict
     \<lparr>pb_type = ''https://paymentauth.org/problems/protected-resource-failed'', pb_title = ''Protected Resource Failed'',
      pb_status = 500, pb_detail = ''The protected application failed after payment settlement'',
      pb_challenge_id = None, pb_payment_reference = Some (pr_reference r)\<rparr>))"

section \<open>The paid request\<close>

definition contains_text :: "string \<Rightarrow> string \<Rightarrow> bool" where
  "contains_text p s \<longleftrightarrow> find_sub p s \<noteq> None"

definition receipt_headers ::
  "lib \<Rightarrow> payment_receipt \<Rightarrow> string \<Rightarrow> int \<Rightarrow> (string \<times> string) list \<Rightarrow> (string \<times> string) list res" where
  "receipt_headers L r credential_header status hs =
     (if 200 \<le> status \<and> status < 300 then
        bind_res (encode_payment_receipt L r) (\<lambda>v.
        Inr (hset ''Cache-Control'' ''private'' (hset ''Payment-Receipt'' v hs)))
      else if credential_header = payment_authorization_header
          \<and> \<not> contains_text ''no-store'' (py_lower (or_empty (hget hs ''Cache-Control'')))
        then Inr (hset ''Cache-Control'' ''private'' hs)
      else Inr hs)"

fun send_with_receipt :: "lib \<Rightarrow> payment_receipt \<Rightarrow> string \<Rightarrow> http_message \<Rightarrow> http_message res" where
  "send_with_receipt L r header (ResponseStart status hs) =
     bind_res (receipt_headers L r header status hs) (\<lambda>hs'. Inr (ResponseStart status hs'))"
| "send_with_receipt L r header (ResponseBody b rest) = Inr (ResponseBody b rest)"

fun is_start :: "http_message \<Rightarrow> bool" where
  "is_start (ResponseStart _ _) = True"
| "is_start (ResponseBody _ _) = False"

text \<open>
  An exception of the application becomes a 500 answer unless the response has started. An exception
  raised while the receipt is encoded reaches the application's \<open>send\<close>, after the response is
  marked as started.
\<close>

definition deliver_response ::
  "lib \<Rightarrow> payment_receipt \<Rightarrow> string \<Rightarrow> http_message list \<times> exn option \<Rightarrow> mw_response res" where
  "deliver_response L r header outcome =
     bind_res (list_field (send_with_receipt L r header) (fst outcome)) (\<lambda>messages.
     case snd outcome of
       None \<Rightarrow> Inr (AppResponse messages)
     | Some e \<Rightarrow> if is_exception e \<and> \<not> list_ex is_start messages then Inr (paid_internal_error r) else Inl e)"

definition without_credential :: "string \<Rightarrow> http_request \<Rightarrow> http_request" where
  "without_credential header rq =
     rq\<lparr>rq_headers := filter (\<lambda>(n, _). py_lower n \<noteq> py_lower header) (rq_headers rq)\<rparr>"

definition forward_paid_request ::
  "'w middleware \<Rightarrow> http_request \<Rightarrow> string \<Rightarrow> payment_receipt \<Rightarrow> string \<Rightarrow> ('w, mw_response) proc" where
  "forward_paid_request M rq body r header = (\<lambda>w.
     case mw_app M \<lparr>ac_request = without_credential header rq, ac_payment = Some r, ac_body = Some body\<rparr> w of
       (outcome, w') \<Rightarrow> (deliver_response (mw_lib M) r header outcome, w'))"

section \<open>Handling a credential\<close>

definition on_facilitator_failure ::
  "'w middleware \<Rightarrow> route_config \<Rightarrow> http_request \<Rightarrow> string \<Rightarrow> exn \<Rightarrow> ('w, mw_response) proc" where
  "on_facilitator_failure M rt rq body e = (case e of
     FacilitatorFailure (PaymentRefused stage detail status) \<Rightarrow>
       send_challenge M rt rq (build_content_digest (mw_lib M) body) (Some detail) None
   | FacilitatorFailure f \<Rightarrow> ret (facilitator_transport_response f)
   | _ \<Rightarrow> fail e)"

text \<open>\<open>try\<close> with an \<open>else\<close> part: only the failures of the first computation are handled.\<close>

definition try_else ::
  "('w, 'a) proc \<Rightarrow> (exn \<Rightarrow> ('w, 'b) proc) \<Rightarrow> ('a \<Rightarrow> ('w, 'b) proc) \<Rightarrow> ('w, 'b) proc" where
  "try_else m h f = (\<lambda>w. case m w of (Inl e, w') \<Rightarrow> h e w' | (Inr x, w') \<Rightarrow> f x w')"

definition handle_charge ::
  "'w middleware \<Rightarrow> route_config \<Rightarrow> payment_credential \<Rightarrow> string \<Rightarrow> http_request \<Rightarrow> ('w, mw_response) proc" where
  "handle_charge M rt cred body rq =
     try_else (fo_charge (mw_client M rt) cred) (on_facilitator_failure M rt rq body) (\<lambda>r.
       forward_paid_request M rq body r (payment_credential_header (pcr_challenge cred)))"

definition closed_response :: "lib \<Rightarrow> payment_receipt \<Rightarrow> mw_response res" where
  "closed_response L r = bind_res (encode_payment_receipt L r) (\<lambda>v.
     Inr (JsonResponse 200 [(''Payment-Receipt'', v), (''Cache-Control'', ''private'')] (JObj (receipt_dict r))))"

definition handle_session ::
  "'w middleware \<Rightarrow> route_config \<Rightarrow> payment_credential \<Rightarrow> string \<Rightarrow> http_request \<Rightarrow> ('w, mw_response) proc" where
  "handle_session M rt cred body rq =
     try_else (fo_session (mw_client M rt) cred) (on_facilitator_failure M rt rq body) (\<lambda>r.
       andthen (lift (decode_session_payload cred)) (\<lambda>p.
       case p of
         ClosePayload _ _ _ \<Rightarrow> lift (closed_response (mw_lib M) r)
       | _ \<Rightarrow> forward_paid_request M rq body r (payment_credential_header (pcr_challenge cred))))"

definition challenge_matches_request :: "lib \<Rightarrow> payment_challenge \<Rightarrow> http_request \<Rightarrow> bool" where
  "challenge_matches_request L c rq =
     (if or_empty (pch_opaque c) = [] then False
      else case decode_base64url_json (lib_loads L) (or_empty (pch_opaque c)) of
        Inl _ \<Rightarrow> False | Inr j \<Rightarrow> py_eq j (JObj (operation_binding rq)))"

definition settle_credential ::
  "'w middleware \<Rightarrow> route_config \<Rightarrow> payment_credential \<Rightarrow> string \<Rightarrow> http_request \<Rightarrow> ('w, mw_response) proc" where
  "settle_credential M rt cred body rq =
     (let refuse = (\<lambda>m code. send_challenge M rt rq (build_content_digest (mw_lib M) body) (Some m) code) in
      if pch_intent (pcr_challenge cred) = ''charge'' then
        (if rt_charge_options rt = [] then refuse ''Charge is not accepted for this route'' None
         else handle_charge M rt cred body rq)
      else if pch_intent (pcr_challenge cred) = ''session'' then
        (if rt_session_options rt = [] then refuse ''Session is not accepted for this route'' None
         else handle_session M rt cred body rq)
      else refuse ''Unsupported payment intent'' (Some ''verification-failed''))"

definition verify_presented ::
  "'w middleware \<Rightarrow> route_config \<Rightarrow> string \<Rightarrow> payment_credential \<Rightarrow> string \<Rightarrow> http_request \<Rightarrow> ('w, mw_response) proc" where
  "verify_presented M rt received cred body rq =
     (let c = pcr_challenge cred; digest = build_content_digest (mw_lib M) body;
          refuse = (\<lambda>m code. send_challenge M rt rq digest (Some m) (Some code)) in
      if payment_credential_header c \<noteq> received
        then refuse ''Payment credential was sent in a field not selected by its challenge'' ''invalid-challenge''
      else andthen (lift (verify_challenge_binding (mw_lib M) (mw_secrets M) c)) (\<lambda>bound.
      if \<not> bound then refuse ''Payment challenge binding is invalid'' ''invalid-challenge''
      else andthen (reading (\<lambda>w. lift (challenge_is_expired (mw_lib M) c (mw_now M w)))) (\<lambda>late.
      if late then refuse ''Payment challenge has expired'' ''payment-expired''
      else if \<not> challenge_matches_request (mw_lib M) c rq
        then refuse ''Payment challenge does not apply to this HTTP operation'' ''invalid-challenge''
      else if or_empty (pch_digest c) \<noteq> [] \<and> pch_digest c \<noteq> digest
        then refuse ''Request body digest does not match the payment challenge'' ''verification-failed''
      else settle_credential M rt cred body rq)))"

section \<open>Start-up\<close>

definition supports :: "offered_method \<Rightarrow> string \<Rightarrow> string \<Rightarrow> string \<Rightarrow> unit res" where
  "supports info intent network currency =
     bind_res (guard_res (intent \<in> set (of_intents info)) (route_error (''Facilitator does not advertise '' @ intent @ '' support''))) (\<lambda>_.
     bind_res (guard_res (network = of_network info) (route_error ''route network differs from the facilitator's'')) (\<lambda>_.
     guard_res (currency \<in> set (of_currencies info)) (route_error (''unsupported currency '' @ currency))))"

fun all_supported :: "offered_method \<Rightarrow> (string \<times> string \<times> string) list \<Rightarrow> unit res" where
  "all_supported info [] = Inr ()"
| "all_supported info ((i, n, c) # rest) = bind_res (supports info i n c) (\<lambda>_. all_supported info rest)"

definition route_demands :: "route_config \<Rightarrow> (string \<times> string \<times> string) list" where
  "route_demands rt = map (\<lambda>x. (''charge'', co_network x, co_currency x)) (rt_charge_options rt)
     @ map (\<lambda>x. (''session'', so_network x, ''XRP'')) (rt_session_options rt)"

definition validate_route_support :: "route_config \<Rightarrow> offered_method list \<Rightarrow> unit res" where
  "validate_route_support rt offered = (case find (\<lambda>m. of_method m = ''xrpl'') offered of
     None \<Rightarrow> Inl (route_error ''Facilitator does not advertise the xrpl payment method'')
   | Some info \<Rightarrow> all_supported info (route_demands rt))"

fun start_routes :: "'w middleware \<Rightarrow> ((string \<times> string) \<times> route_config) list \<Rightarrow> ('w, unit) proc" where
  "start_routes M [] = ret ()"
| "start_routes M ((_, rt) # rest) =
     andthen (fo_startup (mw_client M rt)) (\<lambda>_.
     andthen (fo_supported (mw_client M rt)) (\<lambda>offered.
     andthen (lift (validate_route_support rt offered)) (\<lambda>_. start_routes M rest)))"

definition startup :: "'w middleware \<Rightarrow> ('w, unit) proc" where
  "startup M = reading (\<lambda>w. if mw_started M w then ret ()
     else andthen (start_routes M (mw_routes M)) (\<lambda>_. \<lambda>w'. (Inr (), mw_set_started M True w')))"

section \<open>One request\<close>

definition credential_fields :: "(string \<times> string) list \<Rightarrow> (string \<times> string) list" where
  "credential_fields hs =
     (case first_value (hget_all hs ''Authorization'') of
        Some (c # s) \<Rightarrow> if uses_payment_scheme (c # s) then [(''Authorization'', c # s)] else [] | _ \<Rightarrow> [])
     @ (case first_value (hget_all hs payment_authorization_header) of
        Some (c # s) \<Rightarrow> [(payment_authorization_header, c # s)] | _ \<Rightarrow> [])"

definition answer_request ::
  "'w middleware \<Rightarrow> route_config \<Rightarrow> string \<Rightarrow> http_request \<Rightarrow> ('w, mw_response) proc" where
  "answer_request M rt body rq =
     (case credential_fields (rq_headers rq) of
        [] \<Rightarrow> send_challenge M rt rq (build_content_digest (mw_lib M) body) None None
      | [(received, raw)] \<Rightarrow>
          try_else (lift (parse_payment_authorization_header (mw_lib M) raw))
            (\<lambda>e. if is_value_error e then send_challenge M rt rq (build_content_digest (mw_lib M) body)
                   (Some (case e of ValueError m \<Rightarrow> m | _ \<Rightarrow> [])) (Some ''malformed-credential'') else fail e)
            (\<lambda>cred. verify_presented M rt received cred body rq)
      | _ \<Rightarrow> ret (send_error 400 ''Multiple Payment credentials are not allowed''))"

definition guarded_request ::
  "'w middleware \<Rightarrow> route_config \<Rightarrow> string \<Rightarrow> http_request \<Rightarrow> ('w, mw_response) proc" where
  "guarded_request M rt body rq =
     (if rt_session_options rt \<noteq> [] \<and> validate_paychannel_hints (rq_headers rq) \<noteq> Inr ()
        then ret (send_error 400 ''Invalid PayChannel session hint headers'')
      else if 1 < length (hget_all (rq_headers rq) ''Authorization'')
          \<or> 1 < length (hget_all (rq_headers rq) payment_authorization_header)
        then ret (send_error 400 ''Duplicate authorization header fields are not allowed'')
      else andthen (startup M) (\<lambda>_. answer_request M rt body rq))"

definition too_long :: "'w middleware \<Rightarrow> http_request \<Rightarrow> bool" where
  "too_long M rq = (case hget (rq_headers rq) ''content-length'' of None \<Rightarrow> False
     | Some v \<Rightarrow> (case int_text v of None \<Rightarrow> False | Some n \<Rightarrow> mw_max_body M < n))"

definition find_route :: "'w middleware \<Rightarrow> http_request \<Rightarrow> route_config option" where
  "find_route M rq = map_of (mw_routes M) (py_upper (rq_method rq), rq_path rq)"

text \<open>
  \<open>__call__\<close>, with the fuel of the body loop; a route without configuration goes straight to the
  application, which then reads the body itself.
\<close>

definition call_middleware ::
  "'w middleware \<Rightarrow> nat \<Rightarrow> (nat \<Rightarrow> receive_message) \<Rightarrow> http_request \<Rightarrow> 'w \<Rightarrow> (mw_response res \<times> 'w) option" where
  "call_middleware M fuel receive rq w = (case find_route M rq of
     None \<Rightarrow> (case mw_app M \<lparr>ac_request = rq, ac_payment = None, ac_body = None\<rparr> w of
       ((messages, raised), w') \<Rightarrow> Some (case raised of None \<Rightarrow> Inr (AppResponse messages) | Some e \<Rightarrow> Inl e, w'))
   | Some rt \<Rightarrow>
       if too_long M rq then Some (Inr request_too_large, w)
       else (case read_body fuel receive (mw_max_body M) 0 [] of
           None \<Rightarrow> None
         | Some (Inl e) \<Rightarrow> Some (Inr request_too_large, w)
         | Some (Inr body) \<Rightarrow> Some (guarded_request M rt body rq w)))"

section \<open>Route builders\<close>

text \<open>
  \<open>require_payment\<close> and \<open>require_session\<close>: the route of one charge or one session option.
  \<open>allow_insecure\<close> and the texts go through the models, as the code's constructors do.
\<close>

definition opt_entry :: "string \<Rightarrow> string option \<Rightarrow> string \<times> json" where
  "opt_entry k v = (k, case v of None \<Rightarrow> JNull | Some s \<Rightarrow> JStr s)"

definition payment_terms ::
  "int option \<Rightarrow> string option \<Rightarrow> string \<Rightarrow> string option \<Rightarrow> (string \<times> string) res" where
  "payment_terms xrp_drops amount asset_code asset_issuer =
     bind_res (guard_res (xrp_drops \<noteq> None \<or> amount \<noteq> None) (route_error ''require_payment needs xrp_drops or amount'')) (\<lambda>_.
     bind_res (guard_res (xrp_drops = None \<or> amount = None) (route_error ''require_payment accepts either xrp_drops or amount'')) (\<lambda>_.
     if py_upper (py_strip asset_code) = ''XRP'' then (case xrp_drops of
         None \<Rightarrow> Inl (route_error ''XRP payments must use xrp_drops'')
       | Some d \<Rightarrow> Inr (py_str_int d, ''XRP''))
     else (case (amount, asset_issuer) of
         (None, _) \<Rightarrow> Inl (route_error ''Issued-asset payments must use amount'')
       | (Some _, None) \<Rightarrow> Inl (route_error ''Issued-asset payments require asset_issuer'')
       | (Some a, Some i) \<Rightarrow>
           bind_res (normalize_currency_code asset_code) (\<lambda>code.
           bind_res (xrpl_currency_code code) (\<lambda>c. Inr (a, serialize_currency (IssuedCurrency c i)))))))"

definition require_payment ::
  "lib \<Rightarrow> string \<Rightarrow> string \<Rightarrow> string \<Rightarrow> string \<Rightarrow> int option \<Rightarrow> string option \<Rightarrow> string \<Rightarrow> string option \<Rightarrow>
     string option \<Rightarrow> string option \<Rightarrow> bool \<Rightarrow> route_config res" where
  "require_payment L url token pay_to network xrp_drops amount asset_code asset_issuer description realm insecure =
     bind_res (payment_terms xrp_drops amount asset_code asset_issuer) (\<lambda>(rendered, currency).
     validate_route_config L (JObj [(''facilitatorUrl'', JStr url), (''bearerToken'', JStr token),
       (''chargeOptions'', JArr [JObj [(''network'', JStr network), (''recipient'', JStr pay_to), (''currency'', JStr currency),
          (''amount'', JStr rendered), opt_entry ''description'' description]]),
       opt_entry ''description'' description, opt_entry ''realm'' realm,
       (''allowInsecureFacilitatorHttp'', JBool insecure)]))"

definition require_session ::
  "lib \<Rightarrow> string \<Rightarrow> string \<Rightarrow> string \<Rightarrow> string \<Rightarrow> int \<Rightarrow> string \<Rightarrow> string option \<Rightarrow> string option \<Rightarrow> bool \<Rightarrow> route_config res"
where
  "require_session L url token pay_to network xrp_drops channel_id description realm insecure =
     bind_res (guard_res (0 \<le> xrp_drops) (route_error ''xrp_drops must be zero or greater'')) (\<lambda>_.
     validate_route_config L (JObj [(''facilitatorUrl'', JStr url), (''bearerToken'', JStr token),
       (''sessionOptions'', JArr [JObj [(''network'', JStr network), (''recipient'', JStr pay_to), (''currency'', JStr ''XRP''),
          (''amount'', JStr (py_str_int xrp_drops)), (''channelId'', JStr channel_id), opt_entry ''description'' description]]),
       opt_entry ''description'' description, opt_entry ''realm'' realm,
       (''allowInsecureFacilitatorHttp'', JBool insecure)]))"

end
