(* ===== verification/MiddlewareProperties.thy ===== *)
theory MiddlewareProperties
  imports Middleware Demo
begin

text \<open>
  What the paywall guarantees: the protected application runs for a configured route only after the
  facilitator issued a receipt for a credential that is bound to this very request, and never for a
  request without one; its successful answers carry that receipt, and its early failures name the
  payment; a challenge read in a 402 answer is one the paywall accepts; and the loop that reads the
  request body ends with the exact body, or never, when the client goes away.
\<close>

section \<open>A concrete paywall\<close>

definition shop_binding :: json where
  "shop_binding = JObj [(''httpMethod'', JStr ''GET''), (''path'', JStr ''/a''), (''query'', JStr [])]"

definition shop_terms :: json where
  "shop_terms = JObj [(''amount'', JStr ''5''), (''currency'', JStr ''XRP''), (''recipient'', JStr demo_recipient),
     (''methodDetails'', JObj [(''network'', JStr ''testnet'')])]"

definition shop_credential_json :: json where
  "shop_credential_json = JObj [(''challenge'', JObj [(''id'', JStr (b64_encode ''s'')), (''realm'', JStr ''a''),
     (''method'', JStr ''xrpl''), (''intent'', JStr ''charge''), (''request'', JStr (b64_encode ''{}'')),
     (''expires'', JStr ''E''), (''opaque'', JStr (b64_encode ''[]''))]), (''payload'', JObj [])]"

definition shop_lib :: lib where
  "shop_lib = \<lparr>lib_loads = (\<lambda>s. if s = ''{}'' then Some shop_terms else if s = ''[]'' then Some shop_binding
       else if s = ''0'' then Some shop_credential_json else None),
     lib_jcs = (\<lambda>j. Some (if j = shop_binding then ''[]'' else ''{}'')),
     lib_fromiso = (\<lambda>s. if s = ''E'' then Some (Aware 300000000) else None),
     lib_hmac = (\<lambda>k m. k), lib_sha256 = (\<lambda>s. s), lib_sha512 = (\<lambda>s. s)\<rparr>"

definition shop_option :: charge_option where
  "shop_option = \<lparr>co_network = ''testnet'', co_recipient = demo_recipient, co_currency = ''XRP'', co_amount = ''5'',
     co_description = None, co_external_id = None\<rparr>"

definition shop_route :: route_config where
  "shop_route = \<lparr>rt_facilitator_url = ''u'', rt_bearer_token = ''b'', rt_charge_options = [shop_option],
     rt_session_options = [], rt_description = None, rt_realm = Some ''a'', rt_credential_header = ''Authorization'',
     rt_allow_insecure = False\<rparr>"

definition shop_receipt :: payment_receipt where
  "shop_receipt = \<lparr>pr_method = ''xrpl'', pr_timestamp = ''E'', pr_reference = ''H'',
     pr_challenge_id = None, pr_network = None, pr_payer = None, pr_recipient = None, pr_invoice_id = None,
     pr_channel_id = None, pr_cumulative = None, pr_action = None, pr_tx_hash = None,
     pr_settlement_status = None, pr_extra = []\<rparr>"

definition shop_client :: "bool \<Rightarrow> bool facilitator_ops" where
  "shop_client pays = \<lparr>fo_startup = ret (), fo_supported = ret [\<lparr>of_method = ''xrpl'', of_intents = [''charge''],
       of_network = ''testnet'', of_currencies = [''XRP'']\<rparr>],
     fo_charge = (\<lambda>c. if pays then ret shop_receipt
       else fail (FacilitatorFailure (PaymentRefused ''charge'' ''refused'' 402))),
     fo_session = (\<lambda>c. fail (FacilitatorFailure (PaymentRefused ''session'' ''refused'' 402)))\<rparr>"

definition shop :: "bool \<Rightarrow> bool middleware" where
  "shop pays = \<lparr>mw_lib = shop_lib, mw_iso_text = (\<lambda>t. ''E''), mw_now = (\<lambda>w. Aware 0),
     mw_app = (\<lambda>call w. (([ResponseStart 200 [], ResponseBody ''ok'' False], None), w)),
     mw_routes = [((''GET'', ''/a''), shop_route)], mw_secrets = [''s''], mw_ttl = 300, mw_realm = None,
     mw_client = (\<lambda>rt. shop_client pays), mw_max_body = 100, mw_started = id, mw_set_started = (\<lambda>b w. b)\<rparr>"

definition shop_challenge :: payment_challenge where
  "shop_challenge = \<lparr>pch_id = b64_encode ''s'', pch_realm = ''a'', pch_method = ''xrpl'', pch_intent = ''charge'',
     pch_request = b64_encode ''{}'', pch_digest = None, pch_expires = Some ''E'', pch_description = None,
     pch_header = None, pch_opaque = Some (b64_encode ''[]'')\<rparr>"

definition shop_request :: "(string \<times> string) list \<Rightarrow> http_request" where
  "shop_request hs = \<lparr>rq_method = ''GET'', rq_path = ''/a'', rq_query = [], rq_headers = hs\<rparr>"

definition no_body :: "nat \<Rightarrow> receive_message" where
  "no_body i = (if i = 0 then RequestChunk [] False else OtherMessage)"

section \<open>Where an answer comes from\<close>

lemma try_else_Inr_iff:
  "try_else m h f w = (Inr y, w'') \<longleftrightarrow>
     (\<exists>e w'. m w = (Inl e, w') \<and> h e w' = (Inr y, w'')) \<or> (\<exists>x w'. m w = (Inr x, w') \<and> f x w' = (Inr y, w''))"
  by (auto simp: try_else_def split: prod.splits sum.splits)

lemma send_challenge_not_app [simp]:
  "send_challenge M rt rq d e c w \<noteq> (Inr (AppResponse ms), w')"
  by (auto simp: send_challenge_def reading_eval andthen_Inr_iff Let_def ret_def)

lemma failure_not_app [simp]: "on_facilitator_failure M rt rq body e w \<noteq> (Inr (AppResponse ms), w')"
  by (auto simp: on_facilitator_failure_def ret_def fail_def facilitator_transport_response_def send_error_def
      split: exn.splits facilitator_failure.splits)

definition runs_app ::
  "'w middleware \<Rightarrow> http_request \<Rightarrow> string \<Rightarrow> payment_receipt \<Rightarrow> string \<Rightarrow> 'w \<Rightarrow> http_message list \<Rightarrow> 'w \<Rightarrow> bool" where
  "runs_app M rq body r field w ms w' \<longleftrightarrow>
     (\<exists>sent. mw_app M \<lparr>ac_request = without_credential field rq, ac_payment = Some r, ac_body = Some body\<rparr> w = ((sent, None), w')
        \<and> list_field (send_with_receipt (mw_lib M) r field) sent = Inr ms)"

lemma forward_app:
  "forward_paid_request M rq body r field w = (Inr (AppResponse ms), w') \<Longrightarrow> runs_app M rq body r field w ms w'"
proof -
  assume "forward_paid_request M rq body r field w = (Inr (AppResponse ms), w')"
  then obtain sent raised where app:
    "mw_app M \<lparr>ac_request = without_credential field rq, ac_payment = Some r, ac_body = Some body\<rparr> w = ((sent, raised), w')"
    and out: "deliver_response (mw_lib M) r field (sent, raised) = Inr (AppResponse ms)"
    by (auto simp: forward_paid_request_def split: prod.splits)
  from out have "raised = None" by (cases raised) (auto simp: deliver_response_def res_iffs paid_internal_error_def split: if_splits)
  with app out show ?thesis by (auto simp: runs_app_def deliver_response_def res_iffs)
qed

definition settles :: "'w middleware \<Rightarrow> route_config \<Rightarrow> payment_credential \<Rightarrow> ('w, payment_receipt) proc" where
  "settles M rt cred = (if pch_intent (pcr_challenge cred) = ''charge'' then fo_charge (mw_client M rt) cred
     else fo_session (mw_client M rt) cred)"

lemma settle_credential_app:
  assumes "settle_credential M rt cred body rq w = (Inr (AppResponse ms), w')"
  shows "\<exists>r w1. settles M rt cred w = (Inr r, w1) \<and>
    runs_app M rq body r (payment_credential_header (pcr_challenge cred)) w1 ms w'"
proof (cases "pch_intent (pcr_challenge cred) = ''charge''")
  case True
  with assms show ?thesis
    by (auto simp: settle_credential_def Let_def settles_def handle_charge_def try_else_Inr_iff dest!: forward_app split: if_splits)
next
  case False
  with assms obtain r w1 p where "settles M rt cred w = (Inr r, w1)"
    and p: "(case p of ClosePayload _ _ _ \<Rightarrow> lift (closed_response (mw_lib M) r)
      | _ \<Rightarrow> forward_paid_request M rq body r (payment_credential_header (pcr_challenge cred))) w1 = (Inr (AppResponse ms), w')"
    by (fastforce simp: settle_credential_def Let_def settles_def handle_session_def try_else_Inr_iff andthen_Inr_iff
      proc_evals(3) [of "decode_session_payload cred"] split: if_splits)
  moreover from p have "runs_app M rq body r (payment_credential_header (pcr_challenge cred)) w1 ms w'"
    by (cases p) (auto simp: lift_def closed_response_def res_iffs dest!: forward_app)
  ultimately show ?thesis by blast
qed

lemma verify_presented_app:
  assumes "verify_presented M rt field cred body rq w = (Inr (AppResponse ms), w')"
  shows "payment_credential_header (pcr_challenge cred) = field \<and>
    verify_challenge_binding (mw_lib M) (mw_secrets M) (pcr_challenge cred) = Inr True \<and>
    challenge_is_expired (mw_lib M) (pcr_challenge cred) (mw_now M w) = Inr False \<and>
    challenge_matches_request (mw_lib M) (pcr_challenge cred) rq \<and>
    (or_empty (pch_digest (pcr_challenge cred)) = [] \<or>
       pch_digest (pcr_challenge cred) = build_content_digest (mw_lib M) body) \<and>
    settle_credential M rt cred body rq w = (Inr (AppResponse ms), w')"
  using assms
  by (auto simp: verify_presented_def Let_def andthen_Inr_iff lift_def reading_eval split: if_splits)

lemma answer_request_app:
  assumes "answer_request M rt body rq w = (Inr (AppResponse ms), w')"
  shows "\<exists>field raw cred. credential_fields (rq_headers rq) = [(field, raw)] \<and>
    parse_payment_authorization_header (mw_lib M) raw = Inr cred \<and>
    verify_presented M rt field cred body rq w = (Inr (AppResponse ms), w')"
  using assms
  by (auto simp: answer_request_def try_else_Inr_iff lift_def ret_def fail_def send_error_def
      split: list.splits prod.splits if_splits)

lemma call_app:
  assumes "call_middleware M fuel receive rq w = Some (Inr (AppResponse ms), w')" and "find_route M rq = Some rt"
  shows "\<exists>body ws. read_body fuel receive (mw_max_body M) 0 [] = Some (Inr body) \<and> startup M w = (Inr (), ws) \<and>
    answer_request M rt body rq ws = (Inr (AppResponse ms), w')"
  using assms
  by (auto simp: call_middleware_def request_too_large_def send_error_def guarded_request_def ret_def andthen_Inr_iff
      split: if_splits option.splits sum.splits)

section \<open>Changing the application or the facilitator\<close>

text \<open>
  Another application and other payment operations of the facilitator in the same paywall: what does not
  depend on them cannot have called them.
\<close>

definition with_parties ::
  "'w middleware \<Rightarrow> 'w asgi_app \<Rightarrow> (route_config \<Rightarrow> payment_credential \<Rightarrow> ('w, payment_receipt) proc) \<Rightarrow>
     (route_config \<Rightarrow> payment_credential \<Rightarrow> ('w, payment_receipt) proc) \<Rightarrow> 'w middleware" where
  "with_parties M a charge session =
     M\<lparr>mw_app := a, mw_client := \<lambda>rt. (mw_client M rt)\<lparr>fo_charge := charge rt, fo_session := session rt\<rparr>\<rparr>"

lemma other_fields [simp]:
  "mw_lib (with_parties M a g h) = mw_lib M" "mw_now (with_parties M a g h) = mw_now M"
  "mw_routes (with_parties M a g h) = mw_routes M" "mw_secrets (with_parties M a g h) = mw_secrets M"
  "mw_started (with_parties M a g h) = mw_started M" "mw_set_started (with_parties M a g h) = mw_set_started M"
  "mw_max_body (with_parties M a g h) = mw_max_body M" "mw_app (with_parties M a g h) = a"
  "mw_client (with_parties M a g h) rt = (mw_client M rt)\<lparr>fo_charge := g rt, fo_session := h rt\<rparr>"
  by (simp_all add: with_parties_def)

lemma same_facilitator: "with_parties M a (\<lambda>rt. fo_charge (mw_client M rt)) (\<lambda>rt. fo_session (mw_client M rt)) = M\<lparr>mw_app := a\<rparr>"
  by (simp add: with_parties_def)

lemma other_build [simp]: "build_challenges (with_parties M a g h) rt rq d now = build_challenges M rt rq d now"
proof -
  have "issue_challenge (with_parties M a g h) = issue_challenge M"
    by (auto simp: fun_eq_iff issue_challenge_def challenge_realm_def with_parties_def)
  then have "charge_offer_challenge (with_parties M a g h) = charge_offer_challenge M"
    "session_offer_challenge (with_parties M a g h) = session_offer_challenge M"
    by (auto simp: fun_eq_iff charge_offer_challenge_def session_offer_challenge_def)
  then show ?thesis by (simp add: build_challenges_def)
qed

lemma other_challenge [simp]: "send_challenge (with_parties M a g h) rt rq d e c = send_challenge M rt rq d e c"
  by (simp add: send_challenge_def)

lemma other_start [simp]: "start_routes (with_parties M a g h) rs = start_routes M rs"
  by (induction rs) auto

lemma other_startup [simp]: "startup (with_parties M a g h) = startup M"
  unfolding startup_def other_fields other_start by (rule refl)

lemma other_failure [simp]:
  "on_facilitator_failure (with_parties M a g h) rt rq body = on_facilitator_failure M rt rq body"
  by (auto simp: fun_eq_iff on_facilitator_failure_def split: exn.splits facilitator_failure.splits)

lemma other_route [simp]: "find_route (with_parties M a g h) rq = find_route M rq"
  by (simp add: find_route_def)

lemma other_long [simp]: "too_long (with_parties M a g h) rq = too_long M rq"
  unfolding too_long_def other_fields by (rule refl)

lemma call_other_answer:
  assumes "find_route M rq = Some rt"
    and "\<And>body ws. read_body fuel receive (mw_max_body M) 0 [] = Some (Inr body) \<Longrightarrow> startup M w = (Inr (), ws) \<Longrightarrow>
      answer_request (with_parties M a g h) rt body rq ws = answer_request M rt body rq ws"
  shows "call_middleware (with_parties M a g h) fuel receive rq w = call_middleware M fuel receive rq w"
  using assms by (auto simp: call_middleware_def guarded_request_def andthen_def split: option.splits sum.splits prod.splits)

section \<open>Without a payment the application does not run\<close>

text \<open>
  What the application is called with after a payment, and what makes a payment: one credential in the
  field that its challenge selects, the challenge signed by this server, unexpired, for this method, path
  and query, and, when it has a digest, for this body; offered by the route; and a receipt of the
  facilitator for it, which leaves the world \<open>w1\<close>.
\<close>

definition paid_call :: "http_request \<Rightarrow> string \<Rightarrow> string \<Rightarrow> payment_receipt \<Rightarrow> app_call" where
  "paid_call rq field body r = \<lparr>ac_request = without_credential field rq, ac_payment = Some r, ac_body = Some body\<rparr>"

definition payment_accepted ::
  "'w middleware \<Rightarrow> route_config \<Rightarrow> http_request \<Rightarrow> string \<Rightarrow> 'w \<Rightarrow> string \<Rightarrow> payment_credential \<Rightarrow> payment_receipt \<Rightarrow> 'w \<Rightarrow> bool"
where
  "payment_accepted M rt rq body w field cred r w1 \<longleftrightarrow> (let L = mw_lib M; c = pcr_challenge cred in
     (\<exists>raw. credential_fields (rq_headers rq) = [(field, raw)] \<and> parse_payment_authorization_header L raw = Inr cred) \<and>
     payment_credential_header c = field \<and>
     verify_challenge_binding L (mw_secrets M) c = Inr True \<and>
     challenge_is_expired L c (mw_now M w) = Inr False \<and>
     challenge_matches_request L c rq \<and>
     (or_empty (pch_digest c) = [] \<or> pch_digest c = build_content_digest L body) \<and>
     (pch_intent c = ''charge'' \<and> rt_charge_options rt \<noteq> [] \<or> pch_intent c = ''session'' \<and> rt_session_options rt \<noteq> []) \<and>
     settles M rt cred w = (Inr r, w1))"

lemma settle_offered:
  assumes "settle_credential M rt cred body rq w = (Inr (AppResponse ms), w')"
  shows "pch_intent (pcr_challenge cred) = ''charge'' \<and> rt_charge_options rt \<noteq> [] \<or>
    pch_intent (pcr_challenge cred) = ''session'' \<and> rt_session_options rt \<noteq> []"
  using assms by (auto simp: settle_credential_def Let_def split: if_splits)

lemma try_else_cong: "(\<And>x w1. m w = (Inr x, w1) \<Longrightarrow> f x w1 = g x w1) \<Longrightarrow> try_else m h f w = try_else m h g w"
  by (auto simp: try_else_def split: prod.splits sum.splits)

lemma settle_other_app:
  assumes "\<And>r w1. settles M rt cred w = (Inr r, w1) \<Longrightarrow>
      (pch_intent (pcr_challenge cred) = ''charge'' \<and> rt_charge_options rt \<noteq> [] \<or>
       pch_intent (pcr_challenge cred) = ''session'' \<and> rt_session_options rt \<noteq> []) \<Longrightarrow>
      a (paid_call rq (payment_credential_header (pcr_challenge cred)) body r) w1
        = mw_app M (paid_call rq (payment_credential_header (pcr_challenge cred)) body r) w1"
  shows "settle_credential (M\<lparr>mw_app := a\<rparr>) rt cred body rq w = settle_credential M rt cred body rq w"
proof -
  let ?N = "M\<lparr>mw_app := a\<rparr>" and ?h = "payment_credential_header (pcr_challenge cred)"
  note other = other_failure [of M a "\<lambda>rt. fo_charge (mw_client M rt)" "\<lambda>rt. fo_session (mw_client M rt)", unfolded same_facilitator]
    other_challenge [of M a "\<lambda>rt. fo_charge (mw_client M rt)" "\<lambda>rt. fo_session (mw_client M rt)", unfolded same_facilitator]
  have fwd: "forward_paid_request ?N rq body r ?h w1 = forward_paid_request M rq body r ?h w1"
    if "a (paid_call rq ?h body r) w1 = mw_app M (paid_call rq ?h body r) w1" for r w1
    using that by (simp add: forward_paid_request_def paid_call_def)
  have "handle_charge ?N rt cred body rq w = handle_charge M rt cred body rq w"
    if "pch_intent (pcr_challenge cred) = ''charge''" "rt_charge_options rt \<noteq> []"
    using assms that fwd by (auto simp: handle_charge_def other settles_def intro!: try_else_cong)
  moreover have "handle_session ?N rt cred body rq w = handle_session M rt cred body rq w"
    if "pch_intent (pcr_challenge cred) = ''session''" "rt_session_options rt \<noteq> []"
    using assms that fwd by (auto simp: handle_session_def other settles_def andthen_def lift_def intro!: try_else_cong
        split: sum.splits session_payload.splits)
  ultimately show ?thesis by (auto simp: settle_credential_def Let_def other)
qed

lemma answer_other_app:
  assumes "\<And>field cred r w1. payment_accepted M rt rq body w field cred r w1 \<Longrightarrow>
      a (paid_call rq field body r) w1 = mw_app M (paid_call rq field body r) w1"
  shows "answer_request (M\<lparr>mw_app := a\<rparr>) rt body rq w = answer_request M rt body rq w"
proof -
  let ?N = "M\<lparr>mw_app := a\<rparr>"
  note other = other_challenge [of M a "\<lambda>rt. fo_charge (mw_client M rt)" "\<lambda>rt. fo_session (mw_client M rt)", unfolded same_facilitator]
  have "verify_presented ?N rt field cred body rq w = verify_presented M rt field cred body rq w"
    if cred: "credential_fields (rq_headers rq) = [(field, raw)]" "parse_payment_authorization_header (mw_lib M) raw = Inr cred" for field raw cred
  proof -
    have "settle_credential ?N rt cred body rq w = settle_credential M rt cred body rq w"
      if "payment_credential_header (pcr_challenge cred) = field" "verify_challenge_binding (mw_lib M) (mw_secrets M) (pcr_challenge cred) = Inr True"
        "challenge_is_expired (mw_lib M) (pcr_challenge cred) (mw_now M w) = Inr False" "challenge_matches_request (mw_lib M) (pcr_challenge cred) rq"
        "or_empty (pch_digest (pcr_challenge cred)) = [] \<or> pch_digest (pcr_challenge cred) = build_content_digest (mw_lib M) body"
      by (rule settle_other_app) (use assms that cred in \<open>auto simp: payment_accepted_def Let_def\<close>)
    then show ?thesis
      by (auto simp: verify_presented_def Let_def andthen_def lift_def reading_def other split: sum.splits)
  qed
  then show ?thesis by (auto simp: answer_request_def other try_else_def lift_def split: list.splits sum.splits)
qed

text \<open>
  C23. The application only runs paid. When a configured route answers with the application's response,
  a payment was accepted: one credential, in the field its challenge selects; a challenge this server
  signed, unexpired, for this method, path and query, offered by the route, and for this body whenever it
  carries a digest (as every challenge issued for a request with a body does); and a receipt of the
  facilitator. The application was then called with that receipt, the exact body and without the
  credential, its messages passing through the receipt filter. And whatever the outcome, also when the
  application raises: two applications can be told apart by a request only in how they answer such a paid
  call, so no other call of the application is ever made.
\<close>

theorem app_response_is_paid:
  assumes "find_route M rq = Some rt"
  shows "(\<forall>ms w'. call_middleware M fuel receive rq w = Some (Inr (AppResponse ms), w') \<longrightarrow>
      (\<exists>body ws field cred r w1. read_body fuel receive (mw_max_body M) 0 [] = Some (Inr body) \<and> startup M w = (Inr (), ws) \<and>
        payment_accepted M rt rq body ws field cred r w1 \<and> runs_app M rq body r field w1 ms w')) \<and>
    (\<forall>a. call_middleware (M\<lparr>mw_app := a\<rparr>) fuel receive rq w \<noteq> call_middleware M fuel receive rq w \<longrightarrow>
      (\<exists>body ws field cred r w1. read_body fuel receive (mw_max_body M) 0 [] = Some (Inr body) \<and> startup M w = (Inr (), ws) \<and>
        payment_accepted M rt rq body ws field cred r w1 \<and>
        a (paid_call rq field body r) w1 \<noteq> mw_app M (paid_call rq field body r) w1))"
proof (intro conjI allI impI)
  fix ms w' assume "call_middleware M fuel receive rq w = Some (Inr (AppResponse ms), w')"
  from call_app [OF this assms] obtain body ws where body: "read_body fuel receive (mw_max_body M) 0 [] = Some (Inr body)"
    "startup M w = (Inr (), ws)" and ans: "answer_request M rt body rq ws = (Inr (AppResponse ms), w')" by blast
  from answer_request_app [OF ans] obtain field raw cred where cred: "credential_fields (rq_headers rq) = [(field, raw)]"
    "parse_payment_authorization_header (mw_lib M) raw = Inr cred"
    and ver: "verify_presented M rt field cred body rq ws = (Inr (AppResponse ms), w')" by blast
  note ok = verify_presented_app [OF ver]
  then obtain r w1 where "settles M rt cred ws = (Inr r, w1)" "runs_app M rq body r field w1 ms w'"
    using settle_credential_app [of M rt cred body rq ws ms w'] by auto
  with body cred ok settle_offered [of M rt cred body rq ws ms w']
  show "\<exists>body ws field cred r w1. read_body fuel receive (mw_max_body M) 0 [] = Some (Inr body) \<and> startup M w = (Inr (), ws) \<and>
      payment_accepted M rt rq body ws field cred r w1 \<and> runs_app M rq body r field w1 ms w'"
    unfolding payment_accepted_def Let_def by blast
next
  fix a assume "call_middleware (M\<lparr>mw_app := a\<rparr>) fuel receive rq w \<noteq> call_middleware M fuel receive rq w"
  with call_other_answer [OF assms, of fuel receive w a "\<lambda>rt. fo_charge (mw_client M rt)" "\<lambda>rt. fo_session (mw_client M rt)"]
  obtain body ws where "read_body fuel receive (mw_max_body M) 0 [] = Some (Inr body)" "startup M w = (Inr (), ws)"
    "answer_request (M\<lparr>mw_app := a\<rparr>) rt body rq ws \<noteq> answer_request M rt body rq ws"
    unfolding same_facilitator by blast
  with answer_other_app [of M rt rq body ws a]
  show "\<exists>body ws field cred r w1. read_body fuel receive (mw_max_body M) 0 [] = Some (Inr body) \<and> startup M w = (Inr (), ws) \<and>
      payment_accepted M rt rq body ws field cred r w1 \<and>
      a (paid_call rq field body r) w1 \<noteq> mw_app M (paid_call rq field body r) w1" by blast
qed

definition shop_credential :: payment_credential where
  "shop_credential = \<lparr>pcr_challenge = shop_challenge, pcr_payload = [], pcr_source = None\<rparr>"

definition paid_request :: http_request where
  "paid_request = shop_request [(''authorization'', ''Payment '' @ b64_encode ''0'')]"

lemma shop_sells: "call_middleware (shop True) 5 no_body paid_request True =
    Some (Inr (AppResponse [ResponseStart 200 [(''payment-receipt'', b64_encode ''{}''), (''cache-control'', ''private'')],
      ResponseBody ''ok'' False]), True)"
  by code_simp

text \<open>An application that raises before it answers.\<close>

definition broken_app :: "bool asgi_app" where
  "broken_app = (\<lambda>call w. (([], Some (OtherError ''boom'')), \<not> w))"

lemma shop_breaks: "call_middleware ((shop True)\<lparr>mw_app := broken_app\<rparr>) 5 no_body paid_request True =
    Some (Inr (paid_internal_error shop_receipt), False)"
  by code_simp

lemma shop_finds: "find_route (shop p) (shop_request hs) = Some shop_route"
  by (simp add: find_route_def shop_def shop_request_def py_upper_def to_upper_def is_lower_def ch_def)

lemma paid_finds: "find_route (shop p) paid_request = Some shop_route"
  by (simp add: paid_request_def shop_finds)

lemma paid_fields: "credential_fields (rq_headers paid_request) = [(''Authorization'', ''Payment '' @ b64_encode ''0'')]"
  by code_simp

lemma app_response_is_paid_witness:
  "(\<exists>body ws field cred r w1. payment_accepted (shop True) shop_route paid_request body ws field cred r w1 \<and>
      runs_app (shop True) paid_request body r field w1
        [ResponseStart 200 [(''payment-receipt'', b64_encode ''{}''), (''cache-control'', ''private'')], ResponseBody ''ok'' False] True) \<and>
   (\<exists>body ws field cred r w1. payment_accepted (shop True) shop_route paid_request body ws field cred r w1 \<and>
      broken_app (paid_call paid_request field body r) w1 \<noteq> mw_app (shop True) (paid_call paid_request field body r) w1)"
proof -
  have "paid_internal_error shop_receipt \<noteq> AppResponse ms" for ms by (simp add: paid_internal_error_def)
  then have "call_middleware ((shop True)\<lparr>mw_app := broken_app\<rparr>) 5 no_body paid_request True
      \<noteq> call_middleware (shop True) 5 no_body paid_request True"
    by (simp add: shop_sells shop_breaks)
  then show ?thesis using app_response_is_paid [OF paid_finds [of True], of 5 no_body True] shop_sells by blast
qed

section \<open>A request without a credential\<close>

text \<open>
  C24. A request without a payment credential reaches neither the application nor the payment operations
  of the facilitator: whatever those are, a facilitator that would accept every credential included, the
  outcome and the world it leaves are the same, and the answer is an error of the request (400, 413) or
  the 402 challenge of the route.
\<close>

theorem unpaid_request_never_reaches_app:
  assumes "find_route M rq = Some rt" and "credential_fields (rq_headers rq) = []"
  shows "call_middleware (with_parties M a g h) fuel receive rq w = call_middleware M fuel receive rq w \<and>
    (\<forall>answer w'. call_middleware M fuel receive rq w = Some (Inr answer, w') \<longrightarrow>
      (\<exists>status hs j. answer = JsonResponse status hs j \<and>
        (status \<in> {400, 413} \<or> status = 402 \<and> (\<exists>body ws. read_body fuel receive (mw_max_body M) 0 [] = Some (Inr body) \<and>
           startup M w = (Inr (), ws) \<and> send_challenge M rt rq (build_content_digest (mw_lib M) body) None None ws = (Inr answer, w')))))"
proof (intro conjI allI impI)
  show "call_middleware (with_parties M a g h) fuel receive rq w = call_middleware M fuel receive rq w"
    by (rule call_other_answer [OF assms(1)]) (simp add: answer_request_def assms(2))
next
  fix answer w' assume run: "call_middleware M fuel receive rq w = Some (Inr answer, w')"
  have status: "\<exists>hs j. x = JsonResponse 402 hs j" if "send_challenge M rt rq d e c ws = (Inr x, w')" for d e c ws x
    using that by (auto simp: send_challenge_def reading_eval andthen_Inr_iff Let_def ret_def)
  show "\<exists>status hs j. answer = JsonResponse status hs j \<and>
      (status \<in> {400, 413} \<or> status = 402 \<and> (\<exists>body ws. read_body fuel receive (mw_max_body M) 0 [] = Some (Inr body) \<and>
         startup M w = (Inr (), ws) \<and> send_challenge M rt rq (build_content_digest (mw_lib M) body) None None ws = (Inr answer, w')))"
    using run assms
    by (auto simp: call_middleware_def request_too_large_def send_error_def guarded_request_def ret_def andthen_Inr_iff
        answer_request_def dest: status split: if_splits option.splits sum.splits)
qed

lemma unpaid_request_never_reaches_app_witness:
  "call_middleware (with_parties (shop True) broken_app (\<lambda>rt c. ret shop_receipt) (\<lambda>rt c. ret shop_receipt)) 5 no_body (shop_request []) True
     = call_middleware (shop True) 5 no_body (shop_request []) True \<and>
   (\<exists>hs j. call_middleware (shop True) 5 no_body (shop_request []) True = Some (Inr (JsonResponse 402 hs j), True))"
proof -
  have none: "credential_fields (rq_headers (shop_request [])) = []" by code_simp
  have "case call_middleware (shop True) 5 no_body (shop_request []) True of
      Some (Inr (JsonResponse s hs j), w) \<Rightarrow> s = 402 \<and> w | _ \<Rightarrow> False" by code_simp
  then obtain hs j where "call_middleware (shop True) 5 no_body (shop_request []) True = Some (Inr (JsonResponse 402 hs j), True)"
    by (auto split: option.splits prod.splits sum.splits mw_response.splits)
  with unpaid_request_never_reaches_app [OF shop_finds none] show ?thesis by blast
qed

section \<open>The receipt on the answer\<close>

lemma header_names_differ: "py_lower ''Payment-Receipt'' \<noteq> py_lower ''Cache-Control''"
  by code_simp

fun same_message :: "http_message \<Rightarrow> http_message \<Rightarrow> bool" where
  "same_message (ResponseStart s _) m = (\<exists>hs. m = ResponseStart s hs)"
| "same_message (ResponseBody b k) m = (m = ResponseBody b k)"

lemma receipt_filter:
  assumes "list_field (send_with_receipt L r field) sent = Inr ms"
  shows "list_all2 same_message sent ms \<and>
    (\<forall>s hs. ResponseStart s hs \<in> set ms \<and> 200 \<le> s \<and> s < 300 \<longrightarrow>
      (\<exists>v. encode_payment_receipt L r = Inr v \<and> hget hs ''Payment-Receipt'' = Some v \<and>
        hget hs ''Cache-Control'' = Some ''private''))"
  using assms
proof (induction sent arbitrary: ms)
  case (Cons m sent)
  then obtain m' rest where m: "send_with_receipt L r field m = Inr m'" "ms = m' # rest"
    and rest: "list_field (send_with_receipt L r field) sent = Inr rest" by (auto simp: res_iffs)
  from m(1) have "same_message m m'" by (cases m) (auto simp: res_iffs)
  moreover have "\<exists>v. encode_payment_receipt L r = Inr v \<and> hget hs ''Payment-Receipt'' = Some v \<and>
      hget hs ''Cache-Control'' = Some ''private''" if "m' = ResponseStart s hs" "200 \<le> s" "s < 300" for s hs
    using m(1) that by (cases m) (auto simp: res_iffs receipt_headers_def hget_hset_same hget_hset_other header_names_differ)
  ultimately show ?case using Cons.IH [OF rest] m(2) by auto
qed simp

lemma filter_passes:
  "encode_payment_receipt L r = Inr v \<or> \<not> list_ex is_start sent \<Longrightarrow> \<exists>ms. list_field (send_with_receipt L r field) sent = Inr ms"
proof (induction sent)
  case (Cons m sent)
  then show ?case by (cases m) (auto simp: res_iffs receipt_headers_def)
qed simp

lemma same_starts: "list_all2 same_message sent ms \<Longrightarrow> list_ex is_start ms = list_ex is_start sent"
proof (induction rule: list_all2_induct)
  case (Cons m ms m' ms')
  then show ?case by (cases m) auto
qed simp

text \<open>
  C32. What the client of a paid call gets. When the application returns, its messages go through with
  every status and every body chunk kept, and each successful answer carries the receipt, encoded, as its
  only Payment-Receipt and is marked private. When it raises before its response has started, the client
  gets a private 500 problem that names the payment reference; when it raises later, the exception goes on.
\<close>

theorem paid_answer_carries_receipt:
  assumes "mw_app M (paid_call rq field body r) w = ((sent, raised), w')"
  shows "case forward_paid_request M rq body r field w of (answer, after) \<Rightarrow> after = w' \<and>
    (\<forall>ms. answer = Inr (AppResponse ms) \<longrightarrow> raised = None \<and> list_all2 same_message sent ms \<and>
      (\<forall>s hs. ResponseStart s hs \<in> set ms \<and> 200 \<le> s \<and> s < 300 \<longrightarrow>
        (\<exists>v. encode_payment_receipt (mw_lib M) r = Inr v \<and> hget hs ''Payment-Receipt'' = Some v \<and>
          hget hs ''Cache-Control'' = Some ''private''))) \<and>
    (raised = None \<and> (\<exists>v. encode_payment_receipt (mw_lib M) r = Inr v) \<longrightarrow> (\<exists>ms. answer = Inr (AppResponse ms))) \<and>
    (\<forall>e. raised = Some e \<and> is_exception e \<and> \<not> list_ex is_start sent \<longrightarrow>
      (\<exists>problem. answer = Inr (JsonResponse 500 [(''Cache-Control'', ''private'')] (JObj problem)) \<and>
        map_of problem ''status'' = Some (JInt 500) \<and> map_of problem ''paymentReference'' = Some (JStr (pr_reference r)))) \<and>
    (\<forall>e. raised = Some e \<and> (\<not> is_exception e \<or> list_ex is_start sent) \<and>
        (\<exists>v. encode_payment_receipt (mw_lib M) r = Inr v) \<longrightarrow> answer = Inl e)"
proof -
  have run: "forward_paid_request M rq body r field w = (deliver_response (mw_lib M) r field (sent, raised), w')"
    using assms by (simp add: forward_paid_request_def paid_call_def)
  have reference: "map_of (problem_dict p) ''status'' = Some (JInt (pb_status p))"
    "pb_payment_reference p = Some x \<Longrightarrow> map_of (problem_dict p) ''paymentReference'' = Some (JStr x)" for p x
    by (simp_all add: problem_dict_def present_texts_def split: option.splits)
  show ?thesis
  proof (cases "list_field (send_with_receipt (mw_lib M) r field) sent")
    case (Inl e)
    then have "\<nexists>v. encode_payment_receipt (mw_lib M) r = Inr v" "list_ex is_start sent"
      using filter_passes [of "mw_lib M" r _ sent field] by force+
    with Inl show ?thesis by (auto simp: run deliver_response_def res_iffs split: option.splits)
  next
    case (Inr ms)
    note kept = receipt_filter [OF Inr]
    with same_starts have "list_ex is_start ms = list_ex is_start sent" by blast
    with Inr kept show ?thesis
      by (auto simp: run deliver_response_def paid_internal_error_def reference split: option.splits)
  qed
qed

lemma paid_answer_carries_receipt_witness:
  "(\<exists>ms. fst (forward_paid_request (shop True) paid_request [] shop_receipt ''Authorization'' True) = Inr (AppResponse ms) \<and>
      (\<forall>s hs. ResponseStart s hs \<in> set ms \<and> 200 \<le> s \<and> s < 300 \<longrightarrow> hget hs ''Payment-Receipt'' = Some (b64_encode ''{}''))) \<and>
   (\<exists>problem. fst (forward_paid_request ((shop True)\<lparr>mw_app := broken_app\<rparr>) paid_request [] shop_receipt ''Authorization'' True)
      = Inr (JsonResponse 500 [(''Cache-Control'', ''private'')] (JObj problem)) \<and>
      map_of problem ''paymentReference'' = Some (JStr ''H''))"
proof -
  have v: "encode_payment_receipt (mw_lib (shop True)) shop_receipt = Inr (b64_encode ''{}'')" by code_simp
  have good: "mw_app (shop True) (paid_call paid_request ''Authorization'' [] shop_receipt) True =
      (([ResponseStart 200 [], ResponseBody ''ok'' False], None), True)" by (simp add: shop_def)
  have bad: "mw_app ((shop True)\<lparr>mw_app := broken_app\<rparr>) (paid_call paid_request ''Authorization'' [] shop_receipt) True =
      (([], Some (OtherError ''boom'')), False)" by (simp add: broken_app_def)
  have "is_exception (OtherError ''boom'')" "pr_reference shop_receipt = ''H''" by (simp_all add: shop_receipt_def)
  with paid_answer_carries_receipt [OF good] paid_answer_carries_receipt [OF bad] v show ?thesis
    by (auto simp: case_prod_unfold)
qed

section \<open>Reading the body\<close>

fun chunk_of :: "receive_message \<Rightarrow> string" where
  "chunk_of (RequestChunk c _) = c"
| "chunk_of OtherMessage = []"

fun is_last :: "receive_message \<Rightarrow> bool" where
  "is_last (RequestChunk _ more_body) = (\<not> more_body)"
| "is_last OtherMessage = False"

lemma read_body_from:
  assumes "is_last (receive n)" and "i \<le> n" and "\<forall>k. i \<le> k \<and> k < n \<longrightarrow> \<not> is_last (receive k)"
    and "n - i < fuel"
  shows "let body = acc @ concat (map (\<lambda>k. chunk_of (receive k)) [i..<Suc n]) in
    read_body fuel receive limit i acc = Some (if int (length body) \<le> limit then Inr body else Inl body_too_large)"
  using assms
proof (induction fuel arbitrary: i acc)
  case (Suc fuel)
  show ?case
  proof (cases "i = n")
    case True
    then show ?thesis using Suc.prems(1) by (cases "receive n") (auto simp: Let_def)
  next
    case False
    then have split: "[i..<Suc n] = i # [Suc i..<Suc n]" using Suc.prems(2) by (simp add: upt_conv_Cons)
    have next_i: "Suc i \<le> n" "\<not> is_last (receive i)" "n - Suc i < fuel" using False Suc.prems by auto
    define rest where "rest = concat (map (\<lambda>k. chunk_of (receive k)) [Suc i..<Suc n])"
    have IH: "read_body fuel receive limit (Suc i) a =
        Some (if int (length (a @ rest)) \<le> limit then Inr (a @ rest) else Inl body_too_large)" for a
      using Suc.IH [of "Suc i" a] Suc.prems(1,3) next_i unfolding rest_def by (simp add: Let_def del: upt_Suc)
    have whole: "concat (map (\<lambda>k. chunk_of (receive k)) [i..<Suc n]) = chunk_of (receive i) @ rest"
      unfolding split rest_def by simp
    show ?thesis unfolding whole using next_i(2) by (cases "receive i") (auto simp: IH Let_def)
  qed
qed simp

text \<open>
  C33. Reading a request body ends, with enough fuel for the messages up to the last chunk, and gives
  exactly the concatenated chunks when they fit the limit and the size error otherwise.
\<close>

theorem body_read_exactly:
  assumes "is_last (receive n)" and "\<forall>k < n. \<not> is_last (receive k)" and "n < fuel"
  shows "let body = concat (map (\<lambda>k. chunk_of (receive k)) [0..<Suc n]) in
    read_body fuel receive limit 0 [] = Some (if int (length body) \<le> limit then Inr body else Inl body_too_large)"
  using read_body_from [where receive = receive and n = n and i = 0 and acc = "[]"] assms
  by (simp add: Let_def del: upt_Suc)

lemma body_read_exactly_witness:
  "read_body 3 (\<lambda>i. if i = 0 then RequestChunk ''ab'' True else RequestChunk ''c'' False) 10 0 [] = Some (Inr ''abc'')"
  using body_read_exactly [of "\<lambda>i. if i = 0 then RequestChunk ''ab'' True else RequestChunk ''c'' False" 1 3 10]
  by (simp add: Let_def upt_rec)

text \<open>
  A client that goes away in the middle of an upload is never answered: once only disconnect
  messages arrive, the loop asks for the next message forever, whatever fuel it is given.
\<close>

theorem disconnect_blocks_request:
  assumes "find_route M rq = Some rt" and "\<not> too_long M rq"
    and "\<forall>k \<ge> n. receive k = OtherMessage"
    and "\<forall>k < n. \<not> is_last (receive k)"
    and "int (length (concat (map (\<lambda>k. chunk_of (receive k)) [0..<n]))) \<le> mw_max_body M"
  shows "call_middleware M fuel receive rq w = None"
proof -
  have idle: "n \<le> i \<Longrightarrow> read_body f receive limit i acc = None" for f limit i acc
    by (induction f arbitrary: i) (auto simp: assms(3))
  have "i \<le> n \<Longrightarrow> int (length (acc @ concat (map (\<lambda>k. chunk_of (receive k)) [i..<n]))) \<le> limit \<Longrightarrow>
      read_body f receive limit i acc = None" for f limit i acc
  proof (induction f arbitrary: i acc)
    case (Suc f)
    show ?case
    proof (cases "i = n")
      case False
      with Suc.prems have split: "[i..<n] = i # [Suc i..<n]" and i: "i < n" by (simp_all add: upt_conv_Cons)
      from Suc.prems(2) show ?thesis unfolding split using assms(4) i Suc.IH [of "Suc i"]
        by (cases "receive i") auto
    qed (use idle [of i "Suc f"] in auto)
  qed simp
  from this [of 0 "[]" "mw_max_body M" fuel] assms(5)
  have "read_body fuel receive (mw_max_body M) 0 [] = None" by simp
  with assms(1,2) show ?thesis by (simp add: call_middleware_def)
qed

lemma disconnect_blocks_request_witness:
  "call_middleware (shop True) 100 (\<lambda>i. OtherMessage) (shop_request []) True = None"
  by (rule disconnect_blocks_request [of _ _ shop_route 0])
    (simp_all add: find_route_def too_long_def shop_def shop_request_def hget_def py_upper_def to_upper_def is_lower_def ch_def)

section \<open>The challenges a paywall issues\<close>

text \<open>
  The facts about the libraries that the round trip of an issued challenge needs: a time written as
  text reads back, and the operation binding reads back from its canonical text.
\<close>

definition issue_laws :: "'w middleware \<Rightarrow> http_request \<Rightarrow> datetime \<Rightarrow> bool" where
  "issue_laws M rq now \<longleftrightarrow>
     (let L = mw_lib M; t = plus_seconds now (mw_ttl M); s = utc_text (mw_iso_text M) t in
      s \<noteq> [] \<and> lib_fromiso L (iso_offset s) = Some t \<and>
      (\<exists>x. lib_jcs L (JObj (operation_binding rq)) = Some x \<and> x \<noteq> [] \<and> valid_utf8 x \<and>
         length (b64_encode x) \<le> max_encoded_header_value_length \<and> lib_loads L x = Some (JObj (operation_binding rq))))"

lemma collapse_binding: "collapse (JObj (operation_binding rq)) = JObj (operation_binding rq)"
  by (simp add: operation_binding_def dict_of_def)

lemma binding_self: "py_eq (JObj (operation_binding rq)) (JObj (operation_binding rq))"
  by (simp add: operation_binding_def)

lemma list_field_mem: "list_field f as = Inr zs \<Longrightarrow> z \<in> set zs \<Longrightarrow> \<exists>a. f a = Inr z"
  by (induction as arbitrary: zs) (auto simp: res_iffs)

lemma issued_in_build:
  assumes "build_challenges M rt rq digest now = Inr cs" and "c \<in> set cs"
  shows "\<exists>intent request d. issue_challenge M rt rq digest now intent request d = Inr c \<and>
    (intent = ''charge'' \<and> rt_charge_options rt \<noteq> [] \<or> intent = ''session'' \<and> rt_session_options rt \<noteq> [])"
proof -
  from assms(1) obtain xs ys where parts: "list_field (charge_offer_challenge M rt rq digest now) (rt_charge_options rt) = Inr xs"
    "list_field (session_offer_challenge M rt rq digest now) (rt_session_options rt) = Inr ys"
    and cs: "cs = rank_offers (xs @ ys) (hget (rq_headers rq) ''Accept-Payment'')"
    by (auto simp: build_challenges_def res_iffs)
  have "set (rank_offers ds acc) \<subseteq> set ds" for ds acc
  proof -
    have "set (rank_payment_challenges ds ranges) \<subseteq> set ds" for ranges
      by (auto simp: rank_payment_challenges_def Let_def List.map_filter_def split: option.splits if_splits)
    then show ?thesis by (auto simp: rank_offers_def split: option.split list.split sum.split)
  qed
  with assms(2) cs have "c \<in> set xs \<union> set ys" by fastforce
  then consider (charge) o1 where "charge_offer_challenge M rt rq digest now o1 = Inr c" "rt_charge_options rt \<noteq> []"
    | (session) o2 where "session_offer_challenge M rt rq digest now o2 = Inr c" "rt_session_options rt \<noteq> []"
    using parts list_field_mem [OF parts(1)] list_field_mem [OF parts(2)] by (cases "c \<in> set xs") fastforce+
  then show ?thesis
    by cases (auto simp: charge_offer_challenge_def session_offer_challenge_def bind_res_Inr_iff)
qed

lemma sent_build_id: "build_challenge_id L k (sent_challenge c) = build_challenge_id L k c"
  by (simp add: build_challenge_id_def sent_slots)

lemma issued_opaque:
  assumes "issue_laws M rq now"
    and "(if operation_binding rq = [] then Inr None
      else bind_res (encode_json_to_base64url (lib_jcs (mw_lib M)) (JObj (operation_binding rq))) (\<lambda>o64. Inr (Some o64))) = Inr p"
  shows "decode_base64url_json (lib_loads (mw_lib M)) (or_empty p) = Inr (JObj (operation_binding rq)) \<and> or_empty p \<noteq> []"
proof -
  from assms(1) obtain x where x: "lib_jcs (mw_lib M) (JObj (operation_binding rq)) = Some x" "x \<noteq> []" "valid_utf8 x"
      "length (b64_encode x) \<le> max_encoded_header_value_length" "lib_loads (mw_lib M) x = Some (JObj (operation_binding rq))"
    unfolding issue_laws_def Let_def by blast
  have p: "p = Some (b64_encode x)" using assms(2) x(1) by (auto simp: operation_binding_def encode_json_to_base64url_def)
  have "decode_base64url_json (lib_loads (mw_lib M)) (b64_encode x) = Inr (collapse (JObj (operation_binding rq)))"
    unfolding decode_json_Inr using x by blast
  then have "decode_base64url_json (lib_loads (mw_lib M)) (or_empty p) = Inr (JObj (operation_binding rq))"
    unfolding p or_empty_def option.case collapse_binding .
  then show ?thesis by (auto simp: decode_base64url_json_def)
qed

text \<open>What a challenge the paywall issued still says after it was sent: everything the checks look at.\<close>

lemma issued_challenge:
  assumes "build_challenges M rt rq (build_content_digest (mw_lib M) body) now = Inr cs" and "c0 \<in> set cs"
    and "issue_laws M rq now" and "0 < mw_ttl M" and "key_ring (mw_secrets M) = Inr (mw_secrets M)"
  shows "let L = mw_lib M; c = sent_challenge c0; t = plus_seconds now (mw_ttl M) in
    wf_challenge L c0 \<and> verify_challenge_binding L (mw_secrets M) c = Inr True \<and>
    (\<forall>now'. dt_le t now' = Inr False \<longrightarrow> challenge_is_expired L c now' = Inr False) \<and>
    (\<forall>rq'. operation_binding rq' = operation_binding rq \<longrightarrow> challenge_matches_request L c rq') \<and>
    pch_digest c = build_content_digest L body \<and>
    (pch_intent c = ''charge'' \<and> rt_charge_options rt \<noteq> [] \<or> pch_intent c = ''session'' \<and> rt_session_options rt \<noteq> [])"
proof -
  let ?L = "mw_lib M" and ?c = "sent_challenge c0" and ?t = "plus_seconds now (mw_ttl M)"
  from issued_in_build [OF assms(1,2)] obtain intent request d where
    built: "build_payment_challenge ?L (mw_iso_text M) (hd (mw_secrets M)) (challenge_realm M rt (rq_headers rq)) ''xrpl'' intent request
       (mw_ttl M) d (build_content_digest ?L body) (operation_binding rq) (selected_header rt) now = Inr c0"
    and offered: "intent = ''charge'' \<and> rt_charge_options rt \<noteq> [] \<or> intent = ''session'' \<and> rt_session_options rt \<noteq> []"
    unfolding issue_challenge_def by blast
  from built obtain q p where opq: "(if operation_binding rq = [] then Inr None
      else bind_res (encode_json_to_base64url (lib_jcs ?L) (JObj (operation_binding rq))) (\<lambda>o64. Inr (Some o64))) = Inr p"
    and wf: "wf_challenge ?L c0" and i: "build_challenge_id ?L (hd (mw_secrets M)) c0 = Inr (pch_id c0)"
    and c: "c0 = \<lparr>pch_id = pch_id c0, pch_realm = challenge_realm M rt (rq_headers rq), pch_method = ''xrpl'', pch_intent = intent,
        pch_request = q, pch_digest = build_content_digest ?L body,
        pch_expires = (if mw_ttl M = 0 then None else Some (utc_text (mw_iso_text M) ?t)),
        pch_description = d, pch_header = selected_header rt, pch_opaque = p\<rparr>"
    by (rule build_payment_challenge_shape)
  have fields: "pch_opaque c0 = p" "pch_digest c0 = build_content_digest ?L body" "pch_intent c0 = intent"
    "pch_expires c0 = Some (utc_text (mw_iso_text M) ?t)"
    using assms(4) by (subst c, simp)+
  have nonempty: "mw_secrets M \<noteq> []" using assms(5) by (auto simp: key_ring_def Let_def split: if_splits)
  then have "hd (mw_secrets M) \<in> set (mw_secrets M)" by simp
  moreover have "pch_header c0 = None \<or> pch_header c0 = Some payment_authorization_header"
    using wf by (auto simp: wf_challenge_def)
  ultimately have "ring_verifies ?L (mw_secrets M) ?c = Inr True"
    using ring_verifies_iff [of ?c ?L "mw_secrets M"] build_challenge_id_ascii [OF i] i by (auto simp: sent_build_id)
  then have bound: "verify_challenge_binding ?L (mw_secrets M) ?c = Inr True"
    using assms(5) nonempty by (simp add: verify_challenge_binding_def)
  have laws: "utc_text (mw_iso_text M) ?t \<noteq> []" "lib_fromiso ?L (iso_offset (utc_text (mw_iso_text M) ?t)) = Some ?t"
    using assms(3) by (simp_all add: issue_laws_def Let_def)
  have "operation_binding rq' = operation_binding rq \<Longrightarrow> challenge_matches_request ?L ?c rq'" for rq'
    using binding_self [of rq] issued_opaque [OF assms(3) opq] by (simp add: challenge_matches_request_def fields)
  moreover have "dt_le ?t now' = Inr False \<Longrightarrow> challenge_is_expired ?L ?c now' = Inr False" for now'
    using laws by (simp add: challenge_is_expired_def fields or_empty_def drop_empty_def)
  moreover have "pch_digest ?c = build_content_digest ?L body"
    by (simp add: fields drop_empty_def build_content_digest_def)
  ultimately show ?thesis unfolding Let_def using wf bound offered fields(3) by simp
qed

text \<open>A request that gets as far as its credential: a configured route, a readable body, valid headers, a started paywall.\<close>

definition admitted ::
  "'w middleware \<Rightarrow> route_config \<Rightarrow> nat \<Rightarrow> (nat \<Rightarrow> receive_message) \<Rightarrow> http_request \<Rightarrow> string \<Rightarrow> 'w \<Rightarrow> bool" where
  "admitted M rt fuel receive rq body w \<longleftrightarrow> find_route M rq = Some rt \<and> \<not> too_long M rq \<and>
     read_body fuel receive (mw_max_body M) 0 [] = Some (Inr body) \<and> validate_paychannel_hints (rq_headers rq) = Inr () \<and>
     length (hget_all (rq_headers rq) ''Authorization'') \<le> 1 \<and>
     length (hget_all (rq_headers rq) payment_authorization_header) \<le> 1 \<and> mw_started M w"

lemma admitted_call:
  "admitted M rt fuel receive rq body w \<Longrightarrow> call_middleware M fuel receive rq w = Some (answer_request M rt body rq w)"
  by (simp add: admitted_def call_middleware_def guarded_request_def startup_def reading_def andthen_def ret_def)

text \<open>What follows a receipt: the application, or for a session the end of the session when the credential closes it.\<close>

definition after_settlement ::
  "'w middleware \<Rightarrow> http_request \<Rightarrow> string \<Rightarrow> payment_credential \<Rightarrow> payment_receipt \<Rightarrow> ('w, mw_response) proc" where
  "after_settlement M rq body cred r =
     (let forward = forward_paid_request M rq body r (payment_credential_header (pcr_challenge cred)) in
      if pch_intent (pcr_challenge cred) = ''charge'' then forward
      else andthen (lift (decode_session_payload cred)) (\<lambda>p. case p of
          ClosePayload _ _ _ \<Rightarrow> lift (closed_response (mw_lib M) r) | _ \<Rightarrow> forward))"

lemma settle_offered_runs:
  assumes "pch_intent (pcr_challenge cred) = ''charge'' \<and> rt_charge_options rt \<noteq> [] \<or>
    pch_intent (pcr_challenge cred) = ''session'' \<and> rt_session_options rt \<noteq> []"
  shows "settle_credential M rt cred body rq w = (case settles M rt cred w of
      (Inl e, w1) \<Rightarrow> on_facilitator_failure M rt rq body e w1 | (Inr r, w1) \<Rightarrow> after_settlement M rq body cred r w1)"
  using assms
  by (auto simp: settle_credential_def Let_def settles_def handle_charge_def handle_session_def after_settlement_def try_else_def
      split: prod.split sum.split)

text \<open>
  C31. A challenge the paywall issues is one it accepts. Take any challenge that a client parses from the
  402 answer to a request. Sent back with a credential in the header it selects, for the same method, path,
  query and body, before it expires and in a request whose other headers are valid, it reaches the
  facilitator: the outcome of the call is what the paywall makes of the facilitator's answer to exactly
  that credential, the application when it is a receipt.
\<close>

theorem issued_challenge_accepted:
  assumes "send_challenge M rt rq (build_content_digest (mw_lib M) body) err code w0 = (Inr (JsonResponse 402 hs j), w0')"
    and "(''www-authenticate'', h) \<in> set hs" and "parse_payment_challenge (mw_lib M) h = Inr c"
    and "issue_laws M rq (mw_now M w0)" and "0 < mw_ttl M" and "key_ring (mw_secrets M) = Inr (mw_secrets M)"
    and "operation_binding rq' = operation_binding rq" and "admitted M rt fuel receive rq' body w"
    and "credential_fields (rq_headers rq') = [(payment_credential_header c, raw)]"
    and "parse_payment_authorization_header (mw_lib M) raw = Inr cred" and "pcr_challenge cred = c"
    and "dt_le (plus_seconds (mw_now M w0) (mw_ttl M)) (mw_now M w) = Inr False"
  shows "call_middleware M fuel receive rq' w = Some (case settles M rt cred w of
      (Inl e, w1) \<Rightarrow> on_facilitator_failure M rt rq' body e w1
    | (Inr r, w1) \<Rightarrow> after_settlement M rq' body cred r w1)"
proof -
  from assms(1) obtain cs where cs: "build_challenges M rt rq (build_content_digest (mw_lib M) body) (mw_now M w0) = Inr cs"
    and hs: "hs = no_store @ map (\<lambda>c. (''www-authenticate'', render_payment_challenge c)) cs"
    by (auto simp: send_challenge_def reading_eval andthen_Inr_iff lift_def Let_def ret_def)
  from hs assms(2) obtain c0 where c0: "c0 \<in> set cs" "h = render_payment_challenge c0" by (auto simp: no_store_def)
  note facts = issued_challenge [OF cs c0(1) assms(4-6), unfolded Let_def]
  then have "c = sent_challenge c0"
    using assms(3) c0(2) parse_rendered_sent [of "mw_lib M" c0] by (simp add: parse_payment_challenge_def)
  with facts assms(7,12) have ok: "verify_challenge_binding (mw_lib M) (mw_secrets M) c = Inr True"
    "challenge_is_expired (mw_lib M) c (mw_now M w) = Inr False" "challenge_matches_request (mw_lib M) c rq'"
    "pch_digest c = build_content_digest (mw_lib M) body"
    and offered: "pch_intent c = ''charge'' \<and> rt_charge_options rt \<noteq> [] \<or> pch_intent c = ''session'' \<and> rt_session_options rt \<noteq> []"
    by blast+
  have "verify_presented M rt (payment_credential_header c) cred body rq' w = settle_credential M rt cred body rq' w"
    using ok by (simp add: verify_presented_def Let_def assms(11) andthen_def lift_def reading_def)
  then have "answer_request M rt body rq' w = settle_credential M rt cred body rq' w"
    by (simp add: answer_request_def assms(9,10) try_else_def lift_def)
  then show ?thesis using settle_offered_runs [of cred rt M body rq' w] offered
    by (simp add: admitted_call [OF assms(8)] assms(11))
qed

lemma shop_offers:
  "\<exists>j. send_challenge (shop True) shop_route (shop_request []) (build_content_digest (mw_lib (shop True)) []) None None True =
     (Inr (JsonResponse 402 (no_store @ [(''www-authenticate'', render_payment_challenge shop_challenge)]) j), True)"
proof -
  have "build_challenges (shop True) shop_route (shop_request []) (build_content_digest (mw_lib (shop True)) []) (Aware 0)
      = Inr [shop_challenge]" by code_simp
  then show ?thesis by (simp add: send_challenge_def reading_def andthen_def lift_def ret_def Let_def shop_def)
qed

lemma shop_laws: "issue_laws (shop True) (shop_request []) (Aware 0)"
proof -
  have "operation_binding (shop_request []) = [(''httpMethod'', JStr ''GET''), (''path'', JStr ''/a''), (''query'', JStr [])]"
    by code_simp
  moreover have "valid_utf8 ''[]''" "int (length (b64_encode ''[]'')) = 3" by code_simp+
  ultimately show ?thesis using demo_json_text
    by (simp add: issue_laws_def shop_def shop_lib_def utc_text_def shop_binding_def iso_offset_def shop_terms_def Let_def)
qed

lemma issued_challenge_accepted_witness:
  "call_middleware (shop True) 5 no_body paid_request True
     = Some (forward_paid_request (shop True) paid_request [] shop_receipt ''Authorization'' True)"
proof -
  obtain j where offer: "send_challenge (shop True) shop_route (shop_request []) (build_content_digest (mw_lib (shop True)) []) None None True =
     (Inr (JsonResponse 402 (no_store @ [(''www-authenticate'', render_payment_challenge shop_challenge)]) j), True)"
    using shop_offers by blast
  have client: "parse_payment_challenge (mw_lib (shop True)) (render_payment_challenge shop_challenge) = Inr shop_challenge"
    by code_simp
  have ring: "key_ring (mw_secrets (shop True)) = Inr (mw_secrets (shop True))" by code_simp
  have header: "payment_credential_header shop_challenge = ''Authorization''" by code_simp
  have sent: "parse_payment_authorization_header (mw_lib (shop True)) (''Payment '' @ b64_encode ''0'') = Inr shop_credential"
    by code_simp
  have same: "operation_binding paid_request = operation_binding (shop_request [])" by code_simp
  have "read_body 5 no_body (mw_max_body (shop True)) 0 [] = Some (Inr [])"
    "validate_paychannel_hints (rq_headers paid_request) = Inr ()" by code_simp+
  moreover have "\<not> too_long (shop True) paid_request" "length (hget_all (rq_headers paid_request) ''Authorization'') \<le> 1"
    "length (hget_all (rq_headers paid_request) payment_authorization_header) \<le> 1" by code_simp+
  ultimately have adm: "admitted (shop True) shop_route 5 no_body paid_request [] True"
    using paid_finds [of True] by (simp add: admitted_def) (simp add: shop_def)
  have late: "dt_le (plus_seconds (mw_now (shop True) True) (mw_ttl (shop True))) (mw_now (shop True) True) = Inr False"
    by (simp add: shop_def dt_le_def)
  have laws: "issue_laws (shop True) (shop_request []) (mw_now (shop True) True)" using shop_laws by (simp add: shop_def)
  have "settles (shop True) shop_route shop_credential True = (Inr shop_receipt, True)"
    by (simp add: settles_def shop_credential_def shop_challenge_def shop_def shop_client_def ret_def)
  moreover have "pcr_challenge shop_credential = shop_challenge" "pch_intent shop_challenge = ''charge''"
    by (simp_all add: shop_credential_def shop_challenge_def)
  moreover have "0 < mw_ttl (shop True)" by (simp add: shop_def)
  moreover note issued_challenge_accepted [OF offer _ client laws this ring same adm _ sent _ late]
  ultimately show ?thesis using header by (simp add: paid_fields after_settlement_def Let_def)
qed

end
