(* ===== verification/Policy.thy ===== *)
theory Policy
  imports Ledger FacilitatorClient
begin

text \<open>
  What a buyer authorises in advance (\<open>policy.py\<close> of the client): a complete allowlist of
  recipients and currencies, a cap for one payment and a longest challenge validity, and how the
  challenge to answer is selected (\<open>select_payment_challenge\<close> in \<open>signer.py\<close>).
  \<open>PaymentPolicyError\<close> is a \<open>ValueError\<close> and is written as one.
\<close>

section \<open>Terms of a challenge\<close>

definition terms_amount :: "challenge_request \<Rightarrow> string" where
  "terms_amount t = (case t of ChargeRequest r \<Rightarrow> cr_amount r | SessionRequest r \<Rightarrow> sr_amount r)"

definition terms_currency :: "challenge_request \<Rightarrow> string option" where
  "terms_currency t = (case t of ChargeRequest r \<Rightarrow> Some (cr_currency r) | SessionRequest r \<Rightarrow> sr_currency r)"

definition currency_or_xrp :: "string option \<Rightarrow> string" where
  "currency_or_xrp c = (if or_empty c = [] then ''XRP'' else or_empty c)"

section \<open>The policy\<close>

record payment_policy =
  pp_recipients :: "string list"
  pp_max_amount :: rat
  pp_currencies :: "string list"
  pp_max_validity :: int

fun currencies_parse :: "lib \<Rightarrow> string list \<Rightarrow> unit res" where
  "currencies_parse L [] = Inr ()"
| "currencies_parse L (c # cs) = bind_res (parse_currency (lib_loads L) c) (\<lambda>_. currencies_parse L cs)"

definition mk_policy :: "lib \<Rightarrow> string list \<Rightarrow> string \<Rightarrow> string list \<Rightarrow> int \<Rightarrow> payment_policy res" where
  "mk_policy L recipients max_amount currencies validity =
     bind_res (currencies_parse L currencies) (\<lambda>_.
     case decimal_text max_amount of
       None \<Rightarrow> Inl (ValueError ''max_amount must be a non-negative decimal string'')
     | Some (Finite cap) \<Rightarrow>
         bind_res (guard_res (0 \<le> cap) (ValueError ''max_amount must be a non-negative finite decimal string'')) (\<lambda>_.
         bind_res (guard_res (0 < validity) (ValueError ''max_challenge_validity_seconds must be a positive integer'')) (\<lambda>_.
         Inr \<lparr>pp_recipients = recipients, pp_max_amount = cap, pp_currencies = currencies, pp_max_validity = validity\<rparr>))
     | Some _ \<Rightarrow> Inl (ValueError ''max_amount must be a non-negative finite decimal string''))"

text \<open>\<open>Decimal(amount) > cap\<close>: a NaN raises.\<close>

definition dec_exceeds :: "decimal \<Rightarrow> rat \<Rightarrow> bool res" where
  "dec_exceeds d cap = (case d of Finite x \<Rightarrow> Inr (cap < x) | Infinite negative \<Rightarrow> Inr (\<not> negative)
     | NotANumber _ \<Rightarrow> Inl invalid_operation)"

definition remaining_seconds :: "lib \<Rightarrow> string \<Rightarrow> datetime \<Rightarrow> rat res" where
  "remaining_seconds L expires now = (case lib_fromiso L (iso_offset expires) of
     None \<Rightarrow> Inl (ValueError ''Invalid isoformat string'')
   | Some t \<Rightarrow> bind_res (dt_sub t now) (\<lambda>us. Inr (total_seconds us)))"

definition amount_within :: "string \<Rightarrow> rat \<Rightarrow> exn \<Rightarrow> exn \<Rightarrow> unit res" where
  "amount_within amount cap malformed_amount too_high = (case decimal_text amount of
     None \<Rightarrow> Inl malformed_amount
   | Some d \<Rightarrow> bind_res (dec_exceeds d cap) (\<lambda>over. guard_res (\<not> over) too_high))"

definition authorize :: "lib \<Rightarrow> payment_policy \<Rightarrow> payment_challenge \<Rightarrow> datetime \<Rightarrow> unit res" where
  "authorize L P c now =
     bind_res (guard_res (pch_method c = ''xrpl'' \<and> pch_intent c \<in> {''charge'', ''session''})
       (ValueError ''Automatic payment policy only authorizes XRPL payments'')) (\<lambda>_.
     case pch_expires c of
       None \<Rightarrow> Inl (ValueError ''Automatic payment policy requires an expiring payment challenge'')
     | Some expires \<Rightarrow>
         bind_res (remaining_seconds L expires now) (\<lambda>remaining.
         bind_res (guard_res (0 < remaining) (ValueError ''Payment challenge has expired'')) (\<lambda>_.
         bind_res (guard_res (remaining \<le> of_int (pp_max_validity P))
           (ValueError ''Payment challenge validity window exceeds automatic payment policy'')) (\<lambda>_.
         bind_res (decode_challenge_request L c) (\<lambda>terms.
         bind_res (guard_res (terms_recipient terms \<in> set (pp_recipients P))
           (ValueError ''Payment challenge recipient is not allowed by automatic payment policy'')) (\<lambda>_.
         bind_res (amount_within (terms_amount terms) (pp_max_amount P) (ValueError ''Payment challenge amount is invalid'')
           (ValueError ''Payment challenge amount exceeds automatic payment policy max_amount'')) (\<lambda>_.
         guard_res (currency_or_xrp (terms_currency terms) \<in> set (pp_currencies P))
           (ValueError ''Payment challenge currency is not allowed by automatic payment policy''))))))))"

section \<open>Selecting a challenge\<close>

definition terms_match :: "string option \<Rightarrow> string option \<Rightarrow> challenge_request \<Rightarrow> bool" where
  "terms_match network currency terms \<longleftrightarrow>
     (network = None \<or> terms_network terms \<in> {None, network}) \<and> (currency = None \<or> terms_currency terms = currency)"

fun filter_terms :: "lib \<Rightarrow> string option \<Rightarrow> string option \<Rightarrow> payment_challenge list \<Rightarrow> payment_challenge list res" where
  "filter_terms L network currency [] = Inr []"
| "filter_terms L network currency (c # cs) = (case decode_challenge_request L c of
     Inl e \<Rightarrow> if is_value_error e then filter_terms L network currency cs else Inl e
   | Inr terms \<Rightarrow> bind_res (filter_terms L network currency cs) (\<lambda>rest.
       Inr (if terms_match network currency terms then c # rest else rest)))"

definition select_payment_challenge ::
  "lib \<Rightarrow> payment_challenge list \<Rightarrow> string option \<Rightarrow> string option \<Rightarrow> string option \<Rightarrow> payment_challenge res" where
  "select_payment_challenge L cs intent network currency =
     (let xrpl = filter (\<lambda>c. pch_method c = ''xrpl'' \<and> (intent = None \<or> Some (pch_intent c) = intent)) cs in
      bind_res (if network = None \<and> currency = None then Inr xrpl else filter_terms L network currency xrpl) (\<lambda>found.
      case found of [] \<Rightarrow> Inl (ValueError ''No matching XRPL MPP payment challenge found'') | c # _ \<Rightarrow> Inr c))"

section \<open>Facts\<close>

lemma filter_terms_sub: "filter_terms L n cu cs = Inr ds \<Longrightarrow> set ds \<subseteq> set cs"
proof (induction cs arbitrary: ds)
  case (Cons c cs)
  then show ?case by (cases "decode_challenge_request L c") (fastforce simp: res_iffs split: if_splits)+
qed simp

lemma select_mem:
  assumes "select_payment_challenge L cs i n cu = Inr c"
  shows "c \<in> set cs \<and> pch_method c = ''xrpl''"
proof -
  let ?xrpl = "filter (\<lambda>c. pch_method c = ''xrpl'' \<and> (i = None \<or> Some (pch_intent c) = i)) cs"
  from assms obtain found where found: "(if n = None \<and> cu = None then Inr ?xrpl else filter_terms L n cu ?xrpl) = Inr found"
    and c: "(case found of [] \<Rightarrow> Inl (ValueError ''No matching XRPL MPP payment challenge found'') | c # _ \<Rightarrow> Inr c) = Inr c"
    unfolding select_payment_challenge_def Let_def bind_res_Inr_iff by blast
  from found have "set found \<subseteq> set ?xrpl" using filter_terms_sub [of L n cu ?xrpl found]
    by (cases "n = None \<and> cu = None") (simp_all only: if_True if_False sum.inject simp_thms subset_refl)
  with c show ?thesis by (cases found) auto
qed

lemma amount_within_Inr:
  "amount_within a cap m e = Inr u \<longleftrightarrow> (\<exists>x. decimal_text a = Some (Finite x) \<and> x \<le> cap) \<or>
     decimal_text a = Some (Infinite True)"
  by (auto simp: amount_within_def dec_exceeds_def res_iffs split: option.splits decimal.splits)

lemma authorize_Inr:
  "authorize L P c now = Inr u \<Longrightarrow>
     pch_method c = ''xrpl'' \<and> pch_intent c \<in> {''charge'', ''session''} \<and>
     (\<exists>expires t us terms. pch_expires c = Some expires \<and> lib_fromiso L (iso_offset expires) = Some t \<and>
        dt_sub t now = Inr us \<and> 0 < us \<and> total_seconds us \<le> of_int (pp_max_validity P) \<and>
        decode_challenge_request L c = Inr terms \<and> terms_recipient terms \<in> set (pp_recipients P) \<and>
        currency_or_xrp (terms_currency terms) \<in> set (pp_currencies P) \<and>
        amount_within (terms_amount terms) (pp_max_amount P) (ValueError ''Payment challenge amount is invalid'')
           (ValueError ''Payment challenge amount exceeds automatic payment policy max_amount'') = Inr ())"
  unfolding authorize_def remaining_seconds_def
  by (auto simp: res_iffs split: option.splits)

end
