(* ===== verification/Signer.thy ===== *)
theory Signer
  imports Policy
begin

text \<open>
  The buyer's signer (\<open>signer.py\<close> of the client): its configuration, the checks before a challenge
  is answered, the credentials it builds, and how a transaction is prepared and signed. A transaction
  model of xrpl-py is given by its \<open>to_dict\<close> fields; building, filling in and signing one, the
  address codec and the keys are parameters, and so is the path finding of issued currencies.
\<close>

section \<open>Configuration\<close>

definition parse_fee_drops :: "string \<Rightarrow> string \<Rightarrow> int res" where
  "parse_fee_drops v name = (if is_ascii_digits v \<and> 0 < py_int v then Inr (py_int v)
     else Inl (ValueError (name @ '' must be a positive drops string'')))"

type_synonym tx_dict = "(string \<times> json) list"

record 'w signer =
  sg_lib :: lib
  sg_ledger :: ledger_lib
  sg_address :: string
  sg_public_key :: string
  sg_sign_message :: "string \<Rightarrow> string"
  sg_network :: string
  sg_decode_address :: "string \<Rightarrow> string option"
  sg_channel_create :: "tx_json \<Rightarrow> bool"
  sg_build :: "string \<Rightarrow> tx_dict \<Rightarrow> tx_dict res"
  sg_sign :: "string \<Rightarrow> tx_dict \<Rightarrow> string res"
  sg_autofill :: "string \<Rightarrow> tx_dict \<Rightarrow> ('w, tx_dict) proc"
  sg_ledger_current :: "('w, json) proc"
  sg_pathfind :: "(string \<Rightarrow> json \<Rightarrow> ('w, json option \<times> json) proc) option"
  sg_autofill_enabled :: bool
  sg_default_fee :: string
  sg_max_fee :: int
  sg_default_sequence :: int
  sg_default_last_ledger :: "int option"
  sg_recipients :: "string list option"
  sg_max_amount :: "rat option"
  sg_currencies :: "string list option"
  sg_policy :: "payment_policy option"
  sg_now :: "'w \<Rightarrow> datetime"

text \<open>
  The guardrails of the constructor: a complete policy, or separate parts that make one when all are
  given. The text of a ceiling taken from a policy is \<open>str\<close> of the decimal, here its value.
\<close>

definition signer_ceiling :: "string option \<Rightarrow> rat option res" where
  "signer_ceiling max_amount = (case max_amount of None \<Rightarrow> Inr None
   | Some s \<Rightarrow> (case decimal_text s of
       None \<Rightarrow> Inl (ValueError ''max_amount must be a decimal string'')
     | Some (Finite x) \<Rightarrow> if 0 \<le> x then Inr (Some x)
         else Inl (ValueError ''max_amount must be a non-negative finite decimal string'')
     | Some _ \<Rightarrow> Inl (ValueError ''max_amount must be a non-negative finite decimal string'')))"

definition default_validity :: int where "default_validity = 300"

definition complete_policy ::
  "lib \<Rightarrow> string list option \<Rightarrow> rat option \<Rightarrow> string list option \<Rightarrow> payment_policy option res" where
  "complete_policy L recipients cap currencies = (case (recipients, cap, currencies) of
     (Some rs, Some x, Some cs) \<Rightarrow> bind_res (currencies_parse L cs) (\<lambda>_.
       Inr (Some \<lparr>pp_recipients = rs, pp_max_amount = x, pp_currencies = cs, pp_max_validity = default_validity\<rparr>))
   | _ \<Rightarrow> Inr None)"

definition signer_limits ::
  "lib \<Rightarrow> string list option \<Rightarrow> string option \<Rightarrow> string list option \<Rightarrow> payment_policy option \<Rightarrow>
     (string list option \<times> rat option \<times> string list option \<times> payment_policy option) res" where
  "signer_limits L recipients max_amount currencies policy = (case policy of
     Some P \<Rightarrow> if recipients \<noteq> None \<or> max_amount \<noteq> None \<or> currencies \<noteq> None
       then Inl (ValueError ''payment_policy cannot be combined with expected_recipient, max_amount, or allowed_currencies'')
       else Inr (Some (pp_recipients P), Some (pp_max_amount P), Some (pp_currencies P), policy)
   | None \<Rightarrow> bind_res (signer_ceiling max_amount) (\<lambda>cap.
       bind_res (complete_policy L recipients cap currencies) (\<lambda>P. Inr (recipients, cap, currencies, P))))"

definition init_signer ::
  "'w signer \<Rightarrow> string \<Rightarrow> string list option \<Rightarrow> string option \<Rightarrow> string list option \<Rightarrow> payment_policy option \<Rightarrow> 'w signer res"
where
  "init_signer S max_fee recipients max_amount currencies policy =
     bind_res (guard_res (sg_network S \<in> set xrpl_networks) (ValueError ''network must be mainnet, testnet, or devnet'')) (\<lambda>_.
     bind_res (parse_fee_drops max_fee ''max_fee_drops'') (\<lambda>limit.
     bind_res (parse_fee_drops (sg_default_fee S) ''default_fee'') (\<lambda>fee.
     bind_res (guard_res (fee \<le> limit) (ValueError ''default_fee cannot exceed max_fee_drops'')) (\<lambda>_.
     bind_res (signer_limits (sg_lib S) recipients max_amount currencies policy) (\<lambda>(rs, cap, cs, P).
     Inr (S\<lparr>sg_max_fee := limit, sg_recipients := rs, sg_max_amount := cap, sg_currencies := cs, sg_policy := P\<rparr>))))))"

section \<open>The channel a create blob opens\<close>

record open_binding =
  ob_channel_id :: string
  ob_tx_hash :: string
  ob_payer :: string
  ob_recipient :: string
  ob_funding :: string
  ob_public_key :: string

definition paychannel_space_key :: string where
  "paychannel_space_key = [char_of (0::nat), char_of (120::nat)]"

definition big_endian4 :: "int \<Rightarrow> string" where
  "big_endian4 i = map (\<lambda>s. char_of (nat (i div 2 ^ s) mod 256)) [24, 16, 8, 0]"

definition valid_sequence :: "json \<Rightarrow> int option" where
  "valid_sequence j = (case j of JInt i \<Rightarrow> if 0 < i \<and> i \<le> 4294967295 then Some i else None | _ \<Rightarrow> None)"

definition open_sequence :: "tx_json \<Rightarrow> int res" where
  "open_sequence tx =
     (let s = (if dget tx ''TicketSequence'' \<noteq> JNull then dget tx ''TicketSequence'' else dget tx ''Sequence'') in
      case valid_sequence s of Some i \<Rightarrow> Inr i
      | None \<Rightarrow> Inl (ValueError ''PaymentChannelCreate requires a valid Sequence or TicketSequence''))"

definition channel_id_of :: "'w signer \<Rightarrow> string \<Rightarrow> string \<Rightarrow> int \<Rightarrow> string res" where
  "channel_id_of S payer recipient sequence =
     (case (sg_decode_address S payer, sg_decode_address S recipient) of
        (Some a, Some b) \<Rightarrow> Inr (py_upper (take 64 (lib_sha512 (sg_lib S)
          (paychannel_space_key @ a @ b @ big_endian4 sequence))))
      | _ \<Rightarrow> Inl (ValueError ''PaymentChannelCreate parties are invalid XRPL addresses''))"

definition derive_paychannel_open_binding :: "'w signer \<Rightarrow> string \<Rightarrow> open_binding res" where
  "derive_paychannel_open_binding S blob = (case ll_decode (sg_ledger S) blob of
     None \<Rightarrow> Inl (ValueError ''transaction must be a signed PaymentChannelCreate blob'')
   | Some tx \<Rightarrow>
     bind_res (guard_res (sg_channel_create S tx) (ValueError ''transaction must be a signed PaymentChannelCreate blob'')) (\<lambda>_.
     bind_res (guard_res (dget tx ''TransactionType'' = JStr ''PaymentChannelCreate'')
       (ValueError ''transaction must be a PaymentChannelCreate'')) (\<lambda>_.
     bind_res (guard_res (ll_signed (sg_ledger S) tx) (ValueError ''transaction must be a signed PaymentChannelCreate blob'')) (\<lambda>_.
     bind_res (open_sequence tx) (\<lambda>sequence.
     case (dget tx ''Account'', dget tx ''Destination'') of
       (JStr payer, JStr recipient) \<Rightarrow> (case dget tx ''Amount'' of
         JStr funding \<Rightarrow>
           bind_res (guard_res (is_ascii_digits funding \<and> 0 < py_int funding)
             (ValueError ''PaymentChannelCreate Amount must be positive XRP drops'')) (\<lambda>_.
           case dget tx ''PublicKey'' of
             JStr (k # key) \<Rightarrow>
               bind_res (channel_id_of S payer recipient sequence) (\<lambda>channel.
               bind_res (ll_hash (sg_ledger S) tx) (\<lambda>h.
               Inr \<lparr>ob_channel_id = channel, ob_tx_hash = py_upper h, ob_payer = payer, ob_recipient = recipient,
                    ob_funding = funding, ob_public_key = py_upper (k # key)\<rparr>))
           | _ \<Rightarrow> Inl (ValueError ''PaymentChannelCreate PublicKey is required''))
       | _ \<Rightarrow> Inl (ValueError ''PaymentChannelCreate Amount must be positive XRP drops''))
     | _ \<Rightarrow> Inl (ValueError ''PaymentChannelCreate Account and Destination are required''))))))"

section \<open>Preparing and signing a transaction\<close>

definition put :: "string \<Rightarrow> json \<Rightarrow> tx_dict \<Rightarrow> tx_dict" where
  "put k v d = AList.update k v d"

definition put_option :: "string \<Rightarrow> json option \<Rightarrow> tx_dict \<Rightarrow> tx_dict" where
  "put_option k v d = (case v of None \<Rightarrow> d | Some j \<Rightarrow> put k j d)"

text \<open>The fields the caller set explicitly: \<open>fee\<close>, \<open>sequence\<close>, \<open>last_ledger_sequence\<close>.\<close>

record explicit_fields =
  ex_fee :: "string option"
  ex_sequence :: "int option"
  ex_last_ledger :: "int option"

definition put_explicit :: "explicit_fields \<Rightarrow> tx_dict \<Rightarrow> tx_dict" where
  "put_explicit x d = put_option ''last_ledger_sequence'' (map_option JInt (ex_last_ledger x))
     (put_option ''sequence'' (map_option JInt (ex_sequence x)) (put_option ''fee'' (map_option JStr (ex_fee x)) d))"

definition autofill_field_names :: "string list" where
  "autofill_field_names = [''fee'', ''sequence'', ''last_ledger_sequence'', ''network_id'']"

definition take_autofilled :: "tx_dict \<Rightarrow> tx_dict \<Rightarrow> tx_dict" where
  "take_autofilled answered d = foldl (\<lambda>d k. put_option k (map_of answered k) d) d autofill_field_names"

text \<open>\<open>last_ledger_sequence_from_expires\<close>: four seconds to a ledger.\<close>

definition last_ledger_sequence_from_expires :: "lib \<Rightarrow> int \<Rightarrow> string \<Rightarrow> datetime \<Rightarrow> int res" where
  "last_ledger_sequence_from_expires L current expires now =
     bind_res (guard_res (1 \<le> current) (ValueError ''current_ledger_sequence must be a positive integer'')) (\<lambda>_.
     case lib_fromiso L (iso_offset expires) of
       None \<Rightarrow> Inl (ValueError ''Invalid isoformat string'')
     | Some t \<Rightarrow>
         bind_res (guard_res (is_aware t \<and> is_aware now) (ValueError ''expires and now must include a time-zone offset'')) (\<lambda>_.
         bind_res (dt_sub t now) (\<lambda>us.
         if total_seconds us \<le> 4
           then Inl (ValueError ''Payment challenge leaves less than one XRPL ledger interval before expiry'')
         else Inr (current + \<lceil>total_seconds us / 4\<rceil>))))"

definition read_current_ledger_sequence :: "'w signer \<Rightarrow> ('w, int) proc" where
  "read_current_ledger_sequence S = andthen (sg_ledger_current S) (\<lambda>result.
     case (case result of JObj r \<Rightarrow> dget r ''ledger_current_index'' | _ \<Rightarrow> JNull) of
       JInt i \<Rightarrow> if i < 1 then fail (ValueError ''XRPL ledger_current did not return a valid ledger index'') else ret i
     | _ \<Rightarrow> fail (ValueError ''XRPL ledger_current did not return a valid ledger index''))"

definition cap_last_ledger :: "int \<Rightarrow> tx_dict \<Rightarrow> tx_dict res" where
  "cap_last_ledger cap d = (case dget d ''last_ledger_sequence'' of
     JNull \<Rightarrow> Inr (put ''last_ledger_sequence'' (JInt cap) d)
   | JInt i \<Rightarrow> Inr (if cap < i then put ''last_ledger_sequence'' (JInt cap) d else d)
   | _ \<Rightarrow> Inl (TypeError ''not supported between instances''))"

definition validate_fee :: "'w signer \<Rightarrow> json \<Rightarrow> unit res" where
  "validate_fee S fee = (case fee of
     JStr s \<Rightarrow> bind_res (parse_fee_drops s ''transaction fee'') (\<lambda>drops.
       guard_res (drops \<le> sg_max_fee S) (ValueError ''Refusing to sign XRPL transaction fee''))
   | _ \<Rightarrow> Inl (ValueError ''transaction fee must be a positive drops string''))"

definition cap_by_expiry :: "'w signer \<Rightarrow> string option \<Rightarrow> tx_dict \<Rightarrow> ('w, tx_dict) proc" where
  "cap_by_expiry S expires d = (case expires of None \<Rightarrow> ret d
   | Some e \<Rightarrow> andthen (read_current_ledger_sequence S) (\<lambda>current.
       reading (\<lambda>w. andthen (lift (last_ledger_sequence_from_expires (sg_lib S) current e (sg_now S w))) (\<lambda>cap.
         lift (cap_last_ledger cap d)))))"

definition prepare_autofilled ::
  "'w signer \<Rightarrow> string \<Rightarrow> tx_dict \<Rightarrow> explicit_fields \<Rightarrow> string option \<Rightarrow> ('w, tx_dict) proc" where
  "prepare_autofilled S kind tx x expires =
     andthen (lift (sg_build S kind (put_explicit x tx))) (\<lambda>initial.
     andthen (sg_autofill S kind initial) (\<lambda>answered.
     cap_by_expiry S expires (put_explicit x (take_autofilled answered tx))))"

definition prepare_default :: "'w signer \<Rightarrow> tx_dict \<Rightarrow> explicit_fields \<Rightarrow> tx_dict" where
  "prepare_default S tx x = put_option ''last_ledger_sequence''
     (map_option JInt (case ex_last_ledger x of Some l \<Rightarrow> Some l | None \<Rightarrow> sg_default_last_ledger S))
     (put ''sequence'' (JInt (case ex_sequence x of Some s \<Rightarrow> s | None \<Rightarrow> sg_default_sequence S))
     (put ''fee'' (JStr (case ex_fee x of Some f \<Rightarrow> f | None \<Rightarrow> sg_default_fee S)) tx))"

definition sign_transaction ::
  "'w signer \<Rightarrow> string \<Rightarrow> tx_dict \<Rightarrow> explicit_fields \<Rightarrow> string option \<Rightarrow> ('w, string) proc" where
  "sign_transaction S kind tx x expires =
     andthen (lift (case ex_fee x of None \<Rightarrow> Inr () | Some f \<Rightarrow> validate_fee S (JStr f))) (\<lambda>_.
     andthen (if sg_autofill_enabled S then prepare_autofilled S kind tx x expires else ret (prepare_default S tx x)) (\<lambda>updates.
     andthen (lift (sg_build S kind updates)) (\<lambda>prepared.
     andthen (lift (validate_fee S (dget prepared ''fee''))) (\<lambda>_.
     lift (sg_sign S kind prepared)))))"

section \<open>Payments and channels\<close>

definition mpp_source_tag :: int where "mpp_source_tag = 593184257"

definition encode_memo :: "xrpl_memo \<Rightarrow> json" where
  "encode_memo m = (let hex = (\<lambda>v. case v of Some (c # s) \<Rightarrow> Some (to_hex (c # s)) | _ \<Rightarrow> None) in
     JObj (present_texts [(''memo_type'', hex (memo_type m)), (''memo_format'', hex (memo_format m)),
       (''memo_data'', hex (memo_data m))]))"

text \<open>The source side of an issued-currency payment: nothing for the issuer, else at most the amount itself.\<close>

definition source_side :: "'w signer \<Rightarrow> string \<Rightarrow> xrpl_currency \<Rightarrow> json \<Rightarrow> ('w, (string \<times> json) list) proc" where
  "source_side S pay_to currency amount = (case currency of
     IssuedCurrency code issuer \<Rightarrow>
       if sg_address S = issuer then ret []
       else (case sg_pathfind S of
           None \<Rightarrow> ret [(''send_max'', amount)]
         | Some find_paths \<Rightarrow> andthen (find_paths pay_to amount) (\<lambda>(paths, send_max).
             ret ((case paths of None \<Rightarrow> [] | Some p \<Rightarrow> [(''paths'', p)]) @ [(''send_max'', send_max)])))
   | _ \<Rightarrow> ret [])"

record payment_order =
  po_recipient :: string
  po_currency :: string
  po_amount :: string
  po_invoice :: string
  po_destination_tag :: "int option"
  po_source_tag :: "int option"
  po_memos :: "xrpl_memo list option"

definition sign_payment :: "'w signer \<Rightarrow> payment_order \<Rightarrow> explicit_fields \<Rightarrow> string option \<Rightarrow> ('w, string) proc" where
  "sign_payment S po x expires =
     andthen (lift (parse_currency (lib_loads (sg_lib S)) (po_currency po))) (\<lambda>currency.
     andthen (lift (build_ledger_amount (po_amount po) currency)) (\<lambda>amount.
     andthen (source_side S (po_recipient po) currency amount) (\<lambda>source.
     andthen (lift (sg_build S ''Payment''
       ([(''account'', JStr (sg_address S)), (''destination'', JStr (po_recipient po)), (''amount'', amount),
         (''flags'', JInt 0), (''invoice_id'', JStr (po_invoice po)),
         (''source_tag'', JInt (case po_source_tag po of Some t \<Rightarrow> t | None \<Rightarrow> mpp_source_tag))]
        @ source @ present_ints [(''destination_tag'', po_destination_tag po)]
        @ (case po_memos po of Some (m # ms) \<Rightarrow> [(''memos'', JArr (map encode_memo (m # ms)))] | _ \<Rightarrow> [])))) (\<lambda>tx.
     sign_transaction S ''Payment'' tx x expires))))"

record channel_order =
  ho_destination :: string
  ho_funding :: string
  ho_settle_delay :: int
  ho_public_key :: "string option"
  ho_cancel_after :: "int option"
  ho_destination_tag :: "int option"

definition sign_channel_create :: "'w signer \<Rightarrow> channel_order \<Rightarrow> explicit_fields \<Rightarrow> string option \<Rightarrow> ('w, string) proc" where
  "sign_channel_create S ho x expires =
     andthen (lift (guard_res (is_ascii_digits (ho_funding ho) \<and> 0 < py_int (ho_funding ho))
       (ValueError ''funding_amount must be a positive drops string''))) (\<lambda>_.
     andthen (lift (guard_res (0 \<le> ho_settle_delay ho) (ValueError ''settle_delay must be a non-negative integer''))) (\<lambda>_.
     andthen (lift (sg_build S ''PaymentChannelCreate''
       ([(''account'', JStr (sg_address S)), (''destination'', JStr (ho_destination ho)), (''amount'', JStr (ho_funding ho)),
         (''settle_delay'', JInt (ho_settle_delay ho)),
         (''public_key'', JStr (if or_empty (ho_public_key ho) = [] then sg_public_key S else or_empty (ho_public_key ho))),
         (''source_tag'', JInt mpp_source_tag)]
        @ present_ints [(''cancel_after'', ho_cancel_after ho), (''destination_tag'', ho_destination_tag ho)]))) (\<lambda>tx.
     sign_transaction S ''PaymentChannelCreate'' tx x expires)))"

text \<open>A claim signature covers the channel and the cumulative amount.\<close>

definition sign_channel_claim :: "'w signer \<Rightarrow> string \<Rightarrow> string \<Rightarrow> string res" where
  "sign_channel_claim S channel cumulative =
     (if length channel \<noteq> 64 then Inl (ValueError ''channel_id must be 64 hexadecimal characters'')
      else if \<not> is_ascii_digits cumulative then Inl (ValueError ''cumulative_amount must be an unsigned drops string'')
      else case Option.bind (x_signing_claim (ll_xrpl (sg_ledger S)) channel cumulative) fromhex of
        None \<Rightarrow> Inl (ValueError ''channel_id must be 64 hexadecimal characters'')
      | Some message \<Rightarrow> Inr (sg_sign_message S message))"

section \<open>Checks before a challenge is answered\<close>

definition network_allowed :: "'w signer \<Rightarrow> challenge_request \<Rightarrow> bool" where
  "network_allowed S terms \<longleftrightarrow> terms_network terms \<in> {None, Some (sg_network S)}"

definition check_guardrails :: "'w signer \<Rightarrow> payment_challenge \<Rightarrow> string \<Rightarrow> datetime \<Rightarrow> unit res" where
  "check_guardrails S c intent now =
     bind_res (guard_res (pch_method c = ''xrpl'') (ValueError ''Challenge method must be xrpl'')) (\<lambda>_.
     bind_res (guard_res (pch_intent c = intent) (ValueError (''Challenge intent must be '' @ intent))) (\<lambda>_.
     bind_res (challenge_is_expired (sg_lib S) c now) (\<lambda>late.
     bind_res (guard_res (\<not> late) (ValueError ''Refusing to sign an expired MPP challenge'')) (\<lambda>_.
     case sg_policy S of None \<Rightarrow> Inr () | Some P \<Rightarrow> authorize (sg_lib S) P c now))))"

definition recipient_allowed :: "'w signer \<Rightarrow> challenge_request \<Rightarrow> unit res" where
  "recipient_allowed S terms = guard_res (case sg_recipients S of None \<Rightarrow> True | Some rs \<Rightarrow> terms_recipient terms \<in> set rs)
     (ValueError ''Payment challenge recipient is not allowed by signer policy'')"

definition amount_allowed :: "'w signer \<Rightarrow> string \<Rightarrow> exn \<Rightarrow> unit res" where
  "amount_allowed S amount malformed_amount = (case decimal_text amount of None \<Rightarrow> Inl malformed_amount
   | Some d \<Rightarrow> (case sg_max_amount S of None \<Rightarrow> Inr ()
     | Some cap \<Rightarrow> bind_res (dec_exceeds d cap) (\<lambda>over.
         guard_res (\<not> over) (ValueError ''Payment challenge amount exceeds signer max_amount''))))"

definition validate_charge_challenge :: "'w signer \<Rightarrow> payment_challenge \<Rightarrow> datetime \<Rightarrow> charge_request res" where
  "validate_charge_challenge S c now =
     bind_res (check_guardrails S c ''charge'' now) (\<lambda>_.
     bind_res (decode_challenge_request (sg_lib S) c) (\<lambda>terms. case terms of
       SessionRequest _ \<Rightarrow> Inl (ValueError ''Challenge intent must be charge'')
     | ChargeRequest r \<Rightarrow>
         bind_res (guard_res (network_allowed S terms) (ValueError ''Payment challenge network does not match signer network'')) (\<lambda>_.
         bind_res (recipient_allowed S terms) (\<lambda>_.
         bind_res (amount_allowed S (cr_amount r) (ValueError ''Payment challenge amount is invalid'')) (\<lambda>_.
         bind_res (guard_res (case sg_currencies S of None \<Rightarrow> True | Some cs \<Rightarrow> cr_currency r \<in> set cs)
           (ValueError ''Payment challenge currency is not allowed by signer policy'')) (\<lambda>_.
         bind_res (parse_currency (lib_loads (sg_lib S)) (cr_currency r)) (\<lambda>_. Inr r)))))))"

definition validate_session_challenge :: "'w signer \<Rightarrow> payment_challenge \<Rightarrow> datetime \<Rightarrow> session_request res" where
  "validate_session_challenge S c now =
     bind_res (check_guardrails S c ''session'' now) (\<lambda>_.
     bind_res (decode_challenge_request (sg_lib S) c) (\<lambda>terms. case terms of
       ChargeRequest _ \<Rightarrow> Inl (ValueError ''Challenge intent must be session'')
     | SessionRequest r \<Rightarrow>
         bind_res (guard_res (sr_currency r \<in> {None, Some ''XRP''}) (ValueError ''XRPL PayChannels are XRP-only'')) (\<lambda>_.
         bind_res (guard_res (network_allowed S terms) (ValueError ''Payment challenge network does not match signer network'')) (\<lambda>_.
         bind_res (recipient_allowed S terms) (\<lambda>_.
         bind_res (case sg_max_amount S of None \<Rightarrow> Inr ()
                   | Some _ \<Rightarrow> amount_allowed S (sr_amount r) invalid_operation) (\<lambda>_.
         bind_res (guard_res (case sg_currencies S of None \<Rightarrow> True | Some cs \<Rightarrow> ''XRP'' \<in> set cs)
           (ValueError ''Payment challenge currency is not allowed by signer policy'')) (\<lambda>_. Inr r)))))))"

section \<open>Credentials\<close>

definition source_did :: "'w signer \<Rightarrow> string res" where
  "source_did S = build_xrpl_did (sg_network S) (sg_address S)"

definition credential_of :: "'w signer \<Rightarrow> payment_challenge \<Rightarrow> (string \<times> json) list \<Rightarrow> payment_credential res" where
  "credential_of S c payload = bind_res (source_did S) (\<lambda>did.
     Inr \<lparr>pcr_challenge = c, pcr_payload = payload, pcr_source = Some did\<rparr>)"

definition no_explicit :: explicit_fields where
  "no_explicit = \<lparr>ex_fee = None, ex_sequence = None, ex_last_ledger = None\<rparr>"

definition charge_order :: "charge_request \<Rightarrow> string \<Rightarrow> payment_order" where
  "charge_order r invoice = \<lparr>po_recipient = cr_recipient r, po_currency = cr_currency r, po_amount = cr_amount r,
     po_invoice = invoice, po_destination_tag = Option.bind (cr_method_details r) cmd_destination_tag,
     po_source_tag = Option.bind (cr_method_details r) cmd_source_tag,
     po_memos = Option.bind (cr_method_details r) cmd_memos\<rparr>"

definition charge_invoice :: "'w signer \<Rightarrow> payment_challenge \<Rightarrow> charge_request \<Rightarrow> string res" where
  "charge_invoice S c r = (case Option.bind (cr_method_details r) cmd_invoice_id of
     Some (i # is) \<Rightarrow> Inr (i # is) | _ \<Rightarrow> challenge_invoice_id (lib_sha512 (sg_lib S)) (pch_id c))"

definition build_charge_credential :: "'w signer \<Rightarrow> payment_challenge \<Rightarrow> ('w, payment_credential) proc" where
  "build_charge_credential S c = reading (\<lambda>w.
     andthen (lift (validate_charge_challenge S c (sg_now S w))) (\<lambda>r.
     andthen (lift (charge_invoice S c r)) (\<lambda>invoice.
     andthen (sign_payment S (charge_order r invoice) no_explicit (pch_expires c)) (\<lambda>blob.
     andthen (lift (validate_charge_payload (JObj [(''type'', JStr ''transaction''), (''blob'', JStr blob)]))) (\<lambda>p.
     lift (credential_of S c [(''type'', JStr ''transaction''),
       (''blob'', JStr (case p of TransactionPayload b \<Rightarrow> b | HashPayload _ \<Rightarrow> blob))]))))))"

definition build_hash_credential :: "'w signer \<Rightarrow> payment_challenge \<Rightarrow> string \<Rightarrow> datetime \<Rightarrow> payment_credential res" where
  "build_hash_credential S c transaction_hash now =
     bind_res (validate_charge_challenge S c now) (\<lambda>_.
     bind_res (pattern_str ''hash'' hex64 transaction_hash) (\<lambda>h.
     credential_of S c [(''type'', JStr ''hash''), (''hash'', JStr h)]))"

definition build_session_open_credential :: "'w signer \<Rightarrow> payment_challenge \<Rightarrow> string \<Rightarrow> datetime \<Rightarrow> payment_credential res" where
  "build_session_open_credential S c blob now =
     bind_res (validate_session_challenge S c now) (\<lambda>r.
     bind_res (guard_res (sr_channel_id r = []) (ValueError ''an open challenge must carry an empty channelId'')) (\<lambda>_.
     bind_res (derive_paychannel_open_binding S blob) (\<lambda>b.
     bind_res (guard_res (ob_payer b = sg_address S) (ValueError ''PaymentChannelCreate payer does not match the signer wallet'')) (\<lambda>_.
     bind_res (guard_res (ob_recipient b = sr_recipient r)
       (ValueError ''PaymentChannelCreate recipient does not match the open challenge'')) (\<lambda>_.
     bind_res (guard_res (ob_public_key b = py_upper (sg_public_key S))
       (ValueError ''PaymentChannelCreate claim key does not match the signer wallet'')) (\<lambda>_.
     bind_res (guard_res (py_int (sr_amount r) \<le> py_int (ob_funding b))
       (ValueError ''Initial cumulative claim exceeds PaymentChannelCreate funding'')) (\<lambda>_.
     bind_res (sign_channel_claim S (ob_channel_id b) (sr_amount r)) (\<lambda>signature.
     bind_res (open_fields [(''action'', JStr ''open''), (''transaction'', JStr blob), (''amount'', JStr (sr_amount r)),
       (''signature'', JStr signature)]) (\<lambda>p.
     credential_of S c [(''action'', JStr ''open''), (''transaction'', JStr (op_transaction p)),
       (''amount'', JStr (op_amount p)), (''signature'', JStr (op_signature p))])))))))))"

text \<open>\<open>_build_session_claim_credential\<close>: a claim covers the price on top of the hinted amount.\<close>

definition hinted_cumulative :: "session_request \<Rightarrow> int" where
  "hinted_cumulative r = (case Option.bind (sr_method_details r) smd_cumulative_amount of
     None \<Rightarrow> 0 | Some s \<Rightarrow> if s = [] then 0 else py_int s)"

definition build_session_claim_credential ::
  "'w signer \<Rightarrow> payment_challenge \<Rightarrow> string \<Rightarrow> string option \<Rightarrow> datetime \<Rightarrow> payment_credential res" where
  "build_session_claim_credential S c action cumulative_amount now =
     bind_res (validate_session_challenge S c now) (\<lambda>r.
     bind_res (guard_res (sr_channel_id r \<noteq> []) (ValueError (''channelId is required for action '' @ action))) (\<lambda>_.
     let price = py_int (sr_amount r); previous = hinted_cumulative r;
         cumulative = (case cumulative_amount of None \<Rightarrow> py_str_int (previous + price) | Some s \<Rightarrow> s) in
     bind_res (guard_res (is_ascii_digits cumulative) (ValueError ''cumulative_amount must be an unsigned drops string'')) (\<lambda>_.
     bind_res (guard_res (previous + price \<le> py_int cumulative)
       (ValueError ''cumulative_amount does not cover the requested increment'')) (\<lambda>_.
     bind_res (sign_channel_claim S (sr_channel_id r) cumulative) (\<lambda>signature.
     bind_res (voucher_payload (sr_channel_id r) cumulative signature) (\<lambda>(ch, a, s).
     credential_of S c [(''action'', JStr action), (''channelId'', JStr ch), (''amount'', JStr a), (''signature'', JStr s)]))))))"

definition build_payment_authorization :: "lib \<Rightarrow> payment_credential \<Rightarrow> string res" where
  "build_payment_authorization L cred =
     bind_res (encode_json_to_base64url (lib_jcs L) (JObj (credential_dict cred))) (\<lambda>t. Inr (''Payment '' @ t))"

end
