(* ===== verification/Transport.thy ===== *)
theory Transport
  imports Signer AcceptPayment Http
begin

text \<open>
  The paying HTTP transport of the buyer (\<open>httpx.py\<close> of the client): one unpaid request, the choice
  and authorisation of a challenge, one paid retry, and the local state of PayChannel sessions, keyed by
  method and resource, which only a receipt bound to the signed credential can move. The underlying
  transport and the nodes behind the signer live in the world \<open>by_world\<close>.
\<close>

section \<open>Requests and local state\<close>

record url =
  u_scheme :: string
  u_netloc :: string
  u_host :: string
  u_path :: string
  u_query :: string

record http_outgoing =
  og_method :: string
  og_url :: url
  og_headers :: "(string \<times> string) list"
  og_body :: string
  og_retry :: bool
  og_credential_key :: "string option"

record http_answer =
  an_status :: int
  an_headers :: "(string \<times> string) list"

record session_state =
  st_channel :: string
  st_cumulative :: string
  st_method :: string
  st_recipient :: "string option"
  st_network_name :: "string option"

record 'w buyer =
  by_sessions :: "string \<Rightarrow> session_state option"
  by_opens :: "string \<Rightarrow> string option"
  by_world :: 'w

definition outside :: "('w, 'a) proc \<Rightarrow> ('w buyer, 'a) proc" where
  "outside m = (\<lambda>b. case m (by_world b) of (r, w) \<Rightarrow> (r, b\<lparr>by_world := w\<rparr>))"

record 'w transport =
  tp_signer :: "'w signer"
  tp_network :: "string option"
  tp_currency :: "string option"
  tp_send :: "http_outgoing \<Rightarrow> ('w, http_answer) proc"
  tp_preferences :: "accept_range list"
  tp_policy :: "payment_policy option"
  tp_allow_insecure :: bool

abbreviation tp_lib :: "'w transport \<Rightarrow> lib" where
  "tp_lib T \<equiv> sg_lib (tp_signer T)"

text \<open>The constructor: any \<open>xrpl\<close> offer is acceptable, and the signer's complete policy is the default.\<close>

definition default_preferences :: "accept_range list" where
  "default_preferences = [\<lparr>ar_method = ''xrpl'', ar_intent = ''charge'', ar_q = 1000\<rparr>,
     \<lparr>ar_method = ''xrpl'', ar_intent = ''session'', ar_q = 1000\<rparr>]"

definition init_transport :: "'w transport \<Rightarrow> 'w transport" where
  "init_transport T = T\<lparr>tp_preferences := (if tp_preferences T = [] then default_preferences else tp_preferences T),
     tp_policy := (case tp_policy T of None \<Rightarrow> sg_policy (tp_signer T) | Some P \<Rightarrow> Some P)\<rparr>"

definition resource_key :: "url \<Rightarrow> string" where
  "resource_key u = u_scheme u @ ''://'' @ u_netloc u @ u_path u @ (if u_query u = [] then [] else ''?'' @ u_query u)"

definition session_key :: "url \<Rightarrow> string \<Rightarrow> string" where
  "session_key u verb = py_upper verb @ '' '' @ resource_key u"

definition accept_payment_header :: string where "accept_payment_header = ''Accept-Payment''"
definition channel_header :: string where "channel_header = ''X-MPP-PayChannel-Id''"
definition cumulative_header :: string where "cumulative_header = ''X-MPP-PayChannel-Cumulative''"
definition receipt_header :: string where "receipt_header = ''Payment-Receipt''"

section \<open>Registering channels\<close>

definition register_channel ::
  "url \<Rightarrow> string \<Rightarrow> string \<Rightarrow> string \<Rightarrow> string option \<Rightarrow> string option \<Rightarrow> ('w buyer, unit) proc" where
  "register_channel u channel cumulative verb recipient network = (\<lambda>b.
     if \<not> hex64 channel then (Inl (ValueError ''channel_id must be 64 hexadecimal characters''), b)
     else if \<not> is_ascii_digits cumulative then (Inl (ValueError ''cumulative_amount must be an unsigned drops string''), b)
     else (Inr (), b\<lparr>by_sessions := (by_sessions b)(session_key u verb \<mapsto>
       \<lparr>st_channel = py_upper channel, st_cumulative = cumulative, st_method = py_upper verb, st_recipient = recipient,
        st_network_name = network\<rparr>)\<rparr>))"

definition register_open_transaction :: "url \<Rightarrow> string \<Rightarrow> string \<Rightarrow> ('w buyer, unit) proc" where
  "register_open_transaction u blob verb = (\<lambda>b.
     if \<not> hex_text blob then (Inl (ValueError ''transaction must be a hexadecimal transaction blob''), b)
     else (Inr (), b\<lparr>by_opens := (by_opens b)(session_key u verb \<mapsto> blob)\<rparr>))"

definition channel_state :: "'w buyer \<Rightarrow> url \<Rightarrow> string \<Rightarrow> session_state option" where
  "channel_state b u verb = by_sessions b (session_key u verb)"

section \<open>Choosing a challenge\<close>

definition require_secure_transport :: "'w transport \<Rightarrow> url \<Rightarrow> unit res" where
  "require_secure_transport T u = guard_res (u_scheme u = ''https'' \<or> tp_allow_insecure T \<and> u_scheme u = ''http''
       \<and> py_lower (u_host u) \<in> {''localhost'', ''127.0.0.1'', ''::1''})
     (ValueError ''MPP credentials and challenges require HTTPS'')"

text \<open>\<open>_require_matching_session_state\<close>: the challenge continues the locally known channel.\<close>

definition require_matching_state :: "lib \<Rightarrow> payment_challenge \<Rightarrow> session_state \<Rightarrow> session_request res" where
  "require_matching_state L c s = bind_res (decode_challenge_request L c) (\<lambda>terms. case terms of
     ChargeRequest _ \<Rightarrow> Inl (OtherError ''AttributeError'')
   | SessionRequest r \<Rightarrow>
       bind_res (guard_res (py_upper (sr_channel_id r) = py_upper (st_channel s))
         (ValueError ''server challenge channelId does not match registered local state'')) (\<lambda>_.
       bind_res (guard_res (st_recipient s \<in> {None, Some (sr_recipient r)})
         (ValueError ''server challenge recipient does not match registered local state'')) (\<lambda>_.
       bind_res (guard_res (st_network_name s = None \<or> request_network r \<in> {None, st_network_name s})
         (ValueError ''server challenge network does not match registered local state'')) (\<lambda>_.
       case request_cumulative r of
         None \<Rightarrow> Inl (ValueError ''server session challenge is missing methodDetails.cumulativeAmount'')
       | Some hint \<Rightarrow> bind_res (guard_res (py_int hint = py_int (st_cumulative s))
           (ValueError ''server challenge methodDetails.cumulativeAmount does not match registered local state'')) (\<lambda>_.
           Inr r)))))"

fun matching_session_challenge ::
  "lib \<Rightarrow> payment_challenge list \<Rightarrow> session_state \<Rightarrow> payment_challenge option res" where
  "matching_session_challenge L [] s = Inr None"
| "matching_session_challenge L (c # cs) s =
     (if pch_method c \<noteq> ''xrpl'' \<or> pch_intent c \<noteq> ''session'' then matching_session_challenge L cs s
      else case require_matching_state L c s of
        Inr _ \<Rightarrow> Inr (Some c)
      | Inl e \<Rightarrow> if is_value_error e then matching_session_challenge L cs s else Inl e)"

definition select_challenge ::
  "'w transport \<Rightarrow> payment_challenge list \<Rightarrow> session_state option \<Rightarrow> payment_challenge res" where
  "select_challenge T cs state =
     (let candidates = rank_payment_challenges cs (tp_preferences T) in
      bind_res (guard_res (candidates \<noteq> []) (ValueError ''No acceptable MPP challenge found'')) (\<lambda>_.
      bind_res (case state of None \<Rightarrow> Inr None | Some s \<Rightarrow> matching_session_challenge (tp_lib T) candidates s) (\<lambda>matching.
      case matching of Some c \<Rightarrow> Inr c
      | None \<Rightarrow> select_payment_challenge (tp_lib T) candidates None (tp_network T) (tp_currency T))))"

definition authorize_automatic_payment :: "'w transport \<Rightarrow> payment_challenge \<Rightarrow> datetime \<Rightarrow> unit res" where
  "authorize_automatic_payment T c now = (case tp_policy T of
     None \<Rightarrow> Inl (ValueError ''Automatic XRPL payment is disabled without a complete payment policy'')
   | Some P \<Rightarrow> authorize (tp_lib T) P c now)"

definition verify_challenge_digest :: "lib \<Rightarrow> payment_challenge \<Rightarrow> string \<Rightarrow> unit res" where
  "verify_challenge_digest L c body = (case pch_digest c of None \<Rightarrow> Inr ()
   | Some d \<Rightarrow> (case build_content_digest L body of
       None \<Rightarrow> Inl (ValueError ''Payment challenge digest does not match the request body'')
     | Some actual \<Rightarrow> bind_res (compare_digest d actual) (\<lambda>same.
         guard_res same (ValueError ''Payment challenge digest does not match the request body''))))"

section \<open>Credentials for a session\<close>

definition session_credential ::
  "'w transport \<Rightarrow> 'w buyer \<Rightarrow> string \<Rightarrow> payment_challenge \<Rightarrow> datetime \<Rightarrow> payment_credential res" where
  "session_credential T b key c now = bind_res (decode_challenge_request (tp_lib T) c) (\<lambda>terms. case terms of
     ChargeRequest _ \<Rightarrow> Inl (OtherError ''AttributeError'')
   | SessionRequest r \<Rightarrow>
       if sr_channel_id r \<noteq> [] then (case by_sessions b key of
           None \<Rightarrow> Inl (ValueError ''automatic PayChannel vouchers require registered local channel state'')
         | Some s \<Rightarrow> bind_res (require_matching_state (tp_lib T) c s) (\<lambda>r.
             build_session_claim_credential (tp_signer T) c ''voucher''
               (Some (py_str_int (py_int (st_cumulative s) + py_int (sr_amount r)))) now))
       else (case by_opens b key of
           None \<Rightarrow> Inl (ValueError ''session challenge requires a signed PaymentChannelCreate blob'')
         | Some blob \<Rightarrow> build_session_open_credential (tp_signer T) c blob now))"

text \<open>Everything between the selection and the retry: expiry, digest, policy, signature.\<close>

definition check_challenge :: "'w transport \<Rightarrow> payment_challenge \<Rightarrow> string \<Rightarrow> datetime \<Rightarrow> unit res" where
  "check_challenge T c body now =
     bind_res (challenge_is_expired (tp_lib T) c now) (\<lambda>late.
     bind_res (guard_res (\<not> late) (ValueError ''Refusing to authorize an expired MPP challenge'')) (\<lambda>_.
     bind_res (verify_challenge_digest (tp_lib T) c body) (\<lambda>_.
     authorize_automatic_payment T c now)))"

definition now_of :: "'w transport \<Rightarrow> 'w buyer \<Rightarrow> datetime" where
  "now_of T b = sg_now (tp_signer T) (by_world b)"

definition authorize_and_sign ::
  "'w transport \<Rightarrow> string \<Rightarrow> string \<Rightarrow> payment_challenge \<Rightarrow> ('w buyer, payment_credential option) proc" where
  "authorize_and_sign T key body c = reading (\<lambda>b.
     andthen (lift (check_challenge T c body (now_of T b))) (\<lambda>_.
     if pch_intent c = ''charge'' then andthen (outside (build_charge_credential (tp_signer T) c)) (\<lambda>cred. ret (Some cred))
     else if pch_intent c = ''session'' then
       andthen (lift (session_credential T b key c (now_of T b))) (\<lambda>cred. ret (Some cred))
     else ret None))"

section \<open>Receipts\<close>

definition receipt_of :: "lib \<Rightarrow> (string \<times> string) list \<Rightarrow> payment_receipt option res" where
  "receipt_of L hs = (case hget_joined hs receipt_header of
     Some (c # s) \<Rightarrow> bind_res (decode_payment_receipt L (c # s)) (\<lambda>r. Inr (Some r)) | _ \<Rightarrow> Inr None)"

definition receipt_says :: "bool \<Rightarrow> string \<Rightarrow> unit res" where
  "receipt_says ok what = guard_res ok (ValueError (''Payment-Receipt '' @ what @ '' does not match''))"

definition extra_agrees :: "payment_receipt \<Rightarrow> string \<Rightarrow> string \<Rightarrow> bool" where
  "extra_agrees r k expected \<longleftrightarrow> receipt_extra r k \<in> {JNull, JStr expected}"

definition check_receipt_challenge :: "payment_receipt \<Rightarrow> payment_challenge \<Rightarrow> string \<Rightarrow> unit res" where
  "check_receipt_challenge r c reference =
     bind_res (receipt_says (pr_method r = pch_method c) ''method'') (\<lambda>_.
     bind_res (receipt_says (pr_reference r = reference) ''reference'') (\<lambda>_.
     bind_res (receipt_says (agrees (pr_challenge_id r) (pch_id c)) ''challengeId'') (\<lambda>_.
     bind_res (receipt_says (extra_agrees r ''intent'' (pch_intent c)) ''intent'') (\<lambda>_.
     receipt_says (extra_agrees r ''externalId'' (pch_id c)) ''externalId''))))"

definition upper_agrees :: "string option \<Rightarrow> string \<Rightarrow> bool" where
  "upper_agrees x s \<longleftrightarrow> (case x of None \<Rightarrow> True | Some t \<Rightarrow> py_upper t = s)"

text \<open>What a session receipt has to say about the credential that was signed.\<close>

record expected_receipt =
  xr_channel :: string
  xr_reference :: string
  xr_payer :: string
  xr_recipient :: string
  xr_tx_hash :: "string option"

definition expected_of :: "'w transport \<Rightarrow> session_request \<Rightarrow> session_payload \<Rightarrow> expected_receipt res" where
  "expected_of T r p = (case p of
     OpenPayload t _ _ \<Rightarrow> bind_res (derive_paychannel_open_binding (tp_signer T) t) (\<lambda>b.
       Inr \<lparr>xr_channel = ob_channel_id b, xr_reference = ''open:'' @ ob_channel_id b @ '':'' @ ob_tx_hash b,
            xr_payer = ob_payer b, xr_recipient = ob_recipient b, xr_tx_hash = Some (ob_tx_hash b)\<rparr>)
   | VoucherPayload cid a _ \<Rightarrow> Inr \<lparr>xr_channel = py_upper cid, xr_reference = claim_reference cid a,
       xr_payer = sg_address (tp_signer T), xr_recipient = sr_recipient r, xr_tx_hash = None\<rparr>
   | ClosePayload cid a _ \<Rightarrow> Inr \<lparr>xr_channel = py_upper cid, xr_reference = claim_reference cid a,
       xr_payer = sg_address (tp_signer T), xr_recipient = sr_recipient r, xr_tx_hash = None\<rparr>)"

definition check_session_answer ::
  "'w transport \<Rightarrow> payment_challenge \<Rightarrow> session_request \<Rightarrow> session_payload \<Rightarrow> payment_receipt \<Rightarrow> expected_receipt \<Rightarrow> unit res"
where
  "check_session_answer T c r p receipt x =
     bind_res (check_receipt_challenge receipt c (xr_reference x)) (\<lambda>_.
     bind_res (receipt_says (agrees (pr_action receipt) (payload_action p)) ''action'') (\<lambda>_.
     bind_res (receipt_says (upper_agrees (pr_channel_id receipt) (xr_channel x)) ''channelId'') (\<lambda>_.
     bind_res (receipt_says (agrees (pr_cumulative receipt) (payload_amount p)) ''cumulative'') (\<lambda>_.
     bind_res (receipt_says (agrees (pr_payer receipt) (xr_payer x)) ''payer'') (\<lambda>_.
     bind_res (receipt_says (agrees (pr_recipient receipt) (xr_recipient x)) ''recipient'') (\<lambda>_.
     let network = (case sr_method_details r of Some d \<Rightarrow> smd_network d | None \<Rightarrow> tp_network T) in
     bind_res (receipt_says (network = None \<or> pr_network receipt \<in> {None, network}) ''network'') (\<lambda>_.
     receipt_says (case xr_tx_hash x of None \<Rightarrow> True | Some h \<Rightarrow> upper_agrees (pr_tx_hash receipt) h) ''txHash'')))))))"

definition store_session :: "string \<Rightarrow> session_payload \<Rightarrow> session_state \<Rightarrow> 'w buyer \<Rightarrow> 'w buyer" where
  "store_session key p s b = (case p of
     OpenPayload _ _ _ \<Rightarrow> b\<lparr>by_opens := (by_opens b)(key := None), by_sessions := (by_sessions b)(key \<mapsto> s)\<rparr>
   | VoucherPayload _ _ _ \<Rightarrow> b\<lparr>by_sessions := (by_sessions b)(key \<mapsto> s)\<rparr>
   | ClosePayload _ _ _ \<Rightarrow> b\<lparr>by_sessions := (by_sessions b)(key := None)\<rparr>)"

definition capture_session_success ::
  "'w transport \<Rightarrow> string \<Rightarrow> payment_challenge \<Rightarrow> payment_credential \<Rightarrow> http_answer \<Rightarrow> string \<Rightarrow> ('w buyer, unit) proc" where
  "capture_session_success T key c cred answer verb =
     andthen (lift (decode_session_payload cred)) (\<lambda>p.
     andthen (lift (decode_challenge_request (tp_lib T) c)) (\<lambda>terms.
     andthen (lift (receipt_of (tp_lib T) (an_headers answer))) (\<lambda>receipt.
     case (receipt, terms) of
       (None, _) \<Rightarrow> ret ()
     | (Some _, ChargeRequest _) \<Rightarrow> fail (OtherError ''AttributeError'')
     | (Some rc, SessionRequest r) \<Rightarrow>
         andthen (lift (expected_of T r p)) (\<lambda>x.
         andthen (lift (check_session_answer T c r p rc x)) (\<lambda>_.
         \<lambda>b. (Inr (), store_session key p \<lparr>st_channel = xr_channel x, st_cumulative = payload_amount p,
           st_method = py_upper verb, st_recipient = Some (sr_recipient r), st_network_name = request_network r\<rparr> b))))))"

definition charge_evidence :: "'w transport \<Rightarrow> charge_payload \<Rightarrow> (string \<times> string) res" where
  "charge_evidence T p = (case p of
     HashPayload h \<Rightarrow> Inr (py_upper h, sg_address (tp_signer T))
   | TransactionPayload blob \<Rightarrow> (case ll_decode (sg_ledger (tp_signer T)) blob of
       None \<Rightarrow> Inl (ValueError ''signed charge credential contains an invalid XRPL transaction'')
     | Some tx \<Rightarrow> (case ll_payment (sg_ledger (tp_signer T)) tx of
         Inl _ \<Rightarrow> Inl (ValueError ''signed charge credential is not an XRPL Payment'')
       | Inr payment \<Rightarrow> bind_res (ll_hash (sg_ledger (tp_signer T)) tx) (\<lambda>h. Inr (py_upper h, pay_account payment)))))"

definition check_charge_answer ::
  "'w transport \<Rightarrow> payment_challenge \<Rightarrow> payment_credential \<Rightarrow> payment_receipt \<Rightarrow> unit res" where
  "check_charge_answer T c cred r =
     bind_res (decode_charge_payload cred) (\<lambda>p.
     bind_res (charge_evidence T p) (\<lambda>(reference, payer).
     bind_res (decode_challenge_request (tp_lib T) c) (\<lambda>terms.
     let network = (case terms of ChargeRequest q \<Rightarrow> (case cr_method_details q of Some d \<Rightarrow> cmd_network d | None \<Rightarrow> tp_network T)
           | SessionRequest _ \<Rightarrow> tp_network T) in
     bind_res (case terms_invoice terms of Some i \<Rightarrow> Inr i | None \<Rightarrow> challenge_invoice_id (lib_sha512 (tp_lib T)) (pch_id c)) (\<lambda>invoice.
     bind_res (check_receipt_challenge r c reference) (\<lambda>_.
     bind_res (receipt_says (pr_network r \<in> {None, network}) ''network'') (\<lambda>_.
     bind_res (receipt_says (agrees (pr_payer r) payer) ''payer'') (\<lambda>_.
     bind_res (receipt_says (agrees (pr_recipient r) (terms_recipient terms)) ''recipient'') (\<lambda>_.
     bind_res (receipt_says (upper_agrees (pr_invoice_id r) (py_upper invoice)) ''invoiceId'') (\<lambda>_.
     bind_res (receipt_says (upper_agrees (pr_tx_hash r) reference) ''txHash'') (\<lambda>_.
     receipt_says (pr_action r = None \<and> pr_channel_id r = None \<and> pr_cumulative r = None) ''charge''))))))))))"

definition validate_charge_success ::
  "'w transport \<Rightarrow> payment_challenge \<Rightarrow> payment_credential \<Rightarrow> http_answer \<Rightarrow> unit res" where
  "validate_charge_success T c cred answer =
     bind_res (receipt_of (tp_lib T) (an_headers answer)) (\<lambda>receipt. case receipt of
       None \<Rightarrow> Inr () | Some r \<Rightarrow> check_charge_answer T c cred r)"

section \<open>The transport\<close>

text \<open>A payment credential never follows a redirect to another resource; other credentials do.\<close>

definition drop_foreign_credential :: "string \<Rightarrow> http_outgoing \<Rightarrow> (string \<times> string) list" where
  "drop_foreign_credential key rq =
     (if og_credential_key rq \<in> {None, Some key} then og_headers rq
      else let hs = hpop payment_authorization_header (og_headers rq) in
        case hget_joined hs ''Authorization'' of
          Some v \<Rightarrow> if starts_with ''Payment '' v then hpop ''Authorization'' hs else hs
        | None \<Rightarrow> hs)"

definition add_session_headers :: "session_state option \<Rightarrow> (string \<times> string) list \<Rightarrow> (string \<times> string) list" where
  "add_session_headers state hs = (case state of None \<Rightarrow> hs
   | Some s \<Rightarrow> hset cumulative_header (st_cumulative s) (hset channel_header (st_channel s) hs))"

definition initial_headers :: "'w transport \<Rightarrow> 'w buyer \<Rightarrow> string \<Rightarrow> http_outgoing \<Rightarrow> (string \<times> string) list" where
  "initial_headers T b key rq = add_session_headers (by_sessions b key)
     (let hs = drop_foreign_credential key rq in
      if hget_all hs accept_payment_header \<noteq> [] then hs
      else hset accept_payment_header (render_accept_payment (tp_preferences T)) hs)"

definition apply_credential ::
  "lib \<Rightarrow> (string \<times> string) list \<Rightarrow> payment_credential \<Rightarrow> (string \<times> string) list res" where
  "apply_credential L hs cred =
     (let header = payment_credential_header (pcr_challenge cred) in
      bind_res (build_payment_authorization L cred) (\<lambda>v.
      Inr (hset header v (if header = ''Authorization'' then hpop payment_authorization_header hs else hs))))"

definition paid_retry ::
  "'w transport \<Rightarrow> string \<Rightarrow> http_outgoing \<Rightarrow> (string \<times> string) list \<Rightarrow> payment_credential \<Rightarrow> ('w buyer, http_answer) proc" where
  "paid_retry T key rq hs cred =
     andthen (lift (apply_credential (tp_lib T) hs cred)) (\<lambda>hs'.
     outside (tp_send T (rq\<lparr>og_headers := hs', og_retry := True, og_credential_key := Some key\<rparr>)))"

definition success :: "http_answer \<Rightarrow> bool" where
  "success a \<longleftrightarrow> 200 \<le> an_status a \<and> an_status a < 300"

definition conclude_payment ::
  "'w transport \<Rightarrow> string \<Rightarrow> payment_challenge \<Rightarrow> payment_credential \<Rightarrow> string \<Rightarrow> http_answer \<Rightarrow> ('w buyer, unit) proc" where
  "conclude_payment T key c cred verb answer =
     (if \<not> success answer then ret ()
      else if pch_intent c = ''charge'' then lift (validate_charge_success T c cred answer)
      else if pch_intent c = ''session'' then capture_session_success T key c cred answer verb
      else ret ())"

definition answer_challenge ::
  "'w transport \<Rightarrow> http_outgoing \<Rightarrow> string \<Rightarrow> (string \<times> string) list \<Rightarrow> http_answer \<Rightarrow> payment_challenge list \<Rightarrow>
     ('w buyer, http_answer) proc" where
  "answer_challenge T rq key hs answer cs = reading (\<lambda>b.
     case select_challenge T cs (by_sessions b key) of
       Inl e \<Rightarrow> if is_value_error e then ret answer else fail e
     | Inr c \<Rightarrow>
         andthen (authorize_and_sign T key (og_body rq) c) (\<lambda>signed.
         case signed of None \<Rightarrow> ret answer
         | Some cred \<Rightarrow>
             andthen (paid_retry T key rq hs cred) (\<lambda>answer'.
             andthen (conclude_payment T key c cred (og_method rq) answer') (\<lambda>_. ret answer'))))"

definition handle_request :: "'w transport \<Rightarrow> http_outgoing \<Rightarrow> ('w buyer, http_answer) proc" where
  "handle_request T rq = reading (\<lambda>b. let key = session_key (og_url rq) (og_method rq); hs = initial_headers T b key rq in
     andthen (lift (require_secure_transport T (og_url rq))) (\<lambda>_.
     andthen (outside (tp_send T (rq\<lparr>og_headers := hs\<rparr>))) (\<lambda>answer.
     if an_status answer \<noteq> 402 \<or> og_retry rq then ret answer
     else andthen (lift (extract_payment_challenges (tp_lib T) (hget_all (an_headers answer) ''WWW-Authenticate''))) (\<lambda>cs.
       if cs = [] then ret answer else answer_challenge T rq key hs answer cs))))"

section \<open>Closing a session\<close>

definition close_credential ::
  "'w transport \<Rightarrow> payment_challenge \<Rightarrow> session_state \<Rightarrow> string \<Rightarrow> datetime \<Rightarrow> payment_credential res" where
  "close_credential T c s body now =
     bind_res (check_challenge T c body now) (\<lambda>_.
     bind_res (require_matching_state (tp_lib T) c s) (\<lambda>r.
     build_session_claim_credential (tp_signer T) c ''close''
       (Some (py_str_int (py_int (st_cumulative s) + py_int (sr_amount r)))) now))"

definition close_headers :: "session_state \<Rightarrow> (string \<times> string) list \<Rightarrow> (string \<times> string) list" where
  "close_headers s hs = add_session_headers (Some s)
     (hset accept_payment_header (render_accept_payment [\<lparr>ar_method = ''xrpl'', ar_intent = ''session'', ar_q = 1000\<rparr>]) hs)"

definition close_session :: "'w transport \<Rightarrow> http_outgoing \<Rightarrow> ('w buyer, http_answer) proc" where
  "close_session T rq = reading (\<lambda>b. let key = session_key (og_url rq) (og_method rq) in
     case by_sessions b key of
       None \<Rightarrow> fail (ValueError (''No active MPP PayChannel for '' @ key))
     | Some s \<Rightarrow> let hs = close_headers s (og_headers rq) in
         andthen (lift (require_secure_transport T (og_url rq))) (\<lambda>_.
         andthen (outside (tp_send T (rq\<lparr>og_headers := hs\<rparr>))) (\<lambda>answer.
         if an_status answer \<noteq> 402 then ret answer
         else andthen (lift (extract_payment_challenges (tp_lib T) (hget_all (an_headers answer) ''WWW-Authenticate''))) (\<lambda>cs.
         andthen (lift (matching_session_challenge (tp_lib T) cs s)) (\<lambda>matching. case matching of None \<Rightarrow> ret answer
         | Some c \<Rightarrow> reading (\<lambda>b.
             andthen (lift (close_credential T c s (og_body rq) (now_of T b))) (\<lambda>cred.
             andthen (paid_retry T key rq hs cred) (\<lambda>answer'.
             andthen (if success answer' then capture_session_success T key c cred answer' (og_method rq) else ret ()) (\<lambda>_.
             ret answer')))))))))"

end
