(* ===== verification/BuyerProperties.thy ===== *)
theory BuyerProperties
  imports Transport SessionProperties Frame LedgerProperties
begin

text \<open>
  What the buyer's side guarantees against a hostile server and a hostile node: what is signed stays
  within the policy, the local claim of a channel only grows by priced and receipted requests, and a
  signed transaction carries the caller's fields.
\<close>

section \<open>A concrete buyer\<close>

text \<open>
  The buyer of the demonstration channel: 10 drops claimed so far, a policy of 5 drops a request, and
  a server that prices its requests at 5 drops on top of the 10 it has stored.
\<close>

definition buyer_terms :: json where
  "buyer_terms = JObj [(''amount'', JStr ''5''), (''channelId'', JStr demo_channel), (''recipient'', JStr demo_recipient),
     (''methodDetails'', JObj [(''cumulativeAmount'', JStr ''10'')])]"

definition buyer_lib :: lib where
  "buyer_lib = (demo_lib demo_channel)\<lparr>lib_loads := (\<lambda>s. if s = ''{}'' then Some buyer_terms else None)\<rparr>"

definition buyer_policy :: payment_policy where
  "buyer_policy = \<lparr>pp_recipients = [demo_recipient], pp_max_amount = 5, pp_currencies = [''XRP''], pp_max_validity = 300\<rparr>"

definition buyer_ledger :: ledger_lib where
  "buyer_ledger = \<lparr>ll_xrpl = demo_xrpl, ll_decode = (\<lambda>s. None), ll_payment = (\<lambda>t. Inl (ValueError [])),
     ll_signed = (\<lambda>t. False), ll_hash = (\<lambda>t. Inl (ValueError [])), ll_repr = (\<lambda>j. [])\<rparr>"

definition buyer_signer :: "unit signer" where
  "buyer_signer = \<lparr>sg_lib = buyer_lib, sg_ledger = buyer_ledger, sg_address = demo_payer, sg_public_key = ''ED'',
     sg_sign_message = (\<lambda>m. ''CD''), sg_network = ''testnet'', sg_decode_address = (\<lambda>a. None), sg_channel_create = (\<lambda>t. False),
     sg_build = (\<lambda>k d. Inr d), sg_sign = (\<lambda>k d. Inr ''AB''), sg_autofill = (\<lambda>k d. ret []), sg_ledger_current = ret JNull,
     sg_pathfind = None, sg_autofill_enabled = False, sg_default_fee = ''10'', sg_max_fee = 1000, sg_default_sequence = 1,
     sg_default_last_ledger = None, sg_recipients = None, sg_max_amount = None, sg_currencies = None, sg_policy = None,
     sg_now = (\<lambda>w. Aware 1000000)\<rparr>"

definition buyer_transport :: "unit transport" where
  "buyer_transport = \<lparr>tp_signer = buyer_signer, tp_network = None, tp_currency = None,
     tp_send = (\<lambda>rq. ret \<lparr>an_status = 200, an_headers = []\<rparr>), tp_preferences = [], tp_policy = Some buyer_policy,
     tp_allow_insecure = False\<rparr>"

definition buyer_start :: "unit buyer" where
  "buyer_start = \<lparr>by_sessions = [''k'' \<mapsto> \<lparr>st_channel = demo_channel, st_cumulative = ''10'', st_method = ''GET'',
     st_recipient = None, st_network_name = None\<rparr>], by_opens = Map.empty, by_world = ()\<rparr>"

definition buyer_challenge :: payment_challenge where
  "buyer_challenge = demo_challenge\<lparr>pch_expires := Some ''E''\<rparr>"

definition buyer_credential :: payment_credential where
  "buyer_credential = (demo_credential ''voucher'' ''15'')\<lparr>pcr_challenge := buyer_challenge\<rparr>"

section \<open>Signing a transaction\<close>

text \<open>What xrpl-py promises: a model lists the fields it was built from.\<close>

definition build_keeps :: "'w signer \<Rightarrow> string \<Rightarrow> bool" where
  "build_keeps S kind \<longleftrightarrow> (\<forall>d d'. sg_build S kind d = Inr d' \<longrightarrow> map_of d' = map_of d)"

lemma map_of_put [simp]: "map_of (put k v d) = (map_of d)(k \<mapsto> v)"
  by (simp add: put_def update_conv')

lemma map_of_put_option: "map_of (put_option k v d) i = (if i = k \<and> v \<noteq> None then v else map_of d i)"
  by (auto simp: put_option_def split: option.splits)

lemma put_explicit_other:
  "k \<notin> {''fee'', ''sequence'', ''last_ledger_sequence''} \<Longrightarrow> map_of (put_explicit x d) k = map_of d k"
  by (simp add: put_explicit_def map_of_put_option)

lemma put_explicit_fields:
  "ex_fee x = Some f \<Longrightarrow> map_of (put_explicit x d) ''fee'' = Some (JStr f)"
  "ex_sequence x = Some q \<Longrightarrow> map_of (put_explicit x d) ''sequence'' = Some (JInt q)"
  by (simp_all add: put_explicit_def map_of_put_option)

lemma take_autofilled_other: "k \<notin> set autofill_field_names \<Longrightarrow> map_of (take_autofilled f d) k = map_of d k"
  by (simp add: take_autofilled_def autofill_field_names_def map_of_put_option)

lemma cap_last_ledger_keeps:
  assumes "cap_last_ledger cap d = Inr d'"
  shows "k \<noteq> ''last_ledger_sequence'' \<Longrightarrow> map_of d' k = map_of d k"
    and "\<exists>l. map_of d' ''last_ledger_sequence'' = Some (JInt l) \<and> l \<le> cap"
  using assms by (auto simp: cap_last_ledger_def dget_def split: json.splits option.splits if_splits)

text \<open>
  The last ledger that the expiry of a challenge allows when a transaction is prepared in a world:
  computed from the ledger index the node reports after it answered the autofill, and from the clock then.
\<close>

definition allowed_last_ledger :: "'w signer \<Rightarrow> string \<Rightarrow> tx_dict \<Rightarrow> explicit_fields \<Rightarrow> string \<Rightarrow> 'w \<Rightarrow> int res" where
  "allowed_last_ledger S kind tx x e w = fst (
     andthen (lift (sg_build S kind (put_explicit x tx))) (\<lambda>initial.
     andthen (sg_autofill S kind initial) (\<lambda>_.
     andthen (read_current_ledger_sequence S) (\<lambda>current.
     reading (\<lambda>w'. lift (last_ledger_sequence_from_expires (sg_lib S) current e (sg_now S w')))))) w)"

definition within_cap :: "int option \<Rightarrow> int \<Rightarrow> tx_dict \<Rightarrow> bool" where
  "within_cap wanted cap d \<longleftrightarrow> (\<exists>l. map_of d ''last_ledger_sequence'' = Some (JInt l) \<and> l \<le> cap \<and>
     (case wanted of None \<Rightarrow> True | Some i \<Rightarrow> l = min i cap))"

lemma cap_last_ledger_within:
  "cap_last_ledger cap d = Inr d' \<Longrightarrow> (\<And>i. wanted = Some i \<Longrightarrow> map_of d ''last_ledger_sequence'' = Some (JInt i)) \<Longrightarrow>
     within_cap wanted cap d'"
  by (cases wanted) (auto simp: cap_last_ledger_def within_cap_def dget_def split: json.splits option.splits if_splits)

lemma cap_by_expiry_keeps:
  assumes "cap_by_expiry S expires d w = (Inr d', w')"
  shows "k \<noteq> ''last_ledger_sequence'' \<Longrightarrow> map_of d' k = map_of d k"
  using assms cap_last_ledger_keeps(1)
  by (cases expires) (fastforce simp: cap_by_expiry_def andthen_Inr_iff reading_def lift_def ret_def)+

lemma prepared_within_cap:
  assumes "prepare_autofilled S kind tx x (Some e) w = (Inr d, w')"
  shows "\<exists>cap. allowed_last_ledger S kind tx x e w = Inr cap \<and> within_cap (ex_last_ledger x) cap d"
proof -
  from assms obtain initial answered w1 w2 current cap where
    "sg_build S kind (put_explicit x tx) = Inr initial" "sg_autofill S kind initial w = (Inr answered, w1)"
    "read_current_ledger_sequence S w1 = (Inr current, w2)"
    "last_ledger_sequence_from_expires (sg_lib S) current e (sg_now S w2) = Inr cap"
    and cap: "cap_last_ledger cap (put_explicit x (take_autofilled answered tx)) = Inr d"
    by (auto simp: prepare_autofilled_def cap_by_expiry_def andthen_Inr_iff reading_def lift_def)
  then have "allowed_last_ledger S kind tx x e w = Inr cap" by (simp add: allowed_last_ledger_def andthen_def lift_def reading_def)
  moreover have "within_cap (ex_last_ledger x) cap d"
    by (rule cap_last_ledger_within [OF cap]) (simp add: put_explicit_def map_of_put_option)
  ultimately show ?thesis by blast
qed

lemma updates_kept:
  assumes "(if sg_autofill_enabled S then prepare_autofilled S kind tx x expires else ret (prepare_default S tx x)) w = (Inr updates, w2)"
  shows "(\<forall>k. k \<notin> set autofill_field_names \<longrightarrow> map_of updates k = map_of tx k) \<and>
    (\<forall>f. ex_fee x = Some f \<longrightarrow> map_of updates ''fee'' = Some (JStr f)) \<and>
    (\<forall>q. ex_sequence x = Some q \<longrightarrow> map_of updates ''sequence'' = Some (JInt q))"
proof (cases "sg_autofill_enabled S")
  case True
  with assms obtain answered w3 where c: "cap_by_expiry S expires (put_explicit x (take_autofilled answered tx)) w3 = (Inr updates, w2)"
    by (auto simp: prepare_autofilled_def andthen_Inr_iff)
  have "map_of updates k = map_of tx k" if "k \<notin> set autofill_field_names" for k
  proof -
    from that have "k \<notin> {''fee'', ''sequence'', ''last_ledger_sequence''}" by (auto simp: autofill_field_names_def)
    with cap_by_expiry_keeps [OF c, of k] put_explicit_other [of k] take_autofilled_other [OF that] show ?thesis by simp
  qed
  moreover have "map_of updates ''fee'' = Some (JStr f)" if "ex_fee x = Some f" for f
    using cap_by_expiry_keeps [OF c, of "''fee''"] put_explicit_fields(1) [OF that] by simp
  moreover have "map_of updates ''sequence'' = Some (JInt q)" if "ex_sequence x = Some q" for q
    using cap_by_expiry_keeps [OF c, of "''sequence''"] put_explicit_fields(2) [OF that] by simp
  ultimately show ?thesis by blast
next
  case False
  with assms have "updates = prepare_default S tx x" by (simp add: ret_def)
  with False show ?thesis by (auto simp: prepare_default_def map_of_put_option autofill_field_names_def)
qed

text \<open>
  C28. The transaction that is signed is the one the caller described: whatever the node answers to the
  autofill, every field other than the fee, the sequence, the last ledger and the network ID is the
  caller's; an explicit fee or sequence is kept; the fee is at most the configured maximum. With autofill,
  an expiring challenge bounds the last ledger by what its expiry allows at the ledger index the node
  reports and the clock of the signer, an explicit last ledger being lowered to that. Without autofill no
  node is asked and there is no such bound: the last ledger is the explicit one, else the configured one.
\<close>

theorem signed_transaction_faithful:
  assumes "sign_transaction S kind tx x expires w = (Inr blob, w')" and "build_keeps S kind"
  shows "\<exists>prepared fee. sg_sign S kind prepared = Inr blob \<and>
    (\<forall>k. k \<notin> set autofill_field_names \<longrightarrow> map_of prepared k = map_of tx k) \<and>
    map_of prepared ''fee'' = Some (JStr fee) \<and> is_ascii_digits fee \<and> py_int fee \<le> sg_max_fee S \<and>
    (\<forall>f. ex_fee x = Some f \<longrightarrow> fee = f) \<and>
    (\<forall>q. ex_sequence x = Some q \<longrightarrow> map_of prepared ''sequence'' = Some (JInt q)) \<and>
    (if sg_autofill_enabled S
     then (\<forall>e. expires = Some e \<longrightarrow>
       (\<exists>cap. allowed_last_ledger S kind tx x e w = Inr cap \<and> within_cap (ex_last_ledger x) cap prepared))
     else (\<forall>l. ex_last_ledger x = Some l \<or> ex_last_ledger x = None \<and> sg_default_last_ledger S = Some l \<longrightarrow>
       map_of prepared ''last_ledger_sequence'' = Some (JInt l)))"
proof -
  from assms(1) obtain updates prepared w2 where
    upd: "(if sg_autofill_enabled S then prepare_autofilled S kind tx x expires else ret (prepare_default S tx x)) w = (Inr updates, w2)"
    and built: "sg_build S kind updates = Inr prepared" and fee: "validate_fee S (dget prepared ''fee'') = Inr ()"
    and signed: "sg_sign S kind prepared = Inr blob"
    unfolding sign_transaction_def andthen_Inr_iff lift_def by auto
  have same: "map_of prepared = map_of updates" using built assms(2) by (auto simp: build_keeps_def)
  from fee obtain f where f: "map_of prepared ''fee'' = Some (JStr f)" "is_ascii_digits f" "py_int f \<le> sg_max_fee S"
    by (auto simp: validate_fee_def parse_fee_drops_def res_iffs dget_def split: json.splits option.splits if_splits)
  note kept = updates_kept [OF upd]
  have last: "if sg_autofill_enabled S
     then (\<forall>e. expires = Some e \<longrightarrow> (\<exists>cap. allowed_last_ledger S kind tx x e w = Inr cap \<and> within_cap (ex_last_ledger x) cap updates))
     else (\<forall>l. ex_last_ledger x = Some l \<or> ex_last_ledger x = None \<and> sg_default_last_ledger S = Some l \<longrightarrow>
       map_of updates ''last_ledger_sequence'' = Some (JInt l))"
    using upd prepared_within_cap [of S kind tx x _ w updates w2]
    by (auto simp: ret_def prepare_default_def map_of_put_option)
  from kept f(1) same have same_fee: "\<forall>g. ex_fee x = Some g \<longrightarrow> f = g" by auto
  have "within_cap wanted cap prepared = within_cap wanted cap updates" for wanted cap
    unfolding within_cap_def same by (rule refl)
  then show ?thesis
    by (intro exI [of _ prepared] exI [of _ f]) (use signed f kept same_fee last in \<open>simp add: same\<close>)
qed

text \<open>
  A node that answers the autofill with another amount and a last ledger of 5000, while it is at ledger
  100 and the challenge has 59 seconds left: 15 ledgers.
\<close>

definition greedy_node_signer :: "unit signer" where
  "greedy_node_signer = buyer_signer\<lparr>sg_autofill_enabled := True,
     sg_autofill := (\<lambda>k d. ret [(''amount'', JStr ''999''), (''fee'', JStr ''12''), (''sequence'', JInt 7),
       (''last_ledger_sequence'', JInt 5000)]),
     sg_ledger_current := ret (JObj [(''ledger_current_index'', JInt 100)])\<rparr>"

lemma signed_transaction_faithful_witness:
  "\<exists>prepared l. map_of prepared ''amount'' = Some (JStr ''5'') \<and>
     map_of prepared ''last_ledger_sequence'' = Some (JInt l) \<and> l \<le> 115"
proof -
  have "sign_transaction greedy_node_signer ''Payment'' [(''amount'', JStr ''5'')] no_explicit (Some ''E'') () = (Inr ''AB'', ())"
    by code_simp
  moreover have "build_keeps greedy_node_signer ''Payment''"
    by (simp add: build_keeps_def greedy_node_signer_def buyer_signer_def)
  moreover have cap: "allowed_last_ledger greedy_node_signer ''Payment'' [(''amount'', JStr ''5'')] no_explicit ''E'' () = Inr 115"
    by code_simp
  moreover have "sg_autofill_enabled greedy_node_signer" by (simp add: greedy_node_signer_def)
  ultimately obtain prepared fee where
    "\<forall>k. k \<notin> set autofill_field_names \<longrightarrow> map_of prepared k = map_of [(''amount'', JStr ''5'')] k"
    "within_cap (ex_last_ledger no_explicit) 115 prepared"
    by (auto dest!: signed_transaction_faithful)
  then show ?thesis by (intro exI [of _ prepared]) (auto simp: within_cap_def autofill_field_names_def)
qed

section \<open>What a buyer can be made to sign\<close>

definition local_claim :: "'w buyer \<Rightarrow> string \<Rightarrow> int" where
  "local_claim b key = (case by_sessions b key of None \<Rightarrow> 0 | Some s \<Rightarrow> py_int (st_cumulative s))"

lemma local_claim_nonneg [simp]: "0 \<le> local_claim b key"
  by (simp add: local_claim_def split: option.splits)

lemma session_terms_Inr:
  "bind_res m (\<lambda>terms. case terms of ChargeRequest _ \<Rightarrow> Inl e | SessionRequest r \<Rightarrow> f r) = Inr y \<longleftrightarrow>
     (\<exists>r. m = Inr (SessionRequest r) \<and> f r = Inr y)"
  by (cases m) (auto split: challenge_request.splits)

lemma session_terms_drops:
  "decode_challenge_request L c = Inr (SessionRequest r) \<Longrightarrow> drops_text (sr_amount r)"
  by (auto simp: decode_challenge_request_def validate_session_request_def res_iffs drops_field_Inr split: if_splits)

definition claim_json :: "string \<Rightarrow> string \<Rightarrow> string \<Rightarrow> string \<Rightarrow> (string \<times> json) list" where
  "claim_json x cid a s = [(''action'', JStr x), (''channelId'', JStr cid), (''amount'', JStr a), (''signature'', JStr s)]"

lemma claim_json_fields:
  "dget (claim_json x cid a s) ''action'' = JStr x"
  "required (''channelId'', ''channel_id'') (claim_json x cid a s) = Inr (JStr cid)"
  "required (plain ''amount'') (claim_json x cid a s) = Inr (JStr a)"
  "required (plain ''signature'') (claim_json x cid a s) = Inr (JStr s)"
  "required (plain ''transaction'') (claim_json x cid a s) = Inl (ValidationError ''transaction'')"
  by (simp_all add: claim_json_def dget_def required_def plain_def used_key_def)

lemma claim_fields_claim_json:
  "claim_fields (claim_json x cid a s) = Inr (cid', a', s') \<Longrightarrow> cid' = pydantic_strip cid \<and> a' = pydantic_strip a"
  by (auto simp: claim_fields_def claim_json_fields as_str_def res_iffs voucher_payload_Inr)

lemma claim_payload_decodes:
  "validate_session_payload (JObj (claim_json x cid a s)) = Inr p \<Longrightarrow>
     \<exists>s'. p = (if x = ''voucher'' then VoucherPayload (pydantic_strip cid) (pydantic_strip a) s'
           else ClosePayload (pydantic_strip cid) (pydantic_strip a) s')"
  unfolding validate_session_payload_def as_dict_def claim_json_fields
  by (auto simp: open_fields_def claim_json_fields bind_res_Inr_iff dest!: claim_fields_claim_json split: if_splits)

definition open_json :: "string \<Rightarrow> string \<Rightarrow> string \<Rightarrow> (string \<times> json) list" where
  "open_json t a s = [(''action'', JStr ''open''), (''transaction'', JStr t), (''amount'', JStr a), (''signature'', JStr s)]"

lemma open_json_fields:
  "dget (open_json t a s) ''action'' = JStr ''open''"
  "required (plain ''transaction'') (open_json t a s) = Inr (JStr t)"
  "required (plain ''amount'') (open_json t a s) = Inr (JStr a)"
  "required (plain ''signature'') (open_json t a s) = Inr (JStr s)"
  by (simp_all add: open_json_def dget_def required_def plain_def used_key_def)

lemma open_fields_amount: "open_fields (open_json t a s) = Inr q \<Longrightarrow> op_amount q = pydantic_strip a \<and> payload_amount q = pydantic_strip a \<and> is_OpenPayload q"
  by (auto simp: open_fields_def open_json_fields bind_res_Inr_iff as_str_def drops_field_Inr)

lemma open_payload_decodes:
  "validate_session_payload (JObj (open_json t a s)) = Inr p \<Longrightarrow> payload_amount p = pydantic_strip a \<and> is_OpenPayload p"
  by (simp add: validate_session_payload_def as_dict_def open_json_fields open_fields_amount)

lemma lift_Inr_iff: "lift r w = (Inr x, w') \<longleftrightarrow> r = Inr x \<and> w = w'"
  by (auto simp: lift_def)

lemma credential_of_payload: "credential_of S c kvs = Inr cred \<Longrightarrow> pcr_payload cred = kvs \<and> pcr_challenge cred = c"
  by (auto simp: credential_of_def res_iffs)

lemma session_claim_amount:
  assumes "build_session_claim_credential S c x (Some (py_str_int i)) now = Inr cred" and "0 \<le> i"
    and "decode_session_payload cred = Inr p"
  shows "py_int (payload_amount p) = i"
proof -
  from assms(1) obtain cid a s s0 and r :: session_request where v: "voucher_payload (sr_channel_id r) (py_str_int i) s0 = Inr (cid, a, s)"
      and c: "credential_of S c (claim_json x cid a s) = Inr cred"
    unfolding build_session_claim_credential_def claim_json_def Let_def by (auto simp: bind_res_Inr_iff)
  from c have p: "pcr_payload cred = claim_json x cid a s" by (simp add: credential_of_payload)
  have "pydantic_strip (py_str_int i) = py_str_int i" using assms(2) by (simp add: py_str_int_def)
  with v have "a = py_str_int i" "pydantic_strip a = a" by (auto simp: voucher_payload_Inr)
  with claim_payload_decodes [of x cid a s p] assms(2,3) show ?thesis
    by (auto simp: decode_session_payload_def p split: if_splits)
qed

lemma charge_is_no_session:
  assumes "build_charge_credential S c w = (Inr cred, w')" shows "decode_session_payload cred \<noteq> Inr p"
proof -
  from assms obtain blob where "credential_of S c [(''type'', JStr ''transaction''), (''blob'', JStr blob)] = Inr cred"
    unfolding build_charge_credential_def reading_def andthen_Inr_iff lift_Inr_iff by blast
  then show ?thesis
    by (auto simp: decode_session_payload_def validate_session_payload_def as_dict_def dget_def dest!: credential_of_payload)
qed

lemma price_within_policy:
  assumes "check_challenge T c body now = Inr u" and "tp_policy T = Some P"
    and "decode_challenge_request (tp_lib T) c = Inr (SessionRequest r)"
  shows "of_int (py_int (sr_amount r)) \<le> pp_max_amount P"
proof -
  from assms(1,2) have "authorize (tp_lib T) P c now = Inr ()"
    by (auto simp: check_challenge_def authorize_automatic_payment_def res_iffs)
  from authorize_Inr [OF this] assms(3) have "amount_within (sr_amount r) (pp_max_amount P)
      (ValueError ''Payment challenge amount is invalid'')
      (ValueError ''Payment challenge amount exceeds automatic payment policy max_amount'') = Inr ()"
    by (auto simp: terms_amount_def)
  moreover have "list_all is_digit (sr_amount r)" "sr_amount r \<noteq> []"
    using session_terms_drops [OF assms(3)] by (auto simp: drops_text_def)
  ultimately show ?thesis by (simp add: amount_within_Inr decimal_text_amount)
qed

lemma session_state_price:
  assumes "require_matching_state L c s = Inr r"
  shows "decode_challenge_request L c = Inr (SessionRequest r) \<and> py_upper (sr_channel_id r) = py_upper (st_channel s) \<and>
    (\<exists>hint. request_cumulative r = Some hint \<and> py_int hint = py_int (st_cumulative s))"
proof (cases "decode_challenge_request L c")
  case (Inr t)
  with assms show ?thesis
    by (cases t) (auto simp: require_matching_state_def res_iffs split: option.splits)
qed (use assms in \<open>simp add: require_matching_state_def\<close>)

lemma open_claim_amount:
  assumes "build_session_open_credential S c blob now = Inr cred" and "decode_session_payload cred = Inr p"
    and "decode_challenge_request (sg_lib S) c = Inr (SessionRequest r)"
  shows "py_int (payload_amount p) = py_int (sr_amount r) \<and> is_OpenPayload p"
proof -
  have r: "validate_session_challenge S c now = Inr r' \<Longrightarrow> r' = r" for r'
    using assms(3) by (auto simp: validate_session_challenge_def session_terms_Inr bind_res_Inr_iff)
  from assms(1) obtain q s where q: "open_fields (open_json blob (sr_amount r) s) = Inr q"
    and c: "credential_of S c (open_json (op_transaction q) (op_amount q) (op_signature q)) = Inr cred"
    unfolding build_session_open_credential_def bind_res_Inr_iff open_json_def using r by blast
  have same: "pydantic_strip (sr_amount r) = sr_amount r" using session_terms_drops [OF assms(3)] by (simp add: drops_text_strip)
  have "op_amount q = sr_amount r" using open_fields_amount [OF q] same by simp
  then show ?thesis using assms(2) same open_payload_decodes [of "op_transaction q" "op_amount q" "op_signature q" p]
    by (simp add: decode_session_payload_def credential_of_payload [OF c])
qed

lemma voucher_fields:
  "validate_session_payload j = Inr (VoucherPayload cid a s) \<Longrightarrow> drops_text a \<and> signature_text s \<and> s \<noteq> []"
  by (auto simp: validate_session_payload_def open_fields_def claim_fields_def voucher_payload_Inr res_iffs split: if_splits)

text \<open>What a session credential signs: the price as a first claim, or the price on top of the matching local claim.\<close>

lemma session_credential_signs:
  assumes "session_credential T b key c now = Inr cred" and "decode_session_payload cred = Inr p"
    and r: "decode_challenge_request (tp_lib T) c = Inr (SessionRequest r)"
  shows "is_OpenPayload p \<and> py_int (payload_amount p) = py_int (sr_amount r) \<or>
    (\<exists>hint. request_cumulative r = Some hint \<and> py_int hint = local_claim b key \<and>
       py_int (payload_amount p) = local_claim b key + py_int (sr_amount r))"
proof (cases "sr_channel_id r = []")
  case True
  with assms(1) r obtain blob where "build_session_open_credential (tp_signer T) c blob now = Inr cred"
    by (auto simp: session_credential_def split: option.splits)
  from open_claim_amount [OF this assms(2) r] show ?thesis by simp
next
  case False
  with assms(1) r obtain s r' where s: "by_sessions b key = Some s" "require_matching_state (tp_lib T) c s = Inr r'"
    and built: "build_session_claim_credential (tp_signer T) c ''voucher''
      (Some (py_str_int (py_int (st_cumulative s) + py_int (sr_amount r')))) now = Inr cred"
    by (auto simp: session_credential_def res_iffs split: option.splits)
  have "r' = r" "\<exists>hint. request_cumulative r = Some hint \<and> py_int hint = py_int (st_cumulative s)"
    using session_state_price [OF s(2)] r by auto
  then show ?thesis using session_claim_amount [OF built _ assms(2)] s(1) by (auto simp: local_claim_def)
qed

lemma session_credential_terms:
  assumes "session_credential T b key c now = Inr cred"
  obtains r where "decode_challenge_request (tp_lib T) c = Inr (SessionRequest r)"
  using assms unfolding session_credential_def session_terms_Inr by blast

lemma authorised_amount:
  assumes "authorize_and_sign T key body c b = (Inr (Some cred), b')" and "tp_policy T = Some P"
    and "decode_session_payload cred = Inr p"
  shows "of_int (py_int (payload_amount p)) \<le> of_int (local_claim b key) + pp_max_amount P"
proof -
  from assms(1) obtain u where checked: "check_challenge T c body (now_of T b) = Inr u"
    and signed: "(if pch_intent c = ''charge'' then andthen (outside (build_charge_credential (tp_signer T) c)) (\<lambda>cred. ret (Some cred))
     else if pch_intent c = ''session'' then
       andthen (lift (session_credential T b key c (now_of T b))) (\<lambda>cred. ret (Some cred))
     else ret None) b = (Inr (Some cred), b')"
    unfolding authorize_and_sign_def reading_def andthen_Inr_iff lift_Inr_iff by blast
  have "\<not> pch_intent c = ''charge''"
    using signed assms(3) charge_is_no_session by (fastforce simp: andthen_Inr_iff outside_def split: prod.splits)
  with signed have "session_credential T b key c (now_of T b) = Inr cred"
    by (auto simp: andthen_Inr_iff split: if_splits)
  then obtain r where r: "decode_challenge_request (tp_lib T) c = Inr (SessionRequest r)"
    and a: "py_int (payload_amount p) \<le> local_claim b key + py_int (sr_amount r)"
    using session_credential_signs [OF _ assms(3)] session_credential_terms by (metis add_increasing local_claim_nonneg order_refl)
  moreover from r have "of_int (py_int (sr_amount r)) \<le> pp_max_amount P"
    by (rule price_within_policy [OF checked assms(2)])
  moreover have "of_int (py_int (payload_amount p)) \<le> (of_int (local_claim b key + py_int (sr_amount r)) :: rat)"
    using a by (simp only: of_int_le_iff)
  ultimately show ?thesis by simp
qed

section \<open>A buyer's day\<close>

text \<open>Requests and closes in any order, over any transport and any nodes; \<open>grown\<close>: no claim rose by more than \<open>cap\<close>.\<close>

datatype buyer_event = Pay http_outgoing | Close http_outgoing

fun buyer_step :: "'w transport \<Rightarrow> buyer_event \<Rightarrow> 'w buyer \<Rightarrow> 'w buyer" where
  "buyer_step T (Pay rq) b = snd (handle_request T rq b)"
| "buyer_step T (Close rq) b = snd (close_session T rq b)"

definition buyer_run :: "'w transport \<Rightarrow> buyer_event list \<Rightarrow> 'w buyer \<Rightarrow> 'w buyer" where
  "buyer_run T es b = fold (buyer_step T) es b"

definition grown :: "rat \<Rightarrow> 'w buyer \<Rightarrow> 'w buyer \<Rightarrow> bool" where
  "grown cap b b' \<longleftrightarrow> (\<forall>k. of_int (local_claim b' k) \<le> of_int (local_claim b k) + cap)"

lemma same_claims: "by_sessions b' = by_sessions b \<Longrightarrow> local_claim b' k = local_claim b k"
  by (simp add: local_claim_def)

lemma grown_same: "by_sessions b' = by_sessions b \<Longrightarrow> 0 \<le> cap \<Longrightarrow> grown cap b b'"
  by (simp add: grown_def same_claims [of b' b])

lemma keeps_outside [keeps_rules]: "keeps by_sessions (outside m)"
  by (auto simp: keeps_def outside_def split: prod.splits)

lemma keeps_signing [keeps_rules]:
  "keeps by_sessions (authorize_and_sign T key body c)" "keeps by_sessions (paid_retry T key rq hs cred)"
  unfolding authorize_and_sign_def paid_retry_def by (intro keeps_rules)+

lemma andthen_end:
  assumes "keeps f p" and "\<And>x w1. p w = (Inr x, w1) \<Longrightarrow> f w1 = f w \<Longrightarrow> Q (snd (q x w1))" and "\<And>w1. f w1 = f w \<Longrightarrow> Q w1"
  shows "Q (snd (andthen p q w))"
  using assms keepsD [OF assms(1)] by (auto simp: andthen_def split: prod.splits sum.splits)

lemma store_session_claim:
  "local_claim (store_session key p s b) k \<le> (if k = key then max (local_claim b k) (py_int (st_cumulative s)) else local_claim b k)"
  by (auto simp: store_session_def local_claim_def max_def split: session_payload.splits option.splits)

lemma capture_grown:
  assumes "by_sessions b' = by_sessions b" and cap: "0 \<le> cap"
    and bound: "\<And>p. decode_session_payload cred = Inr p \<Longrightarrow> of_int (py_int (payload_amount p)) \<le> of_int (local_claim b key) + cap"
  shows "grown cap b (snd (capture_session_success T key c cred answer verb b'))"
proof -
  have same: "grown cap b b'" by (rule grown_same [OF assms(1) cap])
  have stored: "grown cap b (store_session key p s b')"
    if "decode_session_payload cred = Inr p" "st_cumulative s = payload_amount p" for p s
    unfolding grown_def
  proof
    fix k
    have "local_claim (store_session key p s b') k \<le> (if k = key then max (local_claim b k) (py_int (payload_amount p)) else local_claim b k)"
      using store_session_claim [of key p s b' k] by (simp add: that(2) same_claims [OF assms(1)] del: max.bounded_iff split: if_splits)
    then have "of_int (local_claim (store_session key p s b') k)
        \<le> (of_int (if k = key then max (local_claim b k) (py_int (payload_amount p)) else local_claim b k) :: rat)"
      by (simp only: of_int_le_iff)
    with bound [OF that(1)] cap show "of_int (local_claim (store_session key p s b') k) \<le> of_int (local_claim b k) + cap"
      by (auto simp: max_def split: if_splits)
  qed
  show ?thesis unfolding capture_session_success_def
    by (auto simp: proc_simps same stored split: sum.splits option.splits challenge_request.splits prod.splits)
qed

lemma conclude_grown:
  assumes "by_sessions b' = by_sessions b" and "0 \<le> cap"
    and "\<And>p. decode_session_payload cred = Inr p \<Longrightarrow> of_int (py_int (payload_amount p)) \<le> of_int (local_claim b key) + cap"
  shows "grown cap b (snd (conclude_payment T key c cred verb answer b'))"
  using capture_grown [OF assms] grown_same [OF assms(1,2)] by (simp add: conclude_payment_def proc_simps)

lemma lift_andthen: "andthen (lift r) q w = (case r of Inl e \<Rightarrow> (Inl e, w) | Inr x \<Rightarrow> q x w)"
  by (simp add: proc_simps)

lemma then_ret_end: "Q (snd (p w)) \<Longrightarrow> Q (snd (andthen p (\<lambda>_. ret y) w))"
  by (auto simp: andthen_def ret_def split: prod.splits sum.splits)

lemma answer_grown:
  fixes T :: "'w transport"
  assumes "by_sessions b' = by_sessions b" and P: "tp_policy T = Some P" "0 \<le> pp_max_amount P"
  shows "grown (pp_max_amount P) b (snd (answer_challenge T rq key hs answer cs b'))"
proof -
  have same: "by_sessions w1 = by_sessions b' \<Longrightarrow> grown (pp_max_amount P) b w1" for w1
    using grown_same [OF _ P(2), of w1 b] assms(1) by simp
  have paid: "grown (pp_max_amount P) b (snd (andthen (paid_retry T key rq hs cred)
      (\<lambda>answer'. andthen (conclude_payment T key c cred (og_method rq) answer') (\<lambda>_. ret answer')) w1))"
    if signed: "authorize_and_sign T key (og_body rq) c b' = (Inr (Some cred), w1)" and w1: "by_sessions w1 = by_sessions b'" for c cred w1
  proof (rule andthen_end [where f = by_sessions])
    fix x and w2 :: "'w buyer" assume "by_sessions w2 = by_sessions w1"
    then have s: "by_sessions w2 = by_sessions b" using w1 assms(1) by simp
    show "grown (pp_max_amount P) b (snd (andthen (conclude_payment T key c cred (og_method rq) x) (\<lambda>_. ret x) w2))"
    proof (rule then_ret_end, rule conclude_grown [OF s P(2)])
      fix p assume "decode_session_payload cred = Inr p"
      from authorised_amount [OF signed P(1) this] same_claims [OF assms(1)]
      show "of_int (py_int (payload_amount p)) \<le> of_int (local_claim b key) + pp_max_amount P" by simp
    qed
  qed (rule keeps_signing, simp add: same w1)
  have sign: "grown (pp_max_amount P) b (snd (andthen (authorize_and_sign T key (og_body rq) c) (\<lambda>signed.
      case signed of None \<Rightarrow> ret answer | Some cred \<Rightarrow> andthen (paid_retry T key rq hs cred) (\<lambda>answer'.
        andthen (conclude_payment T key c cred (og_method rq) answer') (\<lambda>_. ret answer'))) b'))" for c
  proof (rule andthen_end [where f = by_sessions])
    fix signed w1
    assume signed: "authorize_and_sign T key (og_body rq) c b' = (Inr signed, w1)" "by_sessions w1 = by_sessions b'"
    show "grown (pp_max_amount P) b (snd ((case signed of None \<Rightarrow> ret answer | Some cred \<Rightarrow>
        andthen (paid_retry T key rq hs cred) (\<lambda>answer'.
          andthen (conclude_payment T key c cred (og_method rq) answer') (\<lambda>_. ret answer'))) w1))"
    proof (cases signed)
      case None
      with signed(2) show ?thesis by (simp add: ret_def same)
    next
      case (Some cred)
      show ?thesis unfolding Some option.case by (rule paid) (use signed Some in simp_all)
    qed
  qed (rule keeps_signing, rule same)
  show ?thesis unfolding answer_challenge_def reading_def
    by (auto simp: proc_evals same sign split: sum.splits)
qed

lemma request_grown:
  fixes T :: "'w transport"
  assumes P: "tp_policy T = Some P" "0 \<le> pp_max_amount P"
  shows "grown (pp_max_amount P) b (snd (handle_request T rq b))"
proof -
  let ?key = "session_key (og_url rq) (og_method rq)"
  let ?hs = "initial_headers T b ?key rq"
  have rest: "grown (pp_max_amount P) b (snd ((if an_status answer \<noteq> 402 \<or> og_retry rq then ret answer
     else andthen (lift (extract_payment_challenges (tp_lib T) (hget_all (an_headers answer) ''WWW-Authenticate''))) (\<lambda>cs.
       if cs = [] then ret answer else answer_challenge T rq ?key ?hs answer cs)) w2))"
    if "by_sessions w2 = by_sessions b" for answer and w2 :: "'w buyer"
    using answer_grown [OF that P] grown_same [OF that P(2)] by (auto simp: proc_simps split: sum.splits)
  have "grown (pp_max_amount P) b (snd (andthen (outside (tp_send T (rq\<lparr>og_headers := ?hs\<rparr>))) (\<lambda>answer.
     if an_status answer \<noteq> 402 \<or> og_retry rq then ret answer
     else andthen (lift (extract_payment_challenges (tp_lib T) (hget_all (an_headers answer) ''WWW-Authenticate''))) (\<lambda>cs.
       if cs = [] then ret answer else answer_challenge T rq ?key ?hs answer cs)) b))"
    by (rule andthen_end [where f = by_sessions], rule keeps_outside, rule rest, assumption, rule grown_same [OF _ P(2)])
  then show ?thesis unfolding handle_request_def reading_def Let_def
    by (auto simp: lift_andthen intro: grown_same P split: sum.splits)
qed

lemma close_amount:
  assumes "close_credential T c s body now = Inr cred" and "tp_policy T = Some P"
    and "decode_session_payload cred = Inr p"
  shows "of_int (py_int (payload_amount p)) \<le> of_int (py_int (st_cumulative s)) + pp_max_amount P"
proof -
  from assms(1) obtain u r where u: "check_challenge T c body now = Inr u" and r: "require_matching_state (tp_lib T) c s = Inr r"
    and built: "build_session_claim_credential (tp_signer T) c ''close''
       (Some (py_str_int (py_int (st_cumulative s) + py_int (sr_amount r)))) now = Inr cred"
    unfolding close_credential_def bind_res_Inr_iff by blast
  have "of_int (py_int (sr_amount r)) \<le> pp_max_amount P"
    using price_within_policy [OF u assms(2)] session_state_price [OF r] by blast
  then show ?thesis using session_claim_amount [OF built _ assms(3)] by simp
qed

lemma close_paid_grown:
  fixes T :: "'w transport" and b b' :: "'w buyer"
  assumes s: "by_sessions b key = Some s" "by_sessions b' = by_sessions b" and P: "tp_policy T = Some P" "0 \<le> pp_max_amount P"
  shows "grown (pp_max_amount P) b (snd (andthen (lift (close_credential T c s body now)) (\<lambda>cred.
    andthen (paid_retry T key rq hs cred) (\<lambda>answer'.
    andthen (if success answer' then capture_session_success T key c cred answer' verb else ret ()) (\<lambda>_. ret answer'))) b'))"
proof (cases "close_credential T c s body now")
  case (Inr cred)
  have bound: "of_int (py_int (payload_amount p)) \<le> of_int (local_claim b key) + pp_max_amount P"
    if "decode_session_payload cred = Inr p" for p
    using close_amount [OF Inr P(1) that] s(1) by (simp add: local_claim_def)
  have rest: "grown (pp_max_amount P) b (snd (andthen (if success answer' then capture_session_success T key c cred answer' verb else ret ())
     (\<lambda>_. ret answer') w2))" if "by_sessions w2 = by_sessions b" for answer' and w2 :: "'w buyer"
    using capture_grown [OF that P(2) bound] grown_same [OF that P(2)] by (intro then_ret_end [of "grown (pp_max_amount P) b"]) (auto simp: proc_evals)
  show ?thesis unfolding lift_andthen Inr sum.case
    by (rule andthen_end [where f = by_sessions], rule keeps_signing, rule rest, simp add: s(2), rule grown_same [OF _ P(2)], simp add: s(2))
qed (simp add: lift_andthen grown_same [OF s(2) P(2)])

lemma close_grown:
  fixes T :: "'w transport"
  assumes P: "tp_policy T = Some P" "0 \<le> pp_max_amount P"
  shows "grown (pp_max_amount P) b (snd (close_session T rq b))"
proof (cases "by_sessions b (session_key (og_url rq) (og_method rq))")
  case None
  then show ?thesis by (simp add: close_session_def reading_def fail_def Let_def grown_same P)
next
  case (Some s)
  let ?key = "session_key (og_url rq) (og_method rq)"
  let ?hs = "close_headers s (og_headers rq)"
  have "grown (pp_max_amount P) b (snd (andthen (outside (tp_send T (rq\<lparr>og_headers := ?hs\<rparr>))) (\<lambda>answer.
         if an_status answer \<noteq> 402 then ret answer
         else andthen (lift (extract_payment_challenges (tp_lib T) (hget_all (an_headers answer) ''WWW-Authenticate''))) (\<lambda>cs.
         andthen (lift (matching_session_challenge (tp_lib T) cs s)) (\<lambda>matching. case matching of None \<Rightarrow> ret answer
         | Some c \<Rightarrow> reading (\<lambda>b.
             andthen (lift (close_credential T c s (og_body rq) (now_of T b))) (\<lambda>cred.
             andthen (paid_retry T ?key rq ?hs cred) (\<lambda>answer'.
             andthen (if success answer' then capture_session_success T ?key c cred answer' (og_method rq) else ret ()) (\<lambda>_.
             ret answer'))))))) b))" (is "_ (snd (andthen ?send ?rest b))")
  proof (rule andthen_end [where f = by_sessions])
    fix answer and w1 :: "'w buyer" assume w1: "by_sessions w1 = by_sessions b"
    note same = grown_same [OF w1 P(2)]
    have paid: "grown (pp_max_amount P) b (snd (andthen (paid_retry T ?key rq ?hs cred) (\<lambda>answer'.
        andthen (if success answer' then capture_session_success T ?key c cred answer' (og_method rq) else ret ()) (\<lambda>_.
        ret answer')) w1))" if "close_credential T c s (og_body rq) (now_of T w1) = Inr cred" for c cred
      using close_paid_grown [OF Some w1 P, of c "og_body rq" "now_of T w1" rq ?hs "og_method rq"] that
      by (simp only: lift_andthen sum.case)
    show "grown (pp_max_amount P) b (snd (?rest answer w1))"
      by (simp add: lift_andthen reading_def proc_evals same paid split: sum.splits option.splits)
  qed (rule keeps_outside, rule grown_same [OF _ P(2)])
  then show ?thesis unfolding close_session_def reading_def Let_def Some option.case lift_andthen
    by (auto intro: grown_same P split: sum.splits)
qed

lemma run_grown:
  fixes T :: "'w transport"
  assumes P: "tp_policy T = Some P" "0 \<le> pp_max_amount P"
  shows "grown (of_nat (length es) * pp_max_amount P) b (buyer_run T es b)"
proof (induction es arbitrary: b)
  case Nil
  show ?case by (simp add: buyer_run_def grown_def)
next
  case (Cons e es)
  have step: "grown (pp_max_amount P) b (buyer_step T e b)"
    by (cases e) (simp_all add: request_grown [OF P] close_grown [OF P])
  show ?case unfolding grown_def
  proof
    fix k
    have "of_int (local_claim (buyer_run T es (buyer_step T e b)) k) \<le> of_int (local_claim (buyer_step T e b) k) + of_nat (length es) * pp_max_amount P"
      using Cons [of "buyer_step T e b"] by (simp add: grown_def)
    moreover have "of_int (local_claim (buyer_step T e b) k) \<le> of_int (local_claim b k) + pp_max_amount P"
      using step by (simp add: grown_def)
    ultimately show "of_int (local_claim (buyer_run T (e # es) b) k) \<le> of_int (local_claim b k) + of_nat (length (e # es)) * pp_max_amount P"
      by (simp add: buyer_run_def algebra_simps)
  qed
qed

text \<open>
  The credentials the transport signs at a state of the buyer: for a challenge of a request, or for the
  challenge of a close, on top of the local session of the resource.
\<close>

definition signs_credential ::
  "'w transport \<Rightarrow> string \<Rightarrow> string \<Rightarrow> payment_challenge \<Rightarrow> 'w buyer \<Rightarrow> payment_credential \<Rightarrow> bool" where
  "signs_credential T key body c b cred \<longleftrightarrow>
     (\<exists>b'. authorize_and_sign T key body c b = (Inr (Some cred), b')) \<or>
     (\<exists>s now. by_sessions b key = Some s \<and> close_credential T c s body now = Inr cred)"

lemma signed_amount:
  assumes "signs_credential T key body c b cred" and "tp_policy T = Some P" and "decode_session_payload cred = Inr p"
  shows "of_int (py_int (payload_amount p)) \<le> of_int (local_claim b key) + pp_max_amount P"
  using assms(1) authorised_amount [OF _ assms(2,3)] close_amount [OF _ assms(2,3)]
  by (fastforce simp: signs_credential_def local_claim_def)

text \<open>
  C27. What a buyer can be made to sign: after any sequence of requests and closes, whatever the servers
  and the nodes answered, a session credential it signs, be it an open or a voucher for a request or the
  final claim of a close, covers at most the local claim it started with plus one policy maximum for each
  request or close, that one included.
\<close>

theorem buyer_spending_bounded:
  assumes "tp_policy T = Some P" and "0 \<le> pp_max_amount P"
    and "signs_credential T key body c (buyer_run T es b) cred" and "decode_session_payload cred = Inr p"
  shows "of_int (py_int (payload_amount p)) \<le> of_int (local_claim b key) + of_nat (Suc (length es)) * pp_max_amount P"
proof -
  have "of_int (local_claim (buyer_run T es b) key) \<le> of_int (local_claim b key) + of_nat (length es) * pp_max_amount P"
    using run_grown [OF assms(1,2), of es b] by (simp add: grown_def)
  with signed_amount [OF assms(3,1,4)] show ?thesis by (simp add: algebra_simps)
qed

text \<open>At work: after one request the buyer signs a voucher over 15 drops, or a close over as much.\<close>

definition buyer_request :: http_outgoing where
  "buyer_request = \<lparr>og_method = ''GET'', og_url = \<lparr>u_scheme = ''https'', u_netloc = ''a'', u_host = ''a'', u_path = ''/'', u_query = []\<rparr>,
     og_headers = [], og_body = [], og_retry = False, og_credential_key = None\<rparr>"

definition buyer_close :: payment_credential where
  "buyer_close = buyer_credential\<lparr>pcr_payload := list_update (pcr_payload buyer_credential) 0 (''action'', JStr ''close'')\<rparr>"

lemma buyer_spending_bounded_witness:
  "signs_credential buyer_transport ''k'' [] buyer_challenge (buyer_run buyer_transport [Pay buyer_request] buyer_start) buyer_close \<and>
   (15 :: rat) \<le> of_int (local_claim buyer_start ''k'') + of_nat (Suc (length [Pay buyer_request])) * 5 \<and>
   of_int (py_int (payload_amount (ClosePayload demo_channel ''15'' ''CD''))) \<le>
     of_int (local_claim buyer_start ''k'') + of_nat (Suc (length [Pay buyer_request])) * (5 :: rat)"
proof -
  let ?b = "buyer_run buyer_transport [Pay buyer_request] buyer_start"
  have "fst (authorize_and_sign buyer_transport ''k'' [] buyer_challenge ?b) = Inr (Some buyer_credential)" by code_simp
  then have voucher: "signs_credential buyer_transport ''k'' [] buyer_challenge ?b buyer_credential"
    unfolding signs_credential_def by (metis prod.collapse)
  have "case by_sessions ?b ''k'' of None \<Rightarrow> False
    | Some s \<Rightarrow> close_credential buyer_transport buyer_challenge s [] (Aware 1000000) = Inr buyer_close" by code_simp
  then have final: "signs_credential buyer_transport ''k'' [] buyer_challenge ?b buyer_close"
    unfolding signs_credential_def by (auto split: option.splits)
  have policy: "tp_policy buyer_transport = Some buyer_policy" "0 \<le> pp_max_amount buyer_policy"
    by (simp_all add: buyer_transport_def buyer_policy_def)
  have decoded: "decode_session_payload buyer_credential = Inr (VoucherPayload demo_channel ''15'' ''CD'')"
    "decode_session_payload buyer_close = Inr (ClosePayload demo_channel ''15'' ''CD'')" by code_simp+
  have v: "py_int ''15'' = 15" by code_simp
  from buyer_spending_bounded [OF policy voucher decoded(1)] buyer_spending_bounded [OF policy final decoded(2)] final
  show ?thesis by (simp add: buyer_policy_def v)
qed

text \<open>
  C29. The two sides agree: a voucher signed for a challenge whose hint is what the facilitator has
  stored for the channel is an advance there, by exactly the price, and is stored with its signature.
\<close>

theorem signed_voucher_advances:
  assumes "session_credential T b key c now = Inr cred" and "decode_session_payload cred = Inr (VoucherPayload cid a sig)"
    and "decode_challenge_request (tp_lib T) c = Inr (SessionRequest r)" and "0 < py_int (sr_amount r)"
    and "request_cumulative r = Some hint" and "py_int hint = hw_value current" and "well_formed_high_water current" and "0 \<le> t"
  shows "py_int a = hw_value current + py_int (sr_amount r) \<and>
    evaluate_high_water current (DropsText a) (DropsText (sr_amount r)) sig (Some t) clock =
      Inr \<lparr>hd_status = Advanced, hd_previous = py_str_int (hw_value current),
           hd_state = Some \<lparr>hw_cumulative = a, hw_signature = sig, hw_timestamp = t\<rparr>\<rparr>"
proof -
  from session_credential_signs [OF assms(1-3)] assms(5,6) have a: "py_int a = hw_value current + py_int (sr_amount r)" by auto
  have p: "drops_text a" "signature_text sig" "sig \<noteq> []"
    using voucher_fields assms(2) unfolding decode_session_payload_def by blast+
  then have "mk_high_water a sig t = Inr \<lparr>hw_cumulative = a, hw_signature = sig, hw_timestamp = t\<rparr>"
    using assms(8) by (auto simp: mk_high_water_Inr signature_text_def)
  then show ?thesis using evaluate_high_water_text [OF assms(7) p(1) session_terms_drops [OF assms(3)], of sig t clock] a assms(4)
    by (simp add: Let_def)
qed

lemma signed_voucher_advances_witness:
  "evaluate_high_water (Some \<lparr>hw_cumulative = ''10'', hw_signature = ''AB'', hw_timestamp = 3\<rparr>) (DropsText ''15'') (DropsText ''5'') ''CD'' (Some 4) 0 =
     Inr \<lparr>hd_status = Advanced, hd_previous = py_str_int 10,
          hd_state = Some \<lparr>hw_cumulative = ''15'', hw_signature = ''CD'', hw_timestamp = 4\<rparr>\<rparr>"
proof -
  let ?r = "\<lparr>sr_amount = ''5'', sr_currency = None, sr_channel_id = demo_channel, sr_recipient = demo_recipient,
     sr_description = None, sr_external_id = None,
     sr_method_details = Some \<lparr>smd_reference = None, smd_network = None, smd_cumulative_amount = Some ''10''\<rparr>\<rparr>"
  have signed: "session_credential buyer_transport buyer_start ''k'' buyer_challenge (Aware 1000000) = Inr buyer_credential" by code_simp
  have decoded: "decode_session_payload buyer_credential = Inr (VoucherPayload demo_channel ''15'' ''CD'')" by code_simp
  have terms: "decode_challenge_request (tp_lib buyer_transport) buyer_challenge = Inr (SessionRequest ?r)" by code_simp
  have ten: "py_int ''10'' = 10" "py_int ''5'' = 5" "drops_text ''10''" by code_simp+
  from signed_voucher_advances [OF signed decoded terms, of "''10''" "Some \<lparr>hw_cumulative = ''10'', hw_signature = ''AB'', hw_timestamp = 3\<rparr>" 4 0]
  show ?thesis by (simp add: ten request_cumulative_def hw_value_def well_formed_high_water_def)
qed

text \<open>
  C30. The client's cap on the last ledger passes the facilitator's window: a transaction capped when
  it was signed is not refused for outliving its challenge when the facilitator looks at it later, as
  long as ledgers closed at least every four seconds in between, give or take fifteen seconds.
\<close>

theorem client_cap_passes_window:
  assumes "last_ledger_sequence_from_expires L current expires (Aware n1) = Inr cap" and "limit \<le> cap"
    and "lib_fromiso L (iso_offset expires) = Some (Aware t)"
    and "n2 \<le> n1 + 15000000 + 4000000 * (current' - current)" and "4001000 \<le> t - n2"
    and "\<bar>t - n1\<bar> \<le> 400000000000 * 1000000" and "\<bar>t - n2\<bar> \<le> 400000000000 * 1000000"
  shows "check_expiry_window L expires (Aware n2) current' limit = Inr ()"
proof -
  let ?s1 = "total_seconds (t - n1)" and ?s2 = "total_seconds (t - n2)"
  have cap: "cap = current + \<lceil>?s1 / 4\<rceil>"
    using assms(1,3) by (auto simp: last_ledger_sequence_from_expires_def res_iffs dt_sub_def split: if_splits)
  note close = total_seconds_close [OF assms(6)] total_seconds_close [OF assms(7)]
  have "(of_int 4001000 :: rat) \<le> of_int (t - n2)" using assms(5) by (simp only: of_int_le_iff)
  then have "(4001 :: rat) / 1000 \<le> of_int (t - n2) / 1000000" by simp
  then have long: "4 < ?s2" using close(2) by linarith
  have "t - n1 \<le> (t - n2) + 15000000 + 4000000 * (current' - current)" using assms(4) by simp
  then have "of_int (t - n1) \<le> (of_int ((t - n2) + 15000000 + 4000000 * (current' - current)) :: rat)" by (simp only: of_int_le_iff)
  then have "of_int (t - n1) / 1000000 \<le> (of_int (t - n2) / 1000000 + 15 + 4 * of_int (current' - current) :: rat)" by (simp add: field_simps)
  with close have "?s1 \<le> ?s2 + 16 + 4 * of_int (current' - current)" by linarith
  then have "?s1 / 4 \<le> ?s2 / 4 + of_int (current' - current + 4)" by simp
  also have "\<dots> \<le> of_int (\<lceil>?s2 / 4\<rceil> + (current' - current + 4))" by simp
  finally have "\<lceil>?s1 / 4\<rceil> \<le> \<lceil>?s2 / 4\<rceil> + (current' - current + 4)" by (simp only: ceiling_le_iff)
  then have "limit \<le> ledger_cap current' ?s2" using cap assms(2) by (simp add: ledger_cap_def)
  then show ?thesis using assms(3) long by (simp add: check_expiry_window_def iso_datetime_def dt_sub_def)
qed

lemma client_cap_passes_window_witness:
  "check_expiry_window buyer_lib ''E'' (Aware 11000000) 102 115 = Inr ()"
proof -
  have "last_ledger_sequence_from_expires buyer_lib 100 ''E'' (Aware 1000000) = Inr 115" by code_simp
  moreover have "lib_fromiso buyer_lib (iso_offset ''E'') = Some (Aware 60000000)" by code_simp
  ultimately show ?thesis using client_cap_passes_window [of buyer_lib 100 "''E''" 1000000 115 115 60000000 11000000 102] by simp
qed

section \<open>Redirects\<close>

text \<open>
  A payment credential stays with the resource it was signed for: when a request that carries one
  is sent for another resource (a redirect the outer client followed), the first message has no
  Payment-Authorization header and no Authorization header of the Payment scheme, whatever session
  headers are added.
\<close>

theorem credential_stays_with_resource:
  assumes "og_credential_key rq = Some signed_for" and "signed_for \<noteq> key"
  shows "hget_all (initial_headers T b key rq) payment_authorization_header = [] \<and>
    (case hget_joined (initial_headers T b key rq) ''Authorization'' of None \<Rightarrow> True | Some v \<Rightarrow> \<not> starts_with ''Payment '' v)"
proof -
  have names: "py_lower payment_authorization_header \<noteq> py_lower accept_payment_header"
    "py_lower payment_authorization_header \<noteq> py_lower channel_header" "py_lower payment_authorization_header \<noteq> py_lower cumulative_header"
    "py_lower ''Authorization'' \<noteq> py_lower accept_payment_header" "py_lower ''Authorization'' \<noteq> py_lower channel_header"
    "py_lower ''Authorization'' \<noteq> py_lower cumulative_header" "py_lower payment_authorization_header \<noteq> py_lower ''Authorization''"
    by code_simp+
  have same: "hget_all (initial_headers T b key rq) n = hget_all (drop_foreign_credential key rq) n"
    if "n = payment_authorization_header \<or> n = ''Authorization''" for n
    using that names by (auto simp: initial_headers_def add_session_headers_def Let_def hget_all_hset_other split: option.splits)
  show ?thesis using assms names(7)
    by (auto simp: same hget_joined_def drop_foreign_credential_def Let_def hget_all_hpop_same hget_all_hpop_other
        split: option.splits list.splits)
qed

lemma credential_stays_with_resource_witness:
  "hget_all (initial_headers buyer_transport buyer_start ''GET https://b/'' \<lparr>og_method = ''GET'',
       og_url = \<lparr>u_scheme = ''https'', u_netloc = ''b'', u_host = ''b'', u_path = ''/'', u_query = []\<rparr>,
       og_headers = [(''authorization'', ''Payment abc'')], og_body = [], og_retry = True,
       og_credential_key = Some ''GET https://a/''\<rparr>) payment_authorization_header = []"
  by (rule credential_stays_with_resource [where signed_for = "''GET https://a/''", THEN conjunct1]) simp_all

end
