(* ===== verification/Gateway.thy ===== *)
theory Gateway
  imports FacilitatorClient ChannelLedger Http
begin

text \<open>
  The facilitator as an HTTP service: gateway authentication (\<open>gateway_auth.py\<close>) and the
  application (\<open>create_app\<close> in \<open>factory.py\<close>) around the charge and session services,
  down to the JSON of its answers. FastAPI, the rate limiter and the JSON printer are parameters; an
  exception no handler catches is answered with status 500, as the ASGI server does.
\<close>

section \<open>Authentication\<close>

type_synonym 'w authenticator = "string \<Rightarrow> ('w, string) proc"

definition gateway_authentication_error :: exn where
  "gateway_authentication_error = OtherError ''GatewayAuthenticationError''"

definition default_single_gateway_id :: string where "default_single_gateway_id = ''default-gateway''"
definition active_gateway_status :: string where "active_gateway_status = ''active''"

definition hash_gateway_token :: "lib \<Rightarrow> string \<Rightarrow> string" where
  "hash_gateway_token L token = lib_sha256 L token"

definition single_token_authenticate :: "string \<Rightarrow> 'w authenticator" where
  "single_token_authenticate expected token = andthen (lift (compare_digest token expected)) (\<lambda>same.
     if same then ret default_single_gateway_id else fail gateway_authentication_error)"

definition hash_text :: "(string \<times> string) list \<Rightarrow> string \<Rightarrow> string" where
  "hash_text entries k = or_empty (map_of entries k)"

definition active_gateway :: "(string \<times> string) list \<Rightarrow> string res" where
  "active_gateway entries =
     (let gateway = py_strip (hash_text entries ''gateway_id'') in
      if entries = [] then Inl gateway_authentication_error
      else if py_lower (py_strip (hash_text entries ''status'')) \<noteq> active_gateway_status \<or> gateway = []
        then Inl gateway_authentication_error
      else Inr gateway)"

definition redis_authenticate :: "lib \<Rightarrow> (string \<Rightarrow> ('w, (string \<times> string) list) proc) \<Rightarrow> 'w authenticator" where
  "redis_authenticate L hgetall token =
     andthen (hgetall (''facilitator:gateway_token:'' @ hash_gateway_token L token)) (\<lambda>entries. lift (active_gateway entries))"

definition build_gateway_authenticator ::
  "lib \<Rightarrow> settings \<Rightarrow> (string \<Rightarrow> ('w, (string \<times> string) list) proc) \<Rightarrow> 'w authenticator" where
  "build_gateway_authenticator L C hgetall =
     (if se_auth_mode C = ''single_token'' then single_token_authenticate (or_empty (se_bearer_token C))
      else redis_authenticate L hgetall)"

section \<open>Requests and answers\<close>

record gateway_request =
  gq_method :: string
  gq_path :: string
  gq_headers :: "(string \<times> string) list"
  gq_body :: string
  gq_address :: string

record gateway_answer =
  ga_status :: int
  ga_headers :: "(string \<times> string) list"
  ga_json :: "json option"
  ga_text :: string

text \<open>
  \<open>gw_limiter\<close> tells whether a route's rate limit still admits a key; \<open>gw_framework\<close> is what
  FastAPI and the limiter answer by themselves: when reading the body raises, when it is no valid
  body of the route, when the limit is reached, and when no route matches. \<open>gw_text\<close> is
  \<open>str\<close> of an exception.
\<close>

datatype framework_event = Oversized | Unprocessable | RateLimited | Unrouted

record 'w gateway =
  gw_lib :: lib
  gw_settings :: settings
  gw_service :: "'w xrpl_service"
  gw_authenticate :: "'w authenticator"
  gw_limiter :: "string \<Rightarrow> string \<Rightarrow> ('w, bool) proc"
  gw_framework :: "framework_event \<Rightarrow> gateway_request \<Rightarrow> gateway_answer"
  gw_text :: "exn \<Rightarrow> string"
  gw_dump :: "json \<Rightarrow> string"
  gw_timestamp :: "'w \<Rightarrow> string"

definition json_answer :: "'w gateway \<Rightarrow> int \<Rightarrow> string \<Rightarrow> (string \<times> string) list \<Rightarrow> json \<Rightarrow> gateway_answer" where
  "json_answer G status content_type hs j = \<lparr>ga_status = status, ga_headers = (''content-type'', content_type) # hs,
     ga_json = Some j, ga_text = gw_dump G j\<rparr>"

definition detail_answer :: "'w gateway \<Rightarrow> int \<Rightarrow> (string \<times> string) list \<Rightarrow> string \<Rightarrow> gateway_answer" where
  "detail_answer G status hs detail = json_answer G status ''application/json'' hs (JObj [(''detail'', JStr detail)])"

definition unauthorized :: "'w gateway \<Rightarrow> gateway_answer" where
  "unauthorized G = detail_answer G 401 [(''www-authenticate'', ''Bearer'')] ''Invalid authentication credentials''"

definition body_too_large_answer :: "'w gateway \<Rightarrow> gateway_answer" where
  "body_too_large_answer G = detail_answer G 413 [] ''Request body too large''"

definition server_error :: gateway_answer where
  "server_error = \<lparr>ga_status = 500, ga_headers = [(''content-type'', ''text/plain; charset=utf-8'')], ga_json = None,
     ga_text = ''Internal Server Error''\<rparr>"

definition payment_problem :: "'w gateway \<Rightarrow> string \<Rightarrow> string \<Rightarrow> gateway_answer" where
  "payment_problem G detail cid = json_answer G 402 ''application/problem+json'' [] (JObj (problem_dict
     \<lparr>pb_type = ''https://paymentauth.org/problems/verification-failed'', pb_title = ''Payment verification failed'',
      pb_status = 402, pb_detail = detail, pb_challenge_id = Some cid, pb_payment_reference = None\<rparr>))"

definition pending_text :: "string \<Rightarrow> string" where
  "pending_text h = ''Payment '' @ h @ '' was submitted but has not reached validated settlement''"

definition settlement_pending_answer :: "'w gateway \<Rightarrow> string \<Rightarrow> string \<Rightarrow> gateway_answer" where
  "settlement_pending_answer G h cid = json_answer G 503 ''application/problem+json''
     [(''retry-after'', ''4''), (''cache-control'', ''private, no-store'')] (JObj (problem_dict
     \<lparr>pb_type = settlement_pending_problem_type, pb_title = ''Payment settlement pending'', pb_status = 503,
      pb_detail = pending_text h, pb_challenge_id = Some cid, pb_payment_reference = Some h\<rparr>))"

text \<open>The \<open>response_model\<close> of a receipt: every field by its alias, \<open>null\<close> where it is absent.\<close>

definition declared_body :: "payment_receipt \<Rightarrow> (string \<times> json) list" where
  "declared_body r =
     [(''status'', JStr ''success''), (''method'', JStr (pr_method r)), (''timestamp'', JStr (pr_timestamp r)),
      (''reference'', JStr (pr_reference r)), (''challengeId'', option_json (pr_challenge_id r)),
      (''network'', option_json (pr_network r)), (''payer'', option_json (pr_payer r)),
      (''recipient'', option_json (pr_recipient r)), (''invoiceId'', option_json (pr_invoice_id r)),
      (''channelId'', option_json (pr_channel_id r)), (''cumulative'', option_json (pr_cumulative r)),
      (''action'', option_json (pr_action r)), (''txHash'', option_json (pr_tx_hash r)),
      (''settlementStatus'', option_json (pr_settlement_status r))]"

definition receipt_body :: "payment_receipt \<Rightarrow> (string \<times> json) list" where
  "receipt_body r = declared_body r @ pr_extra r"

section \<open>The receipts of the service\<close>

definition charge_payment_receipt :: "string \<Rightarrow> charge_receipt \<Rightarrow> payment_receipt" where
  "charge_payment_receipt t r =
     \<lparr>pr_method = ''xrpl'', pr_timestamp = t, pr_reference = cp_tx_hash r, pr_challenge_id = Some (cp_challenge_id r),
      pr_network = Some (cp_network r), pr_payer = Some (cp_payer r), pr_recipient = Some (cp_recipient r),
      pr_invoice_id = Some (cp_invoice_id r), pr_channel_id = None, pr_cumulative = None, pr_action = None,
      pr_tx_hash = Some (cp_tx_hash r), pr_settlement_status = Some ''validated'', pr_extra = []\<rparr>"

definition session_payment_receipt :: "string \<Rightarrow> session_receipt \<Rightarrow> payment_receipt" where
  "session_payment_receipt t r =
     \<lparr>pr_method = ''xrpl'', pr_timestamp = t, pr_reference = sx_reference r, pr_challenge_id = Some (sx_challenge_id r),
      pr_network = Some (sx_network r), pr_payer = Some (sx_payer r), pr_recipient = Some (sx_recipient r),
      pr_invoice_id = None, pr_channel_id = Some (sx_channel_id r), pr_cumulative = Some (sx_cumulative r),
      pr_action = Some (sx_action r), pr_tx_hash = sx_tx_hash r,
      pr_settlement_status = (if or_empty (sx_tx_hash r) = [] then None else Some ''validated''), pr_extra = []\<rparr>"

definition serve_stage :: "'w gateway \<Rightarrow> string \<Rightarrow> payment_credential \<Rightarrow> ('w, payment_receipt) proc" where
  "serve_stage G stage cred =
     (if stage = ''charge'' then andthen (charge (xs_charge (gw_service G)) cred) (\<lambda>r.
        reading (\<lambda>w. ret (charge_payment_receipt (gw_timestamp G w) r)))
      else andthen (session (gw_service G) cred) (\<lambda>r.
        reading (\<lambda>w. ret (session_payment_receipt (gw_timestamp G w) r))))"

section \<open>The application\<close>

definition payment_endpoint_paths :: "string list" where
  "payment_endpoint_paths = [''/charge'', ''/session'']"

definition is_payment_request :: "gateway_request \<Rightarrow> bool" where
  "is_payment_request rq \<longleftrightarrow> gq_method rq = ''POST'' \<and> gq_path rq \<in> set payment_endpoint_paths"

text \<open>The token of an \<open>Authorization\<close> header; a scheme that is not ASCII raises.\<close>

definition bearer_token_of :: "(string \<times> string) list \<Rightarrow> string option res" where
  "bearer_token_of hs = (case or_empty (hget hs ''authorization'') of
     [] \<Rightarrow> Inr None
   | c # s \<Rightarrow> (case py_partition (CHR '' '') (c # s) of
       None \<Rightarrow> bind_res (compare_digest (py_lower (c # s)) ''bearer'') (\<lambda>_. Inr None)
     | Some (scheme, token) \<Rightarrow> bind_res (compare_digest (py_lower scheme) ''bearer'') (\<lambda>same.
         Inr (if same \<and> token \<noteq> [] then Some (py_strip token) else None))))"

definition request_context :: "'w gateway \<Rightarrow> gateway_request \<Rightarrow> ('w, string option) proc" where
  "request_context G rq =
     (if \<not> is_payment_request rq then ret None
      else andthen (lift (bearer_token_of (gq_headers rq))) (\<lambda>token. case token of
        None \<Rightarrow> ret None
      | Some t \<Rightarrow> except (andthen (gw_authenticate G t) (\<lambda>gateway. ret (Some gateway)))
          (\<lambda>e. if e = gateway_authentication_error then ret None else fail e)))"

text \<open>\<open>BodySizeLimitMiddleware\<close>: by the declared length, and by the bytes received.\<close>

definition declared_too_long :: "'w gateway \<Rightarrow> gateway_request \<Rightarrow> bool" where
  "declared_too_long G rq = (case hget (gq_headers rq) ''content-length'' of None \<Rightarrow> False
     | Some v \<Rightarrow> (case int_text v of None \<Rightarrow> False | Some n \<Rightarrow> se_max_body_bytes (gw_settings G) < n))"

definition received_too_long :: "'w gateway \<Rightarrow> gateway_request \<Rightarrow> bool" where
  "received_too_long G rq \<longleftrightarrow> se_max_body_bytes (gw_settings G) < int (length (gq_body rq))"

text \<open>The body models of the two routes: a credential and nothing else.\<close>

definition validate_credential_body :: "lib \<Rightarrow> json \<Rightarrow> payment_credential res" where
  "validate_credential_body L j = bind_res (as_dict j) (\<lambda>kvs.
     bind_res (bind_res (required (plain ''credential'') kvs) (validate_credential L)) (\<lambda>cred.
     bind_res (guard_res (no_extra [plain ''credential''] kvs) (ValidationError ''extra_forbidden'')) (\<lambda>_. Inr cred)))"

definition credential_body :: "lib \<Rightarrow> string \<Rightarrow> payment_credential option" where
  "credential_body L raw = (case lib_loads L raw of None \<Rightarrow> None
     | Some j \<Rightarrow> (case validate_credential_body L (collapse j) of Inl _ \<Rightarrow> None | Inr cred \<Rightarrow> Some cred))"

definition payment_rate_limit_key :: "string option \<Rightarrow> gateway_request \<Rightarrow> string" where
  "payment_rate_limit_key gateway rq =
     (if or_empty gateway = [] then ''ip:'' @ gq_address rq else ''gateway:'' @ or_empty gateway)"

definition on_service_error :: "'w gateway \<Rightarrow> string \<Rightarrow> exn \<Rightarrow> ('w, gateway_answer) proc" where
  "on_service_error G cid e = (case e of
     SettlementPending h \<Rightarrow> ret (settlement_pending_answer G h cid)
   | _ \<Rightarrow> if is_value_error e then ret (payment_problem G (gw_text G e) cid) else fail e)"

definition payment_route ::
  "'w gateway \<Rightarrow> string \<Rightarrow> string option \<Rightarrow> gateway_request \<Rightarrow> ('w, gateway_answer) proc" where
  "payment_route G stage gateway rq = (case credential_body (gw_lib G) (gq_body rq) of
     None \<Rightarrow> ret (gw_framework G Unprocessable rq)
   | Some cred \<Rightarrow> andthen (gw_limiter G stage (payment_rate_limit_key gateway rq)) (\<lambda>admitted.
       if \<not> admitted then ret (gw_framework G RateLimited rq)
       else if gateway = None then ret (unauthorized G)
       else except (andthen (serve_stage G stage cred) (\<lambda>r. ret (json_answer G 200 ''application/json'' [] (JObj (receipt_body r)))))
         (on_service_error G (pch_id (pcr_challenge cred)))))"

definition supported_body :: "supported_method list \<Rightarrow> json" where
  "supported_body ms = JObj [(''methods'', JArr (map (\<lambda>m. JObj [(''method'', JStr (sm_method m)),
     (''intents'', JArr (map JStr (sm_intents m))), (''network'', JStr (sm_network m)),
     (''currencies'', JArr (map JStr (sm_currencies m))), (''settlementMode'', JStr (sm_settlement_mode m))]) ms))]"

definition route_request :: "'w gateway \<Rightarrow> string option \<Rightarrow> gateway_request \<Rightarrow> ('w, gateway_answer) proc" where
  "route_request G gateway rq =
     (if is_payment_request rq then
        (if declared_too_long G rq then ret (body_too_large_answer G)
         else if received_too_long G rq then ret (gw_framework G Oversized rq)
         else payment_route G (tl (gq_path rq)) gateway rq)
      else if gq_path rq = ''/health'' \<and> gq_method rq = ''GET'' then
        ret (json_answer G 200 ''application/json'' [] (JObj [(''status'', JStr ''healthy''),
          (''network'', JStr (se_network (gw_settings G)))]))
      else if gq_path rq = ''/supported'' \<and> gq_method rq = ''GET'' then
        andthen (lift (supported_methods (cs_fac (xs_charge (gw_service G))))) (\<lambda>ms.
        ret (json_answer G 200 ''application/json'' [] (supported_body ms)))
      else ret (gw_framework G Unrouted rq))"

definition gateway_app :: "'w gateway \<Rightarrow> gateway_request \<Rightarrow> ('w, gateway_answer) proc" where
  "gateway_app G rq = except (andthen (request_context G rq) (\<lambda>gateway. route_request G gateway rq))
     (\<lambda>e. if is_exception e then ret server_error else fail e)"

section \<open>The wire between the middleware and the facilitator\<close>

text \<open>The middleware's HTTP client, connected to this application by a network that delivers.\<close>

definition reply_of :: "gateway_answer \<Rightarrow> http_reply" where
  "reply_of a = \<lparr>re_status = ga_status a, re_content_type = hget (ga_headers a) ''content-type'',
     re_retry_after = hget (ga_headers a) ''retry-after'', re_json = ga_json a, re_text = ga_text a\<rparr>"

definition wire_request :: "string \<Rightarrow> (json \<Rightarrow> string) \<Rightarrow> string \<Rightarrow> string \<Rightarrow> string \<Rightarrow> json option \<Rightarrow> bool \<Rightarrow> gateway_request" where
  "wire_request token dumps address verb path body auth = \<lparr>gq_method = verb, gq_path = path,
     gq_headers = (if auth then [(''authorization'', ''Bearer '' @ token)] else []),
     gq_body = (case body of None \<Rightarrow> [] | Some j \<Rightarrow> dumps j), gq_address = address\<rparr>"

definition wired_client :: "'w gateway \<Rightarrow> string \<Rightarrow> (json \<Rightarrow> string) \<Rightarrow> string \<Rightarrow> 'w http_client" where
  "wired_client G token dumps address = \<lparr>hc_request = (\<lambda>verb path body auth.
     andthen (gateway_app G (wire_request token dumps address verb path body auth)) (\<lambda>a. ret (reply_of a)))\<rparr>"

end
