(* ===== verification/GatewayProperties.thy ===== *)
theory GatewayProperties
  imports Gateway ChargeProperties
begin

text \<open>
  The facilitator behind its HTTP routes: who is served, what the middleware's client makes of every
  outcome of the service, and that the receipts the facilitator writes are the ones the client accepts.
\<close>

section \<open>Access\<close>

lemma same_context [simp]: "request_context (G\<lparr>gw_service := X\<rparr>) rq = request_context G rq"
  by (simp add: request_context_def)

lemma unauthenticated_route:
  assumes "is_payment_request rq"
  shows "route_request (G\<lparr>gw_service := X\<rparr>) None rq = route_request G None rq"
  using assms by (simp add: route_request_def payment_route_def declared_too_long_def received_too_long_def
      body_too_large_answer_def detail_answer_def json_answer_def unauthorized_def cong: if_cong option.case_cong)

text \<open>A request that presents no token the authenticator accepts has no gateway, or the answer 500.\<close>

lemma refused_context:
  assumes "gw_authenticate G = single_token_authenticate secret" and "bearer_token_of (gq_headers rq) \<noteq> Inr (Some secret)"
    and "request_context G rq w = (Inr gateway, w')"
  shows "gateway = None"
  using assms by (auto simp: request_context_def single_token_authenticate_def proc_iffs compare_digest_def
      split: if_splits option.splits)

text \<open>
  C26. Without the configured bearer token no payment reaches the service: the answer to such a
  request, and what it leaves behind, are the same whatever the service would have done, so no charge
  is validated, submitted or marked and no channel state is touched.
\<close>

theorem gateway_requires_token:
  assumes "is_payment_request rq" and "gw_authenticate G = single_token_authenticate secret"
    and "bearer_token_of (gq_headers rq) \<noteq> Inr (Some secret)"
  shows "gateway_app (G\<lparr>gw_service := X\<rparr>) rq w = gateway_app G rq w"
proof (cases "request_context G rq w")
  case (Pair r w')
  show ?thesis
  proof (cases r)
    case (Inl e)
    with Pair show ?thesis by (simp add: gateway_app_def except_def andthen_def)
  next
    case (Inr gateway)
    with Pair refused_context [OF assms(2,3)] have "request_context G rq w = (Inr None, w')" by blast
    with unauthenticated_route [OF assms(1), of X G] show ?thesis
      by (simp add: gateway_app_def except_def andthen_def)
  qed
qed

text \<open>A facilitator around the charge of \<open>ChargeDemo\<close>, behind the bearer token \<open>t\<close>.\<close>

definition demo_message :: json where
  "demo_message = JObj [(''credential'', JObj (credential_dict charge_credential))]"

definition demo_gateway :: "redis_client gateway" where
  "demo_gateway = \<lparr>gw_lib = charge_lib\<lparr>lib_loads := (\<lambda>s. if s = ''{}'' then Some charge_json else Some demo_message)\<rparr>,
     gw_settings = charge_settings, gw_service = \<lparr>xs_charge = charge_demo charge_answers, xs_session = None, xs_worker = None\<rparr>,
     gw_authenticate = single_token_authenticate ''t'', gw_limiter = (\<lambda>stage k. ret True),
     gw_framework = (\<lambda>e rq. server_error), gw_text = (\<lambda>e. ''refused''), gw_dump = (\<lambda>j. ''{}''), gw_timestamp = (\<lambda>w. ''E'')\<rparr>"

definition demo_knock :: gateway_request where
  "demo_knock = \<lparr>gq_method = ''POST'', gq_path = ''/charge'', gq_headers = [(''Authorization'', ''Bearer x'')],
     gq_body = ''{}'', gq_address = ''a''\<rparr>"

lemma demo_knock_refused: "is_payment_request demo_knock" "bearer_token_of (gq_headers demo_knock) \<noteq> Inr (Some ''t'')"
  "gw_authenticate demo_gateway = single_token_authenticate ''t''"
  by (code_simp, code_simp, simp add: demo_gateway_def)

lemma gateway_requires_token_witness:
  "gateway_app (demo_gateway\<lparr>gw_service := \<lparr>xs_charge = charge_demo (\<lambda>q. Inl (OtherError ''rpc'')), xs_session = None, xs_worker = None\<rparr>\<rparr>)
     demo_knock demo_start = gateway_app demo_gateway demo_knock demo_start"
  by (rule gateway_requires_token [OF demo_knock_refused(1,3,2)])

section \<open>Receipts on the wire\<close>

definition stripped :: "string option \<Rightarrow> bool" where
  "stripped x = (case x of None \<Rightarrow> True | Some s \<Rightarrow> pydantic_strip s = s)"

definition valid_receipt :: "lib \<Rightarrow> payment_receipt \<Rightarrow> bool" where
  "valid_receipt L r \<longleftrightarrow> list_all stripped [Some (pr_method r), Some (pr_timestamp r), Some (pr_reference r), pr_challenge_id r,
       pr_network r, pr_payer r, pr_recipient r, pr_invoice_id r, pr_channel_id r, pr_cumulative r, pr_tx_hash r]
     \<and> aware_timestamp L (pr_timestamp r) \<and> pr_action r \<in> {None, Some ''open'', Some ''voucher'', Some ''close''}
     \<and> pr_settlement_status r \<in> {None, Some ''validated''}
     \<and> fst ` set (pr_extra r) \<inter> set (map fst receipt_field_names) = {}"

lemma text_option_stripped: "text_option f kvs = Inr x \<Longrightarrow> stripped x"
  by (cases "optional f kvs") (auto simp: text_option_def opt_field_def stripped_str_def as_str_def stripped_def)

lemma text_option_json: "optional f kvs = option_json x \<Longrightarrow> stripped x \<Longrightarrow> text_option f kvs = Inr x"
  by (cases x) (auto simp: text_option_def option_json_def opt_field_def stripped_str_def as_str_def stripped_def)

lemma literal_option_json:
  "optional f kvs = option_json x \<Longrightarrow> (\<And>s. x = Some s \<Longrightarrow> s \<in> set allowed) \<Longrightarrow> opt_field (literal n allowed) (optional f kvs) = Inr x"
  by (cases x) (auto simp: option_json_def opt_field_def literal_def)

lemma opt_literal_Inr: "opt_field (literal n allowed) j = Inr x \<Longrightarrow> x = None \<or> (\<exists>s. x = Some s \<and> s \<in> set allowed)"
  by (cases j) (auto simp: opt_field_def res_iffs)

lemma receipt_body_used:
  "f \<in> set receipt_field_names \<Longrightarrow> used_key f (receipt_body r) = fst f"
  by (auto simp: receipt_field_names_def used_key_def receipt_body_def declared_body_def plain_def)

lemma receipt_body_gets:
  "optional (''challengeId'', ''challenge_id'') (receipt_body r) = option_json (pr_challenge_id r)"
  "optional (plain ''network'') (receipt_body r) = option_json (pr_network r)"
  "optional (plain ''payer'') (receipt_body r) = option_json (pr_payer r)"
  "optional (plain ''recipient'') (receipt_body r) = option_json (pr_recipient r)"
  "optional (''invoiceId'', ''invoice_id'') (receipt_body r) = option_json (pr_invoice_id r)"
  "optional (''channelId'', ''channel_id'') (receipt_body r) = option_json (pr_channel_id r)"
  "optional (plain ''cumulative'') (receipt_body r) = option_json (pr_cumulative r)"
  "optional (plain ''action'') (receipt_body r) = option_json (pr_action r)"
  "optional (''txHash'', ''tx_hash'') (receipt_body r) = option_json (pr_tx_hash r)"
  "optional (''settlementStatus'', ''settlement_status'') (receipt_body r) = option_json (pr_settlement_status r)"
  "required (plain ''status'') (receipt_body r) = Inr (JStr ''success'')"
  "required (plain ''method'') (receipt_body r) = Inr (JStr (pr_method r))"
  "required (plain ''timestamp'') (receipt_body r) = Inr (JStr (pr_timestamp r))"
  "required (plain ''reference'') (receipt_body r) = Inr (JStr (pr_reference r))"
  by (simp_all add: optional_def required_def dget_def used_key_def plain_def receipt_body_def declared_body_def)

lemma receipt_body_extra:
  assumes "fst ` set (pr_extra r) \<inter> set (map fst receipt_field_names) = {}"
  shows "extra_entries receipt_field_names (receipt_body r) = pr_extra r"
proof -
  have names: "set (map (\<lambda>f. used_key f (receipt_body r)) receipt_field_names) = set (map fst receipt_field_names)"
    using receipt_body_used [of _ r] by (auto simp: image_iff)
  have "filter (\<lambda>(k, _). k \<notin> set (map fst receipt_field_names)) (pr_extra r) = pr_extra r"
    using assms by (intro filter_True) force
  moreover have "map fst (declared_body r) = map fst receipt_field_names"
    by (simp add: declared_body_def receipt_field_names_def plain_def)
  then have "set (map fst (declared_body r)) = set (map fst receipt_field_names)" by (simp only:)
  then have "filter (\<lambda>(k, _). k \<notin> set (map fst receipt_field_names)) (declared_body r) = []"
    by (force simp: filter_empty_conv)
  ultimately have "filter (\<lambda>(k, _). k \<notin> set (map fst receipt_field_names)) (receipt_body r) = pr_extra r"
    by (simp add: receipt_body_def)
  then show ?thesis unfolding extra_entries_def names .
qed

lemma valid_receipt_decodes:
  assumes "valid_receipt L r" shows "validate_receipt L (JObj (receipt_body r)) = Inr r"
proof -
  have t: "receipt_timestamp L (JStr (pr_timestamp r)) = Inr (pr_timestamp r)"
    using assms by (simp add: valid_receipt_def receipt_timestamp_def stripped_str_def as_str_def stripped_def)
  have m: "stripped_str ''method'' (JStr (pr_method r)) = Inr (pr_method r)" "stripped_str ''reference'' (JStr (pr_reference r)) = Inr (pr_reference r)"
    "literal ''status'' [''success''] (JStr ''success'') = Inr ''success''"
    using assms by (simp_all add: valid_receipt_def stripped_str_def as_str_def stripped_def)
  have a: "opt_field (literal ''action'' [''open'', ''voucher'', ''close'']) (option_json (pr_action r)) = Inr (pr_action r)"
    "opt_field (literal ''settlementStatus'' [''validated'']) (option_json (pr_settlement_status r)) = Inr (pr_settlement_status r)"
    using assms by (auto simp: valid_receipt_def option_json_def opt_field_def literal_def)
  have s: "stripped (pr_challenge_id r)" "stripped (pr_network r)" "stripped (pr_payer r)" "stripped (pr_recipient r)"
    "stripped (pr_invoice_id r)" "stripped (pr_channel_id r)" "stripped (pr_cumulative r)" "stripped (pr_tx_hash r)"
    using assms by (simp_all add: valid_receipt_def)
  have extra: "extra_entries receipt_field_names (receipt_body r) = pr_extra r"
    using assms by (intro receipt_body_extra) (simp add: valid_receipt_def)
  show ?thesis
    by (simp add: validate_receipt_def as_dict_def receipt_body_gets text_option_json [OF receipt_body_gets(1) s(1)]
        text_option_json [OF receipt_body_gets(2) s(2)] text_option_json [OF receipt_body_gets(3) s(3)]
        text_option_json [OF receipt_body_gets(4) s(4)] text_option_json [OF receipt_body_gets(5) s(5)]
        text_option_json [OF receipt_body_gets(6) s(6)] text_option_json [OF receipt_body_gets(7) s(7)]
        text_option_json [OF receipt_body_gets(9) s(8)] t m a extra)
qed

lemma extra_entries_disjoint: "fst ` set (extra_entries known kvs) \<inter> set (map fst known) = {}"
proof -
  have "k \<noteq> fst f" if "(k, v) \<in> set (extra_entries known kvs)" "f \<in> set known" for k v f
  proof
    assume "k = fst f"
    with that(1) have "used_key f kvs = k" by (force simp: extra_entries_def used_key_def)
    with that show False by (force simp: extra_entries_def)
  qed
  then show ?thesis by fastforce
qed

lemma stripped_str_Inr: "stripped_str f j = Inr s \<Longrightarrow> pydantic_strip s = s"
  by (auto simp: stripped_str_def res_iffs)

lemma parsed_receipt_valid:
  assumes "validate_receipt L j = Inr r"
  shows "valid_receipt L r"
proof -
  have timestamp: "receipt_timestamp L v = Inr t \<Longrightarrow> aware_timestamp L t \<and> stripped (Some t)" for v t
    by (auto simp: receipt_timestamp_def stripped_def res_iffs dest: stripped_str_Inr split: if_splits)
  have texts: "stripped_str f v = Inr t \<Longrightarrow> stripped (Some t)" for f v t
    by (simp add: stripped_def stripped_str_Inr)
  have lits: "opt_field (literal ''action'' [''open'', ''voucher'', ''close'']) v = Inr a \<Longrightarrow> a \<in> {None, Some ''open'', Some ''voucher'', Some ''close''}"
    "opt_field (literal ''settlementStatus'' [''validated'']) v = Inr b \<Longrightarrow> b \<in> {None, Some ''validated''}" for v a b
    by (auto dest!: opt_literal_Inr)
  show ?thesis using assms unfolding validate_receipt_def bind_res_Inr_iff
    by (elim exE conjE) (drule sum.inject(2) [THEN iffD1], hypsubst, simp only: valid_receipt_def list.pred_inject payment_receipt.simps
      extra_entries_disjoint simp_thms, intro conjI, (erule texts text_option_stripped lits timestamp [THEN conjunct1] timestamp [THEN conjunct2])+)
qed

text \<open>
  C38. A receipt survives the facilitator's answer: what the response model writes of a valid receipt,
  with its nulls and extension fields, is read back by the client as the same receipt.
\<close>

theorem receipt_survives_answer:
  assumes "validate_receipt L j = Inr r"
  shows "validate_receipt L (JObj (receipt_body r)) = Inr r"
  by (rule valid_receipt_decodes [OF parsed_receipt_valid [OF assms]])

lemma receipt_survives_answer_witness:
  "\<exists>r. validate_receipt charge_lib (JObj [(''status'', JStr ''success''), (''method'', JStr ''xrpl''), (''timestamp'', JStr ''E''),
       (''reference'', JStr ''FF''), (''note'', JBool True)]) = Inr r \<and> validate_receipt charge_lib (JObj (receipt_body r)) = Inr r"
proof -
  have "is_ok (validate_receipt charge_lib (JObj [(''status'', JStr ''success''), (''method'', JStr ''xrpl''), (''timestamp'', JStr ''E''),
       (''reference'', JStr ''FF''), (''note'', JBool True)]))" by code_simp
  then show ?thesis by (rule is_okE) (intro exI conjI, assumption, erule receipt_survives_answer)
qed

section \<open>The middleware's client and the facilitator\<close>

abbreviation credential_message :: "payment_credential \<Rightarrow> json" where
  "credential_message cred \<equiv> JObj [(''credential'', JObj (credential_dict cred))]"

abbreviation submitted :: "string \<Rightarrow> (json \<Rightarrow> string) \<Rightarrow> string \<Rightarrow> string \<Rightarrow> payment_credential \<Rightarrow> gateway_request" where
  "submitted token dumps address stage cred \<equiv>
     wire_request token dumps address ''POST'' (''/'' @ stage) (Some (credential_message cred)) True"

text \<open>A submission the facilitator takes in: the token is known, the body fits, the rate limit admits it.\<close>

definition taken_in :: "'w gateway \<Rightarrow> string \<Rightarrow> (json \<Rightarrow> string) \<Rightarrow> string \<Rightarrow> string \<Rightarrow> payment_credential \<Rightarrow> 'w \<Rightarrow> 'w \<Rightarrow> bool" where
  "taken_in G token dumps address stage cred w w2 \<longleftrightarrow> stage \<in> {''charge'', ''session''} \<and> token \<noteq> [] \<and>
     int (length (dumps (credential_message cred))) \<le> se_max_body_bytes (gw_settings G) \<and>
     credential_body (gw_lib G) (dumps (credential_message cred)) = Some cred \<and>
     (\<exists>g w1. gw_authenticate G (py_strip token) w = (Inr g, w1) \<and>
        gw_limiter G stage (payment_rate_limit_key (Some g) (submitted token dumps address stage cred)) w1 = (Inr True, w2))"

lemma bearer_token_wire: "token \<noteq> [] \<Longrightarrow> bearer_token_of [(''authorization'', ''Bearer '' @ token)] = Inr (Some (py_strip token))"
proof -
  have "or_empty (hget [(''authorization'', ''Bearer '' @ token)] ''authorization'') = ''Bearer '' @ token"
    by (simp add: hget_def py_lower_def to_lower_def is_upper_def ch_def or_empty_def)
  moreover have "py_partition (CHR '' '') (''Bearer '' @ token) = Some (''Bearer'', token)"
    by (simp add: py_partition_def)
  moreover have "compare_digest (py_lower ''Bearer'') ''bearer'' = Inr True" by code_simp
  ultimately show "token \<noteq> [] \<Longrightarrow> ?thesis" by (simp add: bearer_token_of_def)
qed

definition service_answer :: "'w gateway \<Rightarrow> string \<Rightarrow> payment_credential \<Rightarrow> ('w, gateway_answer) proc" where
  "service_answer G stage cred = except (andthen (serve_stage G stage cred)
     (\<lambda>r. ret (json_answer G 200 ''application/json'' [] (JObj (receipt_body r)))))
     (\<lambda>e. except (on_service_error G (pch_id (pcr_challenge cred)) e) (\<lambda>e. if is_exception e then ret server_error else fail e))"

lemma gateway_serves:
  assumes "taken_in G token dumps address stage cred w w2"
  shows "gateway_app G (submitted token dumps address stage cred) w = service_answer G stage cred w2"
proof -
  let ?rq = "submitted token dumps address stage cred"
  from assms obtain g w1 where a: "gw_authenticate G (py_strip token) w = (Inr g, w1)"
      and l: "gw_limiter G stage (payment_rate_limit_key (Some g) ?rq) w1 = (Inr True, w2)" and stage: "stage \<in> {''charge'', ''session''}"
    and t: "token \<noteq> []" and body: "credential_body (gw_lib G) (gq_body ?rq) = Some cred" and fits: "\<not> received_too_long G ?rq"
    by (auto simp: taken_in_def wire_request_def received_too_long_def)
  have pay: "is_payment_request ?rq" using stage by (auto simp: is_payment_request_def wire_request_def payment_endpoint_paths_def)
  have short: "\<not> declared_too_long G ?rq" by (simp add: declared_too_long_def wire_request_def hget_def py_lower_def to_lower_def is_upper_def)
  have known: "request_context G ?rq w = (Inr (Some g), w1)"
    using pay a bearer_token_wire [OF t] by (simp add: request_context_def proc_simps wire_request_def)
  have "route_request G (Some g) ?rq w1 = payment_route G stage (Some g) ?rq w1"
    using pay short fits by (simp add: route_request_def) (simp add: wire_request_def)
  also have "\<dots> = except (andthen (serve_stage G stage cred) (\<lambda>r. ret (json_answer G 200 ''application/json'' [] (JObj (receipt_body r)))))
         (on_service_error G (pch_id (pcr_challenge cred))) w2"
    using body l by (simp add: payment_route_def proc_simps)
  finally show ?thesis using known unfolding gateway_app_def service_answer_def
    by (auto simp: proc_simps split: prod.splits sum.splits)
qed

lemma hget_answer:
  "hget ((''content-type'', c) # hs) ''content-type'' = Some c"
  "hget ((''content-type'', c) # hs) ''retry-after'' = hget hs ''retry-after''"
  "hget [(''retry-after'', v), (''cache-control'', u)] ''retry-after'' = Some v"
  by (simp_all add: hget_def py_lower_def to_lower_def is_upper_def ch_def)

lemma reply_fields:
  "re_status (reply_of (json_answer G st c hs j)) = st"
  "re_content_type (reply_of (json_answer G st c hs j)) = Some c"
  "re_retry_after (reply_of (json_answer G st c hs j)) = hget hs ''retry-after''"
  "re_json (reply_of (json_answer G st c hs j)) = Some j"
  by (simp_all add: reply_of_def json_answer_def hget_answer)

lemma problem_fields:
  "optional (''challengeId'', ''challenge_id'') (problem_dict p) = option_json (pb_challenge_id p)"
  "optional (''paymentReference'', ''payment_reference'') (problem_dict p) = option_json (pb_payment_reference p)"
  "required (plain ''type'') (problem_dict p) = Inr (JStr (pb_type p))"
  "required (plain ''title'') (problem_dict p) = Inr (JStr (pb_title p))"
  "required (plain ''status'') (problem_dict p) = Inr (JInt (pb_status p))"
  "required (plain ''detail'') (problem_dict p) = Inr (JStr (pb_detail p))"
  by (auto simp: optional_def required_def dget_def used_key_def plain_def problem_dict_def present_texts_def option_json_def
      split: option.split)

lemma problem_decodes:
  assumes "stripped (pb_challenge_id p)" and "stripped (pb_payment_reference p)"
  shows "validate_problem (JObj (problem_dict p)) = Inr (p\<lparr>pb_type := pydantic_strip (pb_type p),
     pb_title := pydantic_strip (pb_title p), pb_detail := pydantic_strip (pb_detail p)\<rparr>)"
  using assms
  by (simp add: validate_problem_def as_dict_def problem_fields text_option_json stripped_str_def as_str_def lax_int_def)

text \<open>A pending settlement is recognised when its reference is the one the client expects.\<close>

lemma pending_recognised:
  assumes "stripped (Some h)" and "safe_reference (Some h) = Some h" and "stripped (Some cid)" and "cid \<noteq> []"
  shows "\<exists>p. settlement_pending_error (reply_of (settlement_pending_answer G h cid)) (Some h) (Some cid)
      = Inr (Some (PendingSettlement p (Some ''4''))) \<and> pb_payment_reference p = Some h \<and> pb_challenge_id p = Some cid"
proof -
  let ?p = "\<lparr>pb_type = settlement_pending_problem_type, pb_title = ''Payment settlement pending'', pb_status = 503,
      pb_detail = pending_text h, pb_challenge_id = Some cid, pb_payment_reference = Some h\<rparr>"
  have kind: "pydantic_strip settlement_pending_problem_type = settlement_pending_problem_type" by code_simp
  have media: "py_lower (py_strip (upto_semicolon (or_empty (Some ''application/problem+json'')))) = ''application/problem+json''" by code_simp
  have retry: "safe_retry_after (Some ''4'') = Inr (Some ''4'')" by code_simp
  obtain q where q: "validate_problem (JObj (problem_dict ?p)) = Inr q" "pb_type q = settlement_pending_problem_type"
    "pb_status q = 503" "pb_challenge_id q = Some cid" "pb_payment_reference q = Some h"
    using problem_decodes [of ?p] assms(1,3) kind by simp
  show ?thesis using assms(2,4) q media retry
    by (simp add: settlement_pending_error_def settlement_pending_answer_def reply_fields hget_answer references_match_def
        pending_problem_def or_empty_def)
qed

lemma refused_recognised:
  "classify_reply stage ref c (reply_of (payment_problem G detail cid)) = Inl (FacilitatorFailure (PaymentRefused stage
     (or_text (py_strip detail) (or_text (py_strip (ga_text (payment_problem G detail cid))) ''unknown facilitator error'')) 402))"
proof -
  have detail: "dget (problem_dict \<lparr>pb_type = t, pb_title = ti, pb_status = st, pb_detail = detail, pb_challenge_id = ci, pb_payment_reference = pr\<rparr>)
      ''detail'' = JStr detail" for t ti st ci pr by (simp add: problem_dict_def dget_def)
  have absent: "detail = [] \<Longrightarrow> dget (problem_dict \<lparr>pb_type = t, pb_title = ti, pb_status = st, pb_detail = detail, pb_challenge_id = Some cid,
      pb_payment_reference = None\<rparr>) ''error'' = JNull" for t ti st by (simp add: problem_dict_def dget_def present_texts_def)
  let ?a = "payment_problem G detail cid"
  have st: "re_status (reply_of ?a) = 402" by (simp add: payment_problem_def reply_fields)
  have "extract_detail (reply_of ?a) = or_text (py_strip detail) (or_text (py_strip (ga_text ?a)) ''unknown facilitator error'')"
  proof -
    obtain body where body: "re_json (reply_of ?a) = Some (JObj body)" "dget body ''detail'' = JStr detail"
      "detail = [] \<Longrightarrow> dget body ''error'' = JNull"
      unfolding payment_problem_def reply_fields using detail absent by blast
    have "py_strip [] = []" by (simp add: py_strip_def strip_by_def)
    with body show ?thesis by (cases detail) (simp_all add: extract_detail_def Let_def or_text_def reply_of_def)
  qed
  with st show ?thesis by (simp add: classify_reply_def settlement_pending_error_def)
qed

lemma crash_recognised:
  "classify_reply stage ref c (reply_of server_error) = Inl (outcome_unknown ''Facilitator is unavailable'' ref)"
  by (simp add: classify_reply_def settlement_pending_error_def reply_of_def server_error_def)

lemma success_recognised:
  "classify_reply stage ref c (reply_of (json_answer G 200 t [] (JObj kvs))) = Inr kvs"
  by (simp add: classify_reply_def settlement_pending_error_def reply_fields)

lemma submit_runs:
  assumes "taken_in G token dumps address stage cred w w2"
  shows "submit_credential L (wired_client G token dumps address) stage cred w =
    (case service_answer G stage cred w2 of
       (Inl e, w3) \<Rightarrow> (Inl (transport_failure (credential_payment_reference L cred) e), w3)
     | (Inr a, w3) \<Rightarrow> (bind_res (classify_reply stage (credential_payment_reference L cred) (Some (pch_id (pcr_challenge cred))) (reply_of a))
         (parse_bound_receipt L cred), w3))"
  using gateway_serves [OF assms]
  by (simp add: submit_credential_def client_request_def wired_client_def proc_simps bind_res_def split: prod.splits sum.splits)

text \<open>
  C25. The middleware's client and the facilitator understand each other. For a submission the
  facilitator takes in, the client's result is decided by the outcome of the charge or session service:
  a receipt is returned when it is bound to the credential; a pending settlement for the payment the
  credential names arrives as pending, with that payment's reference and the facilitator's Retry-After;
  a refusal arrives as a refusal with its text; and any other failure as an unknown outcome, never as a
  refusal or a receipt.
\<close>

theorem client_sees_service_outcome:
  assumes "taken_in G token dumps address stage cred w w2"
    and "pydantic_strip (pch_id (pcr_challenge cred)) = pch_id (pcr_challenge cred)" and "pch_id (pcr_challenge cred) \<noteq> []"
  shows "case serve_stage G stage cred w2 of
      (Inr r, w3) \<Rightarrow> submit_credential L (wired_client G token dumps address) stage cred w = (parse_bound_receipt L cred (receipt_body r), w3)
    | (Inl e, w3) \<Rightarrow> (case e of
        SettlementPending h \<Rightarrow> pydantic_strip h = h \<and> safe_reference (Some h) = Some h \<and> credential_payment_reference L cred = Some h \<longrightarrow>
          (\<exists>p. submit_credential L (wired_client G token dumps address) stage cred w = (Inl (FacilitatorFailure (PendingSettlement p (Some ''4''))), w3) \<and>
             pb_payment_reference p = Some h \<and> pb_challenge_id p = Some (pch_id (pcr_challenge cred)))
      | _ \<Rightarrow> if is_value_error e then (\<exists>detail. submit_credential L (wired_client G token dumps address) stage cred w =
            (Inl (FacilitatorFailure (PaymentRefused stage detail 402)), w3) \<and> (py_strip (gw_text G e) \<noteq> [] \<longrightarrow> detail = py_strip (gw_text G e)))
          else is_exception e \<longrightarrow> submit_credential L (wired_client G token dumps address) stage cred w =
            (Inl (outcome_unknown ''Facilitator is unavailable'' (credential_payment_reference L cred)), w3))"
proof -
  let ?ref = "credential_payment_reference L cred" and ?cid = "pch_id (pcr_challenge cred)"
  note run = submit_runs [OF assms(1), of L]
  obtain r w3 where served: "serve_stage G stage cred w2 = (r, w3)" by fastforce
  show ?thesis
  proof (cases r)
    case (Inr x)
    then show ?thesis using served run
      by (simp add: service_answer_def proc_simps success_recognised)
  next
    case (Inl e)
    have refused: "\<exists>detail. submit_credential L (wired_client G token dumps address) stage cred w =
            (Inl (FacilitatorFailure (PaymentRefused stage detail 402)), w3) \<and> (py_strip (gw_text G e) \<noteq> [] \<longrightarrow> detail = py_strip (gw_text G e))"
      if "is_value_error e"
      using that served run Inl
      by (cases e) (simp_all add: service_answer_def proc_simps on_service_error_def refused_recognised or_text_def)
    have unknown: "submit_credential L (wired_client G token dumps address) stage cred w =
            (Inl (outcome_unknown ''Facilitator is unavailable'' ?ref), w3)"
      if "\<not> is_value_error e" "is_exception e" "\<forall>h. e \<noteq> SettlementPending h"
      using that served run Inl
      by (cases e) (simp_all add: service_answer_def proc_simps on_service_error_def crash_recognised)
    have pending: "\<exists>p. submit_credential L (wired_client G token dumps address) stage cred w = (Inl (FacilitatorFailure (PendingSettlement p (Some ''4''))), w3) \<and>
             pb_payment_reference p = Some h \<and> pb_challenge_id p = Some ?cid"
      if "e = SettlementPending h" "pydantic_strip h = h" "safe_reference (Some h) = Some h" "?ref = Some h" for h
      using that served run Inl assms(2,3) pending_recognised [of h ?cid G]
      by (auto simp: service_answer_def proc_simps on_service_error_def classify_reply_def stripped_def)
    show ?thesis using served Inl refused unknown pending by (cases e) simp_all
  qed
qed

abbreviation demo_dumps :: "json \<Rightarrow> string" where
  "demo_dumps \<equiv> (\<lambda>j. ''m'')"

lemma demo_taken_in: "taken_in demo_gateway ''t'' demo_dumps ''a'' ''charge'' charge_credential demo_start demo_start"
proof -
  have "credential_body (gw_lib demo_gateway) ''m'' = Some charge_credential" by code_simp
  moreover have "gw_authenticate demo_gateway (py_strip ''t'') demo_start = (Inr ''default-gateway'', demo_start)"
  proof -
    have "compare_digest (py_strip ''t'') ''t'' = Inr True" by code_simp
    then show ?thesis by (simp add: demo_gateway_def single_token_authenticate_def proc_simps default_single_gateway_id_def)
  qed
  moreover have "gw_limiter demo_gateway x y w = (Inr True, w)" for x y w by (simp add: demo_gateway_def ret_def)
  moreover have "se_max_body_bytes (gw_settings demo_gateway) = 100" by (simp add: demo_gateway_def charge_settings_def)
  ultimately show ?thesis by (simp add: taken_in_def)
qed

lemma client_sees_service_outcome_witness:
  "\<exists>r w3. serve_stage demo_gateway ''charge'' charge_credential demo_start = (Inr r, w3) \<and>
     submit_credential charge_lib (wired_client demo_gateway ''t'' demo_dumps ''a'') ''charge'' charge_credential demo_start =
       (parse_bound_receipt charge_lib charge_credential (receipt_body r), w3)"
proof -
  have cid: "pydantic_strip (pch_id (pcr_challenge charge_credential)) = pch_id (pcr_challenge charge_credential)"
    "pch_id (pcr_challenge charge_credential) \<noteq> []" by code_simp+
  obtain x w' where "charge (charge_demo charge_answers) charge_credential demo_start = (Inr x, w')"
    using charge_demo_runs by (rule is_ok_run)
  then have served: "serve_stage demo_gateway ''charge'' charge_credential demo_start = (Inr (charge_payment_receipt ''E'' x), w')"
    by (simp add: serve_stage_def demo_gateway_def proc_simps reading_def)
  show ?thesis using client_sees_service_outcome [OF demo_taken_in cid, of charge_lib] served by simp
qed

end
