(* ===== verification/Mcp.thy ===== *)
theory Mcp
  imports Receipt
begin

text \<open>
  The carriage of payments in MCP, the JSON-RPC protocol of tool servers (\<open>xrpl_mpp_mcp\<close>): the wire
  models, canonical JSON, the binding of a challenge to the operation it pays for, the \<open>_meta\<close> entries
  of a message, capabilities, the error responses and the decorator \<open>paid_operation\<close>. The payment
  processor and the paid handler are arguments.
\<close>

section \<open>Constants\<close>

definition credential_meta_key :: string where "credential_meta_key = ''org.paymentauth/credential''"
definition receipt_meta_key :: string where "receipt_meta_key = ''org.paymentauth/receipt''"
definition payment_capability_key :: string where "payment_capability_key = ''payment''"
definition tools_call :: string where "tools_call = ''tools/call''"
definition resources_read :: string where "resources_read = ''resources/read''"
definition prompts_get :: string where "prompts_get = ''prompts/get''"

definition paid_mcp_operations :: "string list" where
  "paid_mcp_operations = [tools_call, resources_read, prompts_get]"

datatype payment_error_code = PaymentRequired | PaymentVerificationFailed | InvalidParams | InternalError

definition error_code :: "payment_error_code \<Rightarrow> int" where
  "error_code c = (case c of PaymentRequired \<Rightarrow> - 32042 | PaymentVerificationFailed \<Rightarrow> - 32043
     | InvalidParams \<Rightarrow> - 32602 | InternalError \<Rightarrow> - 32603)"

text \<open>The exceptions of the package.\<close>

definition operation_binding_error :: "string \<Rightarrow> exn" where
  "operation_binding_error m = McpFailure (OperationBinding m)"

definition payment_metadata_error :: "string \<Rightarrow> exn" where
  "payment_metadata_error m = McpFailure (PaymentMetadata m)"

definition capability_error :: "string \<Rightarrow> exn" where
  "capability_error m = ValueError m"

section \<open>Wire models\<close>

text \<open>
  \<open>mpl_lib\<close> holds \<open>datetime.fromisoformat\<close> and the HMAC, \<open>mpl_digest\<close> is SHA-256 and
  \<open>mpl_repr\<close> is \<open>repr\<close> of a positive float.
\<close>

record mcp_lib =
  mpl_lib :: lib
  mpl_digest :: "string \<Rightarrow> string"
  mpl_repr :: "rat \<Rightarrow> string"

record mcp_challenge =
  mch_id :: string
  mch_realm :: string
  mch_method :: string
  mch_intent :: string
  mch_request :: "(string \<times> json) list"
  mch_expires :: "string option"
  mch_description :: "string option"
  mch_extra :: "(string \<times> json) list"

record mcp_credential =
  mcd_challenge :: mcp_challenge
  mcd_payload :: "(string \<times> json) list"
  mcd_source :: "string option"
  mcd_extra :: "(string \<times> json) list"

record mcp_receipt =
  mrc_method :: string
  mrc_timestamp :: string
  mrc_challenge_id :: string
  mrc_reference :: "string option"
  mrc_extra :: "(string \<times> json) list"

definition mcp_id :: "string \<Rightarrow> bool" where
  "mcp_id s \<longleftrightarrow> text_length s \<le> challenge_id_max_length \<and> nonblank s"

definition mcp_challenge_fields :: "(string \<times> string) list" where
  "mcp_challenge_fields = map plain [''id'', ''realm'', ''method'', ''intent'', ''request'', ''expires'', ''description'']"

definition validate_mcp_challenge :: "mcp_lib \<Rightarrow> (string \<times> json) list \<Rightarrow> mcp_challenge res" where
  "validate_mcp_challenge M kvs =
     bind_res (bind_res (required (plain ''id'') kvs) (checked ''id'' mcp_id)) (\<lambda>i.
     bind_res (bind_res (required (plain ''realm'') kvs) (checked ''realm'' nonblank)) (\<lambda>r.
     bind_res (bind_res (required (plain ''method'') kvs) (checked ''method'' method_text)) (\<lambda>m.
     bind_res (bind_res (required (plain ''intent'') kvs) (checked ''intent'' intent_text)) (\<lambda>n.
     bind_res (bind_res (required (plain ''request'') kvs) as_dict) (\<lambda>q.
     bind_res (opt_field (checked ''expires'' (aware_timestamp (mpl_lib M))) (dget kvs ''expires'')) (\<lambda>x.
     bind_res (opt_field (as_str ''description'') (dget kvs ''description'')) (\<lambda>t.
     Inr \<lparr>mch_id = i, mch_realm = r, mch_method = m, mch_intent = n, mch_request = q, mch_expires = x,
          mch_description = t, mch_extra = extra_entries mcp_challenge_fields kvs\<rparr>)))))))"

definition mcp_credential_fields :: "(string \<times> string) list" where
  "mcp_credential_fields = map plain [''challenge'', ''payload'', ''source'']"

definition validate_mcp_credential :: "mcp_lib \<Rightarrow> json \<Rightarrow> mcp_credential res" where
  "validate_mcp_credential M j = bind_res (as_dict j) (\<lambda>kvs.
     bind_res (bind_res (bind_res (required (plain ''challenge'') kvs) as_dict) (validate_mcp_challenge M)) (\<lambda>c.
     bind_res (bind_res (required (plain ''payload'') kvs) as_dict) (\<lambda>p.
     bind_res (opt_field (checked ''source'' nonblank) (dget kvs ''source'')) (\<lambda>s.
     Inr \<lparr>mcd_challenge = c, mcd_payload = p, mcd_source = s, mcd_extra = extra_entries mcp_credential_fields kvs\<rparr>))))"

definition mcp_receipt_fields :: "(string \<times> string) list" where
  "mcp_receipt_fields = [plain ''status'', plain ''method'', plain ''timestamp'', (''challengeId'', ''challenge_id''),
     plain ''reference'']"

text \<open>\<open>status\<close> defaults to the only value it can have.\<close>

definition default_status :: "(string \<times> json) list \<Rightarrow> string res" where
  "default_status kvs = (case map_of kvs ''status'' of
     None \<Rightarrow> Inr ''success'' | Some v \<Rightarrow> literal ''status'' [''success''] v)"

definition validate_mcp_receipt :: "mcp_lib \<Rightarrow> json \<Rightarrow> mcp_receipt res" where
  "validate_mcp_receipt M j = bind_res (as_dict j) (\<lambda>kvs.
     bind_res (default_status kvs) (\<lambda>_.
     bind_res (bind_res (required (plain ''method'') kvs) (checked ''method'' nonblank)) (\<lambda>m.
     bind_res (bind_res (required (plain ''timestamp'') kvs) (checked ''timestamp'' (aware_timestamp (mpl_lib M)))) (\<lambda>t.
     bind_res (bind_res (required (''challengeId'', ''challenge_id'') kvs) (checked ''challengeId'' nonblank)) (\<lambda>c.
     bind_res (opt_field (as_str ''reference'') (dget kvs ''reference'')) (\<lambda>r.
     Inr \<lparr>mrc_method = m, mrc_timestamp = t, mrc_challenge_id = c, mrc_reference = r,
          mrc_extra = extra_entries mcp_receipt_fields kvs\<rparr>))))))"

text \<open>\<open>model_dump(by_alias=True, exclude_none=True)\<close>.\<close>

definition present_extra :: "(string \<times> json) list \<Rightarrow> (string \<times> json) list" where
  "present_extra kvs = filter (\<lambda>(_, v). v \<noteq> JNull) kvs"

definition mcp_challenge_dict :: "mcp_challenge \<Rightarrow> (string \<times> json) list" where
  "mcp_challenge_dict c =
     [(''id'', JStr (mch_id c)), (''realm'', JStr (mch_realm c)), (''method'', JStr (mch_method c)),
      (''intent'', JStr (mch_intent c)), (''request'', JObj (mch_request c))]
     @ present_texts [(''expires'', mch_expires c), (''description'', mch_description c)]
     @ present_extra (mch_extra c)"

definition mcp_credential_dict :: "mcp_credential \<Rightarrow> (string \<times> json) list" where
  "mcp_credential_dict c =
     [(''challenge'', JObj (mcp_challenge_dict (mcd_challenge c))), (''payload'', JObj (mcd_payload c))]
     @ present_texts [(''source'', mcd_source c)] @ present_extra (mcd_extra c)"

definition mcp_receipt_dict :: "mcp_receipt \<Rightarrow> (string \<times> json) list" where
  "mcp_receipt_dict r =
     [(''status'', JStr ''success''), (''method'', JStr (mrc_method r)), (''timestamp'', JStr (mrc_timestamp r)),
      (''challengeId'', JStr (mrc_challenge_id r))]
     @ present_texts [(''reference'', mrc_reference r)] @ present_extra (mrc_extra r)"

section \<open>Canonical JSON\<close>

text \<open>
  \<open>value.encode("utf-16-be")\<close> as 16-bit units. A text that is no UTF-8 holds a lone surrogate.
\<close>

definition surrogates :: "int \<Rightarrow> int list" where
  "surrogates p = [55296 + (p - 65536) div 1024, 56320 + (p - 65536) mod 1024]"

definition low_bits :: "char \<Rightarrow> int \<Rightarrow> int" where
  "low_bits c base = int (ch c) - base"

fun utf16_units :: "string \<Rightarrow> int list option" where
  "utf16_units [] = Some []"
| "utf16_units (a # s) =
     (if ch a < 128 then map_option (\<lambda>u. int (ch a) # u) (utf16_units s)
      else (case s of [] \<Rightarrow> None | b # s2 \<Rightarrow>
        if utf8_lead2 a \<and> cont b then map_option (\<lambda>u. (low_bits a 192 * 64 + low_bits b 128) # u) (utf16_units s2)
        else (case s2 of [] \<Rightarrow> None | c # s3 \<Rightarrow>
          if utf8_lead3 a b \<and> cont c
            then map_option (\<lambda>u. (low_bits a 224 * 4096 + low_bits b 128 * 64 + low_bits c 128) # u) (utf16_units s3)
          else (case s3 of [] \<Rightarrow> None | d # s4 \<Rightarrow>
            if utf8_lead4 a b \<and> cont c \<and> cont d
              then map_option (\<lambda>u. surrogates (low_bits a 240 * 262144 + low_bits b 128 * 4096 + low_bits c 128 * 64 + low_bits d 128) @ u)
                (utf16_units s4)
            else None))))"

definition utf16_sort_key :: "string \<Rightarrow> int list res" where
  "utf16_sort_key s = (case utf16_units s of
     None \<Rightarrow> Inl (ValueError ''lone Unicode surrogates are not valid I-JSON'') | Some u \<Rightarrow> Inr u)"

definition canonical_string :: "string \<Rightarrow> string res" where
  "canonical_string s = bind_res (utf16_sort_key s) (\<lambda>_. Inr (json_string s))"

definition max_safe_integer :: int where "max_safe_integer = 9007199254740991"

text \<open>The rewriting of \<open>repr\<close> into ECMAScript's form of a number.\<close>

function trim_zeros :: "string \<Rightarrow> int \<Rightarrow> string \<times> int" where
  "trim_zeros digits e = (if 1 < length digits \<and> last digits = CHR ''0'' then trim_zeros (butlast digits) (e + 1) else (digits, e))"
  by auto
termination by (relation "measure (\<lambda>(d, e). length d)") auto

declare trim_zeros.simps [simp del]

definition render_number :: "string \<Rightarrow> int \<Rightarrow> string" where
  "render_number digits e = (let n = int (length digits); position = n + e in
     if n \<le> position \<and> position \<le> 21 then digits @ replicate (nat (position - n)) (CHR ''0'')
     else if 0 < position \<and> position \<le> 21 then take (nat position) digits @ ''.'' @ drop (nat position) digits
     else if - 6 < position \<and> position \<le> 0 then ''0.'' @ replicate (nat (- position)) (CHR ''0'') @ digits
     else take 1 digits @ (if 1 < n then ''.'' @ drop 1 digits else []) @ ''e'' @
       (if 0 \<le> position - 1 then ''+'' else []) @ py_str_int (position - 1))"

definition partition_at :: "char \<Rightarrow> string \<Rightarrow> string \<times> bool \<times> string" where
  "partition_at c s = (takeWhile (\<lambda>d. d \<noteq> c) s, c \<in> set s, tl (dropWhile (\<lambda>d. d \<noteq> c) s))"

definition ecmascript_text :: "string \<Rightarrow> string res" where
  "ecmascript_text raw = (case partition_at (CHR ''e'') raw of (mantissa, separator, exponent_text) \<Rightarrow>
     bind_res (if \<not> separator then Inr 0 else case int_text exponent_text of
         None \<Rightarrow> Inl (ValueError ''invalid literal for int()'') | Some e \<Rightarrow> Inr e) (\<lambda>exponent.
     case partition_at (CHR ''.'') mantissa of (before, point, after) \<Rightarrow>
       (case trim_zeros (dropWhile (\<lambda>c. c = CHR ''0'') (before @ after)) (exponent - (if point then int (length after) else 0)) of
          (digits, e) \<Rightarrow> Inr (render_number digits e))))"

definition ecmascript_number :: "mcp_lib \<Rightarrow> rat \<Rightarrow> string res" where
  "ecmascript_number M x = (if x = 0 then Inr ''0''
     else bind_res (ecmascript_text (py_lower (mpl_repr M \<bar>x\<bar>))) (\<lambda>t. Inr ((if x < 0 then ''-'' else []) @ t)))"

text \<open>The members of an object in the order of their UTF-16 keys.\<close>

definition utf16_members :: "(string \<times> 'a) list \<Rightarrow> (int list \<times> string \<times> 'a) list res" where
  "utf16_members kvs = list_field (\<lambda>(k, v). bind_res (utf16_sort_key k) (\<lambda>u. Inr (u, k, v))) kvs"

definition canonical_members :: "(string \<times> string res) list \<Rightarrow> string list res" where
  "canonical_members kvs = bind_res (utf16_members kvs) (\<lambda>sorted.
     list_field (\<lambda>(u, k, r). bind_res r (\<lambda>t. Inr (json_string k @ '':'' @ t))) (sort_key fst sorted))"

primrec canonical_json :: "mcp_lib \<Rightarrow> json \<Rightarrow> string res" where
  "canonical_json M JNull = Inr ''null''"
| "canonical_json M (JBool b) = Inr (if b then ''true'' else ''false'')"
| "canonical_json M (JInt i) = (if max_safe_integer < \<bar>i\<bar>
     then Inl (ValueError ''integers outside the I-JSON safe range are not canonicalizable'') else Inr (py_str_int i))"
| "canonical_json M (JFloat x) = ecmascript_number M x"
| "canonical_json M (JStr s) = canonical_string s"
| "canonical_json M (JArr js) = bind_res (list_field id (map (canonical_json M) js)) (\<lambda>ts.
     Inr (''['' @ py_join '','' ts @ '']''))"
| "canonical_json M (JObj kvs) = bind_res (canonical_members (map (map_prod id (canonical_json M)) kvs)) (\<lambda>ts.
     Inr (''{'' @ py_join '','' ts @ ''}''))"

section \<open>The operation a challenge pays for\<close>

record paid_operation_binding =
  pob_method :: string
  pob_target :: string
  pob_params :: "(string \<times> json) list"
  pob_digest :: string

text \<open>Membership of a decoded value in the set of operations: a container is not hashable.\<close>

definition is_supported_paid_operation :: "(string \<times> json) list \<Rightarrow> bool res" where
  "is_supported_paid_operation message = (case dget message ''method'' of
     JStr s \<Rightarrow> Inr (s \<in> set paid_mcp_operations)
   | JArr _ \<Rightarrow> Inl (TypeError ''unhashable type'') | JObj _ \<Rightarrow> Inl (TypeError ''unhashable type'')
   | _ \<Rightarrow> Inr False)"

definition should_drop_paid_notification :: "(string \<times> json) list \<Rightarrow> bool res" where
  "should_drop_paid_notification message =
     (if ''id'' \<in> fst ` set message then Inr False else is_supported_paid_operation message)"

definition clean_params :: "(string \<times> json) list \<Rightarrow> (string \<times> json) list res" where
  "clean_params params = (case dget params ''_meta'' of
     JNull \<Rightarrow> Inr params
   | JObj meta \<Rightarrow> (let rest = dpop credential_meta_key meta in
       Inr (if rest = [] then dpop ''_meta'' params else AList.update ''_meta'' (JObj rest) params))
   | _ \<Rightarrow> Inl (operation_binding_error ''params._meta must be a JSON object''))"

definition operation_json :: "string \<Rightarrow> (string \<times> json) list \<Rightarrow> json" where
  "operation_json verb params = JObj [(''method'', JStr verb), (''params'', JObj params)]"

definition mcp_digest :: "mcp_lib \<Rightarrow> json \<Rightarrow> string res" where
  "mcp_digest M j = bind_res (canonical_json M j) (\<lambda>t. Inr (b64_encode (mpl_digest M t)))"

definition operation_params :: "(string \<times> json) list \<Rightarrow> (string \<times> json) list res" where
  "operation_params message = (case map_of message ''params'' of None \<Rightarrow> Inr [] | Some (JObj kvs) \<Rightarrow> Inr kvs
     | _ \<Rightarrow> Inl (operation_binding_error ''params must be a JSON object''))"

definition build_operation_binding :: "mcp_lib \<Rightarrow> (string \<times> json) list \<Rightarrow> paid_operation_binding res" where
  "build_operation_binding M message =
     bind_res (is_supported_paid_operation message) (\<lambda>supported.
     bind_res (guard_res supported (operation_binding_error ''unsupported paid MCP operation'')) (\<lambda>_.
     bind_res (as_str ''method'' (dget message ''method'')) (\<lambda>verb.
     bind_res (operation_params message) (\<lambda>params.
     bind_res (clean_params params) (\<lambda>cleaned.
     let target_field = (if verb = resources_read then ''uri'' else ''name'') in
     case dget cleaned target_field of
       JStr target \<Rightarrow>
         if \<not> nonblank target then Inl (operation_binding_error (verb @ '' requires a non-empty params.'' @ target_field @ '' value''))
         else bind_res (mcp_digest M (operation_json verb cleaned)) (\<lambda>digest.
           Inr \<lparr>pob_method = verb, pob_target = target, pob_params = cleaned, pob_digest = digest\<rparr>)
     | _ \<Rightarrow> Inl (operation_binding_error (verb @ '' requires a non-empty params.'' @ target_field @ '' value'')))))))"

definition request_hash :: "mcp_lib \<Rightarrow> (string \<times> json) list \<Rightarrow> string res" where
  "request_hash M request = mcp_digest M (JObj request)"

definition bound_slots :: "string \<Rightarrow> string \<Rightarrow> string \<Rightarrow> string \<Rightarrow> string option \<Rightarrow> paid_operation_binding \<Rightarrow> string list" where
  "bound_slots realm pmethod intent hash expires operation =
     [realm, pmethod, intent, hash, or_empty expires, pob_method operation, pob_digest operation]"

definition build_bound_challenge_id ::
  "mcp_lib \<Rightarrow> string \<Rightarrow> string \<Rightarrow> string \<Rightarrow> string \<Rightarrow> (string \<times> json) list \<Rightarrow> paid_operation_binding \<Rightarrow> string option \<Rightarrow> string res" where
  "build_bound_challenge_id M secret realm pmethod intent request operation expires =
     bind_res (request_hash M request) (\<lambda>hash.
     Inr (b64_encode (lib_hmac (mpl_lib M) secret (py_join ''|'' (bound_slots realm pmethod intent hash expires operation)))))"

text \<open>\<open>MCPPaymentChallenge(...)\<close> validates what it is given.\<close>

definition build_bound_challenge ::
  "mcp_lib \<Rightarrow> string \<Rightarrow> string \<Rightarrow> string \<Rightarrow> string \<Rightarrow> (string \<times> json) list \<Rightarrow> paid_operation_binding \<Rightarrow> string option \<Rightarrow>
    string option \<Rightarrow> mcp_challenge res" where
  "build_bound_challenge M secret realm pmethod intent request operation expires description =
     bind_res (build_bound_challenge_id M secret realm pmethod intent request operation expires) (\<lambda>i.
     validate_mcp_challenge M [(''id'', JStr i), (''realm'', JStr realm), (''method'', JStr pmethod), (''intent'', JStr intent),
       (''request'', JObj request), (''expires'', option_json expires), (''description'', option_json description)])"

fun any_secret_binds :: "mcp_lib \<Rightarrow> string list \<Rightarrow> mcp_challenge \<Rightarrow> paid_operation_binding \<Rightarrow> bool res" where
  "any_secret_binds M [] c operation = Inr False"
| "any_secret_binds M (secret # rest) c operation =
     bind_res (build_bound_challenge_id M secret (mch_realm c) (mch_method c) (mch_intent c) (mch_request c) operation (mch_expires c)) (\<lambda>i.
     bind_res (compare_digest (mch_id c) i) (\<lambda>same. if same then Inr True else any_secret_binds M rest c operation))"

definition verify_bound_challenge :: "mcp_lib \<Rightarrow> mcp_challenge \<Rightarrow> paid_operation_binding \<Rightarrow> string list \<Rightarrow> bool res" where
  "verify_bound_challenge M c operation secrets = any_secret_binds M secrets c operation"

definition mcp_challenge_is_expired :: "mcp_lib \<Rightarrow> mcp_challenge \<Rightarrow> datetime \<Rightarrow> bool res" where
  "mcp_challenge_is_expired M c now = (case mch_expires c of None \<Rightarrow> Inr False
   | Some x \<Rightarrow> (case lib_fromiso (mpl_lib M) (iso_offset x) of
       None \<Rightarrow> Inl (ValueError ''Invalid isoformat string'') | Some t \<Rightarrow> dt_le t now))"

section \<open>Payment metadata\<close>

definition metadata_object :: "string \<Rightarrow> (string \<times> json) list \<Rightarrow> (string \<times> json) list option res" where
  "metadata_object label container = (case dget container ''_meta'' of
     JNull \<Rightarrow> Inr None | JObj kvs \<Rightarrow> Inr (Some kvs)
   | _ \<Rightarrow> Inl (payment_metadata_error (label @ ''._meta must be a JSON object'')))"

definition candidates_in :: "string \<Rightarrow> string \<Rightarrow> (string \<times> json) list \<Rightarrow> json list res" where
  "candidates_in label key container = bind_res (metadata_object label container) (\<lambda>meta.
     Inr (case Option.bind meta (\<lambda>kvs. map_of kvs key) of None \<Rightarrow> [] | Some v \<Rightarrow> [v]))"

definition nested_candidates :: "string \<Rightarrow> string \<Rightarrow> (string \<times> json) list \<Rightarrow> json list res" where
  "nested_candidates key nested message = (case dget message nested of
     JNull \<Rightarrow> Inr [] | JObj kvs \<Rightarrow> candidates_in nested key kvs
   | _ \<Rightarrow> Inl (payment_metadata_error (nested @ '' must be a JSON object for nested payment metadata'')))"

definition extract_value ::
  "string \<Rightarrow> string \<Rightarrow> (json \<Rightarrow> 'a res) \<Rightarrow> (string \<times> json) list \<Rightarrow> 'a option res" where
  "extract_value key nested validate message =
     bind_res (candidates_in ''message'' key message) (\<lambda>root.
     bind_res (nested_candidates key nested message) (\<lambda>inner. case root @ inner of
       [] \<Rightarrow> Inr None
     | first # others \<Rightarrow>
         bind_res (guard_res (list_all (\<lambda>j. py_eq j first) others)
           (payment_metadata_error (''conflicting '' @ key @ '' values in root and nested _meta''))) (\<lambda>_.
         case validate first of Inl _ \<Rightarrow> Inl (payment_metadata_error (key @ '' does not match the MPP schema''))
         | Inr x \<Rightarrow> Inr (Some x))))"

definition mcp_extract_credential :: "mcp_lib \<Rightarrow> (string \<times> json) list \<Rightarrow> mcp_credential option res" where
  "mcp_extract_credential M message = extract_value credential_meta_key ''params'' (validate_mcp_credential M) message"

definition extract_paid_operation_credential :: "mcp_lib \<Rightarrow> (string \<times> json) list \<Rightarrow> mcp_credential option res" where
  "extract_paid_operation_credential M message = bind_res (is_supported_paid_operation message) (\<lambda>supported.
     if supported then mcp_extract_credential M message else Inr None)"

definition mcp_extract_receipt :: "mcp_lib \<Rightarrow> (string \<times> json) list \<Rightarrow> mcp_receipt option res" where
  "mcp_extract_receipt M message = extract_value receipt_meta_key ''result'' (validate_mcp_receipt M) message"

datatype metadata_placement = Root | Nested

text \<open>\<open>setdefault\<close> keeps a value that is there, also \<open>None\<close>.\<close>

definition inject_meta :: "string \<Rightarrow> json \<Rightarrow> (string \<times> json) list \<Rightarrow> (string \<times> json) list res" where
  "inject_meta key serialized target = (case map_of target ''_meta'' of
     None \<Rightarrow> Inr (AList.update ''_meta'' (JObj [(key, serialized)]) target)
   | Some (JObj meta) \<Rightarrow> (case map_of meta key of
       None \<Rightarrow> Inr (AList.update ''_meta'' (JObj (AList.update key serialized meta)) target)
     | Some v \<Rightarrow> if py_eq v serialized then Inr (AList.update ''_meta'' (JObj (AList.update key serialized meta)) target)
         else Inl (payment_metadata_error (key @ '' is already present with another value'')))
   | Some _ \<Rightarrow> Inl (payment_metadata_error ''_meta must be a JSON object''))"

definition inject_value ::
  "string \<Rightarrow> json \<Rightarrow> metadata_placement \<Rightarrow> string \<Rightarrow> (string \<times> json) list \<Rightarrow> (string \<times> json) list res" where
  "inject_value key serialized placement nested message = (case placement of
     Root \<Rightarrow> inject_meta key serialized message
   | Nested \<Rightarrow> (case map_of message nested of
       None \<Rightarrow> bind_res (inject_meta key serialized []) (\<lambda>t. Inr (AList.update nested (JObj t) message))
     | Some (JObj kvs) \<Rightarrow> bind_res (inject_meta key serialized kvs) (\<lambda>t. Inr (AList.update nested (JObj t) message))
     | Some _ \<Rightarrow> Inl (payment_metadata_error (nested @ '' must be a JSON object for nested payment metadata''))))"

definition with_payment_credential ::
  "mcp_credential \<Rightarrow> metadata_placement \<Rightarrow> (string \<times> json) list \<Rightarrow> (string \<times> json) list res" where
  "with_payment_credential cred placement message =
     inject_value credential_meta_key (JObj (mcp_credential_dict cred)) placement ''params'' message"

definition with_payment_receipt ::
  "mcp_receipt \<Rightarrow> metadata_placement \<Rightarrow> (string \<times> json) list \<Rightarrow> (string \<times> json) list res" where
  "with_payment_receipt r placement message =
     inject_value receipt_meta_key (JObj (mcp_receipt_dict r)) placement ''result'' message"

section \<open>Capabilities\<close>

record method_capability =
  mcap_intents :: "string list"
  mcap_extra :: "(string \<times> json) list"

record payment_capabilities =
  pcap_methods :: "(string \<times> method_capability) list"
  pcap_extra :: "(string \<times> json) list"

definition validate_method_capability :: "json \<Rightarrow> method_capability res" where
  "validate_method_capability j = bind_res (as_dict j) (\<lambda>kvs.
     bind_res (required (plain ''intents'') kvs) (\<lambda>v. case v of
       JArr js \<Rightarrow> bind_res (list_field (as_str ''intents'') js) (\<lambda>intents.
         if intents \<noteq> [] \<and> distinct intents \<and> list_all intent_text intents
           then Inr \<lparr>mcap_intents = intents, mcap_extra = extra_entries [plain ''intents''] kvs\<rparr>
           else Inl (ValidationError ''intents''))
     | _ \<Rightarrow> Inl (ValidationError ''intents'')))"

definition validate_capabilities :: "json \<Rightarrow> payment_capabilities res" where
  "validate_capabilities j = bind_res (as_dict j) (\<lambda>kvs.
     bind_res (bind_res (required (plain ''methods'') kvs) as_dict) (\<lambda>ms.
     bind_res (list_field (\<lambda>(m, v). bind_res (validate_method_capability v) (\<lambda>c. Inr (m, c))) ms) (\<lambda>methods.
     if methods \<noteq> [] \<and> list_all method_text (map fst methods)
       then Inr \<lparr>pcap_methods = methods, pcap_extra = extra_entries [plain ''methods''] kvs\<rparr>
       else Inl (ValidationError ''methods''))))"

definition method_capability_dict :: "method_capability \<Rightarrow> json" where
  "method_capability_dict c = JObj ((''intents'', JArr (map JStr (mcap_intents c))) # present_extra (mcap_extra c))"

definition capabilities_dict :: "payment_capabilities \<Rightarrow> json" where
  "capabilities_dict c = JObj ((''methods'', JObj (map (map_prod id method_capability_dict) (pcap_methods c))) # present_extra (pcap_extra c))"

definition build_payment_capabilities :: "(string \<times> string list) list \<Rightarrow> payment_capabilities res" where
  "build_payment_capabilities methods = validate_capabilities (JObj [(''methods'',
     JObj (map (\<lambda>(m, intents). (m, JObj [(''intents'', JArr (map JStr intents))])) methods))])"

definition with_payment_capabilities :: "payment_capabilities \<Rightarrow> (string \<times> json) list \<Rightarrow> (string \<times> json) list res" where
  "with_payment_capabilities payment message =
     bind_res (case map_of message ''capabilities'' of None \<Rightarrow> Inr [] | Some (JObj kvs) \<Rightarrow> Inr kvs
       | _ \<Rightarrow> Inl (capability_error ''capabilities must be a JSON object'')) (\<lambda>capabilities.
     bind_res (case map_of capabilities ''experimental'' of None \<Rightarrow> Inr [] | Some (JObj kvs) \<Rightarrow> Inr kvs
       | _ \<Rightarrow> Inl (capability_error ''capabilities.experimental must be a JSON object'')) (\<lambda>experimental.
     Inr (AList.update ''capabilities'' (JObj (AList.update ''experimental''
       (JObj (AList.update payment_capability_key (capabilities_dict payment) experimental)) capabilities)) message)))"

definition extract_payment_capabilities :: "(string \<times> json) list \<Rightarrow> payment_capabilities option res" where
  "extract_payment_capabilities message = (case dget message ''capabilities'' of
     JNull \<Rightarrow> Inr None
   | JObj capabilities \<Rightarrow> (case dget capabilities ''experimental'' of
       JNull \<Rightarrow> Inr None
     | JObj experimental \<Rightarrow> (case dget experimental payment_capability_key of
         JNull \<Rightarrow> Inr None | payment \<Rightarrow> bind_res (validate_capabilities payment) (\<lambda>c. Inr (Some c)))
     | _ \<Rightarrow> Inl (capability_error ''capabilities.experimental must be a JSON object''))
   | _ \<Rightarrow> Inl (capability_error ''capabilities must be a JSON object''))"

section \<open>Error responses\<close>

definition challenge_data :: "mcp_challenge list \<Rightarrow> json res" where
  "challenge_data cs = (if cs = [] then Inl (ValueError ''at least one payment challenge is required'')
     else Inr (JArr (map (\<lambda>c. JObj (mcp_challenge_dict c)) cs)))"

definition error_response :: "json \<Rightarrow> payment_error_code \<Rightarrow> string \<Rightarrow> json \<Rightarrow> (string \<times> json) list" where
  "error_response request_id code message data = [(''jsonrpc'', JStr ''2.0''), (''id'', request_id),
     (''error'', JObj [(''code'', JInt (error_code code)), (''message'', JStr message), (''data'', data)])]"

record mcp_problem =
  mpb_type :: string
  mpb_title :: string
  mpb_status :: int
  mpb_detail :: string
  mpb_challenge_id :: "string option"
  mpb_extra :: "(string \<times> json) list"

definition mcp_problem_dict :: "mcp_problem \<Rightarrow> (string \<times> json) list" where
  "mcp_problem_dict p = [(''type'', JStr (mpb_type p)), (''title'', JStr (mpb_title p)), (''status'', JInt (mpb_status p)),
     (''detail'', JStr (mpb_detail p))] @ present_texts [(''challengeId'', mpb_challenge_id p)] @ present_extra (mpb_extra p)"

definition payment_required_response :: "json \<Rightarrow> mcp_challenge list \<Rightarrow> mcp_problem option \<Rightarrow> (string \<times> json) list res" where
  "payment_required_response request_id cs problem = bind_res (challenge_data cs) (\<lambda>data.
     Inr (error_response request_id PaymentRequired ''Payment Required'' (JObj ([(''httpStatus'', JInt 402), (''challenges'', data)]
       @ (case problem of None \<Rightarrow> [] | Some p \<Rightarrow> [(''problem'', JObj (mcp_problem_dict p))])))))"

definition verification_failed_response ::
  "json \<Rightarrow> mcp_challenge list \<Rightarrow> string option \<Rightarrow> string option \<Rightarrow> (string \<times> json) list res" where
  "verification_failed_response request_id cs reason detail = bind_res (challenge_data cs) (\<lambda>data.
     Inr (error_response request_id PaymentVerificationFailed ''Payment Verification Failed'' (JObj [(''httpStatus'', JInt 402),
       (''challenges'', data), (''failure'', JObj (present_texts [(''reason'', reason), (''detail'', detail)]))])))"

definition invalid_params_response :: "json \<Rightarrow> string \<Rightarrow> (string \<times> json) list" where
  "invalid_params_response request_id detail =
     error_response request_id InvalidParams ''Invalid params'' (JObj [(''detail'', JStr detail)])"

definition internal_payment_error_response :: "json \<Rightarrow> string \<Rightarrow> (string \<times> json) list" where
  "internal_payment_error_response request_id detail =
     error_response request_id InternalError ''Internal error'' (JObj [(''detail'', JStr detail)])"

section \<open>Paid operations\<close>

record paid_operation_context =
  poc_request_id :: json
  poc_operation :: paid_operation_binding
  poc_credential :: mcp_credential
  poc_receipt :: mcp_receipt

record 'w payment_processor =
  pp_create_challenges :: "paid_operation_binding \<Rightarrow> ('w, mcp_challenge list) proc"
  pp_validate_and_consume :: "mcp_credential \<Rightarrow> paid_operation_binding \<Rightarrow> ('w, mcp_receipt) proc"

type_synonym 'w paid_handler = "paid_operation_context \<Rightarrow> ('w, json) proc"
type_synonym rpc_answer = "(string \<times> json) list option"

definition processing_failed :: "json \<Rightarrow> ('w, rpc_answer) proc" where
  "processing_failed request_id = ret (Some (internal_payment_error_response request_id ''Payment processing failed''))"

text \<open>\<open>except Exception: return internal_payment_error_response(request_id)\<close>.\<close>

definition or_internal_error :: "json \<Rightarrow> exn \<Rightarrow> ('w, rpc_answer) proc" where
  "or_internal_error request_id e = (if is_exception e then processing_failed request_id else fail e)"

definition offer_payment :: "'w payment_processor \<Rightarrow> json \<Rightarrow> paid_operation_binding \<Rightarrow> ('w, rpc_answer) proc" where
  "offer_payment P request_id operation = except
     (andthen (pp_create_challenges P operation) (\<lambda>cs.
        andthen (lift (payment_required_response request_id cs None)) (\<lambda>r. ret (Some r))))
     (or_internal_error request_id)"

text \<open>\<open>try_result\<close> keeps the outcome of the guarded call apart from what follows it.\<close>

definition try_result :: "('w, 'a) proc \<Rightarrow> ('w, 'a res) proc" where
  "try_result p = except (andthen p (\<lambda>x. ret (Inr x))) (\<lambda>e. ret (Inl e))"

definition refuse_payment ::
  "'w payment_processor \<Rightarrow> json \<Rightarrow> paid_operation_binding \<Rightarrow> string option \<Rightarrow> string option \<Rightarrow> ('w, rpc_answer) proc" where
  "refuse_payment P request_id operation reason detail =
     andthen (try_result (pp_create_challenges P operation)) (\<lambda>made. case made of
       Inl e \<Rightarrow> or_internal_error request_id e
     | Inr cs \<Rightarrow> andthen (lift (verification_failed_response request_id cs reason detail)) (\<lambda>r. ret (Some r)))"

definition deliver_result :: "json \<Rightarrow> mcp_receipt \<Rightarrow> json \<Rightarrow> ('w, rpc_answer) proc" where
  "deliver_result request_id receipt result = (case result of
     JObj kvs \<Rightarrow> andthen (lift (with_payment_receipt receipt Nested
       [(''jsonrpc'', JStr ''2.0''), (''id'', request_id), (''result'', JObj kvs)])) (\<lambda>r. ret (Some r))
   | _ \<Rightarrow> ret (Some (internal_payment_error_response request_id ''Paid MCP handlers must return a JSON object'')))"

definition run_handler ::
  "'w paid_handler \<Rightarrow> json \<Rightarrow> paid_operation_binding \<Rightarrow> mcp_credential \<Rightarrow> mcp_receipt \<Rightarrow> ('w, rpc_answer) proc" where
  "run_handler handler request_id operation cred receipt =
     (if mrc_challenge_id receipt \<noteq> mch_id (mcd_challenge cred) \<or> mrc_method receipt \<noteq> mch_method (mcd_challenge cred)
        then processing_failed request_id
      else andthen (try_result (handler \<lparr>poc_request_id = request_id, poc_operation = operation,
          poc_credential = cred, poc_receipt = receipt\<rparr>)) (\<lambda>r. case r of
        Inl e \<Rightarrow> or_internal_error request_id e
      | Inr result \<Rightarrow> deliver_result request_id receipt result))"

definition take_payment ::
  "'w payment_processor \<Rightarrow> 'w paid_handler \<Rightarrow> json \<Rightarrow> paid_operation_binding \<Rightarrow> mcp_credential \<Rightarrow> ('w, rpc_answer) proc" where
  "take_payment P handler request_id operation cred =
     andthen (try_result (pp_validate_and_consume P cred operation)) (\<lambda>r. case r of
       Inl (McpFailure (CredentialMalformed m)) \<Rightarrow> ret (Some (invalid_params_response request_id m))
     | Inl (McpFailure (VerificationFailed reason detail)) \<Rightarrow> refuse_payment P request_id operation reason detail
     | Inl e \<Rightarrow> or_internal_error request_id e
     | Inr receipt \<Rightarrow> run_handler handler request_id operation cred receipt)"

text \<open>The two \<open>except\<close> clauses around the binding and the metadata.\<close>

definition invalid_params_on ::
  "json \<Rightarrow> 'a res \<Rightarrow> (exn \<Rightarrow> string option) \<Rightarrow> ('a \<Rightarrow> ('w, rpc_answer) proc) \<Rightarrow> ('w, rpc_answer) proc" where
  "invalid_params_on request_id r caught k = (case r of
     Inl e \<Rightarrow> (case caught e of Some m \<Rightarrow> ret (Some (invalid_params_response request_id m)) | None \<Rightarrow> fail e)
   | Inr x \<Rightarrow> k x)"

definition binding_detail :: "exn \<Rightarrow> string option" where
  "binding_detail e = (case e of McpFailure (OperationBinding m) \<Rightarrow> Some m | _ \<Rightarrow> None)"

definition metadata_detail :: "exn \<Rightarrow> string option" where
  "metadata_detail e = (case e of McpFailure (PaymentMetadata m) \<Rightarrow> Some m | _ \<Rightarrow> None)"

definition paid_operation ::
  "mcp_lib \<Rightarrow> 'w payment_processor \<Rightarrow> string option \<Rightarrow> 'w paid_handler \<Rightarrow> (string \<times> json) list \<Rightarrow> ('w, rpc_answer) proc" where
  "paid_operation M P expected_method handler message =
     andthen (lift (should_drop_paid_notification message)) (\<lambda>dropped.
     if dropped then ret None
     else let request_id = dget message ''id'' in
       invalid_params_on request_id (build_operation_binding M message) binding_detail (\<lambda>operation.
       if expected_method \<noteq> None \<and> expected_method \<noteq> Some (pob_method operation)
         then ret (Some (invalid_params_response request_id (''expected '' @ or_empty expected_method @ '', got '' @ pob_method operation)))
       else invalid_params_on request_id (extract_paid_operation_credential M message) metadata_detail (\<lambda>credential.
         case credential of None \<Rightarrow> offer_payment P request_id operation
         | Some cred \<Rightarrow> take_payment P handler request_id operation cred)))"

end
