(* ===== verification/CanonicalJson.thy ===== *)
theory CanonicalJson
  imports Mcp
begin

text \<open>
  Canonical JSON loses nothing: numbers keep their value when they are rewritten to ECMAScript's form,
  and two values with one canonical text are equal in Python's sense. This is what makes a digest over
  the canonical text a digest of the value.
\<close>

section \<open>Decimal numbers\<close>

lemma power_of_ten_powi: "power_of_ten e = 10 powi e"
  by (simp add: power_of_ten_def power_int_def field_simps)

lemma power_of_ten_add: "power_of_ten (a + b) = power_of_ten a * power_of_ten b"
  by (simp add: power_of_ten_powi power_int_add)

lemma power_of_ten_nat: "power_of_ten (int n) = 10 ^ n"
  by (simp add: power_of_ten_def)

lemma digits_nat_append: "digits_nat (a @ b) = digits_nat a * 10 ^ length b + digits_nat b"
proof (induction b rule: rev_induct)
  case (snoc c b)
  then show ?case using digits_nat_snoc [of "a @ b" c] digits_nat_snoc [of b c] by (simp add: algebra_simps)
qed simp

lemma digits_nat_Cons: "digits_nat (c # s) = digits_nat [c] * 10 ^ length s + digits_nat s"
  using digits_nat_append [of "[c]" s] by simp

lemma digits_nat_zero [simp]: "digits_nat [CHR ''0''] = 0"
  by (simp add: digits_nat_def ch_def)

lemma digits_nat_lead [simp]: "digits_nat (CHR ''0'' # s) = digits_nat s"
  using digits_nat_Cons [of "CHR ''0''" s] by simp

lemma digits_nat_zeros [simp]: "digits_nat (replicate k (CHR ''0'')) = 0"
  by (induction k) simp_all

lemma digits_nat_strip: "digits_nat (dropWhile (\<lambda>c. c = CHR ''0'') s) = digits_nat s"
  by (induction s) simp_all

text \<open>The value of a number text, by its parts.\<close>

definition exponent_of :: "string \<Rightarrow> int \<Rightarrow> bool" where
  "exponent_of tail e \<longleftrightarrow> tail = [] \<and> e = 0 \<or>
     (\<exists>x negative d. tail = CHR ''e'' # x \<and> py_sign x = (negative, d) \<and> is_ascii_digits d \<and> e = with_sign negative (py_int d))"

definition mantissa_text :: "string \<Rightarrow> bool \<Rightarrow> string \<Rightarrow> string" where
  "mantissa_text a point b = a @ (if point then CHR ''.'' # b else [])"

lemma digits_marks: "list_all is_digit s \<Longrightarrow> CHR ''e'' \<notin> set s \<and> CHR ''.'' \<notin> set s"
  using digits_no_mark by blast

lemma mantissa_no_e: "list_all is_digit a \<Longrightarrow> list_all is_digit b \<Longrightarrow> CHR ''e'' \<notin> set (mantissa_text a point b)"
  using digits_marks [of a] digits_marks [of b] by (auto simp: mantissa_text_def)

lemma take_to_e: "CHR ''e'' \<notin> set m \<Longrightarrow> exponent_of tail e \<Longrightarrow>
    takeWhile (\<lambda>c. c \<noteq> CHR ''e'') (m @ tail) = m \<and> dropWhile (\<lambda>c. c \<noteq> CHR ''e'') (m @ tail) = tail"
proof -
  assume m: "CHR ''e'' \<notin> set m" and e: "exponent_of tail e"
  have "takeWhile (\<lambda>c. c \<noteq> CHR ''e'') tail = []" "dropWhile (\<lambda>c. c \<noteq> CHR ''e'') tail = tail"
    using e by (auto simp: exponent_of_def)
  moreover have "\<And>c. c \<in> set m \<Longrightarrow> c \<noteq> CHR ''e''" using m by blast
  ultimately show ?thesis by (simp add: takeWhile_append2 dropWhile_append2)
qed

lemma decimal_parts:
  assumes "list_all is_digit a" "list_all is_digit b" "a @ b \<noteq> []" "point \<or> b = []" "exponent_of tail e"
  shows "decimal_number (mantissa_text a point b @ tail) = Some (of_int (py_int (a @ b)) * power_of_ten (e - int (length b)))"
proof -
  note cut = take_to_e [OF mantissa_no_e [OF assms(1,2), of point] assms(5)]
  have split: "py_split (CHR ''.'') (mantissa_text a point b) = (if point then [a, b] else [a])"
    using digits_marks [OF assms(1)] digits_marks [OF assms(2)]
    by (simp add: mantissa_text_def py_split_append py_split_no_sep)
  have exponent: "(if tail = [] then Some 0 else case py_sign (tl tail) of (negative, d) \<Rightarrow>
      if is_ascii_digits d then Some (with_sign negative (py_int d)) else None) = Some e"
    using assms(5) by (auto simp: exponent_of_def)
  show ?thesis unfolding decimal_number_def Let_def conjunct1 [OF cut] conjunct2 [OF cut] exponent split
    using assms(1-4) by (cases point) (auto simp: is_ascii_digits_def)
qed

lemma decimal_number_parts:
  assumes "decimal_number t = Some x"
  obtains a b point tail e where "t = mantissa_text a point b @ tail" "list_all is_digit a" "list_all is_digit b"
    "a @ b \<noteq> []" "point \<or> b = []" "exponent_of tail e"
proof -
  let ?m = "takeWhile (\<lambda>c. c \<noteq> CHR ''e'') t" and ?tail = "dropWhile (\<lambda>c. c \<noteq> CHR ''e'') t"
  have t: "t = ?m @ ?tail" by simp
  from assms obtain e where "(if ?tail = [] then Some 0 else case py_sign (tl ?tail) of (negative, d) \<Rightarrow>
      if is_ascii_digits d then Some (with_sign negative (py_int d)) else None) = Some e"
    by (auto simp: decimal_number_def Let_def split: list.splits option.splits)
  then have e: "exponent_of ?tail e"
    using hd_dropWhile [of "\<lambda>c. c \<noteq> CHR ''e''" t] by (cases ?tail) (auto simp: exponent_of_def split: if_splits prod.splits)
  from assms consider (whole) a where "py_split (CHR ''.'') ?m = [a]" "is_ascii_digits a"
    | (fraction) a b where "py_split (CHR ''.'') ?m = [a, b]" "is_ascii_digits (a @ b)"
    by (auto simp: decimal_number_def Let_def split: list.splits option.splits if_splits)
  then show thesis
  proof cases
    case whole
    then have "?m = a" using py_join_split [of "CHR ''.''" ?m] by simp
    with whole t show ?thesis by (intro that [of a False "[]" ?tail e] e) (simp_all add: mantissa_text_def is_ascii_digits_def)
  next
    case fraction
    then have "?m = a @ CHR ''.'' # b" using py_join_split [of "CHR ''.''" ?m] by simp
    with fraction t show ?thesis by (intro that [of a True b ?tail e] e) (auto simp: mantissa_text_def is_ascii_digits_def)
  qed
qed

section \<open>ECMAScript numbers\<close>

lemma trim_zeros_value:
  assumes "list_all is_digit ds" "ds \<noteq> []" "trim_zeros ds e = (ds', e')"
  shows "ds' \<noteq> [] \<and> list_all is_digit ds' \<and>
     of_nat (digits_nat ds') * power_of_ten e' = (of_nat (digits_nat ds) * power_of_ten e :: rat)"
  using assms
proof (induction ds e arbitrary: ds' e' rule: trim_zeros.induct)
  case (1 ds e)
  show ?case
  proof (cases "1 < length ds \<and> last ds = CHR ''0''")
    case True
    then have "length (butlast ds) \<noteq> 0" by simp
    then have split: "ds = butlast ds @ [CHR ''0'']" "butlast ds \<noteq> []"
      using True "1.prems"(2) append_butlast_last_id [of ds] by auto
    then have ok: "list_all is_digit (butlast ds)" using "1.prems"(1) by (metis list_all_append)
    have "digits_nat ds = digits_nat (butlast ds) * 10" using digits_nat_append [of "butlast ds" "[CHR ''0'']"] split(1) by simp
    then have "(of_nat (digits_nat ds) * power_of_ten e :: rat) = of_nat (digits_nat (butlast ds)) * power_of_ten (e + 1)"
      using power_of_ten_add [of e 1] by (simp add: power_of_ten_def [of 1])
    with "1.IH" [OF True ok split(2)] "1.prems"(3) True show ?thesis by (simp add: trim_zeros.simps [of ds])
  next
    case False
    then have "trim_zeros ds e = (ds, e)" by (subst trim_zeros.simps) auto
    with "1.prems" show ?thesis by simp
  qed
qed

lemma exponent_text:
  "exponent_of (''e'' @ (if 0 \<le> i then ''+'' else []) @ py_str_int i) i"
proof (cases "0 \<le> i")
  case True
  then show ?thesis
    by (auto simp: exponent_of_def py_str_int_def py_sign_def with_sign_def is_ascii_digits_def)
next
  case False
  then show ?thesis
    by (auto simp: exponent_of_def py_str_int_def py_sign_def with_sign_def is_ascii_digits_def)
qed

lemma no_exponent_part: "exponent_of [] 0"
  by (simp add: exponent_of_def)

lemma render_value:
  assumes "list_all is_digit ds" "ds \<noteq> []"
  shows "decimal_number (render_number ds e) = Some (of_nat (digits_nat ds) * power_of_ten e)"
proof -
  define n where "n = int (length ds)"
  define p where "p = n + e"
  have n: "1 \<le> n" using assms(2) by (cases ds) (auto simp: n_def)
  have zero: "list_all is_digit ''0''" "list_all is_digit (replicate k (CHR ''0''))" for k
    by (simp_all add: is_digit_def ch_def list_all_length)
  note parts = decimal_parts [OF _ _ _ _ no_exponent_part]
  consider (whole) "n \<le> p" "p \<le> 21" | (point) "\<not> (n \<le> p \<and> p \<le> 21)" "0 < p" "p \<le> 21"
    | (small) "- 6 < p" "p \<le> 0" | (scientific) "\<not> (n \<le> p \<and> p \<le> 21)" "\<not> (0 < p \<and> p \<le> 21)" "\<not> (- 6 < p \<and> p \<le> 0)" by blast
  then show ?thesis
  proof cases
    case whole
    then have k: "e = int (nat (p - n))" by (simp add: p_def)
    have r: "render_number ds e = mantissa_text (ds @ replicate (nat (p - n)) (CHR ''0'')) False [] @ []"
      using whole unfolding render_number_def Let_def n_def [symmetric] p_def [symmetric] by (auto simp: mantissa_text_def)
    show ?thesis unfolding r using assms zero
      by (subst parts) (simp_all add: py_int_def digits_nat_append k power_of_ten_nat del: int_nat_eq, simp add: power_of_ten_def)
  next
    case point
    then have len: "length ds - nat p = nat (n - p)" "nat p \<le> length ds" by (simp_all add: n_def)
    have r: "render_number ds e = mantissa_text (take (nat p) ds) True (drop (nat p) ds) @ []"
      using point unfolding render_number_def Let_def n_def [symmetric] p_def [symmetric] by (auto simp: mantissa_text_def)
    have e: "- int (length (drop (nat p) ds)) = e" using point len by (simp add: p_def n_def)
    have "list_all is_digit (take (nat p) ds)" "list_all is_digit (drop (nat p) ds)"
      using assms(1) append_take_drop_id [of "nat p" ds] by (metis list_all_append)+
    then show ?thesis unfolding r using assms(2) e
      by (subst parts) (simp_all add: py_int_def)
  next
    case small
    have r: "render_number ds e = mantissa_text ''0'' True (replicate (nat (- p)) (CHR ''0'') @ ds) @ []"
      using small n unfolding render_number_def Let_def n_def [symmetric] p_def [symmetric] by (auto simp: mantissa_text_def)
    have e: "- int (length (replicate (nat (- p)) (CHR ''0'') @ ds)) = e" using small by (simp add: p_def n_def)
    have v: "digits_nat (''0'' @ replicate (nat (- p)) (CHR ''0'') @ ds) = digits_nat ds"
      by (simp add: digits_nat_append)
    show ?thesis unfolding r using assms zero e v
      by (subst parts) (simp_all add: py_int_def)
  next
    case scientific
    let ?tail = "''e'' @ (if 0 \<le> p - 1 then ''+'' else []) @ py_str_int (p - 1)"
    have r: "render_number ds e = mantissa_text (take 1 ds) (1 < n) (drop 1 ds) @ ?tail"
      using scientific unfolding render_number_def Let_def n_def [symmetric] p_def [symmetric] by (auto simp: mantissa_text_def)
    have d: "list_all is_digit (take 1 ds)" "list_all is_digit (drop 1 ds)"
      using assms(1) append_take_drop_id [of 1 ds] by (metis list_all_append)+
    have b: "1 < n \<or> drop 1 ds = []" by (auto simp: n_def)
    have e: "p - 1 - int (length (drop 1 ds)) = e" using n by (simp add: p_def n_def)
    have "decimal_number (render_number ds e) =
        Some (of_int (py_int (take 1 ds @ drop 1 ds)) * power_of_ten (p - 1 - int (length (drop 1 ds))))"
      unfolding r using assms(2) by (intro decimal_parts d b exponent_text) simp
    then show ?thesis unfolding e append_take_drop_id by (simp add: py_int_def)
  qed
qed

text \<open>The rewriting keeps the value of every positive number.\<close>

lemma ecmascript_value:
  assumes "decimal_number raw = Some x" "0 < x" "ecmascript_text raw = Inr t"
  shows "decimal_number t = Some x"
proof -
  from assms(1) obtain a b point tail e where raw: "raw = mantissa_text a point b @ tail"
    and digits: "list_all is_digit a" "list_all is_digit b" "a @ b \<noteq> []" "point \<or> b = []" and e: "exponent_of tail e"
    by (rule decimal_number_parts)
  have x: "x = of_int (py_int (a @ b)) * power_of_ten (e - int (length b))"
    using assms(1) decimal_parts [OF digits e] raw by simp
  let ?ds = "dropWhile (\<lambda>c. c = CHR ''0'') (a @ b)"
  have nonzero: "digits_nat (a @ b) \<noteq> 0"
  proof
    assume "digits_nat (a @ b) = 0"
    with assms(2) x show False by (simp add: py_int_def)
  qed
  have ds: "list_all is_digit ?ds" "?ds \<noteq> []"
  proof -
    show "list_all is_digit ?ds" using digits(1,2) by (auto simp: list_all_iff dest!: set_dropWhileD)
    show "?ds \<noteq> []" using nonzero digits_nat_strip [of "a @ b"] by (metis digits_nat_Nil)
  qed
  note cut = take_to_e [OF mantissa_no_e [OF digits(1,2), of point] e]
  have fraction: "partition_at (CHR ''.'') (mantissa_text a point b) = (a, point, if point then b else [])"
    using digits_marks [OF digits(1)] digits_marks [OF digits(2)]
    by (auto simp: partition_at_def mantissa_text_def takeWhile_append2 dropWhile_append3 takeWhile_append dropWhile_append)
  have "bind_res (if \<not> CHR ''e'' \<in> set raw then Inr 0 else case int_text (tl tail) of
       None \<Rightarrow> Inl (ValueError ''invalid literal for int()'') | Some e \<Rightarrow> Inr e) (\<lambda>e.
       case trim_zeros ?ds (e - int (length b)) of (ds', e') \<Rightarrow> Inr (render_number ds' e')) = Inr t"
  proof -
    have "a @ (if point then b else []) = a @ b" "(if point then int (length (if point then b else [])) else 0) = int (length b)"
      using digits(4) by auto
    with assms(3) show ?thesis
      unfolding ecmascript_text_def partition_at_def [of "CHR ''e''"] prod.case raw conjunct1 [OF cut] conjunct2 [OF cut] fraction
      by (simp only: simp_thms)
  qed
  then obtain e1 where read: "(if \<not> CHR ''e'' \<in> set raw then Inr 0 else case int_text (tl tail) of
       None \<Rightarrow> Inl (ValueError ''invalid literal for int()'') | Some e \<Rightarrow> Inr e) = Inr e1"
    and rendered: "(case trim_zeros ?ds (e1 - int (length b)) of (ds', e') \<Rightarrow> Inr (render_number ds' e')) = (Inr t :: string res)"
    unfolding bind_res_Inr_iff by blast
  obtain ds' e' where trim: "trim_zeros ?ds (e1 - int (length b)) = (ds', e')" by fastforce
  with rendered have t: "t = render_number ds' e'" by simp
  have "e1 = e"
  proof (cases "tail = []")
    case True
    with e have "e = 0" "CHR ''e'' \<notin> set raw"
      using mantissa_no_e [OF digits(1,2), of point] raw by (auto simp: exponent_of_def)
    with read show ?thesis by simp
  next
    case False
    with e obtain s negative d where tail: "tail = CHR ''e'' # s" "py_sign s = (negative, d)" "is_ascii_digits d" "e = with_sign negative (py_int d)"
      by (auto simp: exponent_of_def)
    have "py_strip s = s"
    proof -
      have "set s \<subseteq> insert (CHR ''-'') (insert (CHR ''+'') (set d))"
        using tail(2) by (auto simp: py_sign_def split: list.splits if_splits)
      then show ?thesis unfolding py_strip_def using tail(3)
        by (intro strip_by_none) (fastforce simp: list_all_iff is_ascii_digits_def py_space_def is_digit_def ch_def)
    qed
    then have "int_text s = (if length d \<le> max_str_digits then Some e else None)"
      using tail by (simp add: int_text_def is_ascii_digits_def grouped_plain bare_digits_digits)
    with read raw tail(1) show ?thesis by (auto split: if_splits)
  qed
  then have "of_nat (digits_nat ds') * power_of_ten e' = x" "ds' \<noteq> []" "list_all is_digit ds'"
    using trim_zeros_value [OF ds trim] x digits_nat_strip [of "a @ b"] by (simp_all add: py_int_def)
  then show ?thesis unfolding t by (simp add: render_value)
qed

section \<open>Strings\<close>

lemma hex_digit_inject: "a < 16 \<Longrightarrow> b < 16 \<Longrightarrow> hex_digit a = hex_digit b \<longleftrightarrow> a = b"
proof -
  assume ab: "a < 16" "b < 16"
  have "ch (hex_digit d) = (if d < 10 then 48 + d else 87 + d)" if "d < 16" for d
    using that by (simp add: hex_digit_def)
  note codes = this [OF ab(1)] this [OF ab(2)]
  show ?thesis
  proof
    assume "hex_digit a = hex_digit b"
    then have "(if a < 10 then 48 + a else 87 + a) = (if b < 10 then 48 + b else 87 + b)" using codes by metis
    with ab show "a = b" by (simp split: if_splits)
  qed simp
qed

lemma backslash_char: "char_of (92::nat) = CHR 0x5C"
  by code_simp

lemma escape_head: "json_escape_char c \<noteq> [] \<and> hd (json_escape_char c) \<noteq> CHR 0x22"
proof -
  have "ch (CHR 0x22) = 34" by (simp add: ch_def)
  then show ?thesis by (auto simp: json_escape_char_def backslash_char)
qed

lemma control_digits: "ch c < 32 \<Longrightarrow> ch d < 32 \<Longrightarrow> ch c div 16 = ch d div 16 \<Longrightarrow> ch c mod 16 = ch d mod 16 \<Longrightarrow> c = d"
  by (metis ch_inject div_mult_mod_eq)

lemma escape_plain: "\<not> (ch c = 34 \<or> ch c = 92 \<or> ch c < 32) \<Longrightarrow> json_escape_char c = [c]"
  by (simp add: json_escape_char_def)

definition escape_code :: "char \<Rightarrow> string" where
  "escape_code c = (if ch c = 34 then [CHR 0x22] else if ch c = 92 then [CHR 0x5C] else if ch c = 10 then ''n''
     else if ch c = 13 then ''r'' else if ch c = 9 then ''t'' else if ch c = 12 then ''f'' else if ch c = 8 then ''b''
     else ''u00'' @ [hex_digit (ch c div 16), hex_digit (ch c mod 16)])"

lemma escape_special: "ch c = 34 \<or> ch c = 92 \<or> ch c < 32 \<Longrightarrow> json_escape_char c = CHR 0x5C # escape_code c"
  by (auto simp: json_escape_char_def escape_code_def backslash_char)

lemma escape_code_prefix:
  assumes "ch c = 34 \<or> ch c = 92 \<or> ch c < 32" "ch d = 34 \<or> ch d = 92 \<or> ch d < 32" "escape_code c @ x = escape_code d @ y"
  shows "c = d \<and> x = y"
proof -
  have "ch c div 16 < 16" "ch d div 16 < 16" "ch c mod 16 < 16" "ch d mod 16 < 16" using ch_less [of c] ch_less [of d] by linarith+
  note inject = hex_digit_inject [OF this(1,2)] hex_digit_inject [OF this(3,4)]
  have "ch c = ch d \<or> ch c < 32 \<and> ch d < 32 \<and> hex_digit (ch c div 16) = hex_digit (ch d div 16) \<and> hex_digit (ch c mod 16) = hex_digit (ch d mod 16)"
    using assms by (auto simp: escape_code_def split: if_splits)
  then have "c = d" using inject control_digits by (auto simp: ch_inject)
  with assms(3) show ?thesis by simp
qed

lemma escape_prefix: "json_escape_char c @ x = json_escape_char d @ y \<Longrightarrow> c = d \<and> x = y"
proof -
  assume eq: "json_escape_char c @ x = json_escape_char d @ y"
  have bs: "ch (CHR 0x5C) = 92" by (simp add: ch_def)
  show ?thesis
  proof (cases "ch c = 34 \<or> ch c = 92 \<or> ch c < 32"; cases "ch d = 34 \<or> ch d = 92 \<or> ch d < 32")
    assume "ch c = 34 \<or> ch c = 92 \<or> ch c < 32" "ch d = 34 \<or> ch d = 92 \<or> ch d < 32"
    with eq show ?thesis using escape_code_prefix [of c d x y] by (simp add: escape_special)
  qed (use eq bs in \<open>auto simp: escape_special escape_plain\<close>)
qed

lemma json_string_unique: "json_string s @ u = json_string t @ v \<Longrightarrow> s = t \<and> u = v"
proof -
  have "concat (map json_escape_char s) @ CHR 0x22 # u = concat (map json_escape_char t) @ CHR 0x22 # v \<Longrightarrow> s = t \<and> u = v"
  proof (induction s arbitrary: t)
    case Nil
    then show ?case
    proof (cases t)
      case (Cons d t')
      with Nil escape_head [of d] show ?thesis by (cases "json_escape_char d") auto
    qed simp
  next
    case (Cons c s)
    note outer = Cons
    show ?case
    proof (cases t)
      case Nil
      with outer(2) escape_head [of c] show ?thesis by (cases "json_escape_char c") auto
    next
      case (Cons d t')
      with outer(2) escape_prefix [of c _ d] have "c = d"
        "concat (map json_escape_char s) @ CHR 0x22 # u = concat (map json_escape_char t') @ CHR 0x22 # v" by auto
      with outer(1) Cons show ?thesis by blast
    qed
  qed
  then show "json_string s @ u = json_string t @ v \<Longrightarrow> ?thesis" by (simp add: json_string_def)
qed

section \<open>Numbers\<close>

definition num_char :: "char \<Rightarrow> bool" where
  "num_char c \<longleftrightarrow> is_digit c \<or> c \<in> {CHR ''+'', CHR ''-'', CHR ''.'', CHR ''e''}"

lemma decimal_chars:
  assumes "decimal_number t = Some x"
  shows "t \<noteq> [] \<and> list_all num_char t \<and> hd t \<noteq> CHR ''-'' \<and> hd t \<noteq> CHR ''+''"
proof -
  from assms obtain a b point tail e where t: "t = mantissa_text a point b @ tail" and digits: "list_all is_digit a" "list_all is_digit b"
    "a @ b \<noteq> []" "point \<or> b = []" and e: "exponent_of tail e" by (rule decimal_number_parts)
  have d: "list_all num_char s" if "list_all is_digit s" for s using that by (auto simp: list_all_iff num_char_def)
  have "list_all num_char tail"
  proof -
    have "set x \<subseteq> insert (CHR ''-'') (insert (CHR ''+'') (set d))" if "py_sign x = (negative, d)" for x negative d
      using that by (auto simp: py_sign_def split: list.splits if_splits)
    with e show ?thesis by (fastforce simp: exponent_of_def list_all_iff num_char_def is_ascii_digits_def)
  qed
  moreover have "list_all num_char (mantissa_text a point b)"
    using d [OF digits(1)] d [OF digits(2)] by (auto simp: mantissa_text_def num_char_def)
  moreover have "mantissa_text a point b \<noteq> []" "hd (mantissa_text a point b) \<noteq> CHR ''-''" "hd (mantissa_text a point b) \<noteq> CHR ''+''"
    using digits by (cases a; auto simp: mantissa_text_def is_digit_def ch_def)+
  ultimately show ?thesis unfolding t by simp
qed

lemma fl_of_int:
  assumes "\<bar>i\<bar> \<le> max_safe_integer"
  shows "fl (of_int i) = of_int i"
proof (cases "i = 0")
  case False
  let ?x = "of_int i :: rat"
  have "\<bar>?x\<bar> < 2 ^ 53" using assms by (simp add: max_safe_integer_def)
  moreover have "2 powi ilog2 \<bar>?x\<bar> \<le> \<bar>?x\<bar>" using False by (intro ilog2_bounds) simp
  ultimately have "(2::rat) powi ilog2 \<bar>?x\<bar> < 2 powi 53" by simp
  then have "ilog2 \<bar>?x\<bar> < 53"
    using power_int_increasing [of 53 "ilog2 \<bar>?x\<bar>" "2::rat"] by linarith
  then obtain k where k: "ilog2 \<bar>?x\<bar> - 52 = - int k" by (auto intro: that [of "nat (52 - ilog2 \<bar>?x\<bar>)"])
  have e: "(2::rat) powi (- int k) = 1 / 2 ^ k" by (simp add: power_int_minus field_simps)
  have "?x / (1 / 2 ^ k) = of_int (i * 2 ^ k)" by simp
  then have "round_even (?x / (1 / 2 ^ k)) = i * 2 ^ k" by (simp only: round_even_of_int)
  then show ?thesis unfolding fl_def Let_def k e using False by simp
qed (simp add: fl_def)

text \<open>
  What \<open>repr\<close> is documented to do for a finite float: a decimal text that the nearest float reads
  back.
\<close>

definition float_ok :: "mcp_lib \<Rightarrow> rat \<Rightarrow> bool" where
  "float_ok M x \<longleftrightarrow> x = 0 \<or> (case decimal_number (py_lower (mpl_repr M \<bar>x\<bar>)) of None \<Rightarrow> False | Some y \<Rightarrow> fl y = \<bar>x\<bar>)"

definition read_number :: "string \<Rightarrow> rat option" where
  "read_number t = (case py_sign t of (negative, d) \<Rightarrow>
     map_option (\<lambda>y. if negative then - fl y else fl y) (decimal_number d))"

lemma read_decimal: "decimal_number t = Some y \<Longrightarrow> read_number t = Some (fl y)"
  using decimal_chars [of t y] by (cases t) (auto simp: read_number_def py_sign_def)

lemma read_negative: "decimal_number t = Some y \<Longrightarrow> read_number (CHR ''-'' # t) = Some (- fl y)"
  by (simp add: read_number_def py_sign_def)

lemma decimal_show_nat: "decimal_number (show_nat n) = Some (of_nat n)"
  using decimal_parts [of "show_nat n" "[]" False "[]" 0]
  by (simp add: no_exponent_part mantissa_text_def power_of_ten_def)

lemma canonical_number:
  assumes "canonical_json M j = Inr t" "number_of j \<noteq> None" "\<forall>b. j \<noteq> JBool b" "\<forall>x. j = JFloat x \<longrightarrow> float_ok M x"
  shows "t \<noteq> [] \<and> list_all num_char t \<and> read_number t = number_of j"
proof (cases j)
  case (JInt i)
  with assms(1) have t: "t = py_str_int i" and i: "\<bar>i\<bar> \<le> max_safe_integer" by (auto split: if_splits)
  have "fl (of_nat (nat \<bar>i\<bar>)) = \<bar>of_int i\<bar>"
    using fl_of_int [of "\<bar>i\<bar>"] i by simp
  then show ?thesis
    using JInt t decimal_chars [OF decimal_show_nat [of "nat \<bar>i\<bar>"]] read_decimal [OF decimal_show_nat [of "nat i"]]
      read_negative [OF decimal_show_nat [of "nat (- i)"]]
    by (cases "i < 0") (auto simp: py_str_int_def number_of_def num_char_def)
next
  case (JFloat x)
  show ?thesis
  proof (cases "x = 0")
    case True
    with JFloat assms(1) have t: "t = ''0''" by (simp add: ecmascript_number_def)
    have "show_nat 0 = ''0''" by code_simp
    with read_decimal [OF decimal_show_nat [of 0]] decimal_chars [OF decimal_show_nat [of 0]] True JFloat t
    show ?thesis by (simp add: number_of_def)
  next
    case False
    with JFloat assms(1) obtain d where d: "ecmascript_text (py_lower (mpl_repr M \<bar>x\<bar>)) = Inr d"
      and t: "t = (if x < 0 then ''-'' else []) @ d" by (auto simp: ecmascript_number_def bind_res_Inr_iff)
    from assms(4) JFloat False obtain y where y: "decimal_number (py_lower (mpl_repr M \<bar>x\<bar>)) = Some y" "fl y = \<bar>x\<bar>"
      by (auto simp: float_ok_def split: option.splits)
    from y(2) False have "0 < y" using fl_pos_iff [of y] by simp
    from ecmascript_value [OF y(1) this d] have "decimal_number d = Some y" .
    with decimal_chars [OF this] read_decimal [OF this] read_negative [OF this] JFloat t y(2) show ?thesis
      by (auto simp: number_of_def num_char_def)
  qed
qed (use assms in \<open>simp_all add: number_of_def\<close>)

section \<open>Structure\<close>

text \<open>What may follow a value: the end of the text, or a delimiter.\<close>

definition stops :: "string \<Rightarrow> bool" where
  "stops u \<longleftrightarrow> u = [] \<or> hd u \<in> {CHR '','', CHR '']'', CHR ''}''}"

lemma stops_simps [simp]: "stops []" "stops (c # u) \<longleftrightarrow> c \<in> {CHR '','', CHR '']'', CHR ''}''}"
  by (simp_all add: stops_def)

lemma number_unique:
  assumes "s @ u = t @ v" "list_all num_char s" "list_all num_char t" "stops u" "stops v"
  shows "s = t"
proof -
  have cut: "takeWhile num_char (r @ x) = r" if "list_all num_char r" "stops x" for r x
  proof -
    have "takeWhile num_char x = []" using that(2) by (cases x) (auto simp: num_char_def is_digit_def ch_def)
    with that(1) show ?thesis by (simp add: list_all_iff takeWhile_append2)
  qed
  show ?thesis using cut [OF assms(2,4)] cut [OF assms(3,5)] assms(1) by simp
qed

lemma list_field_all2: "list_field f xs = Inr ys \<longleftrightarrow> list_all2 (\<lambda>x y. f x = Inr y) xs ys"
  by (induction xs arbitrary: ys) (auto simp: res_iffs list_all2_Cons1 list_all2_Nil)

lemma all2_left: "list_all2 P xs ys \<Longrightarrow> x \<in> set xs \<Longrightarrow> \<exists>y \<in> set ys. P x y"
  by (induction rule: list_all2_induct) auto

lemma all2_right: "list_all2 P xs ys \<Longrightarrow> y \<in> set ys \<Longrightarrow> \<exists>x \<in> set xs. P x y"
  by (induction rule: list_all2_induct) auto

lemma join_tail: "py_join '','' (x # xs) = x @ concat (map (\<lambda>y. CHR '','' # y) xs)"
  by (induction xs arbitrary: x) simp_all

lemma items_unique:
  assumes "\<And>x y p q. x \<in> set xs \<Longrightarrow> y \<in> set ys \<Longrightarrow> x @ p = y @ q \<Longrightarrow> stops p \<Longrightarrow> stops q \<Longrightarrow> x = y"
    and "c \<in> {CHR '']'', CHR ''}''}"
    and "concat (map (\<lambda>y. CHR '','' # y) xs) @ c # u = concat (map (\<lambda>y. CHR '','' # y) ys) @ c # v"
  shows "xs = ys \<and> u = v"
  using assms
proof (induction xs arbitrary: ys)
  case Nil
  then show ?case by (cases ys) auto
next
  case (Cons x xs)
  note outer = Cons
  show ?case
  proof (cases ys)
    case Nil
    with outer(3,4) show ?thesis by auto
  next
    case (Cons y ys')
    let ?t = "\<lambda>zs. concat (map (\<lambda>y. CHR '','' # y) zs)"
    have eq: "x @ ?t xs @ c # u = y @ ?t ys' @ c # v" using outer(4) Cons by simp
    have "stops (?t zs @ c # w)" for zs w using outer(3) by (cases zs) auto
    with eq outer(2) [of x y] Cons have "x = y" by simp
    moreover have "xs = ys' \<and> u = v"
    proof (rule outer(1))
      show "a = b" if "a \<in> set xs" "b \<in> set ys'" "a @ p = b @ q" "stops p" "stops q" for a b p q
        using outer(2) [of a b p q] that Cons by simp
    qed (use outer(3) eq \<open>x = y\<close> in simp_all)
    ultimately show ?thesis using Cons by simp
  qed
qed

lemma join_unique:
  assumes "\<And>x y p q. x \<in> set xs \<Longrightarrow> y \<in> set ys \<Longrightarrow> x @ p = y @ q \<Longrightarrow> stops p \<Longrightarrow> stops q \<Longrightarrow> x = y"
    and "\<And>x. x \<in> set xs \<union> set ys \<Longrightarrow> x \<noteq> [] \<and> hd x \<noteq> c"
    and "c \<in> {CHR '']'', CHR ''}''}" and "py_join '','' xs @ c # u = py_join '','' ys @ c # v"
  shows "xs = ys"
proof (cases xs; cases ys)
  fix y ys' assume "xs = []" "ys = y # ys'"
  with assms(2) [of y] assms(4) show ?thesis by (cases y) (auto simp: join_tail)
next
  fix x xs' assume "xs = x # xs'" "ys = []"
  with assms(2) [of x] assms(4) show ?thesis by (cases x) (auto simp: join_tail)
next
  fix x xs' y ys' assume *: "xs = x # xs'" "ys = y # ys'"
  let ?t = "\<lambda>zs. concat (map (\<lambda>y. CHR '','' # y) zs)"
  have eq: "x @ ?t xs' @ c # u = y @ ?t ys' @ c # v" using assms(4) * by (simp add: join_tail)
  have "stops (?t zs @ c # w)" for zs w using assms(3) by (cases zs) auto
  with eq assms(1) [of x y] * have "x = y" by simp
  moreover have "xs' = ys' \<and> u = v"
  proof (rule items_unique [of xs' ys' c u v])
    show "?t xs' @ c # u = ?t ys' @ c # v" using eq \<open>x = y\<close> by simp
  qed (use assms(1,3) * in auto)
  ultimately show ?thesis using * by simp
qed simp

text \<open>Values whose floats \<open>repr\<close> renders as documented and whose objects are dictionaries.\<close>

primrec exact_json :: "mcp_lib \<Rightarrow> json \<Rightarrow> bool" where
  "exact_json M JNull = True"
| "exact_json M (JBool b) = True"
| "exact_json M (JInt i) = True"
| "exact_json M (JFloat x) = float_ok M x"
| "exact_json M (JStr s) = True"
| "exact_json M (JArr js) = list_all id (map (exact_json M) js)"
| "exact_json M (JObj kvs) \<longleftrightarrow> distinct (map fst kvs) \<and> list_all snd (map (map_prod id (exact_json M)) kvs)"

lemma canonical_members_Inr:
  assumes "canonical_members (map (map_prod id f) kvs) = Inr ts"
  shows "length ts = length kvs \<and> (\<forall>(k, v) \<in> set kvs. \<exists>t. f v = Inr t \<and> json_string k @ '':'' @ t \<in> set ts) \<and>
    (\<forall>x \<in> set ts. \<exists>k v t. (k, v) \<in> set kvs \<and> f v = Inr t \<and> x = json_string k @ '':'' @ t)"
proof -
  from assms obtain ks where ks: "list_all2 (\<lambda>(k, v) y. bind_res (utf16_sort_key k) (\<lambda>u. Inr (u, k, v)) = Inr y) (map (map_prod id f) kvs) ks"
    and ts: "list_all2 (\<lambda>(u, k, r) y. bind_res r (\<lambda>t. Inr (json_string k @ '':'' @ t)) = Inr y) (sort_key fst ks) ts"
    by (auto simp: canonical_members_def bind_res_Inr_iff utf16_members_def list_field_all2 case_prod_unfold)
  have ks2: "map snd ks = map (map_prod id f) kvs"
    using ks by (induction kvs arbitrary: ks) (auto simp: list_all2_Cons1 res_iffs)
  have len: "length ts = length kvs"
    using list_all2_lengthD [OF ts] list_all2_lengthD [OF ks] by simp
  have mem: "(\<exists>u. (u, k, r) \<in> set (sort_key fst ks)) \<longleftrightarrow> (\<exists>v. (k, v) \<in> set kvs \<and> r = f v)" for k r
  proof -
    have "(\<exists>u. (u, k, r) \<in> set ks) \<longleftrightarrow> (k, r) \<in> set (map snd ks)" by force
    then show ?thesis unfolding set_sort ks2 by force
  qed
  have to_text: "\<exists>y t. y \<in> set ts \<and> r = Inr t \<and> y = json_string k @ '':'' @ t" if "(u, k, r) \<in> set (sort_key fst ks)" for u k r
  proof -
    from all2_left [OF ts that] obtain y where "y \<in> set ts" "bind_res r (\<lambda>t. Inr (json_string k @ '':'' @ t)) = Inr y" by auto
    then show ?thesis by (auto simp: bind_res_Inr_iff)
  qed
  have from_text: "\<exists>u k r t. (u, k, r) \<in> set (sort_key fst ks) \<and> r = Inr t \<and> y = json_string k @ '':'' @ t" if "y \<in> set ts" for y
  proof -
    from all2_right [OF ts that] obtain z where "z \<in> set (sort_key fst ks)"
      "(case z of (u, k, r) \<Rightarrow> bind_res r (\<lambda>t. Inr (json_string k @ '':'' @ t))) = Inr y" by (auto simp del: set_sort)
    moreover obtain u k r where "z = (u, k, r)" by (rule prod_cases3)
    ultimately have "(u, k, r) \<in> set (sort_key fst ks)" "bind_res r (\<lambda>t. Inr (json_string k @ '':'' @ t)) = Inr y" by auto
    then show ?thesis unfolding bind_res_Inr_iff by blast
  qed
  show ?thesis
  proof (intro conjI len)
    show "\<forall>(k, v) \<in> set kvs. \<exists>t. f v = Inr t \<and> json_string k @ '':'' @ t \<in> set ts" using mem to_text by blast
    show "\<forall>x \<in> set ts. \<exists>k v t. (k, v) \<in> set kvs \<and> f v = Inr t \<and> x = json_string k @ '':'' @ t"
    proof
      fix x assume "x \<in> set ts"
      from from_text [OF this] obtain u k r t where e: "(u, k, r) \<in> set (sort_key fst ks)" "r = Inr t" "x = json_string k @ '':'' @ t" by blast
      with mem [of k r] obtain v where "(k, v) \<in> set kvs" "r = f v" by blast
      with e show "\<exists>k v t. (k, v) \<in> set kvs \<and> f v = Inr t \<and> x = json_string k @ '':'' @ t" by metis
    qed
  qed
qed

lemma json_string_head: "json_string s = CHR 0x22 # concat (map json_escape_char s) @ [CHR 0x22]"
  by (simp add: json_string_def)

text \<open>The first character tells the kind of a value.\<close>

lemma canonical_head:
  assumes "canonical_json M j = Inr t" "exact_json M j"
  shows "t \<noteq> [] \<and> (case j of JNull \<Rightarrow> hd t = CHR ''n'' | JBool b \<Rightarrow> hd t = (if b then CHR ''t'' else CHR ''f'')
     | JInt i \<Rightarrow> num_char (hd t) | JFloat x \<Rightarrow> num_char (hd t) | JStr s \<Rightarrow> hd t = CHR 0x22
     | JArr js \<Rightarrow> hd t = CHR ''['' | JObj kvs \<Rightarrow> hd t = CHR ''{'')"
proof (cases j)
  case (JInt i)
  with assms canonical_number [of M j t] show ?thesis by (cases t) (auto simp: number_of_def)
next
  case (JFloat x)
  with assms canonical_number [of M j t] show ?thesis by (cases t) (auto simp: number_of_def)
qed (use assms in \<open>auto simp: canonical_string_def json_string_head res_iffs\<close>)

lemma canonical_not_close: "canonical_json M j = Inr t \<Longrightarrow> exact_json M j \<Longrightarrow> t \<noteq> [] \<and> hd t \<noteq> CHR '']''"
  using canonical_head [of M j t] by (cases j) (auto simp: num_char_def is_digit_def ch_def split: if_splits)

lemma list_field_id: "list_field id (map f xs) = Inr ys \<longleftrightarrow> list_all2 (\<lambda>x y. f x = Inr y) xs ys"
  by (simp add: list_field_all2 list_all2_map1)

lemma number_kinds: "number_of j \<noteq> None \<and> (\<forall>b. j \<noteq> JBool b) \<longleftrightarrow> (\<exists>i. j = JInt i) \<or> (\<exists>x. j = JFloat x)"
  by (cases j) (auto simp: number_of_def)

lemma numbers_unique:
  assumes "number_of a \<noteq> None \<and> (\<forall>b. a \<noteq> JBool b)" "canonical_json M a = Inr s" "canonical_json M b = Inr t" "exact_json M a" "exact_json M b"
    "s @ u = t @ v" "stops u" "stops v"
  shows "s = t \<and> py_eq a b"
proof -
  have ok: "\<forall>x. a = JFloat x \<longrightarrow> float_ok M x" "\<forall>x. b = JFloat x \<longrightarrow> float_ok M x" using assms(4,5) by auto
  have "hd s = hd t" using canonical_head [OF assms(2,4)] canonical_head [OF assms(3,5)] assms(6) by (metis hd_append2)
  with assms(1) canonical_head [OF assms(2,4)] canonical_head [OF assms(3,5)]
  have kind: "number_of b \<noteq> None \<and> (\<forall>x. b \<noteq> JBool x)"
    unfolding number_kinds by (cases b) (auto simp: num_char_def is_digit_def ch_def split: if_splits)
  note A = canonical_number [OF assms(2) _ _ ok(1)] and B = canonical_number [OF assms(3) _ _ ok(2)]
  have "s = t" using A B assms(1,6-8) kind by (intro number_unique [of s u t v]) auto
  moreover have "number_of a = number_of b" using A B assms(1) kind \<open>s = t\<close> by auto
  ultimately show ?thesis using assms(1) unfolding number_kinds by auto
qed

lemma arrays_unique:
  assumes IH: "\<And>x b s t u v. x \<in> set js \<Longrightarrow> canonical_json M x = Inr s \<Longrightarrow> canonical_json M b = Inr t \<Longrightarrow> exact_json M x \<Longrightarrow> exact_json M b \<Longrightarrow>
      s @ u = t @ v \<Longrightarrow> stops u \<Longrightarrow> stops v \<Longrightarrow> s = t \<and> py_eq x b"
    and "canonical_json M (JArr js) = Inr s" "canonical_json M (JArr ks) = Inr t" "exact_json M (JArr js)" "exact_json M (JArr ks)" "s @ u = t @ v"
  shows "s = t \<and> py_eq (JArr js) (JArr ks)"
proof -
  from assms(2,3) obtain xs ys where x: "list_all2 (\<lambda>j y. canonical_json M j = Inr y) js xs" "s = ''['' @ py_join '','' xs @ '']''"
    and y: "list_all2 (\<lambda>j y. canonical_json M j = Inr y) ks ys" "t = ''['' @ py_join '','' ys @ '']''"
    by (auto simp: res_iffs list_field_id)
  have member: "\<exists>j \<in> set ls. canonical_json M j = Inr z \<and> exact_json M j"
    if "list_all2 (\<lambda>j y. canonical_json M j = Inr y) ls zs" "list_all (exact_json M) ls" "z \<in> set zs" for ls zs z
    using that by (induction rule: list_all2_induct) auto
  have ok: "list_all (exact_json M) js" "list_all (exact_json M) ks" using assms(4,5) by (simp_all add: list_all_iff)
  have "xs = ys"
  proof (rule join_unique [of xs ys "CHR '']''" u v])
    show "a = b" if "a \<in> set xs" "b \<in> set ys" "a @ p = b @ q" "stops p" "stops q" for a b p q
      using member [OF x(1) ok(1) that(1)] member [OF y(1) ok(2) that(2)] IH that(3-5) by blast
    show "z \<noteq> [] \<and> hd z \<noteq> CHR '']''" if "z \<in> set xs \<union> set ys" for z
      using that member [OF x(1) ok(1), of z] member [OF y(1) ok(2), of z] canonical_not_close by blast
  qed (use assms(6) x(2) y(2) in simp_all)
  moreover have "list_all2 py_eq js ks"
  proof (rule list_all2_all_nthI)
    show "length js = length ks" using x(1) y(1) \<open>xs = ys\<close> by (metis list_all2_lengthD)
    show "py_eq (js ! i) (ks ! i)" if "i < length js" for i
      using IH [of "js ! i" "xs ! i" "ks ! i" "ys ! i" "[]" "[]"] that x(1) y(1) \<open>xs = ys\<close> ok
      by (auto simp: list_all2_conv_all_nth list_all_length)
  qed
  ultimately show ?thesis using x(2) y(2) by (simp add: list_all2_map1)
qed

lemma objects_unique:
  assumes IH: "\<And>k x b s t u v. (k, x) \<in> set kvs \<Longrightarrow> canonical_json M x = Inr s \<Longrightarrow> canonical_json M b = Inr t \<Longrightarrow> exact_json M x \<Longrightarrow> exact_json M b \<Longrightarrow>
      s @ u = t @ v \<Longrightarrow> stops u \<Longrightarrow> stops v \<Longrightarrow> s = t \<and> py_eq x b"
    and "canonical_json M (JObj kvs) = Inr s" "canonical_json M (JObj lvs) = Inr t" "exact_json M (JObj kvs)" "exact_json M (JObj lvs)" "s @ u = t @ v"
  shows "s = t \<and> py_eq (JObj kvs) (JObj lvs)"
proof -
  from assms(2,3) obtain xs ys where x: "canonical_members (map (map_prod id (canonical_json M)) kvs) = Inr xs" "s = ''{'' @ py_join '','' xs @ ''}''"
    and y: "canonical_members (map (map_prod id (canonical_json M)) lvs) = Inr ys" "t = ''{'' @ py_join '','' ys @ ''}''"
    by (auto simp: res_iffs)
  note X = canonical_members_Inr [OF x(1)] and Y = canonical_members_Inr [OF y(1)]
  have ok: "(k, v) \<in> set kvs \<Longrightarrow> exact_json M v" "(k, v) \<in> set lvs \<Longrightarrow> exact_json M v" for k v
    using assms(4,5) by (auto simp: list_all_iff)
  have distinct: "distinct (map fst lvs)" using assms(5) by simp
  have entry: "k = l \<and> py_eq v w \<and> c = d"
    if "(k, v) \<in> set kvs" "(l, w) \<in> set lvs" "canonical_json M v = Inr c" "canonical_json M w = Inr d"
      "(json_string k @ '':'' @ c) @ p = (json_string l @ '':'' @ d) @ q" "stops p" "stops q" for k v l w c d p q
    using that json_string_unique [of k _ l] IH [of k v c w d p q] ok by auto
  have "xs = ys"
  proof (rule join_unique [of xs ys "CHR ''}''" u v])
    show "a = b" if "a \<in> set xs" "b \<in> set ys" "a @ p = b @ q" "stops p" "stops q" for a b p q
    proof -
      from X that(1) obtain k x c where a: "(k, x) \<in> set kvs" "canonical_json M x = Inr c" "a = json_string k @ '':'' @ c" by blast
      from Y that(2) obtain l w d where b: "(l, w) \<in> set lvs" "canonical_json M w = Inr d" "b = json_string l @ '':'' @ d" by blast
      from entry [OF a(1) b(1) a(2) b(2) _ that(4,5)] that(3) a(3) b(3) show ?thesis by simp
    qed
    show "z \<noteq> [] \<and> hd z \<noteq> CHR ''}''" if "z \<in> set xs \<union> set ys" for z
      using that X Y by (auto simp: json_string_head)
  qed (use assms(6) x(2) y(2) in simp_all)
  moreover have "\<exists>w. map_of lvs k = Some w \<and> py_eq v w" if kv: "(k, v) \<in> set kvs" for k v
  proof -
    from X kv obtain c where c: "canonical_json M v = Inr c" "json_string k @ '':'' @ c \<in> set ys" using \<open>xs = ys\<close> by blast
    with Y obtain l w d where "(l, w) \<in> set lvs" "canonical_json M w = Inr d" "json_string k @ '':'' @ c = json_string l @ '':'' @ d" by blast
    with entry [of k v l w c d "[]" "[]"] kv c distinct show ?thesis by auto
  qed
  ultimately show ?thesis using x(2) y(2) X Y by (fastforce simp: list_all_iff)
qed

lemma canonical_unique:
  "canonical_json M a = Inr s \<Longrightarrow> canonical_json M b = Inr t \<Longrightarrow> exact_json M a \<Longrightarrow> exact_json M b \<Longrightarrow> s @ u = t @ v \<Longrightarrow> stops u \<Longrightarrow> stops v \<Longrightarrow>
     s = t \<and> py_eq a b"
proof (induction a arbitrary: b s t u v)
  case (JInt i)
  then show ?case by (intro numbers_unique [of "JInt i" M s b t u v]) (simp_all add: number_of_def)
next
  case (JFloat x)
  then show ?case by (intro numbers_unique [of "JFloat x" M s b t u v]) (simp_all add: number_of_def)
next
  case JNull
  note heads = canonical_head [OF JNull(1,3)] canonical_head [OF JNull(2,4)]
  with JNull(5) have "hd t = CHR ''n''" by (cases s; cases t) auto
  with heads JNull show ?case by (cases b) (auto simp: num_char_def is_digit_def ch_def split: if_splits)
next
  case (JBool x)
  note heads = canonical_head [OF JBool(1,3)] canonical_head [OF JBool(2,4)]
  with JBool(5) have "hd t = (if x then CHR ''t'' else CHR ''f'')" by (cases s; cases t) auto
  with heads JBool show ?case by (cases b) (auto simp: num_char_def is_digit_def ch_def number_of_def split: if_splits)
next
  case (JStr x)
  note heads = canonical_head [OF JStr(1,3)] canonical_head [OF JStr(2,4)]
  with JStr(5) have "hd t = CHR 0x22" by (cases s; cases t) auto
  with heads JStr(2) obtain y where b: "b = JStr y" by (cases b) (auto simp: num_char_def is_digit_def ch_def split: if_splits)
  with JStr show ?case using json_string_unique [of x u y v] by (auto simp: canonical_string_def res_iffs)
next
  case (JArr js)
  note heads = canonical_head [OF JArr(2,4)] canonical_head [OF JArr(3,5)]
  with JArr(6) have "hd t = CHR ''[''" by (cases s; cases t) auto
  with heads JArr(3) obtain ks where b: "b = JArr ks" by (cases b) (auto simp: num_char_def is_digit_def ch_def split: if_splits)
  show ?case unfolding b using arrays_unique [of js M s ks t u v] JArr b by blast
next
  case (JObj kvs)
  note heads = canonical_head [OF JObj(2,4)] canonical_head [OF JObj(3,5)]
  with JObj(6) have "hd t = CHR ''{''" by (cases s; cases t) auto
  with heads JObj(3) obtain lvs where b: "b = JObj lvs" by (cases b) (auto simp: num_char_def is_digit_def ch_def split: if_splits)
  have IH: "\<And>k x b s t u v. (k, x) \<in> set kvs \<Longrightarrow> canonical_json M x = Inr s \<Longrightarrow> canonical_json M b = Inr t \<Longrightarrow> exact_json M x \<Longrightarrow> exact_json M b \<Longrightarrow>
      s @ u = t @ v \<Longrightarrow> stops u \<Longrightarrow> stops v \<Longrightarrow> s = t \<and> py_eq x b"
    by (erule JObj(1)) (assumption | (simp; fail))+
  note lvs = JObj(3)[unfolded b] and ok = JObj(5)[unfolded b]
  show ?case unfolding b by (rule objects_unique [OF IH JObj(2) lvs JObj(4) ok JObj(6)])
qed

end
