(* ===== verification/McpProperties.thy ===== *)
theory McpProperties
  imports CanonicalJson Demo
begin

text \<open>
  What the MCP carriage guarantees: the handler of a paid operation runs only after the processor
  consumed a credential and issued a receipt for it; a challenge is good for one operation only, and
  for that operation also when the message carries the credential; canonical JSON identifies values.
\<close>

section \<open>Canonical JSON\<close>

text \<open>
  C37. Canonical JSON determines the value: two values with the same canonical text are equal in
  Python's sense, that is up to the order of keys and the type of equal numbers. The text is made of
  the code's own number rendering and key order; of \<open>repr\<close> only the documented round trip is used.
\<close>

theorem canonical_json_faithful:
  assumes "canonical_json M a = Inr t" and "canonical_json M b = Inr t" and "exact_json M a" and "exact_json M b"
  shows "py_eq a b"
  using canonical_unique [OF assms(1,2,3,4), of "[]" "[]"] by simp

definition demo_mcp :: mcp_lib where
  "demo_mcp = \<lparr>mpl_lib = (demo_lib demo_channel)\<lparr>lib_hmac := (\<lambda>k m. m)\<rparr>, mpl_digest = (\<lambda>s. s),
     mpl_repr = (\<lambda>x. if x = 1 then ''1.0'' else [])\<rparr>"

definition demo_value :: json where
  "demo_value = JObj [(''b'', JInt 1), (''a'', JStr ''x'')]"

definition demo_reordered :: json where
  "demo_reordered = JObj [(''a'', JStr ''x''), (''b'', JFloat 1)]"

lemma canonical_json_faithful_witness: "py_eq demo_value demo_reordered"
proof -
  have same: "canonical_json demo_mcp demo_reordered = canonical_json demo_mcp demo_value" by code_simp
  have "is_ok (canonical_json demo_mcp demo_value)" by code_simp
  then obtain t where t: "canonical_json demo_mcp demo_value = Inr t" by (rule is_okE)
  have "decimal_number ''1.0'' = Some 1" by code_simp
  moreover have "fl 1 = 1" using fl_of_int [of 1] by (simp add: max_safe_integer_def)
  moreover have "py_lower ''1.0'' = ''1.0''" by code_simp
  ultimately have "exact_json demo_mcp demo_reordered" by (simp add: demo_reordered_def demo_mcp_def float_ok_def)
  moreover have "exact_json demo_mcp demo_value" by (simp add: demo_value_def)
  ultimately show ?thesis using canonical_json_faithful [of demo_mcp demo_value t demo_reordered] t same by simp
qed

section \<open>Paid operations\<close>

lemma or_internal_error_Inr: "or_internal_error i e w = (Inr r, w') \<Longrightarrow> r = Some (internal_payment_error_response i ''Payment processing failed'')"
  by (auto simp: or_internal_error_def processing_failed_def split: if_splits)

lemma try_result_Inr: "try_result p w = (Inr x, w') \<longleftrightarrow> p w = (x, w')"
  by (cases "p w"; cases "fst (p w)") (auto simp: try_result_def proc_iffs)

lemma try_result_Inl: "try_result p w \<noteq> (Inl e, w')"
  by (auto simp: try_result_def proc_iffs)

lemma error_is_no_result [simp]: "''result'' \<notin> fst ` set (error_response i c m d)" "(''result'', b) \<notin> set (error_response i c m d)"
  by (simp_all add: error_response_def)

lemma responses_are_no_result [simp]:
  "(''result'', b) \<notin> set (invalid_params_response i d)" "(''result'', b) \<notin> set (internal_payment_error_response i d)"
  by (simp_all add: invalid_params_response_def internal_payment_error_response_def)

lemma offers_are_no_result:
  "Inr r = payment_required_response i cs p \<Longrightarrow> (''result'', b) \<notin> set r"
  "Inr r = verification_failed_response i cs x y \<Longrightarrow> (''result'', b) \<notin> set r"
  by (auto simp: payment_required_response_def verification_failed_response_def bind_res_def split: sum.splits)

lemma offer_is_no_result: "offer_payment P i operation w = (Inr (Some r), w') \<Longrightarrow> ''result'' \<notin> fst ` set r"
  by (auto simp: offer_payment_def proc_iffs dest!: or_internal_error_Inr dest: offers_are_no_result)

lemma refusal_is_no_result: "refuse_payment P i operation a b w = (Inr (Some r), w') \<Longrightarrow> ''result'' \<notin> fst ` set r"
proof -
  assume run: "refuse_payment P i operation a b w = (Inr (Some r), w')"
  obtain x w1 where "try_result (pp_create_challenges P operation) w = (Inr x, w1)"
    by (metis surj_pair try_result_Inr)
  with run show ?thesis
    by (cases x) (auto simp: refuse_payment_def andthen_eval proc_iffs dest!: or_internal_error_Inr dest: offers_are_no_result offers_are_no_result [OF sym] split: prod.splits sum.splits)
qed

definition paid_context :: "(string \<times> json) list \<Rightarrow> paid_operation_binding \<Rightarrow> mcp_credential \<Rightarrow> mcp_receipt \<Rightarrow> paid_operation_context" where
  "paid_context message operation cred receipt = \<lparr>poc_request_id = dget message ''id'', poc_operation = operation,
     poc_credential = cred, poc_receipt = receipt\<rparr>"

lemma run_handler_result:
  assumes "run_handler handler i operation cred receipt w = (Inr (Some r), w')" and "''result'' \<in> fst ` set r"
  shows "mrc_challenge_id receipt = mch_id (mcd_challenge cred) \<and> mrc_method receipt = mch_method (mcd_challenge cred) \<and>
    (\<exists>result. handler \<lparr>poc_request_id = i, poc_operation = operation, poc_credential = cred, poc_receipt = receipt\<rparr> w = (Inr (JObj result), w') \<and>
      with_payment_receipt receipt Nested [(''jsonrpc'', JStr ''2.0''), (''id'', i), (''result'', JObj result)] = Inr r)"
proof -
  let ?c = "\<lparr>poc_request_id = i, poc_operation = operation, poc_credential = cred, poc_receipt = receipt\<rparr>"
  have matching: "\<not> (mrc_challenge_id receipt \<noteq> mch_id (mcd_challenge cred) \<or> mrc_method receipt \<noteq> mch_method (mcd_challenge cred))"
    using assms by (auto simp: run_handler_def processing_failed_def split: if_splits)
  obtain x w1 where x: "handler ?c w = (x, w1)" by fastforce
  then have tried: "try_result (handler ?c) w = (Inr x, w1)" by (simp add: try_result_Inr)
  from assms tried matching obtain y where y: "x = Inr y" and d: "deliver_result i receipt y w1 = (Inr (Some r), w')"
    by (cases x) (auto simp: run_handler_def andthen_eval dest!: or_internal_error_Inr)
  from d assms(2) obtain result where "y = JObj result" "w' = w1"
      "with_payment_receipt receipt Nested [(''jsonrpc'', JStr ''2.0''), (''id'', i), (''result'', JObj result)] = Inr r"
    by (cases y) (auto simp: deliver_result_def proc_iffs)
  with matching x y show ?thesis by blast
qed

lemma take_payment_result:
  assumes "take_payment P handler i operation cred w = (Inr (Some r), w')" and "''result'' \<in> fst ` set r"
  shows "\<exists>receipt w1. pp_validate_and_consume P cred operation w = (Inr receipt, w1) \<and>
    run_handler handler i operation cred receipt w1 = (Inr (Some r), w')"
proof -
  obtain x w1 where x: "pp_validate_and_consume P cred operation w = (x, w1)" by fastforce
  then have "try_result (pp_validate_and_consume P cred operation) w = (Inr x, w1)" by (simp add: try_result_Inr)
  with assms x show ?thesis
    by (cases x) (auto simp: take_payment_def andthen_eval dest!: or_internal_error_Inr refusal_is_no_result split: exn.splits mcp_failure.splits)
qed

lemma invalid_params_on_Inr:
  "invalid_params_on i x caught k w = (Inr (Some r), w') \<Longrightarrow> ''result'' \<in> fst ` set r \<Longrightarrow> \<exists>y. x = Inr y \<and> k y w = (Inr (Some r), w')"
  by (auto simp: invalid_params_on_def split: sum.splits option.splits)

text \<open>
  C34. A result is paid for: when the decorated operation answers with a \<open>result\<close>, the processor
  validated and consumed the message's credential for exactly this operation and issued a receipt with
  the credential's challenge id and method; only then did the handler run, in the state the processor
  left, on parameters without the credential; and the answer carries that receipt.
\<close>

theorem mcp_result_is_paid:
  assumes "paid_operation M P expected handler message w = (Inr (Some answer), w')" and "''result'' \<in> fst ` set answer"
  shows "\<exists>operation cred receipt w1 result. build_operation_binding M message = Inr operation \<and>
     mcp_extract_credential M message = Inr (Some cred) \<and> pp_validate_and_consume P cred operation w = (Inr receipt, w1) \<and>
     mrc_challenge_id receipt = mch_id (mcd_challenge cred) \<and> mrc_method receipt = mch_method (mcd_challenge cred) \<and>
     handler (paid_context message operation cred receipt) w1 = (Inr (JObj result), w') \<and>
     with_payment_receipt receipt Nested [(''jsonrpc'', JStr ''2.0''), (''id'', dget message ''id''), (''result'', JObj result)] = Inr answer"
proof -
  let ?i = "dget message ''id''"
  from assms have "invalid_params_on ?i (build_operation_binding M message) binding_detail (\<lambda>operation.
       if expected \<noteq> None \<and> expected \<noteq> Some (pob_method operation)
         then ret (Some (invalid_params_response ?i (''expected '' @ or_empty expected @ '', got '' @ pob_method operation)))
       else invalid_params_on ?i (extract_paid_operation_credential M message) metadata_detail (\<lambda>credential.
         case credential of None \<Rightarrow> offer_payment P ?i operation
         | Some cred \<Rightarrow> take_payment P handler ?i operation cred)) w = (Inr (Some answer), w')"
    by (auto simp: paid_operation_def proc_iffs Let_def split: if_splits)
  from invalid_params_on_Inr [OF this assms(2)] obtain operation where operation: "build_operation_binding M message = Inr operation"
    and run: "invalid_params_on ?i (extract_paid_operation_credential M message) metadata_detail (\<lambda>credential.
         case credential of None \<Rightarrow> offer_payment P ?i operation
         | Some cred \<Rightarrow> take_payment P handler ?i operation cred) w = (Inr (Some answer), w')"
    using assms(2) by (auto split: if_splits)
  from invalid_params_on_Inr [OF run assms(2)] obtain cred where cred: "extract_paid_operation_credential M message = Inr (Some cred)"
    and taken: "take_payment P handler ?i operation cred w = (Inr (Some answer), w')"
    using assms(2) offer_is_no_result by (fastforce split: option.splits)
  from cred have "mcp_extract_credential M message = Inr (Some cred)"
    by (auto simp: extract_paid_operation_credential_def res_iffs split: if_splits)
  moreover obtain receipt w1 where "pp_validate_and_consume P cred operation w = (Inr receipt, w1)"
      and handled: "run_handler handler ?i operation cred receipt w1 = (Inr (Some answer), w')"
    using take_payment_result [OF taken assms(2)] by blast
  moreover note run_handler_result [OF handled assms(2)]
  ultimately show ?thesis using operation unfolding paid_context_def by metis
qed

text \<open>
  An unpaid message never reaches the handler: when the processor does not issue a matching
  receipt for the message's credential, the decorated operation behaves the same for every handler, in
  its answer and in the state it leaves.
\<close>

theorem mcp_unpaid_never_runs_handler:
  assumes "\<And>operation cred receipt w1. build_operation_binding M message = Inr operation \<Longrightarrow>
      mcp_extract_credential M message = Inr (Some cred) \<Longrightarrow> pp_validate_and_consume P cred operation w = (Inr receipt, w1) \<Longrightarrow>
      mrc_challenge_id receipt \<noteq> mch_id (mcd_challenge cred) \<or> mrc_method receipt \<noteq> mch_method (mcd_challenge cred)"
  shows "paid_operation M P expected handler message w = paid_operation M P expected handler' message w"
proof -
  have "take_payment P handler i operation cred w = take_payment P handler' i operation cred w"
    if "build_operation_binding M message = Inr operation" "extract_paid_operation_credential M message = Inr (Some cred)" for i operation cred
  proof -
    have "mcp_extract_credential M message = Inr (Some cred)"
      using that(2) by (auto simp: extract_paid_operation_credential_def res_iffs split: if_splits)
    note unmatched = assms [OF that(1) this]
    obtain r w1 where r: "pp_validate_and_consume P cred operation w = (r, w1)" by fastforce
    then have "try_result (pp_validate_and_consume P cred operation) w = (Inr r, w1)" by (simp add: try_result_Inr)
    with r unmatched show ?thesis
      by (cases r) (simp_all add: take_payment_def proc_simps run_handler_def)
  qed
  then show ?thesis
    by (auto simp: paid_operation_def proc_simps Let_def invalid_params_on_def split: prod.splits sum.splits option.splits)
qed

section \<open>The binding of a challenge\<close>

lemma py_join_snoc: "ps \<noteq> [] \<Longrightarrow> py_join sep (ps @ [p]) = py_join sep ps @ sep @ p"
  by (induction sep ps rule: py_join.induct) simp_all

lemma last_separator:
  "a @ c # x = b @ c # y \<Longrightarrow> c \<notin> set x \<Longrightarrow> c \<notin> set y \<Longrightarrow> a = b \<and> x = y"
proof (induction a arbitrary: b)
  case Nil
  then show ?case by (cases b) auto
next
  case (Cons d a)
  then show ?case by (cases b) auto
qed

lemma join_inject:
  "length ps = length qs \<Longrightarrow> \<forall>p \<in> set ps \<union> set qs. CHR ''|'' \<notin> set p \<Longrightarrow>
     py_join ''|'' (r # ps) = py_join ''|'' (r' # qs) \<Longrightarrow> r = r' \<and> ps = qs"
proof (induction ps arbitrary: qs rule: rev_induct)
  case (snoc p ps)
  then obtain q qs' where qs: "qs = qs' @ [q]" by (cases qs rule: rev_cases) auto
  have "py_join ''|'' (r # ps) @ CHR ''|'' # p = py_join ''|'' (r' # qs') @ CHR ''|'' # q"
    using snoc.prems(3) py_join_snoc [of "r # ps" "''|''" p] py_join_snoc [of "r' # qs'" "''|''" q] qs by simp
  then have "py_join ''|'' (r # ps) = py_join ''|'' (r' # qs') \<and> p = q"
    using snoc.prems(2) qs by (intro last_separator) auto
  with snoc.IH [of qs'] snoc.prems qs show ?case by simp
qed simp

lemma no_bar:
  "CHR ''|'' \<notin> set (b64_encode s)" "method_text s \<Longrightarrow> CHR ''|'' \<notin> set s" "intent_text s \<Longrightarrow> CHR ''|'' \<notin> set s"
  "s \<in> set paid_mcp_operations \<Longrightarrow> CHR ''|'' \<notin> set s"
proof -
  have "b64_value (CHR ''|'') = None" by code_simp
  with b64_encode_text [of s] show "CHR ''|'' \<notin> set (b64_encode s)" by (auto simp: list_all_iff)
  have "\<not> is_lower CHR ''|''" "\<not> intent_char CHR ''|''" by code_simp+
  then show "method_text s \<Longrightarrow> CHR ''|'' \<notin> set s" "intent_text s \<Longrightarrow> CHR ''|'' \<notin> set s"
    by (auto simp: method_text_def intent_text_def list_all_iff)
  show "s \<in> set paid_mcp_operations \<Longrightarrow> CHR ''|'' \<notin> set s"
    by (auto simp: paid_mcp_operations_def tools_call_def resources_read_def prompts_get_def)
qed

lemma operation_binding_Inr:
  assumes "build_operation_binding M message = Inr operation"
  shows "pob_method operation \<in> set paid_mcp_operations \<and> mcp_digest M (operation_json (pob_method operation) (pob_params operation)) = Inr (pob_digest operation)"
proof -
  from assms obtain verb params cleaned where verb: "dget message ''method'' = JStr verb" "verb \<in> set paid_mcp_operations"
    and rest: "(let target_field = (if verb = resources_read then ''uri'' else ''name'') in
     case dget cleaned target_field of
       JStr target \<Rightarrow>
         if \<not> nonblank target then Inl (operation_binding_error (verb @ '' requires a non-empty params.'' @ target_field @ '' value''))
         else bind_res (mcp_digest M (operation_json verb cleaned)) (\<lambda>digest.
           Inr \<lparr>pob_method = verb, pob_target = target, pob_params = cleaned, pob_digest = digest\<rparr>)
     | _ \<Rightarrow> Inl (operation_binding_error (verb @ '' requires a non-empty params.'' @ target_field @ '' value''))) = Inr operation"
    unfolding build_operation_binding_def bind_res_Inr_iff
    by (auto simp: is_supported_paid_operation_def as_str_def split: json.splits)
  then show ?thesis
    by (cases "dget cleaned (if verb = resources_read then ''uri'' else ''name'')")
      (simp_all only: Let_def json.case, auto simp: bind_res_Inr_iff split: if_splits)
qed

lemma mcp_digest_inject:
  assumes "mcp_digest M a = Inr d" "mcp_digest M b = Inr d" "exact_json M a" "exact_json M b" "\<And>m m'. mpl_digest M m = mpl_digest M m' \<Longrightarrow> m = m'"
  shows "py_eq a b"
proof -
  from assms(1,2) obtain s t where st: "canonical_json M a = Inr s" "canonical_json M b = Inr t" and "b64_encode (mpl_digest M s) = b64_encode (mpl_digest M t)"
    by (auto simp: mcp_digest_def res_iffs)
  then have "s = t" using assms(5) by (simp add: b64_encode_inject)
  with st assms(3,4) canonical_unique [of M a s b t "[]" "[]"] show ?thesis by simp
qed

lemma any_secret_binds_True:
  "any_secret_binds M secrets c operation = Inr True \<Longrightarrow> \<exists>s \<in> set secrets. build_bound_challenge_id M s (mch_realm c) (mch_method c)
     (mch_intent c) (mch_request c) operation (mch_expires c) = Inr (mch_id c)"
proof (induction secrets)
  case (Cons s rest)
  then show ?case by (fastforce simp: res_iffs compare_digest_def split: if_splits)
qed simp

lemma opt_text_json: "opt_field (as_str f) (option_json x) = Inr y \<longleftrightarrow> y = x"
  by (cases x) (auto simp: opt_field_def as_str_def option_json_def)

lemma opt_checked_json: "opt_field (checked f p) (option_json x) = Inr y \<Longrightarrow> y = x"
  by (cases x) (auto simp: opt_field_def checked_Inr option_json_def res_iffs)

lemma built_challenge:
  assumes "build_bound_challenge M secret realm pmethod intent request operation expires description = Inr c"
  shows "build_bound_challenge_id M secret realm pmethod intent request operation expires = Inr (mch_id c) \<and> mch_realm c = realm \<and>
    mch_method c = pmethod \<and> mch_intent c = intent \<and> mch_request c = request \<and> mch_expires c = expires \<and>
    method_text pmethod \<and> intent_text intent"
  using assms
  by (auto simp: build_bound_challenge_def validate_mcp_challenge_def required_def used_key_def plain_def dget_def checked_Inr as_dict_def
      bind_res_Inr_iff opt_text_json dest: opt_checked_json)

lemma validated_challenge:
  assumes "validate_mcp_challenge M kvs = Inr c"
  shows "method_text (mch_method c) \<and> intent_text (mch_intent c)"
  using assms by (auto simp: validate_mcp_challenge_def checked_Inr bind_res_Inr_iff)

lemma validated_credential:
  assumes "validate_mcp_credential M j = Inr cred"
  shows "method_text (mch_method (mcd_challenge cred)) \<and> intent_text (mch_intent (mcd_challenge cred))"
  using assms validated_challenge by (auto simp: validate_mcp_credential_def bind_res_Inr_iff)

lemma bound_id_Inr:
  "build_bound_challenge_id M secret realm pmethod intent request operation expires = Inr i \<longleftrightarrow>
     (\<exists>hash. request_hash M request = Inr hash \<and>
        i = b64_encode (lib_hmac (mpl_lib M) secret (py_join ''|'' (bound_slots realm pmethod intent hash expires operation))))"
  by (auto simp: build_bound_challenge_id_def bind_res_Inr_iff)

lemma digest_no_bar: "mcp_digest M j = Inr d \<Longrightarrow> CHR ''|'' \<notin> set d"
  by (auto simp: mcp_digest_def bind_res_Inr_iff no_bar)

lemma slots_no_bar:
  assumes "method_text pmethod" "intent_text intent" "request_hash M request = Inr hash" "CHR ''|'' \<notin> set (or_empty expires)"
    "build_operation_binding M message = Inr operation"
  shows "\<forall>p \<in> set (tl (bound_slots realm pmethod intent hash expires operation)). CHR ''|'' \<notin> set p"
  using assms operation_binding_Inr [OF assms(5)] digest_no_bar no_bar by (auto simp: bound_slots_def request_hash_def)

text \<open>
  C35. A challenge is good for one operation: let a challenge have been issued for a message, and let a
  credential that carries its id pass the verification for another message. Then the two messages have
  the same method and equal parameters (the credential's own entry apart), and the credential's
  challenge names the issued realm, payment method, intent, expiry and an equal request. HMAC and
  SHA-256 are taken to be free of collisions; the expiry must not contain the separator.
\<close>

theorem mcp_challenge_binds_operation:
  assumes "build_operation_binding M issued = Inr operation" "build_operation_binding M message = Inr operation'"
    and "build_bound_challenge M secret realm pmethod intent request operation expires description = Inr c"
    and "validate_mcp_credential M j = Inr cred" and "mch_id (mcd_challenge cred) = mch_id c"
    and "verify_bound_challenge M (mcd_challenge cred) operation' secrets = Inr True"
    and "CHR ''|'' \<notin> set (or_empty expires @ or_empty (mch_expires (mcd_challenge cred)))"
    and "\<And>s m m'. s \<in> set secrets \<Longrightarrow> lib_hmac (mpl_lib M) s m = lib_hmac (mpl_lib M) secret m' \<Longrightarrow> m = m'"
    and "\<And>m m'. mpl_digest M m = mpl_digest M m' \<Longrightarrow> m = m'"
    and "exact_json M (JObj request)" "exact_json M (JObj (mch_request (mcd_challenge cred)))"
      "exact_json M (JObj (pob_params operation))" "exact_json M (JObj (pob_params operation'))"
  shows "pob_method operation' = pob_method operation \<and> py_eq (JObj (pob_params operation')) (JObj (pob_params operation)) \<and>
     mch_realm (mcd_challenge cred) = realm \<and> mch_method (mcd_challenge cred) = pmethod \<and> mch_intent (mcd_challenge cred) = intent \<and>
     or_empty (mch_expires (mcd_challenge cred)) = or_empty expires \<and> py_eq (JObj (mch_request (mcd_challenge cred))) (JObj request)"
proof -
  let ?c = "mcd_challenge cred"
  note built = built_challenge [OF assms(3)] and valid = validated_credential [OF assms(4)]
  from built obtain hash where hash: "request_hash M request = Inr hash"
    and i: "mch_id c = b64_encode (lib_hmac (mpl_lib M) secret (py_join ''|'' (bound_slots realm pmethod intent hash expires operation)))"
    by (auto simp: bound_id_Inr)
  from any_secret_binds_True [of M secrets ?c operation'] assms(6) obtain s hash' where s: "s \<in> set secrets" and hash': "request_hash M (mch_request ?c) = Inr hash'"
    and i': "mch_id ?c = b64_encode (lib_hmac (mpl_lib M) s (py_join ''|'' (bound_slots (mch_realm ?c) (mch_method ?c) (mch_intent ?c) hash' (mch_expires ?c) operation')))"
    by (auto simp: verify_bound_challenge_def bound_id_Inr)
  have joined: "py_join ''|'' (bound_slots (mch_realm ?c) (mch_method ?c) (mch_intent ?c) hash' (mch_expires ?c) operation') =
      py_join ''|'' (bound_slots realm pmethod intent hash expires operation)"
    using assms(8) [OF s] i i' assms(5) by (simp add: b64_encode_inject)
  have bars: "\<forall>p \<in> set (tl (bound_slots (mch_realm ?c) (mch_method ?c) (mch_intent ?c) hash' (mch_expires ?c) operation')).  CHR ''|'' \<notin> set p"
    "\<forall>p \<in> set (tl (bound_slots realm pmethod intent hash expires operation)). CHR ''|'' \<notin> set p"
    by (rule slots_no_bar [OF conjunct1 [OF valid] conjunct2 [OF valid] hash' _ assms(2)], use assms(7) in simp,
        rule slots_no_bar [OF _ _ hash _ assms(1)], use built assms(7) in simp_all)
  have same: "mch_realm ?c = realm \<and> tl (bound_slots (mch_realm ?c) (mch_method ?c) (mch_intent ?c) hash' (mch_expires ?c) operation') =
      tl (bound_slots realm pmethod intent hash expires operation)"
    using joined bars unfolding bound_slots_def list.sel by (intro join_inject) auto
  then have fields: "mch_method ?c = pmethod" "mch_intent ?c = intent" "or_empty (mch_expires ?c) = or_empty expires" "hash' = hash"
    "pob_method operation' = pob_method operation" "pob_digest operation' = pob_digest operation"
    by (auto simp: bound_slots_def)
  have "py_eq (JObj (mch_request ?c)) (JObj request)"
    using mcp_digest_inject [of M "JObj (mch_request ?c)" hash "JObj request"] hash hash' fields(4) assms(9-11) by (simp add: request_hash_def)
  moreover have "py_eq (operation_json (pob_method operation) (pob_params operation')) (operation_json (pob_method operation) (pob_params operation))"
    using mcp_digest_inject [of M "operation_json (pob_method operation') (pob_params operation')" "pob_digest operation"
        "operation_json (pob_method operation) (pob_params operation)"] operation_binding_Inr [OF assms(1)] operation_binding_Inr [OF assms(2)]
      fields(5,6) assms(9,12,13) by (simp add: operation_json_def)
  then have "py_eq (JObj (pob_params operation')) (JObj (pob_params operation))" by (simp add: operation_json_def)
  ultimately show ?thesis using same fields by simp
qed

section \<open>The message that carries the credential\<close>

lemma dpop_update [simp]: "dpop k (AList.update k v kvs) = dpop k kvs"
  by (induction kvs) (auto simp: dpop_def)

lemma dpop_absent: "map_of kvs k = None \<Longrightarrow> dpop k kvs = kvs"
  by (auto simp: dpop_def map_of_eq_None_iff filter_id_conv image_iff)

lemma update_absent: "map_of kvs k = None \<Longrightarrow> AList.update k v kvs = kvs @ [(k, v)]"
  by (induction kvs) (auto split: if_splits)

text \<open>The entry of the credential is not a part of the operation.\<close>

lemma clean_injected:
  assumes "inject_meta credential_meta_key v params = Inr params'"
  shows "clean_params params' = clean_params params"
proof (cases "map_of params ''_meta''")
  case None
  with assms have "params' = AList.update ''_meta'' (JObj [(credential_meta_key, v)]) params" by (simp add: inject_meta_def)
  moreover have "dpop credential_meta_key [(credential_meta_key, v)] = []" by (simp add: dpop_def)
  ultimately show ?thesis using None by (simp add: clean_params_def dget_def update_conv' dpop_absent)
next
  case (Some j)
  with assms obtain meta where j: "j = JObj meta" and p: "params' = AList.update ''_meta'' (JObj (AList.update credential_meta_key v meta)) params"
    by (cases j) (auto simp: inject_meta_def split: option.splits if_splits)
  show ?thesis using Some j p by (simp add: clean_params_def dget_def update_conv' Let_def update_last)
qed

lemma binding_of_carrier:
  assumes "with_payment_credential cred placement message = Inr message'"
  shows "build_operation_binding M message' = build_operation_binding M message"
proof -
  have same: "build_operation_binding M m' = build_operation_binding M m"
    if "dget m' ''method'' = dget m ''method''" "bind_res (operation_params m') clean_params = bind_res (operation_params m) clean_params" for m m'
  proof -
    have assoc: "bind_res (operation_params m) (\<lambda>p. bind_res (clean_params p) f) = bind_res (bind_res (operation_params m) clean_params) f" for f m
      by (cases "operation_params m") simp_all
    show ?thesis using that unfolding build_operation_binding_def is_supported_paid_operation_def assoc by simp
  qed
  show ?thesis
  proof (cases placement)
    case Root
    with assms obtain v where "message' = AList.update ''_meta'' v message"
      by (auto simp: with_payment_credential_def inject_value_def inject_meta_def split: option.splits json.splits if_splits)
    then show ?thesis by (intro same) (simp_all add: dget_def update_conv' operation_params_def)
  next
    case Nested
    show ?thesis
    proof (cases "map_of message ''params''")
      case None
      with assms Nested obtain t where t: "inject_meta credential_meta_key (JObj (mcp_credential_dict cred)) [] = Inr t"
        "message' = AList.update ''params'' (JObj t) message"
        by (auto simp: with_payment_credential_def inject_value_def bind_res_Inr_iff)
      with None clean_injected [OF t(1)] show ?thesis by (intro same) (simp_all add: dget_def update_conv' operation_params_def)
    next
      case (Some j)
      with assms Nested obtain kvs t where t: "j = JObj kvs" "inject_meta credential_meta_key (JObj (mcp_credential_dict cred)) kvs = Inr t"
        "message' = AList.update ''params'' (JObj t) message"
        by (cases j) (auto simp: with_payment_credential_def inject_value_def bind_res_Inr_iff)
      with Some clean_injected [OF t(2)] show ?thesis by (intro same) (simp_all add: dget_def update_conv' operation_params_def)
    qed
  qed
qed

lemma any_secret_binds_issued:
  assumes "build_bound_challenge_id M secret (mch_realm c) (mch_method c) (mch_intent c) (mch_request c) operation (mch_expires c) = Inr (mch_id c)"
    and "secret \<in> set secrets"
  shows "any_secret_binds M secrets c operation = Inr True"
proof -
  obtain hash where hash: "request_hash M (mch_request c) = Inr hash" using assms(1) by (auto simp: bound_id_Inr)
  have ascii: "list_all (\<lambda>x. ch x < 128) (b64_encode m)" for m
  proof -
    have "b64_value x \<noteq> None \<Longrightarrow> ch x < 128" for x
      by (auto simp: b64_value_def is_upper_def is_lower_def is_digit_def ch_def split: if_splits)
    with b64_encode_text [of m] show ?thesis by (auto simp: list_all_iff)
  qed
  have idtext: "\<exists>m. mch_id c = b64_encode m" using assms(1) by (auto simp: bound_id_Inr)
  show ?thesis using assms(2)
  proof (induction secrets)
    case (Cons s rest)
    obtain i where i: "build_bound_challenge_id M s (mch_realm c) (mch_method c) (mch_intent c) (mch_request c) operation (mch_expires c) = Inr i"
      "\<exists>m. i = b64_encode m"
      using hash by (auto simp: bound_id_Inr)
    with idtext ascii have "compare_digest (mch_id c) i = Inr (mch_id c = i)" by (auto simp: compare_digest_def)
    with i Cons assms(1) show ?case by (cases "s = secret") auto
  qed simp
qed

lemma extract_single:
  assumes "candidates_in ''message'' key m = Inr r" "nested_candidates key nested m = Inr n" "r @ n = [v]" "validate v = Inr x"
  shows "extract_value key nested validate m = Inr (Some x)"
  using assms by (simp add: extract_value_def)

lemma extract_None:
  assumes "extract_value key nested validate m = Inr None"
  shows "candidates_in ''message'' key m = Inr [] \<and> nested_candidates key nested m = Inr []"
proof -
  from assms obtain r n where r: "candidates_in ''message'' key m = Inr r" and n: "nested_candidates key nested m = Inr n"
    and none: "(case r @ n of [] \<Rightarrow> Inr None | first # others \<Rightarrow>
         bind_res (guard_res (list_all (\<lambda>j. py_eq j first) others)
           (payment_metadata_error (''conflicting '' @ key @ '' values in root and nested _meta''))) (\<lambda>_.
         case validate first of Inl _ \<Rightarrow> Inl (payment_metadata_error (key @ '' does not match the MPP schema''))
         | Inr x \<Rightarrow> Inr (Some x))) = Inr None"
    unfolding extract_value_def bind_res_Inr_iff by blast
  from none have "r @ n = []"
    by (cases "r @ n"; cases "validate (hd (r @ n))") (auto simp: bind_res_Inr_iff simp del: append_is_Nil_conv)
  with r n show ?thesis by simp
qed

lemma candidates_injected:
  assumes "candidates_in label key kvs = Inr []" "inject_meta key v kvs = Inr kvs'"
  shows "candidates_in label key kvs' = Inr [v]"
proof -
  have found: "candidates_in label key (AList.update ''_meta'' (JObj meta) kvs) = Inr [v]" if "map_of meta key = Some v" for meta
    using that by (simp add: candidates_in_def metadata_object_def dget_def update_conv')
  show ?thesis
  proof (cases "map_of kvs ''_meta''")
    case None
    with assms(2) show ?thesis using found [of "[(key, v)]"] by (simp add: inject_meta_def)
  next
    case (Some j)
    with assms(2) obtain meta where "j = JObj meta" by (cases j) (simp_all add: inject_meta_def)
    with Some assms have "map_of meta key = None"
      by (simp add: candidates_in_def metadata_object_def dget_def split: option.splits)
    with Some \<open>j = JObj meta\<close> assms(2) show ?thesis
      using found [of "AList.update key v meta"] by (simp add: inject_meta_def update_conv')
  qed
qed

lemma carried_credential:
  assumes "with_payment_credential cred placement message = Inr message'" "mcp_extract_credential M message = Inr None"
    and "validate_mcp_credential M (JObj (mcp_credential_dict cred)) = Inr cred"
  shows "mcp_extract_credential M message' = Inr (Some cred)"
proof -
  let ?k = credential_meta_key and ?v = "JObj (mcp_credential_dict cred)"
  have none: "candidates_in ''message'' ?k message = Inr []" "nested_candidates ?k ''params'' message = Inr []"
    using extract_None assms(2) unfolding mcp_extract_credential_def by blast+
  show ?thesis
  proof (cases placement)
    case Root
    with assms(1) have i: "inject_meta ?k ?v message = Inr message'" by (simp add: with_payment_credential_def inject_value_def)
    then obtain u where "message' = AList.update ''_meta'' u message"
      by (auto simp: inject_meta_def split: option.splits json.splits if_splits)
    then have "nested_candidates ?k ''params'' message' = Inr []" using none(2)
      by (simp add: nested_candidates_def dget_def update_conv')
    then show ?thesis unfolding mcp_extract_credential_def
      by (rule extract_single [where v = ?v and validate = "validate_mcp_credential M", OF candidates_injected [OF none(1) i] _ _ assms(3)]) simp
  next
    case Nested
    have "\<exists>kvs t. inject_meta ?k ?v kvs = Inr t \<and> message' = AList.update ''params'' (JObj t) message \<and> candidates_in ''params'' ?k kvs = Inr []"
      using assms(1) Nested none(2)
      by (cases "map_of message ''params''")
        (auto simp: with_payment_credential_def inject_value_def bind_res_Inr_iff nested_candidates_def dget_def candidates_in_def metadata_object_def
          split: json.splits)
    then obtain kvs t where t: "inject_meta ?k ?v kvs = Inr t" "message' = AList.update ''params'' (JObj t) message" "candidates_in ''params'' ?k kvs = Inr []"
      by blast
    then have "candidates_in ''message'' ?k message' = Inr []" using none(1)
      by (simp add: candidates_in_def metadata_object_def dget_def update_conv')
    moreover have "nested_candidates ?k ''params'' message' = Inr [?v]"
      using candidates_injected [OF t(3,1)] t(2) by (simp add: nested_candidates_def dget_def update_conv')
    ultimately show ?thesis unfolding mcp_extract_credential_def 
      by (rule extract_single [where v = ?v and validate = "validate_mcp_credential M", OF _ _ _ assms(3)]) simp
  qed
qed

lemma present_texts_append: "present_texts (a @ b) = present_texts a @ present_texts b"
  by (simp add: present_texts_def)

lemma built_challenge_survives:
  assumes "build_bound_challenge M secret realm pmethod intent request operation expires description = Inr c"
  shows "validate_mcp_challenge M (mcp_challenge_dict c) = Inr c"
proof -
  have none: "extra_entries mcp_challenge_fields [(''id'', a1), (''realm'', a2), (''method'', a3), (''intent'', a4), (''request'', a5),
      (''expires'', a6), (''description'', a7)] = []" for a1 a2 a3 a4 a5 a6 a7
    by (simp add: extra_entries_def mcp_challenge_fields_def used_key_def plain_def)
  from assms obtain i where c: "c = \<lparr>mch_id = i, mch_realm = realm, mch_method = pmethod, mch_intent = intent, mch_request = request,
      mch_expires = expires, mch_description = description, mch_extra = []\<rparr>"
    and ok: "mcp_id i" "nonblank realm" "method_text pmethod" "intent_text intent"
      "opt_field (checked ''expires'' (aware_timestamp (mpl_lib M))) (option_json expires) = Inr expires"
    by (auto simp: build_bound_challenge_def validate_mcp_challenge_def required_def used_key_def plain_def dget_def checked_Inr as_dict_def
      bind_res_Inr_iff opt_text_json none dest: opt_checked_json)
  have "validate_mcp_challenge M (mcp_challenge_dict c) = Inr c"
    if "expires = None \<or> (\<exists>x. expires = Some x)" "description = None \<or> (\<exists>x. description = Some x)"
    using that ok
    by (elim disjE exE) (simp_all add: c validate_mcp_challenge_def mcp_challenge_dict_def present_texts_def present_extra_def required_def used_key_def
        plain_def dget_def checked_def as_str_def as_dict_def option_json_def opt_field_def extra_entries_def mcp_challenge_fields_def)
  then show ?thesis by (cases expires; cases description) auto
qed

lemma credential_survives:
  assumes "build_bound_challenge M secret realm pmethod intent request operation expires description = Inr c"
    and "\<forall>s. source = Some s \<longrightarrow> nonblank s"
    and "cred = \<lparr>mcd_challenge = c, mcd_payload = payload, mcd_source = source, mcd_extra = []\<rparr>"
  shows "validate_mcp_credential M (JObj (mcp_credential_dict cred)) = Inr cred"
  using built_challenge_survives [OF assms(1)] assms(2)
  by (cases source) (simp_all add: assms(3) validate_mcp_credential_def mcp_credential_dict_def present_texts_def present_extra_def required_def
      used_key_def plain_def dget_def checked_def as_str_def as_dict_def opt_field_def extra_entries_def mcp_credential_fields_def)

text \<open>
  C36. A paid retry reaches the processor: take a challenge issued for a message that carries no
  credential, answer it with a credential placed in the message's root or in its parameters, and send
  the message again. It is the same operation, the challenge verifies for it under any ring of secrets
  with the issuing one, the credential is read back as it was sent, and the decorated operation hands
  exactly these to the processor.
\<close>

theorem mcp_retry_reaches_processor:
  assumes "build_operation_binding M message = Inr operation" and "''id'' \<in> fst ` set message"
    and "mcp_extract_credential M message = Inr None"
    and "build_bound_challenge M secret realm pmethod intent request operation expires description = Inr c" and "secret \<in> set secrets"
    and "cred = \<lparr>mcd_challenge = c, mcd_payload = payload, mcd_source = source, mcd_extra = []\<rparr>"
    and "\<forall>s. source = Some s \<longrightarrow> nonblank s"
    and "with_payment_credential cred placement message = Inr message'"
    and "expected \<in> {None, Some (pob_method operation)}"
  shows "build_operation_binding M message' = Inr operation \<and> verify_bound_challenge M c operation secrets = Inr True \<and>
     mcp_extract_credential M message' = Inr (Some cred) \<and>
     paid_operation M P expected handler message' w = take_payment P handler (dget message ''id'') operation cred w"
proof -
  have same: "build_operation_binding M message' = Inr operation" using binding_of_carrier [OF assms(8), of M] assms(1) by simp
  have read: "mcp_extract_credential M message' = Inr (Some cred)"
    by (rule carried_credential [OF assms(8,3) credential_survives [OF assms(4,7,6)]])
  note built = built_challenge [OF assms(4)]
  have "any_secret_binds M secrets c operation = Inr True"
    by (rule any_secret_binds_issued [OF _ assms(5)]) (use built in simp)
  moreover have id: "dget message' ''id'' = dget message ''id''" "''id'' \<in> fst ` set message'"
  proof -
    obtain k v where "message' = AList.update k v message" "k \<noteq> ''id''"
      using assms(8) by (auto simp: with_payment_credential_def inject_value_def inject_meta_def bind_res_Inr_iff
          split: option.splits json.splits if_splits metadata_placement.splits)
    then show "dget message' ''id'' = dget message ''id''" "''id'' \<in> fst ` set message'"
      using assms(2) by (simp_all add: dget_def update_conv' keys_AList_update [unfolded set_map])
  qed
  moreover have paid: "extract_paid_operation_credential M message' = Inr (Some cred)"
  proof -
    have "is_supported_paid_operation message' = Inr True"
      using same unfolding build_operation_binding_def bind_res_Inr_iff guard_res_Inr by fastforce
    with read show ?thesis by (simp add: extract_paid_operation_credential_def)
  qed
  moreover have "paid_operation M P expected handler message' w = take_payment P handler (dget message ''id'') operation cred w"
  proof -
    have "should_drop_paid_notification message' = Inr False" using id by (simp add: should_drop_paid_notification_def)
    moreover have "\<not> (expected \<noteq> None \<and> expected \<noteq> Some (pob_method operation))" using assms(9) by auto
    ultimately show ?thesis
      by (simp only: paid_operation_def andthen_eval proc_evals prod.case sum.case if_False Let_def same invalid_params_on_def paid option.case id)
  qed
  ultimately show ?thesis using same read by (simp add: verify_bound_challenge_def)
qed

section \<open>A concrete tool call\<close>

definition demo_call :: "(string \<times> json) list" where
  "demo_call = [(''jsonrpc'', JStr ''2.0''), (''id'', JInt 7), (''method'', JStr ''tools/call''), (''params'', JObj [(''name'', JStr ''t'')])]"

definition demo_operation :: paid_operation_binding where
  "demo_operation = (case build_operation_binding demo_mcp demo_call of Inr b \<Rightarrow> b
     | Inl _ \<Rightarrow> \<lparr>pob_method = [], pob_target = [], pob_params = [], pob_digest = []\<rparr>)"

definition demo_mcp_challenge :: mcp_challenge where
  "demo_mcp_challenge = (case build_bound_challenge demo_mcp ''s'' ''a'' ''xrpl'' ''charge'' [] demo_operation None None of Inr c \<Rightarrow> c
     | Inl _ \<Rightarrow> \<lparr>mch_id = [], mch_realm = [], mch_method = [], mch_intent = [], mch_request = [], mch_expires = None, mch_description = None, mch_extra = []\<rparr>)"

definition demo_mcp_credential :: mcp_credential where
  "demo_mcp_credential = \<lparr>mcd_challenge = demo_mcp_challenge, mcd_payload = [], mcd_source = None, mcd_extra = []\<rparr>"

definition demo_paid_call :: "(string \<times> json) list" where
  "demo_paid_call = (case with_payment_credential demo_mcp_credential Nested demo_call of Inr m \<Rightarrow> m | Inl _ \<Rightarrow> [])"

definition demo_processor :: "unit payment_processor" where
  "demo_processor = \<lparr>pp_create_challenges = (\<lambda>b. ret []), pp_validate_and_consume = (\<lambda>cred b. ret
     \<lparr>mrc_method = mch_method (mcd_challenge cred), mrc_timestamp = ''E'', mrc_challenge_id = mch_id (mcd_challenge cred),
      mrc_reference = None, mrc_extra = []\<rparr>)\<rparr>"

definition demo_handler :: "unit paid_handler" where
  "demo_handler = (\<lambda>c. ret (JObj [(''ok'', JBool True)]))"

definition refusing_processor :: "unit payment_processor" where
  "refusing_processor = demo_processor\<lparr>pp_validate_and_consume := (\<lambda>cred b. fail (McpFailure (CredentialMalformed ''m'')))\<rparr>"

lemma demo_operation_built: "build_operation_binding demo_mcp demo_call = Inr demo_operation"
proof -
  have "is_ok (build_operation_binding demo_mcp demo_call)" by code_simp
  then show ?thesis by (rule is_okE) (simp add: demo_operation_def)
qed

lemma demo_challenge_built:
  "build_bound_challenge demo_mcp ''s'' ''a'' ''xrpl'' ''charge'' [] demo_operation None None = Inr demo_mcp_challenge"
proof -
  have "is_ok (build_bound_challenge demo_mcp ''s'' ''a'' ''xrpl'' ''charge'' [] demo_operation None None)" by code_simp
  then show ?thesis by (rule is_okE) (simp add: demo_mcp_challenge_def)
qed

lemma demo_call_paid: "with_payment_credential demo_mcp_credential Nested demo_call = Inr demo_paid_call"
proof -
  have "is_ok (with_payment_credential demo_mcp_credential Nested demo_call)" by code_simp
  then show ?thesis by (rule is_okE) (simp add: demo_paid_call_def)
qed

lemma mcp_retry_reaches_processor_witness:
  "paid_operation demo_mcp demo_processor None demo_handler demo_paid_call () =
     take_payment demo_processor demo_handler (JInt 7) demo_operation demo_mcp_credential ()"
proof -
  have "mcp_extract_credential demo_mcp demo_call = Inr None" by code_simp
  moreover have "''id'' \<in> fst ` set demo_call" "dget demo_call ''id'' = JInt 7" by (simp_all add: demo_call_def dget_def)
  ultimately show ?thesis
    using mcp_retry_reaches_processor [OF demo_operation_built _ _ demo_challenge_built, of "[''s'']" demo_mcp_credential "[]" None Nested
        demo_paid_call None demo_processor demo_handler "()"] demo_call_paid
    by (simp add: demo_mcp_credential_def)
qed

lemma mcp_result_is_paid_witness:
  "\<exists>answer w1 operation cred receipt. paid_operation demo_mcp demo_processor None demo_handler demo_paid_call () = (Inr (Some answer), w1) \<and>
     pp_validate_and_consume demo_processor cred operation () = (Inr receipt, w1) \<and> mrc_challenge_id receipt = mch_id (mcd_challenge cred)"
proof -
  have "(case fst (paid_operation demo_mcp demo_processor None demo_handler demo_paid_call ()) of
      Inr (Some a) \<Rightarrow> ''result'' \<in> fst ` set a | _ \<Rightarrow> False)" by code_simp
  then obtain answer w' where "paid_operation demo_mcp demo_processor None demo_handler demo_paid_call () = (Inr (Some answer), w')"
    "''result'' \<in> fst ` set answer"
    by (cases "paid_operation demo_mcp demo_processor None demo_handler demo_paid_call ()") (auto split: sum.splits option.splits)
  with mcp_result_is_paid [OF this] show ?thesis by fastforce
qed

lemma mcp_unpaid_never_runs_handler_witness:
  "paid_operation demo_mcp refusing_processor None demo_handler demo_paid_call () =
     paid_operation demo_mcp refusing_processor None (\<lambda>c. fail (ValueError [])) demo_paid_call ()"
  by (rule mcp_unpaid_never_runs_handler) (simp add: refusing_processor_def demo_processor_def)

lemma mcp_challenge_binds_operation_witness:
  "\<exists>cred. validate_mcp_credential demo_mcp (JObj (mcp_credential_dict demo_mcp_credential)) = Inr cred \<and>
     py_eq (JObj (pob_params demo_operation)) (JObj (pob_params demo_operation)) \<and> mch_realm (mcd_challenge cred) = ''a''"
proof -
  have cred: "validate_mcp_credential demo_mcp (JObj (mcp_credential_dict demo_mcp_credential)) = Inr demo_mcp_credential"
    by (rule credential_survives [OF demo_challenge_built _ demo_mcp_credential_def]) simp
  have c: "mcd_challenge demo_mcp_credential = demo_mcp_challenge" by (simp add: demo_mcp_credential_def)
  note built = built_challenge [OF demo_challenge_built]
  have verified: "verify_bound_challenge demo_mcp demo_mcp_challenge demo_operation [''s''] = Inr True"
    unfolding verify_bound_challenge_def by (rule any_secret_binds_issued) (use built in simp_all)
  have params: "exact_json demo_mcp (JObj (pob_params demo_operation))" by code_simp
  show ?thesis
    using mcp_challenge_binds_operation [OF demo_operation_built demo_operation_built demo_challenge_built cred _ _ _ _ _ _ _ params params, of "[''s'']"]
      built verified cred by (simp add: c demo_mcp_def or_empty_def)
qed

end
