(* ===== verification/Spec2Isabelle.thy ===== *)
theory Spec2Isabelle
  imports SettlementProperties StoreProperties ChargeEffort MiddlewareProperties BuyerProperties GatewayProperties McpProperties
begin

text \<open>
  The XRPL MPP stack lets a web resource ask for a payment (HTTP 402), a buyer sign it, and a
  facilitator verify and settle it on the XRP Ledger. Two kinds of payment exist. A \<^emph>\<open>charge\<close> is one
  Payment transaction, submitted by the facilitator (pull, a signed blob) or by the buyer (push, a hash).
  A \<^emph>\<open>session\<close> is a PayChannel: the buyer signs claims over a growing cumulative amount and the
  facilitator redeems the largest one. This development translates the stack's Python code under
  \<open>packages/\<close> and proves what its three parties rely on.

  \<^bold>\<open>How the parts interact.\<close> The middleware of a resource server issues a challenge whose id is an HMAC
  over its fields (\<open>Challenge\<close>, \<open>Middleware\<close>), the buyer's transport selects a challenge, checks
  its own policy and signs (\<open>Policy\<close>, \<open>Signer\<close>, \<open>Transport\<close>), the middleware checks the returned
  credential and sends it to the facilitator (\<open>FacilitatorClient\<close>), whose routes
  (\<open>Gateway\<close>) call the charge service (\<open>Charge\<close>) or the session service (\<open>Service\<close>). These keep
  their state in Redis: replay markers (\<open>ReplayStore\<close>) and channel records (\<open>Store\<close>,
  \<open>RedisStore\<close>). A background worker redeems idle channels (\<open>Worker\<close>). The facilitator's receipt
  travels back through the middleware, which binds it to the credential, to the buyer, who binds it to
  what was signed.

  \<^bold>\<open>The model.\<close> A request handler is a \<open>('w, 'a) proc\<close>, a function from the state of the world to a
  result and the next state; a result is \<open>Inl\<close> an exception of the type \<open>exn\<close> or \<open>Inr\<close> a value, so
  every raise and every \<open>except\<close> clause of the source is a branch (\<open>Prelude\<close>: \<open>andthen\<close>, \<open>except\<close>,
  \<open>fail\<close>, \<open>lift\<close>). Text is the list of its UTF-8 bytes. Dictionaries are association lists where order
  or duplicates matter (JSON, headers) and maps otherwise. Python integers are \<open>int\<close>; where the code
  bounds them to 64 bits the check is part of the model. Time is a count of microseconds.

  \<^bold>\<open>Theories, by package.\<close>
  \<^item> \<open>Prelude\<close>, \<open>PyTime\<close>, \<open>PyNum\<close>, \<open>Wire\<close>, \<open>Http\<close>, \<open>Frame\<close>, \<open>Effort\<close>: Python's
    strings, numbers and datetimes, JSON and the pydantic field rules, header lists, and two generic
    analyses of a \<open>proc\<close>: the part of the state it leaves alone and a bound of its calls.
  \<^item> \<open>Encoding\<close>, \<open>Challenge\<close>, \<open>HeaderSyntax\<close>, \<open>AcceptPayment\<close>, \<open>Receipt\<close>: \<open>helpers.py\<close> and
    \<open>models.py\<close> of \<open>xrpl_mpp_core\<close>. \<open>Xrpl\<close>: its \<open>xrpl.py\<close>, \<open>did.py\<close>, \<open>binding.py\<close>;
    \<open>Assets\<close>: \<open>assets.py\<close>; \<open>Paychannel\<close>: \<open>paychannel.py\<close>.
  \<^item> \<open>Store\<close>, \<open>MemStore\<close>, \<open>Redis\<close>, \<open>RedisStore\<close>: \<open>paychannel_store.py\<close> of the facilitator, over the
    Redis of \<open>tests/fakes.py\<close>. \<open>StoreSpec\<close> is the abstract store, a map from channels to records with
    atomic transitions, and the locale \<open>channel_store\<close>, the contract of an implementation; both
    stores interpret it. \<open>ReplayStore\<close>: \<open>replay_store.py\<close>.
  \<^item> \<open>Service\<close>: \<open>paychannel_service.py\<close>; \<open>ServiceSafety\<close> proves it inside the locale
    \<open>session_service\<close>, over any store that meets the contract. \<open>Worker\<close>: \<open>paychannel_worker.py\<close>, in
    the locale \<open>redemption_worker\<close>. \<open>RedisSession\<close> interprets both on the deployed store.
  \<^item> \<open>Config\<close>, \<open>Ledger\<close>, \<open>Charge\<close>, \<open>ChannelLedger\<close>: \<open>config.py\<close> and \<open>xrpl_service.py\<close>.
    \<open>Gateway\<close>: \<open>gateway_auth.py\<close> and \<open>factory.py\<close>.
  \<^item> \<open>Mcp\<close>: the package \<open>xrpl_mpp_mcp\<close>, the same payments carried in JSON-RPC messages: canonical JSON,
    the binding of a challenge to an operation, the \<open>_meta\<close> entries and the decorator \<open>paid_operation\<close>.
  \<^item> \<open>FacilitatorClient\<close>, \<open>Middleware\<close>: \<open>client.py\<close>, \<open>middleware.py\<close> and \<open>types.py\<close> of the
    middleware. \<open>Policy\<close>, \<open>Signer\<close>, \<open>Transport\<close>: \<open>policy.py\<close>, \<open>signer.py\<close> and \<open>httpx.py\<close> of the
    client.

  \<^bold>\<open>Concurrency.\<close> Several replicas of the facilitator share one Redis. A \<open>redis_client\<close> carries a
  list of rivals, the steps other replicas take, and runs one of them between the reads and the EXEC
  of every attempt of a WATCH transaction (every mutation of a channel record, the claim of a challenge,
  the reservation and release of replay markers); the properties quantify over all rivals. WATCH, MULTI and EXEC are modelled
  with their version check and the retry loop of the source. The operations that do not watch anything
  (lookup, SCAN with MGET, taking and giving back a lease, processed markers and the availability
  check) act in one step; other replicas act before or after it.

  \<^bold>\<open>What the lemmas show.\<close>
  \<^item> \<open>Accounting\<close>, \<open>SessionProperties\<close>: an accepted voucher covers the previous amount plus the price
    and carries a valid signature; along any history the claim the recipient holds grows by at least
    the sum of the prices; records only move forward; a closed channel accepts nothing.
  \<^item> \<open>SettlementProperties\<close>: the checks of the envelope, that an unproved claim spends no challenge, that
    value moves on the ledger only under the redemption lease, and the worker's bookkeeping.
  \<^item> \<open>ReplayProperties\<close>, \<open>ChargeProperties\<close>, \<open>LedgerProperties\<close>, \<open>ChargeEffort\<close>: challenges are claimed
    once, payments reserved by one request; a successful charge was validated for the exact amount and
    left its markers processed; nothing is submitted without a reservation; an unresolved submission
    keeps its markers; a charge asks the node a bounded number of questions.
  \<^item> \<open>StoreProperties\<close>: the Redis store refines the abstract store; the two stores agree on every
    operation, errors, pages and leases included (\<open>in_step\<close> couples them); one lease holder.
  \<^item> \<open>ProtocolProperties\<close>: the id binds every field of the challenge, headers and payloads are read back
    as written (up to empty optional fields, \<open>sent_challenge\<close>), negotiation.
  \<^item> \<open>MiddlewareProperties\<close>: no call of the application is made but one that a receipt of the
    facilitator paid for, whatever becomes of it, and a request without a credential reaches neither of
    the two; the answer carries the receipt, or a failure names the payment; a challenge that a client
    reads in a 402 answer and pays reaches the facilitator; the body loop reads exactly the body, and
    never ends when the client disconnects.
  \<^item> \<open>BuyerProperties\<close>: against any server and any node, what requests and closes sign stays within the
    policy, signed transactions keep the caller's fields and expire with the challenge, credentials stay
    with their resource.
  \<^item> \<open>CanonicalJson\<close>, \<open>McpProperties\<close>: the canonical text of a JSON value determines the value (numbers
    keep their value, the rendering is unambiguous), so a challenge is good for one operation; a paid
    retry reaches the processor, and the handler runs only after it issued a matching receipt.
  \<^item> \<open>GatewayProperties\<close>: without the token no request reaches the services; the middleware's client
    and the facilitator's routes compose: each outcome of a service is recognised as what it is.

  \<^bold>\<open>Bounds and fuel.\<close> The retry loop of a Redis transaction recurses on the rivals that remain, which
  each failed EXEC consumes. The polling loops of a settlement run for the
  number of rounds the source takes from \<open>VALIDATION_TIMEOUT\<close>. Scanners over text recurse on a
  suffix. \<open>read_body\<close> and \<open>run_sweeps\<close> take fuel: \<open>body_read_exactly\<close> shows that one step per received
  message is enough, and that without fuel left there is no result, and the worker's loop is
  infinite by design, so its property holds for any number of sweeps.

  \<^bold>\<open>Parameters.\<close> Code that is not part of the repository is an argument: \<open>json.loads\<close>, \<open>rfc8785\<close>,
  \<open>fromisoformat\<close>, \<open>isoformat\<close>, HMAC and SHA (the record \<open>lib\<close>), the codec and the keys of xrpl-py
  (\<open>xrpl_lib\<close>, \<open>ledger_lib\<close>, the buyer's wallet), \<open>repr\<close> of a float (\<open>mcp_lib\<close>), the RPC node (\<open>node\<close>), the HTTP clients, FastAPI
  and its rate limiter, the MCP payment processor, and the protected application or handler. What a property needs of them is a hypothesis,
  and its witness gives a concrete function; \<open>Demo\<close> and \<open>ChargeDemo\<close> hold the deployments the
  witnesses run.

  \<^bold>\<open>Not modelled.\<close> Logging, connection pools and their shutdown, environment and wallet files,
  the start-up lock of the middleware, the dispatch of blocking calls to threads, task cancellation
  and the sleep between sweeps have no effect on the modelled state. The letters whose case
  Python changes are the ASCII ones. The path finder (\<open>pathfinding.py\<close>) is an RPC conversation whose
  result is a parameter of the signer. The payer's command line and proxy, the
  middleware's discovery, hooks and relay, the developer tools and the examples are plumbing around
  the modelled parts.

  \<^bold>\<open>Simplifications.\<close> The length of a constrained text field (\<open>constrained\<close>) is counted in UTF-8
  bytes, which differs from Python's characters only for currency codes, memos and stored references that
  are not ASCII. The detail of a problem document is not stripped, and for a credential that fails a
  pydantic model it is the default text. The receipt of the charge service (\<open>charge_receipt\<close>) has the
  fields that the service computes; method, timestamp, reference and settlement status are those of
  the response model in \<open>Gateway\<close>. \<open>call_middleware\<close> is for HTTP scopes; the code passes others through.
\<close>

end
